(* ===== verification/Py_Float.thy ===== *)
theory Py_Float
  imports Complex_Main
begin

text \<open>
  Python's numbers. A finite \<^verbatim>\<open>float\<close> is the rational number it denotes, and every float
  operation of the code is the exact operation followed by one rounding \<open>fl\<close> to the nearest
  binary64 value, ties to even (53 bits of precision, subnormals below \<open>2 ^ -1022\<close>). A
  \<^verbatim>\<open>decimal.Decimal\<close> is the rational it denotes, and its arithmetic rounds to the default
  context's 28 digits, ties to even. Overflow to an infinity and NaN are not represented.
  The last section is an interface, the laws of a rounding function, with its consequences
  proved once and interpreted for both roundings.
\<close>

section \<open>Rounding to a base, a precision and a least exponent\<close>

text \<open>Round half to even, Python's \<^verbatim>\<open>round(x)\<close> on an exact value.\<close>

definition rhe :: "rat \<Rightarrow> int" where
  "rhe x = (let f = \<lfloor>x\<rfloor>; d = x - of_int f in
     if d < 1 / 2 then f else if d > 1 / 2 then f + 1
     else if even f then f else f + 1)"

text \<open>The number of base-\<open>b\<close> digits of \<open>n\<close>, and the exponent of the leading digit of \<open>x\<close>.\<close>

function ndig :: "int \<Rightarrow> int \<Rightarrow> int" where
  "ndig b n = (if n \<le> 0 \<or> b \<le> 1 then 0 else 1 + ndig b (n div b))"
  by pat_completeness auto
termination
proof (relation "measure (\<lambda>(b, n). nat n)")
  fix b n :: int assume "\<not> (n \<le> 0 \<or> b \<le> 1)"
  then show "((b, n div b), b, n) \<in> measure (\<lambda>(b, n). nat n)"
    by (auto intro: int_div_less_self)
qed simp

declare ndig.simps [simp del]

definition ilog :: "int \<Rightarrow> rat \<Rightarrow> int" where
  "ilog b x = (if 1 \<le> x then ndig b \<lfloor>x\<rfloor> - 1 else - ndig b (\<lceil>1 / x\<rceil> - 1))"

definition bpow :: "int \<Rightarrow> int \<Rightarrow> rat" where
  "bpow b e = (if 0 \<le> e then of_int b ^ nat e else 1 / of_int b ^ nat (- e))"

definition ulp_exp :: "int \<Rightarrow> int \<Rightarrow> int \<Rightarrow> rat \<Rightarrow> int" where
  "ulp_exp b p emin x = max (ilog b \<bar>x\<bar> - p + 1) emin"

definition rnd :: "int \<Rightarrow> int \<Rightarrow> int \<Rightarrow> rat \<Rightarrow> rat" where
  "rnd b p emin x = (if x = 0 then 0 else
     let u = bpow b (ulp_exp b p emin x) in of_int (rhe (x / u)) * u)"

section \<open>Floats and decimals\<close>

definition fl :: "rat \<Rightarrow> rat" where
  "fl x = rnd 2 53 (-1074) x"

definition dec28 :: "rat \<Rightarrow> rat" where
  "dec28 x = rnd 10 28 (-1000026) x"

definition is_float :: "rat \<Rightarrow> bool" where
  "is_float x \<longleftrightarrow> fl x = x"

definition fadd :: "rat \<Rightarrow> rat \<Rightarrow> rat" where "fadd x y = fl (x + y)"
definition fsub :: "rat \<Rightarrow> rat \<Rightarrow> rat" where "fsub x y = fl (x - y)"
definition fmul :: "rat \<Rightarrow> rat \<Rightarrow> rat" where "fmul x y = fl (x * y)"
definition fdiv :: "rat \<Rightarrow> rat \<Rightarrow> rat" where "fdiv x y = fl (x / y)"

text \<open>\<^verbatim>\<open>round(x, n)\<close>: the exact value is rounded half to even at the n-th decimal, and the
  decimal is converted to the nearest float.\<close>

definition py_round :: "rat \<Rightarrow> nat \<Rightarrow> rat" where
  "py_round x n = fl (of_int (rhe (x * 10 ^ n)) / 10 ^ n)"

text \<open>\<^verbatim>\<open>int(x)\<close> truncates towards zero; \<open>to_integral_value(ROUND_DOWN)\<close> is the same.\<close>

definition trunc :: "rat \<Rightarrow> int" where
  "trunc x = (if 0 \<le> x then \<lfloor>x\<rfloor> else \<lceil>x\<rceil>)"

text \<open>\<^verbatim>\<open>Decimal(str(x))\<close>: the shortest decimal that reads back as the float \<open>x\<close>, the nearest
  one among the shortest.\<close>

definition repr_digits :: "rat \<Rightarrow> int \<Rightarrow> rat option" where
  "repr_digits x n =
     (let u = bpow 10 (ilog 10 \<bar>x\<bar> - n + 1); near = of_int (rhe (x / u)) * u;
          lo = of_int \<lfloor>x / u\<rfloor> * u; hi = of_int \<lceil>x / u\<rceil> * u
      in if fl near = x then Some near else if fl lo = x then Some lo
         else if fl hi = x then Some hi else None)"

fun repr_search :: "rat \<Rightarrow> int list \<Rightarrow> rat" where
  "repr_search x [] = x"
| "repr_search x (n # ns) = (case repr_digits x n of Some d \<Rightarrow> d | None \<Rightarrow> repr_search x ns)"

definition dec_str :: "rat \<Rightarrow> rat" where
  "dec_str x = (if x = 0 then 0 else repr_search x [1..17])"

definition dec_add :: "rat \<Rightarrow> rat \<Rightarrow> rat" where "dec_add x y = dec28 (x + y)"
definition dec_sub :: "rat \<Rightarrow> rat \<Rightarrow> rat" where "dec_sub x y = dec28 (x - y)"
definition dec_mul :: "rat \<Rightarrow> rat \<Rightarrow> rat" where "dec_mul x y = dec28 (x * y)"
definition dec_div :: "rat \<Rightarrow> rat \<Rightarrow> rat" where "dec_div x y = dec28 (x / y)"

text \<open>\<^verbatim>\<open>sum(xs)\<close> on floats, as CPython 3.12 computes it: the running sum is compensated
  (Neumaier) and the compensation is added at the end.\<close>

fun py_sum_loop :: "rat \<Rightarrow> rat \<Rightarrow> rat list \<Rightarrow> rat" where
  "py_sum_loop s c [] = (if c = 0 then s else fadd s c)"
| "py_sum_loop s c (x # xs) =
     (let t = fadd s x;
          d = (if \<bar>x\<bar> \<le> \<bar>s\<bar> then fadd (fsub s t) x else fadd (fsub x t) s)
      in py_sum_loop t (fadd c d) xs)"

fun py_sum :: "rat list \<Rightarrow> rat" where
  "py_sum [] = 0"
| "py_sum (x # xs) = py_sum_loop x 0 xs"

section \<open>Round half to even\<close>

lemma rhe_cases: "rhe x = \<lfloor>x\<rfloor> \<or> rhe x = \<lfloor>x\<rfloor> + 1"
  by (simp add: rhe_def Let_def)

lemma rhe_of_int [simp]: "rhe (of_int k) = k"
  by (simp add: rhe_def Let_def)

lemma rhe_numeral [simp]: "rhe (numeral k) = numeral k" "rhe 1 = 1"
  using rhe_of_int [of "numeral k"] rhe_of_int [of 1] by simp_all

lemma rhe_0 [simp]: "rhe 0 = 0"
  using rhe_of_int [of 0] by simp

lemma rhe_mono: "x \<le> y \<Longrightarrow> rhe x \<le> rhe y"
proof -
  assume xy: "x \<le> y"
  then have fl: "\<lfloor>x\<rfloor> \<le> \<lfloor>y\<rfloor>" by (rule floor_mono)
  show ?thesis
  proof (cases "\<lfloor>x\<rfloor> = \<lfloor>y\<rfloor>")
    case True
    with xy have "x - of_int \<lfloor>x\<rfloor> \<le> y - of_int \<lfloor>y\<rfloor>" by simp
    with True show ?thesis by (auto simp: rhe_def Let_def)
  next
    case False
    with fl have "\<lfloor>x\<rfloor> + 1 \<le> \<lfloor>y\<rfloor>" by simp
    then show ?thesis using rhe_cases [of x] rhe_cases [of y] by linarith
  qed
qed

lemma rhe_le_int: "x \<le> of_int k \<Longrightarrow> rhe x \<le> k"
  using rhe_mono [of x "of_int k"] by simp

lemma rhe_ge_int: "of_int k \<le> x \<Longrightarrow> k \<le> rhe x"
  using rhe_mono [of "of_int k" x] by simp

lemma rhe_error: "\<bar>of_int (rhe x) - x\<bar> \<le> 1 / 2"
proof -
  have "of_int \<lfloor>x\<rfloor> \<le> x" "x < of_int \<lfloor>x\<rfloor> + 1" by linarith+
  then show ?thesis by (auto simp: rhe_def Let_def abs_le_iff)
qed

lemma rhe_uminus: "rhe (- x) = - rhe x"
proof (cases "x = of_int \<lfloor>x\<rfloor>")
  case True
  then have "rhe x = \<lfloor>x\<rfloor>" "- x = of_int (- \<lfloor>x\<rfloor>)" by (metis rhe_of_int, simp)
  then show ?thesis by (metis rhe_of_int)
next
  case False
  have "of_int \<lfloor>x\<rfloor> < x" using False of_int_floor_le [of x] by linarith
  then have f: "\<lfloor>- x\<rfloor> = - \<lfloor>x\<rfloor> - 1"
    by (intro floor_unique) (simp_all, linarith+)
  show ?thesis unfolding rhe_def Let_def f by auto
qed

section \<open>Exponents\<close>

lemma ndig_bounds:
  assumes "2 \<le> b" and "1 \<le> n"
  shows "\<exists>k. ndig b n = int k + 1 \<and> b ^ k \<le> n \<and> n < b ^ Suc k"
  using assms
proof (induction b n rule: ndig.induct)
  case (1 b n)
  show ?case
  proof (cases "n < b")
    case True
    with 1 have "ndig b n = int 0 + 1" by (simp add: ndig.simps [of b n] ndig.simps [of b 0])
    with True 1 show ?thesis by (intro exI [of _ 0]) simp
  next
    case False
    then have "1 \<le> n div b" using zdiv_mono1 [of b n b] 1 by simp
    with 1 obtain k where k: "ndig b (n div b) = int k + 1" "b ^ k \<le> n div b" "n div b < b ^ Suc k"
      by force
    from k(2) have "b ^ k * b \<le> n div b * b" using 1 by (intro mult_right_mono) auto
    also have "\<dots> \<le> n" using 1 pos_mod_sign [of b n] div_mult_mod_eq [of n b] by linarith
    finally have lo: "b ^ Suc k \<le> n" by (simp add: mult.commute)
    from k(3) have "n div b + 1 \<le> b ^ Suc k" by simp
    then have "(n div b + 1) * b \<le> b ^ Suc k * b" using 1 by (intro mult_right_mono) auto
    moreover have "n < (n div b + 1) * b"
      using "1.prems" pos_mod_bound [of b n] div_mult_mod_eq [of n b] by (simp only: distrib_right) linarith
    ultimately have hi: "n < b ^ Suc (Suc k)" by (simp add: mult.commute)
    have "ndig b n = int (Suc k) + 1" using 1 k(1) by (simp add: ndig.simps [of b n])
    with lo hi show ?thesis by blast
  qed
qed

lemma bpow_powi: "bpow b e = of_int b powi e"
  by (simp add: bpow_def power_int_def power_inverse [symmetric] field_simps)

lemma bpow_0 [simp]: "bpow b 0 = 1"
  by (simp add: bpow_def)

lemma bpow_pos [simp]: "0 < b \<Longrightarrow> 0 < bpow b e"
  by (simp add: bpow_def)

lemma bpow_nonneg [simp]: "0 < b \<Longrightarrow> 0 \<le> bpow b e"
  by (simp add: less_imp_le)

lemma bpow_nonzero [simp]: "0 < b \<Longrightarrow> bpow b e \<noteq> 0"
  by (simp add: less_imp_neq [symmetric])

lemma bpow_add: "0 < b \<Longrightarrow> bpow b (d + e) = bpow b d * bpow b e"
  by (simp add: bpow_powi power_int_add)

lemma bpow_of_nat [simp]: "bpow b (int k) = of_int (b ^ k)"
  by (simp add: bpow_def)

lemma bpow_uminus: "bpow b (- int k) = 1 / of_int (b ^ k)"
  by (cases k) (simp_all add: bpow_def nat_add_distrib)

lemma bpow_mono: "1 < b \<Longrightarrow> d \<le> e \<Longrightarrow> bpow b d \<le> bpow b e"
  by (simp add: bpow_powi power_int_increasing)

lemma bpow_integer_multiple:
  assumes "0 < b" and "d \<le> e"
  obtains k where "bpow b e = of_int k * bpow b d" and "k = b ^ nat (e - d)"
proof -
  have "bpow b e = bpow b (int (nat (e - d)) + d)" using assms by simp
  also have "\<dots> = of_int (b ^ nat (e - d)) * bpow b d"
    using assms by (simp only: bpow_add bpow_of_nat)
  finally show ?thesis using that by blast
qed

lemma ilog_bounds:
  assumes "2 \<le> b" and "0 < x"
  shows "bpow b (ilog b x) \<le> x \<and> x < bpow b (ilog b x + 1)"
proof (cases "1 \<le> x")
  case True
  then have "1 \<le> \<lfloor>x\<rfloor>" by simp
  with assms ndig_bounds obtain k where k:
    "ndig b \<lfloor>x\<rfloor> = int k + 1" "b ^ k \<le> \<lfloor>x\<rfloor>" "\<lfloor>x\<rfloor> < b ^ Suc k" by blast
  have "ilog b x = int k" "ilog b x + 1 = int (Suc k)"
    using True k(1) by (simp_all add: ilog_def)
  then have "bpow b (ilog b x) = of_int (b ^ k)" "bpow b (ilog b x + 1) = of_int (b ^ Suc k)"
    by (metis bpow_of_nat)+
  with k(2,3) show ?thesis by (simp only: le_floor_iff floor_less_iff)
next
  case False
  with assms have "1 < 1 / x" by simp
  then have "1 \<le> \<lceil>1 / x\<rceil> - 1" by linarith
  with assms ndig_bounds obtain k where k:
    "ndig b (\<lceil>1 / x\<rceil> - 1) = int k + 1" "b ^ k \<le> \<lceil>1 / x\<rceil> - 1" "\<lceil>1 / x\<rceil> - 1 < b ^ Suc k" by blast
  have "ilog b x = - int (Suc k)" "ilog b x + 1 = - int k"
    using False k(1) by (simp_all add: ilog_def)
  then have i: "bpow b (ilog b x) = 1 / of_int (b ^ Suc k)"
      "bpow b (ilog b x + 1) = 1 / of_int (b ^ k)"
    by (metis bpow_uminus)+
  have p: "0 < rat_of_int (b ^ n)" for n using assms by simp
  have "\<lceil>1 / x\<rceil> \<le> b ^ Suc k" using k(3) by linarith
  then have "1 / x \<le> of_int (b ^ Suc k)" by (simp only: ceiling_le_iff)
  then have lo: "1 / of_int (b ^ Suc k) \<le> x"
    using assms p by (simp add: field_simps)
  have "b ^ k < \<lceil>1 / x\<rceil>" using k(2) by linarith
  then have "of_int (b ^ k) < 1 / x" by (simp only: less_ceiling_iff)
  then have "x < 1 / of_int (b ^ k)"
    using assms p by (simp add: field_simps)
  with lo i show ?thesis by simp
qed

lemma ilog_less:
  assumes "2 \<le> b" and "0 < x" and "x < bpow b e"
  shows "ilog b x < e"
proof (rule ccontr)
  assume "\<not> ilog b x < e"
  then have "bpow b e \<le> bpow b (ilog b x)" using assms by (simp add: bpow_mono)
  with ilog_bounds [OF assms(1,2)] assms(3) show False by linarith
qed

lemma ilog_ge:
  assumes "2 \<le> b" and "0 < x" and "bpow b e \<le> x"
  shows "e \<le> ilog b x"
proof (rule ccontr)
  assume "\<not> e \<le> ilog b x"
  then have "bpow b (ilog b x + 1) \<le> bpow b e" using assms by (simp add: bpow_mono)
  with ilog_bounds [OF assms(1,2)] assms(3) show False by linarith
qed

lemma ilog_mono:
  assumes "2 \<le> b" and "0 < x" and "x \<le> y"
  shows "ilog b x \<le> ilog b y"
  using assms ilog_bounds [of b x] by (intro ilog_ge) auto

section \<open>Monotone rounding\<close>

lemma rnd_0 [simp]: "rnd b p emin 0 = 0"
  by (simp add: rnd_def)

lemma ulp_exp_uminus [simp]: "ulp_exp b p emin (- x) = ulp_exp b p emin x"
  by (simp add: ulp_exp_def)

lemma rnd_uminus: "rnd b p emin (- x) = - rnd b p emin x"
  by (simp add: rnd_def Let_def rhe_uminus)

lemma rnd_pos_unfold:
  "0 < x \<Longrightarrow> rnd b p emin x =
     of_int (rhe (x / bpow b (ulp_exp b p emin x))) * bpow b (ulp_exp b p emin x)"
  by (simp add: rnd_def Let_def)

lemma rnd_nonneg:
  assumes "2 \<le> b" and "0 \<le> x"
  shows "0 \<le> rnd b p emin x"
proof (cases "x = 0")
  case False
  with assms have "0 < x" by simp
  then have "0 \<le> x / bpow b (ulp_exp b p emin x)" using assms by simp
  then have "0 \<le> rhe (x / bpow b (ulp_exp b p emin x))" using rhe_ge_int [of 0] by simp
  then show ?thesis using \<open>0 < x\<close> assms by (simp add: rnd_pos_unfold)
qed simp

lemma rnd_le_multiple:
  assumes "2 \<le> b" and "0 < x" and "x \<le> of_int k * bpow b (ulp_exp b p emin x)"
  shows "rnd b p emin x \<le> of_int k * bpow b (ulp_exp b p emin x)"
proof -
  let ?u = "bpow b (ulp_exp b p emin x)"
  have u: "0 < ?u" using assms by simp
  then have "x / ?u \<le> of_int k" using assms(3) by (simp add: divide_le_eq)
  then have "rhe (x / ?u) \<le> k" by (rule rhe_le_int)
  then show ?thesis using u assms(2) by (simp add: rnd_pos_unfold)
qed

lemma rnd_ge_multiple:
  assumes "2 \<le> b" and "0 < x" and "of_int k * bpow b (ulp_exp b p emin x) \<le> x"
  shows "of_int k * bpow b (ulp_exp b p emin x) \<le> rnd b p emin x"
proof -
  let ?u = "bpow b (ulp_exp b p emin x)"
  have u: "0 < ?u" using assms by simp
  then have "of_int k \<le> x / ?u" using assms(3) by (simp add: le_divide_eq)
  then have "k \<le> rhe (x / ?u)" by (rule rhe_ge_int)
  then show ?thesis using u assms(2) by (simp add: rnd_pos_unfold)
qed

lemma rnd_mono_pos:
  assumes b: "2 \<le> b" and p: "1 \<le> p" and x: "0 < x" and xy: "x \<le> y"
  shows "rnd b p emin x \<le> rnd b p emin y"
proof -
  let ?e = "ulp_exp b p emin"
  have y: "0 < y" using x xy by simp
  have il: "ilog b x \<le> ilog b y" using b x xy by (rule ilog_mono)
  have ee: "?e x \<le> ?e y" using il x y by (simp add: ulp_exp_def)
  show ?thesis
  proof (cases "?e x = ?e y")
    case True
    have "x / bpow b (?e x) \<le> y / bpow b (?e x)" using b xy by (intro divide_right_mono) auto
    then have "rhe (x / bpow b (?e x)) \<le> rhe (y / bpow b (?e x))" by (rule rhe_mono)
    with True x y b show ?thesis by (simp add: rnd_pos_unfold)
  next
    case False
    with ee have ey: "?e y = ilog b y - p + 1" and lt: "ilog b x + 1 \<le> ilog b y"
      using x y by (simp_all add: ulp_exp_def max_def split: if_splits)
    have "?e y \<le> ilog b y" "?e x \<le> ilog b y" using ey p ee by linarith+
    with b obtain k l where k: "bpow b (ilog b y) = of_int k * bpow b (?e y)"
      and l: "bpow b (ilog b y) = of_int l * bpow b (?e x)"
      by (metis bpow_integer_multiple zero_less_numeral less_le_trans)
    have "x \<le> bpow b (ilog b y)"
      using ilog_bounds [OF b x] bpow_mono [of b, OF _ lt] b by linarith
    then have "rnd b p emin x \<le> bpow b (ilog b y)" unfolding l by (rule rnd_le_multiple [OF b x])
    also have "\<dots> \<le> rnd b p emin y"
      using ilog_bounds [OF b y] unfolding k by (intro rnd_ge_multiple [OF b y]) simp
    finally show ?thesis .
  qed
qed

lemma rnd_mono:
  assumes "2 \<le> b" and "1 \<le> p" and "x \<le> y"
  shows "rnd b p emin x \<le> rnd b p emin y"
proof -
  consider "0 < x" | "x \<le> 0" "0 \<le> y" | "y < 0" by linarith
  then show ?thesis
  proof cases
    case 1
    with assms show ?thesis by (intro rnd_mono_pos)
  next
    case 2
    then have "0 \<le> rnd b p emin (- x)" "0 \<le> rnd b p emin y" using assms by (auto intro: rnd_nonneg)
    then show ?thesis by (simp add: rnd_uminus)
  next
    case 3
    then have "rnd b p emin (- y) \<le> rnd b p emin (- x)" using assms by (intro rnd_mono_pos) auto
    then show ?thesis by (simp add: rnd_uminus)
  qed
qed

lemma rnd_exact_pos:
  assumes b: "2 \<le> b" and m: "0 < m" "m < b ^ nat p" and p: "0 \<le> p" and e: "emin \<le> e"
  shows "rnd b p emin (of_int m * bpow b e) = of_int m * bpow b e"
proof -
  let ?x = "rat_of_int m * bpow b e" and ?e = "ulp_exp b p emin"
  have x: "0 < ?x" using b m by simp
  have "?x < of_int (b ^ nat p) * bpow b e" using m b by (intro mult_strict_right_mono) (simp_all only: of_int_less_iff bpow_pos)
  also have "\<dots> = bpow b (p + e)" using b p bpow_add [of b p e] bpow_of_nat [of b "nat p"] by simp
  finally have "ilog b ?x < p + e" by (rule ilog_less [OF b x])
  then have "?e ?x \<le> e" using x e by (simp add: ulp_exp_def)
  then obtain k where "bpow b e = of_int k * bpow b (?e ?x)"
    using b by (metis bpow_integer_multiple zero_less_numeral less_le_trans)
  then have q: "?x = of_int (m * k) * bpow b (?e ?x)" by (simp add: mult.assoc)
  have "?x / bpow b (?e ?x) = of_int (m * k)"
    using b by (subst q) (simp del: of_int_mult)
  then show ?thesis using x q by (simp only: rnd_pos_unfold rhe_of_int)
qed

lemma rnd_exact:
  assumes "2 \<le> b" and "\<bar>m\<bar> < b ^ nat p" and "0 \<le> p" and "emin \<le> e"
  shows "rnd b p emin (of_int m * bpow b e) = of_int m * bpow b e"
proof -
  consider "m = 0" | "0 < m" | "0 < - m" by linarith
  then show ?thesis
  proof cases
    case 2
    then show ?thesis using assms by (intro rnd_exact_pos) auto
  next
    case 3
    then have "rnd b p emin (of_int (- m) * bpow b e) = of_int (- m) * bpow b e"
      using assms by (intro rnd_exact_pos) auto
    then show ?thesis by (simp add: rnd_uminus)
  qed simp
qed

lemma rnd_mantissa:
  assumes b: "2 \<le> b" and p: "0 \<le> p" and x: "0 < x"
  shows "rhe (x / bpow b (ulp_exp b p emin x)) \<le> b ^ nat p"
proof -
  let ?u = "bpow b (ulp_exp b p emin x)"
  have "x < bpow b (ilog b x + 1)" using ilog_bounds [OF b x] by simp
  also have "\<dots> \<le> bpow b (p + ulp_exp b p emin x)"
    using b x by (intro bpow_mono) (auto simp: ulp_exp_def)
  also have "\<dots> = of_int (b ^ nat p) * ?u" using b p bpow_add [of b p] bpow_of_nat [of b "nat p"] by simp
  finally have "x / ?u \<le> of_int (b ^ nat p)" using b by (simp add: divide_le_eq)
  then show ?thesis by (rule rhe_le_int)
qed

lemma rnd_idem_pos:
  assumes b: "2 \<le> b" and p: "1 \<le> p" and x: "0 < x"
  shows "rnd b p emin (rnd b p emin x) = rnd b p emin x"
proof -
  let ?e = "ulp_exp b p emin x"
  let ?k = "rhe (x / bpow b ?e)"
  have k0: "0 \<le> ?k" using b x rhe_ge_int [of 0] by simp
  have e: "emin \<le> ?e" by (simp add: ulp_exp_def)
  have r: "rnd b p emin x = of_int ?k * bpow b ?e" using x by (rule rnd_pos_unfold)
  show ?thesis
  proof (cases "?k < b ^ nat p")
    case True
    then show ?thesis unfolding r using b p k0 e by (intro rnd_exact) auto
  next
    case False
    with rnd_mantissa [OF b _ x, of p emin] p have "?k = b ^ nat p" by simp
    also have "\<dots> = b ^ nat (p - 1) * b" using p by (simp add: nat_diff_distrib' flip: power_Suc2)
    finally have "rnd b p emin x = of_int (b ^ nat (p - 1)) * (of_int b * bpow b ?e)"
      unfolding r by simp
    also have "of_int b * bpow b ?e = bpow b (1 + ?e)"
      using b bpow_of_nat [of b 1] by (simp add: bpow_add)
    finally have r': "rnd b p emin x = of_int (b ^ nat (p - 1)) * bpow b (1 + ?e)" .
    have "b ^ nat (p - 1) < b ^ nat p" using b p by (intro power_strict_increasing) auto
    then show ?thesis unfolding r' using b p e by (intro rnd_exact) auto
  qed
qed

lemma rnd_idem:
  assumes "2 \<le> b" and "1 \<le> p"
  shows "rnd b p emin (rnd b p emin x) = rnd b p emin x"
proof -
  consider "x = 0" | "0 < x" | "0 < - x" by linarith
  then show ?thesis
  proof cases
    case 2
    then show ?thesis using assms by (intro rnd_idem_pos)
  next
    case 3
    then have "rnd b p emin (rnd b p emin (- x)) = rnd b p emin (- x)" using assms by (intro rnd_idem_pos)
    then show ?thesis by (simp add: rnd_uminus)
  qed simp
qed

lemma rnd_error:
  assumes "2 \<le> b"
  shows "\<bar>rnd b p emin x - x\<bar> \<le> bpow b (ulp_exp b p emin x) / 2"
proof (cases "x = 0")
  case False
  let ?u = "bpow b (ulp_exp b p emin x)"
  have u: "0 < ?u" using assms by simp
  have "rnd b p emin x - x = (of_int (rhe (x / ?u)) - x / ?u) * ?u"
    using False u by (simp add: rnd_def Let_def left_diff_distrib)
  then have "\<bar>rnd b p emin x - x\<bar> = \<bar>of_int (rhe (x / ?u)) - x / ?u\<bar> * ?u"
    using u by (simp add: abs_mult)
  also have "\<dots> \<le> 1 / 2 * ?u" using u by (intro mult_right_mono rhe_error) simp
  finally show ?thesis by simp
qed (use assms in simp)

section \<open>The interface of a rounding\<close>

locale rounding =
  fixes rd :: "rat \<Rightarrow> rat"
  assumes mono: "x \<le> y \<Longrightarrow> rd x \<le> rd y"
    and odd_rd: "rd (- x) = - rd x"
    and idem: "rd (rd x) = rd x"
begin

lemma zero [simp]: "rd 0 = 0"
  using odd_rd [of 0] by simp

lemma nonneg: "0 \<le> x \<Longrightarrow> 0 \<le> rd x"
  using mono [of 0 x] by simp

lemma nonpos: "x \<le> 0 \<Longrightarrow> rd x \<le> 0"
  using mono [of x 0] by simp

lemma pos_arg: "0 < rd x \<Longrightarrow> 0 < x"
  using nonpos [of x] by (simp add: not_le [symmetric]) blast

lemma neg_arg: "rd x < 0 \<Longrightarrow> x < 0"
  using nonneg [of x] by (simp add: not_le [symmetric]) blast

lemma le_repr: "rd c = c \<Longrightarrow> x \<le> c \<Longrightarrow> rd x \<le> c"
  using mono [of x c] by simp

lemma ge_repr: "rd c = c \<Longrightarrow> c \<le> x \<Longrightarrow> c \<le> rd x"
  using mono [of c x] by simp

lemma less_reprD: "rd c = c \<Longrightarrow> rd x < c \<Longrightarrow> x < c"
  using ge_repr [of c x] by (simp add: not_le [symmetric]) blast

lemma greater_reprD: "rd c = c \<Longrightarrow> c < rd x \<Longrightarrow> c < x"
  using le_repr [of c x] by (simp add: not_le [symmetric]) blast

lemma abs_rd: "rd \<bar>x\<bar> = \<bar>rd x\<bar>"
proof (cases "0 \<le> x")
  case True
  then show ?thesis using nonneg [of x] by simp
next
  case False
  then show ?thesis using nonpos [of x] by (simp add: odd_rd)
qed

end

interpretation fl: rounding fl
  by unfold_locales (simp_all add: fl_def rnd_mono rnd_uminus rnd_idem)

interpretation dec28: rounding dec28
  by unfold_locales (simp_all add: dec28_def rnd_mono rnd_uminus rnd_idem)

declare fl.zero [simp] dec28.zero [simp] fl.idem [simp] dec28.idem [simp]

section \<open>Facts about floats\<close>

lemma fl_dyadic:
  assumes "\<bar>m\<bar> < 2 ^ 53" and "- 1074 \<le> e"
  shows "fl (of_int m * bpow 2 e) = of_int m * bpow 2 e"
  unfolding fl_def using assms by (intro rnd_exact) auto

lemma fl_of_int: "\<bar>m\<bar> < 2 ^ 53 \<Longrightarrow> fl (of_int m) = of_int m"
  using fl_dyadic [of m 0] by simp

lemma fl_numeral [simp]: "(numeral k :: int) < 2 ^ 53 \<Longrightarrow> fl (numeral k) = numeral k"
  using fl_of_int [of "numeral k"] by simp

lemma fl_neg_numeral [simp]: "(numeral k :: int) < 2 ^ 53 \<Longrightarrow> fl (- numeral k) = - numeral k"
  by (simp add: fl.odd_rd)

lemma fl_1 [simp]: "fl 1 = 1"
  using fl_of_int [of 1] by simp

lemma fl_half [simp]: "fl (1 / 2) = 1 / 2"
  using fl_dyadic [of 1 "- 1"] by (simp add: bpow_def)

lemma is_float_fl [simp]: "is_float (fl x)"
  by (simp add: is_float_def)

lemma is_float_arith [simp]:
  "is_float (fadd x y)" "is_float (fsub x y)" "is_float (fmul x y)" "is_float (fdiv x y)"
  "is_float (py_round x n)"
  by (simp_all add: fadd_def fsub_def fmul_def fdiv_def py_round_def)

lemma is_float_uminus: "is_float (- x) = is_float x"
  by (simp add: is_float_def fl.odd_rd)

lemma fl_error: "\<bar>fl x - x\<bar> \<le> \<bar>x\<bar> / 2 ^ 53 + bpow 2 (- 1075)"
proof (cases "x = 0")
  case False
  have "\<bar>fl x - x\<bar> \<le> bpow 2 (ulp_exp 2 53 (- 1074) x) / 2"
    unfolding fl_def by (rule rnd_error) simp
  also have "\<dots> \<le> \<bar>x\<bar> / 2 ^ 53 + bpow 2 (- 1075)"
  proof (cases "ilog 2 \<bar>x\<bar> - 53 + 1 \<le> - 1074")
    case True
    then have "bpow 2 (ulp_exp 2 53 (- 1074) x) / 2 = bpow 2 (- 1075)"
      using bpow_add [of 2 "- 1075" 1] by (simp add: ulp_exp_def bpow_def [of 2 1])
    then show ?thesis by simp
  next
    case False
    then have "bpow 2 (ulp_exp 2 53 (- 1074) x) = bpow 2 (ilog 2 \<bar>x\<bar>) * bpow 2 (- 52)"
      using bpow_add [of 2 "ilog 2 \<bar>x\<bar>" "- 52"] by (simp add: ulp_exp_def)
    also have "\<dots> \<le> \<bar>x\<bar> * bpow 2 (- 52)"
      using ilog_bounds [of 2 "\<bar>x\<bar>"] \<open>x \<noteq> 0\<close> by (intro mult_right_mono) auto
    finally have "bpow 2 (ulp_exp 2 53 (- 1074) x) / 2 \<le> \<bar>x\<bar> / 2 ^ 53" by (simp add: bpow_def)
    then show ?thesis using bpow_nonneg [of 2 "- 1075"] by linarith
  qed
  finally show ?thesis .
qed simp

lemma fadd_mono: "a \<le> c \<Longrightarrow> b \<le> d \<Longrightarrow> fadd a b \<le> fadd c d"
  by (simp add: fadd_def fl.mono)

lemma fsub_mono: "a \<le> c \<Longrightarrow> d \<le> b \<Longrightarrow> fsub a b \<le> fsub c d"
  by (simp add: fsub_def fl.mono)

lemma fmul_mono: "0 \<le> c \<Longrightarrow> a \<le> b \<Longrightarrow> fmul a c \<le> fmul b c"
  by (simp add: fmul_def fl.mono mult_right_mono)

lemma fmul_nonneg: "0 \<le> a \<Longrightarrow> 0 \<le> b \<Longrightarrow> 0 \<le> fmul a b"
  by (simp add: fmul_def fl.nonneg)

lemma fdiv_nonneg: "0 \<le> a \<Longrightarrow> 0 \<le> b \<Longrightarrow> 0 \<le> fdiv a b"
  by (simp add: fdiv_def fl.nonneg)

lemma fadd_0 [simp]: "fadd x 0 = fl x" "fadd 0 x = fl x"
  by (simp_all add: fadd_def)

lemma fsub_self [simp]: "fsub x x = 0"
  by (simp add: fsub_def)

text \<open>Subtraction decides order: the rounded difference has the sign of the exact one.\<close>

lemma fsub_ge_0: "y \<le> x \<Longrightarrow> 0 \<le> fsub x y"
  by (simp add: fsub_def fl.nonneg)

lemma py_round_mono: "x \<le> y \<Longrightarrow> py_round x n \<le> py_round y n"
  unfolding py_round_def by (intro fl.mono divide_right_mono) (auto intro!: rhe_mono mult_right_mono)

lemma py_round_0 [simp]: "py_round 0 n = 0"
  by (simp add: py_round_def)

lemma py_round_nonneg: "0 \<le> x \<Longrightarrow> 0 \<le> py_round x n"
  using py_round_mono [of 0 x n] by simp

lemma trunc_nonneg: "0 \<le> x \<Longrightarrow> 0 \<le> trunc x"
  by (simp add: trunc_def)

lemma trunc_le: "0 \<le> x \<Longrightarrow> of_int (trunc x) \<le> x"
  by (simp add: trunc_def)

section \<open>The shortest decimal of a float reads back as that float\<close>

lemma fl_repr_digits: "repr_digits x n = Some d \<Longrightarrow> fl d = x"
  by (auto simp: repr_digits_def Let_def split: if_splits)

lemma fl_repr_search: "fl x = x \<Longrightarrow> fl (repr_search x ns) = x"
  by (induction ns) (auto simp: fl_repr_digits split: option.splits)

lemma fl_dec_str [simp]: "is_float x \<Longrightarrow> fl (dec_str x) = x"
  by (simp add: dec_str_def is_float_def fl_repr_search)

lemma dec_str_0 [simp]: "dec_str 0 = 0"
  by (simp add: dec_str_def)

lemma dec_str_pos: "is_float x \<Longrightarrow> 0 < x \<Longrightarrow> 0 < dec_str x"
  using fl.pos_arg [of "dec_str x"] by simp

lemma dec_str_nonneg: "is_float x \<Longrightarrow> 0 \<le> x \<Longrightarrow> 0 \<le> dec_str x"
  using dec_str_pos [of x] by (cases "x = 0") auto

end
