(* ===== verification/Py_Prelude.thy ===== *)
theory Py_Prelude
  imports Py_Float
begin

text \<open>
  The shared layer of the development: Python exceptions as values, a computation that
  updates a state and may raise, the rules that carry invariants through such computations,
  and the facts on lists and options the components share. The collection \<open>py_simps\<close>
  unfolds a computation; \<open>keeps_intros\<close> decomposes a preservation goal along it.
\<close>

named_theorems py_simps \<open>equations that run a computation\<close>
named_theorems keeps_intros \<open>rules that carry an invariant through a computation\<close>

section \<open>Exceptions\<close>

text \<open>The exception classes the code raises. The string is the reason code, or the fixed part
  of the message; interpolated values are dropped.\<close>

datatype pyexc =
    ValueError string
  | TypeError string
  | KeyError string
  | RuntimeError string
  | ZeroDivisionError
  | StopIteration
  | IndexError
  | OSError
  | IntegrityError string
  | GeometryRejected string
  | LiveExecutionForbidden
  | DemoExecutionNotEnabled
  | DuplicateSubmissionError
  | GroupStateError string
  | ExecutionIntentMismatch string
  | AttributeError
  | BrokerUnavailable string
  | AccountModeUnknown
  | ExecutionForbidden string
  | DemoAccountRequired

type_synonym 'a result = "pyexc + 'a"

fun is_ok :: "'e + 'a \<Rightarrow> bool" where
  "is_ok (Inl _) = False"
| "is_ok (Inr _) = True"

definition rbind :: "'e + 'a \<Rightarrow> ('a \<Rightarrow> 'e + 'b) \<Rightarrow> 'e + 'b" where
  "rbind r f = (case r of Inl e \<Rightarrow> Inl e | Inr x \<Rightarrow> f x)"

definition rguard :: "bool \<Rightarrow> 'e \<Rightarrow> 'e + unit" where
  "rguard c e = (if c then Inr () else Inl e)"

lemma rbind_simps [simp, py_simps]: "rbind (Inl e) f = Inl e" "rbind (Inr x) f = f x"
  by (simp_all add: rbind_def)

lemma rguard_simps [simp, py_simps]: "rguard True e = Inr ()" "rguard False e = Inl e"
  by (simp_all add: rguard_def)

lemma rguard_Inr [simp]: "rguard c e = Inr u \<longleftrightarrow> c"
  by (simp add: rguard_def)

lemma rbind_Inr: "rbind r f = Inr y \<longleftrightarrow> (\<exists>x. r = Inr x \<and> f x = Inr y)"
  by (cases r) auto

lemma rbind_rguard: "rbind (rguard c e) f = (if c then f () else Inl e)"
  by (simp add: rguard_def)

lemma is_ok_iff: "is_ok r \<longleftrightarrow> (\<exists>x. r = Inr x)"
  by (cases r) auto

section \<open>Computations with a state and exceptions\<close>

text \<open>A method of the code that updates an object or a database and may raise: what it changed
  before the exception stays changed.\<close>

type_synonym ('s, 'a) comp = "'s \<Rightarrow> 'a result \<times> 's"

definition ret :: "'a \<Rightarrow> ('s, 'a) comp" where
  "ret x s = (Inr x, s)"

definition throw :: "pyexc \<Rightarrow> ('s, 'a) comp" where
  "throw e s = (Inl e, s)"

definition bnd :: "('s, 'a) comp \<Rightarrow> ('a \<Rightarrow> ('s, 'b) comp) \<Rightarrow> ('s, 'b) comp" where
  "bnd m f s = (case m s of (Inl e, s') \<Rightarrow> (Inl e, s') | (Inr x, s') \<Rightarrow> f x s')"

definition seq :: "('s, 'a) comp \<Rightarrow> ('s, 'b) comp \<Rightarrow> ('s, 'b) comp" where
  "seq m n = bnd m (\<lambda>_. n)"

definition gets :: "('s \<Rightarrow> 'a) \<Rightarrow> ('s, 'a) comp" where
  "gets f s = (Inr (f s), s)"

definition modify :: "('s \<Rightarrow> 's) \<Rightarrow> ('s, unit) comp" where
  "modify f s = (Inr (), f s)"

definition lift_result :: "'a result \<Rightarrow> ('s, 'a) comp" where
  "lift_result r s = (r, s)"

definition require :: "bool \<Rightarrow> pyexc \<Rightarrow> ('s, unit) comp" where
  "require c e s = (if c then Inr () else Inl e, s)"

lemma run_simps [py_simps]:
  "ret x s = (Inr x, s)" "throw e s = (Inl e, s)" "gets f s = (Inr (f s), s)"
  "modify g s = (Inr (), g s)" "lift_result r s = (r, s)"
  "require c e s = (if c then Inr () else Inl e, s)"
  by (simp_all add: ret_def throw_def gets_def modify_def lift_result_def require_def)

lemma bnd_run [py_simps]:
  "bnd m f s = (case fst (m s) of Inl e \<Rightarrow> (Inl e, snd (m s)) | Inr x \<Rightarrow> f x (snd (m s)))"
  by (simp add: bnd_def split: prod.split sum.split)

lemma seq_run [py_simps]:
  "seq m n s = (case fst (m s) of Inl e \<Rightarrow> (Inl e, snd (m s)) | Inr _ \<Rightarrow> n (snd (m s)))"
  by (simp add: seq_def bnd_run)

text \<open>\<open>keeps P m\<close>: the computation keeps \<open>P\<close>, also when it raises.\<close>

definition keeps :: "('s \<Rightarrow> bool) \<Rightarrow> ('s, 'a) comp \<Rightarrow> bool" where
  "keeps P m \<longleftrightarrow> (\<forall>s. P s \<longrightarrow> P (snd (m s)))"

lemma keepsI: "(\<And>s. P s \<Longrightarrow> P (snd (m s))) \<Longrightarrow> keeps P m"
  by (simp add: keeps_def)

lemma keepsD: "keeps P m \<Longrightarrow> P s \<Longrightarrow> P (snd (m s))"
  by (simp add: keeps_def)

lemma keeps_pure [keeps_intros]:
  "keeps P (ret x)" "keeps P (throw e)" "keeps P (gets f)" "keeps P (lift_result r)"
  "keeps P (require c e)"
  by (simp_all add: keeps_def py_simps)

lemma keeps_modify: "(\<And>s. P s \<Longrightarrow> P (f s)) \<Longrightarrow> keeps P (modify f)"
  by (simp add: keeps_def py_simps)

lemma keeps_bnd [keeps_intros]:
  assumes "keeps P m" and "\<And>x. keeps P (f x)"
  shows "keeps P (bnd m f)"
proof (rule keepsI)
  fix s assume "P s"
  then have "P (snd (m s))" using assms(1) by (rule keepsD [rotated])
  then show "P (snd (bnd m f s))"
    using keepsD [OF assms(2)] by (simp add: bnd_run split: sum.split)
qed

lemma keeps_seq [keeps_intros]: "keeps P m \<Longrightarrow> keeps P n \<Longrightarrow> keeps P (seq m n)"
  by (simp add: seq_def keeps_bnd)

lemma keeps_if [keeps_intros]: "keeps P m \<Longrightarrow> keeps P n \<Longrightarrow> keeps P (if c then m else n)"
  by simp

lemma keeps_option [keeps_intros]:
  "keeps P m \<Longrightarrow> (\<And>x. keeps P (f x)) \<Longrightarrow> keeps P (case o' of None \<Rightarrow> m | Some x \<Rightarrow> f x)"
  by (cases o') simp_all

text \<open>The weakest precondition of a computation: \<open>Q\<close> after a normal return, \<open>E\<close> after an
  exception. Its equations turn a property of a method into a property of its writes.\<close>

definition wp :: "('s, 'a) comp \<Rightarrow> ('a \<Rightarrow> 's \<Rightarrow> bool) \<Rightarrow> ('s \<Rightarrow> bool) \<Rightarrow> 's \<Rightarrow> bool" where
  "wp m Q E s = (case m s of (Inl e, s') \<Rightarrow> E s' | (Inr x, s') \<Rightarrow> Q x s')"

named_theorems wp_simps \<open>weakest preconditions of the combinators\<close>

lemma wp_basic [wp_simps]:
  "wp (ret x) Q E s = Q x s" "wp (throw e) Q1 E s = E s" "wp (gets f) Q2 E s = Q2 (f s) s"
  "wp (modify g) Q3 E s = Q3 () (g s)"
  "wp (lift_result r) Q4 E s = (case r of Inl e \<Rightarrow> E s | Inr x \<Rightarrow> Q4 x s)"
  "wp (require c e) Q3 E s = (if c then Q3 () s else E s)"
  by (simp_all add: wp_def py_simps split: sum.split)

lemma wp_case_prod [wp_simps]:
  "wp (case x of (a, b) \<Rightarrow> f a b) Q E s = (case x of (a, b) \<Rightarrow> wp (f a b) Q E s)"
  by (cases x) simp

lemma wp_bnd [wp_simps]: "wp (bnd m f) Q E s = wp m (\<lambda>x. wp (f x) Q E) E s"
  by (simp add: wp_def bnd_def split: prod.split sum.split)

lemma wp_seq [wp_simps]: "wp (seq m n) Q E s = wp m (\<lambda>_. wp n Q E) E s"
  by (simp add: seq_def wp_bnd)

lemma wp_if [wp_simps]: "wp (if c then m else n) Q E s = (if c then wp m Q E s else wp n Q E s)"
  by simp

lemma wp_option [wp_simps]:
  "wp (case o' of None \<Rightarrow> m | Some x \<Rightarrow> f x) Q E s = (case o' of None \<Rightarrow> wp m Q E s | Some x \<Rightarrow> wp (f x) Q E s)"
  by (cases o') simp_all

lemma wp_mono: "wp m Q E s \<Longrightarrow> (\<And>x s'. Q x s' \<Longrightarrow> Q' x s') \<Longrightarrow> (\<And>s'. E s' \<Longrightarrow> E' s') \<Longrightarrow> wp m Q' E' s"
  by (auto simp: wp_def split: prod.splits sum.splits)

lemma wpD: "wp m Q E s \<Longrightarrow> m s = (Inr x, s') \<Longrightarrow> Q x s'"
  by (simp add: wp_def)

lemma wp_snd: "wp m (\<lambda>_. P) P s \<longleftrightarrow> P (snd (m s))"
  by (simp add: wp_def case_prod_beta split: sum.split)

lemma keeps_wp: "(\<And>s. P s \<Longrightarrow> wp m (\<lambda>_. P) P s) \<Longrightarrow> keeps P m"
  by (simp add: keeps_def wp_snd)

lemma wp_keeps: "keeps P m \<Longrightarrow> P s \<Longrightarrow> wp m (\<lambda>_. P) P s"
  by (simp add: keeps_def wp_snd)

text \<open>\<^verbatim>\<open>try: m except ...: h\<close>; the handler is defined on the exceptions it names.\<close>

definition catch :: "('s, 'a) comp \<Rightarrow> (pyexc \<Rightarrow> ('s, 'a) comp option) \<Rightarrow> ('s, 'a) comp" where
  "catch m h s =
     (case m s of (Inr x, s') \<Rightarrow> (Inr x, s')
      | (Inl e, s') \<Rightarrow> (case h e of None \<Rightarrow> (Inl e, s') | Some k \<Rightarrow> k s'))"

lemma catch_run [py_simps]:
  "catch m h s = (case fst (m s) of Inr x \<Rightarrow> m s
     | Inl e \<Rightarrow> (case h e of None \<Rightarrow> m s | Some k \<Rightarrow> k (snd (m s))))"
  by (simp add: catch_def split: prod.split sum.split option.split)

lemma keeps_catch:
  assumes "keeps P m" and "\<And>e k. h e = Some k \<Longrightarrow> keeps P k"
  shows "keeps P (catch m h)"
proof (rule keepsI)
  fix s assume "P s"
  then have "P (snd (m s))" using assms(1) by (rule keepsD [rotated])
  then show "P (snd (catch m h s))"
    using keepsD [OF assms(2)] by (simp add: catch_run split: sum.split option.split)
qed

lemma wp_catch:
  assumes "wp m Q (\<lambda>s'. E s' \<and> (\<forall>e k. h e = Some k \<longrightarrow> wp k Q E s')) s"
  shows "wp (catch m h) Q E s"
proof (cases "m s")
  case (Pair r s')
  then show ?thesis using assms by (cases r) (simp_all add: wp_def catch_def split: option.split)
qed

text \<open>A loop over a list, \<^verbatim>\<open>for x in xs: body\<close>, left by the first exception.\<close>

fun for_each :: "'b list \<Rightarrow> ('b \<Rightarrow> ('s, unit) comp) \<Rightarrow> ('s, unit) comp" where
  "for_each [] body = ret ()"
| "for_each (x # xs) body = seq (body x) (for_each xs body)"

lemma keeps_for_each [keeps_intros]: "(\<And>x. keeps P (body x)) \<Longrightarrow> keeps P (for_each xs body)"
  by (induction xs) (auto intro: keeps_intros)

section \<open>Options and maps\<close>

text \<open>\<^verbatim>\<open>d.get(k, default)\<close>.\<close>

definition get_or :: "'a \<Rightarrow> 'a option \<Rightarrow> 'a" where
  "get_or d o' = (case o' of None \<Rightarrow> d | Some x \<Rightarrow> x)"

lemma get_or_simps [simp]: "get_or d None = d" "get_or d (Some x) = x"
  by (simp_all add: get_or_def)

text \<open>\<^verbatim>\<open>d.get(k) or default\<close> on strings: an empty string is falsy.\<close>

definition or_str :: "string option \<Rightarrow> string \<Rightarrow> string" where
  "or_str o' d = (case o' of None \<Rightarrow> d | Some x \<Rightarrow> if x = [] then d else x)"

text \<open>\<^verbatim>\<open>d[k] = v\<close> on an insertion-ordered dict.\<close>

fun dict_put :: "'k \<Rightarrow> 'v \<Rightarrow> ('k \<times> 'v) list \<Rightarrow> ('k \<times> 'v) list" where
  "dict_put k v [] = [(k, v)]"
| "dict_put k v ((k', v') # d) = (if k' = k then (k, v) # d else (k', v') # dict_put k v d)"

lemma map_of_dict_put [simp]: "map_of (dict_put k v d) k' = (if k' = k then Some v else map_of d k')"
  by (induction k v d rule: dict_put.induct) auto

text \<open>Python's whitespace, for \<^verbatim>\<open>str.strip()\<close> (the one-byte code points).\<close>

definition is_space :: "char \<Rightarrow> bool" where
  "is_space c \<longleftrightarrow> (of_char c :: nat) \<in> {9, 10, 11, 12, 13, 28, 29, 30, 31, 32, 133, 160}"

definition strip :: "string \<Rightarrow> string" where
  "strip s = rev (dropWhile is_space (rev (dropWhile is_space s)))"

lemma strip_no_space: "list_all (\<lambda>c. \<not> is_space c) s \<Longrightarrow> strip s = s"
proof -
  have "dropWhile is_space t = t" if "list_all (\<lambda>c. \<not> is_space c) t" for t
    using that by (cases t) simp_all
  moreover assume "list_all (\<lambda>c. \<not> is_space c) s"
  ultimately show ?thesis by (simp add: strip_def list_all_rev)
qed

section \<open>JSON values and printed integers\<close>

text \<open>The values \<^verbatim>\<open>json.dumps(..., sort_keys=True)\<close> prints: an object lists its members in
  the order of their keys, so the printed text is a function of the value.\<close>

datatype json =
    JNull | JBool bool | JInt int | JFloat rat | JStr string
  | JList "json list" | JObj "(string \<times> json) list"

definition jopt :: "('a \<Rightarrow> json) \<Rightarrow> 'a option \<Rightarrow> json" where
  "jopt f o' = (case o' of None \<Rightarrow> JNull | Some x \<Rightarrow> f x)"

lemma jopt_simps [simp]: "jopt f None = JNull" "jopt f (Some x) = f x"
  by (simp_all add: jopt_def)

lemma jopt_eq_iff:
  assumes "inj f" and "\<And>x. f x \<noteq> JNull"
  shows "jopt f a = jopt f b \<longleftrightarrow> a = b"
proof (cases a; cases b)
  fix x assume "a = None" "b = Some x"
  then show ?thesis using assms(2) [of x] by (simp add: eq_commute [of JNull])
qed (use assms in \<open>auto simp: inj_eq\<close>)

lemma jopt_str_eq [simp]: "jopt JStr a = jopt JStr b \<longleftrightarrow> a = b"
  by (rule jopt_eq_iff) (auto intro: injI)

lemma jopt_int_eq [simp]: "jopt JInt a = jopt JInt b \<longleftrightarrow> a = b"
  by (rule jopt_eq_iff) (auto intro: injI)

definition digit_char :: "int \<Rightarrow> char" where
  "digit_char d = (if d = 0 then CHR ''0'' else if d = 1 then CHR ''1'' else if d = 2 then CHR ''2''
     else if d = 3 then CHR ''3'' else if d = 4 then CHR ''4'' else if d = 5 then CHR ''5''
     else if d = 6 then CHR ''6'' else if d = 7 then CHR ''7'' else if d = 8 then CHR ''8''
     else CHR ''9'')"

function show_pos :: "int \<Rightarrow> string" where
  "show_pos n = (if n < 10 then [digit_char n] else show_pos (n div 10) @ [digit_char (n mod 10)])"
  by pat_completeness auto
termination by (relation "measure nat") auto

declare show_pos.simps [simp del]

definition show_int :: "int \<Rightarrow> string" where
  "show_int n = (if n < 0 then ''-'' @ show_pos (- n) else show_pos n)"

section \<open>Sequences of steps\<close>

text \<open>Running a list of operations on a state; each operation is a function that returns the
  next state.\<close>

fun run_steps :: "('op \<Rightarrow> 's \<Rightarrow> 's) \<Rightarrow> 'op list \<Rightarrow> 's \<Rightarrow> 's" where
  "run_steps step [] s = s"
| "run_steps step (x # xs) s = run_steps step xs (step x s)"

text \<open>The interface of a transition system in which every admitted operation keeps an invariant, and
  of one in which every operation does.\<close>

locale guarded_invariant =
  fixes step :: "'op \<Rightarrow> 's \<Rightarrow> 's" and ok :: "'op \<Rightarrow> bool" and inv :: "'s \<Rightarrow> bool"
  assumes guarded_inv: "ok x \<Longrightarrow> inv s \<Longrightarrow> inv (step x s)"
begin

lemma guarded_run: "list_all ok xs \<Longrightarrow> inv s \<Longrightarrow> inv (run_steps step xs s)"
  by (induction xs arbitrary: s) (auto intro: guarded_inv)

end

locale step_invariant =
  fixes step :: "'op \<Rightarrow> 's \<Rightarrow> 's" and inv :: "'s \<Rightarrow> bool"
  assumes step_inv: "inv s \<Longrightarrow> inv (step x s)"

sublocale step_invariant \<subseteq> guarded_invariant step "\<lambda>_. True" inv
  by unfold_locales (rule step_inv)

context step_invariant
begin

lemma run_inv: "inv s \<Longrightarrow> inv (run_steps step xs s)"
  by (rule guarded_run) (simp add: list_all_iff)

end

text \<open>A measure that no operation moves down is monotone along every run.\<close>

locale step_monotone =
  fixes step :: "'op \<Rightarrow> 's \<Rightarrow> 's" and level :: "'s \<Rightarrow> 'l :: preorder"
  assumes step_up: "level s \<le> level (step x s)"
begin

lemma run_up: "level s \<le> level (run_steps step xs s)"
proof (induction xs arbitrary: s)
  case (Cons x xs)
  have "level s \<le> level (step x s)" by (rule step_up)
  also have "\<dots> \<le> level (run_steps step xs (step x s))" by (rule Cons.IH)
  finally show ?case by simp
qed simp

end

end
