(* ===== verification/Trade_Group.thy ===== *)
theory Trade_Group
  imports Py_Prelude "HOL-Library.Sublist"
begin

text \<open>
  The trade-group contract, \<^verbatim>\<open>execution/trade_group.py\<close>: the lifecycle states and their
  transition table, the frozen value objects with their validators, the group specification,
  its hashes, the attachment of the actual fill, the volume allocator and the group risk
  check. The hash function is a parameter: \<open>sha\<close> maps a canonical JSON value to its digest.
\<close>

section \<open>Lifecycle states\<close>

datatype group_state =
    DRAFT | VALIDATED | SUBMITTED | OPENED | TP1_FILLED | BE_REQUESTED | BE_RETRY
  | BE_CONFIRMED | TP2_FILLED | TP3_FILLED | RECONCILED | STOPPED | REJECTED | EXPIRED
  | CANCELLED | FAILED | PARTIAL_SUBMISSION | COMPENSATION_REQUESTED
  | COMPENSATION_CONFIRMED | FAILED_WITH_OPEN_RISK

definition TERMINAL_STATES :: "group_state list" where
  "TERMINAL_STATES = [RECONCILED, STOPPED, REJECTED, EXPIRED, CANCELLED, FAILED]"

text \<open>A state without an entry in the table has no successor.\<close>

fun GROUP_TRANSITIONS :: "group_state \<Rightarrow> group_state list" where
  "GROUP_TRANSITIONS DRAFT = [VALIDATED, REJECTED, CANCELLED]"
| "GROUP_TRANSITIONS VALIDATED = [SUBMITTED, REJECTED, EXPIRED, CANCELLED]"
| "GROUP_TRANSITIONS SUBMITTED =
     [OPENED, REJECTED, FAILED, EXPIRED, STOPPED, PARTIAL_SUBMISSION]"
| "GROUP_TRANSITIONS PARTIAL_SUBMISSION =
     [COMPENSATION_REQUESTED, FAILED_WITH_OPEN_RISK, REJECTED]"
| "GROUP_TRANSITIONS COMPENSATION_REQUESTED =
     [COMPENSATION_CONFIRMED, COMPENSATION_REQUESTED, FAILED_WITH_OPEN_RISK]"
| "GROUP_TRANSITIONS COMPENSATION_CONFIRMED = [FAILED]"
| "GROUP_TRANSITIONS FAILED_WITH_OPEN_RISK =
     [COMPENSATION_REQUESTED, COMPENSATION_CONFIRMED, FAILED_WITH_OPEN_RISK]"
| "GROUP_TRANSITIONS OPENED = [TP1_FILLED, STOPPED, FAILED, EXPIRED]"
| "GROUP_TRANSITIONS TP1_FILLED = [BE_REQUESTED, STOPPED, FAILED]"
| "GROUP_TRANSITIONS BE_REQUESTED = [BE_CONFIRMED, BE_RETRY, STOPPED, FAILED]"
| "GROUP_TRANSITIONS BE_RETRY = [BE_CONFIRMED, BE_RETRY, FAILED, STOPPED]"
| "GROUP_TRANSITIONS BE_CONFIRMED = [TP2_FILLED, STOPPED, FAILED]"
| "GROUP_TRANSITIONS TP2_FILLED = [TP3_FILLED, STOPPED, FAILED]"
| "GROUP_TRANSITIONS TP3_FILLED = [RECONCILED, STOPPED, FAILED]"
| "GROUP_TRANSITIONS _ = []"

definition validate_transition :: "group_state \<Rightarrow> group_state \<Rightarrow> bool" where
  "validate_transition current next_state =
     (if current \<in> set TERMINAL_STATES then False
      else next_state \<in> set (GROUP_TRANSITIONS current))"

definition require_transition :: "group_state \<Rightarrow> group_state \<Rightarrow> unit result" where
  "require_transition current next_state =
     (if \<not> validate_transition current next_state
      then Inl (ValueError ''invalid group transition'') else Inr ())"

section \<open>Value objects\<close>

datatype mode = Research | Paper | Demo | Live
datatype side = Long | Short

definition blank :: "string \<Rightarrow> bool" where
  "blank s \<longleftrightarrow> list_all is_space s"

record entry_spec =
  es_low :: rat
  es_high :: rat
  es_reference :: rat
  es_actual_fill :: "rat option"

definition EntrySpec :: "rat \<Rightarrow> rat \<Rightarrow> rat \<Rightarrow> rat option \<Rightarrow> entry_spec result" where
  "EntrySpec low high reference actual_fill =
     (if \<not> (low \<le> reference \<and> reference \<le> high)
      then Inl (ValueError ''entry.reference must lie within [entry.low, entry.high]'')
      else Inr \<lparr>es_low = low, es_high = high, es_reference = reference, es_actual_fill = actual_fill\<rparr>)"

record geometry =
  ge_version :: string
  ge_unit :: string
  ge_step_price :: rat
  ge_tp1 :: rat
  ge_tp2 :: rat
  ge_tp3 :: rat
  ge_sl :: rat

definition Geometry ::
  "string \<Rightarrow> string \<Rightarrow> rat \<Rightarrow> rat \<Rightarrow> rat \<Rightarrow> rat \<Rightarrow> rat \<Rightarrow> geometry result" where
  "Geometry version unit step_price tp1 tp2 tp3 sl =
     (if \<not> 0 < step_price then Inl (ValueError ''step_price'')
      else Inr \<lparr>ge_version = version, ge_unit = unit, ge_step_price = step_price,
                ge_tp1 = tp1, ge_tp2 = tp2, ge_tp3 = tp3, ge_sl = sl\<rparr>)"

record target_leg =
  tl_leg :: int
  tl_price :: rat
  tl_allocation :: rat

definition TargetLegSpec :: "int \<Rightarrow> rat \<Rightarrow> rat \<Rightarrow> target_leg result" where
  "TargetLegSpec leg price allocation =
     (if \<not> (1 \<le> leg \<and> leg \<le> 3) then Inl (ValueError ''leg'')
      else if \<not> (0 < allocation \<and> allocation \<le> 1) then Inl (ValueError ''allocation'')
      else Inr \<lparr>tl_leg = leg, tl_price = price, tl_allocation = allocation\<rparr>)"

record break_even_policy =
  be_trigger :: string
  be_raw_price_policy :: string
  be_protected_price_policy :: string
  be_apply_to :: "int list"

definition BreakEvenPolicy ::
  "string \<Rightarrow> string \<Rightarrow> string \<Rightarrow> int list \<Rightarrow> break_even_policy result" where
  "BreakEvenPolicy trigger raw protected apply_to =
     (if trigger \<noteq> ''tp1_filled'' then Inl (ValueError ''breakEven.trigger must be tp1_filled'')
      else Inr \<lparr>be_trigger = trigger, be_raw_price_policy = raw,
                be_protected_price_policy = protected, be_apply_to = apply_to\<rparr>)"

record group_risk =
  gr_currency :: string
  gr_max_cash :: rat
  gr_max_pct :: rat
  gr_estimated_loss_at_sl :: rat
  gr_total_volume :: rat

definition GroupRisk :: "string \<Rightarrow> rat \<Rightarrow> rat \<Rightarrow> rat \<Rightarrow> rat \<Rightarrow> group_risk result" where
  "GroupRisk currency max_cash max_pct loss volume =
     (if \<not> 0 < max_cash then Inl (ValueError ''max_cash'')
      else if \<not> (0 < max_pct \<and> max_pct \<le> 1) then Inl (ValueError ''max_pct'')
      else if \<not> 0 \<le> loss then Inl (ValueError ''estimated_loss_at_sl'')
      else if \<not> 0 < volume then Inl (ValueError ''total_volume'')
      else Inr \<lparr>gr_currency = currency, gr_max_cash = max_cash, gr_max_pct = max_pct,
                gr_estimated_loss_at_sl = loss, gr_total_volume = volume\<rparr>)"

section \<open>The group specification\<close>

record trade_group_spec =
  tg_schema_version :: string
  tg_group_id :: string
  tg_signal_id :: string
  tg_intent_id :: string
  tg_asset_key :: string
  tg_broker_symbol :: string
  tg_mode :: mode
  tg_side :: side
  tg_entry :: entry_spec
  tg_geometry :: geometry
  tg_targets :: "target_leg list"
  tg_break_even :: break_even_policy
  tg_risk :: group_risk
  tg_profile_id :: string
  tg_model_version :: string
  tg_model_hash :: string
  tg_config_hash :: string
  tg_strategy_version :: string
  tg_expires_at_utc_ms :: int
  tg_created_at_utc_ms :: int
  tg_provenance :: "string \<rightharpoonup> string"

definition GROUP_SCHEMA_VERSION :: string where
  "GROUP_SCHEMA_VERSION = ''trade-group.v1''"

fun ladder_ok :: "side \<Rightarrow> rat \<Rightarrow> geometry \<Rightarrow> bool" where
  "ladder_ok Long reference g \<longleftrightarrow>
     ge_sl g < reference \<and> reference < ge_tp1 g \<and> ge_tp1 g < ge_tp2 g \<and> ge_tp2 g < ge_tp3 g"
| "ladder_ok Short reference g \<longleftrightarrow>
     ge_tp3 g < ge_tp2 g \<and> ge_tp2 g < ge_tp1 g \<and> ge_tp1 g < reference \<and> reference < ge_sl g"

definition identity_fields :: "trade_group_spec \<Rightarrow> string list" where
  "identity_fields s = [tg_group_id s, tg_signal_id s, tg_intent_id s, tg_asset_key s,
     tg_broker_symbol s, tg_profile_id s, tg_model_version s, tg_model_hash s,
     tg_config_hash s, tg_strategy_version s]"

definition validate_contract :: "trade_group_spec \<Rightarrow> trade_group_spec result" where
  "validate_contract s =
     (if list_ex blank (identity_fields s) then Inl (ValueError ''must not be empty'')
      else if \<not> ladder_ok (tg_side s) (es_reference (tg_entry s)) (tg_geometry s)
        then Inl (ValueError (case tg_side s of Long \<Rightarrow> ''invalid LONG geometry''
                                              | Short \<Rightarrow> ''invalid SHORT geometry''))
      else if \<bar>fsub (py_sum (map tl_allocation (tg_targets s))) 1\<bar> > fl (1 / 10 ^ 6)
        then Inl (ValueError ''target allocations must sum to 1.0'')
      else if length (tg_targets s) \<noteq> 3 \<or> set (map tl_leg (tg_targets s)) \<noteq> {1, 2, 3}
        then Inl (ValueError ''trade-group.v1 requires exactly three target legs 1/2/3'')
      else if tg_expires_at_utc_ms s \<le> 0
        then Inl (ValueError ''expires_at_utc_ms must be positive (TTL)'')
      else Inr s)"

subsection \<open>Hashes\<close>

definition geometry_json :: "geometry \<Rightarrow> json" where
  "geometry_json g = JObj [(''sl'', JFloat (ge_sl g)), (''step_price'', JFloat (ge_step_price g)),
     (''tp1'', JFloat (ge_tp1 g)), (''tp2'', JFloat (ge_tp2 g)), (''tp3'', JFloat (ge_tp3 g)),
     (''unit'', JStr (ge_unit g)), (''version'', JStr (ge_version g))]"

definition target_json :: "target_leg \<Rightarrow> json" where
  "target_json t = JObj [(''allocation'', JFloat (tl_allocation t)), (''leg'', JInt (tl_leg t)),
     (''price'', JFloat (tl_price t))]"

definition break_even_json :: "break_even_policy \<Rightarrow> json" where
  "break_even_json p = JObj [(''apply_to'', JList (map JInt (be_apply_to p))),
     (''protected_price_policy'', JStr (be_protected_price_policy p)),
     (''raw_price_policy'', JStr (be_raw_price_policy p)), (''trigger'', JStr (be_trigger p))]"

definition risk_json :: "group_risk \<Rightarrow> json" where
  "risk_json r = JObj [(''currency'', JStr (gr_currency r)),
     (''estimated_loss_at_sl'', JFloat (gr_estimated_loss_at_sl r)),
     (''max_cash'', JFloat (gr_max_cash r)), (''max_pct'', JFloat (gr_max_pct r)),
     (''total_volume'', JFloat (gr_total_volume r))]"

definition side_str :: "side \<Rightarrow> string" where
  "side_str s = (case s of Long \<Rightarrow> ''long'' | Short \<Rightarrow> ''short'')"

definition geometry_payload :: "trade_group_spec \<Rightarrow> json" where
  "geometry_payload s = JObj [
     (''asset_key'', JStr (tg_asset_key s)),
     (''break_even'', break_even_json (tg_break_even s)),
     (''entry_reference'', JFloat (es_reference (tg_entry s))),
     (''geometry'', geometry_json (tg_geometry s)),
     (''group_id'', JStr (tg_group_id s)),
     (''profile_id'', JStr (tg_profile_id s)),
     (''risk'', risk_json (tg_risk s)),
     (''side'', JStr (side_str (tg_side s))),
     (''targets'', JList (map target_json (tg_targets s)))]"

definition geometry_hash :: "(json \<Rightarrow> string) \<Rightarrow> trade_group_spec \<Rightarrow> string" where
  "geometry_hash sha s = sha (geometry_payload s)"

definition lineage_keys :: "string list" where
  "lineage_keys = [''broker_snapshot_id'', ''cost_snapshot_id'', ''feature_snapshot_id'',
     ''market_snapshot_id'', ''model_hash'', ''model_inference_id'', ''profile_id'']"

definition provenance_payload :: "trade_group_spec \<Rightarrow> json" where
  "provenance_payload s = JObj (map (\<lambda>k. (k, jopt JStr (tg_provenance s k))) lineage_keys)"

definition provenance_hash :: "(json \<Rightarrow> string) \<Rightarrow> trade_group_spec \<Rightarrow> string" where
  "provenance_hash sha s = sha (provenance_payload s)"

definition required_ids :: "string list" where
  "required_ids = [''market_snapshot_id'', ''feature_snapshot_id'', ''model_inference_id'',
     ''model_hash'', ''profile_id'', ''broker_snapshot_id'', ''cost_snapshot_id'',
     ''geometry_hash'', ''provenance_hash'']"

definition falsy :: "string option \<Rightarrow> bool" where
  "falsy v \<longleftrightarrow> v = None \<or> v = Some []"

definition require_execution_provenance ::
  "(json \<Rightarrow> string) \<Rightarrow> trade_group_spec \<Rightarrow> unit result" where
  "require_execution_provenance sha s =
     (let prov = tg_provenance s; missing = filter (\<lambda>k. falsy (prov k)) required_ids
      in if missing \<noteq> [] then Inl (ValueError ''trade-group provenance incomplete'')
         else if prov ''geometry_hash'' \<noteq> Some (geometry_hash sha s)
           then Inl (ValueError ''provenance.geometry_hash must equal the spec geometry_hash'')
         else if prov ''provenance_hash'' \<noteq> Some (provenance_hash sha s)
           then Inl (ValueError ''provenance.provenance_hash must equal the spec provenance_hash'')
         else Inr ())"

subsection \<open>The actual fill\<close>

definition DEFAULT_MAX_FILL_DEVIATION :: rat where
  "DEFAULT_MAX_FILL_DEVIATION = fl (5 / 100)"

text \<open>The argument is the configured value, \<open>None\<close> when it is absent or not a number.\<close>

definition get_max_fill_deviation :: "rat option \<Rightarrow> rat" where
  "get_max_fill_deviation cfg =
     (case cfg of None \<Rightarrow> DEFAULT_MAX_FILL_DEVIATION
      | Some v \<Rightarrow> if \<not> (0 < v \<and> v \<le> 1) then DEFAULT_MAX_FILL_DEVIATION else v)"

definition with_actual_fill ::
  "rat option \<Rightarrow> trade_group_spec \<Rightarrow> rat \<Rightarrow> trade_group_spec result" where
  "with_actual_fill cfg s fill =
     (let entry = tg_entry s; reference = es_reference entry
      in if fill \<le> 0 then Inl (ValueError ''actual fill price must be positive'')
         else if (case es_actual_fill entry of None \<Rightarrow> False
                  | Some a \<Rightarrow> \<bar>fsub a fill\<bar> > fl (1 / 10 ^ 12))
           then Inl (ValueError ''actual_fill is already set and cannot be overwritten'')
         else if reference = 0 then Inl ZeroDivisionError
         else if fdiv \<bar>fsub fill reference\<bar> reference > get_max_fill_deviation cfg
           then Inl (ValueError ''actual fill deviates from reference'')
         else Inr (s\<lparr>tg_entry := entry\<lparr>es_actual_fill := Some fill\<rparr>\<rparr>))"

definition leg_price :: "trade_group_spec \<Rightarrow> int \<Rightarrow> rat result" where
  "leg_price s leg =
     (if leg = 1 then Inr (ge_tp1 (tg_geometry s))
      else if leg = 2 then Inr (ge_tp2 (tg_geometry s))
      else if leg = 3 then Inr (ge_tp3 (tg_geometry s))
      else Inl (ValueError ''unknown leg''))"

definition mode_str :: "mode \<Rightarrow> string" where
  "mode_str m = (case m of Research \<Rightarrow> ''research'' | Paper \<Rightarrow> ''paper'' | Demo \<Rightarrow> ''demo''
                         | Live \<Rightarrow> ''live'')"

definition as_geometry_payload :: "trade_group_spec \<Rightarrow> json" where
  "as_geometry_payload s = JObj [
     (''schema_version'', JStr (tg_schema_version s)), (''group_id'', JStr (tg_group_id s)),
     (''asset_key'', JStr (tg_asset_key s)), (''broker_symbol'', JStr (tg_broker_symbol s)),
     (''mode'', JStr (mode_str (tg_mode s))), (''side'', JStr (side_str (tg_side s))),
     (''entry_reference'', JFloat (es_reference (tg_entry s))),
     (''entry_actual_fill'', jopt JFloat (es_actual_fill (tg_entry s))),
     (''step_price'', JFloat (ge_step_price (tg_geometry s))),
     (''tp1'', JFloat (ge_tp1 (tg_geometry s))), (''tp2'', JFloat (ge_tp2 (tg_geometry s))),
     (''tp3'', JFloat (ge_tp3 (tg_geometry s))), (''sl'', JFloat (ge_sl (tg_geometry s))),
     (''profile_id'', JStr (tg_profile_id s))]"

fun leg_allocation :: "target_leg list \<Rightarrow> int \<Rightarrow> rat result" where
  "leg_allocation [] leg = Inl (ValueError ''unknown leg'')"
| "leg_allocation (t # ts) leg = (if tl_leg t = leg then Inr (tl_allocation t) else leg_allocation ts leg)"

section \<open>Volumes and risk\<close>

definition floor_to_step :: "rat \<Rightarrow> rat \<Rightarrow> rat" where
  "floor_to_step value step =
     (if step \<le> 0 then py_round value 8
      else let d_val = dec_str value; d_step = dec_str step; lots = trunc (dec_div d_val d_step)
           in fl (dec_mul (of_int lots) d_step))"

definition ALLOCATION_LOT_EPS :: rat where
  "ALLOCATION_LOT_EPS = 1 / 10 ^ 9"

definition alloc_floor :: "rat \<Rightarrow> rat \<Rightarrow> rat" where
  "alloc_floor d_step value =
     (let d_val = dec_str value;
          lots = trunc (dec_add (dec_div d_val d_step) ALLOCATION_LOT_EPS)
      in fl (dec_mul (of_int lots) d_step))"

text \<open>The allocations are a triple, as in the code.\<close>

definition allocate_leg_volumes ::
  "rat \<Rightarrow> rat \<times> rat \<times> rat \<Rightarrow> rat \<Rightarrow> rat \<Rightarrow> bool \<Rightarrow> rat list result" where
  "allocate_leg_volumes total_volume allocations volume_step volume_min allow_short_legs =
     (if total_volume \<le> 0 then Inl (ValueError ''total_volume must be positive'')
      else if volume_step \<le> 0 \<or> volume_min \<le> 0
        then Inl (ValueError ''volume_step and volume_min must be positive'')
      else
        let (a1, a2, a3) = allocations;
            d_total = dec_str total_volume; d_step = dec_str volume_step;
            leg1 = alloc_floor d_step (fmul total_volume a1);
            leg2 = alloc_floor d_step (fmul total_volume a2);
            leg3 = fl (dec_sub (dec_sub d_total (dec_str leg1)) (dec_str leg2));
            volumes = [leg1, leg2, leg3]
        in if leg3 < - fl (1 / 10 ^ 9)
             then Inl (ValueError ''INSUFFICIENT_VOLUME_FOR_THREE_LEGS: remainder leg3 < 0'')
           else if \<not> allow_short_legs
               \<and> list_ex (\<lambda>v. v \<le> 0 \<or> v < fsub volume_min (fl (1 / 10 ^ 9))) volumes
             then Inl (ValueError ''INSUFFICIENT_VOLUME_FOR_THREE_LEGS: not fillable'')
           else Inr volumes)"

definition check_group_risk :: "rat \<Rightarrow> rat \<Rightarrow> rat \<Rightarrow> rat \<Rightarrow> bool \<times> string option" where
  "check_group_risk estimated_loss_at_sl max_cash max_pct balance =
     (if estimated_loss_at_sl > fadd max_cash (fl (1 / 10 ^ 9))
      then (False, Some ''RISK_LIMIT_EXCEEDED'')
      else if balance > 0 \<and> estimated_loss_at_sl > fadd (fmul max_pct balance) (fl (1 / 10 ^ 9))
      then (False, Some ''RISK_LIMIT_EXCEEDED'')
      else (True, None))"

definition check_group_not_expired :: "int \<Rightarrow> int \<Rightarrow> bool" where
  "check_group_not_expired expires_at_utc_ms now_ms \<longleftrightarrow> now_ms \<le> expires_at_utc_ms"

section \<open>Identifiers\<close>

text \<open>\<^verbatim>\<open>time.gmtime\<close>: the proleptic Gregorian date of a day number counted from 1970-01-01.\<close>

definition civil_date :: "int \<Rightarrow> int \<times> int \<times> int" where
  "civil_date days =
     (let z = days + 719468; era = z div 146097; doe = z mod 146097;
          yoe = (doe - doe div 1460 + doe div 36524 - doe div 146096) div 365;
          doy = doe - (365 * yoe + yoe div 4 - yoe div 100);
          mp = (5 * doy + 2) div 153; d = doy - (153 * mp + 2) div 5 + 1;
          m = (if mp < 10 then mp + 3 else mp - 9);
          y = yoe + era * 400 + (if m \<le> 2 then 1 else 0)
      in (y, m, d))"

definition pad2 :: "int \<Rightarrow> string" where
  "pad2 n = (if n < 10 then ''0'' @ show_int n else show_int n)"

definition compact_ts :: "int \<Rightarrow> string" where
  "compact_ts now_ms =
     (let secs = \<lfloor>fdiv (of_int now_ms) 1000\<rfloor>; (y, m, d) = civil_date (secs div 86400);
          t = secs mod 86400
      in show_int y @ pad2 m @ pad2 d @ ''-'' @ pad2 (t div 3600) @ pad2 (t div 60 mod 60)
         @ pad2 (t mod 60))"

definition new_group_id :: "int \<Rightarrow> string" where
  "new_group_id now_ms = ''TG-'' @ compact_ts now_ms"

definition new_intent_id :: "int \<Rightarrow> string" where
  "new_intent_id now_ms = ''INT-'' @ compact_ts now_ms"

definition new_leg_id :: "string \<Rightarrow> int \<Rightarrow> string" where
  "new_leg_id group_id leg = group_id @ ''-L'' @ show_int leg"

section \<open>The lifecycle as a step relation\<close>

text \<open>A lifecycle is the history of a group's states, newest first: it starts in \<open>DRAFT\<close> and
  every step passes \<open>validate_transition\<close>.\<close>

inductive lifecycle :: "group_state list \<Rightarrow> bool" where
  lifecycle_start: "lifecycle [DRAFT]"
| lifecycle_step: "lifecycle (s # tr) \<Longrightarrow> validate_transition s t \<Longrightarrow> lifecycle (t # s # tr)"

inductive_cases lifecycle_ConsE: "lifecycle (t # tr)"

lemmas transition_simps = validate_transition_def TERMINAL_STATES_def

text \<open>The states every history that ends in a given state has passed, newest first.\<close>

fun milestones :: "group_state \<Rightarrow> group_state list" where
  "milestones DRAFT = [DRAFT]"
| "milestones VALIDATED = [VALIDATED, DRAFT]"
| "milestones SUBMITTED = [SUBMITTED, VALIDATED, DRAFT]"
| "milestones OPENED = [OPENED, SUBMITTED, VALIDATED, DRAFT]"
| "milestones TP1_FILLED = [TP1_FILLED, OPENED, SUBMITTED, VALIDATED, DRAFT]"
| "milestones BE_REQUESTED = [BE_REQUESTED, TP1_FILLED, OPENED, SUBMITTED, VALIDATED,
     DRAFT]"
| "milestones BE_RETRY = [BE_RETRY, BE_REQUESTED, TP1_FILLED, OPENED, SUBMITTED, VALIDATED,
     DRAFT]"
| "milestones BE_CONFIRMED = [BE_CONFIRMED, BE_REQUESTED, TP1_FILLED, OPENED, SUBMITTED,
     VALIDATED, DRAFT]"
| "milestones TP2_FILLED = [TP2_FILLED, BE_CONFIRMED, BE_REQUESTED, TP1_FILLED, OPENED,
     SUBMITTED, VALIDATED, DRAFT]"
| "milestones TP3_FILLED = [TP3_FILLED, TP2_FILLED, BE_CONFIRMED, BE_REQUESTED, TP1_FILLED,
     OPENED, SUBMITTED, VALIDATED, DRAFT]"
| "milestones RECONCILED = [RECONCILED, TP3_FILLED, TP2_FILLED, BE_CONFIRMED, BE_REQUESTED,
     TP1_FILLED, OPENED, SUBMITTED, VALIDATED, DRAFT]"
| "milestones PARTIAL_SUBMISSION = [PARTIAL_SUBMISSION, SUBMITTED, VALIDATED, DRAFT]"
| "milestones COMPENSATION_REQUESTED = [COMPENSATION_REQUESTED, PARTIAL_SUBMISSION,
     SUBMITTED, VALIDATED, DRAFT]"
| "milestones COMPENSATION_CONFIRMED = [COMPENSATION_CONFIRMED, PARTIAL_SUBMISSION,
     SUBMITTED, VALIDATED, DRAFT]"
| "milestones FAILED_WITH_OPEN_RISK = [FAILED_WITH_OPEN_RISK, PARTIAL_SUBMISSION, SUBMITTED,
     VALIDATED, DRAFT]"
| "milestones s = [s, DRAFT]"

lemma milestones_step: "validate_transition s t \<Longrightarrow> subseq (milestones t) (t # milestones s)"
  by (cases s) (auto simp: transition_simps)

lemma lifecycle_milestones: "lifecycle tr \<Longrightarrow> subseq (milestones (hd tr)) tr"
proof (induction rule: lifecycle.induct)
  case (lifecycle_step s tr t)
  from lifecycle_step.hyps(2) have "subseq (milestones t) (t # milestones s)" by (rule milestones_step)
  also have "subseq (t # milestones s) (t # s # tr)" using lifecycle_step.IH by simp
  finally show ?case by simp
qed simp

lemma lifecycle_Cons2: "lifecycle (t # s # tr) \<longleftrightarrow> lifecycle (s # tr) \<and> validate_transition s t"
  by (auto elim: lifecycle_ConsE intro: lifecycle_step)

definition compensating :: "group_state set" where
  "compensating = {PARTIAL_SUBMISSION, COMPENSATION_REQUESTED, COMPENSATION_CONFIRMED,
     FAILED_WITH_OPEN_RISK, REJECTED, FAILED}"

lemma partial_stays_compensating:
  "lifecycle tr \<Longrightarrow> PARTIAL_SUBMISSION \<in> set tr \<Longrightarrow> hd tr \<in> compensating"
proof (induction rule: lifecycle.induct)
  case (lifecycle_step s tr t)
  then show ?case by (cases s) (auto simp: compensating_def transition_simps)
qed simp

lemma terminal_iff_stuck: "s \<in> set TERMINAL_STATES \<longleftrightarrow> (\<forall>t. \<not> validate_transition s t)"
  by (cases s) (auto simp: transition_simps)

lemma reaches_failed_or_rejected:
  "s \<notin> set TERMINAL_STATES \<Longrightarrow>
     validate_transition s REJECTED \<or> validate_transition s FAILED
     \<or> validate_transition s COMPENSATION_CONFIRMED"
  by (cases s) (auto simp: transition_simps)

lemma step_failed: "validate_transition COMPENSATION_CONFIRMED FAILED"
  by (simp add: transition_simps)

text \<open>A concrete specification, used by the witnesses.\<close>

definition demo_spec :: "rat option \<Rightarrow> trade_group_spec" where
  "demo_spec fill = \<lparr>tg_schema_version = GROUP_SCHEMA_VERSION, tg_group_id = ''TG-1'',
     tg_signal_id = ''S'', tg_intent_id = ''I'', tg_asset_key = ''XAUUSD'', tg_broker_symbol = ''GOLD'',
     tg_mode = Paper, tg_side = Long,
     tg_entry = \<lparr>es_low = 1999, es_high = 2001, es_reference = 2000, es_actual_fill = fill\<rparr>,
     tg_geometry = \<lparr>ge_version = ''v1'', ge_unit = ''price'', ge_step_price = 4, ge_tp1 = 2004,
       ge_tp2 = 2008, ge_tp3 = 2012, ge_sl = 1990\<rparr>,
     tg_targets = [\<lparr>tl_leg = 1, tl_price = 2004, tl_allocation = 1 / 2\<rparr>,
       \<lparr>tl_leg = 2, tl_price = 2008, tl_allocation = 1 / 4\<rparr>,
       \<lparr>tl_leg = 3, tl_price = 2012, tl_allocation = 1 / 4\<rparr>],
     tg_break_even = \<lparr>be_trigger = ''tp1_filled'', be_raw_price_policy = ''actual_fill'',
       be_protected_price_policy = ''actual_fill_plus_cost_buffer'', be_apply_to = [2, 3]\<rparr>,
     tg_risk = \<lparr>gr_currency = ''USD'', gr_max_cash = 100, gr_max_pct = 1 / 4,
       gr_estimated_loss_at_sl = 10, gr_total_volume = 1\<rparr>,
     tg_profile_id = ''P'', tg_model_version = ''M'', tg_model_hash = ''H'', tg_config_hash = ''C'',
     tg_strategy_version = ''V'', tg_expires_at_utc_ms = 5000, tg_created_at_utc_ms = 1000,
     tg_provenance = Map.empty\<rparr>"

section \<open>Specification lemmas\<close>

lemma validate_contract_Inr:
  "validate_contract s = Inr s' \<longleftrightarrow>
     s' = s \<and> \<not> list_ex blank (identity_fields s)
     \<and> ladder_ok (tg_side s) (es_reference (tg_entry s)) (tg_geometry s)
     \<and> \<bar>fsub (py_sum (map tl_allocation (tg_targets s))) 1\<bar> \<le> fl (1 / 10 ^ 6)
     \<and> length (tg_targets s) = 3 \<and> set (map tl_leg (tg_targets s)) = {1, 2, 3}
     \<and> 0 < tg_expires_at_utc_ms s"
  by (auto simp: validate_contract_def not_less not_le)

lemma distinct_of_card: "length xs = card (set xs) \<Longrightarrow> distinct xs"
  by (simp add: card_distinct)

lemma legs_distinct:
  assumes "length ts = 3" and "set (map tl_leg ts) = {1, 2, 3}"
  shows "distinct (map tl_leg ts)"
  by (rule distinct_of_card) (simp only: assms length_map, simp)

lemma leg_allocation_mem:
  assumes "distinct (map tl_leg ts)" and "t \<in> set ts"
  shows "leg_allocation ts (tl_leg t) = Inr (tl_allocation t)"
  using assms by (induction ts) (auto simp: image_iff)

lemma json_rec_injective:
  "geometry_json g = geometry_json g' \<longleftrightarrow> g = g'"
  "target_json t = target_json t' \<longleftrightarrow> t = t'"
  "risk_json r = risk_json r' \<longleftrightarrow> r = r'"
  by (auto simp: geometry_json_def target_json_def risk_json_def)

lemma break_even_json_inj: "break_even_json p = break_even_json p' \<longleftrightarrow> p = p'"
  by (auto simp: break_even_json_def inj_map_eq_map inj_def)

lemma side_str_inj: "side_str a = side_str b \<longleftrightarrow> a = b"
  by (cases a; cases b) (simp_all add: side_str_def)

lemma target_jsons_inj: "map target_json ts = map target_json ts' \<longleftrightarrow> ts = ts'"
  by (rule inj_map_eq_map) (simp add: inj_def json_rec_injective)

lemmas payload_injective = json_rec_injective break_even_json_inj side_str_inj target_jsons_inj

lemma with_actual_fill_Inr:
  "with_actual_fill cfg s fill = Inr s' \<longleftrightarrow>
     0 < fill \<and> es_reference (tg_entry s) \<noteq> 0
     \<and> (\<forall>a. es_actual_fill (tg_entry s) = Some a \<longrightarrow> \<bar>fsub a fill\<bar> \<le> fl (1 / 10 ^ 12))
     \<and> fdiv \<bar>fsub fill (es_reference (tg_entry s))\<bar> (es_reference (tg_entry s))
         \<le> get_max_fill_deviation cfg
     \<and> s' = s\<lparr>tg_entry := (tg_entry s)\<lparr>es_actual_fill := Some fill\<rparr>\<rparr>"
  by (auto simp: with_actual_fill_def Let_def not_less not_le split: option.splits)

lemma geometry_payload_fill [simp]:
  "geometry_payload (s\<lparr>tg_entry := (tg_entry s)\<lparr>es_actual_fill := f\<rparr>\<rparr>) = geometry_payload s"
  by (simp add: geometry_payload_def)

section \<open>Allocation lemmas\<close>

lemma fl_eps_bounds: "0 < fl (1 / 10 ^ 9)" "fl (1 / 10 ^ 9) < 1" "fl (1 / 10 ^ 9) \<le> 1 / 10 ^ 8"
  by code_simp+

lemma bpow_tiny: "bpow 2 (- 1075) \<le> 1 / 2 ^ 60" "bpow 10 (- 1000026) \<le> 1 / 10 ^ 30"
proof -
  have "bpow 2 (- 1075) \<le> bpow 2 (- 60)" by (rule bpow_mono) simp_all
  then show "bpow 2 (- 1075) \<le> 1 / 2 ^ 60" by (simp only: bpow_def [of 2 "- 60"]) simp
  have "bpow 10 (- 1000026) \<le> bpow 10 (- 30)" by (rule bpow_mono) simp_all
  then show "bpow 10 (- 1000026) \<le> 1 / 10 ^ 30" by (simp only: bpow_def [of 10 "- 30"]) simp
qed

lemma dec28_error:
  "\<bar>dec28 x - x\<bar> \<le> \<bar>x\<bar> / 1000000000000000000000000000
     + 1 / 1000000000000000000000000000000"
proof (cases "x = 0")
  case False
  let ?u = "bpow 10 (ulp_exp 10 28 (- 1000026) x)"
  have "\<bar>dec28 x - x\<bar> \<le> ?u / 2" unfolding dec28_def by (rule rnd_error) simp
  moreover have "?u \<le> \<bar>x\<bar> / 1000000000000000000000000000
     + 1 / 1000000000000000000000000000000"
  proof (cases "ilog 10 \<bar>x\<bar> - 28 + 1 \<le> - 1000026")
    case True
    then have "?u = bpow 10 (- 1000026)" by (simp add: ulp_exp_def)
    then have "?u \<le> 1 / 1000000000000000000000000000000" using bpow_tiny(2) by (simp only:) simp
    moreover have "0 \<le> \<bar>x\<bar> / 1000000000000000000000000000" by simp
    ultimately show ?thesis by linarith
  next
    case False
    then have "?u = bpow 10 (ilog 10 \<bar>x\<bar>) * bpow 10 (- 27)"
      using bpow_add [of 10 "ilog 10 \<bar>x\<bar>" "- 27"] by (simp add: ulp_exp_def)
    also have "\<dots> \<le> \<bar>x\<bar> * bpow 10 (- 27)"
      using ilog_bounds [of 10 "\<bar>x\<bar>"] \<open>x \<noteq> 0\<close> by (intro mult_right_mono) auto
    finally show ?thesis by (simp add: bpow_def)
  qed
  moreover have "0 \<le> ?u" by simp
  ultimately show ?thesis by linarith
qed simp

lemma fl_error_approx: "\<bar>fl x - x\<bar> \<le> \<bar>x\<bar> / 9007199254740992 + 1 / 1152921504606846976"
  using fl_error [of x] bpow_tiny(1) by simp

lemma dec28_neg1: "dec28 (- 1) = - 1"
  by code_simp

lemma alloc_floor_nonneg:
  assumes "0 < d_step" and "is_float v" and "0 \<le> v"
  shows "0 \<le> alloc_floor d_step v"
proof -
  have "0 \<le> dec_str v" using assms by (intro dec_str_nonneg)
  then have "0 \<le> dec_add (dec_div (dec_str v) d_step) ALLOCATION_LOT_EPS"
    using assms unfolding dec_add_def dec_div_def ALLOCATION_LOT_EPS_def
    by (intro dec28.nonneg add_nonneg_nonneg) (auto intro!: dec28.nonneg)
  then show ?thesis
    using assms unfolding alloc_floor_def Let_def dec_mul_def
    by (intro fl.nonneg dec28.nonneg mult_nonneg_nonneg) (auto simp: trunc_nonneg)
qed

lemma is_float_alloc_floor [simp]: "is_float (alloc_floor d v)"
  by (simp add: alloc_floor_def Let_def)

lemma allocate_leg_volumes_Inr:
  assumes "allocate_leg_volumes tv (a1, a2, a3) vstep vmin short = Inr vs"
  obtains leg1 leg2 leg3 where
    "vs = [leg1, leg2, leg3]" and "0 < tv" and "0 < vstep" and "0 < vmin"
    and "leg1 = alloc_floor (dec_str vstep) (fmul tv a1)"
    and "leg2 = alloc_floor (dec_str vstep) (fmul tv a2)"
    and "leg3 = fl (dec_sub (dec_sub (dec_str tv) (dec_str leg1)) (dec_str leg2))"
    and "- fl (1 / 10 ^ 9) \<le> leg3"
    and "\<not> short \<Longrightarrow> \<forall>v\<in>set vs. 0 < v \<and> fsub vmin (fl (1 / 10 ^ 9)) \<le> v"
  using assms by (auto simp: allocate_leg_volumes_def Let_def not_less not_le split: if_splits)

text \<open>The remainder arithmetic alone: if the third leg is not below the tolerance, the rounding
  of the two decimal subtractions and of the conversions moves the sum by very little.\<close>

lemma remainder_error:
  fixes T D1 D2 :: rat
  assumes "0 \<le> T" "0 \<le> D1" "0 \<le> D2" and M: "M = T + 1"
    and y1: "y1 = dec28 (T - D1)" and y2: "y2 = dec28 (y1 - D2)" and l3: "- 1 < fl y2"
  shows "\<bar>fl D1 + fl D2 + fl y2 - fl T\<bar> \<le> M / 281474976710656"
proof -
  have p2: "- 1 < y2" using l3 fl.le_repr [of "- 1" y2] by (cases "y2 \<le> - 1") (auto simp: fl.odd_rd)
  have p1: "- 1 < y1 - D2" using p2 y2 dec28.le_repr [of "- 1" "y1 - D2"] dec28_neg1 by linarith
  have p0: "- 1 < T - D1" using p1 assms(3) y1 dec28.le_repr [of "- 1" "T - D1"] dec28_neg1 by linarith
  note e1 = dec28_error [of "T - D1", folded y1] and e2 = dec28_error [of "y1 - D2", folded y2]
  have q1: "\<bar>T - D1\<bar> \<le> M" using p0 assms(1-3) M by linarith
  then have "\<bar>T - D1\<bar> / 1000000000000000000000000000 \<le> M / 1000000000000000000000000000" by (simp add: divide_right_mono)
  with e1 have f1: "\<bar>y1 - (T - D1)\<bar> \<le> M / 100000000000000000000000000" using assms(1) M by linarith
  have q2: "\<bar>y1 - D2\<bar> \<le> 2 * M" using p1 f1 assms(1-3) M by linarith
  then have "\<bar>y1 - D2\<bar> / 1000000000000000000000000000 \<le> 2 * M / 1000000000000000000000000000" by (simp add: divide_right_mono)
  with e2 have f2: "\<bar>y2 - (y1 - D2)\<bar> \<le> M / 100000000000000000000000000" using assms(1) M by linarith
  have m: "\<bar>y2\<bar> \<le> 4 * M" "\<bar>D1\<bar> \<le> 4 * M" "\<bar>D2\<bar> \<le> 4 * M" "\<bar>T\<bar> \<le> 4 * M"
    using q1 q2 f1 f2 p0 p1 p2 assms(1-3) M by linarith+
  have g: "\<bar>fl z - z\<bar> \<le> M / 2251799813685248 + 1 / 1152921504606846976" if "\<bar>z\<bar> \<le> 4 * M" for z
  proof -
    from that have "\<bar>z\<bar> / 9007199254740992 \<le> 4 * M / 9007199254740992" by (simp add: divide_right_mono)
    with fl_error_approx [of z] show ?thesis by simp
  qed
  show ?thesis using g [OF m(1)] g [OF m(2)] g [OF m(3)] g [OF m(4)] f1 f2 assms(1) M by linarith
qed

section \<open>Properties\<close>

text \<open>C1. A group is reconciled only after its whole lifecycle in order: every history that ends in
  \<open>RECONCILED\<close> contains, in this order, DRAFT, VALIDATED, SUBMITTED, OPENED, TP1, the break-even
  request and its confirmation, TP2 and TP3. The break-even path after TP1 cannot be skipped.\<close>

theorem reconciled_only_after_full_lifecycle:
  assumes "lifecycle (RECONCILED # tr)"
  shows "subseq [TP3_FILLED, TP2_FILLED, BE_CONFIRMED, BE_REQUESTED, TP1_FILLED, OPENED,
           SUBMITTED, VALIDATED, DRAFT] tr"
  using lifecycle_milestones [OF assms] by simp

theorem reconciled_only_after_full_lifecycle_witness:
  "subseq [TP3_FILLED, TP2_FILLED, BE_CONFIRMED, BE_REQUESTED, TP1_FILLED, OPENED, SUBMITTED,
     VALIDATED, DRAFT]
    [TP3_FILLED, TP2_FILLED, BE_CONFIRMED, BE_RETRY, BE_REQUESTED, TP1_FILLED, OPENED, SUBMITTED,
     VALIDATED, DRAFT]"
  by (rule reconciled_only_after_full_lifecycle)
    (simp add: lifecycle_Cons2 lifecycle_start transition_simps)

text \<open>After a partial submission a group reaches FAILED only through a confirmed compensation:
  the state just before FAILED is \<open>COMPENSATION_CONFIRMED\<close>, so open risk is never hidden behind
  a FAILED group.\<close>

theorem failed_after_partial_submission_is_compensated:
  assumes "lifecycle (FAILED # tr)" and "PARTIAL_SUBMISSION \<in> set tr"
  shows "\<exists>tr'. tr = COMPENSATION_CONFIRMED # tr'"
proof -
  from assms(2) obtain s tr' where tr: "tr = s # tr'" by (cases tr) auto
  with assms(1) have "lifecycle (s # tr')" and "validate_transition s FAILED"
    by (simp_all add: lifecycle_Cons2)
  then show ?thesis
    using partial_stays_compensating [of "s # tr'"] assms(2) tr
    by (auto simp: compensating_def transition_simps)
qed

theorem failed_after_partial_submission_is_compensated_witness:
  "\<exists>tr'. [COMPENSATION_CONFIRMED, FAILED_WITH_OPEN_RISK, PARTIAL_SUBMISSION, SUBMITTED, VALIDATED,
     DRAFT] = COMPENSATION_CONFIRMED # tr'"
  by (rule failed_after_partial_submission_is_compensated)
    (simp_all add: lifecycle_Cons2 lifecycle_start transition_simps)

text \<open>The terminal states are exactly the states without a successor, and from every state a
  terminal state can be reached: the lifecycle neither leaves a terminal state nor gets stuck in
  a state that is not terminal.\<close>

theorem lifecycle_terminal_states:
  "(s \<in> set TERMINAL_STATES \<longleftrightarrow> (\<forall>t. \<not> validate_transition s t))
   \<and> (\<exists>t. t \<in> set TERMINAL_STATES \<and> validate_transition\<^sup>*\<^sup>* s t)"
proof
  show "s \<in> set TERMINAL_STATES \<longleftrightarrow> (\<forall>t. \<not> validate_transition s t)" by (rule terminal_iff_stuck)
  have "FAILED \<in> set TERMINAL_STATES" "REJECTED \<in> set TERMINAL_STATES"
    by (simp_all add: TERMINAL_STATES_def)
  then show "\<exists>t. t \<in> set TERMINAL_STATES \<and> validate_transition\<^sup>*\<^sup>* s t"
    using reaches_failed_or_rejected [of s] step_failed
    by (metis converse_rtranclp_into_rtranclp r_into_rtranclp rtranclp.rtrancl_refl)
qed

text \<open>A specification that passes \<open>validate_contract\<close> has a usable ladder and complete legs:
  the stop and the targets lie strictly on opposite sides of the entry reference, the reward
  distances strictly increase from TP1 to TP3, and for each leg 1, 2, 3 exactly one target exists,
  so the price and the allocation of every leg are found.\<close>

theorem validated_spec_ladder_and_legs:
  assumes "validate_contract s = Inr s'" and "leg \<in> {1, 2, 3}"
  shows "(ge_sl (tg_geometry s) - es_reference (tg_entry s))
           * (ge_tp1 (tg_geometry s) - es_reference (tg_entry s)) < 0
     \<and> \<bar>ge_tp1 (tg_geometry s) - es_reference (tg_entry s)\<bar>
         < \<bar>ge_tp2 (tg_geometry s) - es_reference (tg_entry s)\<bar>
     \<and> \<bar>ge_tp2 (tg_geometry s) - es_reference (tg_entry s)\<bar>
         < \<bar>ge_tp3 (tg_geometry s) - es_reference (tg_entry s)\<bar>
     \<and> (\<exists>p. leg_price s leg = Inr p)
     \<and> (\<exists>!t. t \<in> set (tg_targets s) \<and> tl_leg t = leg)
     \<and> (\<exists>t. t \<in> set (tg_targets s) \<and> tl_leg t = leg
            \<and> leg_allocation (tg_targets s) leg = Inr (tl_allocation t))"
proof -
  note v = assms(1) [unfolded validate_contract_Inr]
  then have d: "distinct (map tl_leg (tg_targets s))" using legs_distinct by blast
  have "leg \<in> tl_leg ` set (tg_targets s)" using v assms(2) by (metis set_map)
  then obtain t where t: "t \<in> set (tg_targets s)" "tl_leg t = leg" by blast
  have u: "\<exists>!t. t \<in> set (tg_targets s) \<and> tl_leg t = leg"
    using t d by (intro ex1I [of _ t]) (auto simp: distinct_map dest: inj_onD)
  have l: "ladder_ok (tg_side s) (es_reference (tg_entry s)) (tg_geometry s)" using v by blast
  have a: "leg_allocation (tg_targets s) leg = Inr (tl_allocation t)"
    using leg_allocation_mem [OF d t(1)] t(2) by simp
  show ?thesis
    using l u a t assms(2)
    by (cases "tg_side s") (auto simp: leg_price_def mult_less_0_iff)
qed


text \<open>C2. The geometry hash binds what the broker will be asked to do: two specifications with the
  same geometry hash have the same entry reference, side, ladder, targets, break-even policy, risk
  block, profile and group id. The hypothesis is that the digest does not collide on the two
  payloads.\<close>

theorem geometry_hash_binds_geometry:
  assumes no_collision: "sha (geometry_payload s) = sha (geometry_payload s')
      \<Longrightarrow> geometry_payload s = geometry_payload s'"
    and same: "geometry_hash sha s = geometry_hash sha s'"
  shows "es_reference (tg_entry s) = es_reference (tg_entry s') \<and> tg_side s = tg_side s'
     \<and> tg_geometry s = tg_geometry s' \<and> tg_targets s = tg_targets s'
     \<and> tg_break_even s = tg_break_even s' \<and> tg_risk s = tg_risk s'
     \<and> tg_profile_id s = tg_profile_id s' \<and> tg_group_id s = tg_group_id s'
     \<and> tg_asset_key s = tg_asset_key s'"
proof -
  have "geometry_payload s = geometry_payload s'"
    using same by (intro no_collision) (simp add: geometry_hash_def)
  then show ?thesis by (simp add: geometry_payload_def payload_injective)
qed

theorem geometry_hash_binds_geometry_witness:
  "tg_risk (demo_spec None) = tg_risk (demo_spec (Some 2001))"
proof -
  have "geometry_payload (demo_spec None) = geometry_payload (demo_spec (Some 2001))"
    by (simp add: demo_spec_def geometry_payload_def)
  then show ?thesis
    using geometry_hash_binds_geometry [of "\<lambda>j. if j = JNull then ''0'' else ''1''" "demo_spec None"
        "demo_spec (Some 2001)"] by (simp add: geometry_hash_def)
qed

theorem validated_spec_ladder_and_legs_witness:
  "\<exists>p. leg_price (demo_spec None) 2 = Inr p"
proof -
  have "validate_contract (demo_spec None) = Inr (demo_spec None)"
    unfolding validate_contract_Inr by (intro conjI, rule refl; code_simp)
  from validated_spec_ladder_and_legs [OF this, of 2] show ?thesis by simp
qed

text \<open>Attaching the actual fill is the only change it makes: on success the fill is positive, the
  geometry, the geometry hash and the provenance hash are unchanged, and a later call with a fill
  that differs by more than the tolerance is refused, so the recorded fill is written once.\<close>

theorem actual_fill_is_write_once:
  assumes "with_actual_fill cfg s fill = Inr s'"
  shows "0 < fill \<and> es_actual_fill (tg_entry s') = Some fill
     \<and> tg_geometry s' = tg_geometry s \<and> geometry_hash sha s' = geometry_hash sha s
     \<and> provenance_hash sha s' = provenance_hash sha s
     \<and> (\<bar>fsub fill other\<bar> > fl (1 / 10 ^ 12) \<and> 0 < other \<longrightarrow>
          with_actual_fill cfg' s' other
            = Inl (ValueError ''actual_fill is already set and cannot be overwritten''))"
proof -
  from assms have "s' = s\<lparr>tg_entry := (tg_entry s)\<lparr>es_actual_fill := Some fill\<rparr>\<rparr>" "0 < fill"
    by (simp_all add: with_actual_fill_Inr)
  then show ?thesis
    by (simp add: geometry_hash_def provenance_hash_def provenance_payload_def with_actual_fill_def Let_def)
qed

theorem actual_fill_is_write_once_witness:
  "with_actual_fill None (demo_spec (Some 2001)) 2002
     = Inl (ValueError ''actual_fill is already set and cannot be overwritten'')"
proof -
  have fill: "with_actual_fill None (demo_spec None) 2001 = Inr (demo_spec (Some 2001))"
    unfolding with_actual_fill_Inr by (simp add: demo_spec_def) code_simp
  have "\<bar>fsub 2001 2002\<bar> > fl (1 / 10 ^ 12) \<and> 0 < (2002 :: rat)" by code_simp
  then show ?thesis using actual_fill_is_write_once [OF fill] by blast
qed

text \<open>C3. The volume allocator returns three volumes that are never negative beyond the tolerance;
  without short legs each is positive and fillable; and their exact sum differs from the requested
  total by at most \<open>(total + 1) / 2 ^ 47\<close>, the float and decimal rounding of the split.\<close>

theorem allocation_conserves_volume:
  assumes ok: "allocate_leg_volumes tv (a1, a2, a3) vstep vmin short = Inr vs"
    and fl: "is_float tv" "is_float vstep" and a: "0 \<le> a1" "0 \<le> a2"
  shows "length vs = 3 \<and> (\<forall>v \<in> set vs. - fl (1 / 10 ^ 9) \<le> v)
     \<and> (\<not> short \<longrightarrow> (\<forall>v \<in> set vs. 0 < v \<and> fsub vmin (fl (1 / 10 ^ 9)) \<le> v))
     \<and> \<bar>sum_list vs - tv\<bar> \<le> (tv + 1) / 2 ^ 47"
proof -
  obtain leg1 leg2 leg3 where vs: "vs = [leg1, leg2, leg3]" and pos: "0 < tv" "0 < vstep"
    and l1: "leg1 = alloc_floor (dec_str vstep) (fmul tv a1)"
    and l2: "leg2 = alloc_floor (dec_str vstep) (fmul tv a2)"
    and l3: "leg3 = fl (dec_sub (dec_sub (dec_str tv) (dec_str leg1)) (dec_str leg2))"
    and m: "- fl (1 / 10 ^ 9) \<le> leg3"
    and s: "\<not> short \<Longrightarrow> \<forall>v\<in>set vs. 0 < v \<and> fsub vmin (fl (1 / 10 ^ 9)) \<le> v"
    by (rule allocate_leg_volumes_Inr [OF ok]) blast
  have n: "0 \<le> leg1" "0 \<le> leg2"
    unfolding l1 l2 using pos fl a by (auto intro!: alloc_floor_nonneg dec_str_pos fmul_nonneg)
  have f: "fl (dec_str leg1) = leg1" "fl (dec_str leg2) = leg2" "fl (dec_str tv) = tv"
    using fl by (simp_all add: l1 l2)
  have D: "0 \<le> dec_str leg1" "0 \<le> dec_str leg2" "0 < dec_str tv"
    using n fl pos by (auto intro!: dec_str_nonneg dec_str_pos simp: l1 l2)
  have "\<bar>leg1 + leg2 + leg3 - tv\<bar> \<le> (dec_str tv + 1) / 281474976710656"
    using remainder_error [of "dec_str tv" "dec_str leg1" "dec_str leg2", OF _ D(1,2) refl refl refl]
      D(3) m l3 f fl_eps_bounds by (simp add: dec_sub_def)
  moreover have "dec_str tv + 1 \<le> 2 * (tv + 1)"
    using fl_error_approx [of "dec_str tv", unfolded f(3)] D(3) pos(1)
    by (simp add: abs_le_iff)
  ultimately have "\<bar>sum_list vs - tv\<bar> \<le> (tv + 1) / 2 ^ 47"
    by (simp add: vs add.assoc)
  moreover have "\<forall>v \<in> set vs. - fl (1 / 10 ^ 9) \<le> v" using n m fl_eps_bounds by (auto simp: vs)
  ultimately show ?thesis using s by (simp add: vs)
qed

lemma alloc_values:
  "dec_str 4 = 4" "dec_str 1 = 1" "fmul 4 (1 / 4) = 1" "alloc_floor 1 1 = 1"
  "dec_sub 4 1 = 3" "dec_sub 3 1 = 2" "\<not> 2 < - fl (1 / 1000000000)" "\<not> 1 < fsub 1 (fl (1 / 1000000000))"
  "\<not> 2 < fsub 1 (fl (1 / 1000000000))"
  by code_simp+

theorem allocation_conserves_volume_witness:
  "\<bar>sum_list [1, 1, 2 :: rat] - 4\<bar> \<le> (4 + 1) / 2 ^ 47"
proof -
  have "allocate_leg_volumes 4 (1 / 4, 1 / 4, 1 / 2) 1 1 False = Inr [1, 1, 2]"
    by (simp add: allocate_leg_volumes_def Let_def alloc_values)
  from allocation_conserves_volume [OF this] show ?thesis by (simp add: is_float_def)
qed

lemma second_floor:
  assumes "0 \<le> k" and "k < 2 ^ 40" and "0 \<le> r" and "r < 1000"
  shows "\<lfloor>fdiv (of_int (1000 * k + r)) 1000\<rfloor> = k"
proof (rule floor_unique)
  let ?x = "rat_of_int (1000 * k + r) / 1000"
  have x: "?x = of_int k + of_int r / 1000" by (simp add: field_simps)
  have r: "0 \<le> rat_of_int r" "rat_of_int r \<le> 999" using assms of_int_le_iff [of r 999] by auto
  have k: "0 \<le> rat_of_int k" "rat_of_int k \<le> 1099511627776"
    using assms of_int_le_iff [of k 1099511627776] by auto
  show "of_int k \<le> fdiv (of_int (1000 * k + r)) 1000"
    unfolding fdiv_def using assms r x by (intro fl.ge_repr fl_of_int) auto
  show "fdiv (of_int (1000 * k + r)) 1000 < of_int k + 1"
  proof -
    have "\<bar>?x\<bar> \<le> 1099511627777" unfolding x using r k by linarith
    then have "\<bar>?x\<bar> / 9007199254740992 \<le> 1099511627777 / 9007199254740992"
      by (rule divide_right_mono) simp
    then have "\<bar>fl ?x - ?x\<bar> < 1 / 1000" using fl_error_approx [of ?x] by linarith
    then show ?thesis unfolding fdiv_def x using r by linarith
  qed
qed

text \<open>Group ids have one-second resolution: any two moments within the same second (up to the year
  of \<open>2 ^ 50\<close> milliseconds) get the same group id, so ids do not separate two groups created in
  the same second.\<close>

theorem group_ids_collide_within_a_second:
  assumes "0 \<le> k" and "k < 2 ^ 40" and "0 \<le> r" "r < 1000" and "0 \<le> r'" "r' < 1000"
  shows "new_group_id (1000 * k + r) = new_group_id (1000 * k + r')"
  using assms by (simp only: new_group_id_def compact_ts_def second_floor)

theorem group_ids_collide_within_a_second_witness:
  "new_group_id (1000 * 1755300000 + 0) = new_group_id (1000 * 1755300000 + 999)"
  by (rule group_ids_collide_within_a_second) simp_all

end
