(* ===== verification/Trade_Geometry.thy ===== *)
theory Trade_Geometry
  imports Trade_Group
begin

text \<open>
  The geometry engine, \<^verbatim>\<open>execution/trade_geometry.py\<close>, with the timeframe lookup of
  \<^verbatim>\<open>config/loader.py\<close> it uses: broker and cost snapshots, profiles, step and tick helpers,
  \<open>calculate_geometry\<close> with every rejection, the break-even levels, and the bridge from an ML
  signal to a validated specification. A configuration dictionary is a record of the keys the
  code reads, each an option; a present key with value \<open>None\<close> is the absent key, as
  \<^verbatim>\<open>get(...) or {}\<close> treats it.
\<close>

section \<open>Snapshots\<close>

record broker_snapshot =
  bs_symbol_point :: rat
  bs_tick_size :: rat
  bs_digits :: int
  bs_trade_stops_level :: int
  bs_trade_freeze_level :: int
  bs_spread :: rat
  bs_contract_size :: rat
  bs_volume_min :: rat
  bs_volume_max :: rat
  bs_volume_step :: rat
  bs_execution_mode :: string
  bs_account_margin_mode :: string
  bs_balance :: rat

definition min_stop_distance_price :: "broker_snapshot \<Rightarrow> rat" where
  "min_stop_distance_price b =
     (let points = max (bs_trade_stops_level b) (bs_trade_freeze_level b)
      in fadd (fmul (fl (of_int points)) (bs_symbol_point b)) (bs_spread b))"

record cost_snapshot =
  cs_round_trip_cost_price :: rat
  cs_safety_buffer_price :: rat
  cs_expected_exit_slippage :: rat
  cs_commission_buffer :: rat
  cs_status :: string
  cs_source :: string
  cs_source_id :: "string option"
  cs_as_of_utc_ms :: "int option"

definition all_costs_zero :: "rat \<Rightarrow> rat \<Rightarrow> rat \<Rightarrow> bool" where
  "all_costs_zero round_trip slippage commission \<longleftrightarrow> round_trip = 0 \<and> slippage = 0 \<and> commission = 0"

text \<open>The dataclass constructor with its \<^verbatim>\<open>__post_init__\<close>.\<close>

definition CostSnapshot ::
  "rat \<Rightarrow> rat \<Rightarrow> rat \<Rightarrow> rat \<Rightarrow> string option \<Rightarrow> string \<Rightarrow> string option \<Rightarrow> int option
     \<Rightarrow> cost_snapshot result" where
  "CostSnapshot round_trip safety slippage commission status source source_id as_of =
     (let zero = all_costs_zero round_trip slippage commission;
          st = (case status of Some s \<Rightarrow> s | None \<Rightarrow> if \<not> zero then ''estimated'' else ''unavailable'')
      in if st \<notin> {''observed'', ''estimated'', ''unavailable''}
           then Inl (ValueError ''invalid CostSnapshot status'')
         else if st = ''estimated'' \<and> zero
           then Inl (ValueError ''estimated CostSnapshot requires at least one non-zero cost'')
         else if st = ''observed'' \<and> (blank source \<or> source = ''unknown'')
           then Inl (ValueError ''observed CostSnapshot requires a real source'')
         else Inr \<lparr>cs_round_trip_cost_price = round_trip, cs_safety_buffer_price = safety,
           cs_expected_exit_slippage = slippage, cs_commission_buffer = commission,
           cs_status = st, cs_source = source, cs_source_id = source_id, cs_as_of_utc_ms = as_of\<rparr>)"

definition available :: "cost_snapshot \<Rightarrow> bool" where
  "available c \<longleftrightarrow> cs_status c \<in> {''observed'', ''estimated''}"

definition unavailable :: "cost_snapshot result" where
  "unavailable = CostSnapshot 0 0 0 0 (Some ''unavailable'') ''unknown'' None None"

definition from_observed ::
  "rat \<Rightarrow> rat \<Rightarrow> rat \<Rightarrow> string \<Rightarrow> int \<Rightarrow> rat \<Rightarrow> string \<Rightarrow> cost_snapshot result" where
  "from_observed spread expected_slippage commission source_id as_of safety source =
     CostSnapshot (py_round (fadd (fadd spread expected_slippage) commission) 10) safety
       expected_slippage commission (Some ''observed'') source (Some source_id) (Some as_of)"

section \<open>Profiles\<close>

record profile =
  pf_asset :: "string option"
  pf_validated :: bool
  pf_step_source :: "string option"
  pf_step_price_distance :: "rat option"
  pf_step_atr_mult :: "rat option"
  pf_step_min :: "rat option"
  pf_step_max :: "rat option"
  pf_tp1_mult :: "rat option"
  pf_tp2_mult :: "rat option"
  pf_tp3_mult :: "rat option"
  pf_stop_mult :: "rat option"
  pf_min_atr_pct :: "rat option"
  pf_max_atr_pct :: "rat option"
  pf_volume_total :: "rat option"
  pf_alloc1 :: "rat option"
  pf_alloc2 :: "rat option"
  pf_alloc3 :: "rat option"
  pf_risk_currency :: "string option"
  pf_max_cash :: "rat option"
  pf_max_pct :: "rat option"
  pf_geometry_version :: "string option"
  pf_unit :: "string option"
  pf_be_trigger :: "string option"
  pf_be_raw :: "string option"
  pf_be_protected :: "string option"
  pf_be_apply_to :: "int list option"

record config =
  cf_trade_profiles :: "(string \<times> profile) list"
  cf_asset_timeframe :: "string \<rightharpoonup> string"
  cf_market_timeframe :: "string option"
  cf_signal_ttl_ms :: "string \<rightharpoonup> int option"

definition resolve_profile :: "config \<Rightarrow> string \<Rightarrow> string option \<Rightarrow> profile result" where
  "resolve_profile cfg asset_key profile_id =
     rbind
       (case profile_id of
          Some pid \<Rightarrow> (case map_of (cf_trade_profiles cfg) pid of
              None \<Rightarrow> Inl (ValueError ''unknown trade profile'')
            | Some p \<Rightarrow> Inr p)
        | None \<Rightarrow> (case filter (\<lambda>p. pf_asset p = Some asset_key) (map snd (cf_trade_profiles cfg)) of
              [p] \<Rightarrow> Inr p
            | _ \<Rightarrow> Inl (ValueError ''cannot auto-resolve profile'')))
       (\<lambda>p. if pf_asset p \<noteq> Some asset_key then Inl (ValueError ''profile does not match asset'') else Inr p)"

definition validate_profile_gate :: "profile \<Rightarrow> unit result" where
  "validate_profile_gate p =
     (if \<not> pf_validated p then Inl (GeometryRejected ''PROFILE_NOT_VALIDATED'') else Inr ())"

section \<open>Step, ticks, reward\<close>

definition calculate_step :: "profile \<Rightarrow> rat \<Rightarrow> rat result" where
  "calculate_step p atr =
     rbind
       (let source = get_or ''atr'' (pf_step_source p)
        in if source = ''fixed'' then
             (case pf_step_price_distance p of None \<Rightarrow> Inl (KeyError ''price_distance'') | Some d \<Rightarrow> Inr d)
           else if source = ''atr'' then Inr (fmul atr (get_or 1 (pf_step_atr_mult p)))
           else Inl (ValueError ''unsupported step source''))
       (\<lambda>step0.
          let step1 = (case pf_step_min p of None \<Rightarrow> step0 | Some m \<Rightarrow> max step0 m);
              step = (case pf_step_max p of None \<Rightarrow> step1 | Some m \<Rightarrow> min step1 m)
          in if step \<le> 0 then Inl (GeometryRejected ''TP1_TOO_CLOSE_TO_COST'') else Inr step)"

definition align_to_tick :: "rat \<Rightarrow> rat \<Rightarrow> rat" where
  "align_to_tick price tick =
     (if tick \<le> 0 then price
      else py_round (fmul (fl (of_int (rhe (fdiv price tick)))) tick) 10)"

definition is_tick_aligned :: "rat \<Rightarrow> rat \<Rightarrow> bool" where
  "is_tick_aligned price tick =
     (if tick \<le> 0 then True
      else let quotient = fdiv price tick
           in \<bar>fsub quotient (fl (of_int (rhe quotient)))\<bar> < fl (1 / 10 ^ 9))"

definition terminal_points :: "rat \<Rightarrow> rat \<Rightarrow> rat result" where
  "terminal_points price_distance symbol_point =
     (if symbol_point \<le> 0 then Inl (ValueError ''symbol_point must be positive'')
      else Inr (fdiv price_distance symbol_point))"

fun gross_r_loop :: "rat \<Rightarrow> rat \<Rightarrow> rat \<Rightarrow> target_leg list \<Rightarrow> rat" where
  "gross_r_loop entry risk tot [] = tot"
| "gross_r_loop entry risk tot (t # ts) =
     gross_r_loop entry risk
       (fadd tot (fmul (fdiv \<bar>fsub (tl_price t) entry\<bar> risk) (tl_allocation t))) ts"

definition calculate_gross_r :: "rat \<Rightarrow> rat \<Rightarrow> target_leg list \<Rightarrow> rat" where
  "calculate_gross_r entry sl targets =
     (let risk = \<bar>fsub entry sl\<bar> in if risk \<le> 0 then 0 else gross_r_loop entry risk 0 targets)"

section \<open>Geometry\<close>

record geometry_output =
  go_step_price :: rat
  go_tp1 :: rat
  go_tp2 :: rat
  go_tp3 :: rat
  go_sl :: rat
  go_gross_r :: rat
  go_estimated_loss_at_sl :: rat
  go_leg_volumes :: "rat list"

definition direction :: "side \<Rightarrow> rat" where
  "direction s = (case s of Long \<Rightarrow> 1 | Short \<Rightarrow> -1)"

definition third :: rat where
  "third = fdiv 1 3"

definition profile_allocations :: "profile \<Rightarrow> rat \<times> rat \<times> rat" where
  "profile_allocations p = (get_or third (pf_alloc1 p), get_or third (pf_alloc2 p), get_or third (pf_alloc3 p))"

text \<open>\<^verbatim>\<open>align_to_tick(reference + direction * step * mult, tick)\<close> and the stop on the other side.\<close>

definition target_level :: "side \<Rightarrow> rat \<Rightarrow> rat \<Rightarrow> rat \<Rightarrow> rat \<Rightarrow> rat" where
  "target_level s reference step mult tick =
     align_to_tick (fadd reference (fmul (fmul (direction s) step) mult)) tick"

definition stop_level :: "side \<Rightarrow> rat \<Rightarrow> rat \<Rightarrow> rat \<Rightarrow> rat \<Rightarrow> rat" where
  "stop_level s reference step mult tick =
     align_to_tick (fsub reference (fmul (fmul (direction s) step) mult)) tick"

definition make_targets :: "rat \<Rightarrow> rat \<Rightarrow> rat \<Rightarrow> rat \<times> rat \<times> rat \<Rightarrow> target_leg list result" where
  "make_targets tp1 tp2 tp3 allocations =
     (let (a1, a2, a3) = allocations
      in rbind (TargetLegSpec 1 tp1 a1) (\<lambda>t1. rbind (TargetLegSpec 2 tp2 a2) (\<lambda>t2.
         rbind (TargetLegSpec 3 tp3 a3) (\<lambda>t3. Inr [t1, t2, t3]))))"

text \<open>The admission checks after the levels are fixed, in the order of the code.\<close>

definition check_levels ::
  "profile \<Rightarrow> rat \<Rightarrow> rat \<Rightarrow> broker_snapshot \<Rightarrow> cost_snapshot \<Rightarrow> rat \<Rightarrow> rat \<Rightarrow> rat \<Rightarrow> rat
     \<Rightarrow> unit result" where
  "check_levels p reference atr broker cost tp1 tp2 tp3 sl =
     (if list_ex (\<lambda>price. \<not> is_tick_aligned price (bs_tick_size broker)) [tp1, tp2, tp3, sl]
        then Inl (GeometryRejected ''INVALID_TICK_ALIGNMENT'')
      else if \<bar>fsub sl reference\<bar> < fsub (min_stop_distance_price broker) (fl (1 / 10 ^ 9))
        then Inl (GeometryRejected ''STOP_BELOW_BROKER_MIN_DISTANCE'')
      else if \<bar>fsub tp1 reference\<bar>
          \<le> fadd (fadd (cs_round_trip_cost_price cost) (cs_safety_buffer_price cost)) (fl (1 / 10 ^ 9))
        then Inl (GeometryRejected ''TP1_TOO_CLOSE_TO_COST'')
      else if reference = 0 then Inl ZeroDivisionError
      else
        let atr_pct = fdiv atr reference
        in if atr_pct < get_or (fl (5 / 10000)) (pf_min_atr_pct p)
              \<or> atr_pct > get_or (fl (3 / 100)) (pf_max_atr_pct p)
           then Inl (GeometryRejected ''TP1_TOO_CLOSE_TO_COST'')
           else Inr ())"

definition check_volume_and_risk ::
  "profile \<Rightarrow> rat \<Rightarrow> broker_snapshot \<Rightarrow> rat option \<Rightarrow> rat \<Rightarrow> (rat list \<times> rat) result" where
  "check_volume_and_risk p reference broker balance sl =
     (let total_volume = get_or 0 (pf_volume_total p)
      in if total_volume \<le> 0 then Inl (GeometryRejected ''INSUFFICIENT_VOLUME_FOR_THREE_LEGS'')
         else case allocate_leg_volumes total_volume (profile_allocations p)
                (bs_volume_step broker) (bs_volume_min broker) False of
           Inl _ \<Rightarrow> Inl (GeometryRejected ''INSUFFICIENT_VOLUME_FOR_THREE_LEGS'')
         | Inr leg_volumes \<Rightarrow>
             let estimated_loss =
                   fmul (fmul total_volume \<bar>fsub sl reference\<bar>) (bs_contract_size broker);
                 max_cash = get_or 0 (pf_max_cash p); max_pct = get_or 0 (pf_max_pct p)
             in if max_cash \<le> 0 then Inl (GeometryRejected ''RISK_LIMIT_EXCEEDED'')
                else if \<not> fst (check_group_risk estimated_loss max_cash max_pct
                           (get_or (bs_balance broker) balance))
                  then Inl (GeometryRejected ''RISK_LIMIT_EXCEEDED'')
                else Inr (leg_volumes, estimated_loss))"

definition calculate_geometry ::
  "profile \<Rightarrow> side \<Rightarrow> rat \<Rightarrow> rat \<Rightarrow> broker_snapshot \<Rightarrow> cost_snapshot \<Rightarrow> rat option
     \<Rightarrow> geometry_output result" where
  "calculate_geometry p s reference atr broker cost balance =
     rbind (validate_profile_gate p) (\<lambda>_.
     if \<not> available cost then Inl (GeometryRejected ''COST_DATA_UNAVAILABLE'') else
     rbind (calculate_step p atr) (\<lambda>step.
       let tick = bs_tick_size broker;
           tp1 = target_level s reference step (get_or 1 (pf_tp1_mult p)) tick;
           tp2 = target_level s reference step (get_or 2 (pf_tp2_mult p)) tick;
           tp3 = target_level s reference step (get_or 3 (pf_tp3_mult p)) tick;
           sl = stop_level s reference step (get_or 2 (pf_stop_mult p)) tick
       in rbind (check_levels p reference atr broker cost tp1 tp2 tp3 sl) (\<lambda>_.
          rbind (check_volume_and_risk p reference broker balance sl) (\<lambda>(leg_volumes, loss).
          rbind (make_targets tp1 tp2 tp3 (profile_allocations p)) (\<lambda>targets.
            Inr \<lparr>go_step_price = step, go_tp1 = tp1, go_tp2 = tp2, go_tp3 = tp3, go_sl = sl,
                 go_gross_r = calculate_gross_r reference sl targets,
                 go_estimated_loss_at_sl = loss, go_leg_volumes = leg_volumes\<rparr>)))))"

section \<open>Break-even\<close>

definition tick_ceil :: "rat \<Rightarrow> rat \<Rightarrow> rat" where
  "tick_ceil tick price = py_round (fmul (fl (of_int \<lceil>fdiv price tick\<rceil>)) tick) 12"

definition tick_floor :: "rat \<Rightarrow> rat \<Rightarrow> rat" where
  "tick_floor tick price = py_round (fmul (fl (of_int \<lfloor>fdiv price tick\<rfloor>)) tick) 12"

text \<open>The pair of the raw and the protected price; the other entries of the returned dictionary
  are constants.\<close>

definition compute_break_even ::
  "side \<Rightarrow> rat \<Rightarrow> cost_snapshot \<Rightarrow> broker_snapshot \<Rightarrow> (rat \<times> rat) result" where
  "compute_break_even s actual_fill cost broker =
     (let raw = actual_fill;
          protection = fadd (fadd (bs_spread broker) (cs_expected_exit_slippage cost))
                         (cs_commission_buffer cost);
          tick = bs_tick_size broker;
          protected = fadd raw (fmul (direction s) protection)
      in if tick = 0 then Inl ZeroDivisionError
         else case s of
           Long \<Rightarrow> Inr (tick_ceil tick raw, tick_ceil tick (max protected raw))
         | Short \<Rightarrow> Inr (tick_floor tick raw, tick_floor tick (min protected raw)))"

section \<open>From a signal to a specification\<close>

definition DEFAULT_TIMEFRAME :: string where
  "DEFAULT_TIMEFRAME = ''M5''"

definition nonempty :: "string option \<Rightarrow> bool" where
  "nonempty v \<longleftrightarrow> (case v of None \<Rightarrow> False | Some x \<Rightarrow> x \<noteq> [])"

definition resolve_asset_timeframe :: "config \<Rightarrow> string option \<Rightarrow> string option \<Rightarrow> string" where
  "resolve_asset_timeframe cfg asset_key override =
     (if nonempty override then the override
      else
        let tf = (if nonempty asset_key then cf_asset_timeframe cfg (the asset_key) else None)
        in if nonempty tf then the tf
           else if nonempty (cf_market_timeframe cfg) then the (cf_market_timeframe cfg)
           else DEFAULT_TIMEFRAME)"

definition DEFAULT_SIGNAL_TTL_MS :: int where
  "DEFAULT_SIGNAL_TTL_MS = 2 * 3600 * 1000"

text \<open>A value of the TTL table is \<open>None\<close> when \<^verbatim>\<open>int(...)\<close> of it raises.\<close>

definition resolve_signal_ttl_ms :: "config \<Rightarrow> string \<Rightarrow> int result" where
  "resolve_signal_ttl_ms cfg asset_key =
     (let tf = resolve_asset_timeframe cfg (Some asset_key) None;
          default_ttl = get_or (Some DEFAULT_SIGNAL_TTL_MS) (cf_signal_ttl_ms cfg ''default'');
          to_ttl = (\<lambda>v. case v of None \<Rightarrow> Inl (TypeError ''int'') | Some n \<Rightarrow> Inr (max 1 n))
      in case to_ttl (get_or default_ttl (cf_signal_ttl_ms cfg tf)) of
           Inr n \<Rightarrow> Inr n
         | Inl _ \<Rightarrow> to_ttl default_ttl)"

record signal =
  sg_bias :: "string option"
  sg_entry_reference :: "rat option"
  sg_reference_price :: "rat option"
  sg_entry_zone :: "rat list option"
  sg_expires_at_utc_ms :: "int option"
  sg_expires_at_utc :: "int option"
  sg_atr :: "rat option"
  sg_signal_id :: "string option"
  sg_intent_id :: "string option"
  sg_broker_symbol :: "string option"
  sg_model_version :: "string option"
  sg_model_hash :: "string option"
  sg_model_path :: "string option"
  sg_config_hash :: "string option"
  sg_strategy_version :: "string option"
  sg_market_snapshot_id :: "string option"
  sg_feature_snapshot_id :: "string option"
  sg_model_inference_id :: "string option"
  sg_broker_snapshot_id :: "string option"

text \<open>\<^verbatim>\<open>a or b or 0\<close> on numbers: a missing value and zero are falsy.\<close>

definition or_num :: "'a :: zero option \<Rightarrow> 'a \<Rightarrow> 'a" where
  "or_num v d = (case v of None \<Rightarrow> d | Some x \<Rightarrow> if x = 0 then d else x)"

definition signal_side :: "signal \<Rightarrow> side result" where
  "signal_side sg =
     (if sg_bias sg = Some ''long'' then Inr Long
      else if sg_bias sg = Some ''short'' then Inr Short
      else Inl (GeometryRejected ''INVALID_SIGNAL_SIDE''))"

definition zone_list :: "signal \<Rightarrow> rat list" where
  "zone_list sg = get_or [] (sg_entry_zone sg)"

definition signal_reference :: "signal \<Rightarrow> rat result" where
  "signal_reference sg =
     (let r0 = or_num (sg_entry_reference sg) (or_num (sg_reference_price sg) 0);
          r1 = (if r0 \<le> 0 then
                  (case zone_list sg of [a, b] \<Rightarrow> fdiv (fadd a b) 2 | _ \<Rightarrow> r0)
                else r0)
      in if r1 \<le> 0 then Inl (GeometryRejected ''INVALID_ENTRY'') else Inr r1)"

text \<open>The entry zone clipped so that it contains the reference; a one-element zone makes the read
  of its second bound raise.\<close>

definition entry_bounds :: "signal \<Rightarrow> rat \<Rightarrow> (rat \<times> rat) result" where
  "entry_bounds sg reference =
     (case zone_list sg of
        [] \<Rightarrow> Inr (reference, reference)
      | [_] \<Rightarrow> Inl IndexError
      | a # b # _ \<Rightarrow> Inr (if a > reference then reference else a,
                         if b < reference then reference else b))"

definition pick_profile_id :: "config \<Rightarrow> string \<Rightarrow> string option \<Rightarrow> string result" where
  "pick_profile_id cfg asset_key profile_id =
     (case profile_id of
        Some pid \<Rightarrow> Inr pid
      | None \<Rightarrow> (case map fst (filter (\<lambda>(k, p). pf_asset p = Some asset_key) (cf_trade_profiles cfg)) of
            [k] \<Rightarrow> Inr k
          | _ \<Rightarrow> Inl (ValueError ''cannot auto-resolve profile'')))"

definition snapshot_id :: "string \<Rightarrow> string option \<Rightarrow> string \<Rightarrow> rat \<Rightarrow> string" where
  "snapshot_id tag given asset_key reference =
     or_str given (tag @ '':'' @ asset_key @ '':'' @ show_int (trunc (fmul reference 1000)))"

definition signal_model_hash :: "signal \<Rightarrow> string" where
  "signal_model_hash sg = or_str (sg_model_hash sg) (or_str (sg_model_path sg) ''unknown'')"

definition signal_provenance ::
  "signal \<Rightarrow> string \<Rightarrow> string \<Rightarrow> rat \<Rightarrow> cost_snapshot \<Rightarrow> int \<Rightarrow> string \<rightharpoonup> string" where
  "signal_provenance sg asset_key pid reference cost now =
     [''market_snapshot_id'' \<mapsto> snapshot_id ''MARKET'' (sg_market_snapshot_id sg) asset_key reference,
      ''feature_snapshot_id'' \<mapsto> snapshot_id ''FEATURE'' (sg_feature_snapshot_id sg) asset_key reference,
      ''model_inference_id'' \<mapsto> snapshot_id ''INFERENCE'' (sg_model_inference_id sg) asset_key reference,
      ''model_hash'' \<mapsto> signal_model_hash sg,
      ''profile_id'' \<mapsto> pid,
      ''broker_snapshot_id'' \<mapsto> snapshot_id ''BROKER'' (sg_broker_snapshot_id sg) asset_key reference,
      ''cost_snapshot_id'' \<mapsto> or_str (cs_source_id cost) (''COST:'' @ asset_key @ '':'' @ show_int now),
      ''geometry_hash'' \<mapsto> ''PLACEHOLDER'',
      ''provenance_hash'' \<mapsto> ''PLACEHOLDER'']"

text \<open>The construction of the specification object from the parts, with the validators of the
  nested objects in argument order.\<close>

definition assemble_spec ::
  "signal \<Rightarrow> string \<Rightarrow> string \<Rightarrow> profile \<Rightarrow> mode \<Rightarrow> side \<Rightarrow> rat \<Rightarrow> rat \<times> rat \<Rightarrow> geometry_output
     \<Rightarrow> cost_snapshot \<Rightarrow> int \<Rightarrow> int result \<Rightarrow> trade_group_spec result" where
  "assemble_spec sg asset_key pid p md s reference bounds g cost now expires =
     rbind (EntrySpec (fst bounds) (snd bounds) reference None) (\<lambda>entry.
     rbind (Geometry (get_or (pid @ ''_v1'') (pf_geometry_version p)) (get_or ''price'' (pf_unit p))
              (go_step_price g) (go_tp1 g) (go_tp2 g) (go_tp3 g) (go_sl g)) (\<lambda>geom.
     rbind (make_targets (go_tp1 g) (go_tp2 g) (go_tp3 g) (profile_allocations p)) (\<lambda>targets.
     rbind (BreakEvenPolicy (get_or ''tp1_filled'' (pf_be_trigger p)) (get_or ''actual_fill'' (pf_be_raw p))
              (get_or ''actual_fill_plus_cost_buffer'' (pf_be_protected p))
              (get_or [2, 3] (pf_be_apply_to p))) (\<lambda>be.
     rbind (GroupRisk (get_or ''USD'' (pf_risk_currency p)) (get_or 0 (pf_max_cash p))
              (get_or 0 (pf_max_pct p)) (go_estimated_loss_at_sl g) (get_or 0 (pf_volume_total p))) (\<lambda>risk.
     rbind expires (\<lambda>expires_at.
     validate_contract
       \<lparr>tg_schema_version = GROUP_SCHEMA_VERSION, tg_group_id = new_group_id now,
        tg_signal_id = or_str (sg_signal_id sg) (''legacy:'' @ asset_key @ '':'' @ show_int now),
        tg_intent_id = or_str (sg_intent_id sg) (new_intent_id now),
        tg_asset_key = asset_key, tg_broker_symbol = or_str (sg_broker_symbol sg) asset_key,
        tg_mode = md, tg_side = s, tg_entry = entry, tg_geometry = geom, tg_targets = targets,
        tg_break_even = be, tg_risk = risk, tg_profile_id = pid,
        tg_model_version = or_str (sg_model_version sg) ''unknown'',
        tg_model_hash = signal_model_hash sg,
        tg_config_hash = or_str (sg_config_hash sg) ''unknown'',
        tg_strategy_version = or_str (sg_strategy_version sg) ''unknown'',
        tg_expires_at_utc_ms = expires_at, tg_created_at_utc_ms = now,
        tg_provenance = signal_provenance sg asset_key pid reference cost now\<rparr>))))))"

definition stamp_hashes :: "(json \<Rightarrow> string) \<Rightarrow> trade_group_spec \<Rightarrow> trade_group_spec" where
  "stamp_hashes sha spec =
     (let spec1 = spec\<lparr>tg_provenance := (tg_provenance spec)(''geometry_hash'' \<mapsto> geometry_hash sha spec)\<rparr>
      in spec1\<lparr>tg_provenance := (tg_provenance spec1)(''provenance_hash'' \<mapsto> provenance_hash sha spec1)\<rparr>)"

definition build_trade_group_from_signal ::
  "(json \<Rightarrow> string) \<Rightarrow> signal \<Rightarrow> config \<Rightarrow> string \<Rightarrow> string option \<Rightarrow> broker_snapshot
     \<Rightarrow> cost_snapshot \<Rightarrow> mode \<Rightarrow> int \<Rightarrow> rat option \<Rightarrow> trade_group_spec result" where
  "build_trade_group_from_signal sha sg cfg asset_key profile_id broker cost md now balance =
     rbind (signal_side sg) (\<lambda>s.
     rbind (pick_profile_id cfg asset_key profile_id) (\<lambda>pid.
     rbind (resolve_profile cfg asset_key (Some pid)) (\<lambda>p.
     rbind (validate_profile_gate p) (\<lambda>_.
     rbind (signal_reference sg) (\<lambda>reference.
       let expires_at = or_num (sg_expires_at_utc_ms sg) (or_num (sg_expires_at_utc sg) 0);
           atr = or_num (sg_atr sg) 0
       in if expires_at > 0 \<and> \<not> check_group_not_expired expires_at now
            then Inl (GeometryRejected ''SIGNAL_EXPIRED'')
          else if atr \<le> 0 then Inl (GeometryRejected ''TP1_TOO_CLOSE_TO_COST'')
          else
            rbind (calculate_geometry p s reference atr broker cost balance) (\<lambda>g.
            rbind (entry_bounds sg reference) (\<lambda>bounds.
            rbind (assemble_spec sg asset_key pid p md s reference bounds g cost now
                     (if expires_at \<noteq> 0 then Inr expires_at
                      else rbind (resolve_signal_ttl_ms cfg asset_key) (\<lambda>ttl. Inr (now + ttl))))
              (\<lambda>spec. Inr (stamp_hashes sha spec)))))))))"

text \<open>A concrete profile, broker, cost snapshot and signal, used by the witnesses.\<close>

definition demo_profile :: profile where
  "demo_profile = \<lparr>pf_asset = Some ''XAUUSD'', pf_validated = True, pf_step_source = Some ''fixed'',
     pf_step_price_distance = Some 4, pf_step_atr_mult = None, pf_step_min = None, pf_step_max = None,
     pf_tp1_mult = None, pf_tp2_mult = None, pf_tp3_mult = None, pf_stop_mult = None,
     pf_min_atr_pct = None, pf_max_atr_pct = None, pf_volume_total = Some 4,
     pf_alloc1 = Some (1 / 4), pf_alloc2 = Some (1 / 4), pf_alloc3 = Some (1 / 2),
     pf_risk_currency = None, pf_max_cash = Some 100, pf_max_pct = Some (1 / 4),
     pf_geometry_version = None, pf_unit = None, pf_be_trigger = None, pf_be_raw = None,
     pf_be_protected = None, pf_be_apply_to = None\<rparr>"

definition demo_broker :: broker_snapshot where
  "demo_broker = \<lparr>bs_symbol_point = 1, bs_tick_size = 1, bs_digits = 0, bs_trade_stops_level = 0,
     bs_trade_freeze_level = 0, bs_spread = 1, bs_contract_size = 1, bs_volume_min = 1,
     bs_volume_max = 100, bs_volume_step = 1, bs_execution_mode = ''market'',
     bs_account_margin_mode = ''hedging'', bs_balance = 0\<rparr>"

definition demo_cost :: cost_snapshot where
  "demo_cost = \<lparr>cs_round_trip_cost_price = 1, cs_safety_buffer_price = 0,
     cs_expected_exit_slippage = 1, cs_commission_buffer = 0, cs_status = ''estimated'',
     cs_source = ''profile'', cs_source_id = None, cs_as_of_utc_ms = None\<rparr>"

definition demo_output :: geometry_output where
  "demo_output = \<lparr>go_step_price = 4, go_tp1 = 2004, go_tp2 = 2008, go_tp3 = 2012, go_sl = 1992,
     go_gross_r = 9 / 8, go_estimated_loss_at_sl = 32, go_leg_volumes = [1, 1, 2]\<rparr>"

definition demo_config :: config where
  "demo_config = \<lparr>cf_trade_profiles = [(''xau'', demo_profile)], cf_asset_timeframe = Map.empty,
     cf_market_timeframe = None, cf_signal_ttl_ms = Map.empty\<rparr>"

definition demo_signal :: signal where
  "demo_signal = \<lparr>sg_bias = Some ''long'', sg_entry_reference = Some 2000, sg_reference_price = None,
     sg_entry_zone = None, sg_expires_at_utc_ms = None, sg_expires_at_utc = None, sg_atr = Some 10,
     sg_signal_id = Some ''S'', sg_intent_id = Some ''I'', sg_broker_symbol = None,
     sg_model_version = None, sg_model_hash = None, sg_model_path = None, sg_config_hash = None,
     sg_strategy_version = None, sg_market_snapshot_id = None, sg_feature_snapshot_id = None,
     sg_model_inference_id = None, sg_broker_snapshot_id = None\<rparr>"

section \<open>Tick and break-even lemmas\<close>

lemma align_mono: "x \<le> y \<Longrightarrow> align_to_tick x t \<le> align_to_tick y t"
  unfolding align_to_tick_def
  by (auto intro!: py_round_mono fmul_mono fl.mono rhe_mono simp: fdiv_def divide_right_mono)

lemma tick_ceil_mono: "0 < t \<Longrightarrow> x \<le> y \<Longrightarrow> tick_ceil t x \<le> tick_ceil t y"
  unfolding tick_ceil_def
  by (auto intro!: py_round_mono fmul_mono fl.mono ceiling_mono simp: fdiv_def divide_right_mono)

lemma tick_floor_mono: "0 < t \<Longrightarrow> x \<le> y \<Longrightarrow> tick_floor t x \<le> tick_floor t y"
  unfolding tick_floor_def
  by (auto intro!: py_round_mono fmul_mono fl.mono floor_mono simp: fdiv_def divide_right_mono)

lemma fmul_mono_both: "0 \<le> c \<Longrightarrow> a \<le> b \<Longrightarrow> fmul c a \<le> fmul c b"
  by (simp add: fmul_def fl.mono mult_left_mono)

lemma fmul_one: "fmul 1 x = fl x" "fmul (- 1) x = - fl x"
  by (simp_all add: fmul_def fl.odd_rd)

lemma fmul_minus: "fmul (- x) y = - fmul x y"
  by (simp add: fmul_def fl.odd_rd)

lemma target_level_mono:
  assumes "0 \<le> step" and "m \<le> m'"
  shows "target_level Long r step m t \<le> target_level Long r step m' t"
    and "target_level Short r step m' t \<le> target_level Short r step m t"
  using assms
  by (auto intro!: align_mono fadd_mono fmul_mono_both fl.nonneg
      simp: target_level_def direction_def fmul_one fmul_minus)

lemma levels_around_reference:
  assumes "0 \<le> step" and "0 \<le> m" and "is_float r"
  shows "align_to_tick r t \<le> target_level Long r step m t"
    and "target_level Short r step m t \<le> align_to_tick r t"
    and "stop_level Long r step m t \<le> align_to_tick r t"
    and "align_to_tick r t \<le> stop_level Short r step m t"
proof -
  have q: "0 \<le> fmul (fl step) m" using assms by (intro fmul_nonneg fl.nonneg)
  have r: "fl r = r" using assms by (simp add: is_float_def)
  have "r \<le> fadd r (fmul (fl step) m)" "fsub r (fmul (fl step) m) \<le> r"
    using q r by (auto simp: fadd_def fsub_def intro: fl.ge_repr fl.le_repr)
  then show "align_to_tick r t \<le> target_level Long r step m t"
    and "target_level Short r step m t \<le> align_to_tick r t"
    and "stop_level Long r step m t \<le> align_to_tick r t"
    and "align_to_tick r t \<le> stop_level Short r step m t"
    by (auto intro!: align_mono simp: target_level_def stop_level_def direction_def fmul_one
        fmul_minus fadd_def fsub_def)
qed

section \<open>Lemmas on the geometry and the bridge\<close>

lemma calculate_step_pos: "calculate_step p atr = Inr step \<Longrightarrow> 0 < step"
  by (auto simp: calculate_step_def Let_def rbind_Inr split: if_splits option.splits)

lemma check_group_risk_ok:
  "fst (check_group_risk loss max_cash max_pct balance) \<longleftrightarrow>
     loss \<le> fadd max_cash (fl (1 / 10 ^ 9))
     \<and> (0 < balance \<longrightarrow> loss \<le> fadd (fmul max_pct balance) (fl (1 / 10 ^ 9)))"
  by (auto simp: check_group_risk_def not_less)

lemma check_levels_ok:
  "check_levels p r atr b c tp1 tp2 tp3 sl = Inr u \<Longrightarrow>
     (\<forall>l \<in> {tp1, tp2, tp3, sl}. is_tick_aligned l (bs_tick_size b))
     \<and> fsub (min_stop_distance_price b) (fl (1 / 10 ^ 9)) \<le> \<bar>fsub sl r\<bar>
     \<and> fadd (fadd (cs_round_trip_cost_price c) (cs_safety_buffer_price c)) (fl (1 / 10 ^ 9))
         < \<bar>fsub tp1 r\<bar>
     \<and> r \<noteq> 0 \<and> get_or (fl (5 / 10000)) (pf_min_atr_pct p) \<le> fdiv atr r
     \<and> fdiv atr r \<le> get_or (fl (3 / 100)) (pf_max_atr_pct p)"
  by (auto simp: check_levels_def Let_def not_less not_le split: if_splits)

lemma check_volume_and_risk_ok:
  assumes "check_volume_and_risk p r b balance sl = Inr (vols, loss)"
  shows "allocate_leg_volumes (get_or 0 (pf_volume_total p)) (profile_allocations p)
           (bs_volume_step b) (bs_volume_min b) False = Inr vols
     \<and> loss = fmul (fmul (get_or 0 (pf_volume_total p)) \<bar>fsub sl r\<bar>) (bs_contract_size b)
     \<and> 0 < get_or 0 (pf_max_cash p)
     \<and> fst (check_group_risk loss (get_or 0 (pf_max_cash p)) (get_or 0 (pf_max_pct p))
             (get_or (bs_balance b) balance))"
  using assms
  by (auto simp: check_volume_and_risk_def Let_def not_less not_le split: if_splits sum.splits)

text \<open>What a successful \<open>calculate_geometry\<close> went through.\<close>

lemma calculate_geometry_Inr:
  assumes "calculate_geometry p s r atr b c balance = Inr g"
  obtains "pf_validated p" and "available c" and "calculate_step p atr = Inr (go_step_price g)"
    and "go_tp1 g = target_level s r (go_step_price g) (get_or 1 (pf_tp1_mult p)) (bs_tick_size b)"
    and "go_tp2 g = target_level s r (go_step_price g) (get_or 2 (pf_tp2_mult p)) (bs_tick_size b)"
    and "go_tp3 g = target_level s r (go_step_price g) (get_or 3 (pf_tp3_mult p)) (bs_tick_size b)"
    and "go_sl g = stop_level s r (go_step_price g) (get_or 2 (pf_stop_mult p)) (bs_tick_size b)"
    and "check_levels p r atr b c (go_tp1 g) (go_tp2 g) (go_tp3 g) (go_sl g) = Inr ()"
    and "check_volume_and_risk p r b balance (go_sl g) = Inr (go_leg_volumes g, go_estimated_loss_at_sl g)"
  using assms
  by (auto simp: calculate_geometry_def validate_profile_gate_def Let_def rbind_Inr split: if_splits)

lemma or_str_nonempty: "d \<noteq> [] \<Longrightarrow> or_str v d \<noteq> []"
  by (auto simp: or_str_def split: option.splits)

lemma stamp_hashes_fields [simp]:
  "geometry_hash sha (stamp_hashes sha' s) = geometry_hash sha s"
  "provenance_hash sha (stamp_hashes sha' s) = provenance_hash sha s"
  "identity_fields (stamp_hashes sha' s) = identity_fields s"
  "tg_expires_at_utc_ms (stamp_hashes sha' s) = tg_expires_at_utc_ms s"
  "tg_side (stamp_hashes sha' s) = tg_side s"
  "tg_geometry (stamp_hashes sha' s) = tg_geometry s"
  "tg_risk (stamp_hashes sha' s) = tg_risk s"
  "tg_entry (stamp_hashes sha' s) = tg_entry s"
  "tg_targets (stamp_hashes sha' s) = tg_targets s"
  by (simp_all add: stamp_hashes_def Let_def geometry_hash_def geometry_payload_def
      provenance_hash_def provenance_payload_def lineage_keys_def identity_fields_def)

lemma stamp_hashes_valid:
  "validate_contract s = Inr s \<Longrightarrow> validate_contract (stamp_hashes sha s) = Inr (stamp_hashes sha s)"
  by (simp add: validate_contract_Inr)

lemma stamp_hashes_provenance:
  "tg_provenance (stamp_hashes sha s) k =
     (if k = ''provenance_hash'' then Some (provenance_hash sha s)
      else if k = ''geometry_hash'' then Some (geometry_hash sha s) else tg_provenance s k)"
  by (simp add: stamp_hashes_def Let_def provenance_hash_def provenance_payload_def lineage_keys_def)

lemma signal_provenance_truthy:
  assumes "pid \<noteq> []" and "k \<in> set required_ids"
  shows "\<not> falsy (signal_provenance sg asset pid r c now k)"
proof -
  have "\<not> falsy (Some (or_str v d))" if "d \<noteq> []" for v d using that by (simp add: falsy_def or_str_nonempty)
  moreover have "\<not> falsy (Some x)" if "x \<noteq> []" for x using that by (simp add: falsy_def)
  ultimately show ?thesis
    using assms unfolding required_ids_def signal_provenance_def snapshot_id_def signal_model_hash_def
    by (auto simp: or_str_nonempty)
qed

lemma stamped_provenance_accepted:
  assumes "tg_provenance s = signal_provenance sg asset pid r c now" and "pid \<noteq> []" and "\<And>j. sha j \<noteq> []"
  shows "require_execution_provenance sha (stamp_hashes sha s) = Inr ()"
proof -
  have "\<not> falsy (tg_provenance (stamp_hashes sha s) k)" if "k \<in> set required_ids" for k
    unfolding stamp_hashes_provenance
    using signal_provenance_truthy [OF assms(2) that] assms(1,3)
    by (simp add: falsy_def geometry_hash_def provenance_hash_def)
  then have "filter (\<lambda>k. falsy (tg_provenance (stamp_hashes sha s) k)) required_ids = []"
    by (simp add: filter_empty_conv)
  then show ?thesis
    by (simp add: require_execution_provenance_def stamp_hashes_provenance)
qed

lemma assemble_spec_Inr:
  assumes "assemble_spec sg asset pid p md s r bounds g c now expires = Inr spec"
  shows "validate_contract spec = Inr spec
     \<and> tg_provenance spec = signal_provenance sg asset pid r c now
     \<and> tg_profile_id spec = pid \<and> expires = Inr (tg_expires_at_utc_ms spec)
     \<and> gr_estimated_loss_at_sl (tg_risk spec) = go_estimated_loss_at_sl g
     \<and> gr_max_cash (tg_risk spec) = get_or 0 (pf_max_cash p)
     \<and> es_reference (tg_entry spec) = r \<and> tg_side spec = s"
  using assms
  by (auto simp: assemble_spec_def rbind_Inr validate_contract_Inr EntrySpec_def GroupRisk_def split: if_splits)

lemma build_Inr:
  assumes "build_trade_group_from_signal sha sg cfg asset pid b c md now balance = Inr spec"
  obtains s pid' p r g bounds spec0 where
    "signal_side sg = Inr s" and "resolve_profile cfg asset (Some pid') = Inr p"
    and "signal_reference sg = Inr r"
    and "calculate_geometry p s r (or_num (sg_atr sg) 0) b c balance = Inr g"
    and "let e = or_num (sg_expires_at_utc_ms sg) (or_num (sg_expires_at_utc sg) 0)
         in (e > 0 \<longrightarrow> now \<le> e)
            \<and> assemble_spec sg asset pid' p md s r bounds g c now
                (if e \<noteq> 0 then Inr e
                 else rbind (resolve_signal_ttl_ms cfg asset) (\<lambda>ttl. Inr (now + ttl))) = Inr spec0"
    and "spec = stamp_hashes sha spec0"
  using assms
  by (auto simp: build_trade_group_from_signal_def check_group_not_expired_def Let_def rbind_Inr
      not_less not_le split: if_splits)

lemma ttl_positive: "resolve_signal_ttl_ms cfg asset = Inr ttl \<Longrightarrow> 1 \<le> ttl"
  by (auto simp: resolve_signal_ttl_ms_def Let_def split: sum.splits option.splits)

lemma geometry_admissible_loss:
  "calculate_geometry p s r atr b c balance = Inr g \<Longrightarrow>
     go_estimated_loss_at_sl g \<le> fadd (get_or 0 (pf_max_cash p)) (fl (1 / 10 ^ 9))"
  by (erule calculate_geometry_Inr) (drule check_volume_and_risk_ok, simp add: check_group_risk_ok)

section \<open>Properties\<close>

text \<open>C4. A geometry is only ever produced inside its limits: the profile is validated, cost data is
  available, the step is positive, every level is tick aligned, TP1 clears the round-trip cost plus
  the safety buffer, the stop is not closer than the broker's minimum distance, the ATR fraction is
  within the sanity bounds, the estimated loss respects the group's cash and balance caps, and the
  three leg volumes are positive and fillable.\<close>

theorem geometry_admissible:
  assumes "calculate_geometry p s r atr b c balance = Inr g"
  shows "pf_validated p \<and> available c \<and> 0 < go_step_price g
     \<and> (\<forall>l \<in> {go_tp1 g, go_tp2 g, go_tp3 g, go_sl g}. is_tick_aligned l (bs_tick_size b))
     \<and> fadd (fadd (cs_round_trip_cost_price c) (cs_safety_buffer_price c)) (fl (1 / 10 ^ 9))
         < \<bar>fsub (go_tp1 g) r\<bar>
     \<and> fsub (min_stop_distance_price b) (fl (1 / 10 ^ 9)) \<le> \<bar>fsub (go_sl g) r\<bar>
     \<and> get_or (fl (5 / 10000)) (pf_min_atr_pct p) \<le> fdiv atr r
     \<and> fdiv atr r \<le> get_or (fl (3 / 100)) (pf_max_atr_pct p)
     \<and> go_estimated_loss_at_sl g \<le> fadd (get_or 0 (pf_max_cash p)) (fl (1 / 10 ^ 9))
     \<and> (0 < get_or (bs_balance b) balance \<longrightarrow> go_estimated_loss_at_sl g
         \<le> fadd (fmul (get_or 0 (pf_max_pct p)) (get_or (bs_balance b) balance)) (fl (1 / 10 ^ 9)))
     \<and> length (go_leg_volumes g) = 3
     \<and> (\<forall>v \<in> set (go_leg_volumes g). 0 < v \<and> fsub (bs_volume_min b) (fl (1 / 10 ^ 9)) \<le> v)"
proof (rule calculate_geometry_Inr [OF assms])
  assume 1: "pf_validated p" "available c" "calculate_step p atr = Inr (go_step_price g)"
    and 2: "check_levels p r atr b c (go_tp1 g) (go_tp2 g) (go_tp3 g) (go_sl g) = Inr ()"
    and 3: "check_volume_and_risk p r b balance (go_sl g)
        = Inr (go_leg_volumes g, go_estimated_loss_at_sl g)"
  obtain a1 a2 a3 where a: "profile_allocations p = (a1, a2, a3)" by (cases "profile_allocations p") auto
  note v = check_volume_and_risk_ok [OF 3]
  have "length (go_leg_volumes g) = 3
      \<and> (\<forall>v \<in> set (go_leg_volumes g). 0 < v \<and> fsub (bs_volume_min b) (fl (1 / 10 ^ 9)) \<le> v)"
    by (rule allocate_leg_volumes_Inr [OF v [THEN conjunct1, unfolded a]]) simp
  then show ?thesis
    using 1 calculate_step_pos [OF 1(3)] check_levels_ok [OF 2] v [unfolded check_group_risk_ok]
    by blast
qed

lemma demo_step: "calculate_step demo_profile 10 = Inr 4"
  by code_simp

lemma demo_target:
  "target_level Long 2000 4 1 1 = 2004" "target_level Long 2000 4 2 1 = 2008" "target_level Long 2000 4 3 1 = 2012"
  by code_simp+

lemma demo_stop: "stop_level Long 2000 4 2 1 = 1992"
  by code_simp

lemma demo_levels: "check_levels demo_profile 2000 10 demo_broker demo_cost 2004 2008 2012 1992 = Inr ()"
  by code_simp

lemma demo_loss: "check_group_risk 32 100 (1 / 4) 0 = (True, None)" "fmul (fmul 4 \<bar>fsub 1992 2000\<bar>) 1 = 32"
  by code_simp+

lemma demo_gross:
  "calculate_gross_r 2000 1992 [\<lparr>tl_leg = 1, tl_price = 2004, tl_allocation = 1 / 4\<rparr>,
     \<lparr>tl_leg = 2, tl_price = 2008, tl_allocation = 1 / 4\<rparr>,
     \<lparr>tl_leg = 3, tl_price = 2012, tl_allocation = 1 / 2\<rparr>] = 9 / 8"
  by code_simp

lemmas demo_values = demo_step demo_target demo_stop demo_levels demo_loss demo_gross

lemma demo_allocation: "allocate_leg_volumes 4 (1 / 4, 1 / 4, 1 / 2) 1 1 False = Inr [1, 1, 2]"
  by (simp add: allocate_leg_volumes_def Let_def alloc_values)

lemma demo_volume_and_risk:
  "check_volume_and_risk demo_profile 2000 demo_broker None 1992 = Inr ([1, 1, 2], 32)"
  by (simp add: check_volume_and_risk_def Let_def demo_profile_def demo_broker_def
      profile_allocations_def demo_allocation demo_values)

lemma demo_geometry:
  "calculate_geometry demo_profile Long 2000 10 demo_broker demo_cost None = Inr demo_output"
proof -
  have f: "pf_validated demo_profile" "available demo_cost" "bs_tick_size demo_broker = 1"
    "pf_tp1_mult demo_profile = None" "pf_tp2_mult demo_profile = None"
    "pf_tp3_mult demo_profile = None" "pf_stop_mult demo_profile = None"
    "profile_allocations demo_profile = (1 / 4, 1 / 4, 1 / 2)"
    by (simp_all add: demo_profile_def demo_cost_def demo_broker_def available_def profile_allocations_def)
  show ?thesis
    unfolding calculate_geometry_def Let_def f get_or_simps
    by (simp add: f validate_profile_gate_def demo_values demo_volume_and_risk make_targets_def
        TargetLegSpec_def demo_output_def)
qed

theorem geometry_admissible_witness:
  "0 < go_step_price demo_output \<and> length (go_leg_volumes demo_output) = 3
   \<and> go_estimated_loss_at_sl demo_output \<le> fadd (get_or 0 (pf_max_cash demo_profile)) (fl (1 / 10 ^ 9))"
  using geometry_admissible [OF demo_geometry] by blast


text \<open>The ladder follows the direction of the trade: with non-decreasing target multipliers and a
  non-negative stop multiplier, a long geometry has its stop at or below the aligned reference and
  its targets at or above it in non-decreasing order, and a short geometry is the mirror image. The
  tick alignment and every float rounding on the way keep the order.\<close>

theorem geometry_ladder_ordered:
  assumes "calculate_geometry p s r atr b c balance = Inr g"
    and "0 \<le> get_or 1 (pf_tp1_mult p)" and "get_or 1 (pf_tp1_mult p) \<le> get_or 2 (pf_tp2_mult p)"
    and "get_or 2 (pf_tp2_mult p) \<le> get_or 3 (pf_tp3_mult p)" and "0 \<le> get_or 2 (pf_stop_mult p)"
    and "is_float r"
  shows "case s of
      Long \<Rightarrow> go_sl g \<le> align_to_tick r (bs_tick_size b) \<and> align_to_tick r (bs_tick_size b) \<le> go_tp1 g
        \<and> go_tp1 g \<le> go_tp2 g \<and> go_tp2 g \<le> go_tp3 g
    | Short \<Rightarrow> go_tp3 g \<le> go_tp2 g \<and> go_tp2 g \<le> go_tp1 g
        \<and> go_tp1 g \<le> align_to_tick r (bs_tick_size b) \<and> align_to_tick r (bs_tick_size b) \<le> go_sl g"
proof (rule calculate_geometry_Inr [OF assms(1)])
  assume step: "calculate_step p atr = Inr (go_step_price g)"
    and l: "go_tp1 g = target_level s r (go_step_price g) (get_or 1 (pf_tp1_mult p)) (bs_tick_size b)"
      "go_tp2 g = target_level s r (go_step_price g) (get_or 2 (pf_tp2_mult p)) (bs_tick_size b)"
      "go_tp3 g = target_level s r (go_step_price g) (get_or 3 (pf_tp3_mult p)) (bs_tick_size b)"
      "go_sl g = stop_level s r (go_step_price g) (get_or 2 (pf_stop_mult p)) (bs_tick_size b)"
  have pos: "0 \<le> go_step_price g" using calculate_step_pos [OF step] by simp
  show ?thesis
    unfolding l using pos assms
    by (cases s) (simp_all add: target_level_mono levels_around_reference)
qed

theorem geometry_ladder_ordered_witness:
  "go_sl demo_output \<le> align_to_tick 2000 1 \<and> go_tp1 demo_output \<le> go_tp2 demo_output"
  using geometry_ladder_ordered [OF demo_geometry]
  by (simp add: demo_profile_def demo_broker_def is_float_def)


text \<open>The protected break-even level is never worse than the raw one: for a long position it is not
  below the tick-aligned fill and for a short position not above it, whatever the cost inputs
  are.\<close>

theorem break_even_protects:
  assumes "compute_break_even s fill c b = Inr (raw, protected)" and "0 < bs_tick_size b"
  shows "case s of Long \<Rightarrow> raw \<le> protected | Short \<Rightarrow> protected \<le> raw"
  using assms
  by (cases s) (auto simp: compute_break_even_def Let_def intro: tick_ceil_mono tick_floor_mono)

theorem break_even_protects_witness:
  "tick_ceil 1 2001 \<le> tick_ceil 1 (max (fadd 2001 (fmul 1 (fadd (fadd 1 1) 0))) 2001)"
  using break_even_protects [of Long 2001 demo_cost demo_broker]
  by (simp add: compute_break_even_def direction_def demo_broker_def demo_cost_def)


text \<open>Geometry fails closed: an unvalidated profile is rejected with \<open>PROFILE_NOT_VALIDATED\<close>
  whatever the other inputs are, a validated profile without cost data is rejected with
  \<open>COST_DATA_UNAVAILABLE\<close>, and a cost snapshot whose components are all zero counts as available
  only when it was observed from a named source.\<close>

theorem geometry_fails_closed:
  "(\<not> pf_validated p \<longrightarrow>
      calculate_geometry p s r atr b c balance = Inl (GeometryRejected ''PROFILE_NOT_VALIDATED''))
   \<and> (pf_validated p \<and> \<not> available c \<longrightarrow>
      calculate_geometry p s r atr b c balance = Inl (GeometryRejected ''COST_DATA_UNAVAILABLE''))
   \<and> (CostSnapshot 0 safety 0 0 status source source_id as_of = Inr c \<and> available c \<longrightarrow>
      cs_status c = ''observed'' \<and> cs_source c \<noteq> ''unknown'' \<and> \<not> blank (cs_source c))"
  by (auto simp: calculate_geometry_def validate_profile_gate_def CostSnapshot_def Let_def
      all_costs_zero_def available_def split: if_splits option.splits)

theorem geometry_fails_closed_witness:
  "calculate_geometry (demo_profile\<lparr>pf_validated := False\<rparr>) Long 2000 10 demo_broker demo_cost None
     = Inl (GeometryRejected ''PROFILE_NOT_VALIDATED'')"
  using geometry_fails_closed [of "demo_profile\<lparr>pf_validated := False\<rparr>" Long 2000 10 demo_broker
      demo_cost None 0 None "[]" None None] by simp


text \<open>A specification built from a signal passes the gates it will meet later: it satisfies
  \<open>validate_contract\<close> and \<open>require_execution_provenance\<close> (the stamped hashes are the recomputed
  ones and no lineage id is missing), it is not expired at creation, and its estimated loss respects
  the profile's cash cap. The digest is assumed to be a non-empty string.\<close>

theorem built_group_passes_execution_gates:
  assumes built: "build_trade_group_from_signal sha sg cfg asset pid b c md now balance = Inr spec"
    and digest: "\<And>j. sha j \<noteq> []"
  shows "validate_contract spec = Inr spec \<and> require_execution_provenance sha spec = Inr ()
     \<and> now \<le> tg_expires_at_utc_ms spec
     \<and> gr_estimated_loss_at_sl (tg_risk spec) \<le> fadd (gr_max_cash (tg_risk spec)) (fl (1 / 10 ^ 9))"
proof (rule build_Inr [OF built])
  fix s pid' p r g bounds spec0
  assume g: "calculate_geometry p s r (or_num (sg_atr sg) 0) b c balance = Inr g"
    and a: "let e = or_num (sg_expires_at_utc_ms sg) (or_num (sg_expires_at_utc sg) 0)
         in (e > 0 \<longrightarrow> now \<le> e)
            \<and> assemble_spec sg asset pid' p md s r bounds g c now
                (if e \<noteq> 0 then Inr e
                 else rbind (resolve_signal_ttl_ms cfg asset) (\<lambda>ttl. Inr (now + ttl))) = Inr spec0"
    and spec: "spec = stamp_hashes sha spec0"
  define e where "e = or_num (sg_expires_at_utc_ms sg) (or_num (sg_expires_at_utc sg) 0)"
  from a [unfolded Let_def, folded e_def] have e: "0 < e \<Longrightarrow> now \<le> e"
    and a': "assemble_spec sg asset pid' p md s r bounds g c now
                (if e \<noteq> 0 then Inr e
                 else rbind (resolve_signal_ttl_ms cfg asset) (\<lambda>ttl. Inr (now + ttl))) = Inr spec0"
    by blast+
  note z = assemble_spec_Inr [OF a']
  have v: "validate_contract spec0 = Inr spec0" using z by blast
  then have pos: "0 < tg_expires_at_utc_ms spec0" and id: "pid' \<noteq> []"
    using z by (auto simp: validate_contract_Inr identity_fields_def blank_def)
  have "now \<le> tg_expires_at_utc_ms spec0"
    using z pos e by (cases "e = 0") (auto simp: rbind_Inr dest!: ttl_positive)
  moreover have "require_execution_provenance sha spec = Inr ()"
    unfolding spec using z id digest by (intro stamped_provenance_accepted) auto
  ultimately show ?thesis
    using spec stamp_hashes_valid [OF v] z geometry_admissible_loss [OF g] by simp
qed

lemma demo_build:
  "\<exists>spec. build_trade_group_from_signal (\<lambda>_. ''0'') demo_signal demo_config ''XAUUSD'' None demo_broker
     demo_cost Paper 1000 None = Inr spec"
proof -
  have f: "resolve_profile demo_config ''XAUUSD'' (Some ''xau'') = Inr demo_profile"
    "pick_profile_id demo_config ''XAUUSD'' None = Inr ''xau''" "signal_side demo_signal = Inr Long"
    "signal_reference demo_signal = Inr 2000" "resolve_signal_ttl_ms demo_config ''XAUUSD'' = Inr 7200000"
    "entry_bounds demo_signal 2000 = Inr (2000, 2000)" "sg_atr demo_signal = Some 10"
    "sg_expires_at_utc_ms demo_signal = None" "sg_expires_at_utc demo_signal = None"
    by code_simp+
  have a: "is_ok (assemble_spec demo_signal ''XAUUSD'' ''xau'' demo_profile Paper Long 2000 (2000, 2000)
      demo_output demo_cost 1000 (Inr 7201000))"
    by code_simp
  then obtain spec where "assemble_spec demo_signal ''XAUUSD'' ''xau'' demo_profile Paper Long 2000
      (2000, 2000) demo_output demo_cost 1000 (Inr 7201000) = Inr spec"
    unfolding is_ok_iff by blast
  moreover have "pf_validated demo_profile" by (simp add: demo_profile_def)
  ultimately show ?thesis
    unfolding build_trade_group_from_signal_def
    by (simp add: f or_num_def validate_profile_gate_def demo_geometry)
qed

theorem built_group_passes_execution_gates_witness:
  "\<exists>spec. require_execution_provenance (\<lambda>_. ''0'') spec = Inr () \<and> 1000 \<le> tg_expires_at_utc_ms spec"
proof -
  obtain spec where "build_trade_group_from_signal (\<lambda>_. ''0'') demo_signal demo_config ''XAUUSD'' None
      demo_broker demo_cost Paper 1000 None = Inr spec"
    using demo_build by blast
  from built_group_passes_execution_gates [OF this] show ?thesis by auto
qed

end
