(* ===== verification/Group_Store.thy ===== *)
theory Group_Store
  imports Trade_Group
begin

text \<open>
  The durable store of trade groups, \<^verbatim>\<open>data/trade_group_store.py\<close>, with the deserialisation of a
  stored specification from \<^verbatim>\<open>execution/schema_registry.py\<close>. The two tables are association lists
  in insertion order; the dicts stored as JSON text are records whose optional fields are the
  optional keys, since writing a value as JSON and reading it back gives the value. The clock reading
  of an operation is an argument.
\<close>

section \<open>Rows\<close>

text \<open>The dict a driver returns for an order: every key is optional, a key with the value \<^verbatim>\<open>None\<close> counts
  as absent, and identifiers are numbers or texts. Then an entry of \<^verbatim>\<open>legs_json\<close>.\<close>

datatype broker_id = IntId int | StrId string

record broker_result =
  br_status :: "string option"
  br_retcode :: "int option"
  br_comment :: "string option"
  br_order_id :: "broker_id option"
  br_deal_id :: "int option"
  br_position_id :: "broker_id option"
  br_requested_volume :: "rat option"
  br_filled_volume :: "rat option"
  br_fill_price :: "rat option"
  br_virtual :: "bool option"

definition no_result :: broker_result where
  "no_result = \<lparr>br_status = None, br_retcode = None, br_comment = None, br_order_id = None,
     br_deal_id = None, br_position_id = None, br_requested_volume = None, br_filled_volume = None,
     br_fill_price = None, br_virtual = None\<rparr>"

text \<open>\<^verbatim>\<open>if value\<close> on an identifier.\<close>

definition truthy_id :: "broker_id option \<Rightarrow> bool" where
  "truthy_id i = (case i of None \<Rightarrow> False | Some (IntId n) \<Rightarrow> n \<noteq> 0 | Some (StrId s) \<Rightarrow> s \<noteq> [])"

record 'b leg_item =
  li_leg :: int
  li_price :: rat
  li_volume :: rat
  li_state :: string
  li_broker :: 'b
  li_fill_price :: "rat option"
  li_verified_after_restart :: bool
  li_sl_after_restart :: "rat option"
  li_filled_volume :: "rat option"
  li_closed_volume :: "rat option"
  li_remaining_volume :: "rat option"

text \<open>The break-even dict \<^verbatim>\<open>be_json\<close>; every key is optional.\<close>

record be_status =
  bt_status :: "string option"
  bt_raw_price :: "rat option"
  bt_protected_price :: "rat option"
  bt_requested_price :: "rat option"
  bt_retries :: "int option"
  bt_last_error :: "string option"
  bt_confirmed_price :: "rat option"

definition be_empty :: be_status where
  "be_empty = \<lparr>bt_status = None, bt_raw_price = None, bt_protected_price = None,
     bt_requested_price = None, bt_retries = None, bt_last_error = None, bt_confirmed_price = None\<rparr>"

text \<open>The volume ledger \<^verbatim>\<open>volume_json\<close> of a group and of its legs, and the compensation dict
  \<^verbatim>\<open>comp_json\<close>; every key is optional.\<close>

record leg_volume =
  lv_requested_volume :: "rat option"
  lv_filled_volume :: "rat option"
  lv_closed_volume :: "rat option"
  lv_remaining_volume :: "rat option"

record volume_book =
  vb_total_requested :: "rat option"
  vb_total_filled :: "rat option"
  vb_total_closed :: "rat option"
  vb_total_remaining :: "rat option"
  vb_legs :: "(int \<times> leg_volume) list"

definition volume_empty :: volume_book where
  "volume_empty = \<lparr>vb_total_requested = None, vb_total_filled = None, vb_total_closed = None,
     vb_total_remaining = None, vb_legs = []\<rparr>"

record 'b comp_state =
  cp_status :: "string option"
  cp_retries :: "int option"
  cp_legs :: "(string \<times> 'b) list"
  cp_pending :: "string list option"
  cp_recorded :: bool

definition comp_empty :: "'b comp_state" where
  "comp_empty = \<lparr>cp_status = None, cp_retries = None, cp_legs = [], cp_pending = None, cp_recorded = False\<rparr>"

type_synonym jdict = "(string \<times> json) list"

record 'b group_row =
  row_spec :: trade_group_spec
  row_spec_hash :: string
  row_state :: group_state
  row_legs :: "'b leg_item list"
  row_be :: be_status
  row_broker_ids :: "(string \<times> 'b) list"
  row_submitted :: bool
  row_created_at_ms :: int
  row_updated_at_ms :: int
  row_intent_json :: "string option"
  row_account_mode :: "string option"
  row_volume :: volume_book
  row_comp :: "'b comp_state"

record action_row =
  act_group_id :: string
  act_action_id :: string
  act_payload :: jdict
  act_created_at_ms :: int

record 'b group_store =
  gs_groups :: "(string \<times> 'b group_row) list"
  gs_actions :: "action_row list"

definition empty_store :: "'b group_store" where
  "empty_store = \<lparr>gs_groups = [], gs_actions = []\<rparr>"

section \<open>Deserialisation\<close>

definition SPEC_CHAIN :: "string list" where
  "SPEC_CHAIN = [''trade-group.v1'']"

definition LEGACY_SPEC_SCHEMA_VERSION :: string where
  "LEGACY_SPEC_SCHEMA_VERSION = ''trade-group.v1''"

text \<open>Pydantic's validation of the nested objects, then of the whole.\<close>

fun validate_targets :: "target_leg list \<Rightarrow> target_leg list result" where
  "validate_targets [] = Inr []"
| "validate_targets (t # ts) =
     rbind (TargetLegSpec (tl_leg t) (tl_price t) (tl_allocation t)) (\<lambda>t'.
       rbind (validate_targets ts) (\<lambda>ts'. Inr (t' # ts')))"

definition model_validate :: "trade_group_spec \<Rightarrow> trade_group_spec result" where
  "model_validate s =
     (let e = tg_entry s; g = tg_geometry s; b = tg_break_even s; k = tg_risk s
      in rbind (EntrySpec (es_low e) (es_high e) (es_reference e) (es_actual_fill e)) (\<lambda>e'.
         rbind (Geometry (ge_version g) (ge_unit g) (ge_step_price g) (ge_tp1 g) (ge_tp2 g) (ge_tp3 g)
            (ge_sl g)) (\<lambda>g'.
         rbind (validate_targets (tg_targets s)) (\<lambda>ts.
         rbind (BreakEvenPolicy (be_trigger b) (be_raw_price_policy b) (be_protected_price_policy b)
            (be_apply_to b)) (\<lambda>b'.
         rbind (GroupRisk (gr_currency k) (gr_max_cash k) (gr_max_pct k) (gr_estimated_loss_at_sl k)
            (gr_total_volume k)) (\<lambda>k'.
         validate_contract (s\<lparr>tg_entry := e', tg_geometry := g', tg_targets := ts, tg_break_even := b',
            tg_risk := k'\<rparr>)))))))"

text \<open>The chain has one version, so a known version is the current one and nothing migrates.\<close>

definition deserialize_spec :: "trade_group_spec \<Rightarrow> trade_group_spec result" where
  "deserialize_spec s =
     (let version = or_str (Some (tg_schema_version s)) LEGACY_SPEC_SCHEMA_VERSION
      in if version \<notin> set SPEC_CHAIN then Inl (ValueError ''unknown schema_version'')
         else model_validate s)"

section \<open>Groups\<close>

definition load_group :: "string \<Rightarrow> 'b group_store \<Rightarrow> 'b group_row option result" where
  "load_group group_id store =
     (case map_of (gs_groups store) group_id of
        None \<Rightarrow> Inr None
      | Some row \<Rightarrow> rbind (deserialize_spec (row_spec row)) (\<lambda>spec. Inr (Some (row\<lparr>row_spec := spec\<rparr>))))"

text \<open>\<^verbatim>\<open>INSERT OR REPLACE\<close>: an old row with the key is deleted, the new one inserted.\<close>

definition replace_row :: "string \<Rightarrow> 'r \<Rightarrow> (string \<times> 'r) list \<Rightarrow> (string \<times> 'r) list" where
  "replace_row k r rows = filter (\<lambda>(k', _). k' \<noteq> k) rows @ [(k, r)]"

text \<open>The keyword arguments of \<open>save_group\<close>; the absent lists and dicts are empty
  (\<^verbatim>\<open>legs or []\<close>), \<open>None\<close> for the four arguments that default to the stored value.\<close>

record 'b save_args =
  sv_state :: group_state
  sv_legs :: "'b leg_item list"
  sv_be :: be_status
  sv_broker_ids :: "(string \<times> 'b) list"
  sv_submitted :: bool
  sv_intent_json :: "string option"
  sv_account_mode :: "string option"
  sv_volume :: "volume_book option"
  sv_comp :: "'b comp_state option"

definition save_defaults :: "'b save_args" where
  "save_defaults = \<lparr>sv_state = DRAFT, sv_legs = [], sv_be = be_empty, sv_broker_ids = [],
     sv_submitted = False, sv_intent_json = None, sv_account_mode = None, sv_volume = None,
     sv_comp = None\<rparr>"

definition existing_row :: "string \<Rightarrow> 'b group_store \<Rightarrow> 'b group_row option" where
  "existing_row group_id store = (case load_group group_id store of Inr r \<Rightarrow> r | Inl _ \<Rightarrow> None)"

definition or_else :: "'a option \<Rightarrow> 'a option \<Rightarrow> 'a option" where
  "or_else a b = (case a of None \<Rightarrow> b | Some _ \<Rightarrow> a)"

definition saved_row ::
  "(json \<Rightarrow> string) \<Rightarrow> int \<Rightarrow> trade_group_spec \<Rightarrow> 'b save_args \<Rightarrow> 'b group_row option \<Rightarrow> 'b group_row" where
  "saved_row sha now spec a old =
     \<lparr>row_spec = spec, row_spec_hash = geometry_hash sha spec, row_state = sv_state a,
      row_legs = sv_legs a, row_be = sv_be a, row_broker_ids = sv_broker_ids a,
      row_submitted = sv_submitted a, row_created_at_ms = now, row_updated_at_ms = now,
      row_intent_json = or_else (sv_intent_json a) (Option.bind old row_intent_json),
      row_account_mode = or_else (sv_account_mode a) (Option.bind old row_account_mode),
      row_volume = get_or volume_empty (or_else (sv_volume a) (map_option row_volume old)),
      row_comp = get_or comp_empty (or_else (sv_comp a) (map_option row_comp old))\<rparr>"

definition save_group ::
  "(json \<Rightarrow> string) \<Rightarrow> int \<Rightarrow> trade_group_spec \<Rightarrow> 'b save_args \<Rightarrow> 'b group_store \<Rightarrow> 'b group_store" where
  "save_group sha now spec a store =
     (let gid = tg_group_id spec; row = saved_row sha now spec a (existing_row gid store)
      in store\<lparr>gs_groups := replace_row gid row (gs_groups store)\<rparr>)"

text \<open>\<^verbatim>\<open>UPDATE ... WHERE group_id = ?\<close>: rows with another key stay.\<close>

definition update_row :: "string \<Rightarrow> ('r \<Rightarrow> 'r) \<Rightarrow> (string \<times> 'r) list \<Rightarrow> (string \<times> 'r) list" where
  "update_row k f rows = map (\<lambda>(k', r). (k', if k' = k then f r else r)) rows"

record 'b update_args =
  up_legs :: "'b leg_item list option"
  up_be :: "be_status option"
  up_broker_ids :: "(string \<times> 'b) list option"
  up_volume :: "volume_book option"
  up_comp :: "'b comp_state option"

definition no_update :: "'b update_args" where
  "no_update = \<lparr>up_legs = None, up_be = None, up_broker_ids = None, up_volume = None, up_comp = None\<rparr>"

definition set_columns :: "int \<Rightarrow> group_state \<Rightarrow> 'b update_args \<Rightarrow> 'b group_row \<Rightarrow> 'b group_row" where
  "set_columns now state a r =
     r\<lparr>row_state := state, row_updated_at_ms := now,
       row_legs := get_or (row_legs r) (up_legs a), row_be := get_or (row_be r) (up_be a),
       row_broker_ids := get_or (row_broker_ids r) (up_broker_ids a),
       row_volume := get_or (row_volume r) (up_volume a), row_comp := get_or (row_comp r) (up_comp a)\<rparr>"

definition update_group_state ::
  "int \<Rightarrow> string \<Rightarrow> group_state \<Rightarrow> 'b update_args \<Rightarrow> 'b group_store \<Rightarrow> 'b group_store" where
  "update_group_state now group_id state a store =
     store\<lparr>gs_groups := update_row group_id (set_columns now state a) (gs_groups store)\<rparr>"

definition is_submitted :: "string \<Rightarrow> 'b group_store \<Rightarrow> bool" where
  "is_submitted group_id store =
     (case map_of (gs_groups store) group_id of None \<Rightarrow> False | Some r \<Rightarrow> row_submitted r)"

text \<open>The row count of \<^verbatim>\<open>UPDATE ... SET submitted = 1 WHERE group_id = ? AND submitted = 0\<close>.\<close>

definition try_mark_submitted :: "string \<Rightarrow> 'b group_store \<Rightarrow> bool \<times> 'b group_store" where
  "try_mark_submitted group_id store =
     (let hit = (\<lambda>(k, r). k = group_id \<and> \<not> row_submitted r)
      in (length (filter hit (gs_groups store)) = 1,
          store\<lparr>gs_groups := map (\<lambda>(k, r). (k, if hit (k, r) then r\<lparr>row_submitted := True\<rparr> else r))
             (gs_groups store)\<rparr>))"

fun load_all :: "string list \<Rightarrow> 'b group_store \<Rightarrow> 'b group_row option list result" where
  "load_all [] store = Inr []"
| "load_all (k # ks) store =
     rbind (load_group k store) (\<lambda>r. rbind (load_all ks store) (\<lambda>rs. Inr (r # rs)))"

definition list_groups :: "group_state option \<Rightarrow> 'b group_store \<Rightarrow> 'b group_row option list result" where
  "list_groups state store =
     load_all (map fst (filter (\<lambda>(_, r). case state of None \<Rightarrow> True | Some s \<Rightarrow> row_state r = s)
       (gs_groups store))) store"

section \<open>Actions\<close>

definition has_action :: "string \<Rightarrow> string \<Rightarrow> 'b group_store \<Rightarrow> bool" where
  "has_action group_id action_id store \<longleftrightarrow>
     list_ex (\<lambda>a. act_group_id a = group_id \<and> act_action_id a = action_id) (gs_actions store)"

text \<open>\<^verbatim>\<open>INSERT OR IGNORE\<close>: a row with the key is kept and the row count is 0.\<close>

definition mark_action :: "int \<Rightarrow> string \<Rightarrow> string \<Rightarrow> jdict \<Rightarrow> 'b group_store \<Rightarrow> bool \<times> 'b group_store" where
  "mark_action now group_id action_id payload store =
     (if has_action group_id action_id store then (False, store)
      else (True, store\<lparr>gs_actions := gs_actions store @
        [\<lparr>act_group_id = group_id, act_action_id = action_id, act_payload = payload,
          act_created_at_ms = now\<rparr>]\<rparr>))"

text \<open>\<^verbatim>\<open>ORDER BY created_at_ms, action_id\<close>: strings compare by their characters.\<close>

definition text_le :: "string \<Rightarrow> string \<Rightarrow> bool" where
  "text_le a b \<longleftrightarrow> lexordp_eq (map (of_char :: char \<Rightarrow> nat) a) (map of_char b)"

definition action_le :: "action_row \<Rightarrow> action_row \<Rightarrow> bool" where
  "action_le a b \<longleftrightarrow> act_created_at_ms a < act_created_at_ms b
     \<or> (act_created_at_ms a = act_created_at_ms b \<and> text_le (act_action_id a) (act_action_id b))"

fun insert_by :: "('a \<Rightarrow> 'a \<Rightarrow> bool) \<Rightarrow> 'a \<Rightarrow> 'a list \<Rightarrow> 'a list" where
  "insert_by le x [] = [x]"
| "insert_by le x (y # ys) = (if le x y then x # y # ys else y # insert_by le x ys)"

definition list_actions :: "string \<Rightarrow> 'b group_store \<Rightarrow> (string \<times> jdict \<times> int) list" where
  "list_actions group_id store =
     map (\<lambda>a. (act_action_id a, act_payload a, act_created_at_ms a))
       (foldr (insert_by action_le) (filter (\<lambda>a. act_group_id a = group_id) (gs_actions store)) [])"

section \<open>Runs\<close>

text \<open>The writes of the store as operations of a run; each carries its clock reading.\<close>

datatype 'b store_op =
    Save int trade_group_spec "'b save_args"
  | Update int string group_state "'b update_args"
  | TrySubmit string
  | Mark int string string jdict

fun store_step :: "(json \<Rightarrow> string) \<Rightarrow> 'b store_op \<Rightarrow> 'b group_store \<Rightarrow> 'b group_store" where
  "store_step sha (Save now spec a) s = save_group sha now spec a s"
| "store_step sha (Update now gid st a) s = update_group_state now gid st a s"
| "store_step sha (TrySubmit gid) s = snd (try_mark_submitted gid s)"
| "store_step sha (Mark now gid aid p) s = snd (mark_action now gid aid p s)"

definition store_inv :: "'b group_store \<Rightarrow> bool" where
  "store_inv s \<longleftrightarrow> distinct (map fst (gs_groups s))
     \<and> (\<forall>(k, r) \<in> set (gs_groups s). tg_group_id (row_spec r) = k)
     \<and> distinct (map (\<lambda>a. (act_group_id a, act_action_id a)) (gs_actions s))"

definition action_keys :: "'b group_store \<Rightarrow> (string \<times> string) set" where
  "action_keys s = (\<lambda>a. (act_group_id a, act_action_id a)) ` set (gs_actions s)"

text \<open>How often a run answers \<open>True\<close> to a mark of one action, and to a submission of one group.\<close>

fun granted_marks :: "(json \<Rightarrow> string) \<Rightarrow> string \<Rightarrow> string \<Rightarrow> 'b store_op list \<Rightarrow> 'b group_store \<Rightarrow> nat" where
  "granted_marks sha gid aid [] s = 0"
| "granted_marks sha gid aid (x # xs) s =
     (case x of Mark now g a p \<Rightarrow> if g = gid \<and> a = aid \<and> fst (mark_action now g a p s) then 1 else 0
      | _ \<Rightarrow> 0) + granted_marks sha gid aid xs (store_step sha x s)"

fun granted_submissions :: "(json \<Rightarrow> string) \<Rightarrow> string \<Rightarrow> 'b store_op list \<Rightarrow> 'b group_store \<Rightarrow> nat" where
  "granted_submissions sha gid [] s = 0"
| "granted_submissions sha gid (x # xs) s =
     (case x of TrySubmit g \<Rightarrow> if g = gid \<and> fst (try_mark_submitted g s) then 1 else 0 | _ \<Rightarrow> 0)
     + granted_submissions sha gid xs (store_step sha x s)"

text \<open>A save that writes the group as not submitted.\<close>

fun clears_submitted :: "string \<Rightarrow> 'b store_op \<Rightarrow> bool" where
  "clears_submitted gid (Save now spec a) \<longleftrightarrow> tg_group_id spec = gid \<and> \<not> sv_submitted a"
| "clears_submitted gid _ \<longleftrightarrow> False"

section \<open>Lemmas\<close>

lemma map_of_replace_row [simp]:
  "map_of (replace_row k r rows) k' = (if k' = k then Some r else map_of rows k')"
  by (induction rows) (auto simp: replace_row_def map_add_def split: option.splits)

lemma fst_replace_row: "map fst (replace_row k r rows) = filter (\<lambda>k'. k' \<noteq> k) (map fst rows) @ [k]"
  by (induction rows) (auto simp: replace_row_def)

lemma set_replace_row: "set (replace_row k r rows) = {(k', r') \<in> set rows. k' \<noteq> k} \<union> {(k, r)}"
  by (auto simp: replace_row_def)

lemma map_of_update_row [simp]:
  "map_of (update_row k f rows) k' = (if k' = k then map_option f (map_of rows k) else map_of rows k')"
  by (induction rows) (auto simp: update_row_def)

lemma fst_update_row [simp]: "map fst (update_row k f rows) = map fst rows"
  by (induction rows) (auto simp: update_row_def)

lemma validate_targets_id: "validate_targets ts = Inr ts' \<Longrightarrow> ts' = ts"
  by (induction ts arbitrary: ts') (auto simp: rbind_Inr TargetLegSpec_def split: if_splits)

text \<open>A specification that is read back is the one that was written.\<close>

lemma revalidated_parts:
  "EntrySpec (es_low e) (es_high e) (es_reference e) (es_actual_fill e) = Inr e' \<Longrightarrow> e' = e"
  "Geometry (ge_version g) (ge_unit g) (ge_step_price g) (ge_tp1 g) (ge_tp2 g) (ge_tp3 g) (ge_sl g) = Inr g'
    \<Longrightarrow> g' = g"
  "BreakEvenPolicy (be_trigger b) (be_raw_price_policy b) (be_protected_price_policy b) (be_apply_to b) = Inr b'
    \<Longrightarrow> b' = b"
  "GroupRisk (gr_currency k) (gr_max_cash k) (gr_max_pct k) (gr_estimated_loss_at_sl k) (gr_total_volume k) = Inr k'
    \<Longrightarrow> k' = k"
     apply (cases e; auto simp: EntrySpec_def split: if_splits)
    apply (cases g; auto simp: Geometry_def split: if_splits)
   apply (cases b; auto simp: BreakEvenPolicy_def split: if_splits)
  apply (cases k; auto simp: GroupRisk_def split: if_splits)
  done

lemma deserialize_spec_id: "deserialize_spec s = Inr s' \<Longrightarrow> s' = s \<and> validate_contract s = Inr s"
  by (auto simp: deserialize_spec_def model_validate_def Let_def rbind_Inr validate_contract_Inr
      dest!: validate_targets_id revalidated_parts split: if_splits)

lemma load_group_Some:
  "load_group gid s = Inr (Some r) \<longleftrightarrow>
     map_of (gs_groups s) gid = Some r \<and> deserialize_spec (row_spec r) = Inr (row_spec r)"
proof -
  have "deserialize_spec (row_spec x) = Inr y \<Longrightarrow> y = row_spec x" for x y
    by (auto dest: deserialize_spec_id)
  then show ?thesis by (fastforce simp: load_group_def rbind_Inr split: option.splits)
qed

lemma load_group_None: "load_group gid s = Inr None \<longleftrightarrow> map_of (gs_groups s) gid = None"
  by (auto simp: load_group_def rbind_Inr split: option.splits)

lemma existing_row_Some:
  "existing_row gid s = Some r \<longleftrightarrow> load_group gid s = Inr (Some r)"
  by (auto simp: existing_row_def split: sum.splits)

lemma submit_rows:
  "gs_groups (snd (try_mark_submitted gid s)) = update_row gid (\<lambda>r. r\<lparr>row_submitted := True\<rparr>) (gs_groups s)"
  by (auto simp: try_mark_submitted_def update_row_def Let_def)

lemma map_of_unique_hits:
  "distinct (map fst rows) \<Longrightarrow>
     length (filter (\<lambda>(k, r). k = gid \<and> P r) rows) = (case map_of rows gid of None \<Rightarrow> 0
       | Some r \<Rightarrow> if P r then 1 else 0)"
proof (induction rows)
  case (Cons x rows)
  have "gid \<notin> fst ` set rows \<Longrightarrow> filter (\<lambda>(k, r). k = gid \<and> P r) rows = []"
    by (force simp: filter_empty_conv)
  then show ?case using Cons by (cases x) (auto split: option.splits)
qed simp

lemma try_mark_submitted_iff:
  assumes "store_inv s"
  shows "fst (try_mark_submitted gid s) \<longleftrightarrow> map_of (gs_groups s) gid \<noteq> None \<and> \<not> is_submitted gid s"
proof -
  have "fst (try_mark_submitted gid s) \<longleftrightarrow>
      length (filter (\<lambda>(k, r). k = gid \<and> \<not> row_submitted r) (gs_groups s)) = 1"
    by (simp add: try_mark_submitted_def Let_def)
  also have "\<dots> \<longleftrightarrow> map_of (gs_groups s) gid \<noteq> None \<and> \<not> is_submitted gid s"
    using assms map_of_unique_hits [of "gs_groups s" gid "\<lambda>r. \<not> row_submitted r"]
    by (cases "map_of (gs_groups s) gid") (auto simp: store_inv_def is_submitted_def)
  finally show ?thesis .
qed

lemma set_columns_keeps [simp]:
  "row_spec (set_columns now st a r) = row_spec r"
  "row_spec_hash (set_columns now st a r) = row_spec_hash r"
  "row_submitted (set_columns now st a r) = row_submitted r"
  "row_state (set_columns now st a r) = st"
  by (simp_all add: set_columns_def)

lemma keys_update_row:
  assumes "\<And>r. tg_group_id (row_spec (f r)) = tg_group_id (row_spec r)"
    and "\<forall>(k, r) \<in> set rows. tg_group_id (row_spec r) = k"
  shows "\<forall>(k, r) \<in> set (update_row gid f rows). tg_group_id (row_spec r) = k"
  using assms by (force simp: update_row_def)

lemma save_rows:
  "gs_groups (save_group sha now spec a s) =
     replace_row (tg_group_id spec) (saved_row sha now spec a (existing_row (tg_group_id spec) s)) (gs_groups s)"
  by (simp add: save_group_def Let_def)

lemma saved_row_fields [simp]:
  "row_spec (saved_row sha now spec a old) = spec" "row_state (saved_row sha now spec a old) = sv_state a"
  "row_submitted (saved_row sha now spec a old) = sv_submitted a"
  "row_legs (saved_row sha now spec a old) = sv_legs a" "row_be (saved_row sha now spec a old) = sv_be a"
  "row_broker_ids (saved_row sha now spec a old) = sv_broker_ids a"
  by (simp_all add: saved_row_def)

lemma save_actions [simp]:
  "gs_actions (save_group sha now spec a s) = gs_actions s"
  "gs_actions (update_group_state now gid st u s) = gs_actions s"
  "gs_actions (snd (try_mark_submitted gid s)) = gs_actions s"
  "gs_groups (snd (mark_action now gid aid p s)) = gs_groups s"
  by (simp_all add: save_group_def update_group_state_def try_mark_submitted_def mark_action_def Let_def)

lemma groups_update: "gs_groups (update_group_state now gid st u s) = update_row gid (set_columns now st u) (gs_groups s)"
  by (simp add: update_group_state_def)

lemma save_store_inv: "store_inv s \<Longrightarrow> store_inv (save_group sha now spec a s)"
  by (auto simp: store_inv_def save_rows fst_replace_row set_replace_row)

lemma has_action_keys: "has_action gid aid s \<longleftrightarrow> (gid, aid) \<in> action_keys s"
  by (auto simp: has_action_def action_keys_def list_ex_iff image_iff)

lemma mark_store_inv: "store_inv s \<Longrightarrow> store_inv (snd (mark_action now gid aid p s))"
  by (auto simp: store_inv_def mark_action_def has_action_keys action_keys_def image_iff)

lemma store_step_inv: "store_inv s \<Longrightarrow> store_inv (store_step sha x s)"
proof (cases x)
  case (Update now gid st a)
  assume "store_inv s"
  then show ?thesis
    using keys_update_row [of "set_columns now st a" "gs_groups s" gid]
    by (simp add: Update store_inv_def groups_update)
next
  case (TrySubmit gid)
  assume "store_inv s"
  then show ?thesis
    using keys_update_row [of "\<lambda>r. r\<lparr>row_submitted := True\<rparr>" "gs_groups s" gid]
    by (simp add: TrySubmit store_inv_def submit_rows)
qed (simp_all add: save_store_inv mark_store_inv)

interpretation store_run: step_invariant "store_step sha" store_inv for sha
  by unfold_locales (rule store_step_inv)

lemma store_step_actions: "action_keys s \<subseteq> action_keys (store_step sha x s)"
  by (cases x) (auto simp: action_keys_def mark_action_def)

interpretation action_run: step_monotone "store_step sha" action_keys for sha
  by unfold_locales (rule store_step_actions)

lemma submitted_sticky:
  assumes "\<not> clears_submitted gid x" and "is_submitted gid s"
  shows "is_submitted gid (store_step sha x s)"
proof (cases x)
  case (Save now spec a)
  then show ?thesis using assms by (auto simp: is_submitted_def save_rows)
qed (use assms in \<open>auto simp: is_submitted_def groups_update submit_rows split: option.splits\<close>)

lemma no_submission_when_submitted:
  "\<forall>x \<in> set ops. \<not> clears_submitted gid x \<Longrightarrow> store_inv s \<Longrightarrow> is_submitted gid s
    \<Longrightarrow> granted_submissions sha gid ops s = 0"
  by (induction ops arbitrary: s)
    (auto simp: try_mark_submitted_iff submitted_sticky store_step_inv split: store_op.split)

lemma submission_marks: "fst (try_mark_submitted gid s) \<Longrightarrow> store_inv s \<Longrightarrow> is_submitted gid (snd (try_mark_submitted gid s))"
  by (auto simp: try_mark_submitted_iff is_submitted_def submit_rows)

lemma has_action_sticky: "has_action gid aid s \<Longrightarrow> has_action gid aid (store_step sha x s)"
  using store_step_actions [of s sha x] by (auto simp: has_action_keys)

lemma no_mark_when_marked: "has_action gid aid s \<Longrightarrow> granted_marks sha gid aid ops s = 0"
proof (induction ops arbitrary: s)
  case (Cons x ops)
  have "granted_marks sha gid aid ops (store_step sha x s) = 0"
    by (rule Cons.IH) (rule has_action_sticky [OF Cons.prems])
  then show ?case using Cons.prems by (auto simp: mark_action_def split: store_op.split)
qed simp

lemma empty_store_inv: "store_inv empty_store"
  by (simp add: store_inv_def empty_store_def)

section \<open>Properties\<close>

lemma demo_spec_valid: "validate_contract (demo_spec fill) = Inr (demo_spec fill)"
  unfolding validate_contract_Inr by (intro conjI, rule refl; code_simp)

lemma demo_spec_deserializes: "deserialize_spec (demo_spec fill) = Inr (demo_spec fill)"
  using demo_spec_valid [of fill]
  by (simp add: deserialize_spec_def model_validate_def demo_spec_def EntrySpec_def Geometry_def
      BreakEvenPolicy_def GroupRisk_def TargetLegSpec_def or_str_def SPEC_CHAIN_def GROUP_SCHEMA_VERSION_def)

definition demo_store :: "broker_result group_store" where
  "demo_store = empty_store"

definition demo_save :: "broker_result save_args" where
  "demo_save = save_defaults"

lemma demo_store_inv: "store_inv demo_store"
  by (simp add: demo_store_def empty_store_inv)



text \<open>Over any sequence of writes to the store, restarts and retries included, the mark of one
  action is granted at most once, and never when the action is already recorded.\<close>

theorem action_granted_at_most_once:
  "granted_marks sha gid aid ops s \<le> 1
   \<and> (has_action gid aid s \<longrightarrow> granted_marks sha gid aid ops s = 0)"
proof (rule conjI)
  show "granted_marks sha gid aid ops s \<le> 1"
  proof (induction ops arbitrary: s)
    case (Cons x ops)
    show ?case
    proof (cases "has_action gid aid (store_step sha x s)")
      case True
      then show ?thesis by (auto simp: no_mark_when_marked split: store_op.split)
    next
      case False
      then have "\<not> (\<exists>now p. x = Mark now gid aid p)"
        by (auto simp: mark_action_def has_action_def split: if_splits)
      then show ?thesis using Cons.IH [of "store_step sha x s"] by (auto split: store_op.split)
    qed
  qed simp
qed (simp add: no_mark_when_marked)

theorem action_granted_at_most_once_witness:
  "granted_marks (\<lambda>_. ''h'') ''g'' ''a'' [Mark 1 ''g'' ''a'' [], Mark 2 ''g'' ''a'' []] demo_store = 1
   \<and> granted_marks (\<lambda>_. ''h'') ''g'' ''a'' [Mark 3 ''g'' ''a'' []]
       (snd (mark_action 1 ''g'' ''a'' [] demo_store)) = 0"
  using action_granted_at_most_once [of "\<lambda>_. ''h''" "''g''" "''a''" "[Mark 3 ''g'' ''a'' []]"
      "snd (mark_action 1 ''g'' ''a'' [] demo_store)"]
  by (simp add: mark_action_def has_action_def demo_store_def empty_store_def)

text \<open>Over any sequence of writes that does not save the group afresh as not submitted, at
  most one submission of the group is granted, none when it is already submitted, and an unknown
  group is never granted one.\<close>

theorem submission_granted_at_most_once:
  assumes "store_inv s" and "list_all (\<lambda>x. \<not> clears_submitted gid x) ops"
  shows "granted_submissions sha gid ops s \<le> 1
    \<and> (is_submitted gid s \<longrightarrow> granted_submissions sha gid ops s = 0)
    \<and> (map_of (gs_groups s) gid = None \<longrightarrow> \<not> fst (try_mark_submitted gid s))"
proof (intro conjI impI)
  show "granted_submissions sha gid ops s \<le> 1"
    using assms
  proof (induction ops arbitrary: s)
    case (Cons x ops)
    have rest: "granted_submissions sha gid ops (store_step sha x s) \<le> 1"
      by (rule Cons.IH) (use Cons.prems in \<open>simp_all add: store_step_inv\<close>)
    show ?case
    proof (cases "x = TrySubmit gid \<and> fst (try_mark_submitted gid s)")
      case True
      then have "is_submitted gid (store_step sha x s)" using Cons.prems by (simp add: submission_marks)
      then have "granted_submissions sha gid ops (store_step sha x s) = 0"
        by (intro no_submission_when_submitted) (use Cons.prems in \<open>auto simp: store_step_inv list_all_iff\<close>)
      then show ?thesis using True by simp
    next
      case False
      then show ?thesis using rest by (auto split: store_op.split)
    qed
  qed simp
qed (use assms in \<open>auto simp: try_mark_submitted_iff list_all_iff intro: no_submission_when_submitted\<close>)

theorem submission_granted_at_most_once_witness:
  "granted_submissions (\<lambda>_. ''h'') (tg_group_id (demo_spec None))
     [TrySubmit (tg_group_id (demo_spec None)), TrySubmit (tg_group_id (demo_spec None))]
     (save_group (\<lambda>_. ''h'') 1 (demo_spec None) demo_save demo_store) \<le> 1"
  using submission_granted_at_most_once [OF save_store_inv [OF demo_store_inv], of "tg_group_id (demo_spec None)"
      "[TrySubmit (tg_group_id (demo_spec None)), TrySubmit (tg_group_id (demo_spec None))]"
      "\<lambda>_. ''h''" "\<lambda>_. ''h''" 1 "demo_spec None" demo_save]
  by simp

text \<open>The submission flag does not survive a second \<open>save_group\<close> with the default arguments:
  after it the group counts as not submitted, and the next submission is granted again, although
  the group had been submitted.\<close>

theorem resave_clears_submission_flag:
  assumes "store_inv s" and "\<not> sv_submitted a"
  shows "\<not> is_submitted (tg_group_id spec) (save_group sha now spec a s)
    \<and> fst (try_mark_submitted (tg_group_id spec) (save_group sha now spec a s))"
  using assms by (auto simp: try_mark_submitted_iff save_store_inv is_submitted_def save_rows)

theorem resave_clears_submission_flag_witness:
  "granted_submissions (\<lambda>_. ''h'') (tg_group_id (demo_spec None))
     [Save 1 (demo_spec None) demo_save, TrySubmit (tg_group_id (demo_spec None)),
      Save 2 (demo_spec None) demo_save, TrySubmit (tg_group_id (demo_spec None))] demo_store = 2"
proof -
  let ?gid = "tg_group_id (demo_spec None)" and ?save = "\<lambda>n. save_group (\<lambda>_. ''h'') n (demo_spec None) demo_save"
  have first: "fst (try_mark_submitted ?gid (?save 1 demo_store))"
    using resave_clears_submission_flag [OF demo_store_inv, of demo_save] by (simp add: demo_save_def save_defaults_def)
  have "store_inv (snd (try_mark_submitted ?gid (?save 1 demo_store)))"
    using store_step_inv [OF save_store_inv [OF demo_store_inv], of _ "TrySubmit ?gid"] by simp
  then have "fst (try_mark_submitted ?gid (?save 2 (snd (try_mark_submitted ?gid (?save 1 demo_store)))))"
    using resave_clears_submission_flag [of _ demo_save] by (simp add: demo_save_def save_defaults_def)
  with first show ?thesis by simp
qed

end
