(* ===== verification/Event_Ledger.thy ===== *)
theory Event_Ledger
  imports Py_Prelude "HOL-Library.Countable"
begin

text \<open>
  The hash-chained trading event ledger, \<^verbatim>\<open>data/trading_event_ledger.py\<close>. The table is the
  list of its rows; the append-only triggers are modelled by offering no other write than
  \<open>append_trading_event\<close>. Parameters: \<open>sha\<close>, the digest of a canonical JSON value; \<open>cell\<close>, what
  pandas returns for a value of the nullable integer column (given the whole column); the clock
  reading and the fresh uuid are arguments. The locale \<open>hash_chain\<close> is the interface of a chained
  list: its laws are discharged for the ledger's rows and the tamper evidence is proved in it.
\<close>

section \<open>Rows\<close>

definition EVENT_TYPES :: "string list" where
  "EVENT_TYPES = [''signal_created'', ''signal_armed'', ''signal_confirmed'', ''signal_rejected'',
     ''signal_expired'', ''signal_published'', ''order_submitted'', ''order_filled'',
     ''order_rejected'', ''stop_move_requested'', ''stop_move_confirmed'', ''stop_move_rejected'',
     ''partial_close_submitted'', ''partial_filled'', ''partial_rejected'', ''position_closed'',
     ''intent_created'', ''signal_validated'', ''trade_intent_created'', ''group_submitted'',
     ''group_rejected'', ''leg_submitted'', ''leg_filled'', ''tp1_filled'', ''be_requested'',
     ''be_retry'', ''be_confirmed'', ''tp2_filled'', ''tp3_filled'', ''stop_filled'',
     ''leg_rejected'', ''group_reconciled'', ''leg_partially_filled'', ''group_opened'',
     ''orphan_broker_position'', ''execution_error'', ''partial_submission'',
     ''compensation_requested'', ''compensation_confirmed'', ''compensation_failed'',
     ''failed_with_open_risk'', ''system_shutdown'']"

text \<open>The arguments of an append. A missing payload is the empty dict (\<^verbatim>\<open>payload or {}\<close>).\<close>

record event_args =
  ea_event_type :: string
  ea_signal_id :: string
  ea_asset_key :: string
  ea_strategy_version :: string
  ea_config_hash :: string
  ea_actor :: string
  ea_event_timestamp_utc :: "int option"
  ea_model_hash :: "string option"
  ea_feature_snapshot_hash :: "string option"
  ea_position_ticket :: "int option"
  ea_order_ticket :: "int option"
  ea_reason :: "string option"
  ea_payload :: "(string \<times> json) list"
  ea_event_id :: "string option"
  ea_group_id :: "string option"
  ea_leg_id :: "string option"
  ea_source :: "string option"
  ea_source_type :: "string option"
  ea_source_id :: "string option"
  ea_observed_at_utc_ms :: "int option"

text \<open>A row of the table, in the order of its columns.\<close>

record event_row =
  ev_event_id :: string
  ev_sequence :: int
  ev_event_type :: string
  ev_timestamp :: int
  ev_recorded_at_ms :: int
  ev_signal_id :: string
  ev_position_ticket :: "int option"
  ev_order_ticket :: "int option"
  ev_asset_key :: string
  ev_strategy_version :: string
  ev_config_hash :: string
  ev_model_hash :: "string option"
  ev_feature_snapshot_hash :: "string option"
  ev_actor :: string
  ev_reason :: "string option"
  ev_payload :: json
  ev_payload_hash :: string
  ev_previous :: "string option"
  ev_event_hash :: string
  ev_group_id :: "string option"
  ev_leg_id :: "string option"
  ev_source :: "string option"
  ev_source_type :: "string option"
  ev_source_id :: "string option"
  ev_observed_at_utc_ms :: "int option"

type_synonym ledger = "event_row list"

text \<open>The hashed material of a row; \<open>observed\<close> is the JSON form of the observation time.\<close>

definition material :: "json \<Rightarrow> string option \<Rightarrow> event_row \<Rightarrow> json" where
  "material observed previous r = JObj [
     (''actor'', JStr (ev_actor r)), (''asset'', JStr (ev_asset_key r)),
     (''config'', JStr (ev_config_hash r)), (''event_id'', JStr (ev_event_id r)),
     (''event_type'', JStr (ev_event_type r)), (''feature'', jopt JStr (ev_feature_snapshot_hash r)),
     (''group_id'', jopt JStr (ev_group_id r)), (''leg_id'', jopt JStr (ev_leg_id r)),
     (''model'', jopt JStr (ev_model_hash r)), (''observed_at_utc_ms'', observed),
     (''payload_hash'', JStr (ev_payload_hash r)), (''previous'', jopt JStr previous),
     (''reason'', jopt JStr (ev_reason r)), (''sequence'', JInt (ev_sequence r)),
     (''signal_id'', JStr (ev_signal_id r)), (''source'', jopt JStr (ev_source r)),
     (''source_id'', jopt JStr (ev_source_id r)), (''source_type'', jopt JStr (ev_source_type r)),
     (''strategy'', JStr (ev_strategy_version r)), (''timestamp'', JInt (ev_timestamp r))]"

section \<open>Append\<close>

text \<open>\<^verbatim>\<open>ORDER BY sequence\<close>.\<close>

definition by_sequence :: "ledger \<Rightarrow> ledger" where
  "by_sequence rows = sort_key ev_sequence rows"

definition prior_row :: "ledger \<Rightarrow> event_row option" where
  "prior_row rows = (if rows = [] then None else Some (last (by_sequence rows)))"

definition new_row ::
  "(json \<Rightarrow> string) \<Rightarrow> int \<Rightarrow> string \<Rightarrow> event_args \<Rightarrow> event_row option \<Rightarrow> event_row" where
  "new_row sha recorded eid a prior =
     (let sequence = (case prior of Some p \<Rightarrow> ev_sequence p + 1 | None \<Rightarrow> 1);
          previous = map_option ev_event_hash prior;
          ts = (case ea_event_timestamp_utc a of Some t \<Rightarrow> if t = 0 then recorded div 1000 else t
                                               | None \<Rightarrow> recorded div 1000);
          r = \<lparr>ev_event_id = eid, ev_sequence = sequence, ev_event_type = ea_event_type a,
             ev_timestamp = ts, ev_recorded_at_ms = recorded, ev_signal_id = ea_signal_id a,
             ev_position_ticket = ea_position_ticket a, ev_order_ticket = ea_order_ticket a,
             ev_asset_key = ea_asset_key a, ev_strategy_version = ea_strategy_version a,
             ev_config_hash = ea_config_hash a, ev_model_hash = ea_model_hash a,
             ev_feature_snapshot_hash = ea_feature_snapshot_hash a, ev_actor = ea_actor a,
             ev_reason = ea_reason a, ev_payload = JObj (ea_payload a),
             ev_payload_hash = sha (JObj (ea_payload a)), ev_previous = previous, ev_event_hash = [],
             ev_group_id = ea_group_id a, ev_leg_id = ea_leg_id a, ev_source = ea_source a,
             ev_source_type = ea_source_type a, ev_source_id = ea_source_id a,
             ev_observed_at_utc_ms = ea_observed_at_utc_ms a\<rparr>
      in r\<lparr>ev_event_hash := sha (material (jopt JInt (ev_observed_at_utc_ms r)) previous r)\<rparr>)"

text \<open>An existing event id is returned without a write; the unique column \<open>event_hash\<close> makes a
  digest collision with an earlier row raise.\<close>

definition append_trading_event ::
  "(json \<Rightarrow> string) \<Rightarrow> int \<Rightarrow> string \<Rightarrow> event_args \<Rightarrow> (ledger, string) comp" where
  "append_trading_event sha recorded uuid a rows =
     (if ea_event_type a \<notin> set EVENT_TYPES then (Inl (ValueError ''unsupported trading event''), rows)
      else
        let eid = or_str (ea_event_id a) uuid
        in if eid \<in> set (map ev_event_id rows) then (Inr eid, rows)
           else
             let r = new_row sha recorded eid a (prior_row rows)
             in if ev_event_hash r \<in> set (map ev_event_hash rows)
                then (Inl (IntegrityError ''event_hash''), rows)
                else (Inr eid, rows @ [r]))"

section \<open>Read and verify\<close>

definition read_trading_events :: "ledger \<Rightarrow> string option \<Rightarrow> ledger" where
  "read_trading_events rows signal_id =
     (let sel = (case signal_id of None \<Rightarrow> rows
                 | Some sid \<Rightarrow> if sid = [] then rows else filter (\<lambda>r. ev_signal_id r = sid) rows)
      in by_sequence sel)"

definition row_ok ::
  "(json \<Rightarrow> string) \<Rightarrow> (int option list \<Rightarrow> int option \<Rightarrow> json) \<Rightarrow> int option list \<Rightarrow> string option
     \<Rightarrow> event_row \<Rightarrow> bool" where
  "row_ok sha cell col previous r \<longleftrightarrow>
     ev_previous r = previous
     \<and> sha (material (cell col (ev_observed_at_utc_ms r)) previous r) = ev_event_hash r
     \<and> sha (ev_payload r) = ev_payload_hash r"

fun verify_loop ::
  "(string option \<Rightarrow> event_row \<Rightarrow> bool) \<Rightarrow> string option \<Rightarrow> ledger \<Rightarrow> bool" where
  "verify_loop ok previous [] = True"
| "verify_loop ok previous (r # rs) =
     (if ok previous r then verify_loop ok (Some (ev_event_hash r)) rs else False)"

definition verify_event_chain ::
  "(json \<Rightarrow> string) \<Rightarrow> (int option list \<Rightarrow> int option \<Rightarrow> json) \<Rightarrow> ledger \<Rightarrow> bool" where
  "verify_event_chain sha cell rows =
     (let df = read_trading_events rows None; col = map ev_observed_at_utc_ms df
      in verify_loop (row_ok sha cell col) None df)"

section \<open>Views of a ledger\<close>

text \<open>The rows as the digest protects them: the broker tickets and the recording time are not
  part of the hashed material, and the observation time only in the form pandas gives it.\<close>

definition sealed :: "event_row \<Rightarrow> event_row" where
  "sealed r = r\<lparr>ev_recorded_at_ms := 0, ev_position_ticket := None, ev_order_ticket := None,
     ev_observed_at_utc_ms := None\<rparr>"

text \<open>The JSON values a verification of the ledger digests.\<close>

definition digested ::
  "(int option list \<Rightarrow> int option \<Rightarrow> json) \<Rightarrow> int option list \<Rightarrow> event_row \<Rightarrow> json set" where
  "digested cell col r =
     {material (cell col (ev_observed_at_utc_ms r)) (ev_previous r) r, ev_payload r}"

definition all_digested ::
  "(int option list \<Rightarrow> int option \<Rightarrow> json) \<Rightarrow> ledger \<Rightarrow> json set" where
  "all_digested cell rows =
     (\<Union>r \<in> set rows. digested cell (map ev_observed_at_utc_ms (by_sequence rows)) r)"

text \<open>A nullable integer column comes back unchanged when it has no NULL or only NULLs.\<close>

definition uniform :: "int option list \<Rightarrow> bool" where
  "uniform col \<longleftrightarrow> (\<forall>v \<in> set col. v = None) \<or> (\<forall>v \<in> set col. v \<noteq> None)"

definition pandas_cell :: "int option list \<Rightarrow> int option \<Rightarrow> json" where
  "pandas_cell col v = (if uniform col then jopt JInt v else jopt (\<lambda>n. JFloat (fl (of_int n))) v)"

definition stored_cell :: "int option list \<Rightarrow> int option \<Rightarrow> json" where
  "stored_cell col v = jopt JInt v"

definition contiguous :: "ledger \<Rightarrow> bool" where
  "contiguous rows \<longleftrightarrow> map ev_sequence rows = [1..int (length rows)]"

text \<open>The invariant of every ledger the code can produce.\<close>

definition ledger_inv :: "(json \<Rightarrow> string) \<Rightarrow> ledger \<Rightarrow> bool" where
  "ledger_inv sha rows \<longleftrightarrow>
     contiguous rows \<and> distinct (map ev_event_id rows) \<and> distinct (map ev_event_hash rows)
     \<and> (\<forall>r \<in> set rows. ev_event_type r \<in> set EVENT_TYPES)
     \<and> verify_loop (row_ok sha stored_cell []) None rows"

text \<open>One call of the ledger as a step: the clock reading, the fresh uuid and the arguments.\<close>

definition ledger_step :: "(json \<Rightarrow> string) \<Rightarrow> int \<times> string \<times> event_args \<Rightarrow> ledger \<Rightarrow> ledger" where
  "ledger_step sha x rows = (case x of (recorded, uuid, a) \<Rightarrow> snd (append_trading_event sha recorded uuid a rows))"

text \<open>A row whose hashes are the digests of values of \<open>S\<close>, for some observation time.\<close>

definition sealed_ok :: "(json \<Rightarrow> string) \<Rightarrow> json set \<Rightarrow> string option \<Rightarrow> event_row \<Rightarrow> bool" where
  "sealed_ok sha S previous r \<longleftrightarrow>
     ev_previous r = previous \<and> sha (ev_payload r) = ev_payload_hash r \<and> ev_payload r \<in> S
     \<and> (\<exists>observed. material observed previous r \<in> S
         \<and> sha (material observed previous r) = ev_event_hash r)"

section \<open>Chained lists\<close>

text \<open>The interface: rows with a hash, a check of one row against the previous hash, and a law
  that an equal hash fixes the previous hash and the protected content.\<close>

locale hash_chain =
  fixes hash :: "'r \<Rightarrow> 'h" and ok :: "'h option \<Rightarrow> 'r \<Rightarrow> bool" and same :: "'r \<Rightarrow> 'r \<Rightarrow> bool"
    and collision_free :: bool
  assumes bind: "collision_free \<Longrightarrow> ok p r \<Longrightarrow> ok p' r' \<Longrightarrow> hash r = hash r' \<Longrightarrow> p = p' \<and> same r r'"
begin

fun chain :: "'h option \<Rightarrow> 'r list \<Rightarrow> bool" where
  "chain p [] \<longleftrightarrow> True"
| "chain p (r # rs) \<longleftrightarrow> ok p r \<and> chain (Some (hash r)) rs"

definition head :: "'h option \<Rightarrow> 'r list \<Rightarrow> 'h option" where
  "head p rs = (if rs = [] then p else Some (hash (last rs)))"

lemma head_Cons: "head p (r # rs) = head (Some (hash r)) rs"
  by (simp add: head_def)

lemma chain_snoc: "chain p (rs @ [r]) \<longleftrightarrow> chain p rs \<and> ok (head p rs) r"
  by (induction rs arbitrary: p) (auto simp: head_Cons, auto simp: head_def)

lemma tamper_evident:
  assumes "chain p rs" and "chain p rs'" and "length rs = length rs'" and "head p rs = head p rs'"
    and collision_free
  shows "list_all2 same rs rs'"
  using assms
proof (induction rs arbitrary: rs' rule: rev_induct)
  case (snoc r rs)
  then obtain t ts where rs': "rs' = ts @ [t]" by (cases rs' rule: rev_cases) auto
  with snoc.prems have "hash r = hash t" "ok (head p rs) r" "ok (head p ts) t"
    by (auto simp: chain_snoc head_def)
  then have "head p rs = head p ts" "same r t" using bind snoc.prems(5) by blast+
  then show ?case using snoc rs' by (auto simp: chain_snoc intro: list_all2_appendI)
qed simp

end

section \<open>The ledger's rows form a chain\<close>

lemma material_inj:
  assumes "material ob p r = material ob' p' r'" and "ev_payload r = ev_payload r'"
    and "ev_previous r = p" and "ev_previous r' = p'" and "ev_event_hash r = ev_event_hash r'"
  shows "p = p' \<and> sealed r = sealed r'"
  using assms by (cases r; cases r') (simp add: material_def sealed_def)

lemma sealed_ok_binds:
  assumes inj: "inj_on sha S" and r: "sealed_ok sha S p r" and r': "sealed_ok sha S p' r'"
    and eq: "ev_event_hash r = ev_event_hash r'"
  shows "p = p' \<and> sealed r = sealed r'"
proof -
  from r obtain ob where ob: "material ob p r \<in> S" "sha (material ob p r) = ev_event_hash r"
    by (auto simp: sealed_ok_def)
  from r' obtain ob' where ob': "material ob' p' r' \<in> S" "sha (material ob' p' r') = ev_event_hash r'"
    by (auto simp: sealed_ok_def)
  have mat: "material ob p r = material ob' p' r'"
    using inj_onD [OF inj _ ob(1) ob'(1)] ob(2) ob'(2) eq by simp
  then have "ev_payload_hash r = ev_payload_hash r'" by (simp add: material_def)
  then have "ev_payload r = ev_payload r'"
    using inj_onD [OF inj] r r' by (auto simp: sealed_ok_def)
  with mat show ?thesis using r r' eq by (intro material_inj) (auto simp: sealed_ok_def)
qed

interpretation sealed_chain: hash_chain ev_event_hash "sealed_ok sha S"
  "\<lambda>r r'. sealed r = sealed r'" "inj_on sha S" for sha S
  by unfold_locales (rule sealed_ok_binds)

lemma row_ok_sealed_ok:
  "row_ok sha cell col p r \<Longrightarrow> digested cell col r \<subseteq> S \<Longrightarrow> sealed_ok sha S p r"
  by (auto simp: row_ok_def sealed_ok_def digested_def)

lemma verify_loop_sealed_chain:
  "verify_loop (row_ok sha cell col) p rows \<Longrightarrow> (\<And>r. r \<in> set rows \<Longrightarrow> digested cell col r \<subseteq> S)
    \<Longrightarrow> sealed_chain.chain sha S p rows"
  by (induction rows arbitrary: p) (auto split: if_splits intro!: row_ok_sealed_ok)

lemma verified_sealed_chain:
  assumes "verify_event_chain sha cell rows" and "all_digested cell rows \<subseteq> S"
  shows "sealed_chain.chain sha S None (by_sequence rows)"
proof (rule verify_loop_sealed_chain)
  show "verify_loop (row_ok sha cell (map ev_observed_at_utc_ms (by_sequence rows))) None (by_sequence rows)"
    using assms(1) by (simp add: verify_event_chain_def read_trading_events_def Let_def)
  show "digested cell (map ev_observed_at_utc_ms (by_sequence rows)) r \<subseteq> S"
    if "r \<in> set (by_sequence rows)" for r
    using that assms(2) by (auto simp: all_digested_def by_sequence_def)
qed

lemma verify_loop_snoc:
  "verify_loop ok p (rows @ [r]) \<longleftrightarrow>
     verify_loop ok p rows \<and> ok (if rows = [] then p else Some (ev_event_hash (last rows))) r"
  by (induction rows arbitrary: p) auto

lemma verify_loop_cong:
  "(\<And>p r. r \<in> set rows \<Longrightarrow> ok p r = ok' p r) \<Longrightarrow> verify_loop ok p rows = verify_loop ok' p rows"
  by (induction rows arbitrary: p) auto

lemma contiguous_by_sequence: "contiguous rows \<Longrightarrow> by_sequence rows = rows"
  unfolding by_sequence_def contiguous_def by (intro sort_key_id_if_sorted) simp

lemma prior_row_contiguous:
  "contiguous rows \<Longrightarrow> prior_row rows = (if rows = [] then None else Some (last rows))"
  by (simp add: prior_row_def contiguous_by_sequence)

lemma contiguous_last: "contiguous rows \<Longrightarrow> rows \<noteq> [] \<Longrightarrow> ev_sequence (last rows) = int (length rows)"
proof -
  assume c: "contiguous rows" and ne: "rows \<noteq> []"
  then have "ev_sequence (last rows) = last [1..int (length rows)]"
    using last_map [of rows ev_sequence] by (simp add: contiguous_def)
  also have "\<dots> = int (length rows)"
    using ne upto_rec2 [of 1 "int (length rows)"] by (cases rows) auto
  finally show ?thesis .
qed

lemma new_row_ok:
  "row_ok sha stored_cell col (map_option ev_event_hash prior) (new_row sha recorded eid a prior)"
  by (simp add: row_ok_def new_row_def Let_def stored_cell_def material_def)

lemma new_row_fields [simp]:
  "ev_event_id (new_row sha recorded eid a prior) = eid"
  "ev_event_type (new_row sha recorded eid a prior) = ea_event_type a"
  "ev_observed_at_utc_ms (new_row sha recorded eid a prior) = ea_observed_at_utc_ms a"
  "ev_sequence (new_row sha recorded eid a prior) =
     (case prior of Some p \<Rightarrow> ev_sequence p + 1 | None \<Rightarrow> 1)"
  "ev_payload (new_row sha recorded eid a prior) = JObj (ea_payload a)"
  "ev_signal_id (new_row sha recorded eid a prior) = ea_signal_id a"
  "ev_group_id (new_row sha recorded eid a prior) = ea_group_id a"
  "ev_reason (new_row sha recorded eid a prior) = ea_reason a"
  by (simp_all add: new_row_def Let_def)

lemma contiguous_snoc:
  assumes c: "contiguous rows"
  shows "contiguous (rows @ [new_row sha recorded eid a (prior_row rows)])"
proof (cases "rows = []")
  case False
  then have "[1..int (length rows) + 1] = [1..int (length rows)] @ [int (length rows) + 1]"
    by (subst upto_rec2) auto
  with c False show ?thesis
    by (simp add: contiguous_def prior_row_contiguous [OF c] contiguous_last [OF c] add.commute)
qed (simp add: contiguous_def prior_row_def)

lemma ledger_inv_Nil: "ledger_inv sha []"
  by (simp add: ledger_inv_def contiguous_def)

lemma append_cases:
  "snd (append_trading_event sha recorded uuid a rows) = rows
   \<or> (\<exists>eid r. eid = or_str (ea_event_id a) uuid \<and> r = new_row sha recorded eid a (prior_row rows)
        \<and> ea_event_type a \<in> set EVENT_TYPES \<and> eid \<notin> ev_event_id ` set rows
        \<and> ev_event_hash r \<notin> ev_event_hash ` set rows
        \<and> append_trading_event sha recorded uuid a rows = (Inr eid, rows @ [r]))"
  by (auto simp: append_trading_event_def Let_def)

lemma append_keeps_ledger_inv [keeps_intros]:
  "keeps (ledger_inv sha) (append_trading_event sha recorded uuid a)"
proof (rule keepsI)
  fix rows assume inv: "ledger_inv sha rows"
  then have c: "contiguous rows" by (simp add: ledger_inv_def)
  from append_cases [of sha recorded uuid a rows]
  show "ledger_inv sha (snd (append_trading_event sha recorded uuid a rows))"
  proof (elim disjE exE conjE)
    fix eid r
    assume r: "r = new_row sha recorded eid a (prior_row rows)"
      and ap: "append_trading_event sha recorded uuid a rows = (Inr eid, rows @ [r])"
      and fresh: "ea_event_type a \<in> set EVENT_TYPES" "eid \<notin> ev_event_id ` set rows"
        "ev_event_hash r \<notin> ev_event_hash ` set rows"
    have "row_ok sha stored_cell [] (if rows = [] then None else Some (ev_event_hash (last rows))) r"
      using new_row_ok [of sha "[]" "prior_row rows" recorded eid a] r
      by (auto simp: prior_row_contiguous [OF c] split: if_splits)
    then show ?thesis
      using inv fresh contiguous_snoc [OF c, of sha recorded eid a] r ap
      by (auto simp: ledger_inv_def verify_loop_snoc)
  qed (simp add: inv)
qed

interpretation ledger_run: step_invariant "ledger_step sha" "ledger_inv sha" for sha
  by unfold_locales
    (auto simp: ledger_step_def split: prod.splits intro: keepsD [OF append_keeps_ledger_inv])

lemma stored_verify:
  assumes "\<And>col v. uniform col \<Longrightarrow> v \<in> set col \<Longrightarrow> cell col v = jopt JInt v"
    and inv: "ledger_inv sha rows" and u: "uniform (map ev_observed_at_utc_ms rows)"
  shows "verify_event_chain sha cell rows"
proof -
  have "by_sequence rows = rows"
    using inv by (simp add: ledger_inv_def contiguous_by_sequence)
  moreover have "row_ok sha cell (map ev_observed_at_utc_ms rows) p r = row_ok sha stored_cell [] p r"
    if "r \<in> set rows" for p r
    using that assms(1) [OF u] by (simp add: row_ok_def stored_cell_def)
  ultimately show ?thesis
    using inv verify_loop_cong [of rows "row_ok sha cell (map ev_observed_at_utc_ms rows)"
        "row_ok sha stored_cell []" None]
    by (simp add: verify_event_chain_def read_trading_events_def Let_def ledger_inv_def)
qed

lemma run_observed:
  "set (map ev_observed_at_utc_ms (run_steps (ledger_step sha) ops rows))
     \<subseteq> set (map ev_observed_at_utc_ms rows) \<union> (\<lambda>(_, _, a). ea_observed_at_utc_ms a) ` set ops"
proof (induction ops arbitrary: rows)
  case (Cons x ops)
  obtain recorded uuid a where x: "x = (recorded, uuid, a)" by (cases x)
  have "set (map ev_observed_at_utc_ms (ledger_step sha x rows))
      \<subseteq> set (map ev_observed_at_utc_ms rows) \<union> {ea_observed_at_utc_ms a}"
    using append_cases [of sha recorded uuid a rows] by (auto simp: ledger_step_def x)
  with Cons.IH [of "ledger_step sha x rows"] show ?case by (auto simp: x)
qed simp

lemma uniform_subset: "uniform col \<Longrightarrow> set col' \<subseteq> set col \<Longrightarrow> uniform col'"
  unfolding uniform_def by blast

section \<open>Properties\<close>

instance json :: countable
  by countable_datatype

text \<open>An injective digest for the witnesses.\<close>

definition demo_sha :: "json \<Rightarrow> string" where
  "demo_sha j = replicate (to_nat j) CHR ''x''"

definition demo_event :: event_args where
  "demo_event = \<lparr>ea_event_type = ''signal_created'', ea_signal_id = ''s1'', ea_asset_key = ''XAUUSD'',
     ea_strategy_version = ''v1'', ea_config_hash = ''c'', ea_actor = ''test'',
     ea_event_timestamp_utc = None, ea_model_hash = None, ea_feature_snapshot_hash = None,
     ea_position_ticket = None, ea_order_ticket = None, ea_reason = None, ea_payload = [],
     ea_event_id = None, ea_group_id = None, ea_leg_id = None, ea_source = None,
     ea_source_type = None, ea_source_id = None, ea_observed_at_utc_ms = None\<rparr>"

definition demo_row :: event_row where
  "demo_row = new_row demo_sha 1000 ''a'' demo_event None"

definition demo_mixed :: "(int \<times> string \<times> event_args) list" where
  "demo_mixed = [(1000, ''a'', demo_event),
     (2000, ''b'', demo_event\<lparr>ea_observed_at_utc_ms := Some 5\<rparr>)]"

lemma demo_sha_inj: "inj demo_sha"
  by (rule injI) (metis demo_sha_def length_replicate to_nat_split)

text \<open>C5. Every ledger built by calls of \<open>append_trading_event\<close>, in any order and with any
  arguments, refused calls included, passes \<open>verify_event_chain\<close>, numbers its rows 1, 2, 3, ...
  and has no two rows with one event id, as long as the calls agree on whether they record an
  observation time (a mixed column is converted by pandas).\<close>

theorem appended_ledger_verifies:
  assumes cell: "\<And>col v. uniform col \<Longrightarrow> v \<in> set col \<Longrightarrow> cell col v = jopt JInt v"
    and ops: "uniform (map (\<lambda>(_, _, a). ea_observed_at_utc_ms a) ops)"
  shows "verify_event_chain sha cell (run_steps (ledger_step sha) ops [])
    \<and> map ev_sequence (run_steps (ledger_step sha) ops [])
        = [1..int (length (run_steps (ledger_step sha) ops []))]
    \<and> distinct (map ev_event_id (run_steps (ledger_step sha) ops []))"
proof -
  have inv: "ledger_inv sha (run_steps (ledger_step sha) ops [])"
    by (rule ledger_run.run_inv [OF ledger_inv_Nil])
  moreover have "uniform (map ev_observed_at_utc_ms (run_steps (ledger_step sha) ops []))"
    using run_observed [of sha ops "[]"] by (intro uniform_subset [OF ops]) (auto simp: case_prod_beta)
  ultimately show ?thesis
    using stored_verify [OF cell inv] by (simp add: ledger_inv_def contiguous_def)
qed

theorem appended_ledger_verifies_witness:
  "verify_event_chain demo_sha pandas_cell
     (run_steps (ledger_step demo_sha) [(1000, ''a'', demo_event), (2000, ''b'', demo_event)] [])"
  using appended_ledger_verifies
    [of pandas_cell "[(1000, ''a'', demo_event), (2000, ''b'', demo_event)]" demo_sha]
  by (simp add: pandas_cell_def uniform_def demo_event_def)

text \<open>An append never alters or removes a row, a returned id is in the ledger, a repeated call
  with the same event id writes nothing and returns the id, and a freshly written row is the last
  one, carries the arguments and the next sequence number, and links to the row before it.\<close>

theorem append_is_idempotent_extension:
  assumes inv: "ledger_inv sha rows" and ap: "append_trading_event sha recorded uuid a rows = (Inr eid, rows')"
  shows "eid = or_str (ea_event_id a) uuid \<and> eid \<in> ev_event_id ` set rows'
    \<and> (eid \<in> ev_event_id ` set rows \<longrightarrow> rows' = rows)
    \<and> (eid \<notin> ev_event_id ` set rows \<longrightarrow>
        (\<exists>r. rows' = rows @ [r] \<and> ev_event_id r = eid \<and> ev_event_type r = ea_event_type a
          \<and> ev_signal_id r = ea_signal_id a \<and> ev_group_id r = ea_group_id a
          \<and> ev_payload r = JObj (ea_payload a) \<and> ev_sequence r = int (length rows) + 1
          \<and> ev_previous r = (if rows = [] then None else Some (ev_event_hash (last rows)))))
    \<and> (eid \<noteq> [] \<longrightarrow>
        append_trading_event sha recorded' uuid' (a\<lparr>ea_event_id := Some eid\<rparr>) rows' = (Inr eid, rows'))"
proof -
  have c: "contiguous rows" using inv by (simp add: ledger_inv_def)
  have prev: "ev_previous (new_row sha recorded eid a (prior_row rows))
      = (if rows = [] then None else Some (ev_event_hash (last rows)))"
    by (simp add: new_row_def Let_def prior_row_contiguous [OF c])
  have sq: "ev_sequence (new_row sha recorded eid a (prior_row rows)) = int (length rows) + 1"
    using contiguous_last [OF c] by (simp add: prior_row_contiguous [OF c])
  have et: "ea_event_type a \<in> set EVENT_TYPES" and eid: "eid = or_str (ea_event_id a) uuid"
    using ap by (auto simp: append_trading_event_def Let_def split: if_splits)
  have new: "eid \<notin> ev_event_id ` set rows \<Longrightarrow> rows' = rows @ [new_row sha recorded eid a (prior_row rows)]"
    and old: "eid \<in> ev_event_id ` set rows \<Longrightarrow> rows' = rows"
    using ap et eid by (auto simp: append_trading_event_def Let_def split: if_splits)
  have mem: "eid \<in> ev_event_id ` set rows'" using new old by (cases "eid \<in> ev_event_id ` set rows") auto
  have again: "append_trading_event sha recorded' uuid' (a\<lparr>ea_event_id := Some eid\<rparr>) rows' = (Inr eid, rows')"
    if "eid \<noteq> []"
    using that et mem by (simp add: append_trading_event_def or_str_def)
  show ?thesis using eid mem old new prev sq again by auto
qed

theorem append_is_idempotent_extension_witness:
  "\<exists>r. snd (append_trading_event demo_sha 1000 ''a'' demo_event []) = [r] \<and> ev_sequence r = 1"
  using append_is_idempotent_extension
    [OF ledger_inv_Nil, of demo_sha 1000 "''a''" demo_event "''a''"
      "[new_row demo_sha 1000 ''a'' demo_event None]"]
  by (simp add: append_trading_event_def demo_event_def or_str_def EVENT_TYPES_def prior_row_def Let_def)



text \<open>Once a ledger mixes rows with and without an observation time, a pandas column that comes
  back as floats makes \<open>verify_event_chain\<close> fail although every row was written by the code: the
  recomputed material has a float where the hashed one has an integer.\<close>

theorem mixed_observation_breaks_verification:
  assumes inv: "ledger_inv sha rows" and r: "r \<in> set rows" "ev_observed_at_utc_ms r = Some t"
    and mixed: "\<not> uniform (map ev_observed_at_utc_ms rows)"
    and inj: "inj_on sha (all_digested pandas_cell rows \<union> all_digested stored_cell rows)"
  shows "\<not> verify_event_chain sha pandas_cell rows"
proof
  let ?col = "map ev_observed_at_utc_ms rows"
  have member: "verify_loop ok p rs \<Longrightarrow> x \<in> set rs \<Longrightarrow> \<exists>q. ok q x" for ok p rs x
    by (induction rs arbitrary: p) (auto split: if_splits)
  assume "verify_event_chain sha pandas_cell rows"
  then have "verify_loop (row_ok sha pandas_cell ?col) None rows"
    using inv by (simp add: verify_event_chain_def read_trading_events_def Let_def ledger_inv_def
        contiguous_by_sequence)
  moreover have "verify_loop (row_ok sha stored_cell []) None rows" using inv by (simp add: ledger_inv_def)
  ultimately obtain p q where "row_ok sha pandas_cell ?col p r" "row_ok sha stored_cell [] q r"
    using member r(1) by meson
  then have sha: "sha (material (pandas_cell ?col (Some t)) p r) = sha (material (stored_cell ?col (Some t)) p r)"
    and p: "p = ev_previous r"
    using r(2) by (auto simp: row_ok_def stored_cell_def)
  have "material (pandas_cell ?col (Some t)) p r = material (stored_cell ?col (Some t)) p r"
  proof (rule inj_onD [OF inj sha])
    have "by_sequence rows = rows" using inv by (simp add: ledger_inv_def contiguous_by_sequence)
    then show "material (pandas_cell ?col (Some t)) p r \<in> all_digested pandas_cell rows \<union> all_digested stored_cell rows"
      and "material (stored_cell ?col (Some t)) p r \<in> all_digested pandas_cell rows \<union> all_digested stored_cell rows"
      using r p by (force simp: all_digested_def digested_def)+
  qed
  then show False using mixed by (simp add: material_def pandas_cell_def stored_cell_def)
qed

lemma demo_sha_eq [simp]: "demo_sha x = demo_sha y \<longleftrightarrow> x = y"
  using demo_sha_inj by (auto dest: injD)

lemma demo_mixed_rows:
  "\<exists>r r'. run_steps (ledger_step demo_sha) demo_mixed [] = [r, r'] \<and> ev_observed_at_utc_ms r = None
     \<and> ev_observed_at_utc_ms r' = Some 5"
  by (simp add: demo_mixed_def ledger_step_def append_trading_event_def demo_event_def or_str_def
      EVENT_TYPES_def prior_row_def Let_def by_sequence_def new_row_def material_def)

theorem mixed_observation_breaks_verification_witness:
  "\<not> verify_event_chain demo_sha pandas_cell (run_steps (ledger_step demo_sha) demo_mixed [])"
proof -
  obtain r r' where rows: "run_steps (ledger_step demo_sha) demo_mixed [] = [r, r']"
    and obs: "ev_observed_at_utc_ms r = None" "ev_observed_at_utc_ms r' = Some 5"
    using demo_mixed_rows by blast
  have "ledger_inv demo_sha [r, r']"
    using ledger_run.run_inv [OF ledger_inv_Nil, of demo_sha demo_mixed] rows by simp
  from mixed_observation_breaks_verification [OF this, of r' 5] obs inj_on_subset [OF demo_sha_inj]
  show ?thesis by (simp add: rows uniform_def)
qed

end
