(* ===== verification/Exec_World.thy ===== *)
theory Exec_World
  imports Group_Store Event_Ledger
begin

text \<open>
  What the two trade-group executors share: the world of the group store, the event ledger and a
  driver's state, on which their methods run, and the rules that carry a property through the writes.
  What a method wrote before an exception stays written. Clock readings and fresh uuids come from the
  streams \<open>io_clock\<close> and \<open>io_uuid\<close>, one position per reading. The type parameter \<open>'b\<close> is what a driver
  returns for a submitted leg.
\<close>

section \<open>The world\<close>

record io_env =
  io_sha :: "json \<Rightarrow> string"
  io_clock :: "nat \<Rightarrow> int"
  io_uuid :: "nat \<Rightarrow> string"

record ('b, 'd) world =
  w_store :: "'b group_store"
  w_ledger :: ledger
  w_drv :: 'd
  w_reads :: nat

definition read_clock :: "'x io_env_scheme \<Rightarrow> (('b, 'd) world, int) comp" where
  "read_clock ex w = (Inr (io_clock ex (w_reads w)), w\<lparr>w_reads := w_reads w + 1\<rparr>)"

definition on_store :: "('b group_store \<Rightarrow> 'a \<times> 'b group_store) \<Rightarrow> (('b, 'd) world, 'a) comp" where
  "on_store f w = (case f (w_store w) of (x, s) \<Rightarrow> (Inr x, w\<lparr>w_store := s\<rparr>))"

definition on_driver :: "('d, 'a) comp \<Rightarrow> (('b, 'd) world, 'a) comp" where
  "on_driver m w = (case m (w_drv w) of (r, d) \<Rightarrow> (r, w\<lparr>w_drv := d\<rparr>))"

definition store_save :: "'x io_env_scheme \<Rightarrow> trade_group_spec \<Rightarrow> 'b save_args \<Rightarrow> (('b, 'd) world, unit) comp" where
  "store_save ex spec a =
     bnd (read_clock ex) (\<lambda>now. on_store (\<lambda>s. ((), save_group (io_sha ex) now spec a s)))"

definition store_update ::
  "'x io_env_scheme \<Rightarrow> string \<Rightarrow> group_state \<Rightarrow> 'b update_args \<Rightarrow> (('b, 'd) world, unit) comp" where
  "store_update ex gid st u =
     bnd (read_clock ex) (\<lambda>now. on_store (\<lambda>s. ((), update_group_state now gid st u s)))"

definition append_args :: "'x io_env_scheme \<Rightarrow> event_args \<Rightarrow> (('b, 'd) world, unit) comp" where
  "append_args ex a w =
     (let n = w_reads w
      in case append_trading_event (io_sha ex) (io_clock ex n) (io_uuid ex n) a (w_ledger w) of
           (r, l) \<Rightarrow> (map_sum id (\<lambda>_. ()) r, w\<lparr>w_ledger := l, w_reads := n + 1\<rparr>))"

definition require_group :: "string \<Rightarrow> (('b, 'd) world, 'b group_row) comp" where
  "require_group gid =
     bnd (gets w_store) (\<lambda>s. bnd (lift_result (load_group gid s)) (\<lambda>r.
       case r of None \<Rightarrow> throw (GroupStateError ''not found'') | Some row \<Rightarrow> ret row))"

text \<open>\<^verbatim>\<open>GroupState.value\<close>.\<close>

fun state_value :: "group_state \<Rightarrow> string" where
  "state_value DRAFT = ''DRAFT''"
| "state_value VALIDATED = ''VALIDATED''"
| "state_value SUBMITTED = ''SUBMITTED''"
| "state_value OPENED = ''OPENED''"
| "state_value TP1_FILLED = ''TP1_FILLED''"
| "state_value BE_REQUESTED = ''BE_REQUESTED''"
| "state_value BE_RETRY = ''BE_RETRY''"
| "state_value BE_CONFIRMED = ''BE_CONFIRMED''"
| "state_value TP2_FILLED = ''TP2_FILLED''"
| "state_value TP3_FILLED = ''TP3_FILLED''"
| "state_value RECONCILED = ''RECONCILED''"
| "state_value STOPPED = ''STOPPED''"
| "state_value REJECTED = ''REJECTED''"
| "state_value EXPIRED = ''EXPIRED''"
| "state_value CANCELLED = ''CANCELLED''"
| "state_value FAILED = ''FAILED''"
| "state_value PARTIAL_SUBMISSION = ''PARTIAL_SUBMISSION''"
| "state_value COMPENSATION_REQUESTED = ''COMPENSATION_REQUESTED''"
| "state_value COMPENSATION_CONFIRMED = ''COMPENSATION_CONFIRMED''"
| "state_value FAILED_WITH_OPEN_RISK = ''FAILED_WITH_OPEN_RISK''"

definition mode_json :: "trade_group_spec \<Rightarrow> json" where
  "mode_json spec = JStr (mode_str (tg_mode spec))"

text \<open>The keys of a driver's dict that are present, in the order of their names, and the entry of a
  submitted leg in an event.\<close>

definition id_json :: "broker_id \<Rightarrow> json" where
  "id_json i = (case i of IntId n \<Rightarrow> JInt n | StrId s \<Rightarrow> JStr s)"

definition json_key :: "string \<Rightarrow> ('a \<Rightarrow> json) \<Rightarrow> 'a option \<Rightarrow> (string \<times> json) list" where
  "json_key k f v = (case v of None \<Rightarrow> [] | Some x \<Rightarrow> [(k, f x)])"

definition broker_json :: "broker_result \<Rightarrow> json" where
  "broker_json b = JObj (json_key ''comment'' JStr (br_comment b) @ json_key ''deal_id'' JInt (br_deal_id b)
     @ json_key ''fill_price'' JFloat (br_fill_price b) @ json_key ''filled_volume'' JFloat (br_filled_volume b)
     @ json_key ''order_id'' id_json (br_order_id b) @ json_key ''position_id'' id_json (br_position_id b)
     @ json_key ''requested_volume'' JFloat (br_requested_volume b) @ json_key ''retcode'' JInt (br_retcode b)
     @ json_key ''status'' JStr (br_status b) @ json_key ''virtual'' JBool (br_virtual b))"

definition leg_json :: "broker_result leg_item \<Rightarrow> json" where
  "leg_json i = JObj [(''broker'', broker_json (li_broker i)), (''leg'', JInt (li_leg i)),
     (''price'', JFloat (li_price i)), (''state'', JStr (li_state i)), (''volume'', JFloat (li_volume i))]"

text \<open>\<^verbatim>\<open>s.rsplit("-L", 1)[0]\<close>: the text before the last separator, \<open>None\<close> without one.\<close>

fun before_last_L :: "string \<Rightarrow> string option" where
  "before_last_L [] = None"
| "before_last_L (c # cs) =
     (case before_last_L cs of Some p \<Rightarrow> Some (c # p)
      | None \<Rightarrow> if take 2 (c # cs) = ''-L'' then Some [] else None)"

section \<open>Frames\<close>

lemma wp_world [wp_simps]:
  "wp (read_clock ex) Q E w = Q (io_clock ex (w_reads w)) (w\<lparr>w_reads := w_reads w + 1\<rparr>)"
  "wp (on_store f) QS E w = QS (fst (f (w_store w))) (w\<lparr>w_store := snd (f (w_store w))\<rparr>)"
  "wp (require_group gid) QR E w =
     (case load_group gid (w_store w) of Inr (Some r) \<Rightarrow> QR r w | _ \<Rightarrow> E w)"
  by (auto simp: wp_def read_clock_def on_store_def require_group_def py_simps
      split: prod.splits sum.splits option.splits)

lemma wp_append_args:
  "(\<And>l n. Q () (w\<lparr>w_ledger := l, w_reads := n\<rparr>)) \<Longrightarrow> (\<And>l n. E (w\<lparr>w_ledger := l, w_reads := n\<rparr>))
    \<Longrightarrow> wp (append_args ex a) Q E w"
  by (simp add: wp_def append_args_def Let_def split: prod.split sum.split)

lemma wp_on_driver:
  "(\<And>x d. Q x (w\<lparr>w_drv := d\<rparr>)) \<Longrightarrow> (\<And>d. E (w\<lparr>w_drv := d\<rparr>)) \<Longrightarrow> wp (on_driver m) Q E w"
  by (simp add: wp_def on_driver_def split: prod.split sum.split)

lemma keeps_require_group:
  "(\<And>r w. P w \<Longrightarrow> load_group gid (w_store w) = Inr (Some r) \<Longrightarrow> wp (f r) (\<lambda>_. P) P w)
    \<Longrightarrow> keeps P (bnd (require_group gid) f)"
  by (rule keeps_wp) (auto simp: wp_simps split: sum.split option.split)

text \<open>What only looks at the store is kept by the ledger and the driver, and conversely.\<close>

lemma keeps_frame_store [keeps_intros]:
  "keeps (\<lambda>w. P (w_store w)) (append_args ex a)"
  "keeps (\<lambda>w. P (w_store w)) (on_driver m)"
  "keeps (\<lambda>w. P (w_store w)) (read_clock ex)"
  by (rule keeps_wp, auto simp: wp_simps intro!: wp_append_args wp_on_driver)+

lemma keeps_frame_ledger [keeps_intros]:
  "keeps (\<lambda>w. P (w_ledger w)) (on_store f)"
  "keeps (\<lambda>w. P (w_ledger w)) (on_driver m)"
  "keeps (\<lambda>w. P (w_ledger w)) (read_clock ex)"
  by (rule keeps_wp, auto simp: wp_simps intro!: wp_on_driver)+

lemma keeps_on_store [keeps_intros]:
  "(\<And>s. P s \<Longrightarrow> P (snd (f s))) \<Longrightarrow> keeps (\<lambda>w. P (w_store w)) (on_store f)"
  by (rule keeps_wp) (simp add: wp_simps)

lemma keeps_append_args_ledger [keeps_intros]: "keeps (\<lambda>w. ledger_inv (io_sha ex) (w_ledger w)) (append_args ex a)"
  using keepsD [OF append_keeps_ledger_inv]
  by (auto simp: keeps_def append_args_def Let_def split: prod.split) (metis snd_conv)

lemma keeps_require_group_any [keeps_intros]: "keeps P (require_group gid)"
  by (rule keeps_wp) (auto simp: wp_simps split: sum.split option.split)

lemma keeps_case_prod [keeps_intros]: "(\<And>a b. keeps P (f a b)) \<Longrightarrow> keeps P (case x of (a, b) \<Rightarrow> f a b)"
  by (cases x) simp

lemma keeps_store_writes:
  assumes "\<And>now s. P s \<Longrightarrow> P (save_group (io_sha ex) now spec a s)"
  shows "keeps (\<lambda>w. P (w_store w)) (store_save ex spec a)"
  using assms by (auto simp: store_save_def intro!: keeps_intros)

lemma keeps_store_update:
  assumes "\<And>now s. P s \<Longrightarrow> P (update_group_state now gid st u s)"
  shows "keeps (\<lambda>w. P (w_store w)) (store_update ex gid st u)"
  using assms by (auto simp: store_update_def intro!: keeps_intros)

lemma update_store_inv: "store_inv s \<Longrightarrow> store_inv (update_group_state now gid st u s)"
  using store_step_inv [of s _ "Update now gid st u"] by simp

lemma submit_store_inv: "store_inv s \<Longrightarrow> store_inv (snd (try_mark_submitted gid s))"
  using store_step_inv [of s _ "TrySubmit gid"] by simp

lemma is_submitted_writes:
  "sv_submitted a \<or> tg_group_id spec \<noteq> gid \<Longrightarrow> is_submitted gid s \<Longrightarrow> is_submitted gid (save_group sha now spec a s)"
  "is_submitted gid s \<Longrightarrow> is_submitted gid (update_group_state now g st u s)"
  "is_submitted gid s \<Longrightarrow> is_submitted gid (snd (try_mark_submitted g s))"
  using submitted_sticky [of gid "Save now spec a" s] submitted_sticky [of gid "Update now g st u" s]
    submitted_sticky [of gid "TrySubmit g" s]
  by auto

section \<open>State changes\<close>

text \<open>The state of group \<open>g\<close> was reached from \<open>s0\<close> by steps of the transition table.\<close>

definition reached :: "group_state \<Rightarrow> string \<Rightarrow> 'b group_store \<Rightarrow> bool" where
  "reached s0 g s \<longleftrightarrow> store_inv s
     \<and> (case map_of (gs_groups s) g of None \<Rightarrow> False | Some r \<Rightarrow> validate_transition\<^sup>*\<^sup>* s0 (row_state r))"

lemma reached_update:
  assumes "reached s0 g s" and "load_group gid s = Inr (Some r)" and "validate_transition\<^sup>*\<^sup>* (row_state r) st"
  shows "reached s0 g (update_group_state now gid st u s)"
  using assms
  by (auto simp: reached_def load_group_Some groups_update update_store_inv split: option.splits
      elim: rtranclp_trans)

lemma reached_submit: "reached s0 g s \<Longrightarrow> reached s0 g (snd (try_mark_submitted gid s))"
  by (auto simp: reached_def submit_rows submit_store_inv split: option.splits)

lemma reached_save:
  assumes "reached s0 g s" and "load_group (tg_group_id spec) s = Inr (Some r)"
    and "validate_transition\<^sup>*\<^sup>* (row_state r) (sv_state a)"
  shows "reached s0 g (save_group sha now spec a s)"
  using assms
  by (auto simp: reached_def load_group_Some save_rows save_store_inv split: option.splits
      elim: rtranclp_trans)

lemma loaded_key: "store_inv s \<Longrightarrow> load_group gid s = Inr (Some r) \<Longrightarrow> tg_group_id (row_spec r) = gid"
  by (auto simp: load_group_Some store_inv_def dest!: map_of_SomeD)

lemma require_transition_Inr [simp]: "require_transition s t = Inr u \<longleftrightarrow> validate_transition s t"
  by (simp add: require_transition_def)

lemma load_after_update:
  "load_group gid s = Inr (Some r) \<Longrightarrow>
     load_group gid (update_group_state now gid st u s) = Inr (Some (set_columns now st u r))"
  by (simp add: load_group_Some groups_update)

lemma wp_store_update [wp_simps]:
  "wp (store_update ex gid st u) Q E w =
     Q () (w\<lparr>w_reads := w_reads w + 1,
       w_store := update_group_state (io_clock ex (w_reads w)) gid st u (w_store w)\<rparr>)"
  by (simp add: store_update_def wp_simps)

lemma wp_store_save [wp_simps]:
  "wp (store_save ex spec a) Q E w =
     Q () (w\<lparr>w_reads := w_reads w + 1,
       w_store := save_group (io_sha ex) (io_clock ex (w_reads w)) spec a (w_store w)\<rparr>)"
  by (simp add: store_save_def wp_simps)

lemma case_require_transition [simp]:
  "(case require_transition s t of Inl e \<Rightarrow> f e | Inr u \<Rightarrow> g u) =
     (if validate_transition s t then g () else f (ValueError ''invalid group transition''))"
  by (simp add: require_transition_def)

lemma wp_frame_driver:
  assumes "\<And>P. keeps (\<lambda>w. P (w_store w)) m"
    and "\<And>x w'. w_store w' = w_store w \<Longrightarrow> Q x w'" and "\<And>w'. w_store w' = w_store w \<Longrightarrow> E w'"
  shows "wp m Q E w"
  by (rule wp_mono [OF wp_keeps [OF assms(1) [of "\<lambda>s. s = w_store w"]]]) (use assms in auto)

end
