(* ===== verification/MT5_Context.thy ===== *)
theory MT5_Context
  imports Trade_Geometry Exec_World
begin

text \<open>
  The broker context of the demo executor, \<^verbatim>\<open>execution/mt5_common.py\<close>, and the execution intent,
  \<^verbatim>\<open>execution/execution_intent.py\<close>. The MetaTrader5 package is a parameter: the record \<open>mt5_api\<close> holds
  the calls the code makes, on a terminal state \<open>'m\<close>, and the constants it reads. An attribute the code
  reads with a default is an option.
\<close>

section \<open>The terminal\<close>

record account_raw =
  ac_login :: "int option"
  ac_balance :: "rat option"
  ac_equity :: "rat option"
  ac_currency :: "string option"
  ac_trade_mode :: "int option"
  ac_margin_mode :: "int option"

record symbol_raw =
  sy_digits :: "int option"
  sy_point :: "rat option"
  sy_trade_tick_size :: "rat option"
  sy_trade_stops_level :: "int option"
  sy_trade_freeze_level :: "int option"
  sy_volume_min :: "rat option"
  sy_volume_max :: "rat option"
  sy_volume_step :: "rat option"
  sy_trade_contract_size :: "rat option"
  sy_trade_exec_mode :: "int option"

record tick_raw =
  tk_bid :: "rat option"
  tk_ask :: "rat option"

record position_raw =
  pr_ticket :: int
  pr_symbol :: string
  pr_type :: int
  pr_volume :: rat
  pr_price_open :: rat
  pr_price_current :: rat
  pr_sl :: rat
  pr_tp :: rat
  pr_magic :: int
  pr_comment :: string

record deal_raw =
  dw_ticket :: int
  dw_position_id :: int
  dw_symbol :: string
  dw_type :: int
  dw_entry :: int
  dw_price :: rat
  dw_volume :: rat
  dw_time :: int
  dw_magic :: int
  dw_comment :: string

record send_result =
  sr_retcode :: int
  sr_order :: int
  sr_deal :: int
  sr_comment :: string
  sr_price :: rat
  sr_volume :: rat

text \<open>A trade request; an absent key is \<open>None\<close>.\<close>

record trade_request =
  rq_action :: int
  rq_position :: "int option"
  rq_symbol :: string
  rq_volume :: "rat option"
  rq_type :: "int option"
  rq_price :: "rat option"
  rq_deviation :: "int option"
  rq_magic :: "int option"
  rq_comment :: "string option"
  rq_type_time :: "int option"
  rq_type_filling :: "int option"
  rq_sl :: "rat option"
  rq_tp :: "rat option"

record 'm mt5_api =
  api_account_info :: "('m, account_raw option) comp"
  api_symbol_info :: "string \<Rightarrow> ('m, symbol_raw option) comp"
  api_symbol_info_tick :: "string \<Rightarrow> ('m, tick_raw option) comp"
  api_positions_get :: "int option \<Rightarrow> ('m, position_raw list option) comp"
  api_history_deals_get :: "int \<Rightarrow> ('m, deal_raw list option) comp"
  api_order_send :: "trade_request \<Rightarrow> ('m, send_result option) comp"
  ACCOUNT_TRADE_MODE_DEMO :: "int option"
  ACCOUNT_MARGIN_MODE_RETAIL_HEDGING :: "int option"
  ACCOUNT_MARGIN_MODE_RETAIL_NETTING :: "int option"
  TRADE_RETCODE_DONE :: "int option"
  TRADE_ACTION_DEAL :: int
  TRADE_ACTION_SLTP :: int
  ORDER_TYPE_BUY :: int
  ORDER_TYPE_SELL :: int
  ORDER_TIME_GTC :: int
  ORDER_FILLING_IOC :: int

section \<open>Snapshots\<close>

record account_view =
  av_login :: int
  av_balance :: rat
  av_equity :: rat
  av_currency :: string
  av_trade_mode :: int
  av_margin_mode :: int

definition account_info :: "'m mt5_api \<Rightarrow> ('m, account_view) comp" where
  "account_info api =
     bnd (api_account_info api) (\<lambda>acc. case acc of
        None \<Rightarrow> throw (BrokerUnavailable ''account_info() returned None'')
      | Some a \<Rightarrow> ret \<lparr>av_login = or_num (ac_login a) 0, av_balance = or_num (ac_balance a) 0,
          av_equity = or_num (ac_equity a) 0, av_currency = or_str (ac_currency a) ''USD'',
          av_trade_mode = get_or (- 1) (ac_trade_mode a), av_margin_mode = get_or (- 1) (ac_margin_mode a)\<rparr>)"

definition account_mode :: "'m mt5_api \<Rightarrow> ('m, string) comp" where
  "account_mode api =
     bnd (account_info api) (\<lambda>acc.
       if ACCOUNT_MARGIN_MODE_RETAIL_HEDGING api = Some (av_margin_mode acc) then ret ''hedging''
       else if ACCOUNT_MARGIN_MODE_RETAIL_NETTING api = Some (av_margin_mode acc) then ret ''netting''
       else ret ''unknown'')"

record symbol_view =
  sn_symbol :: string
  sn_digits :: int
  sn_point :: rat
  sn_tick_size :: rat
  sn_trade_stops_level :: int
  sn_trade_freeze_level :: int
  sn_volume_min :: rat
  sn_volume_max :: rat
  sn_volume_step :: rat
  sn_contract_size :: rat
  sn_spread :: rat
  sn_bid :: rat
  sn_ask :: rat
  sn_execution_mode :: string
  sn_account_margin_mode :: string

definition symbol_snapshot :: "'m mt5_api \<Rightarrow> string \<Rightarrow> ('m, symbol_view) comp" where
  "symbol_snapshot api symbol =
     bnd (api_symbol_info api symbol) (\<lambda>info'. case info' of
        None \<Rightarrow> throw (BrokerUnavailable ''symbol_info returned None'')
      | Some info \<Rightarrow>
     bnd (api_symbol_info_tick api symbol) (\<lambda>tick'. case tick' of
        None \<Rightarrow> throw (BrokerUnavailable ''no fresh tick'')
      | Some tick \<Rightarrow>
     let bid = get_or 0 (tk_bid tick); ask = get_or 0 (tk_ask tick); point = or_num (sy_point info) 0
     in if bid \<le> 0 \<or> ask \<le> 0 then throw (BrokerUnavailable ''no fresh tick'')
        else bnd (account_mode api) (\<lambda>margin_mode.
          ret \<lparr>sn_symbol = symbol, sn_digits = or_num (sy_digits info) 0, sn_point = point,
            sn_tick_size = or_num (sy_trade_tick_size info) point,
            sn_trade_stops_level = or_num (sy_trade_stops_level info) 0,
            sn_trade_freeze_level = or_num (sy_trade_freeze_level info) 0,
            sn_volume_min = or_num (sy_volume_min info) 0, sn_volume_max = or_num (sy_volume_max info) 0,
            sn_volume_step = or_num (sy_volume_step info) 0,
            sn_contract_size = or_num (sy_trade_contract_size info) 0,
            sn_spread = \<bar>fsub ask bid\<bar>, sn_bid = bid, sn_ask = ask,
            sn_execution_mode = (case sy_trade_exec_mode info of None \<Rightarrow> ''unknown'' | Some n \<Rightarrow> show_int n),
            sn_account_margin_mode = margin_mode\<rparr>)))"

definition context_broker_snapshot :: "'m mt5_api \<Rightarrow> string \<Rightarrow> ('m, broker_snapshot) comp" where
  "context_broker_snapshot api symbol =
     bnd (symbol_snapshot api symbol) (\<lambda>raw.
     bnd (account_info api) (\<lambda>account.
     ret \<lparr>bs_symbol_point = sn_point raw, bs_tick_size = sn_tick_size raw, bs_digits = sn_digits raw,
       bs_trade_stops_level = sn_trade_stops_level raw, bs_trade_freeze_level = sn_trade_freeze_level raw,
       bs_spread = sn_spread raw, bs_contract_size = sn_contract_size raw,
       bs_volume_min = sn_volume_min raw, bs_volume_max = sn_volume_max raw,
       bs_volume_step = sn_volume_step raw, bs_execution_mode = sn_execution_mode raw,
       bs_account_margin_mode = sn_account_margin_mode raw, bs_balance = av_balance account\<rparr>))"

section \<open>Validation of the approved geometry\<close>

definition ORDER_GEOMETRY_INVALID :: string where
  "ORDER_GEOMETRY_INVALID = ''ORDER_GEOMETRY_INVALID''"

definition align_level :: "rat \<Rightarrow> rat \<Rightarrow> rat" where
  "align_level price tick_size =
     (if tick_size \<le> 0 then price
      else py_round (fmul (fl (of_int (rhe (fdiv price tick_size)))) tick_size) 10)"

record levels =
  lv_tp1 :: rat
  lv_tp2 :: rat
  lv_tp3 :: rat
  lv_sl :: rat

definition invalid_geometry :: pyexc where
  "invalid_geometry = GeometryRejected ORDER_GEOMETRY_INVALID"

definition normalize_geometry :: "'m mt5_api \<Rightarrow> trade_group_spec \<Rightarrow> string \<Rightarrow> ('m, levels) comp" where
  "normalize_geometry api spec symbol =
     bnd (symbol_snapshot api symbol) (\<lambda>snapshot.
     let tick = sn_tick_size snapshot; g = tg_geometry spec;
         lv = \<lparr>lv_tp1 = align_level (ge_tp1 g) tick, lv_tp2 = align_level (ge_tp2 g) tick,
               lv_tp3 = align_level (ge_tp3 g) tick, lv_sl = align_level (ge_sl g) tick\<rparr>
     in seq (require (\<not> tick \<le> 0) invalid_geometry)
        (seq (require (list_all (\<lambda>p. is_tick_aligned p tick) [lv_tp1 lv, lv_tp2 lv, lv_tp3 lv, lv_sl lv])
           invalid_geometry)
        (ret lv)))"

text \<open>The volume a leg would get, and its checks against the volume grid.\<close>

definition leg_volumes :: "trade_group_spec \<Rightarrow> rat list" where
  "leg_volumes spec =
     map (\<lambda>t. py_round (fmul (gr_total_volume (tg_risk spec)) (tl_allocation t)) 8) (tg_targets spec)"

definition volume_fits :: "symbol_view \<Rightarrow> rat \<Rightarrow> bool" where
  "volume_fits snapshot volume =
     (let step = sn_volume_step snapshot; minimum = sn_volume_min snapshot
      in if volume \<le> 0 \<or> volume < fsub minimum (fl (1 / 10 ^ 9)) then False
         else \<not> (step > 0 \<and>
           \<bar>fsub (fmul (fl (of_int (rhe (fdiv volume step)))) step) volume\<bar> > fl (1 / 10 ^ 6)))"

definition validate_geometry :: "'m mt5_api \<Rightarrow> trade_group_spec \<Rightarrow> string \<Rightarrow> ('m, levels) comp" where
  "validate_geometry api spec symbol =
     bnd (normalize_geometry api spec symbol) (\<lambda>lv.
     bnd (symbol_snapshot api symbol) (\<lambda>snapshot.
     let min_stop = fadd (fmul (fl (of_int (max (sn_trade_stops_level snapshot) (sn_trade_freeze_level snapshot))))
            (sn_point snapshot)) (sn_spread snapshot);
         reference = es_reference (tg_entry spec);
         sl_distance = \<bar>fsub (lv_sl lv) reference\<bar>; tp1_distance = \<bar>fsub (lv_tp1 lv) reference\<bar>
     in seq (require (\<not> sl_distance < fsub min_stop (fl (1 / 10 ^ 9))) invalid_geometry)
        (seq (require (\<not> tp1_distance \<le> fadd (sn_spread snapshot) (fl (1 / 10 ^ 9))) invalid_geometry)
        (seq (require (list_all (volume_fits snapshot) (map snd (zip [1 :: int, 2, 3] (leg_volumes spec))))
           invalid_geometry)
        (ret lv)))))"

section \<open>Comments\<close>

definition COMMENT_LIMIT :: nat where
  "COMMENT_LIMIT = 63"

definition build_comment :: "int \<Rightarrow> string \<Rightarrow> int option \<Rightarrow> string" where
  "build_comment magic group_id leg =
     take COMMENT_LIMIT (''TG:'' @ group_id
       @ (case leg of None \<Rightarrow> [] | Some n \<Rightarrow> ''|L:'' @ new_leg_id group_id n) @ ''|'' @ show_int magic)"

text \<open>\<^verbatim>\<open>s.split("|")\<close>.\<close>

fun split_bar :: "string \<Rightarrow> string list" where
  "split_bar [] = [[]]"
| "split_bar (c # cs) =
     (if c = CHR ''|'' then [] # split_bar cs
      else case split_bar cs of [] \<Rightarrow> [[c]] | t # ts \<Rightarrow> (c # t) # ts)"

definition parse_comment :: "string \<Rightarrow> string option" where
  "parse_comment comment =
     (if comment = [] then None
      else map_option (drop 3) (find (\<lambda>t. take 3 t = ''TG:'') (split_bar comment)))"

section \<open>Reading an integer\<close>

text \<open>\<^verbatim>\<open>int(text)\<close>: surrounding space, a sign, digits with single underscores between them.\<close>

definition digit_val :: "char \<Rightarrow> int option" where
  "digit_val c = (let n = (of_char c :: int) in if 48 \<le> n \<and> n \<le> 57 then Some (n - 48) else None)"

fun scan_digits :: "int \<Rightarrow> bool \<Rightarrow> string \<Rightarrow> int option" where
  "scan_digits acc after_digit [] = (if after_digit then Some acc else None)"
| "scan_digits acc after_digit (c # cs) =
     (if c = CHR ''_'' then (if after_digit then scan_digits acc False cs else None)
      else case digit_val c of None \<Rightarrow> None | Some v \<Rightarrow> scan_digits (10 * acc + v) True cs)"

definition parse_int :: "string \<Rightarrow> int option" where
  "parse_int s =
     (case strip s of [] \<Rightarrow> None
      | c # cs \<Rightarrow> if c = CHR ''-'' then map_option uminus (scan_digits 0 False cs)
                 else if c = CHR ''+'' then scan_digits 0 False cs
                 else scan_digits 0 False (c # cs))"

definition to_int :: "string \<Rightarrow> int result" where
  "to_int s = (case parse_int s of None \<Rightarrow> Inl (ValueError ''invalid literal for int()'') | Some n \<Rightarrow> Inr n)"

text \<open>\<^verbatim>\<open>int(value or 0)\<close> on an identifier of a driver's dict.\<close>

definition id_int :: "broker_id option \<Rightarrow> int result" where
  "id_int i =
     (case i of None \<Rightarrow> Inr 0 | Some (IntId n) \<Rightarrow> Inr n
      | Some (StrId s) \<Rightarrow> if s = [] then Inr 0 else to_int s)"

section \<open>The execution intent\<close>

record execution_intent =
  ei_intent_id :: string
  ei_group_id :: string
  ei_schema_version :: string
  ei_mode :: string
  ei_asset_key :: string
  ei_broker_symbol :: string
  ei_side :: side
  ei_entry_reference :: rat
  ei_tp1 :: rat
  ei_tp2 :: rat
  ei_tp3 :: rat
  ei_sl :: rat
  ei_total_volume :: rat
  ei_leg_volumes :: "rat list"
  ei_risk :: json
  ei_profile_id :: string
  ei_expires_at_utc_ms :: int
  ei_geometry_hash :: string
  ei_created_at_utc_ms :: int
  ei_provenance_hash :: "string option"
  ei_broker_snapshot_id :: "string option"
  ei_cost_snapshot_id :: "string option"

definition from_spec :: "(json \<Rightarrow> string) \<Rightarrow> trade_group_spec \<Rightarrow> string option \<Rightarrow> execution_intent result" where
  "from_spec sha spec intent_id =
     (let volumes = leg_volumes spec; prov = tg_provenance spec; g = tg_geometry spec
      in if \<not> 0 < gr_total_volume (tg_risk spec) then Inl (ValueError ''total_volume'')
         else if length volumes \<noteq> 3 then Inl (ValueError ''leg_volumes'')
         else Inr \<lparr>ei_intent_id = or_str intent_id (tg_intent_id spec), ei_group_id = tg_group_id spec,
           ei_schema_version = GROUP_SCHEMA_VERSION, ei_mode = mode_str (tg_mode spec),
           ei_asset_key = tg_asset_key spec, ei_broker_symbol = tg_broker_symbol spec,
           ei_side = tg_side spec, ei_entry_reference = es_reference (tg_entry spec),
           ei_tp1 = ge_tp1 g, ei_tp2 = ge_tp2 g, ei_tp3 = ge_tp3 g, ei_sl = ge_sl g,
           ei_total_volume = gr_total_volume (tg_risk spec), ei_leg_volumes = volumes,
           ei_risk = risk_json (tg_risk spec), ei_profile_id = tg_profile_id spec,
           ei_expires_at_utc_ms = tg_expires_at_utc_ms spec, ei_geometry_hash = geometry_hash sha spec,
           ei_created_at_utc_ms = tg_created_at_utc_ms spec, ei_provenance_hash = prov ''provenance_hash'',
           ei_broker_snapshot_id = prov ''broker_snapshot_id'', ei_cost_snapshot_id = prov ''cost_snapshot_id''\<rparr>)"

definition verify_geometry :: "(json \<Rightarrow> string) \<Rightarrow> execution_intent \<Rightarrow> trade_group_spec \<Rightarrow> bool" where
  "verify_geometry sha i spec \<longleftrightarrow> ei_geometry_hash i = geometry_hash sha spec"

definition require_geometry_unchanged ::
  "(json \<Rightarrow> string) \<Rightarrow> execution_intent \<Rightarrow> trade_group_spec \<Rightarrow> unit result" where
  "require_geometry_unchanged sha i spec =
     rguard (verify_geometry sha i spec) (ExecutionIntentMismatch ''geometry_hash no longer matches'')"

definition require_provenance_present :: "execution_intent \<Rightarrow> trade_group_spec \<Rightarrow> unit result" where
  "require_provenance_present i spec =
     rguard (\<not> falsy (ei_provenance_hash i) \<and> ei_provenance_hash i = tg_provenance spec ''provenance_hash''
         \<and> \<not> falsy (ei_broker_snapshot_id i) \<and> \<not> falsy (ei_cost_snapshot_id i))
       (ExecutionIntentMismatch ''missing provenance for submission'')"

section \<open>Lemmas\<close>

lemma digit_val_digit_char: "0 \<le> d \<Longrightarrow> d < 10 \<Longrightarrow> digit_val (digit_char d) = Some d \<and> digit_char d \<noteq> CHR ''_''"
proof -
  assume "0 \<le> d" "d < 10"
  then have "d = 0 \<or> d = 1 \<or> d = 2 \<or> d = 3 \<or> d = 4 \<or> d = 5 \<or> d = 6 \<or> d = 7 \<or> d = 8 \<or> d = 9"
    by presburger
  then show ?thesis by (auto simp: digit_char_def digit_val_def)
qed

lemma scan_digits_snoc:
  "0 \<le> d \<Longrightarrow> d < 10 \<Longrightarrow> scan_digits acc b xs = Some m \<Longrightarrow> scan_digits acc b (xs @ [digit_char d]) = Some (10 * m + d)"
  by (induction acc b xs rule: scan_digits.induct)
    (auto simp: digit_val_digit_char split: if_splits option.splits)

lemma scan_show_pos: "0 \<le> n \<Longrightarrow> scan_digits 0 False (show_pos n) = Some n"
proof (induction n rule: show_pos.induct)
  case (1 n)
  show ?case
  proof (cases "n < 10")
    case True
    then show ?thesis using 1 by (simp add: show_pos.simps [of n] digit_val_digit_char)
  next
    case False
    then have "scan_digits 0 False (show_pos (n div 10)) = Some (n div 10)" using 1 by simp
    then have "scan_digits 0 False (show_pos n) = Some (10 * (n div 10) + n mod 10)"
      using False by (simp add: show_pos.simps [of n] scan_digits_snoc)
    then show ?thesis by simp
  qed
qed

lemma show_pos_digits: "0 \<le> n \<Longrightarrow> c \<in> set (show_pos n) \<Longrightarrow> \<exists>d. 0 \<le> d \<and> d < 10 \<and> c = digit_char d"
proof (induction n rule: show_pos.induct)
  case (1 n)
  show ?case
  proof (cases "n < 10")
    case True
    then show ?thesis using 1 by (auto simp: show_pos.simps [of n])
  next
    case False
    then have "c \<in> set (show_pos (n div 10)) \<or> c = digit_char (n mod 10)"
      using 1 by (simp add: show_pos.simps [of n]) blast
    then show ?thesis
    proof
      assume "c \<in> set (show_pos (n div 10))"
      then show ?thesis using False 1(1) by simp
    next
      assume "c = digit_char (n mod 10)"
      then show ?thesis by (auto intro!: exI [of _ "n mod 10"])
    qed
  qed
qed

lemma digit_char_plain:
  "0 \<le> d \<Longrightarrow> d < 10 \<Longrightarrow> \<not> is_space (digit_char d) \<and> digit_char d \<noteq> CHR ''-'' \<and> digit_char d \<noteq> CHR ''+''
     \<and> digit_char d \<noteq> CHR ''|''"
proof -
  assume "0 \<le> d" "d < 10"
  then have "d = 0 \<or> d = 1 \<or> d = 2 \<or> d = 3 \<or> d = 4 \<or> d = 5 \<or> d = 6 \<or> d = 7 \<or> d = 8 \<or> d = 9"
    by presburger
  then show ?thesis by (auto simp: digit_char_def is_space_def)
qed

lemma show_pos_nonempty: "show_pos n \<noteq> []"
  by (subst show_pos.simps) simp

text \<open>A ticket printed by \<^verbatim>\<open>str\<close> reads back with \<^verbatim>\<open>int\<close>.\<close>

lemma parse_int_show_int [simp]: "parse_int (show_int n) = Some n"
proof -
  have plain: "list_all (\<lambda>c. \<not> is_space c) (show_pos m)" if "0 \<le> m" for m
    using show_pos_digits [OF that] digit_char_plain by (fastforce simp: list_all_iff)
  show ?thesis
  proof (cases "n < 0")
    case True
    have "\<not> is_space CHR ''-''" by (simp add: is_space_def)
    then have "strip (CHR ''-'' # show_pos (- n)) = CHR ''-'' # show_pos (- n)"
      using True plain [of "- n"] by (intro strip_no_space) simp
    then show ?thesis using True scan_show_pos [of "- n"] by (simp add: parse_int_def show_int_def)
  next
    case False
    obtain c cs where cs: "show_pos n = c # cs" using show_pos_nonempty by (cases "show_pos n") auto
    then obtain d where "0 \<le> d" "d < 10" "c = digit_char d"
      using False show_pos_digits [of n c] by auto
    then have "c \<noteq> CHR ''-''" "c \<noteq> CHR ''+''" using digit_char_plain by auto
    then show ?thesis using False plain [of n] scan_show_pos [of n] cs
      by (simp add: parse_int_def show_int_def strip_no_space)
  qed
qed

lemma to_int_show_int [simp]: "to_int (show_int n) = Inr n"
  by (simp add: to_int_def)

lemma split_bar_append: "CHR ''|'' \<notin> set s \<Longrightarrow> split_bar (s @ CHR ''|'' # t) = s # split_bar t"
  by (induction s) auto

lemma split_bar_plain: "CHR ''|'' \<notin> set s \<Longrightarrow> split_bar s = [s]"
  by (induction s) auto

end
