(* ===== verification/MT5_Drivers.thy ===== *)
theory MT5_Drivers
  imports MT5_Context
begin

text \<open>
  The two drivers of the demo executor, \<^verbatim>\<open>execution/mt5_hedging_adapter.py\<close> (one position per leg) and
  \<^verbatim>\<open>execution/mt5_netting_adapter.py\<close> (one aggregate position with virtual legs). A driver's state
  is the terminal and the netting driver's map of references, which stays with the executor because the
  drivers are cached.
\<close>

section \<open>What a driver offers\<close>

record mt5_position =
  ps_ticket :: int
  ps_symbol :: string
  ps_type :: int
  ps_volume :: rat
  ps_price_open :: rat
  ps_price_current :: rat
  ps_sl :: "rat option"
  ps_tp :: "rat option"
  ps_magic :: int
  ps_comment :: string

record mt5_deal =
  dl_ticket :: int
  dl_position :: int
  dl_symbol :: string
  dl_type :: int
  dl_entry :: int
  dl_price :: rat
  dl_volume :: rat
  dl_time :: int
  dl_magic :: int
  dl_comment :: string

record 'd mt5_driver =
  md_account_mode :: string
  md_submit_leg :: "trade_group_spec \<Rightarrow> int \<Rightarrow> rat \<Rightarrow> ('d, broker_result) comp"
  md_modify_sl :: "string \<Rightarrow> rat \<Rightarrow> ('d, bool \<times> string) comp"
  md_query_sl :: "string \<Rightarrow> ('d, rat option) comp"
  md_close_position :: "string \<Rightarrow> rat \<Rightarrow> ('d, broker_result) comp"
  md_close_partial :: "string \<Rightarrow> rat \<Rightarrow> ('d, broker_result) comp"
  md_query_position :: "string \<Rightarrow> ('d, mt5_position option) comp"
  md_query_positions_by_magic :: "('d, mt5_position list) comp"
  md_query_deals :: "int \<Rightarrow> ('d, mt5_deal list) comp"

record 'm mt5_session =
  ms_terminal :: 'm
  ms_ref_map :: "(string \<times> int) list"

definition on_terminal :: "('m, 'a) comp \<Rightarrow> ('m mt5_session, 'a) comp" where
  "on_terminal m s = (case m (ms_terminal s) of (r, t) \<Rightarrow> (r, s\<lparr>ms_terminal := t\<rparr>))"

definition as_dict :: "position_raw \<Rightarrow> mt5_position" where
  "as_dict p = \<lparr>ps_ticket = pr_ticket p, ps_symbol = pr_symbol p, ps_type = pr_type p,
     ps_volume = pr_volume p, ps_price_open = pr_price_open p, ps_price_current = pr_price_current p,
     ps_sl = (if pr_sl p = 0 then None else Some (pr_sl p)),
     ps_tp = (if pr_tp p = 0 then None else Some (pr_tp p)), ps_magic = pr_magic p, ps_comment = pr_comment p\<rparr>"

definition deal_dict :: "deal_raw \<Rightarrow> mt5_deal" where
  "deal_dict d = \<lparr>dl_ticket = dw_ticket d, dl_position = dw_position_id d, dl_symbol = dw_symbol d,
     dl_type = dw_type d, dl_entry = dw_entry d, dl_price = dw_price d, dl_volume = dw_volume d,
     dl_time = dw_time d, dl_magic = dw_magic d, dl_comment = dw_comment d\<rparr>"

section \<open>Shared by the two drivers\<close>

definition query_positions_by_magic :: "'m mt5_api \<Rightarrow> int \<Rightarrow> ('m mt5_session, mt5_position list) comp" where
  "query_positions_by_magic api magic =
     bnd (on_terminal (api_positions_get api None)) (\<lambda>raw.
       ret (map as_dict (filter (\<lambda>p. pr_magic p = magic) (get_or [] raw))))"

definition query_deals :: "'m mt5_api \<Rightarrow> int \<Rightarrow> ('m mt5_session, mt5_deal list) comp" where
  "query_deals api ticket =
     bnd (on_terminal (api_history_deals_get api ticket)) (\<lambda>raw. ret (map deal_dict (get_or [] raw)))"

definition position_of :: "'m mt5_api \<Rightarrow> int \<Rightarrow> ('m mt5_session, mt5_position option) comp" where
  "position_of api ticket =
     bnd (on_terminal (api_positions_get api (Some ticket))) (\<lambda>raw.
       ret (case get_or [] raw of [] \<Rightarrow> None | p # _ \<Rightarrow> Some (as_dict p)))"

definition done_code :: "'m mt5_api \<Rightarrow> int" where
  "done_code api = get_or 10009 (TRADE_RETCODE_DONE api)"

text \<open>\<^verbatim>\<open>int(getattr(result, "retcode", -1) or -1)\<close>, \<^verbatim>\<open>str(getattr(result, "comment", "") or "")\<close> and
  \<^verbatim>\<open>float(getattr(result, "price", 0.0) or 0.0)\<close> on a result that may be \<^verbatim>\<open>None\<close>.\<close>

definition result_code :: "send_result option \<Rightarrow> int" where
  "result_code r = or_num (map_option sr_retcode r) (- 1)"

definition result_comment :: "send_result option \<Rightarrow> string" where
  "result_comment r = get_or [] (map_option sr_comment r)"

definition truthy_int :: "int option \<Rightarrow> int option" where
  "truthy_int v = (case v of None \<Rightarrow> None | Some n \<Rightarrow> if n = 0 then None else Some n)"

definition rejected_result :: "int \<Rightarrow> string \<Rightarrow> broker_result" where
  "rejected_result retcode comment =
     no_result\<lparr>br_status := Some ''rejected'', br_retcode := Some retcode, br_comment := Some comment\<rparr>"

definition raw_order :: "send_result option \<Rightarrow> broker_id option" where
  "raw_order r = map_option (IntId \<circ> sr_order) r"

text \<open>The dict of an opening order that was refused, and of one that was filled.\<close>

definition refused_open :: "send_result option \<Rightarrow> string \<Rightarrow> rat \<Rightarrow> broker_result" where
  "refused_open r comment volume =
     (rejected_result (result_code r) comment)\<lparr>br_order_id := raw_order r,
        br_requested_volume := Some volume, br_filled_volume := Some 0\<rparr>"

definition filled_open :: "send_result option \<Rightarrow> mt5_position \<Rightarrow> rat \<Rightarrow> broker_result" where
  "filled_open r position volume =
     (let filled = or_num (map_option sr_volume r) (ps_volume position)
      in no_result\<lparr>br_status := Some (if filled \<ge> fsub volume (fl (1 / 10 ^ 9)) then ''filled'' else ''partially_filled''),
           br_retcode := Some (result_code r), br_comment := Some (result_comment r),
           br_order_id := map_option IntId (truthy_int (map_option sr_order r)),
           br_deal_id := truthy_int (map_option sr_deal r), br_position_id := Some (IntId (ps_ticket position)),
           br_requested_volume := Some volume, br_filled_volume := Some filled,
           br_fill_price := Some (or_num (map_option sr_price r) (ps_price_open position))\<rparr>)"

definition close_result :: "'m mt5_api \<Rightarrow> send_result option \<Rightarrow> broker_result" where
  "close_result api r =
     (if result_code r \<noteq> done_code api
      then (rejected_result (result_code r) (result_comment r))\<lparr>br_order_id := raw_order r\<rparr>
      else no_result\<lparr>br_status := Some ''filled'', br_retcode := Some (result_code r),
        br_comment := Some (result_comment r),
        br_order_id := map_option IntId (truthy_int (map_option sr_order r)),
        br_deal_id := truthy_int (map_option sr_deal r),
        br_fill_price := Some (get_or 0 (map_option sr_price r)),
        br_filled_volume := Some (get_or 0 (map_option sr_volume r))\<rparr>)"

definition open_request ::
  "'m mt5_api \<Rightarrow> int \<Rightarrow> trade_group_spec \<Rightarrow> symbol_view \<Rightarrow> int \<Rightarrow> rat \<Rightarrow> rat \<Rightarrow> trade_request" where
  "open_request api magic spec snapshot leg volume tp =
     \<lparr>rq_action = TRADE_ACTION_DEAL api, rq_position = None, rq_symbol = tg_broker_symbol spec,
      rq_volume = Some volume,
      rq_type = Some (case tg_side spec of Long \<Rightarrow> ORDER_TYPE_BUY api | Short \<Rightarrow> ORDER_TYPE_SELL api),
      rq_price = Some (case tg_side spec of Long \<Rightarrow> sn_ask snapshot | Short \<Rightarrow> sn_bid snapshot),
      rq_deviation = Some 20, rq_magic = Some magic,
      rq_comment = Some (build_comment magic (tg_group_id spec) (Some leg)),
      rq_type_time = Some (ORDER_TIME_GTC api), rq_type_filling = Some (ORDER_FILLING_IOC api),
      rq_sl = Some (ge_sl (tg_geometry spec)), rq_tp = Some tp\<rparr>"

definition sl_request :: "'m mt5_api \<Rightarrow> int \<Rightarrow> mt5_position \<Rightarrow> rat \<Rightarrow> trade_request" where
  "sl_request api ticket position sl =
     \<lparr>rq_action = TRADE_ACTION_SLTP api, rq_position = Some ticket, rq_symbol = ps_symbol position,
      rq_volume = None, rq_type = None, rq_price = None, rq_deviation = None, rq_magic = None,
      rq_comment = None, rq_type_time = None, rq_type_filling = None, rq_sl = Some sl,
      rq_tp = Some (get_or 0 (ps_tp position))\<rparr>"

definition close_request ::
  "'m mt5_api \<Rightarrow> int \<Rightarrow> int \<Rightarrow> mt5_position \<Rightarrow> symbol_view \<Rightarrow> rat \<Rightarrow> string \<Rightarrow> trade_request" where
  "close_request api magic ticket position snapshot volume comment =
     \<lparr>rq_action = TRADE_ACTION_DEAL api, rq_position = Some ticket, rq_symbol = ps_symbol position,
      rq_volume = Some volume,
      rq_type = Some (if ps_type position = 0 then ORDER_TYPE_SELL api else ORDER_TYPE_BUY api),
      rq_price = Some (if ps_type position = 0 then sn_bid snapshot else sn_ask snapshot),
      rq_deviation = Some 20, rq_magic = Some magic, rq_comment = Some comment,
      rq_type_time = Some (ORDER_TIME_GTC api), rq_type_filling = Some (ORDER_FILLING_IOC api),
      rq_sl = None, rq_tp = None\<rparr>"

definition not_found :: "string \<Rightarrow> int \<Rightarrow> string" where
  "not_found what ticket = what @ show_int ticket @ '' not found''"

definition send_sl ::
  "'m mt5_api \<Rightarrow> string \<Rightarrow> int \<Rightarrow> mt5_position option \<Rightarrow> rat \<Rightarrow> ('m mt5_session, bool \<times> string) comp" where
  "send_sl api missing ticket position sl =
     (case position of
        None \<Rightarrow> ret (False, missing)
      | Some p \<Rightarrow>
          bnd (on_terminal (api_order_send api (sl_request api ticket p sl))) (\<lambda>r.
            ret (result_code r = done_code api, result_comment r)))"

section \<open>The hedging driver\<close>

text \<open>\<^verbatim>\<open>needle in text\<close>.\<close>

fun contains :: "string \<Rightarrow> string \<Rightarrow> bool" where
  "contains needle [] \<longleftrightarrow> needle = []"
| "contains needle (c # cs) \<longleftrightarrow> take (length needle) (c # cs) = needle \<or> contains needle cs"

text \<open>The position just opened: by the leg token of the comment, else by the group.\<close>

definition resolve_position ::
  "'m mt5_api \<Rightarrow> int \<Rightarrow> trade_group_spec \<Rightarrow> int \<Rightarrow> ('m mt5_session, mt5_position option) comp" where
  "resolve_position api magic spec leg =
     bnd (query_positions_by_magic api magic) (\<lambda>ps.
       case find (\<lambda>p. contains (''L:'' @ new_leg_id (tg_group_id spec) leg) (ps_comment p)) ps of
         Some p \<Rightarrow> ret (Some p)
       | None \<Rightarrow> bnd (query_positions_by_magic api magic) (\<lambda>qs.
           ret (find (\<lambda>p. parse_comment (ps_comment p) = Some (tg_group_id spec)) qs)))"

definition hedging_submit_leg ::
  "'m mt5_api \<Rightarrow> int \<Rightarrow> trade_group_spec \<Rightarrow> int \<Rightarrow> rat \<Rightarrow> ('m mt5_session, broker_result) comp" where
  "hedging_submit_leg api magic spec leg volume =
     bnd (on_terminal (symbol_snapshot api (tg_broker_symbol spec))) (\<lambda>snapshot.
     bnd (lift_result (leg_price spec leg)) (\<lambda>tp.
     bnd (on_terminal (api_order_send api (open_request api magic spec snapshot leg volume tp))) (\<lambda>r.
     if result_code r \<noteq> done_code api then ret (refused_open r (result_comment r) volume)
     else bnd (resolve_position api magic spec leg) (\<lambda>position. case position of
        None \<Rightarrow> ret (refused_open r ''order accepted but position could not be resolved'' volume)
      | Some p \<Rightarrow> ret (filled_open r p volume)))))"

definition hedging_modify_sl ::
  "'m mt5_api \<Rightarrow> string \<Rightarrow> rat \<Rightarrow> ('m mt5_session, bool \<times> string) comp" where
  "hedging_modify_sl api reference sl =
     bnd (lift_result (to_int reference)) (\<lambda>ticket.
     bnd (position_of api ticket) (\<lambda>position. send_sl api (not_found ''position '' ticket) ticket position sl))"

definition hedging_query_sl :: "'m mt5_api \<Rightarrow> string \<Rightarrow> ('m mt5_session, rat option) comp" where
  "hedging_query_sl api reference =
     bnd (lift_result (to_int reference)) (\<lambda>ticket.
     bnd (position_of api ticket) (\<lambda>position. ret (Option.bind position ps_sl)))"

definition hedging_close_position ::
  "'m mt5_api \<Rightarrow> int \<Rightarrow> string \<Rightarrow> rat \<Rightarrow> ('m mt5_session, broker_result) comp" where
  "hedging_close_position api magic reference volume =
     bnd (lift_result (to_int reference)) (\<lambda>ticket.
     bnd (position_of api ticket) (\<lambda>position. case position of
        None \<Rightarrow> ret (rejected_result (- 1) (not_found ''position '' ticket))
      | Some p \<Rightarrow>
          bnd (on_terminal (symbol_snapshot api (ps_symbol p))) (\<lambda>snapshot.
          let group_id = or_str (parse_comment (ps_comment p)) (''TG:'' @ show_int ticket)
          in bnd (on_terminal (api_order_send api (close_request api magic ticket p snapshot
                  (min volume (ps_volume p)) (build_comment magic group_id None)))) (\<lambda>r.
             ret (close_result api r)))))"

definition hedging_query_position :: "'m mt5_api \<Rightarrow> string \<Rightarrow> ('m mt5_session, mt5_position option) comp" where
  "hedging_query_position api reference = bnd (lift_result (to_int reference)) (position_of api)"

definition MT5HedgingDriver :: "'m mt5_api \<Rightarrow> int \<Rightarrow> 'm mt5_session mt5_driver" where
  "MT5HedgingDriver api magic =
     \<lparr>md_account_mode = ''hedging'', md_submit_leg = hedging_submit_leg api magic,
      md_modify_sl = hedging_modify_sl api, md_query_sl = hedging_query_sl api,
      md_close_position = hedging_close_position api magic,
      md_close_partial = (\<lambda>_ _. throw AttributeError),
      md_query_position = hedging_query_position api,
      md_query_positions_by_magic = query_positions_by_magic api magic, md_query_deals = query_deals api\<rparr>"

section \<open>The netting driver\<close>

text \<open>An absent position has the ticket 0.\<close>

definition netting_position :: "'m mt5_api \<Rightarrow> int \<Rightarrow> ('m mt5_session, mt5_position option) comp" where
  "netting_position api ticket = (if ticket = 0 then ret None else position_of api ticket)"

definition resolve_aggregate ::
  "'m mt5_api \<Rightarrow> int \<Rightarrow> string \<Rightarrow> ('m mt5_session, mt5_position option) comp" where
  "resolve_aggregate api magic group_id =
     bnd (query_positions_by_magic api magic) (\<lambda>ps.
       ret (find (\<lambda>p. parse_comment (ps_comment p) = Some group_id) ps))"

definition put_ref :: "string \<Rightarrow> int \<Rightarrow> ('m mt5_session, unit) comp" where
  "put_ref reference ticket = modify (\<lambda>s. s\<lparr>ms_ref_map := dict_put reference ticket (ms_ref_map s)\<rparr>)"

definition resolve_ticket :: "'m mt5_api \<Rightarrow> int \<Rightarrow> string \<Rightarrow> ('m mt5_session, int) comp" where
  "resolve_ticket api magic reference =
     (case parse_int reference of
        Some n \<Rightarrow> ret n
      | None \<Rightarrow> bnd (gets ms_ref_map) (\<lambda>refs. case map_of refs reference of
           Some t \<Rightarrow> ret t
         | None \<Rightarrow>
             bnd (resolve_aggregate api magic (get_or reference (before_last_L reference))) (\<lambda>position.
             case position of None \<Rightarrow> ret 0
             | Some p \<Rightarrow> seq (put_ref reference (ps_ticket p)) (ret (ps_ticket p)))))"

definition netting_open ::
  "'m mt5_api \<Rightarrow> int \<Rightarrow> trade_group_spec \<Rightarrow> ('m mt5_session, broker_result) comp" where
  "netting_open api magic spec =
     (let gid = tg_group_id spec; open_volume = gr_total_volume (tg_risk spec) in
      bnd (on_terminal (symbol_snapshot api (tg_broker_symbol spec))) (\<lambda>snapshot.
      bnd (on_terminal (api_order_send api
         (open_request api magic spec snapshot 1 open_volume (ge_tp3 (tg_geometry spec))))) (\<lambda>r.
      if result_code r \<noteq> done_code api then ret (refused_open r (result_comment r) open_volume)
      else bnd (resolve_aggregate api magic gid) (\<lambda>position. case position of
         None \<Rightarrow> ret (refused_open r ''order accepted but position could not be resolved'' open_volume)
       | Some p \<Rightarrow>
           seq (put_ref (new_leg_id gid 1) (ps_ticket p))
           (seq (put_ref (new_leg_id gid 2) (ps_ticket p))
           (seq (put_ref (new_leg_id gid 3) (ps_ticket p))
           (ret ((filled_open r p open_volume)\<lparr>br_virtual := Some False\<rparr>))))))))"

text \<open>Legs 2 and 3 share the aggregate position of leg 1; a ticket 0 is no ticket.\<close>

definition netting_virtual ::
  "'m mt5_api \<Rightarrow> int \<Rightarrow> trade_group_spec \<Rightarrow> int \<Rightarrow> rat \<Rightarrow> ('m mt5_session, broker_result) comp" where
  "netting_virtual api magic spec leg volume =
     (let gid = tg_group_id spec in
      bnd (gets ms_ref_map) (\<lambda>refs.
      bnd (case map_of refs (new_leg_id gid 1) of
             Some t \<Rightarrow> ret t
           | None \<Rightarrow> bnd (resolve_aggregate api magic gid) (\<lambda>p. ret (case p of None \<Rightarrow> 0 | Some q \<Rightarrow> ps_ticket q)))
      (\<lambda>ticket.
        if ticket = 0 then
          ret ((rejected_result (- 1) ''aggregate position missing for virtual leg'')\<lparr>
             br_requested_volume := Some volume, br_filled_volume := Some 0\<rparr>)
        else seq (put_ref (new_leg_id gid leg) ticket)
          (ret (no_result\<lparr>br_status := Some ''virtual'', br_retcode := Some 0,
             br_comment := Some ''virtual leg (netting)'', br_position_id := Some (IntId ticket),
             br_requested_volume := Some volume, br_filled_volume := Some 0, br_virtual := Some True\<rparr>)))))"

definition netting_submit_leg ::
  "'m mt5_api \<Rightarrow> int \<Rightarrow> trade_group_spec \<Rightarrow> int \<Rightarrow> rat \<Rightarrow> ('m mt5_session, broker_result) comp" where
  "netting_submit_leg api magic spec leg volume =
     (if leg = 1 then netting_open api magic spec else netting_virtual api magic spec leg volume)"

definition netting_modify_sl ::
  "'m mt5_api \<Rightarrow> int \<Rightarrow> string \<Rightarrow> rat \<Rightarrow> ('m mt5_session, bool \<times> string) comp" where
  "netting_modify_sl api magic reference sl =
     bnd (resolve_ticket api magic reference) (\<lambda>ticket.
     bnd (netting_position api ticket) (\<lambda>position. send_sl api (not_found ''aggregate position '' ticket) ticket position sl))"

definition netting_query_position ::
  "'m mt5_api \<Rightarrow> int \<Rightarrow> string \<Rightarrow> ('m mt5_session, mt5_position option) comp" where
  "netting_query_position api magic reference = bnd (resolve_ticket api magic reference) (netting_position api)"

definition netting_query_sl :: "'m mt5_api \<Rightarrow> int \<Rightarrow> string \<Rightarrow> ('m mt5_session, rat option) comp" where
  "netting_query_sl api magic reference =
     bnd (netting_query_position api magic reference) (\<lambda>position. ret (Option.bind position ps_sl))"

definition netting_close_partial ::
  "'m mt5_api \<Rightarrow> int \<Rightarrow> string \<Rightarrow> rat \<Rightarrow> ('m mt5_session, broker_result) comp" where
  "netting_close_partial api magic reference volume =
     bnd (resolve_ticket api magic reference) (\<lambda>ticket.
     bnd (netting_position api ticket) (\<lambda>position. case position of
        None \<Rightarrow> ret (rejected_result (- 1) (not_found ''aggregate position '' ticket))
      | Some p \<Rightarrow>
          bnd (on_terminal (symbol_snapshot api (ps_symbol p))) (\<lambda>snapshot.
          let group_id = or_str (parse_comment (ps_comment p)) (''TG:'' @ show_int (ps_ticket p))
          in bnd (on_terminal (api_order_send api (close_request api magic ticket p snapshot volume
                  (take COMMENT_LIMIT (''TG:'' @ group_id @ ''|CLOSE''))))) (\<lambda>r.
             ret (close_result api r)))))"

definition MT5NettingDriver :: "'m mt5_api \<Rightarrow> int \<Rightarrow> 'm mt5_session mt5_driver" where
  "MT5NettingDriver api magic =
     \<lparr>md_account_mode = ''netting'', md_submit_leg = netting_submit_leg api magic,
      md_modify_sl = netting_modify_sl api magic, md_query_sl = netting_query_sl api magic,
      md_close_position = netting_close_partial api magic,
      md_close_partial = netting_close_partial api magic,
      md_query_position = netting_query_position api magic,
      md_query_positions_by_magic = query_positions_by_magic api magic, md_query_deals = query_deals api\<rparr>"

end
