(* ===== verification/Group_Executor.thy ===== *)
theory Group_Executor
  imports Trade_Geometry Exec_World
begin

text \<open>
  The lifecycle engine of trade groups, \<^verbatim>\<open>execution/trade_group_executor.py\<close>: the driver protocol,
  the paper driver, and the executor whose methods write the group store, the event ledger and the
  driver. A method is a computation on the \<open>world\<close>, which holds the three; what a method wrote before
  an exception stays written. Clock readings and fresh uuids come from the streams \<open>io_clock\<close> and
  \<open>io_uuid\<close>, one position per reading. The optional audit copy of a group (\<open>_record_provenance\<close>, off
  by default and never visible to the executor) is left out. The locale \<open>sl_driver\<close> states what the
  executor relies on in a driver; it is interpreted on the paper driver.
\<close>

section \<open>Drivers\<close>

record 'd driver =
  dr_mode :: string
  dr_account_mode :: string
  dr_submit_leg :: "trade_group_spec \<Rightarrow> int \<Rightarrow> rat \<Rightarrow> ('d, broker_result) comp"
  dr_modify_sl :: "string \<Rightarrow> rat \<Rightarrow> ('d, bool \<times> string) comp"
  dr_query_sl :: "string \<Rightarrow> ('d, rat option) comp"

record paper_position =
  pp_position_id :: string
  pp_volume :: rat
  pp_sl :: rat
  pp_tp :: rat

record paper =
  pd_positions :: "string \<rightharpoonup> paper_position"
  pd_order_seq :: int
  pd_reject_modify :: bool

definition new_paper :: paper where
  "new_paper = \<lparr>pd_positions = Map.empty, pd_order_seq = 0, pd_reject_modify = False\<rparr>"

definition paper_result :: "string \<Rightarrow> string \<Rightarrow> broker_result" where
  "paper_result order_id position_id =
     no_result\<lparr>br_order_id := Some (StrId order_id), br_position_id := Some (StrId position_id)\<rparr>"

definition paper_submit_leg ::
  "string \<Rightarrow> trade_group_spec \<Rightarrow> int \<Rightarrow> rat \<Rightarrow> (paper, broker_result) comp" where
  "paper_submit_leg account_mode spec leg volume d =
     (let gid = tg_group_id spec; r = new_leg_id gid leg; n = pd_order_seq d + 1;
          d1 = d\<lparr>pd_order_seq := n\<rparr>;
          order_id = ''PO-'' @ gid @ ''-'' @ show_int leg @ ''-'' @ show_int n
      in if account_mode = ''netting'' \<and> leg > 1 then
           let position_id = (case pd_positions d (new_leg_id gid 1) of
                 Some p \<Rightarrow> pp_position_id p | None \<Rightarrow> ''PG-'' @ gid @ ''-POS'')
           in (Inr (paper_result order_id position_id), d1)
         else
           let position_id = ''PG-'' @ gid @ ''-L'' @ show_int leg
           in case leg_price spec leg of
                Inl e \<Rightarrow> (Inl e, d1)
              | Inr tp \<Rightarrow>
                 (Inr (paper_result order_id position_id),
                  d1\<lparr>pd_positions := (pd_positions d)(r \<mapsto> \<lparr>pp_position_id = position_id, pp_volume = volume,
                     pp_sl = ge_sl (tg_geometry spec), pp_tp = tp\<rparr>)\<rparr>))"

definition resolve_ref :: "string \<Rightarrow> (string \<rightharpoonup> paper_position) \<Rightarrow> string \<Rightarrow> string" where
  "resolve_ref account_mode positions reference =
     (if account_mode = ''netting'' \<and> positions reference = None then
        let physical = new_leg_id (get_or reference (before_last_L reference)) 1
        in if positions physical \<noteq> None then physical else reference
      else reference)"

definition paper_modify_sl :: "string \<Rightarrow> string \<Rightarrow> rat \<Rightarrow> (paper, bool \<times> string) comp" where
  "paper_modify_sl account_mode reference sl d =
     (if pd_reject_modify d then (Inr (False, ''simulated modify rejection (freeze/requote)''), d)
      else
        let r = resolve_ref account_mode (pd_positions d) reference
        in case pd_positions d r of
             None \<Rightarrow> (Inr (False, ''unknown position ref''), d)
           | Some p \<Rightarrow> (Inr (True, ''done''), d\<lparr>pd_positions := (pd_positions d)(r \<mapsto> p\<lparr>pp_sl := sl\<rparr>)\<rparr>))"

definition paper_query_sl :: "string \<Rightarrow> string \<Rightarrow> (paper, rat option) comp" where
  "paper_query_sl account_mode reference =
     gets (\<lambda>d. map_option pp_sl (pd_positions d (resolve_ref account_mode (pd_positions d) reference)))"

definition paper_ops :: "string \<Rightarrow> paper driver" where
  "paper_ops account_mode =
     \<lparr>dr_mode = ''paper'', dr_account_mode = account_mode,
      dr_submit_leg = paper_submit_leg account_mode, dr_modify_sl = paper_modify_sl account_mode,
      dr_query_sl = paper_query_sl account_mode\<rparr>"

definition PaperDriver :: "string \<Rightarrow> (paper driver \<times> paper) result" where
  "PaperDriver account_mode =
     (if account_mode \<noteq> ''hedging'' \<and> account_mode \<noteq> ''netting''
      then Inl (ValueError ''unsupported account mode'')
      else Inr (paper_ops account_mode, new_paper))"

section \<open>The executor's state\<close>

record 'd executor = io_env +
  ex_driver :: "'d driver"
  ex_allow_demo :: bool
  ex_max_be_retries :: int
  ex_cost :: cost_snapshot
  ex_broker :: broker_snapshot
  ex_fill_cfg :: "rat option"

type_synonym ('d, 'a) act = "((broker_result, 'd) world, 'a) comp"

text \<open>The gate of the constructor: an absent argument falls back to the environment variable.\<close>

definition resolve_allow_demo :: "bool option \<Rightarrow> string option \<Rightarrow> bool" where
  "resolve_allow_demo arg env = (case arg of None \<Rightarrow> get_or ''0'' env = ''1'' | Some b \<Rightarrow> b)"

definition TradeGroupExecutor ::
  "'d driver \<Rightarrow> bool option \<Rightarrow> string option \<Rightarrow> int \<Rightarrow> cost_snapshot \<Rightarrow> broker_snapshot \<Rightarrow> rat option
     \<Rightarrow> (json \<Rightarrow> string) \<Rightarrow> (nat \<Rightarrow> int) \<Rightarrow> (nat \<Rightarrow> string) \<Rightarrow> 'd executor" where
  "TradeGroupExecutor drv allow_demo env max_be_retries cost broker fill_cfg sha clock uuid =
     \<lparr>io_sha = sha, io_clock = clock, io_uuid = uuid, ex_driver = drv, ex_allow_demo = resolve_allow_demo allow_demo env,
      ex_max_be_retries = max 1 max_be_retries, ex_cost = cost, ex_broker = broker,
      ex_fill_cfg = fill_cfg\<rparr>"

section \<open>Executor methods\<close>

definition gate_mode :: "'d executor \<Rightarrow> trade_group_spec \<Rightarrow> unit result" where
  "gate_mode ex spec =
     (if tg_mode spec = Live then Inl LiveExecutionForbidden
      else if tg_mode spec = Demo \<and> \<not> ex_allow_demo ex then Inl DemoExecutionNotEnabled
      else Inr ())"

definition event_of ::
  "trade_group_spec \<Rightarrow> string \<Rightarrow> int option \<Rightarrow> string option \<Rightarrow> jdict \<Rightarrow> event_args" where
  "event_of spec event_type leg reason payload =
     \<lparr>ea_event_type = event_type, ea_signal_id = tg_signal_id spec, ea_asset_key = tg_asset_key spec,
      ea_strategy_version = tg_strategy_version spec, ea_config_hash = tg_config_hash spec,
      ea_actor = ''trade_group_executor'', ea_event_timestamp_utc = None,
      ea_model_hash = Some (tg_model_hash spec), ea_feature_snapshot_hash = None,
      ea_position_ticket = None, ea_order_ticket = None, ea_reason = reason, ea_payload = payload,
      ea_event_id = None, ea_group_id = Some (tg_group_id spec),
      ea_leg_id = map_option (new_leg_id (tg_group_id spec)) leg, ea_source = None,
      ea_source_type = None, ea_source_id = None, ea_observed_at_utc_ms = None\<rparr>"

definition append_event ::
  "'d executor \<Rightarrow> trade_group_spec \<Rightarrow> string \<Rightarrow> int option \<Rightarrow> string option \<Rightarrow> jdict \<Rightarrow> ('d, unit) act" where
  "append_event ex spec event_type leg reason payload =
     append_args ex (event_of spec event_type leg reason payload)"

definition ensure_open :: "'d executor \<Rightarrow> string \<Rightarrow> ('d, group_state) act" where
  "ensure_open ex gid =
     bnd (require_group gid) (\<lambda>current.
       if row_state current = SUBMITTED then
         seq (lift_result (require_transition SUBMITTED OPENED))
         (seq (store_update ex gid OPENED no_update) (ret OPENED))
       else ret (row_state current))"

definition create_group :: "'d executor \<Rightarrow> trade_group_spec \<Rightarrow> ('d, group_state) act" where
  "create_group ex spec =
     seq (lift_result (gate_mode ex spec))
     (seq (lift_result (require_transition DRAFT VALIDATED))
     (seq (store_save ex spec (save_defaults\<lparr>sv_state := DRAFT\<rparr>))
     (seq (store_save ex spec (save_defaults\<lparr>sv_state := VALIDATED\<rparr>))
     (seq (append_event ex spec ''signal_validated'' None None
        [(''geometry'', as_geometry_payload spec), (''mode'', mode_json spec),
         (''state'', JStr ''VALIDATED'')])
     (seq (append_event ex spec ''trade_intent_created'' None None
        [(''group_id'', JStr (tg_group_id spec)), (''intent_id'', JStr (tg_intent_id spec)),
         (''mode'', mode_json spec)])
     (ret VALIDATED))))))"

text \<open>One iteration of the submission loop; \<^verbatim>\<open>next(...)\<close> without a match raises.\<close>

definition submit_one ::
  "'d executor \<Rightarrow> trade_group_spec \<Rightarrow> string \<Rightarrow> int \<Rightarrow> ('d, broker_result leg_item) act" where
  "submit_one ex spec gid leg =
     (case find (\<lambda>t. tl_leg t = leg) (tg_targets spec) of
        None \<Rightarrow> throw StopIteration
      | Some target \<Rightarrow>
          let volume = py_round (fmul (gr_total_volume (tg_risk spec)) (tl_allocation target)) 8;
              leg_state = (if volume \<le> 0 then ''SKIPPED'' else ''SUBMITTED'')
          in bnd (on_driver (dr_submit_leg (ex_driver ex) spec leg volume)) (\<lambda>res.
             bnd (lift_result (leg_price spec leg)) (\<lambda>price.
             seq (if leg_state = ''SUBMITTED'' then
                    append_event ex spec ''leg_submitted'' (Some leg) None
                      [(''broker_ids'', broker_json res), (''mode'', mode_json spec),
                       (''price'', JFloat price), (''volume'', JFloat volume)]
                  else
                    append_event ex spec ''leg_rejected'' (Some leg) (Some ''SKIPPED_ZERO_VOLUME'')
                      [(''mode'', mode_json spec), (''volume'', JFloat volume)])
             (ret \<lparr>li_leg = leg, li_price = price, li_volume = volume, li_state = leg_state,
                   li_broker = res, li_fill_price = None, li_verified_after_restart = False,
                   li_sl_after_restart = None,
                   li_filled_volume = None, li_closed_volume = None, li_remaining_volume = None\<rparr>))))"

fun submit_legs ::
  "'d executor \<Rightarrow> trade_group_spec \<Rightarrow> string \<Rightarrow> int list \<Rightarrow> ('d, broker_result leg_item list) act" where
  "submit_legs ex spec gid [] = ret []"
| "submit_legs ex spec gid (leg # legs) =
     bnd (submit_one ex spec gid leg) (\<lambda>i. bnd (submit_legs ex spec gid legs) (\<lambda>is. ret (i # is)))"

definition submit_group :: "'d executor \<Rightarrow> string \<Rightarrow> ('d, group_state) act" where
  "submit_group ex gid =
     bnd (require_group gid) (\<lambda>current.
     let spec = row_spec current in
     bnd (on_store (try_mark_submitted gid)) (\<lambda>marked.
     seq (require marked DuplicateSubmissionError)
     (seq (lift_result (require_transition (row_state current) SUBMITTED))
     (bnd (submit_legs ex spec gid [1, 2, 3]) (\<lambda>legs.
     seq (store_update ex gid SUBMITTED (no_update\<lparr>up_legs := Some legs,
        up_broker_ids := Some (map (\<lambda>i. (new_leg_id gid (li_leg i), li_broker i)) legs)\<rparr>))
     (seq (append_event ex spec ''group_submitted'' None None
        [(''account_mode'', JStr (dr_account_mode (ex_driver ex))),
         (''geometry'', as_geometry_payload spec), (''legs'', JList (map leg_json legs)),
         (''mode'', mode_json spec)])
     (ret SUBMITTED)))))))"

definition close_leg :: "int \<Rightarrow> rat \<Rightarrow> broker_result leg_item list \<Rightarrow> broker_result leg_item list" where
  "close_leg leg fill_price legs =
     map (\<lambda>i. if li_leg i = leg then i\<lparr>li_state := ''CLOSED'', li_fill_price := Some fill_price\<rparr> else i) legs"

text \<open>The common tail of the TP2 and TP3 handler.\<close>

definition finish_tp ::
  "'d executor \<Rightarrow> string \<Rightarrow> trade_group_spec \<Rightarrow> int \<Rightarrow> rat \<Rightarrow> broker_result group_row \<Rightarrow> group_state \<Rightarrow> string
     \<Rightarrow> ('d, group_state) act" where
  "finish_tp ex gid spec leg fill_price current next_state event =
     (let legs = close_leg leg fill_price (row_legs current) in
      seq (store_update ex gid next_state (no_update\<lparr>up_legs := Some legs\<rparr>))
      (seq (append_event ex spec event (Some leg) None
         [(''fill_price'', JFloat fill_price), (''mode'', mode_json spec)])
      (if leg = 3 then
         seq (store_update ex gid RECONCILED (no_update\<lparr>up_legs := Some legs\<rparr>))
         (seq (append_event ex spec ''group_reconciled'' None None
            [(''geometry'', as_geometry_payload spec), (''mode'', mode_json spec)])
         (ret RECONCILED))
       else ret next_state)))"

definition on_tp_leg_filled :: "'d executor \<Rightarrow> string \<Rightarrow> int \<Rightarrow> rat \<Rightarrow> ('d, group_state) act" where
  "on_tp_leg_filled ex gid leg fill_price =
     bnd (require_group gid) (\<lambda>current0.
     let spec = row_spec current0
     in if leg = 2 then
          seq (ensure_open ex gid) (bnd (require_group gid) (\<lambda>current.
          seq (lift_result (require_transition (row_state current) TP2_FILLED))
          (finish_tp ex gid spec leg fill_price current TP2_FILLED ''tp2_filled'')))
        else if leg = 3 then
          seq (lift_result (require_transition (row_state current0) TP3_FILLED))
          (finish_tp ex gid spec leg fill_price current0 TP3_FILLED ''tp3_filled'')
        else throw (ValueError ''unknown leg''))"

definition on_leg_filled :: "'d executor \<Rightarrow> string \<Rightarrow> int \<Rightarrow> rat \<Rightarrow> ('d, group_state) act" where
  "on_leg_filled ex gid leg fill_price =
     bnd (require_group gid) (\<lambda>current0.
     if leg = 1 then
       seq (ensure_open ex gid) (bnd (require_group gid) (\<lambda>current.
       seq (lift_result (require_transition (row_state current) TP1_FILLED))
       (bnd (lift_result (if es_actual_fill (tg_entry (row_spec current0)) = None
              then with_actual_fill (ex_fill_cfg ex) (row_spec current0) fill_price
              else Inr (row_spec current0))) (\<lambda>spec.
       seq (store_save ex spec (save_defaults\<lparr>sv_state := TP1_FILLED,
          sv_legs := close_leg 1 fill_price (row_legs current), sv_be := row_be current,
          sv_broker_ids := row_broker_ids current, sv_submitted := True\<rparr>))
       (seq (append_event ex spec ''tp1_filled'' (Some 1) None
          [(''entry_actual_fill'', jopt JFloat (es_actual_fill (tg_entry spec))),
           (''fill_price'', JFloat fill_price), (''mode'', mode_json spec)])
       (ret TP1_FILLED))))))
     else on_tp_leg_filled ex gid leg fill_price)"

definition request_break_even :: "'d executor \<Rightarrow> string \<Rightarrow> ('d, group_state) act" where
  "request_break_even ex gid =
     bnd (require_group gid) (\<lambda>current.
     let spec = row_spec current in
     seq (lift_result (require_transition (row_state current) BE_REQUESTED))
     (case es_actual_fill (tg_entry spec) of
        None \<Rightarrow> throw (GroupStateError ''break-even requires a confirmed actual fill'')
      | Some fill \<Rightarrow>
          bnd (lift_result (compute_break_even (tg_side spec) fill (ex_cost ex) (ex_broker ex))) (\<lambda>(raw, prot).
          let be = row_be current;
              be' = be\<lparr>bt_status := Some ''BE_REQUESTED'', bt_raw_price := Some raw,
                bt_protected_price := Some prot, bt_requested_price := Some prot,
                bt_retries := Some (get_or 0 (bt_retries be))\<rparr>
          in seq (store_update ex gid BE_REQUESTED (no_update\<lparr>up_be := Some be'\<rparr>))
             (seq (append_event ex spec ''be_requested'' None None
                [(''apply_to'', JList (map JInt (be_apply_to (tg_break_even spec)))),
                 (''mode'', mode_json spec), (''protected_price'', JFloat prot),
                 (''raw_price'', JFloat raw), (''requested_price'', JFloat prot)])
             (ret BE_REQUESTED)))))"

definition be_retry_or_fail ::
  "'d executor \<Rightarrow> string \<Rightarrow> trade_group_spec \<Rightarrow> be_status \<Rightarrow> rat \<Rightarrow> string \<Rightarrow> ('d, group_state) act" where
  "be_retry_or_fail ex gid spec be requested error =
     (let retries = get_or 0 (bt_retries be) + 1;
          be' = be\<lparr>bt_status := Some ''BE_RETRY'', bt_retries := Some retries, bt_last_error := Some error\<rparr>;
          next_state = (if retries < ex_max_be_retries ex then BE_RETRY else FAILED)
      in seq (store_update ex gid next_state (no_update\<lparr>up_be := Some be'\<rparr>))
         (seq (append_event ex spec (if next_state = BE_RETRY then ''be_retry'' else ''leg_rejected'')
            None (Some error)
            [(''mode'', mode_json spec), (''requested_price'', JFloat requested), (''retries'', JInt retries)])
         (ret next_state)))"

text \<open>The two loops over the legs; the result is the error that left the loop.\<close>

fun modify_all :: "'d executor \<Rightarrow> rat \<Rightarrow> string list \<Rightarrow> ('d, string option) act" where
  "modify_all ex requested [] = ret None"
| "modify_all ex requested (r # rs) =
     bnd (on_driver (dr_modify_sl (ex_driver ex) r requested)) (\<lambda>(accepted, comment).
       if \<not> accepted then ret (Some comment) else modify_all ex requested rs)"

fun query_all :: "'d executor \<Rightarrow> rat \<Rightarrow> string list \<Rightarrow> ('d, string option) act" where
  "query_all ex requested [] = ret None"
| "query_all ex requested (r # rs) =
     bnd (on_driver (dr_query_sl (ex_driver ex) r)) (\<lambda>observed.
       if (case observed of None \<Rightarrow> True | Some x \<Rightarrow> \<bar>fsub x requested\<bar> > fl (1 / 10 ^ 9))
       then ret (Some ''SL query mismatch'') else query_all ex requested rs)"

text \<open>Both loops in order: the first rejection or mismatch, \<open>None\<close> when all legs are confirmed.\<close>

definition apply_break_even :: "'d executor \<Rightarrow> rat \<Rightarrow> string list \<Rightarrow> ('d, string option) act" where
  "apply_break_even ex requested refs =
     bnd (modify_all ex requested refs) (\<lambda>rejected.
       case rejected of Some comment \<Rightarrow> ret (Some comment) | None \<Rightarrow> query_all ex requested refs)"

definition confirm_break_even :: "'d executor \<Rightarrow> string \<Rightarrow> ('d, group_state) act" where
  "confirm_break_even ex gid =
     bnd (require_group gid) (\<lambda>current.
     let spec = row_spec current; be = row_be current;
         requested = get_or 0 (bt_requested_price be);
         refs = map (new_leg_id gid) (be_apply_to (tg_break_even spec))
     in seq (require (row_state current \<in> {BE_REQUESTED, BE_RETRY})
          (GroupStateError ''confirm_break_even requires BE_REQUESTED/BE_RETRY''))
        (seq (require (\<not> requested \<le> 0) (GroupStateError ''no requested BE price''))
        (bnd (apply_break_even ex requested refs) (\<lambda>failure.
         case failure of
           Some error \<Rightarrow> be_retry_or_fail ex gid spec be requested error
         | None \<Rightarrow>
             seq (store_update ex gid BE_CONFIRMED (no_update\<lparr>up_be := Some (be\<lparr>
                bt_status := Some ''BE_CONFIRMED'', bt_confirmed_price := Some requested,
                bt_last_error := None\<rparr>)\<rparr>))
             (seq (append_event ex spec ''be_confirmed'' None None
                [(''confirmed_price'', JFloat requested), (''mode'', mode_json spec),
                 (''raw_price'', jopt JFloat (bt_raw_price be))])
             (ret BE_CONFIRMED))))))"

definition on_stopped :: "'d executor \<Rightarrow> string \<Rightarrow> rat \<Rightarrow> ('d, group_state) act" where
  "on_stopped ex gid stop_price =
     seq (ensure_open ex gid) (bnd (require_group gid) (\<lambda>current.
     let spec = row_spec current in
     seq (lift_result (require_transition (row_state current) STOPPED))
     (seq (store_update ex gid STOPPED no_update)
     (seq (append_event ex spec ''stop_filled'' None None
        [(''mode'', mode_json spec), (''stop_price'', JFloat stop_price)])
     (ret STOPPED)))))"

definition stoppable :: "group_state list" where
  "stoppable = [SUBMITTED, OPENED, TP1_FILLED, BE_REQUESTED, BE_RETRY, BE_CONFIRMED, TP2_FILLED]"

definition simulate_tick :: "'d executor \<Rightarrow> string \<Rightarrow> rat \<Rightarrow> ('d, string list) act" where
  "simulate_tick ex gid price =
     seq (require (dr_mode (ex_driver ex) = ''paper'') (RuntimeError ''simulate_tick is paper-driver only''))
     (bnd (require_group gid) (\<lambda>current.
      let g = tg_geometry (row_spec current); st = row_state current;
          beyond = (\<lambda>level. fmul (direction (tg_side (row_spec current))) (fsub price level))
      in if st \<in> set stoppable \<and> beyond (ge_sl g) \<le> 0 then
           seq (on_stopped ex gid (ge_sl g)) (ret [''stop_filled''])
         else if st \<in> {SUBMITTED, OPENED} then
           (if beyond (ge_tp1 g) \<ge> 0 then seq (on_leg_filled ex gid 1 (ge_tp1 g)) (ret [''tp1_filled'']) else ret [])
         else if st = BE_CONFIRMED then
           (if beyond (ge_tp2 g) \<ge> 0 then seq (on_leg_filled ex gid 2 (ge_tp2 g)) (ret [''tp2_filled'']) else ret [])
         else if st = TP2_FILLED then
           (if beyond (ge_tp3 g) \<ge> 0 then seq (on_leg_filled ex gid 3 (ge_tp3 g)) (ret [''tp3_filled'']) else ret [])
         else ret []))"

fun verify_legs :: "'d executor \<Rightarrow> string \<Rightarrow> broker_result leg_item list \<Rightarrow> ('d, broker_result leg_item list) act" where
  "verify_legs ex gid [] = ret []"
| "verify_legs ex gid (i # is) =
     bnd (on_driver (dr_query_sl (ex_driver ex) (new_leg_id gid (li_leg i)))) (\<lambda>sl.
     let i1 = (if truthy_id (br_position_id (li_broker i)) then i\<lparr>li_verified_after_restart := True\<rparr> else i);
         i2 = (case sl of None \<Rightarrow> i1 | Some x \<Rightarrow> i1\<lparr>li_sl_after_restart := Some x\<rparr>)
     in bnd (verify_legs ex gid is) (\<lambda>is'. ret (i2 # is')))"

definition recover_after_restart :: "'d executor \<Rightarrow> string \<Rightarrow> ('d, broker_result group_row) act" where
  "recover_after_restart ex gid =
     bnd (require_group gid) (\<lambda>current.
     let spec = row_spec current; st = row_state current in
     bnd (if row_submitted current then
            bnd (verify_legs ex gid (row_legs current)) (\<lambda>legs.
            seq (store_update ex gid st (no_update\<lparr>up_legs := Some legs\<rparr>))
            (ret (current\<lparr>row_legs := legs\<rparr>)))
          else ret current) (\<lambda>result.
     seq (append_event ex spec ''group_reconciled'' None (Some ''restart_recovery'')
        [(''mode'', mode_json spec), (''state'', JStr (state_value st)), (''submitted'', JBool (row_submitted current))])
     (ret result)))"

section \<open>Runs\<close>

text \<open>The public methods as operations of a run.\<close>

datatype exec_op =
    Create trade_group_spec
  | Submit string
  | Fill string int rat
  | RequestBE string
  | ConfirmBE string
  | Stopped string rat
  | Tick string rat
  | Recover string

fun call :: "'d executor \<Rightarrow> exec_op \<Rightarrow> ('d, unit) act" where
  "call ex (Create spec) = seq (create_group ex spec) (ret ())"
| "call ex (Submit gid) = seq (submit_group ex gid) (ret ())"
| "call ex (Fill gid leg price) = seq (on_leg_filled ex gid leg price) (ret ())"
| "call ex (RequestBE gid) = seq (request_break_even ex gid) (ret ())"
| "call ex (ConfirmBE gid) = seq (confirm_break_even ex gid) (ret ())"
| "call ex (Stopped gid price) = seq (on_stopped ex gid price) (ret ())"
| "call ex (Tick gid price) = seq (simulate_tick ex gid price) (ret ())"
| "call ex (Recover gid) = seq (recover_after_restart ex gid) (ret ())"

definition exec_step :: "'d executor \<Rightarrow> exec_op \<Rightarrow> (broker_result, 'd) world \<Rightarrow> (broker_result, 'd) world" where
  "exec_step ex x w = snd (call ex x w)"

lemmas method_defs = create_group_def submit_group_def on_leg_filled_def on_tp_leg_filled_def finish_tp_def
  request_break_even_def confirm_break_even_def be_retry_or_fail_def on_stopped_def simulate_tick_def
  recover_after_restart_def ensure_open_def submit_one_def Let_def

section \<open>Frames\<close>

lemma wp_append_event:
  "(\<And>l n. Q () (w\<lparr>w_ledger := l, w_reads := n\<rparr>)) \<Longrightarrow> (\<And>l n. E (w\<lparr>w_ledger := l, w_reads := n\<rparr>))
    \<Longrightarrow> wp (append_event ex spec et leg reason payload) Q E w"
  unfolding append_event_def by (rule wp_append_args)

lemma keeps_frame_event [keeps_intros]:
  "keeps (\<lambda>w. P (w_store w)) (append_event ex spec et leg reason payload)"
  unfolding append_event_def by (rule keeps_frame_store)

lemma keeps_append_ledger [keeps_intros]:
  "keeps (\<lambda>w. ledger_inv (io_sha ex) (w_ledger w)) (append_event ex spec et leg reason payload)"
  unfolding append_event_def by (rule keeps_append_args_ledger)

lemma keeps_submit_legs [keeps_intros]:
  "(\<And>leg. keeps P (submit_one ex spec gid leg)) \<Longrightarrow> keeps P (submit_legs ex spec gid legs)"
  by (induction legs) (auto intro!: keeps_intros)

lemma keeps_loops [keeps_intros]:
  assumes "\<And>m :: (_, bool \<times> string) comp. keeps P (on_driver m)"
    and "\<And>m :: (_, rat option) comp. keeps P (on_driver m)"
  shows "keeps P (modify_all ex requested rs)" "keeps P (query_all ex requested rs)"
    "keeps P (verify_legs ex gid items)"
proof -
  show "keeps P (modify_all ex requested rs)"
    by (induction rs) (auto simp del: case_prod_conv intro!: keeps_intros assms)
  show "keeps P (query_all ex requested rs)"
    by (induction rs) (auto intro!: keeps_intros assms)
  show "keeps P (verify_legs ex gid items)"
    by (induction items) (auto simp: Let_def intro!: keeps_intros assms)
qed

lemma keeps_apply_break_even [keeps_intros]:
  assumes "\<And>m :: (_, bool \<times> string) comp. keeps P (on_driver m)"
    and "\<And>m :: (_, rat option) comp. keeps P (on_driver m)"
  shows "keeps P (apply_break_even ex requested refs)"
  unfolding apply_break_even_def by (intro keeps_intros assms)

lemma keeps_ledger_any:
  assumes "\<And>spec et leg reason payload. keeps (\<lambda>w. P (w_ledger w)) (append_event ex spec et leg reason payload)"
  shows "keeps (\<lambda>w. P (w_ledger w)) (call ex x)"
  by (cases x) (auto simp: method_defs store_save_def store_update_def
      simp del: split_paired_All intro!: assms keeps_intros)

lemma keeps_ledger_call: "keeps (\<lambda>w. ledger_inv (io_sha ex) (w_ledger w)) (call ex x)"
  by (rule keeps_ledger_any) (rule keeps_append_ledger)

lemma keeps_store_inv_call: "keeps (\<lambda>w. store_inv (w_store w)) (call ex x)"
  by (cases x) (auto simp: method_defs intro!: keeps_intros keeps_store_writes keeps_store_update
      save_store_inv update_store_inv submit_store_inv)

lemma keeps_submitted_call:
  assumes "\<And>spec. x = Create spec \<Longrightarrow> tg_group_id spec \<noteq> gid"
  shows "keeps (\<lambda>w. is_submitted gid (w_store w)) (call ex x)"
  using assms
  by (cases x) (auto simp: method_defs intro!: keeps_intros keeps_store_writes keeps_store_update
      is_submitted_writes)

section \<open>State changes\<close>

lemma transition_steps [simp]:
  "validate_transition SUBMITTED OPENED" "validate_transition DRAFT VALIDATED"
  "validate_transition TP3_FILLED RECONCILED"
  "s \<in> {BE_REQUESTED, BE_RETRY} \<Longrightarrow> validate_transition s BE_CONFIRMED"
  "s \<in> {BE_REQUESTED, BE_RETRY} \<Longrightarrow> validate_transition s BE_RETRY"
  "s \<in> {BE_REQUESTED, BE_RETRY} \<Longrightarrow> validate_transition s FAILED"
  by (auto simp: transition_simps)

lemma keeps_reached_ensure_open: "keeps (\<lambda>w. reached s0 g (w_store w)) (ensure_open ex gid)"
  unfolding ensure_open_def
  by (rule keeps_require_group) (auto simp: wp_simps intro!: reached_update)

lemma keeps_reached_on_stopped: "keeps (\<lambda>w. reached s0 g (w_store w)) (on_stopped ex gid price)"
  unfolding on_stopped_def Let_def
  by (intro keeps_seq keeps_reached_ensure_open keeps_require_group)
    (auto simp: wp_simps intro!: reached_update wp_append_event)

lemma keeps_reached_request: "keeps (\<lambda>w. reached s0 g (w_store w)) (request_break_even ex gid)"
  unfolding request_break_even_def Let_def
  by (intro keeps_require_group)
    (auto simp: wp_simps split: option.split sum.split intro!: reached_update wp_append_event)

lemma keeps_reached_append: "keeps (\<lambda>w. reached s0 g (w_store w)) (append_event ex spec et leg reason p)"
  by (rule keeps_frame_event)

lemma be_retry_reached:
  assumes "reached s0 g (w_store w)" and "load_group gid (w_store w) = Inr (Some r)"
    and "row_state r \<in> {BE_REQUESTED, BE_RETRY}"
  shows "wp (be_retry_or_fail ex gid spec be requested err) (\<lambda>_ w. reached s0 g (w_store w))
    (\<lambda>w. reached s0 g (w_store w)) w"
proof -
  have "reached s0 g (update_group_state now gid st u (w_store w))" if "st \<in> {BE_RETRY, FAILED}" for now st u
    using assms that by (intro reached_update [OF assms(1,2)] r_into_rtranclp) auto
  then show ?thesis
    unfolding be_retry_or_fail_def Let_def by (auto simp: wp_simps intro!: wp_append_event)
qed

lemma keeps_submit_legs_store: "keeps (\<lambda>w. P (w_store w)) (submit_legs ex spec gid legs)"
  by (rule keeps_submit_legs) (auto simp: submit_one_def Let_def intro!: keeps_intros)

lemma keeps_verify_legs_store: "keeps (\<lambda>w. P (w_store w)) (verify_legs ex gid items)"
  by (intro keeps_intros)

lemmas wp_frame_loops = wp_frame_driver [OF keeps_submit_legs_store] wp_frame_driver [OF keeps_verify_legs_store]

declare submit_legs.simps [simp del] verify_legs.simps [simp del]

lemma finish_reached:
  assumes "reached s0 g (w_store w)" and "load_group gid (w_store w) = Inr (Some r)"
    and "validate_transition (row_state r) st"
  shows "reached s0 g (update_group_state now gid st u (w_store w))"
  using assms by (intro reached_update [OF assms(1,2)]) auto

lemma keeps_reached_confirm: "keeps (\<lambda>w. reached s0 g (w_store w)) (confirm_break_even ex gid)"
  unfolding confirm_break_even_def Let_def
proof (rule keeps_require_group, goal_cases)
  case (1 r w)
  let ?I = "\<lambda>w. reached s0 g (w_store w)"
  have "wp (apply_break_even ex q rs) (\<lambda>x. wp (case x of None \<Rightarrow> seq (store_update ex gid BE_CONFIRMED u)
          (seq (append_event ex spec et leg reason p) (ret BE_CONFIRMED))
        | Some e \<Rightarrow> be_retry_or_fail ex gid spec be q e) (\<lambda>_. ?I) ?I) ?I w"
    if st: "row_state r \<in> {BE_REQUESTED, BE_RETRY}" for q rs u spec et leg reason p be
  proof (rule wp_frame_driver, goal_cases)
    case (2 x w')
    then show ?case
      using 1 st finish_reached [OF 1, of BE_CONFIRMED]
      by (cases x) (auto simp: wp_simps intro!: be_retry_reached wp_append_event)
  qed (auto intro: keeps_intros simp: 1)
  then show ?case using 1 by (simp add: wp_seq wp_bnd wp_basic)
qed

lemma finish_tp_reached:
  assumes "reached s0 g (w_store w)" and "load_group gid (w_store w) = Inr (Some r)"
    and "validate_transition (row_state r) st" and "leg = 3 \<Longrightarrow> st = TP3_FILLED"
  shows "wp (finish_tp ex gid spec leg price cur st event) (\<lambda>_ w. reached s0 g (w_store w))
    (\<lambda>w. reached s0 g (w_store w)) w"
proof -
  have "reached s0 g (update_group_state n' gid RECONCILED u' (update_group_state n gid st u (w_store w)))"
    if "leg = 3" for n n' u u'
    using assms(4) [OF that]
    by (intro reached_update [OF finish_reached [OF assms(1-3)] load_after_update [OF assms(2)]]) auto
  then show ?thesis
    unfolding finish_tp_def Let_def
    by (auto simp: wp_simps finish_reached [OF assms(1-3)] intro!: wp_append_event)
qed

lemma wp_ensure_open:
  assumes "reached s0 g (w_store w)" and "\<And>w'. reached s0 g (w_store w') \<Longrightarrow> Q w'"
    and "\<And>w'. reached s0 g (w_store w') \<Longrightarrow> E w'"
  shows "wp (ensure_open ex gid) (\<lambda>_. Q) E w"
  by (rule wp_mono [OF wp_keeps [OF keeps_reached_ensure_open assms(1)]]) (use assms in auto)

lemma keeps_reached_tp: "keeps (\<lambda>w. reached s0 g (w_store w)) (on_tp_leg_filled ex gid leg price)"
  unfolding on_tp_leg_filled_def Let_def
  by (rule keeps_require_group)
    (auto simp: wp_simps split: sum.split option.split intro!: wp_ensure_open
      intro: finish_tp_reached [where leg = 2, simplified] finish_tp_reached [where leg = 3, simplified])

lemma with_actual_fill_group: "with_actual_fill c s p = Inr s' \<Longrightarrow> tg_group_id s' = tg_group_id s \<and> tg_mode s' = tg_mode s"
  by (auto simp: with_actual_fill_def Let_def split: if_splits option.splits)

lemma keeps_reached_fill: "keeps (\<lambda>w. reached s0 g (w_store w)) (on_leg_filled ex gid leg price)"
  unfolding on_leg_filled_def
proof (rule keeps_require_group, goal_cases)
  case (1 r0 w)
  then have key: "tg_group_id (row_spec r0) = gid" using loaded_key by (auto simp: reached_def)
  have saved: "reached s0 g (save_group sha now spec (save_defaults\<lparr>sv_state := TP1_FILLED, sv_legs := l,
      sv_be := b, sv_broker_ids := i, sv_submitted := True\<rparr>) s)"
    if "reached s0 g s" "load_group gid s = Inr (Some r)" "validate_transition (row_state r) TP1_FILLED"
      "spec = row_spec r0 \<or> with_actual_fill (ex_fill_cfg ex) (row_spec r0) price = Inr spec" for sha now spec s r l b i
    using that key with_actual_fill_group [of "ex_fill_cfg ex" "row_spec r0" price spec]
    by (intro reached_save [OF that(1), of _ r]) auto
  show ?case
  proof (cases "leg = 1")
    case True
    then show ?thesis
      using 1
      by (auto simp: wp_simps split: sum.split option.split intro!: wp_ensure_open wp_append_event)
        (rule saved, assumption, assumption, assumption, simp)+
  qed (simp add: wp_keeps [OF keeps_reached_tp 1(1)])
qed

lemma load_after_submit:
  "load_group gid s = Inr (Some r) \<Longrightarrow>
    load_group gid (snd (try_mark_submitted gid s)) = Inr (Some (r\<lparr>row_submitted := True\<rparr>))"
  by (simp add: load_group_Some submit_rows)

lemma keeps_reached_submit: "keeps (\<lambda>w. reached s0 g (w_store w)) (submit_group ex gid)"
  unfolding submit_group_def Let_def
proof (rule keeps_require_group, goal_cases)
  case (1 r w)
  have "reached s0 g (update_group_state now gid SUBMITTED u (snd (try_mark_submitted gid (w_store w))))"
    if "validate_transition (row_state r) SUBMITTED" for now u
    using that by (intro reached_update [OF reached_submit [OF 1(1)] load_after_submit [OF 1(2)]]) auto
  then show ?case
    using 1 by (auto simp: wp_simps reached_submit intro!: wp_frame_loops wp_append_event)
qed

lemma keeps_reached_tick: "keeps (\<lambda>w. reached s0 g (w_store w)) (simulate_tick ex gid price)"
  unfolding simulate_tick_def Let_def
  by (auto intro!: keeps_intros keeps_reached_on_stopped keeps_reached_fill)

lemma keeps_reached_recover: "keeps (\<lambda>w. reached s0 g (w_store w)) (recover_after_restart ex gid)"
  unfolding recover_after_restart_def Let_def
proof (rule keeps_require_group, goal_cases)
  case (1 r w)
  have "reached s0 g (update_group_state now gid (row_state r) u (w_store w))" for now u
    by (rule reached_update [OF 1]) simp
  then show ?case
    using 1 by (auto simp: wp_simps intro!: wp_frame_loops wp_append_event)
qed

lemma keeps_reached_call:
  assumes "\<And>spec. x = Create spec \<Longrightarrow> tg_group_id spec \<noteq> g"
  shows "keeps (\<lambda>w. reached s0 g (w_store w)) (call ex x)"
proof (cases x)
  case (Create spec)
  have "reached s0 g (save_group sha now spec a s)" if "reached s0 g s" for sha now a s
    using that assms [OF Create] by (auto simp: reached_def save_rows save_store_inv split: option.splits)
  then show ?thesis by (auto simp: Create create_group_def intro!: keeps_intros keeps_store_writes)
qed (auto intro!: keeps_intros keeps_reached_submit keeps_reached_fill keeps_reached_request keeps_reached_confirm
  keeps_reached_on_stopped keeps_reached_tick keeps_reached_recover)

section \<open>The mode gate\<close>

definition gated :: "'d executor \<Rightarrow> broker_result group_store \<Rightarrow> bool" where
  "gated ex s \<longleftrightarrow> list_all (\<lambda>(_, r). is_ok (gate_mode ex (row_spec r))) (gs_groups s)"

lemma gated_loaded: "gated ex s \<Longrightarrow> load_group gid s = Inr (Some r) \<Longrightarrow> is_ok (gate_mode ex (row_spec r))"
  by (auto simp: gated_def load_group_Some list_all_iff dest!: map_of_SomeD)

lemma gated_writes:
  "gated ex s \<Longrightarrow> is_ok (gate_mode ex spec) \<Longrightarrow> gated ex (save_group sha now spec a s)"
  "gated ex s \<Longrightarrow> gated ex (update_group_state now gid st u s)"
  "gated ex s \<Longrightarrow> gated ex (snd (try_mark_submitted gid s))"
  by (auto simp: gated_def save_rows set_replace_row groups_update submit_rows update_row_def list_all_iff)

lemma keeps_bnd_lift: "(\<And>x. r = Inr x \<Longrightarrow> keeps P (f x)) \<Longrightarrow> keeps P (bnd (lift_result r) f)"
  by (cases r) (auto simp: keeps_def py_simps)

text \<open>A property of the driver that every call with a gated specification keeps.\<close>

locale gated_driver =
  fixes ops :: "'d driver" and P :: "'d \<Rightarrow> bool" and ok :: "trade_group_spec \<Rightarrow> bool"
  assumes submit_keeps: "ok spec \<Longrightarrow> keeps P (dr_submit_leg ops spec leg volume)"
    and modify_keeps: "keeps P (dr_modify_sl ops r sl)"
    and query_keeps: "keeps P (dr_query_sl ops r)"
begin

definition good :: "'d executor \<Rightarrow> (broker_result, 'd) world \<Rightarrow> bool" where
  "good ex w \<longleftrightarrow> gated ex (w_store w) \<and> P (w_drv w)"

lemma keeps_on_driver: "keeps P m \<Longrightarrow> keeps (good ex) (on_driver m)"
  by (auto simp: keeps_def good_def on_driver_def split: prod.split)

lemma keeps_good_store: "(\<And>s. gated ex s \<Longrightarrow> gated ex (snd (f s))) \<Longrightarrow> keeps (good ex) (on_store f)"
  by (rule keeps_wp) (simp add: wp_simps good_def)

lemma keeps_good_frame:
  "keeps (good ex) (append_event ex' spec et leg reason payload)" "keeps (good ex) (read_clock ex')"
  by (rule keeps_wp, auto simp: wp_simps good_def intro!: wp_append_event)+

lemma keeps_good_update: "keeps (good ex) (store_update ex gid st u)"
  by (auto simp: store_update_def intro!: keeps_intros keeps_good_store keeps_good_frame gated_writes)

lemma keeps_good_save: "is_ok (gate_mode ex spec) \<Longrightarrow> keeps (good ex) (store_save ex spec a)"
  by (auto simp: store_save_def intro!: keeps_intros keeps_good_store keeps_good_frame gated_writes)

lemmas keeps_good = keeps_good_frame keeps_good_update keeps_good_save

lemma keeps_good_loops:
  assumes "ex_driver ex = ops"
  shows "keeps (good ex) (modify_all ex q rs)" "keeps (good ex) (query_all ex q rs)"
    "keeps (good ex) (verify_legs ex gid items)"
proof -
  show "keeps (good ex) (modify_all ex q rs)"
    by (induction rs) (auto simp: assms simp del: case_prod_conv
        intro!: keeps_intros(1-8) keeps_case_prod keeps_on_driver modify_keeps)
  show "keeps (good ex) (query_all ex q rs)"
    by (induction rs) (auto simp: assms intro!: keeps_intros(1-8) keeps_on_driver query_keeps)
  show "keeps (good ex) (verify_legs ex gid items)"
    by (induction items) (auto simp: assms Let_def verify_legs.simps
        intro!: keeps_intros(1-8) keeps_on_driver query_keeps)
qed

lemma keeps_good_submit_legs:
  assumes "ex_driver ex = ops" and "ok spec"
  shows "keeps (good ex) (submit_legs ex spec gid legs)"
  by (induction legs) (auto simp: assms(1) submit_legs.simps submit_one_def Let_def
      intro!: keeps_intros(1-8) keeps_option keeps_on_driver submit_keeps [OF assms(2)] keeps_good)

lemma good_loaded:
  "good ex w \<Longrightarrow> load_group gid (w_store w) = Inr (Some r) \<Longrightarrow> is_ok (gate_mode ex (row_spec r))"
  by (auto simp: good_def gated_loaded)

lemma wp_good: "keeps (good ex) m \<Longrightarrow> good ex w \<Longrightarrow> wp m (\<lambda>_. good ex) (good ex) w"
  by (rule wp_keeps)

lemma keeps_good_fill: "keeps (good ex) (on_leg_filled ex gid leg price)"
proof -
  have tp: "keeps (good ex) (on_tp_leg_filled ex gid leg price)"
    by (auto simp: on_tp_leg_filled_def finish_tp_def ensure_open_def Let_def
        intro!: keeps_intros(1-8) keeps_require_group_any keeps_good)
  have gate: "with_actual_fill c s p = Inr s' \<Longrightarrow> is_ok (gate_mode ex s) \<Longrightarrow> is_ok (gate_mode ex s')" for c s p s'
    by (drule with_actual_fill_group) (auto simp: gate_mode_def split: if_splits)
  have open_good: "keeps (good ex) (ensure_open ex gid)"
    by (auto simp: ensure_open_def intro!: keeps_intros(1-8) keeps_require_group_any keeps_good)
  show ?thesis
    unfolding on_leg_filled_def
  proof (rule keeps_require_group, rule wp_good, goal_cases)
    case (1 r0 w)
    have ok0: "is_ok (gate_mode ex (row_spec r0))" by (rule good_loaded [OF 1])
    show ?case
      by (intro keeps_if tp keeps_seq open_good keeps_bnd keeps_require_group_any keeps_pure keeps_bnd_lift
          keeps_good) (use ok0 gate in \<open>auto split: if_splits\<close>)
  qed
qed

lemma keeps_good_submit:
  assumes "ex_driver ex = ops" and "\<And>spec. is_ok (gate_mode ex spec) \<Longrightarrow> ok spec"
  shows "keeps (good ex) (submit_group ex gid)"
  unfolding submit_group_def Let_def
proof (rule keeps_require_group, rule wp_good, goal_cases)
  case (1 r w)
  then show ?case
    using assms(2) [OF good_loaded [OF 1]]
    by (auto intro!: keeps_intros(1-8) keeps_good_submit_legs [OF assms(1)] keeps_good keeps_good_store
        gated_writes)
qed

lemma keeps_good_call:
  assumes "ex_driver ex = ops" and "\<And>spec. is_ok (gate_mode ex spec) \<Longrightarrow> ok spec"
  shows "keeps (good ex) (call ex x)"
proof (cases x)
  case (Create spec)
  have "keeps (good ex) (create_group ex spec)"
  proof (cases "gate_mode ex spec")
    case (Inl e)
    then show ?thesis by (auto simp: create_group_def keeps_def py_simps)
  next
    case (Inr u)
    then show ?thesis
      by (auto simp: create_group_def intro!: keeps_intros(1-8) keeps_good)
  qed
  then show ?thesis by (auto simp: Create intro!: keeps_intros(1-8))
next
  case (Submit gid)
  then show ?thesis by (auto intro!: keeps_intros(1-8) keeps_good_submit assms)
qed (auto simp: request_break_even_def confirm_break_even_def apply_break_even_def be_retry_or_fail_def
    on_stopped_def simulate_tick_def recover_after_restart_def ensure_open_def Let_def assms(1)
    intro!: keeps_intros(1-8) keeps_case_prod keeps_option keeps_require_group_any keeps_good
      keeps_good_fill keeps_good_loops)

end

text \<open>The paper driver never holds more positions than it took orders.\<close>

definition positions_counted :: "paper \<Rightarrow> bool" where
  "positions_counted d \<longleftrightarrow> finite (dom (pd_positions d)) \<and> int (card (dom (pd_positions d))) \<le> pd_order_seq d"

lemma positions_counted_submit: "keeps positions_counted (paper_submit_leg am spec leg volume)"
proof (rule keepsI)
  fix d assume "positions_counted d"
  then show "positions_counted (snd (paper_submit_leg am spec leg volume d))"
    using card_insert_le_m1 [of "nat (pd_order_seq d + 1)" "dom (pd_positions d)" "new_leg_id (tg_group_id spec) leg"]
    by (auto simp: positions_counted_def paper_submit_leg_def Let_def card_insert_if split: option.split sum.split)
qed

lemma positions_counted_modify: "keeps positions_counted (paper_modify_sl am r sl)"
  by (rule keepsI)
    (auto simp: positions_counted_def paper_modify_sl_def Let_def insert_absorb domI split: option.split)

interpretation paper_gate: gated_driver "paper_ops am" positions_counted "\<lambda>_. True" for am
  by unfold_locales
    (simp_all add: paper_ops_def positions_counted_submit positions_counted_modify paper_query_sl_def keeps_pure)

section \<open>Stop moves\<close>

text \<open>What the executor relies on in a driver: a query changes nothing; an accepted move is what a
  later query returns, also for the other references that already had the level; a refused move
  changes nothing.\<close>

locale sl_driver =
  fixes ops :: "'d driver"
  assumes query_pure: "snd (dr_query_sl ops r d) = d"
    and modify_seen: "dr_modify_sl ops r x d = (Inr (True, c), d') \<Longrightarrow> fst (dr_query_sl ops r d') = Inr (Some x)"
    and modify_stable: "dr_modify_sl ops r x d = (Inr (True, c), d') \<Longrightarrow> fst (dr_query_sl ops r' d) = Inr (Some x)
      \<Longrightarrow> fst (dr_query_sl ops r' d') = Inr (Some x)"
    and modify_refused: "dr_modify_sl ops r x d = (Inr (False, c), d') \<Longrightarrow> d' = d"
begin

definition stops_at :: "string list \<Rightarrow> rat \<Rightarrow> 'd \<Rightarrow> bool" where
  "stops_at refs x d \<longleftrightarrow> (\<forall>r \<in> set refs. fst (dr_query_sl ops r d) = Inr (Some x))"

lemma modify_all_at:
  assumes "ex_driver ex = ops" and "modify_all ex x refs w = (Inr None, w')" and "stops_at moved x (w_drv w)"
  shows "stops_at (moved @ refs) x (w_drv w')"
  using assms(2,3)
proof (induction refs arbitrary: w moved)
  case (Cons r rs)
  from Cons.prems(1) obtain c d where m: "dr_modify_sl ops r x (w_drv w) = (Inr (True, c), d)"
    and rest: "modify_all ex x rs (w\<lparr>w_drv := d\<rparr>) = (Inr None, w')"
    by (auto simp: bnd_def on_driver_def assms(1) py_simps split: prod.splits sum.splits if_splits)
  have "stops_at (moved @ [r]) x d"
    using Cons.prems(2) modify_seen [OF m] modify_stable [OF m] by (auto simp: stops_at_def)
  from Cons.IH [OF rest, of "moved @ [r]"] this show ?case by simp
qed (simp add: py_simps)

lemma query_all_at:
  assumes "ex_driver ex = ops" and "stops_at refs x (w_drv w)"
  shows "query_all ex x refs w = (Inr None, w)"
  using assms(2)
proof (induction refs)
  case (Cons r rs)
  have "dr_query_sl ops r (w_drv w) = (Inr (Some x), w_drv w)"
    using Cons.prems query_pure [of r "w_drv w"] by (cases "dr_query_sl ops r (w_drv w)") (auto simp: stops_at_def)
  then show ?case
    using Cons fl.nonneg [of "1 / 1000000000"]
    by (simp add: bnd_def on_driver_def assms(1) stops_at_def fsub_def not_less)
qed (simp add: py_simps)

lemma apply_accepted:
  assumes "ex_driver ex = ops" and "modify_all ex x refs w = (Inr None, w')"
  shows "apply_break_even ex x refs w = (Inr None, w') \<and> stops_at refs x (w_drv w')"
proof -
  have "stops_at refs x (w_drv w')" using modify_all_at [OF assms, of "[]"] by (simp add: stops_at_def)
  then show ?thesis
    using query_all_at [OF assms(1)] assms(2) by (simp add: apply_break_even_def bnd_def)
qed

lemma apply_None:
  assumes "ex_driver ex = ops" and "apply_break_even ex x refs w = (Inr None, w')"
  shows "stops_at refs x (w_drv w')"
proof (cases "modify_all ex x refs w")
  case (Pair res w1)
  with assms(2) have "res = Inr None"
    by (auto simp: apply_break_even_def bnd_def py_simps split: sum.splits option.splits)
  with Pair assms apply_accepted [OF assms(1), of x refs w w1] show ?thesis by simp
qed

end

lemma paper_query_fst: "fst (paper_query_sl am r d) =
    Inr (map_option pp_sl (pd_positions d (resolve_ref am (pd_positions d) r)))"
  by (simp add: paper_query_sl_def py_simps)

lemma resolve_ref_update:
  "pd_positions d k = Some p \<Longrightarrow> resolve_ref am ((pd_positions d)(k \<mapsto> q)) r = resolve_ref am (pd_positions d) r"
  by (auto simp: resolve_ref_def Let_def)

lemma paper_modify_accepted:
  "paper_modify_sl am r x d = (Inr (True, c), d') \<longleftrightarrow>
     \<not> pd_reject_modify d \<and> c = ''done''
     \<and> (\<exists>p. pd_positions d (resolve_ref am (pd_positions d) r) = Some p
         \<and> d' = d\<lparr>pd_positions := (pd_positions d)(resolve_ref am (pd_positions d) r \<mapsto> p\<lparr>pp_sl := x\<rparr>)\<rparr>)"
  by (auto simp: paper_modify_sl_def Let_def split: option.splits if_splits)

interpretation paper_sl: sl_driver "paper_ops am" for am
proof (unfold_locales, goal_cases)
  case (1 r d)
  show ?case by (simp add: paper_ops_def paper_query_sl_def py_simps)
next
  case (2 r x d c d')
  then show ?case
    by (auto simp: paper_ops_def paper_modify_accepted paper_query_fst resolve_ref_update)
next
  case (3 r x d c d' r')
  then show ?case
    by (auto simp: paper_ops_def paper_modify_accepted paper_query_fst resolve_ref_update)
next
  case (4 r x d c d')
  then show ?case
    by (auto simp: paper_ops_def paper_modify_sl_def Let_def split: option.splits if_splits)
qed

text \<open>The paper driver knows a reference: a modification of it finds a position.\<close>

definition known_ref :: "string \<Rightarrow> paper \<Rightarrow> string \<Rightarrow> bool" where
  "known_ref am d r \<longleftrightarrow> pd_positions d (resolve_ref am (pd_positions d) r) \<noteq> None"

lemma paper_modify_all:
  assumes "ex_driver ex = paper_ops am"
  shows "\<exists>res d. modify_all ex x refs w = (Inr res, w\<lparr>w_drv := d\<rparr>)
    \<and> (res = None \<longleftrightarrow> refs = [] \<or> \<not> pd_reject_modify (w_drv w) \<and> list_all (known_ref am (w_drv w)) refs)"
proof (induction refs arbitrary: w)
  case (Cons r rs)
  show ?case
  proof (cases "\<not> pd_reject_modify (w_drv w) \<and> known_ref am (w_drv w) r")
    case True
    then obtain p where p: "pd_positions (w_drv w) (resolve_ref am (pd_positions (w_drv w)) r) = Some p"
      by (auto simp: known_ref_def)
    define d where "d = (w_drv w)\<lparr>pd_positions :=
      (pd_positions (w_drv w))(resolve_ref am (pd_positions (w_drv w)) r \<mapsto> p\<lparr>pp_sl := x\<rparr>)\<rparr>"
    have m: "paper_modify_sl am r x (w_drv w) = (Inr (True, ''done''), d)"
      using True p by (simp add: paper_modify_accepted d_def)
    have same: "known_ref am d = known_ref am (w_drv w)" "pd_reject_modify d = pd_reject_modify (w_drv w)"
      using p by (auto simp: known_ref_def d_def resolve_ref_update fun_eq_iff)
    have "modify_all ex x (r # rs) w = modify_all ex x rs (w\<lparr>w_drv := d\<rparr>)"
      using m by (simp add: bnd_def on_driver_def assms paper_ops_def)
    then show ?thesis using Cons.IH [of "w\<lparr>w_drv := d\<rparr>"] same True by auto
  next
    case False
    then have "\<exists>c. paper_modify_sl am r x (w_drv w) = (Inr (False, c), w_drv w)"
      by (auto simp: paper_modify_sl_def known_ref_def Let_def)
    then obtain c where "paper_modify_sl am r x (w_drv w) = (Inr (False, c), w_drv w)" by blast
    then have "modify_all ex x (r # rs) w = (Inr (Some c), w\<lparr>w_drv := w_drv w\<rparr>)"
      by (simp add: bnd_def on_driver_def assms paper_ops_def py_simps)
    then show ?thesis using False by (auto intro!: exI [of _ "w_drv w"])
  qed
next
  case Nil
  show ?case by (rule exI [of _ None], rule exI [of _ "w_drv w"]) (simp add: py_simps)
qed

lemma dr_query_paper: "dr_query_sl (paper_ops am) = paper_query_sl am"
  by (simp add: paper_ops_def)

lemma paper_apply:
  assumes drv: "ex_driver ex = paper_ops am"
  shows "\<exists>res d. apply_break_even ex x refs w = (Inr res, w\<lparr>w_drv := d\<rparr>)
    \<and> (res = None \<longleftrightarrow> refs = [] \<or> \<not> pd_reject_modify (w_drv w) \<and> list_all (known_ref am (w_drv w)) refs)
    \<and> (res = None \<longrightarrow> (\<forall>r \<in> set refs. fst (paper_query_sl am r d) = Inr (Some x)))"
proof -
  obtain res d where m: "modify_all ex x refs w = (Inr res, w\<lparr>w_drv := d\<rparr>)"
    and iff: "res = None \<longleftrightarrow> refs = [] \<or> \<not> pd_reject_modify (w_drv w) \<and> list_all (known_ref am (w_drv w)) refs"
    using paper_modify_all [OF drv] by blast
  show ?thesis
  proof (cases res)
    case None
    then show ?thesis
      using paper_sl.apply_accepted [OF drv, of x refs w "w\<lparr>w_drv := d\<rparr>"] m iff
      by (auto simp: paper_sl.stops_at_def dr_query_paper intro!: exI [of _ d])
  next
    case (Some c)
    then show ?thesis
      using m iff by (auto simp: apply_break_even_def bnd_def py_simps intro!: exI [of _ d])
  qed
qed

lemma append_store [simp]: "w_store (snd (append_event ex spec et leg reason p w)) = w_store w"
  "w_drv (snd (append_event ex spec et leg reason p w)) = w_drv w"
  by (simp_all add: append_event_def append_args_def Let_def split: prod.split)

lemma run_update:
  "store_update ex gid st u w = (Inr (), w\<lparr>w_reads := w_reads w + 1,
     w_store := update_group_state (io_clock ex (w_reads w)) gid st u (w_store w)\<rparr>)"
  by (simp add: store_update_def bnd_def read_clock_def on_store_def)

lemma be_retry_store:
  "\<exists>now. w_store (snd (be_retry_or_fail ex gid spec be q e w)) = update_group_state now gid
     (if get_or 0 (bt_retries be) + 1 < ex_max_be_retries ex then BE_RETRY else FAILED)
     (no_update\<lparr>up_be := Some (be\<lparr>bt_status := Some ''BE_RETRY'', bt_retries := Some (get_or 0 (bt_retries be) + 1),
       bt_last_error := Some e\<rparr>)\<rparr>) (w_store w)"
  by (rule exI [of _ "io_clock ex (w_reads w)"])
    (simp add: be_retry_or_fail_def Let_def seq_run run_update ret_def split: sum.split)

lemma require_group_run: "load_group gid (w_store w) = Inr (Some r) \<Longrightarrow> require_group gid w = (Inr r, w)"
  by (simp add: require_group_def py_simps)

lemma confirm_runs:
  assumes "load_group gid (w_store w) = Inr (Some r)" and "row_state r \<in> {BE_REQUESTED, BE_RETRY}"
    and "0 < get_or 0 (bt_requested_price (row_be r))"
    and "apply_break_even ex (get_or 0 (bt_requested_price (row_be r)))
       (map (new_leg_id gid) (be_apply_to (tg_break_even (row_spec r)))) w = (Inr res, w1)"
  shows "case res of
      None \<Rightarrow> \<exists>now. w_store (snd (confirm_break_even ex gid w)) = update_group_state now gid BE_CONFIRMED
          (no_update\<lparr>up_be := Some ((row_be r)\<lparr>bt_status := Some ''BE_CONFIRMED'',
            bt_confirmed_price := Some (get_or 0 (bt_requested_price (row_be r))), bt_last_error := None\<rparr>)\<rparr>) (w_store w1)
        \<and> w_drv (snd (confirm_break_even ex gid w)) = w_drv w1
    | Some e \<Rightarrow> w_store (snd (confirm_break_even ex gid w)) = w_store (snd (be_retry_or_fail ex gid (row_spec r)
          (row_be r) (get_or 0 (bt_requested_price (row_be r))) e w1))"
  using assms
  by (cases res) (auto simp: confirm_break_even_def Let_def bnd_run seq_run require_group_run run_update
      run_simps ret_def split: sum.split)

section \<open>Properties\<close>

interpretation exec_ledger: step_invariant "exec_step ex" "\<lambda>w. ledger_inv (io_sha ex) (w_ledger w)" for ex
  by unfold_locales (simp add: exec_step_def keepsD [OF keeps_ledger_call])

text \<open>The executor never records an observation time.\<close>

definition unobserved :: "ledger \<Rightarrow> bool" where
  "unobserved l \<longleftrightarrow> (\<forall>r \<in> set l. ev_observed_at_utc_ms r = None)"

lemma keeps_unobserved:
  "keeps (\<lambda>w. unobserved (w_ledger w)) (append_event ex spec et leg reason payload)"
proof (rule keepsI)
  fix w :: "(broker_result, 'a) world" assume "unobserved (w_ledger w)"
  then show "unobserved (w_ledger (snd (append_event ex spec et leg reason payload w)))"
    using append_cases [of "io_sha ex" "io_clock ex (w_reads w)" "io_uuid ex (w_reads w)"
        "event_of spec et leg reason payload" "w_ledger w"]
    by (auto simp: unobserved_def append_event_def append_args_def Let_def event_of_def case_prod_beta)
qed

interpretation exec_unobserved: step_invariant "exec_step ex" "\<lambda>w. unobserved (w_ledger w)" for ex
  by unfold_locales (rule keepsD [OF keeps_ledger_any [OF keeps_unobserved], folded exec_step_def])

interpretation exec_store: step_invariant "exec_step ex" "\<lambda>w. store_inv (w_store w)" for ex
  by unfold_locales (rule keepsD [OF keeps_store_inv_call, folded exec_step_def])

text \<open>The call creates the group afresh.\<close>

fun recreates :: "string \<Rightarrow> exec_op \<Rightarrow> bool" where
  "recreates gid (Create spec) \<longleftrightarrow> tg_group_id spec = gid"
| "recreates gid _ \<longleftrightarrow> False"

lemma run_reached:
  "list_all (\<lambda>x. \<not> recreates g x) ops \<Longrightarrow> reached s0 g (w_store w)
    \<Longrightarrow> reached s0 g (w_store (run_steps (exec_step ex) ops w))"
proof (induction ops arbitrary: w)
  case (Cons x ops)
  then have "keeps (\<lambda>w. reached s0 g (w_store w)) (call ex x)"
    by (intro keeps_reached_call) auto
  from keepsD [OF this] Cons show ?case by (simp add: exec_step_def)
qed simp

lemma run_submitted:
  "list_all (\<lambda>x. \<not> recreates g x) ops \<Longrightarrow> is_submitted g (w_store w)
    \<Longrightarrow> is_submitted g (w_store (run_steps (exec_step ex) ops w))"
proof (induction ops arbitrary: w)
  case (Cons x ops)
  then have "keeps (\<lambda>w. is_submitted g (w_store w)) (call ex x)"
    by (intro keeps_submitted_call) auto
  from keepsD [OF this] Cons show ?case by (simp add: exec_step_def)
qed simp

text \<open>A world before the first call, and an executor over the paper driver.\<close>

definition fresh_world :: "'d \<Rightarrow> (broker_result, 'd) world" where
  "fresh_world d = \<lparr>w_store = empty_store, w_ledger = [], w_drv = d, w_reads = 0\<rparr>"

definition demo_executor :: "paper executor" where
  "demo_executor = TradeGroupExecutor (paper_ops ''netting'') None None 3 demo_cost demo_broker None
     demo_sha int (\<lambda>n. replicate (Suc n) CHR ''u'')"

definition demo_world :: "group_state \<Rightarrow> bool \<Rightarrow> (broker_result, paper) world" where
  "demo_world st submitted = (fresh_world new_paper)\<lparr>w_store := save_group demo_sha 0 (demo_spec None)
     (save_defaults\<lparr>sv_state := st, sv_submitted := submitted\<rparr>) empty_store\<rparr>"

text \<open>A driver that records the modes of the specifications it is given.\<close>

definition recording_ops :: "mode list driver" where
  "recording_ops = \<lparr>dr_mode = ''demo'', dr_account_mode = ''hedging'',
     dr_submit_leg = (\<lambda>spec leg volume d. (Inr (paper_result ''o'' ''p''), tg_mode spec # d)),
     dr_modify_sl = (\<lambda>r sl. ret (True, ''done'')), dr_query_sl = (\<lambda>r. ret None)\<rparr>"

definition recording_executor :: "mode list executor" where
  "recording_executor = TradeGroupExecutor recording_ops None None 3 demo_cost demo_broker None
     demo_sha int (\<lambda>n. replicate (Suc n) CHR ''u'')"

lemma demo_load: "load_group ''TG-1'' (w_store (demo_world st submitted)) = Inr (Some
    (saved_row demo_sha 0 (demo_spec None) (save_defaults\<lparr>sv_state := st, sv_submitted := submitted\<rparr>) None))"
proof -
  have "tg_group_id (demo_spec None) = ''TG-1''" by (simp add: demo_spec_def)
  then show ?thesis
    by (simp add: demo_world_def load_group_Some save_rows demo_spec_deserializes existing_row_def
        load_group_def empty_store_def)
qed

lemma demo_world_inv: "store_inv (w_store (demo_world st submitted))"
  by (simp add: demo_world_def save_store_inv empty_store_inv)

text \<open>C8. The mode gate: whatever a driver guarantees as long as it is only asked to open legs of
  paper, research or (with the explicit switch) demo specifications holds after every sequence of
  executor calls from an empty store. A live specification is therefore never sent to a driver, and
  creating one raises without writing anything.\<close>

theorem live_specifications_never_reach_the_driver:
  assumes submit: "\<And>spec leg volume. tg_mode spec \<noteq> Live \<Longrightarrow> (tg_mode spec = Demo \<Longrightarrow> ex_allow_demo ex)
      \<Longrightarrow> keeps P (dr_submit_leg (ex_driver ex) spec leg volume)"
    and modify: "\<And>r sl. keeps P (dr_modify_sl (ex_driver ex) r sl)"
    and query: "\<And>r. keeps P (dr_query_sl (ex_driver ex) r)"
    and init: "P d"
  shows "P (w_drv (run_steps (exec_step ex) ops (fresh_world d)))
    \<and> (tg_mode spec = Live \<longrightarrow> create_group ex spec w = (Inl LiveExecutionForbidden, w))
    \<and> (tg_mode spec = Demo \<and> \<not> ex_allow_demo ex \<longrightarrow> create_group ex spec w = (Inl DemoExecutionNotEnabled, w))"
proof -
  have gd: "gated_driver (ex_driver ex) P (\<lambda>spec. is_ok (gate_mode ex spec))"
    by unfold_locales (auto intro!: submit modify query simp: gate_mode_def split: if_splits)
  have step: "keeps (gated_driver.good P ex) (call ex x)" for x
    by (rule gated_driver.keeps_good_call [OF gd refl])
  have "gated_driver.good P ex (run_steps (exec_step ex) ops w)" if "gated_driver.good P ex w" for w
    using that by (induction ops arbitrary: w) (simp_all add: exec_step_def keepsD [OF step])
  then have "gated_driver.good P ex (run_steps (exec_step ex) ops (fresh_world d))"
    using init by (simp add: gated_driver.good_def [OF gd] gated_def fresh_world_def empty_store_def)
  then show ?thesis by (simp add: gated_driver.good_def [OF gd] create_group_def gate_mode_def py_simps)
qed

theorem live_specifications_never_reach_the_driver_witness:
  "list_all (\<lambda>m. m \<noteq> Live) (w_drv (run_steps (exec_step recording_executor)
     [Create (demo_spec None), Submit ''TG-1''] (fresh_world [])))"
  using live_specifications_never_reach_the_driver
    [where ex = recording_executor and P = "list_all (\<lambda>m. m \<noteq> Live)" and d = "[]"
      and ops = "[Create (demo_spec None), Submit ''TG-1'']"]
  by (simp add: recording_executor_def recording_ops_def TradeGroupExecutor_def keeps_def py_simps)



lemma submitted_unchanged:
  assumes "store_inv s" and "is_submitted gid s"
  shows "snd (try_mark_submitted gid s) = s"
proof -
  have "row_submitted r" if "(gid, r) \<in> set (gs_groups s)" for r
    using assms that by (auto simp: store_inv_def is_submitted_def split: option.splits)
  then have "map (\<lambda>(k, r). (k, if k = gid \<and> \<not> row_submitted r then r\<lparr>row_submitted := True\<rparr> else r)) (gs_groups s)
      = gs_groups s"
    by (intro map_idI) auto
  then show ?thesis by (simp add: try_mark_submitted_def Let_def case_prod_beta)
qed

text \<open>A submitted group is never submitted again: after any sequence of calls that does not
  create it afresh, restarts included, \<open>submit_group\<close> raises \<open>DuplicateSubmissionError\<close> and neither
  the driver nor the ledger nor the store changes.\<close>

theorem no_duplicate_submission:
  assumes inv: "store_inv (w_store w)" and sub: "is_submitted gid (w_store w)"
    and ops: "list_all (\<lambda>x. \<not> recreates gid x) ops"
    and ld: "load_group gid (w_store (run_steps (exec_step ex) ops w)) = Inr (Some r)"
  shows "submit_group ex gid (run_steps (exec_step ex) ops w)
    = (Inl DuplicateSubmissionError, run_steps (exec_step ex) ops w)"
proof -
  define v where "v = run_steps (exec_step ex) ops w"
  have "store_inv (w_store v)" unfolding v_def by (rule exec_store.run_inv [OF inv])
  moreover have "is_submitted gid (w_store v)" unfolding v_def by (rule run_submitted [OF ops sub])
  ultimately have "\<not> fst (try_mark_submitted gid (w_store v))" "snd (try_mark_submitted gid (w_store v)) = w_store v"
    by (simp_all add: try_mark_submitted_iff submitted_unchanged)
  moreover have "require_group gid v = (Inr r, v)" using ld by (simp add: v_def require_group_run)
  ultimately show ?thesis
    unfolding v_def [symmetric]
    by (simp add: submit_group_def Let_def bnd_run seq_run on_store_def run_simps case_prod_beta)
qed

theorem no_duplicate_submission_witness:
  "submit_group demo_executor ''TG-1'' (demo_world SUBMITTED True)
     = (Inl DuplicateSubmissionError, demo_world SUBMITTED True)"
proof -
  have "is_submitted ''TG-1'' (w_store (demo_world SUBMITTED True))"
    using demo_load [of SUBMITTED True] by (simp add: is_submitted_def load_group_Some)
  from no_duplicate_submission [OF demo_world_inv this, of "[]" demo_executor] demo_load [of SUBMITTED True]
  show ?thesis by simp
qed

lemma confirm_outcome:
  assumes drv: "ex_driver ex = paper_ops am" and ld: "load_group gid (w_store w) = Inr (Some r)"
    and st: "row_state r \<in> {BE_REQUESTED, BE_RETRY}" and pos: "bt_requested_price (row_be r) = Some q" "0 < q"
    and legs: "refs = map (new_leg_id gid) (be_apply_to (tg_break_even (row_spec r)))" "refs \<noteq> []"
  shows "\<exists>r'. load_group gid (w_store (snd (confirm_break_even ex gid w))) = Inr (Some r')
    \<and> row_spec r' = row_spec r \<and> bt_requested_price (row_be r') = Some q
    \<and> (if \<not> pd_reject_modify (w_drv w) \<and> list_all (known_ref am (w_drv w)) refs
       then row_state r' = BE_CONFIRMED \<and> bt_confirmed_price (row_be r') = Some q
         \<and> (\<forall>x \<in> set refs. fst (paper_query_sl am x (w_drv (snd (confirm_break_even ex gid w)))) = Inr (Some q))
       else row_state r' = (if get_or 0 (bt_retries (row_be r)) + 1 < ex_max_be_retries ex then BE_RETRY else FAILED)
         \<and> bt_retries (row_be r') = Some (get_or 0 (bt_retries (row_be r)) + 1)
         \<and> bt_confirmed_price (row_be r') = bt_confirmed_price (row_be r))"
proof -
  obtain res d where ap: "apply_break_even ex q refs w = (Inr res, w\<lparr>w_drv := d\<rparr>)"
    and iff: "res = None \<longleftrightarrow> refs = [] \<or> \<not> pd_reject_modify (w_drv w) \<and> list_all (known_ref am (w_drv w)) refs"
    and at: "res = None \<longrightarrow> (\<forall>r \<in> set refs. fst (paper_query_sl am r d) = Inr (Some q))"
    using paper_apply [OF drv, of q refs w] by (elim exE conjE) (rule that)
  have q: "get_or 0 (bt_requested_price (row_be r)) = q" using pos by simp
  note runs = confirm_runs [OF ld st, unfolded q, folded legs(1), OF pos(2) ap]
  show ?thesis
  proof (cases res)
    case None
    with runs obtain now where
      s: "w_store (snd (confirm_break_even ex gid w)) = update_group_state now gid BE_CONFIRMED
          (no_update\<lparr>up_be := Some ((row_be r)\<lparr>bt_status := Some ''BE_CONFIRMED'',
            bt_confirmed_price := Some q, bt_last_error := None\<rparr>)\<rparr>) (w_store w)"
      and dv: "w_drv (snd (confirm_break_even ex gid w)) = d" by auto
    show ?thesis
      using None iff at legs(2) dv pos by (simp add: s load_after_update [OF ld]) (simp add: set_columns_def)
  next
    case (Some e)
    with runs have
      "w_store (snd (confirm_break_even ex gid w)) =
         w_store (snd (be_retry_or_fail ex gid (row_spec r) (row_be r) q e (w\<lparr>w_drv := d\<rparr>)))" by simp
    then obtain now where s: "w_store (snd (confirm_break_even ex gid w)) = update_group_state now gid
         (if get_or 0 (bt_retries (row_be r)) + 1 < ex_max_be_retries ex then BE_RETRY else FAILED)
         (no_update\<lparr>up_be := Some ((row_be r)\<lparr>bt_status := Some ''BE_RETRY'',
            bt_retries := Some (get_or 0 (bt_retries (row_be r)) + 1), bt_last_error := Some e\<rparr>)\<rparr>) (w_store w)"
      using be_retry_store [of ex gid "row_spec r" "row_be r" q e "w\<lparr>w_drv := d\<rparr>"] by auto
    show ?thesis
      using Some iff pos by (simp add: s load_after_update [OF ld]) (simp add: set_columns_def)
  qed
qed

text \<open>What \<open>confirm_break_even\<close> does over the paper driver, for a group that awaits
  confirmation: if the driver accepts and knows every leg, the group becomes \<open>BE_CONFIRMED\<close> at the
  requested price and a query of each leg returns exactly that price; otherwise the retry count
  grows by one, the group is in \<open>BE_RETRY\<close> below the bound and \<open>FAILED\<close> at it, and no confirmed price
  is recorded.\<close>

theorem break_even_confirmation_outcome:
  assumes drv: "ex_driver ex = paper_ops am" and ld: "load_group gid (w_store w) = Inr (Some r)"
    and st: "row_state r \<in> {BE_REQUESTED, BE_RETRY}" and pos: "bt_requested_price (row_be r) = Some q" "0 < q"
    and legs: "refs = map (new_leg_id gid) (be_apply_to (tg_break_even (row_spec r)))" "refs \<noteq> []"
  shows "\<exists>r'. load_group gid (w_store (snd (confirm_break_even ex gid w))) = Inr (Some r')
    \<and> (if \<not> pd_reject_modify (w_drv w) \<and> list_all (known_ref am (w_drv w)) refs
       then row_state r' = BE_CONFIRMED \<and> bt_confirmed_price (row_be r') = Some q
         \<and> (\<forall>x \<in> set refs. fst (paper_query_sl am x (w_drv (snd (confirm_break_even ex gid w)))) = Inr (Some q))
       else row_state r' = (if get_or 0 (bt_retries (row_be r)) + 1 < ex_max_be_retries ex then BE_RETRY else FAILED)
         \<and> bt_retries (row_be r') = Some (get_or 0 (bt_retries (row_be r)) + 1)
         \<and> bt_confirmed_price (row_be r') = bt_confirmed_price (row_be r))"
  using confirm_outcome [OF assms] by (elim exE conjE) (rule exI, intro conjI)

definition be_world :: "int \<Rightarrow> (broker_result, paper) world" where
  "be_world k = (fresh_world new_paper)\<lparr>w_store := save_group demo_sha 0 (demo_spec None)
     (save_defaults\<lparr>sv_state := BE_REQUESTED, sv_submitted := True,
        sv_be := be_empty\<lparr>bt_requested_price := Some 2001, bt_retries := Some k\<rparr>\<rparr>) empty_store\<rparr>"

lemma be_world_load: "load_group ''TG-1'' (w_store (be_world k)) = Inr (Some
    (saved_row demo_sha 0 (demo_spec None) (save_defaults\<lparr>sv_state := BE_REQUESTED, sv_submitted := True,
        sv_be := be_empty\<lparr>bt_requested_price := Some 2001, bt_retries := Some k\<rparr>\<rparr>) None))"
proof -
  have "tg_group_id (demo_spec None) = ''TG-1''" by (simp add: demo_spec_def)
  then show ?thesis
    by (simp add: be_world_def load_group_Some save_rows demo_spec_deserializes existing_row_def
        load_group_def empty_store_def)
qed

lemma demo_fields [simp]:
  "ex_driver demo_executor = paper_ops ''netting''" "io_sha demo_executor = demo_sha" "ex_max_be_retries demo_executor = 3"
  "w_drv (be_world k) = new_paper" "be_apply_to (tg_break_even (demo_spec fill)) = [2, 3]"
  by (simp_all add: demo_executor_def TradeGroupExecutor_def be_world_def fresh_world_def demo_spec_def)

theorem break_even_confirmation_outcome_witness:
  "\<exists>r'. load_group ''TG-1'' (w_store (snd (confirm_break_even demo_executor ''TG-1'' (be_world 0)))) = Inr (Some r')
     \<and> row_state r' = BE_RETRY \<and> bt_retries (row_be r') = Some 1"
proof -
  have "\<not> list_all (known_ref ''netting'' new_paper) [new_leg_id ''TG-1'' 2, new_leg_id ''TG-1'' 3]"
    by (simp add: known_ref_def new_paper_def)
  with break_even_confirmation_outcome [OF _ be_world_load, of demo_executor "''netting''" 0 2001
      "[new_leg_id ''TG-1'' 2, new_leg_id ''TG-1'' 3]"]
  show ?thesis by auto
qed

lemma keeps_frame_driver:
  "keeps (\<lambda>w. P (w_drv w)) (append_event ex spec et leg reason payload)"
  "keeps (\<lambda>w. P (w_drv w)) (store_update ex gid st u)"
  by (rule keeps_wp, auto simp: wp_simps intro!: wp_append_event)+

lemma keeps_drv: "keeps P m \<Longrightarrow> keeps (\<lambda>w. P (w_drv w)) (on_driver m)"
  by (auto simp: keeps_def on_driver_def split: prod.split)

lemma keeps_reject:
  assumes "ex_driver ex = paper_ops am"
  shows "keeps (\<lambda>w. pd_reject_modify (w_drv w)) (confirm_break_even ex gid)"
proof -
  have "keeps pd_reject_modify (paper_modify_sl am r x)" "keeps pd_reject_modify (paper_query_sl am r)" for r x
    by (auto simp: keeps_def paper_modify_sl_def paper_query_sl_def py_simps split: option.split)
  then have "keeps (\<lambda>w. pd_reject_modify (w_drv w)) (modify_all ex x refs)"
    and "keeps (\<lambda>w. pd_reject_modify (w_drv w)) (query_all ex x refs)" for x refs
    by (induction refs) (auto simp: assms paper_ops_def simp del: case_prod_conv
        intro!: keeps_intros(1-8) keeps_case_prod keeps_drv)
  then show ?thesis
    by (auto simp: confirm_break_even_def apply_break_even_def be_retry_or_fail_def Let_def
        intro!: keeps_intros(1-8) keeps_option keeps_require_group_any keeps_frame_driver)
qed

lemma confirm_call: "exec_step ex (ConfirmBE gid) w = snd (confirm_break_even ex gid w)"
  by (simp add: exec_step_def seq_run ret_def split: sum.split)

text \<open>The state a group is in after a number of refused confirmations.\<close>

lemma refused_confirmations:
  assumes drv: "ex_driver ex = paper_ops am"
  shows "load_group gid (w_store w) = Inr (Some r) \<Longrightarrow> row_state r \<in> {BE_REQUESTED, BE_RETRY}
    \<Longrightarrow> bt_requested_price (row_be r) = Some q \<Longrightarrow> 0 < q \<Longrightarrow> be_apply_to (tg_break_even (row_spec r)) \<noteq> []
    \<Longrightarrow> pd_reject_modify (w_drv w) \<Longrightarrow> get_or 0 (bt_retries (row_be r)) + int n < ex_max_be_retries ex
    \<Longrightarrow> \<exists>r'. load_group gid (w_store (run_steps (exec_step ex) (replicate (Suc n) (ConfirmBE gid)) w)) = Inr (Some r')
        \<and> row_state r' = (if get_or 0 (bt_retries (row_be r)) + int n + 1 < ex_max_be_retries ex
            then BE_RETRY else FAILED)"
proof (induction n arbitrary: w r)
  case 0
  from confirm_outcome [OF drv 0(1,2,3,4) refl] 0 show ?case
    by (auto simp: confirm_call)
next
  case (Suc n)
  from confirm_outcome [OF drv Suc.prems(1,2,3,4) refl] Suc.prems
  obtain r1 where r1: "load_group gid (w_store (snd (confirm_break_even ex gid w))) = Inr (Some r1)"
    "row_spec r1 = row_spec r" "bt_requested_price (row_be r1) = Some q" "row_state r1 = BE_RETRY"
    "bt_retries (row_be r1) = Some (get_or 0 (bt_retries (row_be r)) + 1)"
    by auto
  have "pd_reject_modify (w_drv (snd (confirm_break_even ex gid w)))"
    by (rule keepsD [OF keeps_reject [OF drv] Suc.prems(6)])
  from Suc.IH [OF r1(1) _ r1(3) Suc.prems(4) _ this] r1 Suc.prems(5,7)
  show ?case by (simp add: confirm_call add.assoc)
qed

text \<open>Break-even retries are bounded: over a driver that keeps refusing the stop move, a group
  that has used \<open>k\<close> of its retries is still in \<open>BE_RETRY\<close> after each further confirmation but the last
  and \<open>FAILED\<close> after exactly \<open>max_be_retries - k\<close> of them; it is never confirmed on the way.\<close>

theorem refused_break_even_fails_in_bounded_retries:
  assumes drv: "ex_driver ex = paper_ops am" and ld: "load_group gid (w_store w) = Inr (Some r)"
    and st: "row_state r \<in> {BE_REQUESTED, BE_RETRY}" and q: "bt_requested_price (row_be r) = Some q" "0 < q"
    and legs: "be_apply_to (tg_break_even (row_spec r)) \<noteq> []" and rej: "pd_reject_modify (w_drv w)"
    and k: "get_or 0 (bt_retries (row_be r)) = k" "0 \<le> k" and n: "k + int n \<le> ex_max_be_retries ex" "0 < n"
  shows "\<exists>r'. load_group gid (w_store (run_steps (exec_step ex) (replicate n (ConfirmBE gid)) w)) = Inr (Some r')
    \<and> row_state r' = (if k + int n < ex_max_be_retries ex then BE_RETRY else FAILED)"
proof -
  from n obtain m where "n = Suc m" by (cases n) auto
  with refused_confirmations [OF drv ld st q legs rej, of m] n k show ?thesis by (simp add: ac_simps)
qed

theorem refused_break_even_fails_in_bounded_retries_witness:
  "\<exists>r'. load_group ''TG-1'' (w_store (run_steps (exec_step demo_executor) (replicate 2 (ConfirmBE ''TG-1''))
      ((be_world 1)\<lparr>w_drv := new_paper\<lparr>pd_reject_modify := True\<rparr>\<rparr>))) = Inr (Some r') \<and> row_state r' = FAILED"
  using refused_break_even_fails_in_bounded_retries [of demo_executor "''netting''" "''TG-1''"
      "(be_world 1)\<lparr>w_drv := new_paper\<lparr>pd_reject_modify := True\<rparr>\<rparr>" _ 2001 1 2] be_world_load [of 1]
  by simp

text \<open>Every ledger the executor writes passes verification, whatever calls it serves, failed
  ones included: the rows are numbered without gaps and the hash chain checks.\<close>

theorem executor_ledger_verifies:
  assumes cell: "\<And>col v. uniform col \<Longrightarrow> v \<in> set col \<Longrightarrow> cell col v = jopt JInt v"
  shows "verify_event_chain (io_sha ex) cell (w_ledger (run_steps (exec_step ex) ops (fresh_world d)))
    \<and> contiguous (w_ledger (run_steps (exec_step ex) ops (fresh_world d)))"
proof -
  have "unobserved (w_ledger (run_steps (exec_step ex) ops (fresh_world d)))"
    by (rule exec_unobserved.run_inv) (simp add: unobserved_def fresh_world_def)
  then have "uniform (map ev_observed_at_utc_ms (w_ledger (run_steps (exec_step ex) ops (fresh_world d))))"
    by (auto simp: uniform_def unobserved_def)
  moreover have "ledger_inv (io_sha ex) (w_ledger (run_steps (exec_step ex) ops (fresh_world d)))"
    by (rule exec_ledger.run_inv) (simp add: fresh_world_def ledger_inv_Nil)
  ultimately show ?thesis using stored_verify [OF cell] by (simp add: ledger_inv_def)
qed

theorem executor_ledger_verifies_witness:
  "verify_event_chain demo_sha pandas_cell (w_ledger (run_steps (exec_step demo_executor)
     [Create (demo_spec None), Submit ''TG-1'', Tick ''TG-1'' 2005] (fresh_world new_paper)))"
  using executor_ledger_verifies [of pandas_cell demo_executor
      "[Create (demo_spec None), Submit ''TG-1'', Tick ''TG-1'' 2005]" new_paper]
  by (simp add: pandas_cell_def del: run_steps.simps)

lemma wp_any: "(\<And>x w'. Q x w') \<Longrightarrow> (\<And>w'. E w') \<Longrightarrow> wp m Q E w"
  by (auto simp: wp_def split: prod.split sum.split)

lemma first_fill_recorded:
  assumes "store_inv (w_store w)" and "load_group gid (w_store w) = Inr (Some r)"
    and "es_actual_fill (tg_entry (row_spec r)) = None"
  shows "wp (on_leg_filled ex gid 1 p) (\<lambda>_ w1. \<exists>r1. map_of (gs_groups (w_store w1)) gid = Some r1
      \<and> es_actual_fill (tg_entry (row_spec r1)) = Some p \<and> tg_side (row_spec r1) = tg_side (row_spec r)) (\<lambda>_. True) w"
proof -
  have "tg_group_id (row_spec r) = gid" by (rule loaded_key [OF assms(1,2)])
  then have "with_actual_fill c (row_spec r) p = Inr s \<Longrightarrow>
      tg_group_id s = gid \<and> es_actual_fill (tg_entry s) = Some p \<and> tg_side s = tg_side (row_spec r)" for c s
    by (auto simp: with_actual_fill_Inr)
  then show ?thesis
    using assms(2,3)
    by (auto simp: on_leg_filled_def wp_simps save_rows split: sum.split option.split
        intro!: wp_any [of _ _ "ensure_open ex gid"] wp_append_event)
qed

lemma request_priced:
  assumes "request_break_even ex gid w = (Inr st, w')"
  shows "\<exists>r fill raw prot r'. load_group gid (w_store w) = Inr (Some r) \<and> es_actual_fill (tg_entry (row_spec r)) = Some fill
    \<and> compute_break_even (tg_side (row_spec r)) fill (ex_cost ex) (ex_broker ex) = Inr (raw, prot)
    \<and> load_group gid (w_store w') = Inr (Some r') \<and> row_state r' = BE_REQUESTED \<and> bt_requested_price (row_be r') = Some prot"
proof -
  have "wp (request_break_even ex gid) (\<lambda>_ w'. \<exists>r fill raw prot r'. load_group gid (w_store w) = Inr (Some r)
    \<and> es_actual_fill (tg_entry (row_spec r)) = Some fill
    \<and> compute_break_even (tg_side (row_spec r)) fill (ex_cost ex) (ex_broker ex) = Inr (raw, prot)
    \<and> load_group gid (w_store w') = Inr (Some r') \<and> row_state r' = BE_REQUESTED \<and> bt_requested_price (row_be r') = Some prot)
    (\<lambda>_. True) w"
    by (auto simp: request_break_even_def Let_def wp_simps load_after_update split: sum.split option.split
        intro!: wp_append_event) (auto simp: set_columns_def)
  from wpD [OF this assms] show ?thesis .
qed

text \<open>The break-even level of a group whose entry fill was not recorded before is computed from
  the fill price of the first target, not from the entry: after the TP1 event the target's price is
  stored as the entry's actual fill, and the stop requested next is the break-even level of that
  price.\<close>

theorem break_even_priced_from_first_target:
  assumes inv: "store_inv (w_store w)" and ld: "load_group gid (w_store w) = Inr (Some r)"
    and no_fill: "es_actual_fill (tg_entry (row_spec r)) = None"
    and fill: "on_leg_filled ex gid 1 p w = (Inr st, w1)" and req: "request_break_even ex gid w1 = (Inr st', w2)"
  shows "\<exists>r' raw prot. load_group gid (w_store w2) = Inr (Some r')
    \<and> compute_break_even (tg_side (row_spec r)) p (ex_cost ex) (ex_broker ex) = Inr (raw, prot)
    \<and> bt_requested_price (row_be r') = Some prot"
proof -
  from wpD [OF first_fill_recorded [OF inv ld no_fill] fill] obtain r1 where
    "map_of (gs_groups (w_store w1)) gid = Some r1" "es_actual_fill (tg_entry (row_spec r1)) = Some p"
    "tg_side (row_spec r1) = tg_side (row_spec r)" by blast
  with request_priced [OF req] show ?thesis by (auto simp: load_group_Some)
qed

text \<open>Without digest collisions an append with a fresh id and a known type succeeds.\<close>

lemma verify_loop_hash:
  "verify_loop (row_ok sha stored_cell col) p rows \<Longrightarrow> r \<in> set rows \<Longrightarrow>
     \<exists>q. sha (material (stored_cell col (ev_observed_at_utc_ms r)) q r) = ev_event_hash r"
  by (induction rows arbitrary: p) (auto simp: row_ok_def split: if_splits)

lemma fresh_append_succeeds:
  assumes "ledger_inv sha rows" and "inj sha" and "ea_event_type a \<in> set EVENT_TYPES"
    and "or_str (ea_event_id a) uuid \<notin> ev_event_id ` set rows"
  shows "\<exists>r. append_trading_event sha recorded uuid a rows = (Inr (or_str (ea_event_id a) uuid), rows @ [r])
    \<and> ev_event_id r = or_str (ea_event_id a) uuid"
proof -
  let ?r = "new_row sha recorded (or_str (ea_event_id a) uuid) a (prior_row rows)"
  have "ev_event_hash ?r = sha (material (jopt JInt (ev_observed_at_utc_ms ?r)) (map_option ev_event_hash (prior_row rows)) ?r)"
    using new_row_ok [of sha "[]" "prior_row rows"] by (auto simp: row_ok_def stored_cell_def)
  moreover have "ev_event_id ?r \<noteq> ev_event_id x" if "x \<in> set rows" for x using assms(4) that by auto
  ultimately have "ev_event_hash ?r \<noteq> ev_event_hash x" if "x \<in> set rows" for x
    using that verify_loop_hash [of sha "[]" None rows x] assms(1) injD [OF assms(2)]
    by (fastforce simp: ledger_inv_def material_def)
  then show ?thesis using assms(3,4) by (auto simp: append_trading_event_def Let_def)
qed

text \<open>The event ids of a world's ledger were issued by the readings so far.\<close>

definition issued :: "'x io_env_scheme \<Rightarrow> ('b, 'd) world \<Rightarrow> bool" where
  "issued ex w \<longleftrightarrow> ledger_inv (io_sha ex) (w_ledger w)
     \<and> ev_event_id ` set (w_ledger w) \<subseteq> io_uuid ex ` {..<w_reads w}"

lemma issued_frame: "issued ex w \<Longrightarrow> w_ledger w' = w_ledger w \<Longrightarrow> w_reads w \<le> w_reads w' \<Longrightarrow> issued ex w'"
  by (auto simp: issued_def)

lemma wp_append_args_fresh:
  assumes "issued ex w" and "inj (io_sha ex)" and "inj (io_uuid ex)" and "io_uuid ex (w_reads w) \<noteq> []"
    and "ea_event_type a \<in> set EVENT_TYPES" and "ea_event_id a = None"
    and "\<And>l. issued ex (w\<lparr>w_ledger := l, w_reads := Suc (w_reads w)\<rparr>) \<Longrightarrow> Q () (w\<lparr>w_ledger := l, w_reads := Suc (w_reads w)\<rparr>)"
  shows "wp (append_args ex a) Q E w"
proof -
  let ?u = "io_uuid ex (w_reads w)"
  have id: "or_str (ea_event_id a) ?u = ?u" using assms(6) by (simp add: or_str_def)
  have "?u \<notin> ev_event_id ` set (w_ledger w)"
    using assms(1,3) by (auto simp: issued_def dest: injD)
  then obtain r where ap: "append_trading_event (io_sha ex) (io_clock ex (w_reads w)) ?u a (w_ledger w)
      = (Inr ?u, w_ledger w @ [r])" and r: "ev_event_id r = ?u"
    using fresh_append_succeeds [of "io_sha ex" "w_ledger w" a ?u "io_clock ex (w_reads w)"] assms(1,2,5) id
    by (auto simp: issued_def)
  have "ledger_inv (io_sha ex) (w_ledger w @ [r])"
    using keepsD [OF append_keeps_ledger_inv, of "io_sha ex" "w_ledger w" "io_clock ex (w_reads w)" ?u a] assms(1) ap
    by (simp add: issued_def)
  then have "issued ex (w\<lparr>w_ledger := w_ledger w @ [r], w_reads := Suc (w_reads w)\<rparr>)"
    using assms(1) r by (auto simp: issued_def less_Suc_eq)
  from assms(7) [OF this] show ?thesis by (simp add: wp_def append_args_def Let_def ap)
qed

lemma wp_append_fresh:
  assumes "issued ex w" and "inj (io_sha ex)" and "inj (io_uuid ex)" and "io_uuid ex (w_reads w) \<noteq> []"
    and "et \<in> set EVENT_TYPES"
    and "\<And>l. issued ex (w\<lparr>w_ledger := l, w_reads := Suc (w_reads w)\<rparr>) \<Longrightarrow> Q () (w\<lparr>w_ledger := l, w_reads := Suc (w_reads w)\<rparr>)"
  shows "wp (append_event ex spec et leg reason payload) Q E w"
  unfolding append_event_def by (rule wp_append_args_fresh) (use assms in \<open>simp_all add: event_of_def\<close>)

lemma demo_uuids: "inj (io_uuid demo_executor)" "io_uuid demo_executor n \<noteq> []" "inj (io_sha demo_executor)"
  "ex_cost demo_executor = demo_cost" "ex_broker demo_executor = demo_broker" "ex_fill_cfg demo_executor = None"
  using demo_sha_inj by (auto simp: demo_executor_def TradeGroupExecutor_def inj_def replicate_eq_replicate)

lemma demo_fill: "with_actual_fill None (demo_spec None) 2004 = Inr (demo_spec (Some 2004))"
proof -
  have "fdiv \<bar>fsub 2004 2000\<bar> 2000 \<le> get_max_fill_deviation None" by code_simp
  then show ?thesis by (auto simp: with_actual_fill_Inr demo_spec_def)
qed

lemma demo_break_even: "\<exists>x. compute_break_even Long 2004 demo_cost demo_broker = Inr x"
  by (simp add: compute_break_even_def demo_broker_def)

lemma demo_side: "tg_side (demo_spec fill) = Long" "tg_group_id (demo_spec fill) = ''TG-1''"
    "es_actual_fill (tg_entry (demo_spec fill)) = fill"
  by (simp_all add: demo_spec_def)

lemma demo_flow:
  "wp (on_leg_filled demo_executor ''TG-1'' 1 2004)
     (\<lambda>_. wp (request_break_even demo_executor ''TG-1'') (\<lambda>_ _. True) (\<lambda>_. False)) (\<lambda>_. False) (demo_world OPENED True)"
proof -
  obtain raw prot where be: "compute_break_even Long 2004 demo_cost demo_broker = Inr (raw, prot)"
    using demo_break_even by (metis surj_pair)
  have iss: "issued demo_executor ((demo_world OPENED True)\<lparr>w_reads := n, w_store := s\<rparr>)" for n s
    by (simp add: issued_def demo_world_def fresh_world_def ledger_inv_Nil)
  have loaded: "load_group ''TG-1'' (save_group sha now (demo_spec (Some 2004)) a s) =
      Inr (Some (saved_row sha now (demo_spec (Some 2004)) a (existing_row ''TG-1'' s)))" for sha now a s
    by (simp add: load_group_Some save_rows demo_side demo_spec_deserializes)
  show ?thesis
    unfolding on_leg_filled_def request_break_even_def ensure_open_def Let_def
    by (auto simp: wp_simps demo_load demo_side demo_uuids demo_fill loaded be transition_simps EVENT_TYPES_def
        demo_sha_inj intro!: wp_append_fresh iss elim!: issued_frame)
qed

theorem break_even_priced_from_first_target_witness:
  "\<exists>r' raw prot. load_group ''TG-1'' (w_store (snd (request_break_even demo_executor ''TG-1''
       (snd (on_leg_filled demo_executor ''TG-1'' 1 2004 (demo_world OPENED True)))))) = Inr (Some r')
    \<and> compute_break_even Long 2004 demo_cost demo_broker = Inr (raw, prot)
    \<and> bt_requested_price (row_be r') = Some prot"
proof -
  obtain st w1 where f: "on_leg_filled demo_executor ''TG-1'' 1 2004 (demo_world OPENED True) = (Inr st, w1)"
    and w1: "wp (request_break_even demo_executor ''TG-1'') (\<lambda>_ _. True) (\<lambda>_. False) w1"
    using demo_flow by (auto simp: wp_def split: prod.splits sum.splits)
  obtain st' w2 where g: "request_break_even demo_executor ''TG-1'' w1 = (Inr st', w2)"
    using w1 by (auto simp: wp_def split: prod.splits sum.splits)
  from break_even_priced_from_first_target [OF demo_world_inv demo_load _ f g]
  show ?thesis by (simp add: f g demo_side demo_uuids)
qed

end
