(* ===== verification/MT5_Executor.thy ===== *)
theory MT5_Executor
  imports MT5_Drivers Group_Executor
begin

text \<open>
  The demo executor, \<^verbatim>\<open>execution/mt5_trade_group.py\<close>, with the flows it delegates to:
  \<^verbatim>\<open>execution/reconciliation.py\<close>, \<^verbatim>\<open>execution/mt5_tp_transitions.py\<close>, \<^verbatim>\<open>execution/mt5_be_flow.py\<close>,
  \<^verbatim>\<open>execution/mt5_compensation.py\<close> and \<^verbatim>\<open>execution/mt5_netting_close.py\<close>. A group read from the store is a
  row; its identifier is the one of its specification, under which it is saved. A dict that a method
  changes in place is returned changed. Metrics and log messages are left out. A notifier either
  delivers a message or raises; \<open>notice\<close> names the formatter of \<^verbatim>\<open>execution/telegram_formatter.py\<close> that
  makes the text.
\<close>

section \<open>State\<close>

datatype notice =
    GroupOpened trade_group_spec
  | Tp1Filled trade_group_spec
  | TpFilled trade_group_spec string
  | BeConfirmed trade_group_spec rat
  | GroupStopped trade_group_spec
  | PartialSubmission trade_group_spec "int list" "int list"
  | FailedAfterCompensation trade_group_spec "int list"
  | OpenRisk trade_group_spec "string list"
  | SystemShutdown

record 'm mt5_state =
  mst_session :: "'m mt5_session"
  mst_paper :: "paper option"
  mst_shutdown :: "string list option"

record 'm mt5_executor = io_env +
  mx_api :: "'m mt5_api option"
  mx_driver :: "'m mt5_session mt5_driver option"
  mx_notifier :: "(nat \<Rightarrow> notice \<Rightarrow> unit result) option"
  mx_magic :: int
  mx_max_be_retries :: int
  mx_max_compensation_retries :: int
  mx_cost :: cost_snapshot
  mx_be_close_tolerance :: rat
  mx_deployment_mode :: "string option"
  mx_allow_demo :: bool
  mx_env :: "string option"
  mx_fill_cfg :: "rat option"
  mx_dump_intent :: "execution_intent \<Rightarrow> string"

type_synonym ('m, 'a) run = "((broker_result, 'm mt5_state) world, 'a) comp"
type_synonym grp = "broker_result group_row"
type_synonym leg = "broker_result leg_item"

definition on_session :: "('m mt5_session, 'a) comp \<Rightarrow> ('m, 'a) run" where
  "on_session m = on_driver (\<lambda>d. case m (mst_session d) of (r, s) \<Rightarrow> (r, d\<lparr>mst_session := s\<rparr>))"

text \<open>A call on \<^verbatim>\<open>MT5BrokerContext(self.mt5)\<close>; on \<^verbatim>\<open>None\<close> it raises.\<close>

definition with_context :: "'m mt5_executor \<Rightarrow> ('m mt5_api \<Rightarrow> ('m, 'a) comp) \<Rightarrow> ('m, 'a) run" where
  "with_context ex f =
     (case mx_api ex of None \<Rightarrow> throw AttributeError | Some api \<Rightarrow> on_session (on_terminal (f api)))"

definition mark :: "'m mt5_executor \<Rightarrow> string \<Rightarrow> string \<Rightarrow> jdict \<Rightarrow> ('m, bool) run" where
  "mark ex gid action_id payload =
     bnd (read_clock ex) (\<lambda>now. on_store (mark_action now gid action_id payload))"

definition notify :: "'m mt5_executor \<Rightarrow> notice result \<Rightarrow> ('m, unit) run" where
  "notify ex message w =
     (case mx_notifier ex of
        None \<Rightarrow> (Inr (), w)
      | Some send \<Rightarrow> (case message of Inl e \<Rightarrow> (Inl e, w)
          | Inr n \<Rightarrow> (send (w_reads w) n, w\<lparr>w_reads := w_reads w + 1\<rparr>)))"

text \<open>The events of this executor: the event of the paper executor under another actor, with a source.\<close>

definition mt5_event ::
  "trade_group_spec \<Rightarrow> string \<Rightarrow> int option \<Rightarrow> string option \<Rightarrow> jdict \<Rightarrow> event_args" where
  "mt5_event spec event_type leg reason payload =
     (event_of spec event_type leg reason payload)\<lparr>ea_actor := ''mt5_trade_group_executor''\<rparr>"

definition with_source :: "string \<Rightarrow> string \<Rightarrow> string option \<Rightarrow> event_args \<Rightarrow> event_args" where
  "with_source source source_type source_id a =
     a\<lparr>ea_source := Some source, ea_source_type := Some source_type, ea_source_id := source_id\<rparr>"

definition emit ::
  "'m mt5_executor \<Rightarrow> trade_group_spec \<Rightarrow> string \<Rightarrow> string option \<Rightarrow> jdict \<Rightarrow> ('m, unit) run" where
  "emit ex spec event_type reason payload = append_args ex (mt5_event spec event_type None reason payload)"

section \<open>Gates\<close>

definition MT5TradeGroupExecutor ::
  "'m mt5_executor \<Rightarrow> bool option \<Rightarrow> string option \<Rightarrow> 'm mt5_executor" where
  "MT5TradeGroupExecutor args allow_demo env =
     args\<lparr>mx_max_be_retries := max 1 (mx_max_be_retries args),
       mx_max_compensation_retries := max 1 (mx_max_compensation_retries args),
       mx_allow_demo := resolve_allow_demo allow_demo env, mx_env := env\<rparr>"

definition mt5_gate_mode :: "'m mt5_executor \<Rightarrow> trade_group_spec \<Rightarrow> unit result" where
  "mt5_gate_mode ex spec =
     (if tg_mode spec = Live then Inl LiveExecutionForbidden
      else if tg_mode spec = Paper then Inr ()
      else if \<not> mx_allow_demo ex then Inl DemoExecutionNotEnabled
      else if mx_deployment_mode ex = Some ''live_systematic''
        then Inl (ExecutionForbidden ''deployment.mode=live_systematic'')
      else Inr ())"

definition require_demo_account :: "'m mt5_executor \<Rightarrow> ('m, account_view) run" where
  "require_demo_account ex =
     (case mx_api ex of
        None \<Rightarrow> throw (ExecutionForbidden ''MT5 terminal is not available'')
      | Some api \<Rightarrow> bnd (on_session (on_terminal (account_info api))) (\<lambda>account.
          seq (require (ACCOUNT_TRADE_MODE_DEMO api = Some (av_trade_mode account)) DemoAccountRequired)
          (ret account)))"

definition resolve_driver :: "'m mt5_executor \<Rightarrow> ('m, 'm mt5_session mt5_driver) run" where
  "resolve_driver ex =
     (case mx_driver ex of
        Some d \<Rightarrow> ret d
      | None \<Rightarrow> (case mx_api ex of
          None \<Rightarrow> throw (ExecutionForbidden ''MT5 terminal is not available'')
        | Some api \<Rightarrow> bnd (on_session (on_terminal (account_mode api))) (\<lambda>m.
            if m = ''unknown'' then throw AccountModeUnknown
            else if m = ''hedging'' then ret (MT5HedgingDriver api (mx_magic ex))
            else ret (MT5NettingDriver api (mx_magic ex)))))"

section \<open>Creation and submission\<close>

text \<open>The paper executor works on the same store and ledger with a driver of its own.\<close>

definition default_broker :: broker_snapshot where
  "default_broker = \<lparr>bs_symbol_point = fl (1 / 100), bs_tick_size = fl (1 / 100), bs_digits = 2,
     bs_trade_stops_level = 0, bs_trade_freeze_level = 0, bs_spread = 0, bs_contract_size = 100,
     bs_volume_min = fl (1 / 100), bs_volume_max = 100, bs_volume_step = fl (1 / 100),
     bs_execution_mode = ''unknown'', bs_account_margin_mode = ''unknown'', bs_balance = 0\<rparr>"

definition paper_executor :: "'m mt5_executor \<Rightarrow> paper executor" where
  "paper_executor ex =
     TradeGroupExecutor (paper_ops ''netting'') None (mx_env ex) 3 (mx_cost ex) default_broker
       (mx_fill_cfg ex) (io_sha ex) (io_clock ex) (io_uuid ex)"

definition on_paper :: "(paper, 'a) act \<Rightarrow> ('m, 'a) run" where
  "on_paper m w =
     (case mst_paper (w_drv w) of
        None \<Rightarrow> (Inl (RuntimeError ''paper executor not initialized''), w)
      | Some p \<Rightarrow>
          (case m \<lparr>w_store = w_store w, w_ledger = w_ledger w, w_drv = p, w_reads = w_reads w\<rparr> of (r, v) \<Rightarrow>
            (r, w\<lparr>w_store := w_store v, w_ledger := w_ledger v, w_reads := w_reads v,
                  w_drv := (w_drv w)\<lparr>mst_paper := Some (w_drv v)\<rparr>\<rparr>)))"

definition start_paper :: "('m, unit) run" where
  "start_paper = modify (\<lambda>w. w\<lparr>w_drv := (w_drv w)\<lparr>mst_paper := Some (get_or new_paper (mst_paper (w_drv w)))\<rparr>\<rparr>)"

definition mt5_create_group :: "'m mt5_executor \<Rightarrow> trade_group_spec \<Rightarrow> ('m, group_state) run" where
  "mt5_create_group ex spec =
     seq (lift_result (mt5_gate_mode ex spec))
     (if tg_mode spec = Paper then seq start_paper (on_paper (create_group (paper_executor ex) spec))
      else
        seq (lift_result (require_transition DRAFT VALIDATED))
        (seq (store_save ex spec (save_defaults\<lparr>sv_state := VALIDATED\<rparr>))
        (seq (emit ex spec ''signal_validated'' None
           [(''geometry'', as_geometry_payload spec), (''mode'', mode_json spec), (''state'', JStr ''VALIDATED'')])
        (ret VALIDATED))))"

definition reject_group :: "'m mt5_executor \<Rightarrow> trade_group_spec \<Rightarrow> string \<Rightarrow> string \<Rightarrow> ('m, unit) run" where
  "reject_group ex spec reason_code detail =
     seq (lift_result (require_transition VALIDATED REJECTED))
     (seq (store_save ex spec (save_defaults\<lparr>sv_state := REJECTED, sv_submitted := False\<rparr>))
     (emit ex spec ''group_rejected'' (Some reason_code)
        [(''detail'', JStr detail), (''mode'', mode_json spec), (''reason_code'', JStr reason_code)]))"

fun exc_text :: "pyexc \<Rightarrow> string" where
  "exc_text (ValueError s) = s"
| "exc_text (ExecutionIntentMismatch s) = s"
| "exc_text (BrokerUnavailable s) = s"
| "exc_text _ = []"

text \<open>\<^verbatim>\<open>except E as exc: self._reject_group(...); raise\<close>; the function names the reason of the exceptions
  that are caught.\<close>

definition rejecting ::
  "'m mt5_executor \<Rightarrow> trade_group_spec \<Rightarrow> (pyexc \<Rightarrow> string option) \<Rightarrow> ('m, 'a) run \<Rightarrow> ('m, 'a) run" where
  "rejecting ex spec reason m =
     catch m (\<lambda>e. map_option (\<lambda>code. seq (reject_group ex spec code (exc_text e)) (throw e)) (reason e))"

fun provenance_reason :: "pyexc \<Rightarrow> string option" where
  "provenance_reason (ValueError _) = Some ''PROVENANCE_INVALID''"
| "provenance_reason _ = None"

fun intent_reason :: "pyexc \<Rightarrow> string option" where
  "intent_reason (ExecutionIntentMismatch _) = Some ''PROVENANCE_INVALID''"
| "intent_reason _ = None"

fun geometry_reason :: "pyexc \<Rightarrow> string option" where
  "geometry_reason (GeometryRejected code) = Some code"
| "geometry_reason (BrokerUnavailable _) = Some ''BROKER_UNAVAILABLE''"
| "geometry_reason _ = None"

text \<open>The identifiers that label a fact of the broker, \<^verbatim>\<open>if deal_id or order_id\<close>.\<close>

definition id_str :: "broker_id \<Rightarrow> string" where
  "id_str i = (case i of IntId n \<Rightarrow> show_int n | StrId s \<Rightarrow> s)"

definition append_leg_event ::
  "'m mt5_executor \<Rightarrow> trade_group_spec \<Rightarrow> string \<Rightarrow> int \<Rightarrow> broker_result \<Rightarrow> rat \<Rightarrow> ('m, unit) run" where
  "append_leg_event ex spec event_type leg r requested_volume =
     (let deal = truthy_int (br_deal_id r); order = br_order_id r; reason = or_str (br_comment r) [] in
      append_args ex
        (with_source (if deal \<noteq> None \<or> truthy_id order then ''mt5'' else ''simulator'')
           (if deal \<noteq> None then ''deal'' else if truthy_id order then ''order'' else ''paper_driver'')
           (case deal of Some n \<Rightarrow> Some (''DEAL-'' @ show_int n)
            | None \<Rightarrow> if truthy_id order then map_option (\<lambda>i. ''ORDER-'' @ id_str i) order else None)
           (mt5_event spec event_type (Some leg) (if reason = [] then None else Some reason)
             [(''broker_deal_id'', jopt JInt (br_deal_id r)), (''broker_order_id'', jopt id_json order),
              (''broker_position_id'', jopt id_json (br_position_id r)),
              (''fill_price'', jopt JFloat (br_fill_price r)),
              (''filled_volume'', jopt JFloat (br_filled_volume r)), (''mode'', mode_json spec),
              (''requested_volume'', JFloat requested_volume), (''retcode'', jopt JInt (br_retcode r))])))"

definition mt5_leg_state :: "string \<Rightarrow> string" where
  "mt5_leg_state status =
     (if status = ''filled'' then ''SUBMITTED'' else if status = ''virtual'' then ''VIRTUAL''
      else if status = ''partially_filled'' then ''PARTIALLY_FILLED'' else ''REJECTED'')"

definition mt5_submit_one ::
  "'m mt5_executor \<Rightarrow> 'm mt5_session mt5_driver \<Rightarrow> trade_group_spec \<Rightarrow> int \<times> rat
     \<Rightarrow> ('m, leg \<times> (int \<times> leg_volume)) run" where
  "mt5_submit_one ex d spec = (\<lambda>(leg, volume).
     bnd (on_session (md_submit_leg d spec leg volume)) (\<lambda>r.
     let leg_state = mt5_leg_state (get_or ''rejected'' (br_status r)); filled = or_num (br_filled_volume r) 0;
         v = (if filled > 0 then py_round filled 8 else 0)
     in seq (if leg_state = ''REJECTED'' then append_leg_event ex spec ''leg_rejected'' leg r volume
             else append_leg_event ex spec ''leg_submitted'' leg r volume)
        (seq (if leg_state = ''PARTIALLY_FILLED'' then append_leg_event ex spec ''leg_partially_filled'' leg r volume
              else ret ())
        (bnd (lift_result (leg_price spec leg)) (\<lambda>price.
         ret (\<lparr>li_leg = leg, li_price = price, li_volume = volume, li_state = leg_state, li_broker = r,
               li_fill_price = None, li_verified_after_restart = False, li_sl_after_restart = None,
               li_filled_volume = None, li_closed_volume = None, li_remaining_volume = None\<rparr>,
              (leg, \<lparr>lv_requested_volume = Some volume, lv_filled_volume = Some v,
                    lv_closed_volume = Some 0, lv_remaining_volume = Some v\<rparr>)))))))"

fun mt5_submit_legs ::
  "'m mt5_executor \<Rightarrow> 'm mt5_session mt5_driver \<Rightarrow> trade_group_spec \<Rightarrow> (int \<times> rat) list
     \<Rightarrow> ('m, (leg \<times> (int \<times> leg_volume)) list) run" where
  "mt5_submit_legs ex d spec [] = ret []"
| "mt5_submit_legs ex d spec (l # ls) =
     bnd (mt5_submit_one ex d spec l) (\<lambda>x. bnd (mt5_submit_legs ex d spec ls) (\<lambda>xs. ret (x # xs)))"

definition submitted_volume :: "string \<Rightarrow> trade_group_spec \<Rightarrow> (int \<times> leg_volume) list \<Rightarrow> volume_book" where
  "submitted_volume am spec entries =
     (let filled = (\<lambda>e. get_or 0 (lv_filled_volume e));
          total = (if am = ''netting''
                   then py_round (get_or 0 (map_option filled (map_of entries 1))) 8
                   else py_round (py_sum (map (filled \<circ> snd) entries)) 8)
      in \<lparr>vb_total_requested = Some (gr_total_volume (tg_risk spec)), vb_total_filled = Some total,
          vb_total_closed = Some 0, vb_total_remaining = Some (py_round (fsub total 0) 8), vb_legs = entries\<rparr>)"

text \<open>The checks of \<open>submit_group\<close> before the group is marked: the account and the driver, the intent, the
  geometry at the broker.\<close>

definition prepare_submission ::
  "'m mt5_executor \<Rightarrow> trade_group_spec
     \<Rightarrow> ('m, account_view \<times> 'm mt5_session mt5_driver \<times> execution_intent) run" where
  "prepare_submission ex spec =
     seq (rejecting ex spec provenance_reason (lift_result (require_execution_provenance (io_sha ex) spec)))
     (bnd (require_demo_account ex) (\<lambda>account.
      bnd (resolve_driver ex) (\<lambda>d.
      bnd (lift_result (from_spec (io_sha ex) spec None)) (\<lambda>intent.
      seq (rejecting ex spec intent_reason
         (seq (lift_result (require_geometry_unchanged (io_sha ex) intent spec))
           (lift_result (require_provenance_present intent spec))))
      (seq (rejecting ex spec geometry_reason
         (with_context ex (\<lambda>api. validate_geometry api spec (tg_broker_symbol spec))))
      (ret (account, d, intent)))))))"

text \<open>The broker submission itself.\<close>

definition send_group ::
  "'m mt5_executor \<Rightarrow> string \<Rightarrow> grp \<Rightarrow> 'm mt5_session mt5_driver \<Rightarrow> execution_intent \<Rightarrow> ('m, group_state) run" where
  "send_group ex gid current d intent =
     (let spec = row_spec current in
      bnd (mt5_submit_legs ex d spec (zip [1, 2, 3] (ei_leg_volumes intent))) (\<lambda>xs.
      let legs = map fst xs; ids = map (\<lambda>i. (new_leg_id gid (li_leg i), li_broker i)) legs;
          volume = submitted_volume (md_account_mode d) spec (map snd xs)
      in seq (store_update ex gid SUBMITTED (no_update\<lparr>up_legs := Some legs, up_broker_ids := Some ids,
           up_be := Some (row_be current), up_volume := Some volume\<rparr>))
         (seq (store_save ex spec (save_defaults\<lparr>sv_state := SUBMITTED, sv_legs := legs, sv_be := row_be current,
           sv_broker_ids := ids, sv_submitted := True, sv_intent_json := Some (mx_dump_intent ex intent),
           sv_account_mode := Some (md_account_mode d), sv_volume := Some volume\<rparr>))
         (seq (emit ex spec ''group_submitted'' None
            [(''account_mode'', JStr (md_account_mode d)), (''geometry'', as_geometry_payload spec),
             (''intent_id'', JStr (ei_intent_id intent)), (''legs'', JList (map leg_json legs)),
             (''mode'', mode_json spec)])
         (ret SUBMITTED)))))"

text \<open>The submission of a group that is not on paper.\<close>

definition submit_demo :: "'m mt5_executor \<Rightarrow> string \<Rightarrow> grp \<Rightarrow> ('m, group_state) run" where
  "submit_demo ex gid current =
     (let spec = row_spec current in
      seq (lift_result (require_transition (row_state current) SUBMITTED))
      (bnd (prepare_submission ex spec) (\<lambda>(account, d, intent).
       bnd (read_clock ex) (\<lambda>now.
       if \<not> check_group_not_expired (tg_expires_at_utc_ms spec) now then
         seq (reject_group ex spec ''SIGNAL_EXPIRED'' ''signal TTL expired before submission'') (ret REJECTED)
       else case check_group_risk (gr_estimated_loss_at_sl (tg_risk spec)) (gr_max_cash (tg_risk spec))
            (gr_max_pct (tg_risk spec)) (av_balance account) of (ok, reason) \<Rightarrow>
       if \<not> ok then
         seq (reject_group ex spec (or_str reason ''RISK_LIMIT_EXCEEDED'') ''group risk re-check failed at submission'')
           (ret REJECTED)
       else
         bnd (mark ex gid ''OPEN-GROUP''
            [(''geometry_hash'', JStr (ei_geometry_hash intent)), (''intent_id'', JStr (ei_intent_id intent))]) (\<lambda>granted.
         seq (require granted DuplicateSubmissionError)
         (send_group ex gid current d intent))))))"

definition mt5_submit_group :: "'m mt5_executor \<Rightarrow> string \<Rightarrow> ('m, group_state) run" where
  "mt5_submit_group ex gid =
     bnd (gets w_store) (\<lambda>s. bnd (lift_result (load_group gid s)) (\<lambda>current'. case current' of
        None \<Rightarrow> throw DuplicateSubmissionError
      | Some current \<Rightarrow>
          seq (lift_result (mt5_gate_mode ex (row_spec current)))
          (if tg_mode (row_spec current) = Paper then on_paper (submit_group (paper_executor ex) gid)
           else submit_demo ex gid current)))"

end
