(* ===== verification/MT5_Flows.thy ===== *)
theory MT5_Flows
  imports MT5_Executor
begin

text \<open>
  The reconciliation-driven state machine of the demo executor: what a poll reads from the broker, the
  transitions it makes on confirmed closes, the break-even flow, the compensation of a partial submission
  and the partial closes of a netting account, composed in \<open>advance_group\<close> and \<open>poll_once\<close>.
\<close>

section \<open>Reconciliation\<close>

record broker_inspection =
  in_positions :: "mt5_position list"
  in_deals :: "mt5_deal list"
  in_closed_out_deals :: "mt5_deal list"
  in_volume_mismatch :: "(int list \<times> rat \<times> rat) list"
  in_notes :: "string list"

definition OUT_ENTRY :: int where
  "OUT_ENTRY = 1"

text \<open>\<^verbatim>\<open>int(item.get("broker", {}).get("position_id") or 0)\<close> of every leg.\<close>

fun leg_tickets :: "leg list \<Rightarrow> int list result" where
  "leg_tickets [] = Inr []"
| "leg_tickets (i # is) =
     rbind (id_int (br_position_id (li_broker i))) (\<lambda>t. rbind (leg_tickets is) (\<lambda>ts. Inr (t # ts)))"

fun deals_of :: "'m mt5_session mt5_driver \<Rightarrow> int list \<Rightarrow> ('m, mt5_deal list) run" where
  "deals_of d [] = ret []"
| "deals_of d (t # ts) =
     bnd (if t = 0 then ret [] else on_session (md_query_deals d t)) (\<lambda>ds.
       bnd (deals_of d ts) (\<lambda>rest. ret (ds @ rest)))"

definition volume_mismatches :: "(leg \<times> int) list \<Rightarrow> mt5_position list \<Rightarrow> (int list \<times> rat \<times> rat) list" where
  "volume_mismatches legs positions =
     concat (map (\<lambda>p.
       let matching = map fst (filter (\<lambda>(_, t). t = ps_ticket p) legs);
           expected = py_sum (map li_volume matching)
       in if matching \<noteq> [] \<and> expected > 0 \<and> ps_volume p < fsub expected (fl (1 / 10 ^ 9))
          then [(map li_leg matching, expected, ps_volume p)] else []) positions)"

definition inspect_group :: "'m mt5_session mt5_driver \<Rightarrow> grp \<Rightarrow> ('m, broker_inspection) run" where
  "inspect_group d grp =
     (let spec = row_spec grp in
      bnd (on_session (md_query_positions_by_magic d)) (\<lambda>positions.
      bnd (lift_result (leg_tickets (row_legs grp))) (\<lambda>tickets.
      let known = filter (\<lambda>t. t \<noteq> 0) tickets;
          mine = filter (\<lambda>p. ps_ticket p \<in> set known \<or> contains (tg_group_id spec) (ps_comment p)) positions
      in bnd (deals_of d (sort (remdups (map ps_ticket mine @ known)))) (\<lambda>deals.
         ret \<lparr>in_positions = mine, in_deals = deals,
              in_closed_out_deals = filter (\<lambda>x. dl_entry x = OUT_ENTRY) deals,
              in_volume_mismatch = volume_mismatches (zip (row_legs grp) tickets) mine,
              in_notes = (if mine = [] \<and> \<not> row_submitted grp
                then [''group not submitted; nothing to reconcile''] else [])\<rparr>))))"

definition broker_closed :: "broker_inspection \<Rightarrow> bool" where
  "broker_closed i \<longleftrightarrow> in_closed_out_deals i \<noteq> []"

text \<open>\<^verbatim>\<open>max(deals, key=...)\<close> is the first of the largest, \<^verbatim>\<open>min\<close> the first of the smallest.\<close>

fun first_best :: "('k \<Rightarrow> 'k \<Rightarrow> bool) \<Rightarrow> ('a \<Rightarrow> 'k) \<Rightarrow> 'a \<Rightarrow> 'a list \<Rightarrow> 'a" where
  "first_best better f x [] = x"
| "first_best better f x (y # ys) = first_best better f (if better (f y) (f x) then y else x) ys"

definition latest_out_deal :: "broker_inspection \<Rightarrow> mt5_deal option" where
  "latest_out_deal i =
     (case in_closed_out_deals i of [] \<Rightarrow> None | x # xs \<Rightarrow> Some (first_best (>) dl_time x xs))"

definition close_levels :: "trade_group_spec \<Rightarrow> (string \<times> rat) list" where
  "close_levels spec =
     (let g = tg_geometry spec
      in [(''tp1'', ge_tp1 g), (''tp2'', ge_tp2 g), (''tp3'', ge_tp3 g), (''stop'', ge_sl g)])"

definition classify_broker_close :: "trade_group_spec \<Rightarrow> mt5_deal \<Rightarrow> rat \<Rightarrow> string" where
  "classify_broker_close spec out_deal tolerance =
     (let dist = (\<lambda>(_ :: string, level). \<bar>fsub (dl_price out_deal) level\<bar>)
      in case find (\<lambda>l. dist l \<le> tolerance) (close_levels spec) of
           Some l \<Rightarrow> fst l
         | None \<Rightarrow> fst (first_best (<) dist (hd (close_levels spec)) (tl (close_levels spec))))"

definition asset_from_symbol :: "string \<Rightarrow> string" where
  "asset_from_symbol symbol =
     get_or (if symbol = [] then ''unknown'' else symbol)
       (map_of [(''GOLD'', ''XAUUSD''), (''SILVER'', ''XAGUSD''), (''BITCOIN'', ''BTCUSD''),
         (''EURUSD'', ''EURUSD''), (''GBPUSD'', ''GBPUSD'')] symbol)"

definition orphan_event :: "int \<Rightarrow> mt5_position \<Rightarrow> event_args" where
  "orphan_event now p =
     \<lparr>ea_event_type = ''orphan_broker_position'', ea_signal_id = ''orphan:'' @ show_int (ps_ticket p),
      ea_asset_key = asset_from_symbol (ps_symbol p), ea_strategy_version = ''unknown'',
      ea_config_hash = ''unknown'', ea_actor = ''reconciliation'', ea_event_timestamp_utc = None,
      ea_model_hash = None, ea_feature_snapshot_hash = None, ea_position_ticket = None,
      ea_order_ticket = None, ea_reason = None,
      ea_payload = [(''broker_position_id'', JInt (ps_ticket p)), (''comment'', JStr (ps_comment p)),
        (''detected_at_utc_ms'', JInt now), (''symbol'', JStr (ps_symbol p)), (''volume'', JFloat (ps_volume p))],
      ea_event_id = Some (''orphan:'' @ show_int (ps_ticket p)), ea_group_id = parse_comment (ps_comment p),
      ea_leg_id = None, ea_source = None, ea_source_type = None, ea_source_id = None,
      ea_observed_at_utc_ms = None\<rparr>"

text \<open>The tickets of the legs of every group; a group that is gone cannot be read.\<close>

fun covered_tickets :: "grp option list \<Rightarrow> int list result" where
  "covered_tickets [] = Inr []"
| "covered_tickets (None # gs) = Inl (TypeError ''NoneType is not subscriptable'')"
| "covered_tickets (Some g # gs) =
     rbind (leg_tickets (row_legs g)) (\<lambda>ts. rbind (covered_tickets gs) (\<lambda>rest.
       Inr (filter (\<lambda>t. t \<noteq> 0) ts @ rest)))"

definition covered_groups :: "grp option list \<Rightarrow> string list" where
  "covered_groups gs = map (\<lambda>g. tg_group_id (row_spec g)) (List.map_filter id gs)"

definition detect_orphan_positions ::
  "'m mt5_executor \<Rightarrow> 'm mt5_session mt5_driver \<Rightarrow> ('m, mt5_position list) run" where
  "detect_orphan_positions ex d =
     bnd (read_clock ex) (\<lambda>now.
     bnd (gets w_store) (\<lambda>s.
     bnd (lift_result (list_groups None s)) (\<lambda>groups.
     bnd (lift_result (covered_tickets groups)) (\<lambda>tickets.
     bnd (on_session (md_query_positions_by_magic d)) (\<lambda>positions.
     let orphans = filter (\<lambda>p. \<not> (ps_ticket p \<in> set tickets
           \<or> (case parse_comment (ps_comment p) of None \<Rightarrow> False | Some g \<Rightarrow> g \<in> set (covered_groups groups)))) positions
     in seq (for_each orphans (\<lambda>p. append_args ex (orphan_event now p))) (ret orphans))))))"

definition emit_execution_error ::
  "'m mt5_executor \<Rightarrow> trade_group_spec \<Rightarrow> string \<Rightarrow> jdict \<Rightarrow> int option \<Rightarrow> ('m, unit) run" where
  "emit_execution_error ex spec reason payload leg =
     append_args ex ((event_of spec ''execution_error'' leg (Some reason) payload)\<lparr>ea_actor := ''reconciliation''\<rparr>)"

section \<open>Transitions\<close>

definition price_label :: "rat \<Rightarrow> string" where
  "price_label price = ''DEAL-'' @ show_int (trunc (fmul price 1000))"

definition tp_event ::
  "trade_group_spec \<Rightarrow> string \<Rightarrow> int \<Rightarrow> rat \<Rightarrow> bool \<Rightarrow> jdict \<Rightarrow> jdict \<Rightarrow> event_args" where
  "tp_event spec event_type leg fill_price bc before after =
     with_source (if bc then ''mt5'' else ''simulator'')
       (if bc then ''deal'' else ''paper_driver'')
       (if bc then Some (price_label fill_price) else None)
       (mt5_event spec event_type (Some leg)
          (Some (if bc then ''broker_confirmed'' else ''partial_close_confirmed''))
          (before @ [(''evidence'', JStr (if bc then ''broker_deal'' else ''partial_close_result'')),
             (''fill_price'', JFloat fill_price), (''mode'', mode_json spec)] @ after))"

text \<open>The message of TP1 names the first two protected legs.\<close>

definition tp1_message :: "trade_group_spec \<Rightarrow> notice result" where
  "tp1_message spec = (if length (be_apply_to (tg_break_even spec)) < 2 then Inl IndexError else Inr (Tp1Filled spec))"

definition tp1_filled :: "'m mt5_executor \<Rightarrow> grp \<Rightarrow> rat \<Rightarrow> bool \<Rightarrow> ('m, grp) run" where
  "tp1_filled ex grp fill_price bc =
     (let gid = tg_group_id (row_spec grp); legs = close_leg 1 fill_price (row_legs grp) in
      seq (if row_state grp = SUBMITTED then
             seq (lift_result (require_transition SUBMITTED OPENED)) (store_update ex gid OPENED no_update)
           else ret ())
      (seq (lift_result (require_transition OPENED TP1_FILLED))
      (bnd (lift_result (if es_actual_fill (tg_entry (row_spec grp)) = None
              then with_actual_fill (mx_fill_cfg ex) (row_spec grp) fill_price else Inr (row_spec grp))) (\<lambda>spec.
       seq (store_update ex gid TP1_FILLED (no_update\<lparr>up_legs := Some legs\<rparr>))
      (seq (store_save ex spec (save_defaults\<lparr>sv_state := TP1_FILLED, sv_legs := legs,
         sv_broker_ids := row_broker_ids grp, sv_submitted := True, sv_be := row_be grp,
         sv_intent_json := row_intent_json grp, sv_account_mode := row_account_mode grp\<rparr>))
      (seq (append_args ex (tp_event spec ''tp1_filled'' 1 fill_price bc
         [(''entry_actual_fill'', jopt JFloat (es_actual_fill (tg_entry spec)))] []))
      (seq (notify ex (tp1_message spec)) (ret (grp\<lparr>row_legs := legs\<rparr>)))))))))"

definition tp2_filled :: "'m mt5_executor \<Rightarrow> grp \<Rightarrow> rat \<Rightarrow> bool \<Rightarrow> ('m, grp) run" where
  "tp2_filled ex grp fill_price bc =
     (let spec = row_spec grp; gid = tg_group_id spec; legs = close_leg 2 fill_price (row_legs grp) in
      seq (lift_result (require_transition (row_state grp) TP2_FILLED))
      (seq (store_update ex gid TP2_FILLED (no_update\<lparr>up_legs := Some legs\<rparr>))
      (seq (append_args ex (tp_event spec ''tp2_filled'' 2 fill_price bc
         [] [(''tp2'', JFloat (ge_tp2 (tg_geometry spec)))]))
      (seq (notify ex (Inr (TpFilled spec ''TP2''))) (ret (grp\<lparr>row_legs := legs\<rparr>))))))"

definition tp3_filled :: "'m mt5_executor \<Rightarrow> grp \<Rightarrow> rat \<Rightarrow> bool \<Rightarrow> ('m, grp) run" where
  "tp3_filled ex grp fill_price bc =
     (let spec = row_spec grp; gid = tg_group_id spec; legs = close_leg 3 fill_price (row_legs grp) in
      seq (lift_result (require_transition (row_state grp) TP3_FILLED))
      (seq (store_update ex gid TP3_FILLED (no_update\<lparr>up_legs := Some legs\<rparr>))
      (seq (store_update ex gid RECONCILED (no_update\<lparr>up_legs := Some legs\<rparr>))
      (seq (append_args ex (tp_event spec ''tp3_filled'' 3 fill_price bc
         [] [(''tp3'', JFloat (ge_tp3 (tg_geometry spec)))]))
      (seq (emit ex spec ''group_reconciled'' None
         [(''geometry'', as_geometry_payload spec), (''mode'', mode_json spec)])
      (seq (notify ex (Inr (TpFilled spec ''TP3''))) (ret (grp\<lparr>row_legs := legs\<rparr>))))))))"

definition stop_group :: "'m mt5_executor \<Rightarrow> grp \<Rightarrow> rat \<Rightarrow> ('m, string) run" where
  "stop_group ex grp stop_price =
     (let spec = row_spec grp; gid = tg_group_id spec in
      seq (lift_result (require_transition (row_state grp) STOPPED))
      (seq (store_update ex gid STOPPED no_update)
      (seq (append_args ex (with_source ''mt5'' ''deal'' (Some (price_label stop_price))
         (mt5_event spec ''stop_filled'' None (Some ''broker_confirmed'')
           [(''evidence'', JStr ''broker_deal''), (''mode'', mode_json spec),
            (''sl'', JFloat (ge_sl (tg_geometry spec))), (''stop_price'', JFloat stop_price)])))
      (seq (notify ex (Inr (GroupStopped spec))) (ret ''stop_filled'')))))"

text \<open>The volume-weighted average price of the open positions.\<close>

fun vwap_sums :: "rat \<times> rat \<Rightarrow> mt5_position list \<Rightarrow> rat \<times> rat" where
  "vwap_sums acc [] = acc"
| "vwap_sums acc (p # ps) =
     vwap_sums (if ps_price_open p \<le> 0 \<or> ps_volume p \<le> 0 then acc
       else (fadd (fst acc) (fmul (ps_price_open p) (ps_volume p)), fadd (snd acc) (ps_volume p))) ps"

definition vwap :: "mt5_position list \<Rightarrow> rat option" where
  "vwap ps = (case vwap_sums (0, 0) ps of (notional, volume) \<Rightarrow>
     if volume > 0 then Some (fdiv notional volume) else None)"

definition open_leg :: "leg \<Rightarrow> leg" where
  "open_leg i =
     (let filled = or_num (br_filled_volume (li_broker i)) 0;
          managed = i\<lparr>li_filled_volume := Some (py_round filled 8),
            li_remaining_volume := Some (py_round (fsub filled (or_num (li_closed_volume i) 0)) 8)\<rparr>
      in if li_state i = ''PARTIALLY_FILLED'' then managed
         else if li_state i = ''SUBMITTED'' then (if filled > 0 then managed else i)\<lparr>li_state := ''OPEN''\<rparr>
         else i)"

definition actual_volume :: "mt5_position option \<Rightarrow> volume_book \<Rightarrow> volume_book" where
  "actual_volume pos volume =
     (case pos of None \<Rightarrow> volume
      | Some p \<Rightarrow>
          let total = py_round (ps_volume p) 8
          in volume\<lparr>vb_total_filled := Some total,
               vb_total_remaining := Some (py_round (fsub total (or_num (vb_total_closed volume) 0)) 8)\<rparr>)"

definition open_group :: "'m mt5_executor \<Rightarrow> grp \<Rightarrow> broker_inspection \<Rightarrow> ('m, grp) run" where
  "open_group ex grp inspection =
     (let spec0 = row_spec grp; gid = tg_group_id spec0; legs = map open_leg (row_legs grp) in
      seq (lift_result (require_transition (row_state grp) OPENED))
      (bnd (resolve_driver ex) (\<lambda>d.
       bnd (if md_account_mode d = ''netting'' then on_session (md_query_position d (new_leg_id gid 1)) else ret None) (\<lambda>pos.
       let volume = actual_volume pos (row_volume grp) in
       bnd (case vwap (in_positions inspection) of
              None \<Rightarrow> ret spec0
            | Some fill \<Rightarrow> if es_actual_fill (tg_entry spec0) \<noteq> None then ret spec0
                else seq (require (es_reference (tg_entry spec0) \<noteq> 0) ZeroDivisionError)
                  (lift_result (with_actual_fill (mx_fill_cfg ex) spec0 fill))) (\<lambda>spec.
       seq (store_update ex gid OPENED (no_update\<lparr>up_legs := Some legs, up_volume := Some volume\<rparr>))
       (seq (store_save ex spec (save_defaults\<lparr>sv_state := OPENED, sv_legs := legs,
          sv_broker_ids := row_broker_ids grp, sv_submitted := True, sv_be := row_be grp,
          sv_intent_json := row_intent_json grp, sv_account_mode := row_account_mode grp,
          sv_volume := Some volume\<rparr>))
       (seq (emit ex spec ''group_opened'' None
          [(''actual_fill'', jopt JFloat (es_actual_fill (tg_entry spec))), (''mode'', mode_json spec)])
       (seq (notify ex (Inr (GroupOpened spec))) (ret (grp\<lparr>row_legs := legs\<rparr>))))))))))"

section \<open>Break-even\<close>

definition request_be :: "'m mt5_executor \<Rightarrow> grp \<Rightarrow> ('m, string) run" where
  "request_be ex grp =
     (let spec = row_spec grp; gid = tg_group_id spec; be = row_be grp in
      seq (lift_result (require_transition (row_state grp) BE_REQUESTED))
      (case es_actual_fill (tg_entry spec) of
         None \<Rightarrow> throw (ExecutionForbidden ''break-even requires a confirmed actual fill'')
       | Some fill \<Rightarrow>
           bnd (with_context ex (\<lambda>api. context_broker_snapshot api (tg_broker_symbol spec))) (\<lambda>broker.
           bnd (lift_result (compute_break_even (tg_side spec) fill (mx_cost ex) broker)) (\<lambda>(raw, prot).
           seq (store_update ex gid BE_REQUESTED (no_update\<lparr>up_be := Some (be\<lparr>
              bt_status := Some ''BE_REQUESTED'', bt_raw_price := Some raw, bt_protected_price := Some prot,
              bt_requested_price := Some prot, bt_retries := Some (get_or 0 (bt_retries be))\<rparr>)\<rparr>))
           (seq (emit ex spec ''be_requested'' None
              [(''apply_to'', JList (map JInt (be_apply_to (tg_break_even spec)))), (''mode'', mode_json spec),
               (''protected_price'', JFloat prot), (''raw_price'', JFloat raw), (''requested_price'', JFloat prot)])
           (ret ''be_requested''))))))"

definition be_ref :: "grp \<Rightarrow> 'm mt5_session mt5_driver \<Rightarrow> int \<Rightarrow> string option result" where
  "be_ref grp d leg =
     (if md_account_mode d = ''hedging'' then
        (case find (\<lambda>i. li_leg i = leg) (row_legs grp) of
           None \<Rightarrow> Inr None
         | Some i \<Rightarrow> rbind (id_int (br_position_id (li_broker i))) (\<lambda>t.
             Inr (if t = 0 then None else Some (show_int t))))
      else Inr (Some (new_leg_id (tg_group_id (row_spec grp)) leg)))"

fun be_refs :: "grp \<Rightarrow> 'm mt5_session mt5_driver \<Rightarrow> int list \<Rightarrow> string option list result" where
  "be_refs grp d [] = Inr []"
| "be_refs grp d (leg # legs) =
     rbind (be_ref grp d leg) (\<lambda>r. rbind (be_refs grp d legs) (\<lambda>rs. Inr (r # rs)))"

definition be_retry :: "'m mt5_executor \<Rightarrow> grp \<Rightarrow> string \<Rightarrow> ('m, string) run" where
  "be_retry ex grp err =
     (let spec = row_spec grp; gid = tg_group_id spec; be = row_be grp;
          retries = get_or 0 (bt_retries be) + 1;
          be' = be\<lparr>bt_status := Some ''BE_RETRY'', bt_retries := Some retries, bt_last_error := Some err\<rparr>
      in if retries \<ge> mx_max_be_retries ex then
           seq (store_update ex gid FAILED (no_update\<lparr>up_be := Some be'\<rparr>))
           (seq (emit ex spec ''execution_error'' (Some ''BE retries exhausted'')
              [(''last_error'', JStr err), (''mode'', mode_json spec), (''retries'', JInt retries)])
           (ret ''failed''))
         else
           seq (store_update ex gid BE_RETRY (no_update\<lparr>up_be := Some be'\<rparr>))
           (seq (emit ex spec ''be_retry'' (Some err) [(''mode'', mode_json spec), (''retries'', JInt retries)])
           (ret ''retry'')))"

definition sl_matches :: "rat \<Rightarrow> rat option \<Rightarrow> bool" where
  "sl_matches requested observed =
     (case observed of None \<Rightarrow> False | Some x \<Rightarrow> \<bar>fsub x requested\<bar> \<le> fl (1 / 10 ^ 9))"

text \<open>The two loops of \<open>verify_be\<close>; the result is the error that left them (without the observed value in
  its text).\<close>

fun protect_legs ::
  "'m mt5_executor \<Rightarrow> string \<Rightarrow> 'm mt5_session mt5_driver \<Rightarrow> rat \<Rightarrow> (int \<times> string option) list
     \<Rightarrow> ('m, string option) run" where
  "protect_legs ex gid d requested [] = ret None"
| "protect_legs ex gid d requested ((leg, ref') # rest) =
     (case ref' of
        None \<Rightarrow> ret (Some (''leg '' @ show_int leg @ '' has no broker position to protect''))
      | Some reference \<Rightarrow>
          let action_id = (if md_account_mode d = ''hedging'' then ''BE-L'' @ show_int leg else ''BE'');
              payload = [(''leg'', JInt leg), (''sl'', JFloat requested)]
          in bnd (on_session (md_query_sl d reference)) (\<lambda>observed.
             if sl_matches requested observed then
               seq (mark ex gid action_id payload) (protect_legs ex gid d requested rest)
             else
               bnd (on_session (md_modify_sl d reference requested)) (\<lambda>(accepted, comment).
               if \<not> accepted then ret (Some comment)
               else seq (mark ex gid action_id payload) (protect_legs ex gid d requested rest))))"

fun confirm_legs :: "'m mt5_session mt5_driver \<Rightarrow> rat \<Rightarrow> string list \<Rightarrow> ('m, string option) run" where
  "confirm_legs d requested [] = ret None"
| "confirm_legs d requested (r # rs) =
     bnd (on_session (md_query_sl d r)) (\<lambda>observed.
       if \<not> sl_matches requested observed then ret (Some ''SL query mismatch'')
       else confirm_legs d requested rs)"

definition verify_be :: "'m mt5_executor \<Rightarrow> grp \<Rightarrow> ('m, string) run" where
  "verify_be ex grp =
     (let spec = row_spec grp; gid = tg_group_id spec; be = row_be grp;
          requested = or_num (bt_requested_price be) 0; legs = be_apply_to (tg_break_even spec) in
      seq (require (\<not> requested \<le> 0) (ExecutionForbidden ''no requested BE price; run _request_be first''))
      (bnd (resolve_driver ex) (\<lambda>d.
       bnd (lift_result (be_refs grp d legs)) (\<lambda>refs.
       bnd (protect_legs ex gid d requested (zip legs refs)) (\<lambda>failure.
       bnd (case failure of Some e \<Rightarrow> ret (Some e)
            | None \<Rightarrow> confirm_legs d requested (map (get_or []) refs)) (\<lambda>failure'.
       case failure' of
         Some e \<Rightarrow> be_retry ex grp e
       | None \<Rightarrow>
           seq (store_update ex gid BE_CONFIRMED (no_update\<lparr>up_be := Some (be\<lparr>
              bt_status := Some ''BE_CONFIRMED'', bt_confirmed_price := Some requested, bt_last_error := None\<rparr>)\<rparr>))
           (seq (append_args ex (with_source ''mt5'' ''position''
              (Some (''POSITION:'' @ gid @ '':'' @ show_int (trunc (fmul requested 1000))))
              (mt5_event spec ''be_confirmed'' None None
                [(''confirmed_price'', JFloat requested), (''evidence'', JStr ''broker_position_query''),
                 (''mode'', mode_json spec), (''raw_price'', jopt JFloat (bt_raw_price be))])))
           (seq (notify ex (Inr (BeConfirmed spec requested))) (ret ''confirmed'')))))))))"

section \<open>Compensation of a partial submission\<close>

definition record_compensation_failure ::
  "'m mt5_executor \<Rightarrow> trade_group_spec \<Rightarrow> broker_result comp_state \<Rightarrow> string list \<Rightarrow> string \<Rightarrow> ('m, unit) run" where
  "record_compensation_failure ex spec cs open_refs reason =
     seq (emit ex spec ''compensation_failed'' (Some reason)
        [(''mode'', mode_json spec), (''open_refs'', JList (map JStr open_refs)),
         (''retries'', JInt (get_or 0 (cp_retries cs)))])
     (seq (emit ex spec ''failed_with_open_risk'' (Some reason)
        [(''mode'', mode_json spec), (''open_refs'', JList (map JStr open_refs))])
     (notify ex (Inr (OpenRisk spec open_refs))))"

definition already_closed :: broker_result where
  "already_closed = no_result\<lparr>br_status := Some ''filled'', br_comment := Some ''already_closed''\<rparr>"

definition compensate_label :: "int \<Rightarrow> string" where
  "compensate_label leg = ''COMPENSATE-L'' @ show_int leg"

text \<open>The references to close: the broker reference, its action and its leg.\<close>

fun hedging_refs :: "leg list \<Rightarrow> (string \<times> string \<times> int option) list result" where
  "hedging_refs [] = Inr []"
| "hedging_refs (i # is) =
     rbind (id_int (br_position_id (li_broker i))) (\<lambda>t. rbind (hedging_refs is) (\<lambda>rs.
       Inr (if t = 0 then rs else (show_int t, compensate_label (li_leg i), Some (li_leg i)) # rs)))"

definition compensation_refs ::
  "'m mt5_session mt5_driver \<Rightarrow> string \<Rightarrow> leg list \<Rightarrow> (string \<times> string \<times> int option) list result" where
  "compensation_refs d gid opened =
     (if md_account_mode d = ''netting'' then Inr [(new_leg_id gid 1, ''COMPENSATE-GROUP'', None)]
      else hedging_refs opened)"

text \<open>What the closing loop collects.\<close>

record compensation =
  ca_legs :: "(string \<times> broker_result) list"
  ca_failures :: "string list"
  ca_volume :: volume_book
  ca_closed :: rat

definition leg_empty :: leg_volume where
  "leg_empty = \<lparr>lv_requested_volume = None, lv_filled_volume = None, lv_closed_volume = None,
     lv_remaining_volume = None\<rparr>"

definition note_closed :: "string \<Rightarrow> int option \<Rightarrow> broker_result \<Rightarrow> rat \<Rightarrow> compensation \<Rightarrow> compensation" where
  "note_closed action leg r filled_close acc =
     (let v = ca_volume acc;
          v' = (case leg of None \<Rightarrow> v
             | Some n \<Rightarrow>
                 let entry = get_or leg_empty (map_of (vb_legs v) n)
                 in v\<lparr>vb_legs := dict_put n (entry\<lparr>
                      lv_closed_volume := Some (py_round (fadd (or_num (lv_closed_volume entry) 0) filled_close) 8),
                      lv_remaining_volume := Some 0\<rparr>) (vb_legs v)\<rparr>)
      in acc\<lparr>ca_legs := dict_put action r (ca_legs acc), ca_closed := py_round (fadd (ca_closed acc) filled_close) 8,
           ca_volume := v'\<rparr>)"

definition compensate_one ::
  "'m mt5_executor \<Rightarrow> 'm mt5_session mt5_driver \<Rightarrow> string \<Rightarrow> string \<times> string \<times> int option \<Rightarrow> compensation
     \<Rightarrow> ('m, compensation) run" where
  "compensate_one ex d gid = (\<lambda>(reference, action, leg) acc.
     bnd (gets w_store) (\<lambda>s.
     if has_action gid action s then ret acc
     else bnd (on_session (md_query_position d reference)) (\<lambda>pos. case pos of
        None \<Rightarrow>
          seq (mark ex gid action [(''reason'', JStr ''already_closed'')])
          (ret (acc\<lparr>ca_legs := dict_put action already_closed (ca_legs acc)\<rparr>))
      | Some p \<Rightarrow>
          bnd (on_session (md_close_position d reference (ps_volume p))) (\<lambda>r.
          if br_status r = Some ''filled'' then
            seq (mark ex gid action [(''fill_price'', jopt JFloat (br_fill_price r)), (''leg'', JStr action),
               (''volume'', JFloat (ps_volume p))])
            (ret (note_closed action leg r (or_num (br_filled_volume r) (ps_volume p)) acc))
          else ret (acc\<lparr>ca_legs := dict_put action r (ca_legs acc), ca_failures := ca_failures acc @ [action]\<rparr>)))))"

fun compensate_all ::
  "'m mt5_executor \<Rightarrow> 'm mt5_session mt5_driver \<Rightarrow> string \<Rightarrow> (string \<times> string \<times> int option) list \<Rightarrow> compensation
     \<Rightarrow> ('m, compensation) run" where
  "compensate_all ex d gid [] acc = ret acc"
| "compensate_all ex d gid (r # rs) acc =
     bnd (compensate_one ex d gid r acc) (compensate_all ex d gid rs)"

definition opened_states :: "string list" where
  "opened_states = [''SUBMITTED'', ''PARTIALLY_FILLED'', ''VIRTUAL'']"

definition begin_compensation :: "'m mt5_executor \<Rightarrow> grp \<Rightarrow> leg list \<Rightarrow> ('m, string) run" where
  "begin_compensation ex grp rejected =
     (let spec = row_spec grp; gid = tg_group_id spec; legs_of = map li_leg;
          opened = filter (\<lambda>i. li_state i \<in> set opened_states) (row_legs grp) in
      seq (lift_result (require_transition (row_state grp) PARTIAL_SUBMISSION))
      (seq (store_update ex gid PARTIAL_SUBMISSION no_update)
      (seq (emit ex spec ''partial_submission'' None
         [(''mode'', mode_json spec), (''opened_legs'', JList (map JInt (legs_of opened))),
          (''rejected_legs'', JList (map JInt (legs_of rejected)))])
      (seq (notify ex (Inr (PartialSubmission spec (legs_of opened) (legs_of rejected))))
      (bnd (resolve_driver ex) (\<lambda>d.
       bnd (lift_result (compensation_refs d gid opened)) (\<lambda>refs.
       bnd (compensate_all ex d gid refs \<lparr>ca_legs = [], ca_failures = [], ca_volume = row_volume grp,
            ca_closed = or_num (vb_total_closed (row_volume grp)) 0\<rparr>) (\<lambda>acc.
       let volume = (ca_volume acc)\<lparr>vb_total_closed := Some (py_round (ca_closed acc) 8),
             vb_total_remaining := Some (py_round (fsub (or_num (vb_total_filled (ca_volume acc)) 0) (ca_closed acc)) 8)\<rparr>;
           cs = comp_empty\<lparr>cp_status := Some ''REQUESTED'', cp_retries := Some (get_or 0 (cp_retries (row_comp grp))),
             cp_legs := ca_legs acc\<rparr>
       in if ca_failures acc \<noteq> [] then
            let failed = cs\<lparr>cp_status := Some ''FAILED''\<rparr>
            in seq (store_update ex gid FAILED_WITH_OPEN_RISK (no_update\<lparr>up_comp := Some failed\<rparr>))
               (seq (record_compensation_failure ex spec failed (ca_failures acc) ''compensation close rejected'')
               (ret ''compensation_failed''))
          else
            seq (store_update ex gid COMPENSATION_REQUESTED (no_update\<lparr>up_comp := Some cs, up_volume := Some volume\<rparr>))
            (seq (emit ex spec ''compensation_requested'' None
               [(''action_ids'', JList (map (JStr \<circ> fst) (ca_legs acc))), (''mode'', mode_json spec),
                (''rejected_legs'', JList (map JInt (legs_of rejected)))])
            (ret ''compensation_requested''))))))))))"

definition compensation_ticket :: "'m mt5_session mt5_driver \<Rightarrow> grp \<Rightarrow> string \<Rightarrow> ('m, string) run" where
  "compensation_ticket d grp label =
     (if label = ''COMPENSATE-GROUP'' then
        bnd (on_session (md_query_position d (new_leg_id (tg_group_id (row_spec grp)) 1))) (\<lambda>pos.
          ret (case pos of None \<Rightarrow> [] | Some p \<Rightarrow> show_int (ps_ticket p)))
      else case find (\<lambda>i. label = compensate_label (li_leg i)) (row_legs grp) of
          None \<Rightarrow> ret []
        | Some i \<Rightarrow> bnd (lift_result (id_int (br_position_id (li_broker i)))) (\<lambda>t.
            ret (if t = 0 then [] else show_int t)))"

definition ticket_position :: "'m mt5_session mt5_driver \<Rightarrow> string \<Rightarrow> ('m, mt5_position option) run" where
  "ticket_position d ticket = (if ticket = [] then ret None else on_session (md_query_position d ticket))"

text \<open>One iteration of the retry loop; the result is the new dict and the references still open.\<close>

definition retry_one ::
  "'m mt5_executor \<Rightarrow> 'm mt5_session mt5_driver \<Rightarrow> grp \<Rightarrow> string \<Rightarrow> (string \<times> broker_result) list \<times> string list
     \<Rightarrow> ('m, (string \<times> broker_result) list \<times> string list) run" where
  "retry_one ex d grp label = (\<lambda>(legs, still_failed).
     let gid = tg_group_id (row_spec grp) in
     bnd (compensation_ticket d grp label) (\<lambda>ticket.
     bnd (ticket_position d ticket) (\<lambda>pos. case pos of
        None \<Rightarrow>
          seq (mark ex gid label [(''reason'', JStr ''already_closed_on_retry'')])
          (ret (dict_put label already_closed legs, still_failed))
      | Some p \<Rightarrow>
          bnd (on_session (md_close_position d ticket (ps_volume p))) (\<lambda>r.
          if br_status r = Some ''filled'' then
            seq (mark ex gid label [(''fill_price'', jopt JFloat (br_fill_price r)), (''leg'', JStr label),
               (''volume'', JFloat (ps_volume p))])
            (ret (dict_put label r legs, still_failed))
          else ret (dict_put label r legs, still_failed @ [label])))))"

fun retry_all ::
  "'m mt5_executor \<Rightarrow> 'm mt5_session mt5_driver \<Rightarrow> grp \<Rightarrow> string list \<Rightarrow> (string \<times> broker_result) list \<times> string list
     \<Rightarrow> ('m, (string \<times> broker_result) list \<times> string list) run" where
  "retry_all ex d grp [] acc = ret acc"
| "retry_all ex d grp (l # ls) acc = bnd (retry_one ex d grp l acc) (retry_all ex d grp ls)"

definition open_risk ::
  "'m mt5_executor \<Rightarrow> trade_group_spec \<Rightarrow> broker_result comp_state \<Rightarrow> string list \<Rightarrow> string \<Rightarrow> ('m, string) run" where
  "open_risk ex spec cs refs reason =
     seq (if cp_recorded cs then ret () else record_compensation_failure ex spec cs refs reason)
     (seq (store_update ex (tg_group_id spec) FAILED_WITH_OPEN_RISK
        (no_update\<lparr>up_comp := Some (cs\<lparr>cp_status := Some ''FAILED'', cp_recorded := True\<rparr>)\<rparr>))
     (ret ''failed''))"

text \<open>The references whose position is still open.\<close>

fun pending_refs :: "'m mt5_session mt5_driver \<Rightarrow> grp \<Rightarrow> string list \<Rightarrow> ('m, string list) run" where
  "pending_refs d grp [] = ret []"
| "pending_refs d grp (l # ls) =
     bnd (compensation_ticket d grp l) (\<lambda>ticket.
     bnd (ticket_position d ticket) (\<lambda>pos.
     bnd (pending_refs d grp ls) (\<lambda>rest. ret (if pos = None then rest else l # rest))))"

definition deal_action :: "mt5_deal \<Rightarrow> string" where
  "deal_action x = ''DEAL-'' @ show_int (dl_ticket x)"

definition consume_compensation_deals ::
  "'m mt5_executor \<Rightarrow> grp \<Rightarrow> 'm mt5_session mt5_driver \<Rightarrow> ('m, unit) run" where
  "consume_compensation_deals ex grp d =
     (let gid = tg_group_id (row_spec grp) in
      bnd (if md_account_mode d = ''netting'' then
             bnd (on_session (md_query_position d (new_leg_id gid 1))) (\<lambda>pos.
               ret (case pos of None \<Rightarrow> [] | Some p \<Rightarrow> [ps_ticket p]))
           else ret []) (\<lambda>aggregate.
      bnd (lift_result (leg_tickets (row_legs grp))) (\<lambda>tickets.
      for_each (remdups (aggregate @ filter (\<lambda>t. t \<noteq> 0) tickets)) (\<lambda>ticket.
        bnd (on_session (md_query_deals d ticket)) (\<lambda>deals.
        for_each (filter (\<lambda>x. dl_entry x = OUT_ENTRY) deals) (\<lambda>x.
          seq (mark ex gid (deal_action x) [(''kind'', JStr ''compensation'')]) (ret ())))))))"

definition confirm_compensation ::
  "'m mt5_executor \<Rightarrow> grp \<Rightarrow> 'm mt5_session mt5_driver \<Rightarrow> broker_result comp_state \<Rightarrow> ('m, string) run" where
  "confirm_compensation ex grp d cs =
     (let spec = row_spec grp; gid = tg_group_id spec; v = row_volume grp;
          volume = v\<lparr>vb_total_closed := Some (py_round (or_num (vb_total_filled v) 0) 8), vb_total_remaining := Some 0,
            vb_legs := map (\<lambda>(n, e). (n, e\<lparr>lv_remaining_volume := Some 0\<rparr>)) (vb_legs v)\<rparr>;
          cs' = cs\<lparr>cp_status := Some ''CONFIRMED''\<rparr>;
          upd = no_update\<lparr>up_comp := Some cs', up_volume := Some volume\<rparr> in
      seq (consume_compensation_deals ex grp d)
      (seq (lift_result (require_transition (row_state grp) COMPENSATION_CONFIRMED))
      (seq (store_update ex gid COMPENSATION_CONFIRMED upd)
      (seq (emit ex spec ''compensation_confirmed'' None [(''mode'', mode_json spec), (''open_risk'', JFloat 0)])
      (seq (lift_result (require_transition COMPENSATION_CONFIRMED FAILED))
      (seq (store_update ex gid FAILED upd)
      (seq (notify ex (Inr (FailedAfterCompensation spec
         (sort (map li_leg (filter (\<lambda>i. li_state i = ''REJECTED'') (row_legs grp)))))))
      (ret ''confirmed''))))))))"

text \<open>A group that is gone cannot be subscripted.\<close>

definition reload :: "string \<Rightarrow> ('m, grp) run" where
  "reload gid =
     bnd (gets w_store) (\<lambda>s. bnd (lift_result (load_group gid s)) (\<lambda>r.
       case r of None \<Rightarrow> throw (TypeError ''NoneType is not subscriptable'') | Some g \<Rightarrow> ret g))"

text \<open>Phase 2: every reference must be closed at the broker.\<close>

definition verify_closed ::
  "'m mt5_executor \<Rightarrow> grp \<Rightarrow> 'm mt5_session mt5_driver \<Rightarrow> broker_result comp_state \<Rightarrow> ('m, string) run" where
  "verify_closed ex grp d cs =
     (let spec = row_spec grp; gid = tg_group_id spec in
      bnd (pending_refs d grp (map fst (cp_legs cs))) (\<lambda>pending.
      if pending \<noteq> [] then
        let retries = get_or 0 (cp_retries cs) + 1;
            cs' = cs\<lparr>cp_retries := Some retries, cp_pending := Some pending\<rparr>
        in if retries \<ge> mx_max_compensation_retries ex
           then open_risk ex spec cs' pending ''compensation not confirmed within retry budget''
           else seq (store_update ex gid COMPENSATION_REQUESTED
                  (no_update\<lparr>up_comp := Some (cs'\<lparr>cp_status := Some ''REQUESTED''\<rparr>)\<rparr>)) (ret ''pending'')
      else confirm_compensation ex grp d cs))"

definition verify_compensation :: "'m mt5_executor \<Rightarrow> string \<Rightarrow> ('m, string) run" where
  "verify_compensation ex gid =
     bnd (reload gid) (\<lambda>grp.
     let spec = row_spec grp; cs = row_comp grp; retries = get_or 0 (cp_retries cs) in
     bnd (resolve_driver ex) (\<lambda>d.
     let rejected = map fst (filter (\<lambda>(_, r). br_status r \<noteq> Some ''filled'') (cp_legs cs)) in
     if rejected = [] then verify_closed ex grp d cs
     else if retries \<ge> mx_max_compensation_retries ex
       then open_risk ex spec cs rejected ''compensation retries exhausted''
     else bnd (retry_all ex d grp rejected (cp_legs cs, [])) (\<lambda>(legs, still_failed).
       let cs1 = cs\<lparr>cp_retries := Some (retries + 1), cp_legs := legs\<rparr> in
       if still_failed \<noteq> [] then open_risk ex spec cs1 still_failed ''compensation close rejected on retry''
       else
         let cs2 = cs1\<lparr>cp_recorded := False\<rparr> in
         seq (store_update ex gid COMPENSATION_REQUESTED (no_update\<lparr>up_comp := Some cs2\<rparr>))
         (verify_closed ex grp d cs2))))"

section \<open>Partial closes of a netting account\<close>

text \<open>\<^verbatim>\<open>try: ... except BrokerUnavailable\<close>.\<close>

definition unavailable_is_none :: "pyexc \<Rightarrow> ('m, 'a option) run option" where
  "unavailable_is_none e = (case e of BrokerUnavailable _ \<Rightarrow> Some (ret None) | _ \<Rightarrow> None)"

definition try_snapshot :: "'m mt5_executor \<Rightarrow> string \<Rightarrow> ('m, symbol_view option) run" where
  "try_snapshot ex symbol =
     catch (bnd (with_context ex (\<lambda>api. symbol_snapshot api symbol)) (\<lambda>x. ret (Some x))) unavailable_is_none"

definition partial_close_volume :: "grp \<Rightarrow> int \<Rightarrow> symbol_view \<Rightarrow> rat \<Rightarrow> rat" where
  "partial_close_volume grp leg snapshot remaining_before =
     (let step = sn_volume_step snapshot; v = row_volume grp;
          cumulative = py_sum (map tl_allocation (filter (\<lambda>t. tl_leg t \<le> leg) (tg_targets (row_spec grp))));
          desired_increment = fsub (fmul (or_num (vb_total_filled v) 0) cumulative) (or_num (vb_total_closed v) 0);
          close_volume = floor_to_step (fadd (min desired_increment remaining_before) (fmul step (fl (1 / 10 ^ 9)))) step
      in if close_volume > 0 \<and> close_volume < fsub (sn_volume_min snapshot) (fl (1 / 10 ^ 9)) then 0 else close_volume)"

definition netting_close_volume :: "'m mt5_executor \<Rightarrow> grp \<Rightarrow> int \<Rightarrow> ('m, rat) run" where
  "netting_close_volume ex grp leg =
     bnd (resolve_driver ex) (\<lambda>d.
     bnd (try_snapshot ex (tg_broker_symbol (row_spec grp))) (\<lambda>snapshot. case snapshot of
        None \<Rightarrow> ret 0
      | Some sn \<Rightarrow>
     bnd (on_session (md_query_position d (new_leg_id (tg_group_id (row_spec grp)) 1))) (\<lambda>pos. case pos of
        None \<Rightarrow> ret 0
      | Some p \<Rightarrow>
          if ps_volume p \<le> 0 then ret 0
          else if leg = 3 then ret (floor_to_step (ps_volume p) (sn_volume_step sn))
          else ret (partial_close_volume grp leg sn (ps_volume p)))))"

definition closed_book :: "int \<Rightarrow> rat \<Rightarrow> volume_book \<Rightarrow> volume_book" where
  "closed_book leg filled_close v =
     (let total = py_round (fadd (or_num (vb_total_closed v) 0) filled_close) 8;
          entry = get_or leg_empty (map_of (vb_legs v) leg);
          leg_closed = py_round (fadd (or_num (lv_closed_volume entry) 0) filled_close) 8
      in v\<lparr>vb_total_closed := Some total,
           vb_total_remaining := Some (py_round (fsub (or_num (vb_total_filled v) 0) total) 8),
           vb_legs := dict_put leg (entry\<lparr>lv_closed_volume := Some leg_closed,
             lv_remaining_volume := Some (py_round (fsub (or_num (lv_filled_volume entry) 0) leg_closed) 8)\<rparr>) (vb_legs v)\<rparr>)"

definition update_volume_after_close :: "'m mt5_executor \<Rightarrow> grp \<Rightarrow> int \<Rightarrow> rat \<Rightarrow> ('m, unit) run" where
  "update_volume_after_close ex grp leg filled_close =
     (let gid = tg_group_id (row_spec grp) in
      bnd (reload gid) (\<lambda>current.
        store_update ex gid (row_state current)
          (no_update\<lparr>up_volume := Some (closed_book leg filled_close (row_volume grp))\<rparr>)))"

definition netting_close_leg :: "'m mt5_executor \<Rightarrow> grp \<Rightarrow> int \<Rightarrow> string \<Rightarrow> ('m, bool) run" where
  "netting_close_leg ex grp leg action_id =
     (let spec = row_spec grp; gid = tg_group_id spec in
      bnd (gets w_store) (\<lambda>s.
      if has_action gid action_id s then ret False
      else bnd (netting_close_volume ex grp leg) (\<lambda>close_volume.
      if close_volume \<le> 0 then
        bnd (mark ex gid (action_id @ ''-SKIP'') [(''leg'', JInt leg), (''reason'', JStr ''below_volume_step'')]) (\<lambda>fresh.
        seq (if fresh then emit_execution_error ex spec (action_id @ '' below volume_step (no fillable close)'')
               [(''action_id'', JStr action_id), (''leg'', JInt leg), (''mode'', mode_json spec)] (Some leg)
             else ret ())
        (ret False))
      else
        bnd (resolve_driver ex) (\<lambda>d.
        bnd (on_session (md_close_partial d (new_leg_id gid 1) close_volume)) (\<lambda>r.
        if br_status r \<noteq> Some ''filled'' then
          seq (emit_execution_error ex spec (action_id @ '' rejected'')
             [(''action_id'', JStr action_id), (''comment'', jopt JStr (br_comment r)), (''mode'', mode_json spec),
              (''retcode'', jopt JInt (br_retcode r))] (Some leg))
          (ret False)
        else
          let filled_close = or_num (br_filled_volume r) close_volume; fill_price = or_num (br_fill_price r) 0 in
          seq (mark ex gid action_id [(''fill_price'', jopt JFloat (br_fill_price r)),
             (''filled_volume'', JFloat filled_close), (''leg'', JInt leg), (''volume'', JFloat close_volume)])
          (seq (update_volume_after_close ex grp leg filled_close)
          (seq (if leg = 1 then tp1_filled ex grp fill_price False
                else if leg = 2 then tp2_filled ex grp fill_price False
                else tp3_filled ex grp fill_price False)
          (ret True))))))))"

section \<open>A poll\<close>

text \<open>A phase of \<open>advance_group\<close> either ends the call with its events or continues with the events so far,
  the state reached and the group as changed in place.\<close>

type_synonym phase = "string list + (string list \<times> group_state \<times> grp)"

definition closure_phase :: "'m mt5_executor \<Rightarrow> grp \<Rightarrow> broker_inspection \<Rightarrow> ('m, phase) run" where
  "closure_phase ex grp inspection =
     (let spec = row_spec grp; gid = tg_group_id spec; st = row_state grp in
      bnd (gets w_store) (\<lambda>s.
      case filter (\<lambda>x. \<not> has_action gid (deal_action x) s) (sort_key (\<lambda>x. - dl_time x) (in_closed_out_deals inspection)) of
        [] \<Rightarrow> ret (Inr ([], st, grp))
      | x # _ \<Rightarrow>
          let kind = classify_broker_close spec x (mx_be_close_tolerance ex);
              consume = mark ex gid (deal_action x) [(''kind'', JStr kind), (''price'', JFloat (dl_price x))]
          in if kind = ''stop'' then seq consume (bnd (stop_group ex grp (dl_price x)) (\<lambda>e. ret (Inl [e])))
             else if kind = ''tp1'' \<and> st \<in> {SUBMITTED, OPENED} then
               seq consume (bnd (tp1_filled ex grp (dl_price x) True) (\<lambda>g. ret (Inr ([''tp1_filled''], TP1_FILLED, g))))
             else if kind = ''tp2'' \<and> st = BE_CONFIRMED then
               seq consume (bnd (tp2_filled ex grp (dl_price x) True) (\<lambda>g. ret (Inr ([''tp2_filled''], TP2_FILLED, g))))
             else if kind = ''tp3'' \<and> st = TP2_FILLED then
               seq consume (bnd (tp3_filled ex grp (dl_price x) True) (\<lambda>g. ret (Inr ([''tp3_filled''], RECONCILED, g))))
             else ret (Inr ([], st, grp))))"

definition rejected_legs :: "grp \<Rightarrow> leg list" where
  "rejected_legs grp = filter (\<lambda>i. li_state i = ''REJECTED'') (row_legs grp)"

definition submitted_phase ::
  "'m mt5_executor \<Rightarrow> broker_inspection \<Rightarrow> string list \<times> group_state \<times> grp \<Rightarrow> ('m, phase) run" where
  "submitted_phase ex inspection = (\<lambda>(events, st, grp).
     if st \<noteq> SUBMITTED then ret (Inr (events, st, grp))
     else if rejected_legs grp \<noteq> [] then
       bnd (begin_compensation ex grp (rejected_legs grp)) (\<lambda>r.
       ret (Inl (events @ (if r = ''compensation_failed'' then [''compensation_failed'', ''failed_with_open_risk'']
         else [''partial_submission'', ''compensation_requested'']))))
     else if list_ex (\<lambda>i. li_state i \<in> set opened_states) (row_legs grp) then
       bnd (open_group ex grp inspection) (\<lambda>g. ret (Inr (events @ [''group_opened''], OPENED, g)))
     else ret (Inr (events, st, grp)))"

definition compensation_phase ::
  "'m mt5_executor \<Rightarrow> string list \<times> group_state \<times> grp \<Rightarrow> ('m, phase) run" where
  "compensation_phase ex = (\<lambda>(events, st, grp).
     if st = PARTIAL_SUBMISSION then
       bnd (begin_compensation ex grp (rejected_legs grp)) (\<lambda>r.
       ret (Inl (events @ (if r = ''compensation_failed'' then [''compensation_failed'', ''failed_with_open_risk'']
         else [''compensation_requested'']))))
     else if st \<in> {COMPENSATION_REQUESTED, FAILED_WITH_OPEN_RISK} then
       bnd (verify_compensation ex (tg_group_id (row_spec grp))) (\<lambda>r.
       ret (Inl (events @ (if r = ''confirmed'' then [''compensation_confirmed'', ''group_failed_after_compensation'']
         else if r = ''pending'' then [''compensation_pending''] else [''failed_with_open_risk'']))))
     else ret (Inr (events, st, grp)))"

definition netting_phase ::
  "'m mt5_executor \<Rightarrow> 'm mt5_session mt5_driver \<Rightarrow> string list \<times> group_state \<times> grp \<Rightarrow> ('m, phase) run" where
  "netting_phase ex d = (\<lambda>(events, st, grp).
     let spec = row_spec grp; g = tg_geometry spec in
     if \<not> (md_account_mode d = ''netting'' \<and> st \<in> {OPENED, BE_CONFIRMED, TP2_FILLED}) then ret (Inr (events, st, grp))
     else bnd (try_snapshot ex (tg_broker_symbol spec)) (\<lambda>tick. case tick of
        None \<Rightarrow> ret (Inl events)
      | Some sn \<Rightarrow>
          let price = (case tg_side spec of Long \<Rightarrow> sn_bid sn | Short \<Rightarrow> sn_ask sn);
              beyond = (\<lambda>level. fmul (direction (tg_side spec)) (fsub price level) \<ge> 0);
              close = (\<lambda>leg action event next.
                bnd (netting_close_leg ex grp leg action) (\<lambda>ok.
                  ret (Inr (if ok then (events @ [event], next, grp) else (events, st, grp)))))
          in if st = OPENED \<and> beyond (ge_tp1 g) then close 1 ''CLOSE-TP1'' ''tp1_filled'' TP1_FILLED
             else if st = BE_CONFIRMED \<and> beyond (ge_tp2 g) then close 2 ''CLOSE-TP2'' ''tp2_filled'' TP2_FILLED
             else if st = TP2_FILLED \<and> beyond (ge_tp3 g) then close 3 ''CLOSE-TP3'' ''tp3_filled'' RECONCILED
             else ret (Inr (events, st, grp))))"

definition be_phase :: "'m mt5_executor \<Rightarrow> string \<Rightarrow> string list \<times> group_state \<Rightarrow> ('m, string list) run" where
  "be_phase ex gid = (\<lambda>(events, st).
     bnd (if st = TP1_FILLED then
            bnd (reload gid) (\<lambda>g. bnd (request_be ex g) (\<lambda>e. ret (events @ [e], BE_REQUESTED)))
          else ret (events, st)) (\<lambda>(events, st).
     if st \<in> {BE_REQUESTED, BE_RETRY} then
       bnd (reload gid) (\<lambda>g. bnd (verify_be ex g) (\<lambda>r.
         ret (events @ [if r = ''confirmed'' then ''be_confirmed'' else if r = ''retry'' then ''be_retry'' else ''be_failed''])))
     else ret events))"

text \<open>Continue after a phase unless it ended the call.\<close>

definition and_then ::
  "('m, phase) run \<Rightarrow> (string list \<times> group_state \<times> grp \<Rightarrow> ('m, string list) run) \<Rightarrow> ('m, string list) run" where
  "and_then m f = bnd m (\<lambda>r. case r of Inl events \<Rightarrow> ret events | Inr c \<Rightarrow> f c)"

definition advance_group :: "'m mt5_executor \<Rightarrow> grp \<Rightarrow> ('m, string list) run" where
  "advance_group ex grp =
     bnd (resolve_driver ex) (\<lambda>d.
     bnd (inspect_group d grp) (\<lambda>inspection.
     and_then (closure_phase ex grp inspection) (\<lambda>c1.
     and_then (submitted_phase ex inspection c1) (\<lambda>c2.
     and_then (compensation_phase ex c2) (\<lambda>c3.
     and_then (netting_phase ex d c3) (\<lambda>(events, st, g).
     bnd (be_phase ex (tg_group_id (row_spec grp)) (events, st)) (\<lambda>events'.
     seq (detect_orphan_positions ex d) (ret events'))))))))"

definition polled :: "grp \<Rightarrow> bool" where
  "polled g \<longleftrightarrow> tg_mode (row_spec g) = Demo \<and> row_state g \<notin> {RECONCILED, STOPPED, REJECTED, EXPIRED, CANCELLED, FAILED}"

fun poll_groups :: "'m mt5_executor \<Rightarrow> grp option list \<Rightarrow> ('m, string list) run" where
  "poll_groups ex [] = ret []"
| "poll_groups ex (None # gs) = throw (TypeError ''NoneType is not subscriptable'')"
| "poll_groups ex (Some g # gs) =
     bnd (if polled g then advance_group ex g else ret []) (\<lambda>es. bnd (poll_groups ex gs) (\<lambda>rest. ret (es @ rest)))"

definition poll_once :: "'m mt5_executor \<Rightarrow> ('m, string list) run" where
  "poll_once ex = bnd (gets w_store) (\<lambda>s. bnd (lift_result (list_groups None s)) (poll_groups ex))"

section \<open>Shutdown and restart\<close>

record shutdown_summary =
  sm_already_shutdown :: bool
  sm_events :: "string list"
  sm_final_poll_ok :: bool
  sm_state_persisted :: "bool option"
  sm_notified :: "bool option"

text \<open>\<^verbatim>\<open>try: ... except Exception\<close>: whether the block finished.\<close>

definition attempt :: "('m, 'a) run \<Rightarrow> ('m, 'a option) run" where
  "attempt m = catch (bnd m (\<lambda>x. ret (Some x))) (\<lambda>_. Some (ret None))"

definition shutdown_event :: "bool \<Rightarrow> string list \<Rightarrow> event_args" where
  "shutdown_event ok events =
     \<lparr>ea_event_type = ''system_shutdown'', ea_signal_id = ''-'', ea_asset_key = ''-'', ea_strategy_version = ''-'',
      ea_config_hash = ''-'', ea_actor = ''mt5_trade_group_executor'', ea_event_timestamp_utc = None,
      ea_model_hash = None, ea_feature_snapshot_hash = None, ea_position_ticket = None, ea_order_ticket = None,
      ea_reason = None,
      ea_payload = [(''events'', JList (map JStr events)), (''final_poll_ok'', JBool ok)],
      ea_event_id = None, ea_group_id = None, ea_leg_id = None, ea_source = None, ea_source_type = None,
      ea_source_id = None, ea_observed_at_utc_ms = None\<rparr>"

definition set_shutdown :: "string list \<Rightarrow> ('m, unit) run" where
  "set_shutdown events = modify (\<lambda>w. w\<lparr>w_drv := (w_drv w)\<lparr>mst_shutdown := Some events\<rparr>\<rparr>)"

definition shutdown :: "'m mt5_executor \<Rightarrow> ('m, shutdown_summary) run" where
  "shutdown ex =
     bnd (gets (mst_shutdown \<circ> w_drv)) (\<lambda>before. case before of
        Some events \<Rightarrow> ret \<lparr>sm_already_shutdown = True, sm_events = events, sm_final_poll_ok = False,
          sm_state_persisted = None, sm_notified = None\<rparr>
      | None \<Rightarrow>
          seq (set_shutdown [])
          (bnd (attempt (poll_once ex)) (\<lambda>polled_events.
           let ok = (polled_events \<noteq> None); events = get_or [] polled_events in
           bnd (attempt (append_args ex (shutdown_event ok events))) (\<lambda>persisted.
           bnd (case mx_notifier ex of None \<Rightarrow> ret None
                | Some _ \<Rightarrow> bnd (attempt (notify ex (Inr SystemShutdown))) (\<lambda>r. ret (Some (r \<noteq> None)))) (\<lambda>notified.
           seq (set_shutdown events)
           (ret \<lparr>sm_already_shutdown = False, sm_events = events, sm_final_poll_ok = ok,
              sm_state_persisted = Some (persisted \<noteq> None), sm_notified = notified\<rparr>))))))"

definition mt5_recover_after_restart :: "'m mt5_executor \<Rightarrow> string \<Rightarrow> ('m, grp) run" where
  "mt5_recover_after_restart ex gid =
     bnd (gets w_store) (\<lambda>s. bnd (lift_result (load_group gid s)) (\<lambda>r. case r of
        None \<Rightarrow> throw DuplicateSubmissionError
      | Some grp \<Rightarrow>
          let spec = row_spec grp in
          seq (if tg_mode spec = Demo then seq (require_demo_account ex) (ret ()) else ret ())
          (bnd (resolve_driver ex) (\<lambda>d.
           bnd (inspect_group d grp) (\<lambda>inspection.
           seq (emit ex spec ''group_reconciled'' (Some ''restart_recovery'')
              [(''mode'', mode_json spec), (''out_deals'', JInt (int (length (in_closed_out_deals inspection)))),
               (''positions_found'', JInt (int (length (in_positions inspection)))),
               (''state'', JStr (state_value (row_state grp))), (''submitted'', JBool (row_submitted grp))])
           (ret grp))))))"

end
