(* ===== verification/MT5_Lifecycle.thy ===== *)
theory MT5_Lifecycle
  imports MT5_Flows
begin

text \<open>
  The demo executor and the lifecycle table. A method either leaves the stored states of all groups alone
  (\<open>silent\<close>) or moves the state of one group along the table (\<open>moves\<close>); the rules compose the two along a
  method, so that each flow is a short derivation over its definition.
\<close>

section \<open>Stored states\<close>

definition state_of :: "string \<Rightarrow> 'b group_store \<Rightarrow> group_state option" where
  "state_of gid s = map_option row_state (map_of (gs_groups s) gid)"

lemma state_of_update:
  "state_of h (update_group_state now gid st u s) =
     (if h = gid then map_option (\<lambda>_. st) (state_of h s) else state_of h s)"
  by (auto simp: state_of_def groups_update set_columns_def option.map_comp comp_def split: option.split)

lemma state_of_save:
  "state_of h (save_group sha now spec a s) = (if h = tg_group_id spec then Some (sv_state a) else state_of h s)"
  by (simp add: state_of_def save_rows)

lemma state_of_mark [simp]: "state_of h (snd (mark_action now gid aid p s)) = state_of h s"
  by (simp add: state_of_def mark_action_def)

lemma mark_action_inv [simp]: "store_inv s \<Longrightarrow> store_inv (snd (mark_action now gid aid p s))"
  using store_step_inv [of s _ "Mark now gid aid p"] by simp

lemma reached_state_of: "reached s0 g s \<longleftrightarrow> store_inv s \<and> (\<exists>st. state_of g s = Some st \<and> validate_transition\<^sup>*\<^sup>* s0 st)"
  by (auto simp: reached_def state_of_def split: option.split)

lemma state_of_loaded: "load_group gid s = Inr (Some r) \<Longrightarrow> state_of gid s = Some (row_state r)"
  by (auto simp: load_group_Some state_of_def)

section \<open>Silent computations\<close>

definition silent :: "(('b, 'd) world, 'a) comp \<Rightarrow> bool" where
  "silent m \<longleftrightarrow> (\<forall>w. (store_inv (w_store w) \<longrightarrow> store_inv (w_store (snd (m w))))
     \<and> (\<forall>h. state_of h (w_store (snd (m w))) = state_of h (w_store w)))"

named_theorems silent_intros \<open>computations that change no stored state\<close>

lemma silent_keeps: "(\<And>P. keeps (\<lambda>w. P (w_store w)) m) \<Longrightarrow> silent m"
proof -
  assume k: "\<And>P. keeps (\<lambda>w. P (w_store w)) m"
  have "w_store (snd (m w)) = w_store w" for w
    using keepsD [OF k [of "\<lambda>s. s = w_store w"]] by simp
  then show ?thesis by (simp add: silent_def)
qed

lemma silent_pure [silent_intros]:
  "silent (ret x)" "silent (throw e)" "silent (gets f)" "silent (lift_result r)" "silent (require c e)"
  "silent (append_args ex a)" "silent (on_driver m)" "silent (read_clock ex)" "silent (require_group gid)"
  by (rule silent_keeps, intro keeps_intros)+

lemma silent_bnd [silent_intros]:
  assumes "silent m" and "\<And>x. silent (f x)"
  shows "silent (bnd m f)"
  using assms by (simp add: silent_def bnd_run split: sum.split)

lemma silent_seq [silent_intros]: "silent m \<Longrightarrow> silent n \<Longrightarrow> silent (seq m n)"
  by (simp add: seq_def silent_bnd)

lemma silent_split [silent_intros]:
  "silent m \<Longrightarrow> silent n \<Longrightarrow> silent (if c then m else n)"
  "silent m \<Longrightarrow> (\<And>x. silent (f x)) \<Longrightarrow> silent (case o' of None \<Rightarrow> m | Some x \<Rightarrow> f x)"
  "(\<And>a b. silent (h a b)) \<Longrightarrow> silent (case p of (a, b) \<Rightarrow> h a b)"
  by (simp_all split: option.split prod.split)

lemma silent_for_each [silent_intros]: "(\<And>x. silent (body x)) \<Longrightarrow> silent (for_each xs body)"
  by (induction xs) (simp_all add: silent_intros)

lemma silent_catch [silent_intros]:
  assumes "silent m" and "\<And>e k. h e = Some k \<Longrightarrow> silent k"
  shows "silent (catch m h)"
  using assms by (simp add: silent_def catch_run split: sum.split option.split)

lemma silent_mark [silent_intros]: "silent (mark ex gid aid p)"
  unfolding mark_def
  by (rule silent_bnd, rule silent_pure) (simp add: silent_def on_store_def split: prod.split, metis mark_action_inv state_of_mark snd_conv)

lemma silent_calls [silent_intros]:
  "silent (on_session m)" "silent (with_context ex f)" "silent (notify ex n)" "silent (emit ex spec et reason p)"
  "silent (resolve_driver ex)" "silent (require_demo_account ex)" "silent (append_leg_event ex spec et leg r v)"
  "silent (reload gid)"
proof -
  show "silent (notify ex n)" by (simp add: silent_def notify_def split: option.split sum.split)
  show s: "silent (on_session m)" for m :: "('m mt5_session, 'x) comp"
    unfolding on_session_def by (rule silent_intros)
  show "silent (with_context ex f)" "silent (emit ex spec et reason p)" "silent (resolve_driver ex)"
    "silent (require_demo_account ex)" "silent (append_leg_event ex spec et leg r v)" "silent (reload gid)"
    unfolding with_context_def emit_def resolve_driver_def require_demo_account_def append_leg_event_def
      reload_def Let_def
    by (intro silent_intros s)+
qed

lemma silent_loops [silent_intros]:
  "silent (deals_of d ts)" "silent (protect_legs ex gid d q xs)" "silent (confirm_legs d q rs)"
  "silent (compensate_all ex d gid refs acc)" "silent (retry_all ex d grp ls acc')" "silent (pending_refs d grp ls)"
  "silent (mt5_submit_legs ex d spec vs)"
proof -
  show "silent (deals_of d ts)" by (induction ts) (auto intro!: silent_intros)
  show "silent (protect_legs ex gid d q xs)"
  proof (induction xs)
    case (Cons x xs)
    then show ?case by (cases x) (auto simp: Let_def intro!: silent_intros)
  qed (simp add: silent_intros)
  show "silent (confirm_legs d q rs)" by (induction rs) (auto intro!: silent_intros)
  show "silent (compensate_all ex d gid refs acc)"
    by (induction refs arbitrary: acc) (auto simp: compensate_one_def split: prod.split intro!: silent_intros)
  show "silent (retry_all ex d grp ls acc')"
    by (induction ls arbitrary: acc')
      (auto simp: retry_one_def Let_def compensation_ticket_def ticket_position_def split: prod.split intro!: silent_intros)
  show "silent (pending_refs d grp ls)"
    by (induction ls) (auto simp: compensation_ticket_def ticket_position_def intro!: silent_intros)
  show "silent (mt5_submit_legs ex d spec vs)"
    by (induction vs) (auto simp: mt5_submit_one_def Let_def split: prod.split intro!: silent_intros)
qed

lemma silent_flows [silent_intros]:
  "silent (inspect_group d grp)" "silent (detect_orphan_positions ex d)" "silent (emit_execution_error ex spec reason p leg')"
  "silent (record_compensation_failure ex spec cs refs reason)" "silent (consume_compensation_deals ex grp d)"
  "silent (try_snapshot ex symbol)" "silent (netting_close_volume ex grp leg)"
proof -
  have t: "silent (try_snapshot ex symbol)" for symbol
    unfolding try_snapshot_def
    by (intro silent_intros) (auto simp: unavailable_is_none_def intro: silent_intros split: pyexc.splits)
  then show "silent (try_snapshot ex symbol)" .
  show "silent (netting_close_volume ex grp leg)"
    unfolding netting_close_volume_def by (intro silent_intros t)
  show "silent (inspect_group d grp)" "silent (detect_orphan_positions ex d)" "silent (emit_execution_error ex spec reason p leg')"
    "silent (record_compensation_failure ex spec cs refs reason)" "silent (consume_compensation_deals ex grp d)"
    unfolding inspect_group_def detect_orphan_positions_def emit_execution_error_def
      record_compensation_failure_def consume_compensation_deals_def Let_def
    by (intro silent_intros)+
qed

section \<open>Moves\<close>

text \<open>Group \<open>g\<close> came from \<open>s0\<close> along the table, group \<open>gid\<close> is in one of the states \<open>S\<close>, the others are as in \<open>\<tau>\<close>.\<close>

definition on_track ::
  "group_state \<Rightarrow> string \<Rightarrow> (string \<Rightarrow> group_state option) \<Rightarrow> string \<Rightarrow> group_state set \<Rightarrow> ('b, 'd) world \<Rightarrow> bool" where
  "on_track s0 g \<tau> gid S w \<longleftrightarrow> reached s0 g (w_store w) \<and> (\<exists>st \<in> S. state_of gid (w_store w) = Some st)
     \<and> (\<forall>h. h \<noteq> gid \<longrightarrow> state_of h (w_store w) = \<tau> h)"

definition moves :: "string \<Rightarrow> group_state set \<Rightarrow> (('b, 'd) world, 'a) comp \<Rightarrow> ('a \<Rightarrow> group_state set) \<Rightarrow> bool" where
  "moves gid S m T \<longleftrightarrow> (\<forall>s0 g \<tau> w. on_track s0 g \<tau> gid S w
     \<longrightarrow> wp m (\<lambda>x. on_track s0 g \<tau> gid (T x)) (on_track s0 g \<tau> gid UNIV) w)"

lemma on_track_mono: "on_track s0 g \<tau> gid S w \<Longrightarrow> S \<subseteq> T \<Longrightarrow> on_track s0 g \<tau> gid T w"
  by (auto simp: on_track_def)

lemma on_track_silent: "silent m \<Longrightarrow> on_track s0 g \<tau> gid S w \<Longrightarrow> on_track s0 g \<tau> gid S (snd (m w))"
  by (simp add: on_track_def reached_state_of silent_def)

lemma moves_bnd:
  fixes m :: "(('b, 'd) world, 'a) comp"
  assumes "moves gid S m M" and "\<And>x. moves gid (M x) (f x) T"
  shows "moves gid S (bnd m f) T"
  unfolding moves_def wp_bnd
proof (intro allI impI)
  fix s0 g \<tau> and w :: "('b, 'd) world" assume "on_track s0 g \<tau> gid S w"
  then have "wp m (\<lambda>x. on_track s0 g \<tau> gid (M x)) (on_track s0 g \<tau> gid UNIV) w"
    using assms(1) by (simp add: moves_def)
  then show "wp m (\<lambda>x. wp (f x) (\<lambda>x. on_track s0 g \<tau> gid (T x)) (on_track s0 g \<tau> gid UNIV)) (on_track s0 g \<tau> gid UNIV) w"
    by (rule wp_mono) (use assms(2) in \<open>auto simp: moves_def\<close>)
qed

lemma moves_silent:
  assumes "silent m" and "\<And>x. S \<subseteq> T x"
  shows "moves gid S m T"
  unfolding moves_def wp_def
  using on_track_silent [OF assms(1)] assms(2)
  by (auto split: prod.split sum.split intro: on_track_mono) (metis on_track_mono snd_conv subset_UNIV)+

lemma moves_silent_bnd: "silent m \<Longrightarrow> (\<And>x. moves gid S (f x) T) \<Longrightarrow> moves gid S (bnd m f) T"
  by (rule moves_bnd [OF moves_silent]) auto

lemma moves_silent_seq: "silent m \<Longrightarrow> moves gid S n T \<Longrightarrow> moves gid S (seq m n) T"
  unfolding seq_def by (rule moves_silent_bnd)

lemma moves_seq: "moves gid S m (\<lambda>_. M) \<Longrightarrow> moves gid M n T \<Longrightarrow> moves gid S (seq m n) T"
  unfolding seq_def by (rule moves_bnd)

lemma moves_require_transition:
  assumes "validate_transition s t \<Longrightarrow> moves gid S n T"
  shows "moves gid S (seq (lift_result (require_transition s t)) n) T"
  using assms by (auto simp: moves_def wp_simps intro: on_track_mono)

lemma moves_require:
  assumes "c \<Longrightarrow> moves gid S n T"
  shows "moves gid S (seq (require c e) n) T"
  using assms by (auto simp: moves_def wp_simps intro: on_track_mono)

lemma moves_lift_bnd:
  assumes "\<And>x. r = Inr x \<Longrightarrow> moves gid S (f x) T"
  shows "moves gid S (bnd (lift_result r) f) T"
  using assms by (auto simp: moves_def wp_simps intro: on_track_mono split: sum.split)

lemma moves_ret: "S \<subseteq> T x \<Longrightarrow> moves gid S (ret x) T"
  by (auto simp: moves_def wp_simps intro: on_track_mono)

lemma moves_throw: "moves gid S (throw e) T"
  by (auto simp: moves_def wp_simps intro: on_track_mono)

lemma moves_pure: "(P \<Longrightarrow> moves gid S m T) \<Longrightarrow> moves gid {s \<in> S. P} m T"
  by (cases P) (auto simp: moves_def on_track_def)

lemma moves_split:
  "(c \<Longrightarrow> moves gid S m T) \<Longrightarrow> (\<not> c \<Longrightarrow> moves gid S n T) \<Longrightarrow> moves gid S (if c then m else n) T"
  "(o' = None \<Longrightarrow> moves gid S m T) \<Longrightarrow> (\<And>x. o' = Some x \<Longrightarrow> moves gid S (f x) T)
    \<Longrightarrow> moves gid S (case o' of None \<Rightarrow> m | Some x \<Rightarrow> f x) T"
  "(\<And>a b. p = (a, b) \<Longrightarrow> moves gid S (h a b) T) \<Longrightarrow> moves gid S (case p of (a, b) \<Rightarrow> h a b) T"
  by (simp_all split: option.split prod.split)

lemma moves_mono: "moves gid S m T \<Longrightarrow> S' \<subseteq> S \<Longrightarrow> (\<And>x. T x \<subseteq> T' x) \<Longrightarrow> moves gid S' m T'"
  unfolding moves_def
proof (intro allI impI, goal_cases)
  case (1 s0 g \<tau> w)
  then have "wp m (\<lambda>x. on_track s0 g \<tau> gid (T x)) (on_track s0 g \<tau> gid UNIV) w"
    using on_track_mono [OF 1(4,2)] by simp
  then show ?case by (rule wp_mono) (rule on_track_mono, assumption, rule 1(3))
qed

lemma on_track_step:
  assumes "on_track s0 g \<tau> gid S w" and "\<And>s. s \<in> S \<Longrightarrow> validate_transition\<^sup>*\<^sup>* s st"
    and "store_inv (w_store w')" and "state_of gid (w_store w') = Some st"
    and "\<And>h. h \<noteq> gid \<Longrightarrow> state_of h (w_store w') = state_of h (w_store w)"
  shows "on_track s0 g \<tau> gid {st} w'"
proof -
  obtain s where s: "s \<in> S" "state_of gid (w_store w) = Some s" using assms(1) by (auto simp: on_track_def)
  obtain t where t: "state_of g (w_store w) = Some t" "validate_transition\<^sup>*\<^sup>* s0 t"
    using assms(1) by (auto simp: on_track_def reached_state_of)
  have "\<exists>t'. state_of g (w_store w') = Some t' \<and> validate_transition\<^sup>*\<^sup>* s0 t'"
  proof (cases "g = gid")
    case True
    then show ?thesis using s t assms(2) [OF s(1)] assms(4) by (auto intro: rtranclp_trans)
  qed (use t assms(5) in simp)
  then show ?thesis using assms by (simp add: on_track_def reached_state_of)
qed

lemma moves_update:
  assumes "\<And>s. s \<in> S \<Longrightarrow> validate_transition\<^sup>*\<^sup>* s st"
  shows "moves gid S (store_update ex gid st u) (\<lambda>_. {st})"
  unfolding moves_def wp_simps
proof (intro allI impI, goal_cases)
  case (1 s0 g \<tau> w)
  then show ?case
    by (rule on_track_step) (use 1 assms in \<open>auto simp: on_track_def reached_def state_of_update update_store_inv\<close>)
qed

lemma moves_finish:
  assumes "\<And>s. s \<in> S \<Longrightarrow> validate_transition\<^sup>*\<^sup>* s st" and "silent n"
  shows "moves gid S (seq (store_update ex gid st u) n) (\<lambda>_. UNIV)"
  by (rule moves_seq [OF moves_update [OF assms(1)]]) (auto intro: moves_silent assms(2))

lemma moves_save:
  assumes "tg_group_id spec = gid" and "\<And>s. s \<in> S \<Longrightarrow> validate_transition\<^sup>*\<^sup>* s (sv_state a)"
  shows "moves gid S (store_save ex spec a) (\<lambda>_. {sv_state a})"
  unfolding moves_def wp_simps
proof (intro allI impI, goal_cases)
  case (1 s0 g \<tau> w)
  then show ?case
    by (rule on_track_step) (use 1 assms in \<open>auto simp: on_track_def reached_def state_of_save save_store_inv\<close>)
qed

lemma moves_reload:
  fixes f :: "grp \<Rightarrow> ('m, 'a) run"
  assumes "\<And>r. row_state r \<in> S \<Longrightarrow> tg_group_id (row_spec r) = gid \<Longrightarrow> moves gid {row_state r} (f r) T"
  shows "moves gid S (bnd (reload gid) f) T"
  unfolding moves_def reload_def
proof (intro allI impI)
  fix s0 g \<tau> and w :: "(broker_result, 'm mt5_state) world" assume t: "on_track s0 g \<tau> gid S w"
  then have inv: "store_inv (w_store w)" by (simp add: on_track_def reached_def)
  have "on_track s0 g \<tau> gid {row_state r} w \<and> row_state r \<in> S \<and> tg_group_id (row_spec r) = gid"
    if "load_group gid (w_store w) = Inr (Some r)" for r
    using t state_of_loaded [OF that] loaded_key [OF inv that] by (auto simp: on_track_def)
  then show "wp (bnd (bnd (gets w_store) (\<lambda>s. bnd (lift_result (load_group gid s)) (\<lambda>r.
       case r of None \<Rightarrow> throw (TypeError ''NoneType is not subscriptable'') | Some g \<Rightarrow> ret g))) f)
     (\<lambda>x. on_track s0 g \<tau> gid (T x)) (on_track s0 g \<tau> gid UNIV) w"
    using t assms by (auto simp: wp_simps moves_def intro: on_track_mono split: sum.split option.split)
qed

section \<open>The flows\<close>

lemma steps [simp]:
  "validate_transition OPENED TP1_FILLED" "validate_transition TP2_FILLED TP3_FILLED"
  "validate_transition COMPENSATION_CONFIRMED FAILED"
  "validate_transition PARTIAL_SUBMISSION COMPENSATION_REQUESTED"
  "validate_transition PARTIAL_SUBMISSION FAILED_WITH_OPEN_RISK"
  "validate_transition COMPENSATION_REQUESTED FAILED_WITH_OPEN_RISK"
  "validate_transition COMPENSATION_REQUESTED COMPENSATION_CONFIRMED"
  "validate_transition FAILED_WITH_OPEN_RISK COMPENSATION_REQUESTED"
  "validate_transition FAILED_WITH_OPEN_RISK COMPENSATION_CONFIRMED"
  "validate_transition VALIDATED REJECTED" "validate_transition VALIDATED SUBMITTED"
  by (simp_all add: transition_simps)

text \<open>The states with only one predecessor.\<close>

lemma single_source:
  "validate_transition s TP2_FILLED \<longleftrightarrow> s = BE_CONFIRMED" "validate_transition s TP3_FILLED \<longleftrightarrow> s = TP2_FILLED"
  "validate_transition s PARTIAL_SUBMISSION \<longleftrightarrow> s = SUBMITTED" "validate_transition s SUBMITTED \<longleftrightarrow> s = VALIDATED"
  "validate_transition s BE_REQUESTED \<longleftrightarrow> s = TP1_FILLED" "validate_transition s OPENED \<longleftrightarrow> s = SUBMITTED"
  by (cases s; simp add: transition_simps)+

lemma reaches:
  "s \<in> {SUBMITTED, PARTIAL_SUBMISSION} \<Longrightarrow> validate_transition\<^sup>*\<^sup>* s PARTIAL_SUBMISSION"
  "s \<in> {BE_REQUESTED, BE_RETRY} \<Longrightarrow> t \<in> {BE_CONFIRMED, BE_RETRY, FAILED} \<Longrightarrow> validate_transition\<^sup>*\<^sup>* s t"
  "s \<in> {COMPENSATION_REQUESTED, FAILED_WITH_OPEN_RISK} \<Longrightarrow>
     t \<in> {COMPENSATION_CONFIRMED, COMPENSATION_REQUESTED, FAILED_WITH_OPEN_RISK} \<Longrightarrow> validate_transition\<^sup>*\<^sup>* s t"
  by (auto intro: r_into_rtranclp simp: single_source transition_simps)

lemma moves_tp1_filled:
  assumes gid: "gid = tg_group_id (row_spec grp)" and S: "S \<subseteq> {SUBMITTED, OPENED}"
    and st: "row_state grp = SUBMITTED \<or> S \<subseteq> {OPENED}"
  shows "moves gid S (tp1_filled ex grp p bc) (\<lambda>g. {s. s = TP1_FILLED \<and> row_spec g = row_spec grp})"
proof -
  have first: "moves gid S (if row_state grp = SUBMITTED then
        seq (lift_result (require_transition SUBMITTED OPENED)) (store_update ex gid OPENED no_update) else ret ())
      (\<lambda>_. {OPENED})"
  proof (cases "row_state grp = SUBMITTED")
    case True
    then show ?thesis
      using S by (auto intro!: moves_require_transition moves_update)
  qed (use st in \<open>auto intro: moves_ret\<close>)
  show ?thesis
    unfolding tp1_filled_def Let_def gid [symmetric]
    by (rule moves_seq [OF first], rule moves_require_transition, rule moves_lift_bnd, rule moves_seq,
        rule moves_update, force, rule moves_seq, rule moves_save)
      (auto simp: gid dest!: with_actual_fill_group split: if_splits
        intro!: moves_silent_seq moves_ret silent_intros)
qed

lemma moves_tp2_filled:
  assumes "gid = tg_group_id (row_spec grp)"
  shows "moves gid {BE_CONFIRMED} (tp2_filled ex grp p bc) (\<lambda>g. {s. s = TP2_FILLED \<and> row_spec g = row_spec grp})"
  unfolding tp2_filled_def Let_def assms [symmetric]
  by (rule moves_require_transition, rule moves_seq, rule moves_update)
    (auto simp: single_source intro!: moves_silent_seq moves_ret silent_intros)

lemma moves_tp3_filled:
  assumes "gid = tg_group_id (row_spec grp)"
  shows "moves gid {TP2_FILLED} (tp3_filled ex grp p bc) (\<lambda>g. {s. s = RECONCILED \<and> row_spec g = row_spec grp})"
  unfolding tp3_filled_def Let_def assms [symmetric]
  by (rule moves_require_transition, rule moves_seq, rule moves_update, force, rule moves_seq, rule moves_update)
    (auto intro!: moves_silent_seq moves_ret silent_intros)

lemma moves_stop_group:
  assumes "gid = tg_group_id (row_spec grp)"
  shows "moves gid {row_state grp} (stop_group ex grp p) (\<lambda>_. UNIV)"
  unfolding stop_group_def Let_def assms [symmetric]
  by (rule moves_require_transition, rule moves_seq, rule moves_update)
    (auto intro!: moves_silent silent_intros)

lemma moves_open_group:
  assumes "gid = tg_group_id (row_spec grp)"
  shows "moves gid {SUBMITTED} (open_group ex grp i)
    (\<lambda>g. {s. s = OPENED \<and> row_spec g = row_spec grp \<and> row_state g = row_state grp})"
proof -
  have fill: "moves gid {SUBMITTED} (case vwap (in_positions i) of
       None \<Rightarrow> ret (row_spec grp)
     | Some f \<Rightarrow> if es_actual_fill (tg_entry (row_spec grp)) \<noteq> None then ret (row_spec grp)
        else seq (require (es_reference (tg_entry (row_spec grp)) \<noteq> 0) ZeroDivisionError)
          (lift_result (with_actual_fill (mx_fill_cfg ex) (row_spec grp) f)))
     (\<lambda>spec. {s \<in> {SUBMITTED}. tg_group_id spec = gid})"
    using assms
    by (auto simp: moves_def wp_simps on_track_def dest!: with_actual_fill_group split: option.split sum.split)
  show ?thesis
    unfolding open_group_def Let_def assms [symmetric]
    by (rule moves_require_transition, rule moves_silent_bnd, rule silent_intros, rule moves_silent_bnd,
        intro silent_intros, rule moves_bnd [OF fill], rule moves_pure, rule moves_seq, rule moves_update, force,
        rule moves_seq, rule moves_save)
      (auto intro!: moves_silent_seq moves_ret silent_intros)
qed

lemma moves_request_be:
  assumes "gid = tg_group_id (row_spec grp)"
  shows "moves gid {row_state grp} (request_be ex grp) (\<lambda>_. {BE_REQUESTED})"
  unfolding request_be_def Let_def assms [symmetric]
  by (rule moves_require_transition, rule moves_split, rule moves_throw, rule moves_silent_bnd, rule silent_intros,
      rule moves_lift_bnd, rule moves_split, rule moves_seq, rule moves_update)
    (auto intro!: moves_silent silent_intros)

lemma moves_be_retry:
  assumes "gid = tg_group_id (row_spec grp)" and "S \<subseteq> {BE_REQUESTED, BE_RETRY}"
  shows "moves gid S (be_retry ex grp e) (\<lambda>_. UNIV)"
  unfolding be_retry_def Let_def assms(1) [symmetric]
  by (rule moves_split; rule moves_seq, rule moves_update)
    (use assms(2) in \<open>auto intro!: moves_silent silent_intros reaches(2)\<close>)

lemma moves_verify_be:
  assumes "gid = tg_group_id (row_spec grp)" and "S \<subseteq> {BE_REQUESTED, BE_RETRY}"
  shows "moves gid S (verify_be ex grp) (\<lambda>_. UNIV)"
proof -
  have conf: "moves gid S (seq (store_update ex gid BE_CONFIRMED u) n) (\<lambda>_. UNIV)" if "silent n" for u n
    using assms(2) that by (intro moves_seq [OF moves_update] moves_silent reaches(2)) auto
  show ?thesis
    unfolding verify_be_def Let_def assms(1) [symmetric]
    by (rule moves_require, rule moves_silent_bnd, rule silent_intros, rule moves_lift_bnd, rule moves_silent_bnd,
        rule silent_intros, rule moves_silent_bnd, intro silent_intros)
      (auto split: option.split intro!: moves_be_retry assms conf silent_intros)
qed

lemma moves_open_risk:
  assumes "gid = tg_group_id spec" and "\<And>s. s \<in> S \<Longrightarrow> validate_transition\<^sup>*\<^sup>* s FAILED_WITH_OPEN_RISK"
  shows "moves gid S (open_risk ex spec cs refs reason) (\<lambda>_. UNIV)"
  unfolding open_risk_def assms(1) [symmetric]
  using assms(2)
  by (intro moves_silent_seq silent_intros moves_seq [OF moves_update] moves_silent) auto

lemma moves_begin_compensation:
  assumes "gid = tg_group_id (row_spec grp)" and "S \<subseteq> {SUBMITTED, PARTIAL_SUBMISSION}"
  shows "moves gid S (begin_compensation ex grp rej) (\<lambda>_. UNIV)"
  unfolding begin_compensation_def Let_def assms(1) [symmetric]
proof (rule moves_require_transition, rule moves_seq, rule moves_update [where st = PARTIAL_SUBMISSION], goal_cases)
  case (1 s)
  then show ?case using assms(2) by (intro reaches(1)) auto
next
  case 2
  show ?case
    by (rule moves_silent_seq, rule silent_intros, rule moves_silent_seq, rule silent_intros, rule moves_silent_bnd,
        rule silent_intros, rule moves_lift_bnd, rule moves_silent_bnd, rule silent_intros, rule moves_split;
        rule moves_finish)
      (auto intro!: silent_intros)
qed

lemma moves_confirm_compensation:
  assumes "gid = tg_group_id (row_spec grp)" and "\<And>s. s \<in> S \<Longrightarrow> validate_transition\<^sup>*\<^sup>* s COMPENSATION_CONFIRMED"
  shows "moves gid S (confirm_compensation ex grp d cs) (\<lambda>_. UNIV)"
  unfolding confirm_compensation_def Let_def assms(1) [symmetric]
  by (rule moves_silent_seq, rule silent_intros, rule moves_require_transition, rule moves_seq, rule moves_update,
      erule assms(2), rule moves_silent_seq, rule silent_intros, rule moves_require_transition, rule moves_seq,
      rule moves_update)
    (auto intro!: moves_silent silent_intros)

lemma moves_verify_closed:
  assumes "gid = tg_group_id (row_spec grp)" and "S \<subseteq> {COMPENSATION_REQUESTED, FAILED_WITH_OPEN_RISK}"
  shows "moves gid S (verify_closed ex grp d cs) (\<lambda>_. UNIV)"
proof -
  have S: "validate_transition\<^sup>*\<^sup>* s COMPENSATION_CONFIRMED \<and> validate_transition\<^sup>*\<^sup>* s COMPENSATION_REQUESTED
      \<and> validate_transition\<^sup>*\<^sup>* s FAILED_WITH_OPEN_RISK" if "s \<in> S" for s
    using that assms(2) by (auto intro!: reaches(3))
  show ?thesis
    unfolding verify_closed_def Let_def assms(1) [symmetric]
    by (rule moves_silent_bnd, rule silent_intros, rule moves_split, rule moves_split, rule moves_open_risk,
        rule assms, simp add: S, rule moves_finish, simp add: S, rule silent_intros, rule moves_confirm_compensation)
      (auto simp: assms S)
qed

lemma moves_verify_compensation:
  assumes "S \<subseteq> {COMPENSATION_REQUESTED, FAILED_WITH_OPEN_RISK}"
  shows "moves gid S (verify_compensation ex gid) (\<lambda>_. UNIV)"
  unfolding verify_compensation_def Let_def
proof (rule moves_reload, goal_cases)
  case (1 r)
  have risk: "validate_transition\<^sup>*\<^sup>* (row_state r) FAILED_WITH_OPEN_RISK \<and> validate_transition\<^sup>*\<^sup>* (row_state r) COMPENSATION_REQUESTED"
    and S: "{row_state r} \<subseteq> {COMPENSATION_REQUESTED, FAILED_WITH_OPEN_RISK}"
    using 1(1) assms by (auto intro!: reaches(3))
  show ?case
    by (rule moves_silent_bnd, rule silent_intros, rule moves_split, rule moves_verify_closed, use 1 in simp, rule S,
        rule moves_split, rule moves_open_risk, use 1 in simp, use risk in simp, rule moves_silent_bnd,
        rule silent_intros, rule moves_split, rule moves_split, rule moves_open_risk, use 1 in simp, use risk in simp,
        rule moves_seq, rule moves_update, use risk in simp, rule moves_verify_closed)
      (use 1 in auto)
qed

lemma moves_update_volume:
  assumes "gid = tg_group_id (row_spec grp)"
  shows "moves gid S (update_volume_after_close ex grp leg v) (\<lambda>_. S)"
  unfolding update_volume_after_close_def Let_def assms [symmetric]
  by (rule moves_reload, rule moves_mono, rule moves_update [of "{row_state r}" "row_state r" for r]) auto

text \<open>What a partial close turns the state into, by leg.\<close>

lemma moves_netting_close_leg:
  assumes gid: "gid = tg_group_id (row_spec grp)"
    and leg: "(leg, st, st') \<in> {(1, OPENED, TP1_FILLED), (2, BE_CONFIRMED, TP2_FILLED), (3, TP2_FILLED, RECONCILED)}"
  shows "moves gid {st} (netting_close_leg ex grp leg action) (\<lambda>ok. {if ok then st' else st})"
proof -
  have tp: "moves gid {st} (if leg = 1 then tp1_filled ex grp p False else if leg = 2 then tp2_filled ex grp p False
      else tp3_filled ex grp p False) (\<lambda>_. {st'})" for p
  proof -
    have "moves gid {OPENED} (tp1_filled ex grp p False) (\<lambda>_. {TP1_FILLED})"
      by (rule moves_mono [OF moves_tp1_filled [OF gid, of "{OPENED}"]]) auto
    moreover have "moves gid {BE_CONFIRMED} (tp2_filled ex grp p False) (\<lambda>_. {TP2_FILLED})"
      by (rule moves_mono [OF moves_tp2_filled [OF gid]]) auto
    moreover have "moves gid {TP2_FILLED} (tp3_filled ex grp p False) (\<lambda>_. {RECONCILED})"
      by (rule moves_mono [OF moves_tp3_filled [OF gid]]) auto
    ultimately show ?thesis using leg by auto
  qed
  show ?thesis
    unfolding netting_close_leg_def Let_def gid [symmetric]
    by (rule moves_silent_bnd, rule silent_intros, rule moves_split, rule moves_ret, simp, rule moves_silent_bnd,
        rule silent_intros, rule moves_split, rule moves_silent_bnd, rule silent_intros, rule moves_silent_seq,
        intro silent_intros, rule moves_ret, simp, rule moves_silent_bnd, rule silent_intros, rule moves_silent_bnd,
        rule silent_intros, rule moves_split, rule moves_silent_seq, rule silent_intros, rule moves_ret, simp,
        rule moves_silent_seq, rule silent_intros, rule moves_seq, rule moves_update_volume, rule gid, rule moves_seq,
        rule tp, rule moves_ret, simp)
qed

text \<open>A phase that continues reports the state of the group and keeps its identity.\<close>

definition continues :: "string \<Rightarrow> phase \<Rightarrow> group_state set" where
  "continues gid r = (case r of Inl _ \<Rightarrow> UNIV | Inr (_, st, g) \<Rightarrow> {s. s = st \<and> tg_group_id (row_spec g) = gid})"

lemma continues_Inr: "continues gid (Inr (events, st, g)) = {s \<in> {st}. tg_group_id (row_spec g) = gid}"
  by (auto simp: continues_def)

lemma moves_and_then:
  assumes "moves gid S m (continues gid)"
    and "\<And>events st g. tg_group_id (row_spec g) = gid \<Longrightarrow> moves gid {st} (f (events, st, g)) (\<lambda>_. UNIV)"
  shows "moves gid S (and_then m f) (\<lambda>_. UNIV)"
  unfolding and_then_def
proof (rule moves_bnd [OF assms(1)])
  fix r show "moves gid (continues gid r) (case r of Inl events \<Rightarrow> ret events | Inr c \<Rightarrow> f c) (\<lambda>_. UNIV)"
  proof (cases r)
    case (Inr c)
    then show ?thesis
      by (cases c) (simp only: continues_Inr sum.case, rule moves_pure, rule assms(2))
  qed (auto intro: moves_ret)
qed

lemma moves_stay: "tg_group_id (row_spec g) = gid \<Longrightarrow> moves gid {st} (ret (Inr (events, st, g))) (continues gid)"
  by (rule moves_ret) (simp add: continues_Inr)

lemma moves_end: "moves gid S (ret (Inl events)) (continues gid)"
  by (rule moves_ret) (simp add: continues_def)

lemma moves_closure_phase:
  assumes gid: "gid = tg_group_id (row_spec grp)"
  shows "moves gid {row_state grp} (closure_phase ex grp i) (continues gid)"
proof -
  have tp: "moves gid S (seq (mark ex gid a p) (bnd m (\<lambda>g. ret (Inr (ev, st, g))))) (continues gid)"
    if "moves gid S m (\<lambda>g. {s. s = st \<and> row_spec g = row_spec grp})" for S a p m ev st
    by (rule moves_silent_seq, rule silent_intros, rule moves_bnd, rule that, rule moves_ret)
      (auto simp: continues_Inr gid)
  show ?thesis
    unfolding closure_phase_def Let_def gid [symmetric]
    by (rule moves_silent_bnd, rule silent_intros)
      (auto split: list.split simp: gid [symmetric] intro!: moves_stay moves_silent_seq silent_intros
        moves_bnd [OF moves_stop_group [OF gid]] moves_end tp moves_tp1_filled moves_tp2_filled moves_tp3_filled)
qed

lemma moves_submitted_phase:
  assumes gid: "tg_group_id (row_spec g) = gid"
  shows "moves gid {st} (submitted_phase ex i (events, st, g)) (continues gid)"
proof -
  have "moves gid {SUBMITTED} (bnd (open_group ex g i) (\<lambda>g'. ret (Inr (ev, OPENED, g')))) (continues gid)" for ev
    by (rule moves_bnd, rule moves_open_group, simp add: gid, rule moves_ret) (auto simp: continues_Inr gid)
  then show ?thesis
    using gid
    by (auto simp: submitted_phase_def intro!: moves_stay moves_bnd [OF moves_begin_compensation] moves_end)
qed

lemma moves_compensation_phase:
  assumes gid: "tg_group_id (row_spec g) = gid"
  shows "moves gid {st} (compensation_phase ex (events, st, g)) (continues gid)"
  using gid
  by (auto simp: compensation_phase_def intro!: moves_stay moves_bnd [OF moves_begin_compensation]
      moves_bnd [OF moves_verify_compensation] moves_end)

lemma moves_netting_phase:
  assumes gid: "tg_group_id (row_spec g) = gid"
  shows "moves gid {st} (netting_phase ex d (events, st, g)) (continues gid)"
proof -
  have leg: "moves gid {a} (bnd (netting_close_leg ex g leg action)
       (\<lambda>ok. ret (Inr (if ok then (events @ [ev], b, g) else (events, a, g))))) (continues gid)"
    if "(leg, a, b) \<in> {(1, OPENED, TP1_FILLED), (2, BE_CONFIRMED, TP2_FILLED), (3, TP2_FILLED, RECONCILED)}"
    for leg a b action ev
    by (rule moves_bnd, rule moves_netting_close_leg [OF _ that], simp add: gid, rule moves_ret)
      (auto simp: continues_Inr gid)
  show ?thesis
    unfolding netting_phase_def Let_def prod.case
    by (rule moves_split, rule moves_stay [OF gid], rule moves_silent_bnd, rule silent_intros, rule moves_split,
        rule moves_end)
      (auto intro!: leg moves_stay gid)
qed

lemma moves_be_phase: "moves gid {st} (be_phase ex gid (events, st)) (\<lambda>_. UNIV)"
proof -
  have req: "moves gid {st} (if st = TP1_FILLED then
        bnd (reload gid) (\<lambda>g. bnd (request_be ex g) (\<lambda>e. ret (events @ [e], BE_REQUESTED)))
      else ret (events, st)) (\<lambda>(ev, st'). {st'})"
    by (rule moves_split, rule moves_reload, rule moves_bnd, rule moves_request_be, simp, rule moves_ret, simp)
      (rule moves_ret, simp)
  show ?thesis
    unfolding be_phase_def prod.case
    by (rule moves_bnd [OF req], rule moves_split, rule moves_split, rule moves_reload, rule moves_bnd,
        rule moves_verify_be, simp, simp)
      (auto intro: moves_ret)
qed

lemma moves_advance_group:
  assumes "gid = tg_group_id (row_spec grp)"
  shows "moves gid {row_state grp} (advance_group ex grp) (\<lambda>_. UNIV)"
  unfolding advance_group_def assms [symmetric]
  by (rule moves_silent_bnd, rule silent_intros, rule moves_silent_bnd, rule silent_intros, rule moves_and_then,
      rule moves_closure_phase, rule assms, rule moves_and_then, erule moves_submitted_phase, rule moves_and_then,
      erule moves_compensation_phase, rule moves_and_then, erule moves_netting_phase, simp only: prod.case,
      rule moves_bnd, rule moves_be_phase)
    (auto intro!: moves_silent silent_intros)

section \<open>Calls and runs\<close>

lemma moves_reached:
  assumes "moves gid {row_state r} m T" and "reached s0 g (w_store w)" and "load_group gid (w_store w) = Inr (Some r)"
  shows "reached s0 g (w_store (snd (m w)))"
proof -
  have "on_track s0 g (\<lambda>h. state_of h (w_store w)) gid {row_state r} w"
    using assms(2,3) by (simp add: on_track_def state_of_loaded)
  then have "wp m (\<lambda>x. on_track s0 g (\<lambda>h. state_of h (w_store w)) gid (T x)) (on_track s0 g (\<lambda>h. state_of h (w_store w)) gid UNIV) w"
    using assms(1) by (simp add: moves_def)
  then have "wp m (\<lambda>_ w. reached s0 g (w_store w)) (\<lambda>w. reached s0 g (w_store w)) w"
    by (rule wp_mono) (simp_all add: on_track_def)
  then show ?thesis by (simp add: wp_snd)
qed

lemma load_all_Inr: "load_all ks s = Inr rs \<Longrightarrow> list_all2 (\<lambda>k r. load_group k s = Inr r) ks rs"
  by (induction ks arbitrary: rs) (auto simp: rbind_Inr)

lemma list_all2_Some:
  assumes "list_all2 (\<lambda>k r. \<exists>r'. r = Some r' \<and> f r' = k \<and> P r') ks gs"
  shows "\<exists>rs. gs = map Some rs \<and> map f rs = ks \<and> (\<forall>r \<in> set rs. P r)"
  using assms
proof (induction ks gs rule: list_all2_induct)
  case (Cons k ks r gs)
  then obtain r' rs where "r = Some r'" "f r' = k" "P r'" "gs = map Some rs" "map f rs = ks" "\<forall>r \<in> set rs. P r"
    by blast
  then show ?case by (intro exI [of _ "r' # rs"]) simp
qed simp

text \<open>The rows a poll works on: all present, with distinct identifiers, in their stored states.\<close>

lemma list_groups_rows:
  assumes "store_inv s" and "list_groups None s = Inr gs"
  obtains rs where "gs = map Some rs" and "distinct (map (\<lambda>r. tg_group_id (row_spec r)) rs)"
    and "\<forall>r \<in> set rs. state_of (tg_group_id (row_spec r)) s = Some (row_state r)"
proof -
  have "list_all2 (\<lambda>k r. load_group k s = Inr r) (map fst (gs_groups s)) gs"
    using assms(2) by (intro load_all_Inr) (simp add: list_groups_def case_prod_beta)
  moreover have "\<exists>r'. r = Some r' \<and> tg_group_id (row_spec r') = k \<and> state_of (tg_group_id (row_spec r')) s = Some (row_state r')"
    if "k \<in> set (map fst (gs_groups s))" "load_group k s = Inr r" for k r
  proof (cases r)
    case None
    then show ?thesis using that by (auto simp: load_group_None map_of_eq_None_iff)
  next
    case (Some r')
    then show ?thesis using that(2) loaded_key [OF assms(1)] state_of_loaded by auto
  qed
  ultimately have "list_all2 (\<lambda>k r. \<exists>r'. r = Some r' \<and> tg_group_id (row_spec r') = k
      \<and> state_of (tg_group_id (row_spec r')) s = Some (row_state r')) (map fst (gs_groups s)) gs"
    by (auto simp: list_all2_conv_all_nth)
  from list_all2_Some [OF this] show thesis using that assms(1) by (auto simp: store_inv_def)
qed

lemma poll_groups_reached:
  fixes w :: "(broker_result, 'm mt5_state) world"
  assumes "distinct (map (\<lambda>r. tg_group_id (row_spec r)) rs)"
    and "\<forall>r \<in> set rs. state_of (tg_group_id (row_spec r)) (w_store w) = Some (row_state r)"
    and "reached s0 g (w_store w)"
  shows "wp (poll_groups ex (map Some rs)) (\<lambda>_ w. reached s0 g (w_store w)) (\<lambda>w. reached s0 g (w_store w)) w"
  using assms
proof (induction rs arbitrary: w)
  case (Cons r rs)
  let ?gid = "tg_group_id (row_spec r)"
  let ?I = "\<lambda>w'. reached s0 g (w_store w') \<and> (\<forall>h. h \<noteq> ?gid \<longrightarrow> state_of h (w_store w') = state_of h (w_store w))"
  have "on_track s0 g (\<lambda>h. state_of h (w_store w)) ?gid {row_state r} w" using Cons.prems by (simp add: on_track_def)
  then have "wp (advance_group ex r) (\<lambda>_. on_track s0 g (\<lambda>h. state_of h (w_store w)) ?gid UNIV)
      (on_track s0 g (\<lambda>h. state_of h (w_store w)) ?gid UNIV) w"
    using moves_advance_group [OF refl, of r ex] by (simp add: moves_def)
  then have "wp (advance_group ex r) (\<lambda>_. ?I) ?I w" by (rule wp_mono) (simp_all add: on_track_def)
  then have "wp (if polled r then advance_group ex r else ret []) (\<lambda>_. ?I) ?I w"
    using Cons.prems by (simp add: wp_simps)
  then show ?case
    unfolding list.map poll_groups.simps wp_bnd
  proof (rule wp_mono)
    fix w' :: "(broker_result, 'm mt5_state) world" assume i: "?I w'"
    have "\<forall>q \<in> set rs. state_of (tg_group_id (row_spec q)) (w_store w') = Some (row_state q)"
    proof
      fix q assume q: "q \<in> set rs"
      then have "tg_group_id (row_spec q) \<noteq> ?gid" using Cons.prems(1) by (auto simp: image_iff)
      then show "state_of (tg_group_id (row_spec q)) (w_store w') = Some (row_state q)"
        using i q Cons.prems(2) by simp
    qed
    then have "wp (poll_groups ex (map Some rs)) (\<lambda>_ w. reached s0 g (w_store w)) (\<lambda>w. reached s0 g (w_store w)) w'"
      using Cons i by simp
    then show "wp (poll_groups ex (map Some rs)) (\<lambda>x. wp (ret (es @ x)) (\<lambda>_ w. reached s0 g (w_store w))
        (\<lambda>w. reached s0 g (w_store w))) (\<lambda>w. reached s0 g (w_store w)) w'" for es
      by (rule wp_mono) (simp_all add: wp_simps)
  qed simp
qed (simp add: wp_simps)

lemma keeps_reached_poll: "keeps (\<lambda>w. reached s0 g (w_store w)) (poll_once ex)"
proof (rule keeps_wp)
  fix w :: "(broker_result, 'a mt5_state) world" assume r: "reached s0 g (w_store w)"
  then have inv: "store_inv (w_store w)" by (simp add: reached_def)
  show "wp (poll_once ex) (\<lambda>_ w. reached s0 g (w_store w)) (\<lambda>w. reached s0 g (w_store w)) w"
  proof (cases "list_groups None (w_store w)")
    case (Inr gs)
    then show ?thesis
      using list_groups_rows [OF inv Inr] poll_groups_reached [OF _ _ r, of _ ex]
      by (auto simp: poll_once_def wp_simps)
  qed (use r in \<open>simp add: poll_once_def wp_simps\<close>)
qed

lemma moves_catch:
  fixes m :: "(('b, 'd) world, 'a) comp"
  assumes "silent m" and "\<And>x. S \<subseteq> T x" and "\<And>e k. h e = Some k \<Longrightarrow> moves gid S k T"
  shows "moves gid S (catch m h) T"
  unfolding moves_def
proof (intro allI impI)
  fix s0 g \<tau> and w :: "('b, 'd) world" assume t: "on_track s0 g \<tau> gid S w"
  then have t': "on_track s0 g \<tau> gid S (snd (m w))" using assms(1) by (rule on_track_silent [rotated])
  have "wp m (\<lambda>x. on_track s0 g \<tau> gid (T x)) (on_track s0 g \<tau> gid S) w"
    using t' on_track_mono [OF t' assms(2)] by (simp add: wp_def case_prod_beta split: sum.split)
  then show "wp (catch m h) (\<lambda>x. on_track s0 g \<tau> gid (T x)) (on_track s0 g \<tau> gid UNIV) w"
    by (intro wp_catch, elim wp_mono) (use assms(3) in \<open>auto simp: moves_def intro: on_track_mono\<close>)
qed

lemma moves_reject_group:
  "tg_group_id spec = gid \<Longrightarrow> moves gid {VALIDATED} (reject_group ex spec code detail) (\<lambda>_. {REJECTED})"
  unfolding reject_group_def
  by (rule moves_require_transition, rule moves_seq, rule moves_save) (auto intro!: moves_silent silent_intros)

lemma moves_rejecting:
  assumes "silent m" and "tg_group_id spec = gid"
  shows "moves gid {VALIDATED} (rejecting ex spec reason m) (\<lambda>_. {VALIDATED})"
  unfolding rejecting_def
  by (rule moves_catch [OF assms(1)])
    (auto intro!: moves_seq [OF moves_reject_group [OF assms(2)]] moves_throw)

lemma moves_prepare:
  "tg_group_id spec = gid \<Longrightarrow> moves gid {VALIDATED} (prepare_submission ex spec) (\<lambda>_. {VALIDATED})"
  unfolding prepare_submission_def
  by (rule moves_seq, rule moves_rejecting, rule silent_intros, assumption, rule moves_silent_bnd, rule silent_intros,
      rule moves_silent_bnd, rule silent_intros, rule moves_lift_bnd, rule moves_seq, rule moves_rejecting,
      intro silent_intros, assumption, rule moves_seq, rule moves_rejecting, intro silent_intros, assumption)
    (auto intro: moves_ret)

lemma moves_send_group:
  assumes "tg_group_id (row_spec current) = gid"
  shows "moves gid {VALIDATED} (send_group ex gid current d intent) (\<lambda>_. UNIV)"
  unfolding send_group_def Let_def
  by (rule moves_silent_bnd, rule silent_intros, rule moves_seq, rule moves_update, force, rule moves_seq, rule moves_save)
    (auto simp: assms intro!: moves_silent silent_intros)

lemma keeps_on_paper:
  assumes "keeps (\<lambda>w. P (w_store w)) m"
  shows "keeps (\<lambda>w. P (w_store w)) (on_paper m)"
proof (rule keepsI)
  fix w :: "(broker_result, 'm mt5_state) world" assume p: "P (w_store w)"
  have "P (w_store (snd (m \<lparr>w_store = w_store w, w_ledger = w_ledger w, w_drv = p', w_reads = w_reads w\<rparr>)))" for p'
    using p by (intro keepsD [OF assms]) simp
  then show "P (w_store (snd (on_paper m w)))"
    using p by (simp add: on_paper_def case_prod_beta split: option.split)
qed

lemma keeps_reached_mt5_submit: "keeps (\<lambda>w. reached s0 g (w_store w)) (mt5_submit_group ex gid)"
proof (rule keepsI)
  fix w :: "(broker_result, 'a mt5_state) world" assume r: "reached s0 g (w_store w)"
  show "reached s0 g (w_store (snd (mt5_submit_group ex gid w)))"
  proof (cases "load_group gid (w_store w)")
    case (Inr o')
    show ?thesis
    proof (cases o')
      case (Some current)
      note ld = Inr [unfolded Some]
      have key: "tg_group_id (row_spec current) = gid" using r by (intro loaded_key [OF _ ld]) (simp add: reached_def)
      have "moves gid {row_state current} (submit_demo ex gid current) (\<lambda>_. UNIV)"
        unfolding submit_demo_def Let_def
        by (rule moves_require_transition, simp only: single_source, rule moves_bnd, rule moves_prepare, rule key,
            rule moves_split, rule moves_split, rule moves_silent_bnd, rule silent_intros, rule moves_split,
            rule moves_seq, rule moves_reject_group, rule key, rule moves_ret, simp, rule moves_split, rule moves_split,
            rule moves_seq, rule moves_reject_group, rule key, rule moves_ret, simp, rule moves_silent_bnd,
            rule silent_intros, rule moves_require, rule moves_send_group, rule key)
      from moves_reached [OF this r ld] have "reached s0 g (w_store (snd (submit_demo ex gid current w)))" .
      moreover have "reached s0 g (w_store (snd (on_paper (submit_group (paper_executor ex) gid) w)))"
        using r by (intro keepsD [OF keeps_on_paper [OF keeps_reached_submit]])
      ultimately show ?thesis
        using r by (simp add: mt5_submit_group_def Let_def ld bnd_run seq_run run_simps split: sum.split)
    qed (use r in \<open>simp add: mt5_submit_group_def Inr bnd_run run_simps\<close>)
  qed (use r in \<open>simp add: mt5_submit_group_def bnd_run run_simps\<close>)
qed

text \<open>The public methods as operations of a run.\<close>

datatype mt5_op = MCreate trade_group_spec | MSubmit string | MPoll | MRecover string | MShutdown

fun mt5_call :: "'m mt5_executor \<Rightarrow> mt5_op \<Rightarrow> ('m, unit) run" where
  "mt5_call ex (MCreate spec) = seq (mt5_create_group ex spec) (ret ())"
| "mt5_call ex (MSubmit gid) = seq (mt5_submit_group ex gid) (ret ())"
| "mt5_call ex MPoll = seq (poll_once ex) (ret ())"
| "mt5_call ex (MRecover gid) = seq (mt5_recover_after_restart ex gid) (ret ())"
| "mt5_call ex MShutdown = seq (shutdown ex) (ret ())"

definition mt5_step ::
  "'m mt5_executor \<Rightarrow> mt5_op \<Rightarrow> (broker_result, 'm mt5_state) world \<Rightarrow> (broker_result, 'm mt5_state) world" where
  "mt5_step ex x w = snd (mt5_call ex x w)"

fun mt5_recreates :: "string \<Rightarrow> mt5_op \<Rightarrow> bool" where
  "mt5_recreates gid (MCreate spec) \<longleftrightarrow> tg_group_id spec = gid"
| "mt5_recreates gid _ \<longleftrightarrow> False"

lemma keeps_silent_reached: "silent m \<Longrightarrow> keeps (\<lambda>w. reached s0 g (w_store w)) m"
  by (simp add: keeps_def reached_state_of silent_def)

lemma keeps_drv_writes [keeps_intros]:
  "keeps (\<lambda>w. P (w_store w)) start_paper" "keeps (\<lambda>w. P (w_store w)) (set_shutdown events)"
  "keeps (\<lambda>w. Q (w_ledger w)) start_paper" "keeps (\<lambda>w. Q (w_ledger w)) (set_shutdown events)"
  by (simp_all add: start_paper_def set_shutdown_def keeps_def py_simps)

lemma keeps_attempt [keeps_intros]: "keeps P m \<Longrightarrow> keeps P (attempt m)"
  unfolding attempt_def by (rule keeps_catch) (auto intro: keeps_intros)

lemma keeps_notify [keeps_intros]:
  "keeps (\<lambda>w. P (w_store w)) (notify ex n)" "keeps (\<lambda>w. Q (w_ledger w)) (notify ex n)"
  by (simp_all add: notify_def keeps_def split: option.split sum.split)

lemma keeps_seq_ret: "keeps P (seq m (ret u)) = keeps P m"
proof -
  have "snd (seq m (ret u) s) = snd (m s)" for s by (simp add: seq_run run_simps split: sum.split)
  then show ?thesis by (simp add: keeps_def)
qed

lemma keeps_reached_mt5_call:
  assumes "\<not> mt5_recreates g x"
  shows "keeps (\<lambda>w. reached s0 g (w_store w)) (mt5_call ex x)"
proof (cases x)
  case (MCreate spec)
  have "reached s0 g (save_group sha now spec a s)" if "reached s0 g s" for sha now a s
    using that assms MCreate by (auto simp: reached_def save_rows save_store_inv split: option.splits)
  then have "keeps (\<lambda>w. reached s0 g (w_store w)) (store_save ex' spec a)" for ex' :: "'x io_env_scheme" and a :: "broker_result save_args"
    by (rule keeps_store_writes)
  moreover have "keeps (\<lambda>w. reached s0 g (w_store w)) (on_paper (create_group (paper_executor ex) spec))"
    using assms MCreate keeps_reached_call [of "Create spec" g s0 "paper_executor ex"]
    by (intro keeps_on_paper) (auto simp: keeps_seq_ret)
  ultimately show ?thesis
    by (auto simp: MCreate mt5_create_group_def emit_def intro!: keeps_intros)
next
  case (MRecover gid)
  have "silent (mt5_recover_after_restart ex gid)"
    unfolding mt5_recover_after_restart_def Let_def by (intro silent_intros)
  then show ?thesis by (auto simp: MRecover keeps_seq_ret intro!: keeps_silent_reached)
next
  case MShutdown
  then show ?thesis
    by (auto simp: shutdown_def Let_def intro!: keeps_intros keeps_reached_poll)
qed (auto intro!: keeps_intros keeps_reached_mt5_submit keeps_reached_poll)

lemma mt5_run_reached:
  "list_all (\<lambda>x. \<not> mt5_recreates g x) ops \<Longrightarrow> reached s0 g (w_store w)
    \<Longrightarrow> reached s0 g (w_store (run_steps (mt5_step ex) ops w))"
proof (induction ops arbitrary: w)
  case (Cons x ops)
  then have "keeps (\<lambda>w. reached s0 g (w_store w)) (mt5_call ex x)" by (intro keeps_reached_mt5_call) auto
  from keepsD [OF this] Cons show ?case by (simp add: mt5_step_def)
qed simp

section \<open>The ledger and the actions\<close>

text \<open>What every write of the store and every append keep, every method keeps: the store writes and the
  appends are the only ones.\<close>

locale world_invariant =
  fixes I :: "(broker_result, 'm mt5_state) world \<Rightarrow> bool" and ex :: "'m mt5_executor"
  assumes I_drv: "I w \<Longrightarrow> I (w\<lparr>w_drv := d\<rparr>)"
    and I_reads: "I w \<Longrightarrow> I (w\<lparr>w_reads := n\<rparr>)"
    and I_append: "ea_observed_at_utc_ms a = None \<Longrightarrow> keeps I (append_args ex a)"
    and I_update: "I w \<Longrightarrow> I (w\<lparr>w_store := update_group_state now gid st u (w_store w)\<rparr>)"
    and I_save: "I w \<Longrightarrow> I (w\<lparr>w_store := save_group sha now spec a' (w_store w)\<rparr>)"
    and I_mark: "I w \<Longrightarrow> I (w\<lparr>w_store := snd (mark_action now gid aid p (w_store w))\<rparr>)"
    and I_paper: "keeps I (on_paper (create_group (paper_executor ex) spec))"
      "keeps I (on_paper (submit_group (paper_executor ex) gid))"
begin

lemma basics:
  "keeps I (read_clock e)" "keeps I (on_session m)" "keeps I (notify ex n)" "keeps I (store_update e gid st u)"
  "keeps I (store_save e spec a)" "keeps I (mark e gid aid p)" "keeps I start_paper" "keeps I (set_shutdown events)"
proof -
  have store: "I (w\<lparr>w_reads := n, w_store := f (w_store w)\<rparr>)" if "I w" "\<And>w. I w \<Longrightarrow> I (w\<lparr>w_store := f (w_store w)\<rparr>)" for w n f
    using that(2) [OF I_reads [OF that(1), of n]] by simp
  show r: "keeps I (read_clock e)" by (simp add: keeps_def read_clock_def I_reads)
  show "keeps I (on_session m)" by (simp add: keeps_def on_session_def on_driver_def case_prod_beta I_drv)
  show "keeps I (notify ex n)" by (simp add: keeps_def notify_def I_reads split: option.split sum.split)
  show "keeps I (store_update e gid st u)"
    by (rule keeps_wp) (simp add: wp_simps store I_update)
  show "keeps I (store_save e spec a)"
    by (rule keeps_wp) (simp add: wp_simps store I_save)
  show "keeps I (mark e gid aid p)"
    unfolding mark_def by (rule keeps_bnd [OF r]) (simp add: keeps_def on_store_def case_prod_beta I_mark)
  show "keeps I start_paper" "keeps I (set_shutdown events)"
    by (simp_all add: start_paper_def set_shutdown_def keeps_def py_simps I_drv)
qed

declare basics [keeps_intros]

lemma appends [keeps_intros]:
  "keeps I (emit ex spec et reason p)" "keeps I (append_leg_event ex spec et leg r v)"
  "keeps I (append_args ex (tp_event spec et leg price bc b a))"
  "keeps I (append_args ex (with_source so st si (mt5_event spec et leg' reason p)))"
  "keeps I (emit_execution_error ex spec reason' p leg')" "keeps I (append_args ex (orphan_event now pos))"
  "keeps I (append_args ex (shutdown_event ok events))"
  by (auto simp: emit_def append_leg_event_def emit_execution_error_def tp_event_def with_source_def mt5_event_def
      event_of_def orphan_event_def shutdown_event_def Let_def intro!: I_append)

lemma keeps_case_sum: "(\<And>a. keeps I (f a)) \<Longrightarrow> (\<And>b. keeps I (h b)) \<Longrightarrow> keeps I (case r of Inl a \<Rightarrow> f a | Inr b \<Rightarrow> h b)"
  by (cases r) simp_all

lemma queries [keeps_intros]:
  "keeps I (with_context ex f)" "keeps I (resolve_driver ex)" "keeps I (require_demo_account ex)"
  "keeps I (reload gid)" "keeps I (deals_of d ts)" "keeps I (inspect_group d grp)" "keeps I (try_snapshot ex symbol)"
  "keeps I (detect_orphan_positions ex d)" "keeps I (netting_close_volume ex grp leg)"
  "keeps I (compensation_ticket d grp l)" "keeps I (ticket_position d ticket)"
proof -
  show c: "keeps I (with_context ex f)" for f :: "'m mt5_api \<Rightarrow> ('m, 'x) comp"
    unfolding with_context_def by (intro keeps_intros)
  show t: "keeps I (try_snapshot ex symbol)" for symbol
    unfolding try_snapshot_def
    by (rule keeps_catch, intro keeps_intros c) (auto simp: unavailable_is_none_def intro: keeps_intros split: pyexc.splits)
  show r: "keeps I (resolve_driver ex)" "keeps I (require_demo_account ex)" "keeps I (reload gid)"
    unfolding resolve_driver_def require_demo_account_def reload_def by (intro keeps_intros)+
  show d: "keeps I (deals_of d ts)" for ts by (induction ts) (auto intro!: keeps_intros)
  show "keeps I (inspect_group d grp)" "keeps I (detect_orphan_positions ex d)" "keeps I (netting_close_volume ex grp leg)"
    "keeps I (compensation_ticket d grp l)" "keeps I (ticket_position d ticket)"
    unfolding inspect_group_def detect_orphan_positions_def netting_close_volume_def compensation_ticket_def
      ticket_position_def Let_def
    by (intro keeps_intros r d t)+
qed

lemma loops [keeps_intros]:
  "keeps I (protect_legs ex gid d q xs)" "keeps I (confirm_legs d q rs)" "keeps I (compensate_all ex d gid refs acc)"
  "keeps I (retry_all ex d grp ls acc')" "keeps I (pending_refs d grp ls)" "keeps I (mt5_submit_legs ex d spec vs)"
proof -
  show "keeps I (protect_legs ex gid d q xs)"
  proof (induction xs)
    case (Cons x xs)
    then show ?case by (cases x) (auto simp: Let_def intro!: keeps_intros)
  qed (simp add: keeps_intros)
  show "keeps I (confirm_legs d q rs)" by (induction rs) (auto intro!: keeps_intros)
  show "keeps I (compensate_all ex d gid refs acc)"
    by (induction refs arbitrary: acc) (auto simp: compensate_one_def split: prod.split intro!: keeps_intros)
  show "keeps I (retry_all ex d grp ls acc')"
    by (induction ls arbitrary: acc') (auto simp: retry_one_def Let_def split: prod.split intro!: keeps_intros)
  show "keeps I (pending_refs d grp ls)" by (induction ls) (auto intro!: keeps_intros)
  show "keeps I (mt5_submit_legs ex d spec vs)"
    by (induction vs) (auto simp: mt5_submit_one_def Let_def split: prod.split intro!: keeps_intros)
qed

lemma transitions [keeps_intros]:
  "keeps I (tp1_filled ex grp price bc)" "keeps I (tp2_filled ex grp price bc)" "keeps I (tp3_filled ex grp price bc)"
  "keeps I (stop_group ex grp price)" "keeps I (open_group ex grp i)" "keeps I (request_be ex grp)"
  "keeps I (be_retry ex grp e)" "keeps I (record_compensation_failure ex spec cs refs reason)"
  "keeps I (consume_compensation_deals ex grp d)" "keeps I (update_volume_after_close ex grp leg v)"
  unfolding tp1_filled_def tp2_filled_def tp3_filled_def stop_group_def open_group_def request_be_def be_retry_def
    record_compensation_failure_def consume_compensation_deals_def update_volume_after_close_def Let_def
  by (intro keeps_intros)+

lemma flows [keeps_intros]:
  "keeps I (verify_be ex grp)" "keeps I (open_risk ex spec cs refs reason)" "keeps I (begin_compensation ex grp rej)"
  "keeps I (confirm_compensation ex grp d cs)" "keeps I (netting_close_leg ex grp leg action)"
  unfolding verify_be_def open_risk_def begin_compensation_def confirm_compensation_def netting_close_leg_def Let_def
  by (intro keeps_intros)+

lemma verifications [keeps_intros]: "keeps I (verify_closed ex grp d cs)" "keeps I (verify_compensation ex gid)"
proof -
  show v: "keeps I (verify_closed ex grp d cs)" for grp d cs
    unfolding verify_closed_def Let_def by (intro keeps_intros)
  show "keeps I (verify_compensation ex gid)"
    unfolding verify_compensation_def Let_def by (intro keeps_intros v)
qed

lemma phases [keeps_intros]:
  "keeps I (closure_phase ex grp i)" "keeps I (submitted_phase ex i c)" "keeps I (compensation_phase ex c)"
  "keeps I (netting_phase ex d c)" "keeps I (be_phase ex gid c')"
  unfolding closure_phase_def submitted_phase_def compensation_phase_def netting_phase_def be_phase_def Let_def
  by (intro keeps_intros | simp split: list.split prod.split option.split side.split; intro conjI impI allI)+

lemma keeps_advance [keeps_intros]: "keeps I (advance_group ex grp)"
proof -
  have a: "keeps I (and_then m f)" if "keeps I m" "\<And>c. keeps I (f c)" for m f
    unfolding and_then_def using that by (intro keeps_bnd keeps_case_sum keeps_pure)
  show ?thesis unfolding advance_group_def by (intro keeps_intros a)
qed

lemma keeps_poll [keeps_intros]: "keeps I (poll_once ex)"
proof -
  have "keeps I (poll_groups ex gs)" for gs
  proof (induction gs)
    case (Cons g gs)
    then show ?case by (cases g) (auto intro!: keeps_intros)
  qed (simp add: keeps_intros)
  then show ?thesis unfolding poll_once_def by (intro keeps_intros)
qed

lemma keeps_reject_group [keeps_intros]: "keeps I (reject_group ex spec code detail)"
  unfolding reject_group_def by (intro keeps_intros)

lemma keeps_rejecting: "keeps I m \<Longrightarrow> keeps I (rejecting ex spec reason m)"
  unfolding rejecting_def by (erule keeps_catch) (auto intro!: keeps_intros)

lemma keeps_prepare [keeps_intros]: "keeps I (prepare_submission ex spec)"
  unfolding prepare_submission_def by (intro keeps_intros keeps_rejecting)

lemma keeps_submit [keeps_intros]: "keeps I (mt5_submit_group ex gid)"
  unfolding mt5_submit_group_def submit_demo_def send_group_def Let_def
  by (intro keeps_intros I_paper)

lemma keeps_mt5_call: "keeps I (mt5_call ex x)"
  by (cases x)
    (auto simp: mt5_create_group_def mt5_recover_after_restart_def shutdown_def Let_def intro!: keeps_intros I_paper)

end

sublocale world_invariant \<subseteq> step_invariant "mt5_step ex" I
  by unfold_locales (simp add: mt5_step_def keepsD [OF keeps_mt5_call])

lemma keeps_append_unobserved:
  assumes "ea_observed_at_utc_ms a = None"
  shows "keeps (\<lambda>w. unobserved (w_ledger w)) (append_args ex a)"
proof (rule keepsI, goal_cases)
  case (1 w)
  then show ?case
    using append_cases [of "io_sha ex" "io_clock ex (w_reads w)" "io_uuid ex (w_reads w)" a "w_ledger w"] assms
    by (auto simp: unobserved_def append_args_def Let_def case_prod_beta)
qed

lemma keeps_conj: "keeps P m \<Longrightarrow> keeps Q m \<Longrightarrow> keeps (\<lambda>w. P w \<and> Q w) m"
  by (simp add: keeps_def)

lemma keeps_on_paper_ledger:
  assumes "keeps (\<lambda>w. P (w_ledger w)) m"
  shows "keeps (\<lambda>w. P (w_ledger w)) (on_paper m)"
proof (rule keepsI)
  fix w :: "(broker_result, 'm mt5_state) world" assume p: "P (w_ledger w)"
  have "P (w_ledger (snd (m \<lparr>w_store = w_store w, w_ledger = w_ledger w, w_drv = p', w_reads = w_reads w\<rparr>)))" for p'
    using p by (intro keepsD [OF assms]) simp
  then show "P (w_ledger (snd (on_paper m w)))"
    using p by (simp add: on_paper_def case_prod_beta split: option.split)
qed

lemma paper_sha [simp]: "io_sha (paper_executor ex) = io_sha ex"
  by (simp add: paper_executor_def TradeGroupExecutor_def)

lemma paper_calls:
  assumes "\<And>x. keeps P (call (paper_executor ex) x)"
  shows "keeps P (create_group (paper_executor ex) spec)" "keeps P (submit_group (paper_executor ex) gid)"
  using assms [of "Create spec"] assms [of "Submit gid"] by (simp_all add: keeps_seq_ret)

interpretation mt5_ledger: world_invariant "\<lambda>w. ledger_inv (io_sha ex) (w_ledger w) \<and> unobserved (w_ledger w)" ex
  for ex :: "'m mt5_executor"
proof (unfold_locales, goal_cases)
  case (3 a)
  then show ?case by (intro keeps_conj keeps_append_unobserved keeps_append_args_ledger)
next
  case (7 spec)
  have "keeps (\<lambda>w. ledger_inv (io_sha ex) (w_ledger w)) (call (paper_executor ex) x)" for x
    using keeps_ledger_call [of "paper_executor ex"] by simp
  then show ?case
    by (intro keeps_conj keeps_on_paper_ledger paper_calls keeps_ledger_any [OF keeps_unobserved])
next
  case (8 gid)
  have "keeps (\<lambda>w. ledger_inv (io_sha ex) (w_ledger w)) (call (paper_executor ex) x)" for x
    using keeps_ledger_call [of "paper_executor ex"] by simp
  then show ?case
    by (intro keeps_conj keeps_on_paper_ledger paper_calls keeps_ledger_any [OF keeps_unobserved])
qed auto

lemma has_action_writes [simp]:
  "has_action g a (update_group_state now gid st u s) = has_action g a s"
  "has_action g a (save_group sha now spec a' s) = has_action g a s"
  "has_action g a s \<Longrightarrow> has_action g a (snd (mark_action now gid aid p s))"
  by (simp_all add: has_action_def update_group_state_def save_group_def Let_def mark_action_def)

lemma keeps_has_action_call: "keeps (\<lambda>w. has_action g a (w_store w)) (call ex x)"
  by (cases x) (auto simp: method_defs has_action_def try_mark_submitted_def intro!: keeps_intros keeps_store_writes
      keeps_store_update simp: save_group_def update_group_state_def)

interpretation mt5_actions: world_invariant "\<lambda>w. store_inv (w_store w) \<and> has_action g a (w_store w)" ex
  for g a and ex :: "'m mt5_executor"
proof (unfold_locales, goal_cases)
  case (7 spec)
  show ?case
    by (intro keeps_conj keeps_on_paper paper_calls keeps_store_inv_call keeps_has_action_call)
next
  case (8 gid)
  show ?case
    by (intro keeps_conj keeps_on_paper paper_calls keeps_store_inv_call keeps_has_action_call)
qed (auto simp: save_store_inv update_store_inv intro: keeps_intros)

end
