(* ===== verification/Virtual_Terminal.thy ===== *)
theory Virtual_Terminal
  imports MT5_Drivers
begin

text \<open>
  The simulated terminal: the account of \<^verbatim>\<open>simulation/virtual_state.py\<close> behind the calls of the
  package stand-in \<^verbatim>\<open>simulation/mt5_shim/MetaTrader5/__init__.py\<close>. It is an instance of the terminal
  interface \<open>mt5_api\<close>, on which the drivers run. The market simulator is seen through the three
  attributes the stand-in reads. Positions are dict entries in insertion order.
\<close>

section \<open>The virtual account\<close>

record virtual_symbol =
  vs_name :: string
  vs_digits :: nat
  vs_point :: rat
  vs_trade_stops_level :: int
  vs_trade_freeze_level :: int
  vs_trade_contract_size :: rat
  vs_volume_min :: rat
  vs_volume_step :: rat
  vs_spread :: rat
  vs_tick_size :: rat

record symbol_override =
  so_digits :: "nat option"
  so_point :: "rat option"
  so_trade_stops_level :: "int option"
  so_trade_freeze_level :: "int option"
  so_trade_contract_size :: "rat option"
  so_volume_min :: "rat option"
  so_volume_step :: "rat option"
  so_spread :: "rat option"

record virtual_config =
  vc_virtual_balance :: "rat option"
  vc_symbol_overrides :: "(string \<times> symbol_override) list"

record virtual_position = position_raw +
  vp_opened_at :: int
  vp_updated_at :: int
  vp_swap :: rat
  vp_profit :: rat

record virtual_deal = deal_raw +
  vd_profit :: rat
  vd_swap :: rat
  vd_commission :: rat

record virtual_state =
  vt_balance :: rat
  vt_position_ticket :: int
  vt_deal_ticket :: int
  vt_order_ticket :: int
  vt_positions :: "(int \<times> virtual_position) list"
  vt_deals :: "virtual_deal list"
  vt_symbols :: "(string \<times> virtual_symbol) list"

definition build_symbol_info :: "string \<Rightarrow> symbol_override \<Rightarrow> virtual_symbol" where
  "build_symbol_info symbol over =
     \<lparr>vs_name = symbol, vs_digits = get_or 2 (so_digits over), vs_point = get_or (fl (1 / 100)) (so_point over),
      vs_trade_stops_level = get_or 50 (so_trade_stops_level over),
      vs_trade_freeze_level = get_or 0 (so_trade_freeze_level over),
      vs_trade_contract_size = get_or 100 (so_trade_contract_size over),
      vs_volume_min = get_or (fl (1 / 100)) (so_volume_min over),
      vs_volume_step = get_or (fl (1 / 100)) (so_volume_step over),
      vs_spread = get_or (fl (30 / 100)) (so_spread over), vs_tick_size = get_or (fl (1 / 100)) (so_point over)\<rparr>"

definition VirtualState :: "virtual_config \<Rightarrow> virtual_state" where
  "VirtualState cfg =
     \<lparr>vt_balance = get_or 10000 (vc_virtual_balance cfg), vt_position_ticket = 100000,
      vt_deal_ticket = 200000, vt_order_ticket = 0, vt_positions = [], vt_deals = [],
      vt_symbols = map (\<lambda>(s, over). (s, build_symbol_info s over)) (vc_symbol_overrides cfg)\<rparr>"

definition virtual_symbol_info :: "virtual_state \<Rightarrow> string \<Rightarrow> virtual_symbol option" where
  "virtual_symbol_info v symbol = map_of (vt_symbols v) symbol"

definition virtual_contract_size :: "virtual_state \<Rightarrow> string \<Rightarrow> rat" where
  "virtual_contract_size v symbol = get_or 100 (map_option vs_trade_contract_size (virtual_symbol_info v symbol))"

definition compute_pnl :: "virtual_state \<Rightarrow> string \<Rightarrow> int \<Rightarrow> rat \<Rightarrow> rat \<Rightarrow> rat \<Rightarrow> rat" where
  "compute_pnl v symbol position_type entry exit_price volume =
     (let contract = virtual_contract_size v symbol;
          move = (if position_type = 0 then fsub exit_price entry else fsub entry exit_price)
      in py_round (fmul (fmul move volume) contract) 2)"

fun floating_pnl :: "virtual_state \<Rightarrow> rat \<Rightarrow> virtual_position list \<Rightarrow> rat" where
  "floating_pnl v acc [] = acc"
| "floating_pnl v acc (p # ps) =
     floating_pnl v (fadd acc (compute_pnl v (pr_symbol p) (pr_type p) (pr_price_open p) (pr_price_current p) (pr_volume p))) ps"

text \<open>The account: the fields the terminal interface reads; it has neither a trade mode nor a margin mode.\<close>

definition virtual_account_info :: "virtual_state \<Rightarrow> account_raw" where
  "virtual_account_info v =
     \<lparr>ac_login = Some 1, ac_balance = Some (py_round (vt_balance v) 2),
      ac_equity = Some (py_round (fadd (vt_balance v) (floating_pnl v 0 (map snd (vt_positions v)))) 2),
      ac_currency = Some ''USD'', ac_trade_mode = None, ac_margin_mode = None\<rparr>"

definition round_level :: "rat \<Rightarrow> rat" where
  "round_level x = (if x = 0 then 0 else py_round x 6)"

definition open_position ::
  "string \<Rightarrow> int \<Rightarrow> rat \<Rightarrow> rat \<Rightarrow> rat \<Rightarrow> rat \<Rightarrow> int \<Rightarrow> string \<Rightarrow> int \<Rightarrow> virtual_state
     \<Rightarrow> (virtual_position \<times> virtual_deal) \<times> virtual_state" where
  "open_position symbol position_type volume price sl tp magic comment t v =
     (let ticket = vt_position_ticket v + 1; deal_ticket = vt_deal_ticket v + 1;
          pos = \<lparr>pr_ticket = ticket, pr_symbol = symbol, pr_type = position_type, pr_volume = py_round volume 2,
                 pr_price_open = py_round price 6, pr_price_current = py_round price 6, pr_sl = round_level sl,
                 pr_tp = round_level tp, pr_magic = magic, pr_comment = comment, vp_opened_at = t, vp_updated_at = t,
                 vp_swap = 0, vp_profit = 0\<rparr>;
          deal = \<lparr>dw_ticket = deal_ticket, dw_position_id = ticket, dw_symbol = symbol, dw_type = position_type,
                  dw_entry = 0, dw_price = py_round price 6, dw_volume = py_round volume 2, dw_time = t,
                  dw_magic = magic, dw_comment = comment, vd_profit = 0, vd_swap = 0, vd_commission = 0\<rparr>
      in ((pos, deal), v\<lparr>vt_position_ticket := ticket, vt_deal_ticket := deal_ticket,
           vt_positions := dict_put ticket pos (vt_positions v), vt_deals := vt_deals v @ [deal]\<rparr>))"

definition DUST :: rat where
  "DUST = fl (1 / 10 ^ 12)"

definition close_position_partial ::
  "virtual_position \<Rightarrow> rat \<Rightarrow> rat \<Rightarrow> string \<Rightarrow> int \<Rightarrow> virtual_state \<Rightarrow> virtual_deal option \<times> virtual_state" where
  "close_position_partial pos requested price comment t v =
     (let ticket = pr_ticket pos; volume = min requested (pr_volume pos)
      in if map_of (vt_positions v) ticket = None \<or> requested \<le> 0 \<or> volume \<le> DUST then (None, v)
         else
           let profit = compute_pnl v (pr_symbol pos) (pr_type pos) (pr_price_open pos) price volume;
               swap_charge = py_round (fmul (vp_swap pos) (fdiv volume (pr_volume pos))) 2;
               deal_ticket = vt_deal_ticket v + 1;
               deal = \<lparr>dw_ticket = deal_ticket, dw_position_id = ticket, dw_symbol = pr_symbol pos,
                       dw_type = (if pr_type pos = 0 then 1 else 0), dw_entry = 1, dw_price = py_round price 6,
                       dw_volume = py_round volume 2, dw_time = t, dw_magic = pr_magic pos, dw_comment = comment,
                       vd_profit = profit, vd_swap = swap_charge, vd_commission = 0\<rparr>;
               remaining = py_round (fsub (pr_volume pos) volume) 2;
               left = pos\<lparr>vp_swap := py_round (fsub (vp_swap pos) swap_charge) 2, pr_volume := remaining,
                          vp_updated_at := t\<rparr>
           in (Some deal,
               v\<lparr>vt_balance := py_round (fadd (fadd (vt_balance v) profit) swap_charge) 2,
                 vt_deal_ticket := deal_ticket, vt_deals := vt_deals v @ [deal],
                 vt_positions := (if remaining \<le> DUST then filter (\<lambda>(k, _). k \<noteq> ticket) (vt_positions v)
                                  else dict_put ticket left (vt_positions v))\<rparr>))"

definition modify_sl_tp :: "virtual_position \<Rightarrow> rat \<Rightarrow> rat \<Rightarrow> virtual_state \<Rightarrow> bool \<times> virtual_state" where
  "modify_sl_tp pos sl tp v =
     (if map_of (vt_positions v) (pr_ticket pos) = None then (False, v)
      else (True, v\<lparr>vt_positions := dict_put (pr_ticket pos)
              (pos\<lparr>pr_sl := round_level sl, pr_tp := round_level tp\<rparr>) (vt_positions v)\<rparr>))"

definition get_positions :: "virtual_state \<Rightarrow> virtual_position list" where
  "get_positions v = map snd (vt_positions v)"

definition get_position :: "virtual_state \<Rightarrow> int \<Rightarrow> virtual_position option" where
  "get_position v ticket = map_of (vt_positions v) ticket"

definition get_history_deals :: "virtual_state \<Rightarrow> int option \<Rightarrow> virtual_deal list" where
  "get_history_deals v position =
     (case position of None \<Rightarrow> vt_deals v | Some t \<Rightarrow> filter (\<lambda>d. dw_position_id d = t) (vt_deals v))"

definition next_order_ticket :: "virtual_state \<Rightarrow> int \<times> virtual_state" where
  "next_order_ticket v = (vt_order_ticket v + 1, v\<lparr>vt_order_ticket := vt_order_ticket v + 1\<rparr>)"

section \<open>The package stand-in\<close>

record market =
  mk_bid :: rat
  mk_ask :: rat
  mk_tick :: int

record shim =
  sh_state :: "virtual_state option"
  sh_simulator :: "market option"

definition inject :: "virtual_state \<Rightarrow> market \<Rightarrow> shim \<Rightarrow> shim" where
  "inject v m s = s\<lparr>sh_state := Some v, sh_simulator := Some m\<rparr>"

definition shim_account_info :: "(shim, account_raw option) comp" where
  "shim_account_info = gets (\<lambda>s. map_option virtual_account_info (sh_state s))"

text \<open>The symbol as the terminal interface sees it: no tick size of its own, no maximal volume and no
  execution mode.\<close>

definition shim_symbol_info :: "string \<Rightarrow> (shim, symbol_raw option) comp" where
  "shim_symbol_info symbol = gets (\<lambda>s.
     map_option (\<lambda>i. \<lparr>sy_digits = Some (int (vs_digits i)), sy_point = Some (vs_point i),
         sy_trade_tick_size = None, sy_trade_stops_level = Some (vs_trade_stops_level i),
         sy_trade_freeze_level = Some (vs_trade_freeze_level i), sy_volume_min = Some (vs_volume_min i),
         sy_volume_max = None, sy_volume_step = Some (vs_volume_step i),
         sy_trade_contract_size = Some (vs_trade_contract_size i), sy_trade_exec_mode = None\<rparr>)
       (Option.bind (sh_state s) (\<lambda>v. virtual_symbol_info v symbol)))"

definition shim_symbol_info_tick :: "string \<Rightarrow> (shim, tick_raw option) comp" where
  "shim_symbol_info_tick symbol s =
     (case (sh_simulator s, sh_state s) of
        (None, _) \<Rightarrow> (Inr None, s)
      | (Some _, None) \<Rightarrow> (Inl AttributeError, s)
      | (Some m, Some v) \<Rightarrow>
          let info = virtual_symbol_info v symbol; digits = get_or 2 (map_option vs_digits info);
              bid = py_round (mk_bid m) digits; ask = py_round (mk_ask m) digits;
              v' = (case info of None \<Rightarrow> v
                | Some i \<Rightarrow> v\<lparr>vt_symbols := dict_put symbol (i\<lparr>vs_spread := py_round (fsub ask bid) digits,
                    vs_tick_size := vs_point i\<rparr>) (vt_symbols v)\<rparr>)
          in (Inr (Some \<lparr>tk_bid = Some bid, tk_ask = Some ask\<rparr>), s\<lparr>sh_state := Some v'\<rparr>))"

definition or_none :: "'a list \<Rightarrow> 'a list option" where
  "or_none xs = (if xs = [] then None else Some xs)"

definition positions_get :: "int option \<Rightarrow> (shim, position_raw list option) comp" where
  "positions_get ticket = gets (\<lambda>s. case sh_state s of
       None \<Rightarrow> None
     | Some v \<Rightarrow> or_none (map position_raw.truncate (case ticket of
         None \<Rightarrow> get_positions v | Some t \<Rightarrow> (case get_position v t of None \<Rightarrow> [] | Some p \<Rightarrow> [p]))))"

definition history_deals_get :: "int \<Rightarrow> (shim, deal_raw list option) comp" where
  "history_deals_get position = gets (\<lambda>s. case sh_state s of
       None \<Rightarrow> None | Some v \<Rightarrow> or_none (map deal_raw.truncate (get_history_deals v (Some position))))"

definition order_result :: "int \<Rightarrow> int \<Rightarrow> string \<Rightarrow> send_result" where
  "order_result retcode order comment =
     \<lparr>sr_retcode = retcode, sr_order = order, sr_deal = 0, sr_comment = comment, sr_price = 0, sr_volume = 0\<rparr>"

definition INVALID_REQUEST :: int where "INVALID_REQUEST = 10014"
definition RETCODE_DONE :: int where "RETCODE_DONE = 10009"

text \<open>The three kinds of request of \<open>order_send\<close>.\<close>

definition send_sltp :: "trade_request \<Rightarrow> virtual_state \<Rightarrow> send_result \<times> virtual_state" where
  "send_sltp q v =
     (case get_position v (get_or 0 (rq_position q)) of
        None \<Rightarrow> (order_result INVALID_REQUEST 0 ''No such position'', v)
      | Some pos \<Rightarrow>
          let v1 = snd (modify_sl_tp pos (or_num (rq_sl q) 0) (or_num (rq_tp q) 0) v);
              (order, v2) = next_order_ticket v1
          in (order_result RETCODE_DONE order ''SL/TP modified'', v2))"

definition send_close :: "trade_request \<Rightarrow> int \<Rightarrow> market \<Rightarrow> virtual_state \<Rightarrow> send_result \<times> virtual_state" where
  "send_close q ticket m v =
     (case get_position v ticket of
        None \<Rightarrow> (order_result INVALID_REQUEST 0 ''No such open position to close'', v)
      | Some pos \<Rightarrow>
          let price = or_num (rq_price q) (mk_bid m); volume = get_or 0 (rq_volume q);
              comment = get_or ''virtual'' (rq_comment q)
          in case close_position_partial pos volume price comment (mk_tick m) v of
               (None, v1) \<Rightarrow> (order_result INVALID_REQUEST 0 ''Close failed'', v1)
             | (Some deal, v1) \<Rightarrow>
                 let (order, v2) = next_order_ticket v1
                 in ((order_result RETCODE_DONE order comment)\<lparr>sr_deal := dw_ticket deal,
                       sr_price := py_round price 6, sr_volume := py_round volume 2\<rparr>, v2))"

definition send_open :: "trade_request \<Rightarrow> market \<Rightarrow> virtual_state \<Rightarrow> send_result result \<times> virtual_state" where
  "send_open q m v =
     (case virtual_symbol_info v (rq_symbol q) of
        None \<Rightarrow> (Inr (order_result INVALID_REQUEST 0 (''Unknown symbol '' @ rq_symbol q)), v)
      | Some info \<Rightarrow>
          let step = vs_volume_step info; comment = get_or ''virtual'' (rq_comment q);
              order_type = get_or 0 (rq_type q);
              volume = max (vs_volume_min info)
                (py_round (fmul (fl (of_int (rhe (fdiv (get_or 0 (rq_volume q)) step)))) step) 2);
              price = or_num (rq_price q) (if order_type = 0 then mk_ask m else mk_bid m)
          in if step = 0 then (Inl ZeroDivisionError, v)
             else
               let ((pos, deal), v1) = open_position (rq_symbol q) order_type volume price (or_num (rq_sl q) 0)
                     (or_num (rq_tp q) 0) (get_or 0 (rq_magic q)) comment (mk_tick m) v;
                   (order, v2) = next_order_ticket v1
               in (Inr ((order_result RETCODE_DONE order comment)\<lparr>sr_deal := dw_ticket deal,
                     sr_price := py_round price 6, sr_volume := py_round volume 2\<rparr>), v2))"

definition order_send :: "trade_request \<Rightarrow> (shim, send_result option) comp" where
  "order_send q s =
     (case (sh_state s, sh_simulator s) of
        (Some v, Some m) \<Rightarrow>
          if rq_action q = 6 then
            (case send_sltp q v of (r, v') \<Rightarrow> (Inr (Some r), s\<lparr>sh_state := Some v'\<rparr>))
          else if rq_action q = 1 then
            (if get_or 0 (rq_position q) \<noteq> 0 then
               (case send_close q (get_or 0 (rq_position q)) m v of (r, v') \<Rightarrow> (Inr (Some r), s\<lparr>sh_state := Some v'\<rparr>))
             else (case send_open q m v of (r, v') \<Rightarrow> (map_sum id Some r, s\<lparr>sh_state := Some v'\<rparr>)))
          else (Inr (Some (order_result INVALID_REQUEST 0 (''Unsupported action '' @ show_int (rq_action q)))), s)
      | _ \<Rightarrow> (Inr (Some (order_result 10002 0 ''Virtual MT5 not injected'')), s))"

definition shim_api :: "shim mt5_api" where
  "shim_api =
     \<lparr>api_account_info = shim_account_info, api_symbol_info = shim_symbol_info,
      api_symbol_info_tick = shim_symbol_info_tick, api_positions_get = positions_get,
      api_history_deals_get = history_deals_get, api_order_send = order_send,
      ACCOUNT_TRADE_MODE_DEMO = None, ACCOUNT_MARGIN_MODE_RETAIL_HEDGING = None,
      ACCOUNT_MARGIN_MODE_RETAIL_NETTING = None, TRADE_RETCODE_DONE = Some RETCODE_DONE,
      TRADE_ACTION_DEAL = 1, TRADE_ACTION_SLTP = 6, ORDER_TYPE_BUY = 0, ORDER_TYPE_SELL = 1,
      ORDER_TIME_GTC = 0, ORDER_FILLING_IOC = 1\<rparr>"

end
