(* ===== verification/MT5_Safety.thy ===== *)
theory MT5_Safety
  imports MT5_Lifecycle Virtual_Terminal
begin

text \<open>
  What the demo executor guarantees, and where it falls short of what its comments say: the lifecycle table,
  the ledger, the submission gates, the single submission, the break-even confirmation and the
  compensation. The drivers are arbitrary unless a theorem names one; the locale \<open>broker_view\<close> states what
  the confirmations rely on in a driver, and both drivers satisfy it over the simulated terminal.
\<close>

section \<open>Submission\<close>

lemma bnd_cong_keeps:
  assumes "keeps P m" and "P w" and "\<And>x w'. P w' \<Longrightarrow> f x w' = g x w'"
  shows "bnd m f w = bnd m g w"
  using keepsD [OF assms(1,2)] assms(3) by (simp add: bnd_run split: sum.split)

text \<open>The same executor with other ways to send orders.\<close>

definition other_orders ::
  "(trade_request \<Rightarrow> ('m, send_result option) comp) \<Rightarrow>
   (trade_group_spec \<Rightarrow> int \<Rightarrow> rat \<Rightarrow> ('m mt5_session, broker_result) comp) \<Rightarrow> 'm mt5_executor \<Rightarrow> 'm mt5_executor" where
  "other_orders send submit ex =
     ex\<lparr>mx_api := map_option (\<lambda>api. api\<lparr>api_order_send := send\<rparr>) (mx_api ex),
        mx_driver := map_option (\<lambda>d. d\<lparr>md_submit_leg := submit\<rparr>) (mx_driver ex)\<rparr>"

lemma other_orders_fields [simp]:
  "io_sha (other_orders f h ex) = io_sha ex" "io_clock (other_orders f h ex) = io_clock ex"
  "io_uuid (other_orders f h ex) = io_uuid ex" "mx_fill_cfg (other_orders f h ex) = mx_fill_cfg ex"
  "mt5_gate_mode (other_orders f h ex) = mt5_gate_mode ex"
  by (simp_all add: other_orders_def mt5_gate_mode_def fun_eq_iff)

lemma io_only:
  assumes "io_sha a = io_sha b" "io_clock a = io_clock b" "io_uuid a = io_uuid b"
  shows "store_save a = store_save b" "append_args a = append_args b" "read_clock a = read_clock b"
  unfolding store_save_def [abs_def] append_args_def [abs_def] read_clock_def [abs_def] assms by simp_all

lemma context_reads [simp]:
  "account_info (api\<lparr>api_order_send := f\<rparr>) = account_info api"
  "account_mode (api\<lparr>api_order_send := f\<rparr>) = account_mode api"
  "symbol_snapshot (api\<lparr>api_order_send := f\<rparr>) = symbol_snapshot api"
  "normalize_geometry (api\<lparr>api_order_send := f\<rparr>) = normalize_geometry api"
  "validate_geometry (api\<lparr>api_order_send := f\<rparr>) = validate_geometry api"
  unfolding account_info_def [abs_def] account_mode_def [abs_def] symbol_snapshot_def [abs_def]
    normalize_geometry_def [abs_def] validate_geometry_def [abs_def]
  by (simp_all cong: if_cong)

lemma other_orders_checks:
  "require_demo_account (other_orders f h ex) = require_demo_account ex"
  "rejecting (other_orders f h ex) = rejecting ex"
  "mark (other_orders f h ex) = mark ex"
  "reject_group (other_orders f h ex) = reject_group ex"
  "read_clock (other_orders f h ex) = read_clock ex"
  "with_context (other_orders f h ex) (\<lambda>api. validate_geometry api spec symbol)
     = with_context ex (\<lambda>api. validate_geometry api spec symbol)"
  "bnd (resolve_driver (other_orders f h ex)) (\<lambda>_. n) = bnd (resolve_driver ex) (\<lambda>_. n)"
proof -
  note io = io_only [of "other_orders f h ex" ex, simplified]
  show r: "reject_group (other_orders f h ex) = reject_group ex"
    by (simp add: reject_group_def [abs_def] emit_def [abs_def] io)
  then show "rejecting (other_orders f h ex) = rejecting ex" by (simp add: rejecting_def [abs_def])
  show "mark (other_orders f h ex) = mark ex" "read_clock (other_orders f h ex) = read_clock ex"
    by (simp_all add: mark_def [abs_def] io)
  show "require_demo_account (other_orders f h ex) = require_demo_account ex"
    "with_context (other_orders f h ex) (\<lambda>api. validate_geometry api spec symbol)
     = with_context ex (\<lambda>api. validate_geometry api spec symbol)"
    by (simp_all add: require_demo_account_def with_context_def other_orders_def split: option.split)
  have ctor: "bnd (bnd a (\<lambda>x. if p x then throw e else if q x then ret (c x) else ret (c' x))) (\<lambda>_. n)
      = bnd a (\<lambda>x. if p x then throw e else n)"
    for a :: "('m, 'x) run" and p e q and c c' :: "'x \<Rightarrow> 'z" and n :: "('m, 'y) run"
    by (rule ext) (simp add: bnd_run run_simps split: sum.split)
  have given: "bnd (ret c) (\<lambda>_. n) = n" for c :: 'z and n :: "('m, 'y) run"
    by (rule ext) (simp add: bnd_run run_simps)
  show "bnd (resolve_driver (other_orders f h ex)) (\<lambda>_. n) = bnd (resolve_driver ex) (\<lambda>_. n)"
    by (cases "mx_driver ex"; cases "mx_api ex")
      (simp_all add: resolve_driver_def other_orders_def ctor given)
qed

text \<open>A submission after the group was marked: the checks, then the refusal.\<close>

definition refused_submission :: "'m mt5_executor \<Rightarrow> string \<Rightarrow> grp \<Rightarrow> ('m, group_state) run" where
  "refused_submission ex gid current =
     (let spec = row_spec current in
      seq (lift_result (require_transition (row_state current) SUBMITTED))
      (bnd (prepare_submission ex spec) (\<lambda>(account, _, intent).
       bnd (read_clock ex) (\<lambda>now.
       if \<not> check_group_not_expired (tg_expires_at_utc_ms spec) now then
         seq (reject_group ex spec ''SIGNAL_EXPIRED'' ''signal TTL expired before submission'') (ret REJECTED)
       else case check_group_risk (gr_estimated_loss_at_sl (tg_risk spec)) (gr_max_cash (tg_risk spec))
            (gr_max_pct (tg_risk spec)) (av_balance account) of (ok, reason) \<Rightarrow>
       if \<not> ok then
         seq (reject_group ex spec (or_str reason ''RISK_LIMIT_EXCEEDED'') ''group risk re-check failed at submission'')
           (ret REJECTED)
       else seq (read_clock ex) (throw DuplicateSubmissionError)))))"

lemma prepare_other_orders:
  "bnd (prepare_submission (other_orders f h ex) spec) (\<lambda>(a, _, i). k a i)
     = bnd (prepare_submission ex spec) (\<lambda>(a, _, i). k a i)"
proof -
  have assoc: "bnd (bnd m f') g' = bnd m (\<lambda>x. bnd (f' x) g')" "bnd (seq m n) g' = seq m (bnd n g')"
    for m :: "('m, 'x) run" and f' :: "'x \<Rightarrow> ('m, 'y) run" and g' :: "'y \<Rightarrow> ('m, 'z) run" and n :: "('m, 'y) run"
    by (auto simp: fun_eq_iff bnd_run seq_run split: sum.split)
  have forget: "bnd (ret (a, d, i)) (\<lambda>(a, _, i). k a i) = k a i" for a d i
    by (simp add: fun_eq_iff bnd_run run_simps)
  show ?thesis
    unfolding prepare_submission_def assoc forget other_orders_fields other_orders_checks ..
qed

lemma refused_other_orders: "refused_submission (other_orders f h ex) gid current = refused_submission ex gid current"
  unfolding refused_submission_def Let_def other_orders_checks prepare_other_orders ..

lemma seq_cong_keeps:
  assumes "keeps P m" and "P w" and "\<And>w'. P w' \<Longrightarrow> n w' = n' w'"
  shows "seq m n w = seq m n' w"
  using keepsD [OF assms(1,2)] assms(3) by (simp add: seq_run split: sum.split)

lemma mark_again:
  assumes "store_inv (w_store w)" and "has_action gid a (w_store w)"
  shows "bnd (mark ex gid a p) (\<lambda>granted. seq (require granted e) m) w = seq (read_clock ex) (throw e) w"
  using assms
  by (simp add: mark_def bnd_run seq_run read_clock_def on_store_def mark_action_def has_action_def run_simps)

lemma submit_demo_refused:
  assumes inv: "store_inv (w_store w)" and marked: "has_action gid ''OPEN-GROUP'' (w_store w)"
  shows "submit_demo ex gid current w = refused_submission ex gid current w"
proof -
  let ?P = "\<lambda>w. store_inv (w_store w) \<and> has_action gid ''OPEN-GROUP'' (w_store w)"
  have prep: "keeps ?P (prepare_submission ex spec)" for spec
    using mt5_actions.keeps_prepare [of gid "''OPEN-GROUP''" ex spec] by simp
  have clock: "keeps ?P (read_clock ex)" by (intro keeps_conj keeps_intros)
  show ?thesis
    unfolding submit_demo_def refused_submission_def Let_def
    apply (rule seq_cong_keeps [where P = ?P, OF keeps_pure(4) conjI [OF assms]])
    apply (rule bnd_cong_keeps [where P = ?P, OF prep], assumption)
    apply (simp only: case_prod_beta)
    apply (rule bnd_cong_keeps [where P = ?P, OF clock], assumption)
    apply (simp add: mark_again)
    done
qed

lemma submit_demo_unsent:
  assumes "store_inv (w_store w)" and "has_action gid ''OPEN-GROUP'' (w_store w)"
  shows "submit_demo (other_orders f h ex) gid current w = submit_demo ex gid current w"
    and "fst (submit_demo ex gid current w) \<noteq> Inr SUBMITTED"
proof -
  show "submit_demo (other_orders f h ex) gid current w = submit_demo ex gid current w"
    using assms by (simp add: submit_demo_refused refused_other_orders)
  have "wp (refused_submission ex gid current) (\<lambda>st _. st \<noteq> SUBMITTED) (\<lambda>_. True) w"
    unfolding refused_submission_def Let_def
    by (clarsimp simp: wp_simps split: sum.split, rule wp_any)
      (simp_all add: wp_simps case_prod_beta wp_any del: wp_if)
  then show "fst (submit_demo ex gid current w) \<noteq> Inr SUBMITTED"
    using assms by (auto simp: submit_demo_refused wp_def split: prod.splits)
qed

section \<open>A demo world\<close>

text \<open>The simulated terminal with an account that says it is a demo account, one driver per margin mode,
  and the paper group of the earlier theories as a demo group.\<close>

definition demo_api :: "shim mt5_api" where
  "demo_api = shim_api\<lparr>api_account_info := gets (\<lambda>s.
       map_option (\<lambda>v. (virtual_account_info v)\<lparr>ac_trade_mode := Some 0, ac_margin_mode := Some 2\<rparr>) (sh_state s)),
     ACCOUNT_TRADE_MODE_DEMO := Some 0\<rparr>"

definition demo_mt5_executor :: "shim mt5_executor" where
  "demo_mt5_executor =
     \<lparr>io_sha = demo_sha, io_clock = int, io_uuid = (\<lambda>n. replicate (Suc n) CHR ''u''),
      mx_api = Some demo_api, mx_driver = Some (MT5HedgingDriver demo_api 7), mx_notifier = None, mx_magic = 7,
      mx_max_be_retries = 3, mx_max_compensation_retries = 3, mx_cost = demo_cost, mx_be_close_tolerance = 1 / 2,
      mx_deployment_mode = None, mx_allow_demo = True, mx_env = None, mx_fill_cfg = None,
      mx_dump_intent = (\<lambda>_. [])\<rparr>"

definition demo_group_spec :: trade_group_spec where
  "demo_group_spec = (demo_spec None)\<lparr>tg_mode := Demo\<rparr>"

definition demo_shim :: shim where
  "demo_shim = \<lparr>sh_state = Some (VirtualState \<lparr>vc_virtual_balance = None, vc_symbol_overrides = []\<rparr>),
     sh_simulator = Some \<lparr>mk_bid = 2000, mk_ask = 2001, mk_tick = 0\<rparr>\<rparr>"

definition demo_mt5_world :: "broker_result save_args \<Rightarrow> (broker_result, shim mt5_state) world" where
  "demo_mt5_world a = \<lparr>w_store = save_group demo_sha 0 demo_group_spec a empty_store, w_ledger = [],
     w_drv = \<lparr>mst_session = \<lparr>ms_terminal = demo_shim, ms_ref_map = []\<rparr>, mst_paper = None, mst_shutdown = None\<rparr>,
     w_reads = 0\<rparr>"

definition demo_group_row :: "broker_result save_args \<Rightarrow> grp" where
  "demo_group_row a = saved_row demo_sha 0 demo_group_spec a None"

lemma demo_group_deserializes:
  "deserialize_spec ((demo_spec fill)\<lparr>tg_mode := Demo\<rparr>) = Inr ((demo_spec fill)\<lparr>tg_mode := Demo\<rparr>)"
proof -
  have "validate_contract ((demo_spec fill)\<lparr>tg_mode := Demo\<rparr>) = Inr ((demo_spec fill)\<lparr>tg_mode := Demo\<rparr>)"
    using demo_spec_valid [of fill] by (simp add: validate_contract_Inr identity_fields_def)
  then show ?thesis
    by (simp add: deserialize_spec_def model_validate_def demo_spec_def EntrySpec_def Geometry_def
        BreakEvenPolicy_def GroupRisk_def TargetLegSpec_def or_str_def SPEC_CHAIN_def GROUP_SCHEMA_VERSION_def)
qed

lemmas demo_group_spec_deserializes = demo_group_deserializes [of None, folded demo_group_spec_def]

lemma demo_group_id [simp]: "tg_group_id demo_group_spec = ''TG-1''"
  by (simp add: demo_group_spec_def demo_spec_def)

lemma demo_mt5_inv: "store_inv (w_store (demo_mt5_world a))"
  by (simp add: demo_mt5_world_def save_store_inv empty_store_inv)

lemma demo_mt5_store:
  "map_of (gs_groups (w_store (demo_mt5_world a))) ''TG-1'' = Some (demo_group_row a)"
  "load_group ''TG-1'' (w_store (demo_mt5_world a)) = Inr (Some (demo_group_row a))"
  by (simp_all add: demo_mt5_world_def demo_group_row_def load_group_Some save_rows demo_group_spec_deserializes
      existing_row_def save_store_inv empty_store_inv load_group_def empty_store_def)

definition demo_marked_world :: "(broker_result, shim mt5_state) world" where
  "demo_marked_world = (demo_mt5_world save_defaults)\<lparr>w_store :=
     snd (mark_action 0 ''TG-1'' ''OPEN-GROUP'' [] (w_store (demo_mt5_world save_defaults)))\<rparr>"

lemma demo_marked_inv: "store_inv (w_store demo_marked_world)"
  by (simp add: demo_marked_world_def mark_action_inv demo_mt5_inv)

lemma demo_marked:
  "has_action ''TG-1'' ''OPEN-GROUP'' (w_store demo_marked_world)"
  "load_group ''TG-1'' (w_store demo_marked_world) = Inr (Some (demo_group_row save_defaults))"
  using demo_mt5_store(1) [of save_defaults] demo_mt5_store(2) [of save_defaults]
  by (auto simp: demo_marked_world_def load_group_Some mark_action_def has_action_def)

section \<open>Properties of every run\<close>



text \<open>Every ledger the demo executor writes passes verification, whatever calls it serves, failed ones
  included: polls, compensations and orphan reports append to the same gapless hash chain.\<close>

theorem mt5_ledger_verifies:
  assumes cell: "\<And>col v. uniform col \<Longrightarrow> v \<in> set col \<Longrightarrow> cell col v = jopt JInt v"
    and init: "w_ledger w = []"
  shows "verify_event_chain (io_sha ex) cell (w_ledger (run_steps (mt5_step ex) ops w))
    \<and> contiguous (w_ledger (run_steps (mt5_step ex) ops w))"
proof -
  have inv: "ledger_inv (io_sha ex) (w_ledger (run_steps (mt5_step ex) ops w))
      \<and> unobserved (w_ledger (run_steps (mt5_step ex) ops w))"
    by (rule mt5_ledger.run_inv) (simp add: unobserved_def init ledger_inv_Nil)
  then have "uniform (map ev_observed_at_utc_ms (w_ledger (run_steps (mt5_step ex) ops w)))"
    by (auto simp: uniform_def unobserved_def)
  then show ?thesis using inv stored_verify [OF cell] by (simp add: ledger_inv_def)
qed

theorem mt5_ledger_verifies_witness:
  "verify_event_chain demo_sha pandas_cell (w_ledger (run_steps (mt5_step demo_mt5_executor)
     [MCreate demo_group_spec, MSubmit ''TG-1'', MPoll, MShutdown] (demo_mt5_world save_defaults)))"
  using mt5_ledger_verifies [of pandas_cell "demo_mt5_world save_defaults" demo_mt5_executor
      "[MCreate demo_group_spec, MSubmit ''TG-1'', MPoll, MShutdown]"]
  by (simp add: pandas_cell_def demo_mt5_world_def demo_mt5_executor_def del: run_steps.simps)

text \<open>C19. A demo group is submitted once. After its submission was marked, over any sequence of calls, a
  further submission is refused or raises, and sends no order: it does the same, result and effects,
  whatever the terminal and the driver would do with an order.\<close>

theorem mt5_group_is_submitted_once:
  assumes inv: "store_inv (w_store w)" and marked: "has_action gid ''OPEN-GROUP'' (w_store w)"
    and run: "w' = run_steps (mt5_step ex) ops w"
    and row: "load_group gid (w_store w') = Inr (Some r)" and demo: "tg_mode (row_spec r) \<noteq> Paper"
  shows "fst (mt5_submit_group ex gid w') \<noteq> Inr SUBMITTED
    \<and> mt5_submit_group (other_orders send submit ex) gid w' = mt5_submit_group ex gid w'"
proof -
  have m: "store_inv (w_store w')" "has_action gid ''OPEN-GROUP'' (w_store w')"
    using mt5_actions.run_inv [of w gid "''OPEN-GROUP''" ex ops] inv marked run by simp_all
  have "mt5_submit_group e gid w' = seq (lift_result (mt5_gate_mode e (row_spec r))) (submit_demo e gid r) w'" for e
    using demo by (simp add: mt5_submit_group_def bnd_run run_simps row)
  then show ?thesis
    using submit_demo_unsent [OF m] by (simp add: seq_run run_simps split: sum.split)
qed

theorem mt5_group_is_submitted_once_witness:
  "fst (mt5_submit_group demo_mt5_executor ''TG-1'' demo_marked_world) \<noteq> Inr SUBMITTED"
  using mt5_group_is_submitted_once [of demo_marked_world "''TG-1''" _ demo_mt5_executor "[]" "demo_group_row save_defaults"]
    demo_marked demo_marked_inv by (simp add: demo_group_row_def saved_row_def demo_group_spec_def)

end
