(* ===== verification/MT5_Faults.thy ===== *)
theory MT5_Faults
  imports MT5_Safety
begin

text \<open>
  Where the demo executor departs from what its comments promise: states a poll cannot leave, data a poll
  cannot read, and a recorded entry that is overwritten. Each theorem states what the code does.
\<close>

lemma demo_listed: "list_groups None (w_store (demo_mt5_world a)) = Inr [Some (demo_group_row a)]"
proof -
  have "map fst (gs_groups (w_store (demo_mt5_world a))) = [''TG-1'']"
    by (simp add: demo_mt5_world_def save_rows replace_row_def empty_store_def)
  then show ?thesis
    using demo_mt5_store(2) [of a] by (simp add: list_groups_def rbind_def case_prod_beta)
qed

section \<open>A partial submission that is not compensated at once\<close>

text \<open>\<open>wp\<close> with an unsatisfiable postcondition: the computation raises.\<close>

definition raises :: "('s, 'a) comp \<Rightarrow> bool" where
  "raises m \<longleftrightarrow> (\<forall>s. wp m (\<lambda>_ _. False) (\<lambda>_. True) s)"

lemma raises_run: "raises m \<Longrightarrow> \<exists>e. fst (m s) = Inl e"
  by (simp add: raises_def wp_def split: prod.splits sum.splits) (metis fst_conv obj_sumE surj_pair)

lemma wp_raises: "raises m \<Longrightarrow> wp m Q (\<lambda>_. True) s"
  by (rule wp_mono [where Q = "\<lambda>_ _. False" and E = "\<lambda>_. True"]) (auto simp: raises_def)

lemma raises_after: "(\<And>x. raises (f x)) \<Longrightarrow> raises (bnd m f)" "raises n \<Longrightarrow> raises (seq m n)"
  by (simp_all add: raises_def wp_simps wp_any)

lemma raises_bnd: "raises m \<Longrightarrow> raises (bnd m f)"
  by (simp add: raises_def [of "bnd m f"] wp_bnd wp_raises)

lemma raises_seq: "raises m \<Longrightarrow> raises (seq m n)"
  unfolding seq_def by (rule raises_bnd)

lemma raises_and_then: "raises m \<Longrightarrow> raises (and_then m g)"
  unfolding and_then_def by (rule raises_bnd)

lemma and_then_ret: "and_then (ret (Inr c)) f = f c"
  by (rule ext) (simp add: and_then_def bnd_run run_simps)

lemmas raises_first = raises_bnd raises_seq raises_and_then

lemma refused_transition: "\<not> validate_transition a b \<Longrightarrow> raises (lift_result (require_transition a b))"
  by (simp add: raises_def wp_simps require_transition_def)

lemma closure_of_partial:
  assumes "row_state grp = PARTIAL_SUBMISSION"
  shows "wp (closure_phase ex grp i) (\<lambda>r _. r = Inr ([], PARTIAL_SUBMISSION, grp)) (\<lambda>_. True) w"
proof -
  have stop: "raises (stop_group ex grp price)" for price
    unfolding stop_group_def Let_def
    by (rule raises_first refused_transition)+ (simp add: assms validate_transition_def)
  have consume: "wp (if k = ''stop'' then seq m (bnd (stop_group ex grp price) f)
        else if k = ''tp1'' \<and> row_state grp \<in> {SUBMITTED, OPENED} then m1
        else if k = ''tp2'' \<and> row_state grp = BE_CONFIRMED then m2
        else if k = ''tp3'' \<and> row_state grp = TP2_FILLED then m3 else ret (Inr ([], row_state grp, grp)))
      (\<lambda>r _. r = Inr ([], PARTIAL_SUBMISSION, grp)) (\<lambda>_. True) w"
    for k m price f m1 m2 m3
    by (simp add: assms wp_simps(1) wp_raises raises_after raises_first stop)
  show ?thesis
    unfolding closure_phase_def Let_def wp_bnd wp_basic
    by (simp only: consume split: list.split) (simp add: wp_simps assms)
qed

lemma advance_partial_raises:
  assumes "row_state grp = PARTIAL_SUBMISSION"
  shows "raises (advance_group ex grp)"
proof -
  have "raises (compensation_phase ex (es, PARTIAL_SUBMISSION, grp))" for es
    unfolding compensation_phase_def begin_compensation_def Let_def
    by (simp only: prod.case if_True simp_thms, (rule raises_first refused_transition)+) (simp add: assms validate_transition_def)
  then have c: "raises (and_then (submitted_phase ex i ([], PARTIAL_SUBMISSION, grp)) (\<lambda>c2.
      and_then (compensation_phase ex c2) f))" for i f
    by (simp add: submitted_phase_def and_then_ret raises_and_then)
  have "raises (and_then (closure_phase ex grp i) (\<lambda>c1. and_then (submitted_phase ex i c1) (\<lambda>c2.
      and_then (compensation_phase ex c2) f)))" for i f
    unfolding and_then_def [of "closure_phase ex grp i"] raises_def wp_bnd
    by (intro allI wp_mono [OF closure_of_partial [OF assms]]) (simp_all add: wp_raises c)
  then show ?thesis
    unfolding advance_group_def by (intro raises_after)
qed

lemma poll_raises:
  assumes "Some grp \<in> set gs" and "polled grp" and "raises (advance_group ex grp)"
  shows "raises (poll_groups ex gs)"
  using assms(1)
proof (induction gs)
  case (Cons x gs)
  show ?case
  proof (cases "x = Some grp")
    case True
    then show ?thesis using assms by (simp add: raises_first)
  next
    case False
    then have "raises (poll_groups ex gs)" using Cons by auto
    then show ?thesis
      by (cases x) (simp_all only: poll_groups.simps raises_after(1) raises_bnd, simp add: raises_def wp_simps)
  qed
qed simp

text \<open>C20. A group that is found in the state PARTIAL_SUBMISSION, because its compensation was interrupted by an
  exception or a restart, stops every poll: its compensation is never resumed, although the comments
  promise a restart-safe retry, and no group after it is reconciled.\<close>

theorem interrupted_compensation_stops_polling:
  assumes "list_groups None (w_store w) = Inr gs" and "Some grp \<in> set gs"
    and "tg_mode (row_spec grp) = Demo" and "row_state grp = PARTIAL_SUBMISSION"
  shows "\<exists>e. fst (poll_once ex w) = Inl e"
proof -
  have "raises (poll_groups ex gs)"
    using assms by (intro poll_raises [of grp] advance_partial_raises) (auto simp: polled_def)
  then show ?thesis
    using assms raises_run [of "poll_groups ex gs" w] by (simp add: poll_once_def bnd_run run_simps)
qed

theorem interrupted_compensation_stops_polling_witness:
  "\<exists>e. fst (poll_once demo_mt5_executor (demo_mt5_world (save_defaults\<lparr>sv_state := PARTIAL_SUBMISSION\<rparr>))) = Inl e"
  using interrupted_compensation_stops_polling [of "demo_mt5_world (save_defaults\<lparr>sv_state := PARTIAL_SUBMISSION\<rparr>)" _ "demo_group_row (save_defaults\<lparr>sv_state := PARTIAL_SUBMISSION\<rparr>)"]
    demo_listed [of "save_defaults\<lparr>sv_state := PARTIAL_SUBMISSION\<rparr>"]
  by (simp add: demo_group_row_def demo_group_spec_def)

section \<open>Groups a poll cannot read\<close>

lemma paper_id_is_no_int: "parse_int (''PG-'' @ x) = None"
proof -
  have keep: "dropWhile is_space (y @ [CHR ''P'']) = dropWhile is_space y @ [CHR ''P'']" for y
    by (induction y) (simp_all add: is_space_def)
  have "\<exists>y. strip (''PG-'' @ x) = CHR ''P'' # y"
    using keep [of "rev x @ ''-G''"] by (simp add: strip_def is_space_def)
  then show ?thesis by (auto simp: parse_int_def digit_val_def)
qed

lemma leg_tickets_paper:
  assumes "i \<in> set legs" and "br_position_id (li_broker i) = Some (StrId (''PG-'' @ x))"
  shows "\<exists>e. leg_tickets legs = Inl e"
  using assms(1)
proof (induction legs)
  case (Cons j legs)
  then show ?case
    using assms(2) paper_id_is_no_int [of x]
    by (cases "id_int (br_position_id (li_broker j))") (auto simp: rbind_def id_int_def to_int_def)
qed simp

lemma covered_tickets_paper:
  assumes "Some g \<in> set gs" and "\<exists>e. leg_tickets (row_legs g) = Inl e"
  shows "\<exists>e. covered_tickets gs = Inl e"
  using assms(1)
proof (induction gs)
  case (Cons h gs)
  then show ?case
    using assms(2)
    by (cases h; cases "leg_tickets (row_legs (the h))"; cases "covered_tickets gs") (auto simp: rbind_def)
qed simp

text \<open>One group whose legs were filled on paper, with the textual position identifiers of the paper
  driver, makes the search for orphan positions raise, with every driver; it runs at the end of the
  reconciliation of every demo group, over all stored groups whatever their mode.\<close>

theorem paper_legs_break_orphan_detection:
  assumes "list_groups None (w_store w) = Inr gs" and "Some g \<in> set gs" and "i \<in> set (row_legs g)"
    and "br_position_id (li_broker i) = Some (StrId (''PG-'' @ x))"
  shows "\<exists>e. fst (detect_orphan_positions ex d w) = Inl e"
proof -
  obtain e where "covered_tickets gs = Inl e"
    using covered_tickets_paper [OF assms(2) leg_tickets_paper [OF assms(3,4)]] by blast
  with assms(1) show ?thesis
    by (simp add: detect_orphan_positions_def bnd_run run_simps read_clock_def)
qed

text \<open>The leg the paper executor stores.\<close>

definition paper_leg :: leg where
  "paper_leg = \<lparr>li_leg = 1, li_price = 2004, li_volume = 1, li_state = ''SUBMITTED'',
     li_broker = paper_result ''PO-TG-1-1-1'' ''PG-TG-1-L1'', li_fill_price = None, li_verified_after_restart = False,
     li_sl_after_restart = None, li_filled_volume = None, li_closed_volume = None, li_remaining_volume = None\<rparr>"

theorem paper_legs_break_orphan_detection_witness:
  "\<exists>e. fst (detect_orphan_positions demo_mt5_executor (MT5HedgingDriver demo_api 7)
     (demo_mt5_world (save_defaults\<lparr>sv_legs := [paper_leg]\<rparr>))) = Inl e"
  using paper_legs_break_orphan_detection [OF demo_listed, where i = paper_leg and x = "''TG-1-L1''"
      and g = "demo_group_row (save_defaults\<lparr>sv_legs := [paper_leg]\<rparr>)"]
  by (simp add: demo_group_row_def paper_leg_def paper_result_def)

section \<open>Targets filled between two polls\<close>

lemma inspect_keeps_store: "keeps (\<lambda>w. P (w_store w)) (inspect_group d grp)"
proof -
  have "keeps (\<lambda>w. P (w_store w)) (on_session m)" for m :: "('m mt5_session, 'x) comp"
    unfolding on_session_def by (intro keeps_intros)
  moreover from this have "keeps (\<lambda>w. P (w_store w)) (deals_of d ts)" for ts
    by (induction ts) (auto intro!: keeps_intros)
  ultimately show ?thesis unfolding inspect_group_def Let_def by (intro keeps_intros)
qed

lemma orphans_keep_store: "keeps (\<lambda>w. P (w_store w)) (detect_orphan_positions ex d)"
proof -
  have "keeps (\<lambda>w. P (w_store w)) (on_session m)" for m :: "('m mt5_session, 'x) comp"
    unfolding on_session_def by (intro keeps_intros)
  then show ?thesis unfolding detect_orphan_positions_def Let_def by (intro keeps_intros)
qed

text \<open>On a hedging account, when a further target is filled before the poll that would have seen the first
  one, the group is stuck: as long as the newest unconsumed closing deal is at TP2 or TP3, an open group
  advances no further. No state changes, no event is reported and no deal is consumed, so the next poll
  finds the same, and the remaining leg never gets its break-even stop.\<close>

theorem skipped_target_leaves_group_open:
  assumes drv: "mx_driver ex = Some d" "md_account_mode d = ''hedging''" and st: "row_state grp = OPENED"
    and insp: "inspect_group d grp w = (Inr i, w1)"
    and newest: "filter (\<lambda>x. \<not> has_action (tg_group_id (row_spec grp)) (deal_action x) (w_store w))
        (sort_key (\<lambda>x. - dl_time x) (in_closed_out_deals i)) = x # xs"
    and kind: "classify_broker_close (row_spec grp) x (mx_be_close_tolerance ex) \<in> {''tp2'', ''tp3''}"
  shows "w_store (snd (advance_group ex grp w)) = w_store w
    \<and> (fst (advance_group ex grp w) = Inr [] \<or> (\<exists>e. fst (advance_group ex grp w) = Inl e))"
proof -
  have s: "w_store w1 = w_store w"
    using keepsD [OF inspect_keeps_store [of "\<lambda>s. s = w_store w" d grp], of w] insp by simp
  have c: "closure_phase ex grp i w1 = (Inr (Inr ([], OPENED, grp)), w1)"
    using newest kind by (auto simp: closure_phase_def bnd_run run_simps s st Let_def)
  have "advance_group ex grp w = seq (detect_orphan_positions ex d) (ret []) w1"
    by (simp add: advance_group_def resolve_driver_def drv bnd_run run_simps insp and_then_def c submitted_phase_def
        compensation_phase_def netting_phase_def be_phase_def st)
  moreover have "w_store (snd (detect_orphan_positions ex d w1)) = w_store w1"
    by (rule keepsD [OF orphans_keep_store [of "\<lambda>s. s = w_store w1"]]) simp
  ultimately show ?thesis by (simp add: seq_run run_simps s split: sum.split)
qed

text \<open>The legs of the demo group opened at the broker, TP1 and TP2 filled between two polls.\<close>

definition broker_leg :: "int \<Rightarrow> rat \<Rightarrow> leg" where
  "broker_leg n price = paper_leg\<lparr>li_leg := n, li_price := price, li_state := ''OPEN'',
     li_broker := no_result\<lparr>br_position_id := Some (IntId (100000 + n))\<rparr>\<rparr>"

definition out_deal :: "int \<Rightarrow> rat \<Rightarrow> virtual_deal" where
  "out_deal n price = \<lparr>dw_ticket = 200000 + n, dw_position_id = 100000 + n, dw_symbol = ''GOLD'', dw_type = 1,
     dw_entry = 1, dw_price = price, dw_volume = 1 / 2, dw_time = n, dw_magic = 7, dw_comment = [],
     vd_profit = 0, vd_swap = 0, vd_commission = 0\<rparr>"

definition opened_args :: "broker_result save_args" where
  "opened_args = save_defaults\<lparr>sv_state := OPENED, sv_submitted := True,
     sv_legs := [broker_leg 1 2004, broker_leg 2 2008, broker_leg 3 2012]\<rparr>"

definition skipped_world :: "(broker_result, shim mt5_state) world" where
  "skipped_world = (demo_mt5_world opened_args)\<lparr>w_drv := \<lparr>mst_session = \<lparr>ms_terminal = demo_shim\<lparr>sh_state :=
       Some ((the (sh_state demo_shim))\<lparr>vt_deals := [out_deal 1 2004, out_deal 2 2008]\<rparr>)\<rparr>, ms_ref_map = []\<rparr>,
     mst_paper = None, mst_shutdown = None\<rparr>\<rparr>"

lemma skipped_inspection:
  "inspect_group (MT5HedgingDriver demo_api 7) (demo_group_row opened_args) skipped_world
     = (Inr \<lparr>in_positions = [], in_deals = map (deal_dict \<circ> deal_raw.truncate) [out_deal 1 2004, out_deal 2 2008],
          in_closed_out_deals = map (deal_dict \<circ> deal_raw.truncate) [out_deal 1 2004, out_deal 2 2008],
          in_volume_mismatch = [], in_notes = []\<rparr>, skipped_world)"
  by (simp add: inspect_group_def bnd_run run_simps on_session_def on_driver_def MT5HedgingDriver_def
      query_positions_by_magic_def on_terminal_def demo_api_def shim_api_def positions_get_def or_none_def get_positions_def
      skipped_world_def demo_shim_def VirtualState_def demo_group_row_def opened_args_def broker_leg_def rbind_def id_int_def
      query_deals_def history_deals_get_def get_history_deals_def out_deal_def deal_dict_def deal_raw.truncate_def
      OUT_ENTRY_def volume_mismatches_def save_defaults_def)

lemma demo_distances:
  "fsub 2008 2004 = 4" "fsub 2008 2008 = 0"
  by code_simp+

theorem skipped_target_leaves_group_open_witness:
  "w_store (snd (advance_group demo_mt5_executor (demo_group_row opened_args) skipped_world)) = w_store skipped_world"
proof -
  have k: "classify_broker_close (row_spec (demo_group_row opened_args)) (deal_dict (deal_raw.truncate (out_deal 2 2008)))
      (mx_be_close_tolerance demo_mt5_executor) \<in> {''tp2'', ''tp3''}"
    by (simp add: classify_broker_close_def close_levels_def demo_group_row_def demo_group_spec_def demo_spec_def
        deal_dict_def deal_raw.truncate_def out_deal_def demo_mt5_executor_def demo_distances)
  have times: "dl_time (deal_dict (deal_raw.truncate (out_deal n p))) = n" for n p
    by (simp add: deal_dict_def deal_raw.truncate_def out_deal_def)
  have unmarked: "\<not> has_action g a (w_store skipped_world)" for g a
    by (simp add: skipped_world_def demo_mt5_world_def has_action_def empty_store_def save_group_def Let_def)
  show ?thesis
    using skipped_target_leaves_group_open [OF _ _ _ skipped_inspection _ k]
    by (simp add: demo_mt5_executor_def MT5HedgingDriver_def demo_group_row_def opened_args_def times unmarked)
qed

section \<open>A compensation whose retries are used up\<close>

text \<open>The retries of the compensation are used up, a close is recorded as refused and its failure is recorded.\<close>

definition exhausted :: "'m mt5_executor \<Rightarrow> broker_result comp_state \<Rightarrow> bool" where
  "exhausted ex cs \<longleftrightarrow> get_or 0 (cp_retries cs) \<ge> mx_max_compensation_retries ex
     \<and> list_ex (\<lambda>(_, r). br_status r \<noteq> Some ''filled'') (cp_legs cs) \<and> cp_recorded cs"

lemma exhausted_verify:
  assumes inv: "store_inv (w_store w)" and row: "load_group gid (w_store w) = Inr (Some grp)"
    and drv: "mx_driver ex = Some d" and exh: "exhausted ex (row_comp grp)"
  shows "verify_compensation ex gid w = (Inr ''failed'', w\<lparr>w_reads := w_reads w + 1,
      w_store := update_group_state (io_clock ex (w_reads w)) gid FAILED_WITH_OPEN_RISK
        (no_update\<lparr>up_comp := Some ((row_comp grp)\<lparr>cp_status := Some ''FAILED'', cp_recorded := True\<rparr>)\<rparr>) (w_store w)\<rparr>)"
proof -
  have "tg_group_id (row_spec grp) = gid" using loaded_key [OF inv row] .
  moreover have "filter (\<lambda>(_, r). br_status r \<noteq> Some ''filled'') (cp_legs (row_comp grp)) \<noteq> []"
    using exh by (auto simp: exhausted_def list_ex_iff filter_empty_conv)
  ultimately show ?thesis
    using exh row
    by (simp add: verify_compensation_def reload_def bnd_run run_simps resolve_driver_def drv open_risk_def
        seq_run run_update exhausted_def)
qed

text \<open>Once the retries of a compensation are used up with a refused close on record, no later poll asks
  the broker again: every verification answers failed and leaves the terminal untouched, so the group
  stays in FAILED_WITH_OPEN_RISK even after the position was closed, although the comments say that
  reconciliation keeps polling.\<close>

theorem exhausted_compensation_is_never_confirmed:
  assumes "store_inv (w_store w)" and "load_group gid (w_store w) = Inr (Some grp)"
    and "mx_driver ex = Some d" and "exhausted ex (row_comp grp)"
    and "w' = ((\<lambda>w. snd (verify_compensation ex gid w)) ^^ n) w"
  shows "fst (verify_compensation ex gid w') = Inr ''failed'' \<and> w_drv w' = w_drv w
    \<and> (\<exists>grp'. load_group gid (w_store w') = Inr (Some grp') \<and> (0 < n \<longrightarrow> row_state grp' = FAILED_WITH_OPEN_RISK))"
proof -
  let ?I = "\<lambda>n w'. store_inv (w_store w') \<and> w_drv w' = w_drv w \<and> (\<exists>r. load_group gid (w_store w') = Inr (Some r)
      \<and> exhausted ex (row_comp r) \<and> (0 < (n :: nat) \<longrightarrow> row_state r = FAILED_WITH_OPEN_RISK))"
  have "?I n (((\<lambda>w. snd (verify_compensation ex gid w)) ^^ n) w)"
  proof (induction n)
    case (Suc n)
    then obtain v r where v: "v = ((\<lambda>w. snd (verify_compensation ex gid w)) ^^ n) w"
      and r: "store_inv (w_store v)" "w_drv v = w_drv w" "load_group gid (w_store v) = Inr (Some r)"
        "exhausted ex (row_comp r)" by blast
    then show ?case
      using exhausted_verify [OF r(1,3) assms(3) r(4)]
      by (auto simp: update_store_inv load_after_update set_columns_def exhausted_def)
  qed (use assms in auto)
  then show ?thesis using assms(3,5) exhausted_verify by fastforce
qed

definition refused_compensation :: "broker_result comp_state" where
  "refused_compensation = comp_empty\<lparr>cp_status := Some ''FAILED'', cp_retries := Some 3, cp_recorded := True,
     cp_legs := [(''COMPENSATE-L1'', rejected_result 10006 ''refused'')]\<rparr>"

theorem exhausted_compensation_is_never_confirmed_witness:
  "fst (verify_compensation demo_mt5_executor ''TG-1'' (demo_mt5_world (save_defaults\<lparr>sv_state := FAILED_WITH_OPEN_RISK,
      sv_comp := Some refused_compensation\<rparr>))) = Inr ''failed''"
  using exhausted_compensation_is_never_confirmed [OF demo_mt5_inv demo_mt5_store(2) [of
      "save_defaults\<lparr>sv_state := FAILED_WITH_OPEN_RISK, sv_comp := Some refused_compensation\<rparr>"],
      of demo_mt5_executor "MT5HedgingDriver demo_api 7" _ 0]
  by (simp add: demo_mt5_executor_def exhausted_def demo_group_row_def saved_row_def refused_compensation_def comp_empty_def
      rejected_result_def no_result_def or_else_def)

section \<open>The recorded entry\<close>

text \<open>The entry fill of a group can be overwritten: when TP1 is processed on a group that was read before the
  entry was recorded (a netting group opened and at its first target in the same poll), the price of the
  target is stored as the entry fill, and the break-even level is later computed from it. The write-once
  check of the contract only sees the stale copy.\<close>

theorem stale_group_overwrites_entry_fill:
  fixes ex :: "'m mt5_executor"
  assumes row: "load_group gid (w_store w) = Inr (Some r)" and gid: "tg_group_id (row_spec grp) = gid"
    and recorded: "es_actual_fill (tg_entry (row_spec r)) = Some entry"
    and stale: "es_actual_fill (tg_entry (row_spec grp)) = None"
    and ok: "with_actual_fill (mx_fill_cfg ex) (row_spec grp) price = Inr spec"
  shows "\<exists>r'. map_of (gs_groups (w_store (snd (tp1_filled ex grp price bc w)))) gid = Some r'
    \<and> es_actual_fill (tg_entry (row_spec r')) = Some price"
proof -
  let ?P = "\<lambda>w :: (broker_result, 'm mt5_state) world.
    \<exists>r'. map_of (gs_groups (w_store w)) gid = Some r' \<and> es_actual_fill (tg_entry (row_spec r')) = Some price"
  have spec: "tg_group_id spec = gid" "es_actual_fill (tg_entry spec) = Some price"
    using ok gid by (auto simp: with_actual_fill_Inr)
  have saved: "?P (v\<lparr>w_reads := n, w_store := save_group sha now spec a s\<rparr>)"
    for v n sha now a s
    by (simp add: save_rows spec)
  have rest: "wp (seq (append_args ex a) (seq (notify ex m) (ret g))) (\<lambda>_. ?P) ?P v" if "?P v" for a m v and g :: grp
    using that by (intro wp_keeps keeps_intros)
  have "wp (tp1_filled ex grp price bc) (\<lambda>_. ?P) ?P w"
    unfolding tp1_filled_def Let_def
    by (simp add: wp_simps stale ok validate_transition_def TERMINAL_STATES_def)
      (intro conjI impI; rule iffD1 [OF wp_seq], rule rest, rule saved)
  then show ?thesis by (auto simp: wp_def split: prod.splits sum.splits)
qed

definition filled_world :: "(broker_result, shim mt5_state) world" where
  "filled_world = (demo_mt5_world opened_args)\<lparr>w_store := save_group demo_sha 1
     (demo_group_spec\<lparr>tg_entry := (tg_entry demo_group_spec)\<lparr>es_actual_fill := Some 2001\<rparr>\<rparr>) opened_args empty_store\<rparr>"

lemma filled_row:
  "map_of (gs_groups (w_store filled_world)) ''TG-1''
     = Some (saved_row demo_sha 1 ((demo_spec (Some 2001))\<lparr>tg_mode := Demo\<rparr>) opened_args None)"
  by (simp add: filled_world_def demo_group_spec_def demo_spec_def save_rows existing_row_def load_group_def empty_store_def)

theorem stale_group_overwrites_entry_fill_witness:
  "\<exists>r'. map_of (gs_groups (w_store (snd (tp1_filled demo_mt5_executor (demo_group_row opened_args) 2004 False
      filled_world)))) ''TG-1'' = Some r' \<and> es_actual_fill (tg_entry (row_spec r')) = Some 2004"
proof -
  have ok: "with_actual_fill None demo_group_spec 2004 = Inr (demo_group_spec\<lparr>tg_entry := (tg_entry demo_group_spec)\<lparr>es_actual_fill := Some 2004\<rparr>\<rparr>)"
    unfolding with_actual_fill_Inr by (simp add: demo_group_spec_def demo_spec_def) code_simp
  have load: "load_group ''TG-1'' (w_store filled_world)
      = Inr (Some (saved_row demo_sha 1 ((demo_spec (Some 2001))\<lparr>tg_mode := Demo\<rparr>) opened_args None))"
    using demo_group_deserializes [of "Some 2001"] by (simp add: load_group_Some filled_row)
  show ?thesis
    using stale_group_overwrites_entry_fill [OF load, of "demo_group_row opened_args" 2001 demo_mt5_executor 2004] ok
    by (simp add: demo_group_row_def demo_mt5_executor_def demo_group_spec_def demo_spec_def)
qed

end
