(* ===== verification/MT5_Guarantees.thy ===== *)
theory MT5_Guarantees
  imports MT5_Safety
begin

text \<open>
  What a positive answer of the demo executor means: a submission passed every gate, a confirmed
  break-even has every stop in place, a confirmed compensation left no position open. The readings of
  the terminal that decide are the ones of the same call.
\<close>

section \<open>Readings\<close>

text \<open>A value that the terminal call \<open>m\<close> returned in some state of the terminal.\<close>

definition was_read :: "('m, 'a) comp \<Rightarrow> 'a \<Rightarrow> bool" where
  "was_read m x \<longleftrightarrow> (\<exists>t t'. m t = (Inr x, t'))"

lemma wp_terminal:
  "(\<And>x d. was_read m x \<Longrightarrow> Q x (w\<lparr>w_drv := d\<rparr>)) \<Longrightarrow> (\<And>d. E (w\<lparr>w_drv := d\<rparr>))
    \<Longrightarrow> wp (on_session (on_terminal m)) Q E w"
  by (auto simp: wp_def on_session_def on_driver_def on_terminal_def was_read_def split: prod.split sum.split)

section \<open>Submission\<close>

text \<open>What must hold of the executor and of the stored group, and of what was read from the broker, for a
  submission to be sent.\<close>

definition submission_gates :: "'m mt5_executor \<Rightarrow> grp \<Rightarrow> bool" where
  "submission_gates ex r \<longleftrightarrow>
     (let spec = row_spec r; risk = tg_risk spec in
      mx_allow_demo ex \<and> tg_mode spec \<noteq> Live \<and> mx_deployment_mode ex \<noteq> Some ''live_systematic''
      \<and> row_state r = VALIDATED \<and> is_ok (require_execution_provenance (io_sha ex) spec)
      \<and> (\<exists>api. mx_api ex = Some api
          \<and> (\<exists>account. was_read (account_info api) account \<and> ACCOUNT_TRADE_MODE_DEMO api = Some (av_trade_mode account)
              \<and> fst (check_group_risk (gr_estimated_loss_at_sl risk) (gr_max_cash risk) (gr_max_pct risk) (av_balance account)))
          \<and> (\<exists>lv. was_read (validate_geometry api spec (tg_broker_symbol spec)) lv))
      \<and> (\<exists>n. check_group_not_expired (tg_expires_at_utc_ms spec) (io_clock ex n)))"

lemma validated_before: "validate_transition s SUBMITTED \<Longrightarrow> s = VALIDATED"
  by (cases s) (auto simp: validate_transition_def TERMINAL_STATES_def)

lemma wp_rejecting:
  assumes "wp m Q (\<lambda>_. True) w"
  shows "wp (rejecting ex spec reason m) Q (\<lambda>_. True) w"
  using assms
  by (auto simp: rejecting_def wp_def catch_run seq_run run_simps split: prod.splits sum.splits option.splits)

lemma wp_require_demo:
  assumes "\<And>api account w'. mx_api ex = Some api \<Longrightarrow> was_read (account_info api) account
      \<Longrightarrow> ACCOUNT_TRADE_MODE_DEMO api = Some (av_trade_mode account) \<Longrightarrow> Q account w'"
  shows "wp (require_demo_account ex) Q (\<lambda>_. True) w"
  unfolding require_demo_account_def
  by (auto simp: wp_simps split: option.split intro!: wp_terminal assms)

lemma wp_validate_geometry:
  assumes "\<And>api lv w'. mx_api ex = Some api \<Longrightarrow> was_read (validate_geometry api spec symbol) lv \<Longrightarrow> Q lv w'"
  shows "wp (with_context ex (\<lambda>api. validate_geometry api spec symbol)) Q (\<lambda>_. True) w"
  unfolding with_context_def
  by (auto simp: wp_simps split: option.split intro!: wp_terminal assms)

lemma wp_prepare:
  assumes "\<And>account d i w'. is_ok (require_execution_provenance (io_sha ex) spec)
      \<Longrightarrow> \<exists>api. mx_api ex = Some api \<and> was_read (account_info api) account
        \<and> ACCOUNT_TRADE_MODE_DEMO api = Some (av_trade_mode account)
        \<and> (\<exists>lv. was_read (validate_geometry api spec (tg_broker_symbol spec)) lv)
      \<Longrightarrow> Q (account, d, i) w'"
  shows "wp (prepare_submission ex spec) Q (\<lambda>_. True) w"
  unfolding prepare_submission_def wp_seq wp_bnd
  apply (rule wp_rejecting)
  apply (simp only: wp_basic split: sum.split)
  apply (intro conjI allI impI, simp)
  apply (rule wp_require_demo)
  apply (rule wp_any)
   apply (simp only: wp_basic split: sum.split)
   apply (intro conjI allI impI, simp)
   apply (rule wp_rejecting)
   apply (rule wp_any)
    apply (rule wp_rejecting)
    apply (rule wp_validate_geometry)
    apply (simp only: wp_basic)
    apply (rule assms)
     apply simp
    apply auto
  done

lemma wp_with_kept:
  assumes "keeps P m" and "P s" and "wp m (\<lambda>x s'. P s' \<longrightarrow> Q x s') E s"
  shows "wp m Q E s"
  using keepsD [OF assms(1,2)] assms(3) by (auto simp: wp_def split: prod.splits sum.splits)

interpretation mt5_store: world_invariant "\<lambda>w. store_inv (w_store w)" ex for ex :: "'m mt5_executor"
proof (unfold_locales, goal_cases)
  case (7 spec)
  show ?case by (intro keeps_on_paper paper_calls keeps_store_inv_call)
next
  case (8 gid)
  show ?case by (intro keeps_on_paper paper_calls keeps_store_inv_call)
qed (auto simp: save_store_inv update_store_inv mark_store_inv intro: keeps_intros)

lemma keeps_send_group:
  "keeps (\<lambda>w. store_inv (w_store w) \<and> has_action g a (w_store w)) (send_group ex gid current d intent)"
  unfolding send_group_def Let_def by (intro keeps_intros)

lemma wp_mark_granted:
  assumes "store_inv (w_store w)"
    and "\<And>w'. store_inv (w_store w') \<Longrightarrow> has_action gid a (w_store w') \<Longrightarrow> wp m Q (\<lambda>_. True) w'"
  shows "wp (bnd (mark ex gid a p) (\<lambda>granted. seq (require granted e) m)) Q (\<lambda>_. True) w"
proof -
  have marked: "has_action gid a (snd (mark_action now gid a p s))" if "fst (mark_action now gid a p s)" for now s
    using that by (auto simp: mark_action_def has_action_def split: if_splits)
  show ?thesis using assms by (simp add: mark_def wp_simps mark_store_inv marked)
qed

lemma wp_rejected: "wp (seq m (ret REJECTED)) (\<lambda>st w'. st = SUBMITTED \<longrightarrow> R w') (\<lambda>_. True) w"
  by (simp add: wp_def seq_run run_simps case_prod_beta split: sum.split)

lemma wp_submit_demo:
  assumes inv: "store_inv (w_store w)" and gate: "mt5_gate_mode ex (row_spec r) = Inr u"
    and demo: "tg_mode (row_spec r) \<noteq> Paper"
  shows "wp (submit_demo ex gid r)
    (\<lambda>st w'. st = SUBMITTED \<longrightarrow> submission_gates ex r \<and> has_action gid ''OPEN-GROUP'' (w_store w')) (\<lambda>_. True) w"
proof -
  let ?P = "\<lambda>w. store_inv (w_store w)"
  have prep: "keeps ?P (prepare_submission ex spec)" for spec
    by (rule mt5_store.keeps_prepare)
  have modes: "mx_allow_demo ex" "tg_mode (row_spec r) \<noteq> Live" "mx_deployment_mode ex \<noteq> Some ''live_systematic''"
    using gate demo by (auto simp: mt5_gate_mode_def split: if_splits)
  have before: "require_transition (row_state r) SUBMITTED = Inr u' \<Longrightarrow> row_state r = VALIDATED" for u'
    by (auto simp: require_transition_def dest: validated_before split: if_splits)
  show ?thesis
    unfolding submit_demo_def Let_def
    apply (simp only: wp_seq wp_bnd wp_basic split: sum.split)
    apply (intro conjI allI impI, simp)
    apply (rule wp_with_kept [where P = ?P, OF prep inv])
    apply (rule wp_prepare)
    apply (simp only: prod.case wp_bnd wp_world)
    apply (simp only: case_prod_beta wp_if split: if_split)
    apply (intro conjI impI)
       apply (rule wp_rejected)+
    apply (rule wp_mark_granted, simp)
    apply (rule wp_mono [OF wp_keeps [OF keeps_send_group]], simp)
     defer
     apply (rule TrueI)
    apply (simp add: submission_gates_def Let_def modes before)
    apply blast
    done
qed

subsection \<open>A terminal that accepts\<close>

text \<open>A demo account on a terminal with constant readings, a driver that fills, and a validated group with
  complete provenance.\<close>

definition gate_api :: "unit mt5_api" where
  "gate_api = \<lparr>
     api_account_info = ret (Some \<lparr>ac_login = Some 1, ac_balance = Some 1000, ac_equity = Some 1000,
       ac_currency = Some ''USD'', ac_trade_mode = Some 0, ac_margin_mode = Some 2\<rparr>),
     api_symbol_info = (\<lambda>_. ret (Some \<lparr>sy_digits = Some 0, sy_point = Some 1, sy_trade_tick_size = Some 1,
       sy_trade_stops_level = Some 1, sy_trade_freeze_level = Some 0, sy_volume_min = Some (1 / 4),
       sy_volume_max = None, sy_volume_step = Some (1 / 4), sy_trade_contract_size = Some 1,
       sy_trade_exec_mode = None\<rparr>)),
     api_symbol_info_tick = (\<lambda>_. ret (Some \<lparr>tk_bid = Some 2000, tk_ask = Some 2001\<rparr>)),
     api_positions_get = (\<lambda>_. ret None), api_history_deals_get = (\<lambda>_. ret None),
     api_order_send = (\<lambda>_. ret None), ACCOUNT_TRADE_MODE_DEMO = Some 0,
     ACCOUNT_MARGIN_MODE_RETAIL_HEDGING = Some 2, ACCOUNT_MARGIN_MODE_RETAIL_NETTING = Some 0,
     TRADE_RETCODE_DONE = Some 10009, TRADE_ACTION_DEAL = 1, TRADE_ACTION_SLTP = 6, ORDER_TYPE_BUY = 0,
     ORDER_TYPE_SELL = 1, ORDER_TIME_GTC = 0, ORDER_FILLING_IOC = 1\<rparr>"

definition gate_sha :: "json \<Rightarrow> string" where
  "gate_sha j = CHR ''h'' # demo_sha j"

definition gate_driver :: "unit mt5_session mt5_driver" where
  "gate_driver = (MT5HedgingDriver gate_api 7)\<lparr>md_submit_leg :=
     (\<lambda>spec leg volume. ret (no_result\<lparr>br_status := Some ''filled'', br_filled_volume := Some volume\<rparr>))\<rparr>"

definition gate_executor :: "unit mt5_executor" where
  "gate_executor = \<lparr>io_sha = gate_sha, io_clock = int, io_uuid = (\<lambda>n. replicate (Suc n) CHR ''u''),
      mx_api = Some gate_api, mx_driver = Some gate_driver,
      mx_notifier = None, mx_magic = 7,
      mx_max_be_retries = 3, mx_max_compensation_retries = 3, mx_cost = demo_cost, mx_be_close_tolerance = 1 / 2,
      mx_deployment_mode = None, mx_allow_demo = True, mx_env = None, mx_fill_cfg = None,
      mx_dump_intent = (\<lambda>_. [])\<rparr>"

definition gate_spec :: trade_group_spec where
  "gate_spec = demo_group_spec\<lparr>tg_provenance := (\<lambda>k.
     Some (if k = ''geometry_hash'' then geometry_hash gate_sha demo_group_spec
           else if k = ''provenance_hash'' then gate_sha (JObj (map (\<lambda>k. (k, JStr ''id'')) lineage_keys)) else ''id''))\<rparr>"

definition gate_world :: "(broker_result, unit mt5_state) world" where
  "gate_world = \<lparr>w_store = save_group gate_sha 0 gate_spec (save_defaults\<lparr>sv_state := VALIDATED\<rparr>) empty_store,
     w_ledger = [],
     w_drv = \<lparr>mst_session = \<lparr>ms_terminal = (), ms_ref_map = []\<rparr>, mst_paper = None, mst_shutdown = None\<rparr>,
     w_reads = 0\<rparr>"

lemma gate_levels:
  "align_level 2004 1 = 2004" "align_level 2008 1 = 2008" "align_level 2012 1 = 2012" "align_level 1990 1 = 1990"
  by (simp_all add: align_level_def fmul_def fdiv_def py_round_def)

lemma nano: "0 < fl (1 / 1000000000)"
  by code_simp

lemma gate_aligned:
  "is_tick_aligned 2004 1" "is_tick_aligned 2008 1" "is_tick_aligned 2012 1" "is_tick_aligned 1990 1"
  by (simp_all add: is_tick_aligned_def fmul_def fdiv_def fsub_def nano)

lemma gate_volumes: "py_round (fmul 1 (1 / 2)) 8 = 1 / 2" "py_round (fmul 1 (1 / 4)) 8 = 1 / 4"
  by code_simp+
lemma gate_risk: "check_group_risk 10 100 (1 / 4) 1000 = (True, None)"
  by code_simp

definition gate_view :: symbol_view where
  "gate_view = \<lparr>sn_symbol = ''GOLD'', sn_digits = 0, sn_point = 1, sn_tick_size = 1,
    sn_trade_stops_level = 1, sn_trade_freeze_level = 0, sn_volume_min = 1 / 4, sn_volume_max = 0,
    sn_volume_step = 1 / 4, sn_contract_size = 1, sn_spread = 1, sn_bid = 2000, sn_ask = 2001,
    sn_execution_mode = ''unknown'', sn_account_margin_mode = ''hedging''\<rparr>"

lemma gate_fits: "volume_fits gate_view (1 / 2)" "volume_fits gate_view (1 / 4)"
  by code_simp+

lemma gate_distances: 
   "fadd 1 (fl (1 / 10 ^ 9)) < 4" "fsub 2 (fl (1 / 10 ^ 9)) < 10"
  by code_simp+

lemma gate_snapshot: "symbol_snapshot gate_api ''GOLD'' u = (Inr gate_view, u)"
  by (simp add: symbol_snapshot_def account_mode_def account_info_def gate_api_def py_simps or_num_def Let_def fsub_def gate_view_def)

lemma gate_account: "account_info gate_api u = (Inr \<lparr>av_login = 1, av_balance = 1000, av_equity = 1000, av_currency = ''USD'',
   av_trade_mode = 0, av_margin_mode = 2\<rparr>, u)"
  by (simp add: account_info_def gate_api_def py_simps or_num_def or_str_def)

lemma gate_spec_fields [simp]:
  "tg_geometry gate_spec = tg_geometry (demo_spec None)" "tg_entry gate_spec = tg_entry (demo_spec None)"
  "tg_targets gate_spec = tg_targets (demo_spec None)" "tg_risk gate_spec = tg_risk (demo_spec None)"
  "tg_mode gate_spec = Demo" "tg_broker_symbol gate_spec = ''GOLD''" "tg_group_id gate_spec = ''TG-1''"
  "tg_expires_at_utc_ms gate_spec = 5000"
  by (simp_all add: gate_spec_def demo_group_spec_def demo_spec_def)

lemma gate_leg_volumes: "leg_volumes gate_spec = [1 / 2, 1 / 4, 1 / 4]"
  by (simp add: leg_volumes_def demo_spec_def gate_volumes)

lemma gate_numbers:
  "ge_tp1 (tg_geometry (demo_spec None)) = 2004" "ge_tp2 (tg_geometry (demo_spec None)) = 2008"
  "ge_tp3 (tg_geometry (demo_spec None)) = 2012" "ge_sl (tg_geometry (demo_spec None)) = 1990"
  "es_reference (tg_entry (demo_spec None)) = 2000" "gr_estimated_loss_at_sl (tg_risk (demo_spec None)) = 10"
  "gr_max_cash (tg_risk (demo_spec None)) = 100" "gr_max_pct (tg_risk (demo_spec None)) = 1 / 4"
  "gr_total_volume (tg_risk (demo_spec None)) = 1"
  "sn_tick_size gate_view = 1" "sn_spread gate_view = 1" "sn_point gate_view = 1"
  "sn_trade_stops_level gate_view = 1" "sn_trade_freeze_level gate_view = 0"
  by (simp_all add: demo_spec_def gate_view_def)

lemma gate_geometry: "\<exists>lv. validate_geometry gate_api gate_spec ''GOLD'' u = (Inr lv, u)"
  using gate_distances
  by (simp add: validate_geometry_def normalize_geometry_def Let_def py_simps gate_snapshot gate_leg_volumes gate_fits
      gate_numbers gate_levels gate_aligned fsub_def fadd_def fmul_def)

lemma gate_hashes: "tg_provenance gate_spec ''geometry_hash'' = Some (geometry_hash gate_sha gate_spec)"
  "tg_provenance gate_spec ''provenance_hash'' = Some (provenance_hash gate_sha gate_spec)"
  by (simp_all add: gate_spec_def geometry_hash_def provenance_hash_def geometry_payload_def provenance_payload_def
      lineage_keys_def jopt_def)

lemma gate_provenance: "require_execution_provenance gate_sha gate_spec = Inr ()" "\<not> falsy (tg_provenance gate_spec k)"
  by (simp_all add: require_execution_provenance_def Let_def falsy_def gate_hashes) (simp_all add: gate_spec_def gate_sha_def geometry_hash_def)

definition gate_balance :: account_view where
  "gate_balance = \<lparr>av_login = 1, av_balance = 1000, av_equity = 1000, av_currency = ''USD'', av_trade_mode = 0,
     av_margin_mode = 2\<rparr>"

lemma gate_prepared:
  obtains i where "prepare_submission gate_executor gate_spec gate_world = (Inr (gate_balance, gate_driver, i), gate_world)"
    and "ei_leg_volumes i = [1 / 2, 1 / 4, 1 / 4]"
proof -
  obtain lv where lv: "validate_geometry gate_api gate_spec ''GOLD'' () = (Inr lv, ())" using gate_geometry by blast
  obtain i where i: "from_spec gate_sha gate_spec None = Inr i" "ei_leg_volumes i = [1 / 2, 1 / 4, 1 / 4]"
      "require_geometry_unchanged gate_sha i gate_spec = Inr ()" "require_provenance_present i gate_spec = Inr ()"
    by (simp add: from_spec_def Let_def gate_leg_volumes gate_numbers rguard_def require_provenance_present_def
        gate_provenance require_geometry_unchanged_def verify_geometry_def)
  have "io_sha gate_executor = gate_sha" "mx_api gate_executor = Some gate_api" "ACCOUNT_TRADE_MODE_DEMO gate_api = Some 0"
    "mx_driver gate_executor = Some gate_driver"
    by (simp_all add: gate_executor_def gate_api_def)
  then have "prepare_submission gate_executor gate_spec gate_world = (Inr (gate_balance, gate_driver, i), gate_world)"
    by (simp add: prepare_submission_def py_simps rejecting_def catch_run gate_provenance i with_context_def
        require_demo_account_def on_session_def on_driver_def on_terminal_def gate_account lv resolve_driver_def
        gate_world_def gate_balance_def)
  then show thesis using i(2) by (rule that)
qed

lemma demo_provenance_deserializes:
  "deserialize_spec ((demo_spec fill)\<lparr>tg_mode := Demo, tg_provenance := p\<rparr>)
     = Inr ((demo_spec fill)\<lparr>tg_mode := Demo, tg_provenance := p\<rparr>)"
proof -
  have "validate_contract ((demo_spec fill)\<lparr>tg_mode := Demo, tg_provenance := p\<rparr>)
      = Inr ((demo_spec fill)\<lparr>tg_mode := Demo, tg_provenance := p\<rparr>)"
    using demo_spec_valid [of fill] by (simp add: validate_contract_Inr identity_fields_def)
  then show ?thesis
    by (simp add: deserialize_spec_def model_validate_def demo_spec_def EntrySpec_def Geometry_def
        BreakEvenPolicy_def GroupRisk_def TargetLegSpec_def or_str_def SPEC_CHAIN_def GROUP_SCHEMA_VERSION_def)
qed

lemma gate_row: "load_group ''TG-1'' (w_store gate_world) = Inr (Some (saved_row gate_sha 0 gate_spec (save_defaults\<lparr>sv_state := VALIDATED\<rparr>) None))"
  and gate_inv: "store_inv (w_store gate_world)"
proof -
  have "deserialize_spec gate_spec = Inr gate_spec"
    unfolding gate_spec_def demo_group_spec_def by (rule demo_provenance_deserializes)
  then show "load_group ''TG-1'' (w_store gate_world) = Inr (Some (saved_row gate_sha 0 gate_spec (save_defaults\<lparr>sv_state := VALIDATED\<rparr>) None))"
    by (simp add: gate_world_def load_group_Some save_rows existing_row_def save_store_inv empty_store_inv
       load_group_def empty_store_def)
qed (simp add: gate_world_def save_store_inv empty_store_inv)

lemma gate_ids: "inj (io_uuid gate_executor)" "io_uuid gate_executor n \<noteq> []" "inj (io_sha gate_executor)"
  using demo_sha_inj by (auto simp: gate_executor_def inj_def gate_sha_def replicate_eq_replicate)

lemma gate_append:
  assumes "issued gate_executor w" and "ea_event_type a \<in> set EVENT_TYPES" and "ea_event_id a = None"
    and "\<And>w'. issued gate_executor w' \<Longrightarrow> Q () w'"
  shows "wp (append_args gate_executor a) Q E w"
  using assms by (intro wp_append_args_fresh gate_ids)

lemma gate_leg:
  assumes "n \<in> {1, 2, 3}" and "issued gate_executor w" and "\<And>x w'. issued gate_executor w' \<Longrightarrow> Q x w'"
  shows "wp (mt5_submit_one gate_executor gate_driver gate_spec (n, v)) Q E w"
proof -
  have price: "\<exists>x. leg_price gate_spec n = Inr x" using assms(1) by (auto simp: leg_price_def demo_spec_def)
  have session: "wp (on_session (ret x)) Q E w = Q x w" for x Q E and w :: "(broker_result, unit mt5_state) world"
    by (simp add: wp_def on_session_def on_driver_def run_simps)
  show ?thesis
    unfolding mt5_submit_one_def append_leg_event_def with_source_def mt5_event_def event_of_def Let_def
    using price
    by (auto simp: wp_simps gate_driver_def session no_result_def mt5_leg_state_def EVENT_TYPES_def
        intro!: gate_append assms)
qed

lemma gate_send:
  assumes "row_spec r = gate_spec" and "ei_leg_volumes i = [1 / 2, 1 / 4, 1 / 4]" and "issued gate_executor w"
  shows "wp (send_group gate_executor ''TG-1'' r gate_driver i) (\<lambda>st _. st = SUBMITTED) E w"
  unfolding send_group_def emit_def mt5_event_def event_of_def Let_def
  apply (simp add: wp_simps assms)
  apply (rule gate_leg, simp, rule assms, simp only: wp_bnd wp_basic)
  apply (rule gate_leg, simp, assumption, simp only: wp_bnd wp_basic)
  apply (rule gate_leg, simp, assumption, simp add: wp_simps)
  apply (rule gate_append)
     apply (auto simp: EVENT_TYPES_def wp_simps elim: issued_frame)
  done

lemma gate_mark:
  assumes "row_spec r = gate_spec" and "ei_leg_volumes i = [1 / 2, 1 / 4, 1 / 4]"
  shows "wp (bnd (mark gate_executor ''TG-1'' ''OPEN-GROUP'' pl)
      (\<lambda>granted. seq (require granted e) (send_group gate_executor ''TG-1'' r gate_driver i)))
    (\<lambda>st _. st = SUBMITTED) E (gate_world\<lparr>w_reads := n\<rparr>)"
proof -
  have "\<not> has_action ''TG-1'' ''OPEN-GROUP'' (w_store gate_world)"
    by (simp add: gate_world_def has_action_def empty_store_def)
  then show ?thesis
    by (simp add: mark_def wp_simps mark_action_def)
      (rule gate_send [OF assms], simp add: gate_world_def issued_def ledger_inv_Nil)
qed

lemma gate_submission: "wp (mt5_submit_group gate_executor ''TG-1'') (\<lambda>st _. st = SUBMITTED) (\<lambda>_. False) gate_world"
proof -
  obtain i where p: "prepare_submission gate_executor gate_spec gate_world = (Inr (gate_balance, gate_driver, i), gate_world)"
    "ei_leg_volumes i = [1 / 2, 1 / 4, 1 / 4]" by (rule gate_prepared)
  have prepared: "wp (prepare_submission gate_executor gate_spec) Q E gate_world = Q (gate_balance, gate_driver, i) gate_world"
    for Q E by (simp add: wp_def p)
  have gates: "mt5_gate_mode gate_executor gate_spec = Inr ()" "require_transition VALIDATED SUBMITTED = Inr ()"
    "check_group_not_expired 5000 0" "w_reads gate_world = 0" "io_clock gate_executor n = int n" "av_balance gate_balance = 1000" for n
    by (simp_all add: mt5_gate_mode_def gate_executor_def require_transition_def validate_transition_def TERMINAL_STATES_def
        check_group_not_expired_def gate_world_def gate_balance_def)
  show ?thesis
    by (simp add: mt5_submit_group_def submit_demo_def Let_def wp_basic wp_seq wp_bnd wp_if wp_world wp_case_prod
        gate_row gates prepared gate_numbers gate_risk gate_mark [OF _ p(2), unfolded wp_bnd])
qed



section \<open>Break-even\<close>

text \<open>A question to the driver that leaves the session as it is.\<close>

locale pure_query =
  fixes query :: "string \<Rightarrow> ('m mt5_session, 'a) comp"
  assumes pure: "snd (query r s) = s"
begin

lemma wp_query:
  assumes "\<And>x. fst (query r (mst_session (w_drv w))) = Inr x \<Longrightarrow> Q x w" and "E w"
  shows "wp (on_session (query r)) Q E w"
proof (cases "query r (mst_session (w_drv w))")
  case (Pair a s)
  then have "s = mst_session (w_drv w)" using pure [of r "mst_session (w_drv w)"] by simp
  then show ?thesis
    using assms Pair by (cases a) (simp_all add: wp_def on_session_def on_driver_def)
qed

end

lemma positions_get_same: "snd (positions_get t s) = s"
  by (simp add: positions_get_def run_simps)

interpretation shim_query: pure_query "hedging_query_sl shim_api"
proof
  fix r and s :: "shim mt5_session"
  show "snd (hedging_query_sl shim_api r s) = s"
    by (simp add: hedging_query_sl_def position_of_def on_terminal_def shim_api_def positions_get_def py_simps
        split: sum.split prod.split)
qed

definition shows_stop :: "'m mt5_session mt5_driver \<Rightarrow> rat \<Rightarrow> string \<Rightarrow> (broker_result, 'm mt5_state) world \<Rightarrow> bool" where
  "shows_stop d requested r w \<longleftrightarrow>
     (\<exists>x. fst (md_query_sl d r (mst_session (w_drv w))) = Inr x \<and> sl_matches requested x)"

lemma wp_confirm_legs:
  assumes "pure_query (md_query_sl d)"
  shows "wp (confirm_legs d requested rs) (\<lambda>e w'. e = None \<longrightarrow> w' = w \<and> (\<forall>r \<in> set rs. shows_stop d requested r w')) (\<lambda>_. True) w"
proof (induction rs)
  case (Cons r rs)
  show ?case
    unfolding confirm_legs.simps wp_bnd
    by (rule pure_query.wp_query [OF assms])
      (auto simp: wp_simps shows_stop_def intro!: wp_mono [OF Cons.IH])
qed (simp add: wp_simps)

lemma wp_ifI: "(c \<Longrightarrow> wp m Q E s) \<Longrightarrow> (\<not> c \<Longrightarrow> wp n Q E s) \<Longrightarrow> wp (if c then m else n) Q E s"
  by simp

lemma wp_protect_legs:
  "wp (protect_legs ex gid d requested xs) (\<lambda>e _. e = None \<longrightarrow> None \<notin> snd ` set xs) (\<lambda>_. True) w"
proof (induction xs arbitrary: w)
  case (Cons x xs)
  obtain leg r where x: "x = (leg, r)" by (cases x)
  have rest: "wp (protect_legs ex gid d requested xs) (\<lambda>e _. e = None \<longrightarrow> None \<notin> snd ` set ((leg, Some q) # xs)) (\<lambda>_. True) w'"
    for q w' by (auto intro!: wp_mono [OF Cons.IH])
  show ?case
  proof (cases r)
    case (Some q)
    then show ?thesis
      unfolding x protect_legs.simps Let_def
      apply (simp only: option.case wp_bnd)
      apply (rule wp_any)
       apply (rule wp_ifI)
        apply (simp only: wp_seq, rule wp_any, rule rest, simp)
       apply (simp only: wp_bnd, rule wp_any)
        apply (simp only: wp_case_prod case_prod_beta, rule wp_ifI)
         apply (simp add: wp_basic)
        apply (simp only: wp_seq, rule wp_any, rule rest, simp)
       apply simp_all
      done
  qed (simp add: x wp_simps)
qed (simp add: wp_simps)

lemma be_refs_length: "be_refs grp d legs = Inr refs \<Longrightarrow> length refs = length legs"
  by (induction legs arbitrary: refs) (auto simp: rbind_def split: sum.splits)

lemma keeps_session_view [keeps_intros]:
  "keeps (\<lambda>w. P (w_drv w)) (store_update ex gid st u)" "keeps (\<lambda>w. P (w_drv w)) (append_args ex a)"
  "keeps (\<lambda>w. P (w_drv w)) (notify ex' n)"
  by (auto simp: keeps_def store_update_def append_args_def notify_def py_simps read_clock_def on_store_def Let_def
      split: prod.split sum.split option.split)

lemma mt5_keeps_stops:
  "keeps (\<lambda>w. \<forall>r \<in> S. shows_stop d p (f r) w) (store_update ex gid st u)"
  "keeps (\<lambda>w. \<forall>r \<in> S. shows_stop d p (f r) w) (append_args ex a)"
  "keeps (\<lambda>w. \<forall>r \<in> S. shows_stop d p (f r) w) (notify ex' n)"
  unfolding shows_stop_def by (rule keeps_session_view)+

lemma wp_be_retry: "wp (be_retry ex grp e) (\<lambda>a w'. a = ''confirmed'' \<longrightarrow> R w') (\<lambda>_. True) w"
  unfolding be_retry_def Let_def
  by (simp add: wp_def seq_run run_simps split: sum.split prod.split)


text \<open>A netting driver over the constant terminal, whose stop is at the requested price.\<close>

definition stopped_driver :: "unit mt5_session mt5_driver" where
  "stopped_driver = gate_driver\<lparr>md_account_mode := ''netting'', md_query_sl := (\<lambda>_. ret (Some 2001))\<rparr>"

definition be_executor :: "unit mt5_executor" where
  "be_executor = gate_executor\<lparr>mx_driver := Some stopped_driver\<rparr>"

definition be_group :: grp where
  "be_group = (saved_row gate_sha 0 gate_spec (save_defaults\<lparr>sv_state := BE_REQUESTED\<rparr>) None)\<lparr>row_be :=
     be_empty\<lparr>bt_requested_price := Some 2001\<rparr>\<rparr>"

lemma be_run: "wp (verify_be be_executor be_group) (\<lambda>a _. a = ''confirmed'') (\<lambda>_. False) gate_world"
proof -
  have io: "append_args be_executor = append_args gate_executor"
    by (rule io_only) (simp_all add: be_executor_def)
  have refs: "be_ref be_group stopped_driver n = Inr (Some (new_leg_id ''TG-1'' n))" for n
    by (simp add: be_ref_def stopped_driver_def be_group_def)
  have session: "wp (on_session (ret x)) Q E w = Q x w" for x Q E and w :: "(broker_result, unit mt5_state) world"
    by (simp add: wp_def on_session_def on_driver_def run_simps)
  have match: "sl_matches 2001 (Some 2001)" using nano by (simp add: sl_matches_def fsub_def)
  have legs: "be_apply_to (tg_break_even gate_spec) = [2, 3]" by (simp add: gate_spec_def demo_group_spec_def demo_spec_def)
  have row: "row_spec be_group = gate_spec" "bt_requested_price (row_be be_group) = Some 2001" by (simp_all add: be_group_def)
  have d: "md_query_sl stopped_driver r = ret (Some 2001)" for r by (simp add: stopped_driver_def)
  have fields: "mx_driver be_executor = Some stopped_driver" "mx_notifier be_executor = None"
    by (simp_all add: be_executor_def gate_executor_def)
  have start: "issued gate_executor (gate_world\<lparr>w_reads := n, w_store := s\<rparr>)" for s n
    by (simp add: gate_world_def issued_def ledger_inv_Nil)
  have notified: "wp (notify be_executor m) Q E w = Q () w" for m Q E w
    by (simp add: wp_def notify_def fields)
  have marked: "wp (mark be_executor gid a pl) Q E w = Q (fst (mark_action (int (w_reads w)) gid a pl (w_store w)))
      (w\<lparr>w_reads := Suc (w_reads w), w_store := snd (mark_action (int (w_reads w)) gid a pl (w_store w))\<rparr>)"
    for gid a pl Q E w
    by (simp add: mark_def wp_simps be_executor_def gate_executor_def)
  have mode: "md_account_mode stopped_driver = ''netting''" by (simp add: stopped_driver_def)
  show ?thesis
    unfolding verify_be_def Let_def
    apply (simp add: wp_simps resolve_driver_def fields row or_num_def legs refs rbind_def)
    apply (simp add: wp_simps d session match io Let_def marked notified mode row or_num_def)
    apply (rule gate_append)
    apply (auto simp: with_source_def mt5_event_def event_of_def EVENT_TYPES_def wp_simps notified start)
    done
qed


section \<open>Comments\<close>

lemma split_bar_first:
  assumes "CHR ''|'' \<notin> set s" and "t = [] \<or> hd t = CHR ''|''"
  shows "\<exists>rest. split_bar (s @ t) = s # rest"
  using assms by (cases t) (auto simp: split_bar_append split_bar_plain)

text \<open>The comment of an order names its group: reading the group back from the comment of any leg,
  or of a close, gives the identifier of the group, of which the limit on comments leaves the first sixty
  characters.\<close>

theorem comment_names_its_group:
  assumes "CHR ''|'' \<notin> set gid"
  shows "parse_comment (build_comment magic gid leg) = Some (take 60 gid)"
proof -
  let ?tail = "(case leg of None \<Rightarrow> [] | Some n \<Rightarrow> ''|L:'' @ new_leg_id gid n) @ ''|'' @ show_int magic"
  have "build_comment magic gid leg = (''TG:'' @ take 60 gid) @ take (60 - length gid) ?tail"
    by (simp add: build_comment_def COMMENT_LIMIT_def)
  moreover have "take (60 - length gid) ?tail = [] \<or> hd (take (60 - length gid) ?tail) = CHR ''|''"
    by (cases "60 - length gid") (auto split: option.split)
  moreover have "CHR ''|'' \<notin> set (''TG:'' @ take 60 gid)" using assms by (auto dest: in_set_takeD)
  ultimately obtain rest where "split_bar (build_comment magic gid leg) = (''TG:'' @ take 60 gid) # rest"
    using split_bar_first by metis
  then show ?thesis by (simp add: parse_comment_def build_comment_def COMMENT_LIMIT_def)
qed

theorem comment_names_its_group_witness:
  "parse_comment (build_comment 7 ''TG-1'' (Some 2)) = Some ''TG-1''"
  using comment_names_its_group [of "''TG-1''" 7 "Some 2"] by simp

end
