(* ===== verification/Order_Book.thy ===== *)
theory Order_Book
  imports Py_Prelude
begin

text \<open>
  The simulated market's limit order book and matching engine, \<^verbatim>\<open>simulation/engine/order.py\<close>,
  \<^verbatim>\<open>order_book.py\<close> and \<^verbatim>\<open>matching_engine.py\<close>. The code shares mutable \<open>Order\<close> objects between the
  sorted lists, the id index and the caller, so the model keeps an explicit heap from references to
  orders; an entry of a book side is a triple of sort price, sequence number and reference. The
  matching loop takes fuel, and \<open>None\<close> is a loop that did not end within it. Trade ids come from the
  stream \<open>ids\<close>; the \<open>on_trade\<close> callback is called once per trade in the order of the returned list
  and is not part of the model.
\<close>

section \<open>Orders and trades\<close>

record order =
  o_agent_id :: string
  o_side :: string
  o_order_type :: string
  o_price :: "rat option"
  o_volume :: rat
  o_tick :: int
  o_order_id :: string

record trade =
  t_trade_id :: string
  t_buy_order_id :: string
  t_sell_order_id :: string
  t_price :: rat
  t_volume :: rat
  t_tick :: int

definition is_buy :: "order \<Rightarrow> bool" where
  "is_buy o' \<longleftrightarrow> o_side o' = ''BUY''"

definition EPS :: rat where
  "EPS = fl (1 / 10 ^ 12)"

section \<open>The book\<close>

type_synonym entry = "rat \<times> int \<times> nat"

record book =
  bk_bids :: "entry list"
  bk_asks :: "entry list"
  bk_seq :: int
  bk_orders :: "string \<rightharpoonup> entry"
  bk_price_bids :: "rat \<rightharpoonup> rat"
  bk_price_asks :: "rat \<rightharpoonup> rat"
  bk_heap :: "nat \<Rightarrow> order"

definition new_book :: "(nat \<Rightarrow> order) \<Rightarrow> book" where
  "new_book heap = \<lparr>bk_bids = [], bk_asks = [], bk_seq = 0, bk_orders = Map.empty,
     bk_price_bids = Map.empty, bk_price_asks = Map.empty, bk_heap = heap\<rparr>"

text \<open>\<^verbatim>\<open>SortedList.add\<close>: tuples compare by price, then by sequence number, which is unique.\<close>

definition entry_less :: "entry \<Rightarrow> entry \<Rightarrow> bool" where
  "entry_less a b \<longleftrightarrow> fst a < fst b \<or> (fst a = fst b \<and> fst (snd a) < fst (snd b))"

fun sorted_add :: "entry \<Rightarrow> entry list \<Rightarrow> entry list" where
  "sorted_add e [] = [e]"
| "sorted_add e (x # xs) = (if entry_less e x then e # x # xs else x # sorted_add e xs)"

definition add_limit_order :: "nat \<Rightarrow> (book, unit) comp" where
  "add_limit_order r b =
     (let o' = bk_heap b r
      in case o_price o' of
           None \<Rightarrow> (Inl (ValueError ''Expected LIMIT order with a price''), b)
         | Some price \<Rightarrow>
             if o_order_type o' \<noteq> ''LIMIT'' then (Inl (ValueError ''Expected LIMIT order with a price''), b)
             else
               let sq = bk_seq b;
                   e = (if is_buy o' then - price else price, sq, r);
                   b1 = b\<lparr>bk_seq := sq + 1, bk_orders := (bk_orders b)(o_order_id o' \<mapsto> e)\<rparr>
               in if is_buy o'
                  then (Inr (), b1\<lparr>bk_bids := sorted_add e (bk_bids b),
                      bk_price_bids := (bk_price_bids b)(price \<mapsto> fadd (get_or 0 (bk_price_bids b price)) (o_volume o'))\<rparr>)
                  else (Inr (), b1\<lparr>bk_asks := sorted_add e (bk_asks b),
                      bk_price_asks := (bk_price_asks b)(price \<mapsto> fadd (get_or 0 (bk_price_asks b price)) (o_volume o'))\<rparr>))"

text \<open>The level update of a cancellation: the key is the price stored in the entry.\<close>

definition level_remove :: "rat \<Rightarrow> rat \<Rightarrow> (rat \<rightharpoonup> rat) \<Rightarrow> (rat \<rightharpoonup> rat)" where
  "level_remove price volume levels =
     (let new_vol = fsub (get_or 0 (levels price)) volume
      in if new_vol \<le> EPS then levels(price := None) else levels(price \<mapsto> new_vol))"

definition cancel_order :: "string \<Rightarrow> book \<Rightarrow> bool \<times> book" where
  "cancel_order oid b =
     (case bk_orders b oid of
        None \<Rightarrow> (False, b)
      | Some e \<Rightarrow>
          let o' = bk_heap b (snd (snd e)); b1 = b\<lparr>bk_orders := (bk_orders b)(oid := None)\<rparr>
          in (True, if is_buy o'
                then b1\<lparr>bk_bids := remove1 e (bk_bids b),
                       bk_price_bids := level_remove (fst e) (o_volume o') (bk_price_bids b)\<rparr>
                else b1\<lparr>bk_asks := remove1 e (bk_asks b),
                       bk_price_asks := level_remove (fst e) (o_volume o') (bk_price_asks b)\<rparr>))"

definition reduce_volume :: "string \<Rightarrow> rat \<Rightarrow> book \<Rightarrow> book" where
  "reduce_volume oid reduce_by b =
     (case bk_orders b oid of
        None \<Rightarrow> b
      | Some e \<Rightarrow>
          let r = snd (snd e); o' = bk_heap b r; v = fsub (o_volume o') reduce_by;
              b1 = b\<lparr>bk_heap := (bk_heap b)(r := o'\<lparr>o_volume := v\<rparr>)\<rparr>
          in if v \<le> EPS then snd (cancel_order oid b1) else b1)"

definition best_bid :: "book \<Rightarrow> rat option" where
  "best_bid b = (case bk_bids b of [] \<Rightarrow> None | e # _ \<Rightarrow> Some (- fst e))"

definition best_ask :: "book \<Rightarrow> rat option" where
  "best_ask b = (case bk_asks b of [] \<Rightarrow> None | e # _ \<Rightarrow> Some (fst e))"

definition mid_price :: "book \<Rightarrow> rat option" where
  "mid_price b = (case (best_bid b, best_ask b) of (Some x, Some y) \<Rightarrow> Some (fdiv (fadd x y) 2) | _ \<Rightarrow> None)"

definition spread :: "book \<Rightarrow> rat option" where
  "spread b = (case (best_bid b, best_ask b) of (Some x, Some y) \<Rightarrow> Some (fsub y x) | _ \<Rightarrow> None)"

definition volume_at_price :: "string \<Rightarrow> rat \<Rightarrow> book \<Rightarrow> rat" where
  "volume_at_price sd price b =
     get_or 0 (if sd = ''BUY'' then bk_price_bids b price else bk_price_asks b price)"

text \<open>Adjacent entries within the tolerance of the level before them are merged.\<close>

fun merge_levels :: "(rat \<times> rat) list \<Rightarrow> (rat \<times> rat) list \<Rightarrow> (rat \<times> rat) list" where
  "merge_levels acc [] = rev acc"
| "merge_levels acc ((p, v) # xs) =
     (case acc of
        (q, w) # rest \<Rightarrow> if \<bar>fsub q p\<bar> < EPS then merge_levels ((p, fadd w v) # rest) xs
                        else merge_levels ((p, v) # acc) xs
      | [] \<Rightarrow> merge_levels [(p, v)] xs)"

record depth =
  dp_bids :: "(rat \<times> rat) list"
  dp_asks :: "(rat \<times> rat) list"
  dp_best_bid :: "rat option"
  dp_best_ask :: "rat option"
  dp_mid :: "rat option"
  dp_spread :: "rat option"

definition depth_snapshot :: "nat \<Rightarrow> book \<Rightarrow> depth" where
  "depth_snapshot levels b =
     \<lparr>dp_bids = merge_levels [] (map (\<lambda>(p, _, r). (- p, o_volume (bk_heap b r))) (take levels (bk_bids b))),
      dp_asks = merge_levels [] (map (\<lambda>(p, _, r). (p, o_volume (bk_heap b r))) (take levels (bk_asks b))),
      dp_best_bid = best_bid b, dp_best_ask = best_ask b, dp_mid = mid_price b, dp_spread = spread b\<rparr>"

section \<open>Matching\<close>

definition make_trade :: "string \<Rightarrow> order \<Rightarrow> order \<Rightarrow> rat \<Rightarrow> rat \<Rightarrow> trade" where
  "make_trade tid incoming resting price volume =
     \<lparr>t_trade_id = tid,
      t_buy_order_id = (if is_buy incoming then o_order_id incoming else o_order_id resting),
      t_sell_order_id = (if is_buy incoming then o_order_id resting else o_order_id incoming),
      t_price = py_round price 6, t_volume = py_round volume 6, t_tick = o_tick incoming\<rparr>"

definition counter_side :: "bool \<Rightarrow> book \<Rightarrow> entry list" where
  "counter_side buy b = (if buy then bk_asks b else bk_bids b)"

text \<open>The price test that ends the loop of a limit order; a market order has none.\<close>

definition beyond_limit :: "bool \<Rightarrow> rat option \<Rightarrow> rat \<Rightarrow> bool" where
  "beyond_limit buy limit price = (case limit of None \<Rightarrow> False | Some l \<Rightarrow> if buy then price > l else price < l)"

text \<open>The common loop of \<open>_fill_market\<close> and \<open>_fill_limit\<close>: the trades, what remains, the book.\<close>

fun fill_loop ::
  "nat \<Rightarrow> (nat \<Rightarrow> string) \<Rightarrow> nat \<Rightarrow> order \<Rightarrow> rat option \<Rightarrow> rat \<Rightarrow> book \<Rightarrow> (trade list \<times> rat \<times> book) option" where
  "fill_loop 0 ids n inc limit remaining b = None"
| "fill_loop (Suc fuel) ids n inc limit remaining b =
     (if \<not> remaining > EPS then Some ([], remaining, b)
      else case counter_side (is_buy inc) b of
        [] \<Rightarrow> Some ([], remaining, b)
      | e # _ \<Rightarrow>
          let price = (if is_buy inc then fst e else - fst e)
          in if beyond_limit (is_buy inc) limit price then Some ([], remaining, b)
             else
               let resting = bk_heap b (snd (snd e));
                   fill_vol = min remaining (o_volume resting);
                   t = make_trade (ids n) inc resting price fill_vol
               in map_option (\<lambda>(ts, r, b'). (t # ts, r, b'))
                    (fill_loop fuel ids (Suc n) inc limit (fsub remaining fill_vol)
                      (reduce_volume (o_order_id resting) fill_vol b)))"

definition fill_market :: "nat \<Rightarrow> (nat \<Rightarrow> string) \<Rightarrow> nat \<Rightarrow> nat \<Rightarrow> book \<Rightarrow> (trade list result \<times> book) option" where
  "fill_market fuel ids n r b =
     (let inc = bk_heap b r
      in map_option (\<lambda>(ts, _, b'). (Inr ts, b')) (fill_loop fuel ids n inc None (o_volume inc) b))"

definition fill_limit :: "nat \<Rightarrow> (nat \<Rightarrow> string) \<Rightarrow> nat \<Rightarrow> nat \<Rightarrow> book \<Rightarrow> (trade list result \<times> book) option" where
  "fill_limit fuel ids n r b =
     (let inc = bk_heap b r
      in if o_price inc = None then Some (Inr [], b)
         else
           map_option (\<lambda>(ts, remaining, b').
             if remaining > EPS then
               (case add_limit_order r (b'\<lparr>bk_heap := (bk_heap b')(r := (bk_heap b' r)\<lparr>o_volume := remaining\<rparr>)\<rparr>) of
                  (Inl e, b'') \<Rightarrow> (Inl e, b'') | (Inr _, b'') \<Rightarrow> (Inr ts, b''))
             else (Inr ts, b'))
             (fill_loop fuel ids n inc (o_price inc) (o_volume inc) b))"

definition process :: "nat \<Rightarrow> (nat \<Rightarrow> string) \<Rightarrow> nat \<Rightarrow> nat \<Rightarrow> book \<Rightarrow> (trade list result \<times> book) option" where
  "process fuel ids n r b =
     (let inc = bk_heap b r
      in if o_order_type inc = ''MARKET'' then fill_market fuel ids n r b
         else if o_order_type inc = ''LIMIT'' then fill_limit fuel ids n r b
         else if o_order_type inc = ''CANCEL'' then Some (Inr [], snd (cancel_order (o_order_id inc) b))
         else Some (Inl (ValueError ''Unknown order_type''), b))"

fun process_batch ::
  "nat \<Rightarrow> (nat \<Rightarrow> string) \<Rightarrow> nat \<Rightarrow> nat list \<Rightarrow> book \<Rightarrow> (trade list result \<times> book) option" where
  "process_batch fuel ids n [] b = Some (Inr [], b)"
| "process_batch fuel ids n (r # rs) b =
     (case process fuel ids n r b of
        None \<Rightarrow> None
      | Some (Inl e, b') \<Rightarrow> Some (Inl e, b')
      | Some (Inr ts, b') \<Rightarrow>
          (case process_batch fuel ids (n + length ts) rs b' of
             None \<Rightarrow> None
           | Some (Inl e, b'') \<Rightarrow> Some (Inl e, b'')
           | Some (Inr ts', b'') \<Rightarrow> Some (Inr (ts @ ts'), b'')))"

section \<open>The invariant\<close>

definition entry_ref :: "entry \<Rightarrow> nat" where
  "entry_ref e = snd (snd e)"

text \<open>An entry of the buy or the sell side agrees with its order and with the id index.\<close>

definition placed :: "bool \<Rightarrow> book \<Rightarrow> entry \<Rightarrow> bool" where
  "placed buy b e \<longleftrightarrow> (let o' = bk_heap b (entry_ref e)
     in is_buy o' = buy \<and> o_price o' = Some (if buy then - fst e else fst e)
        \<and> bk_orders b (o_order_id o') = Some e \<and> fst (snd e) < bk_seq b)"

definition book_wf :: "book \<Rightarrow> bool" where
  "book_wf b \<longleftrightarrow>
     sorted_wrt entry_less (bk_bids b) \<and> sorted_wrt entry_less (bk_asks b)
     \<and> (\<forall>e \<in> set (bk_bids b). placed True b e) \<and> (\<forall>e \<in> set (bk_asks b). placed False b e)
     \<and> (\<forall>oid e. bk_orders b oid = Some e \<longrightarrow>
          e \<in> set (bk_bids b) \<union> set (bk_asks b) \<and> o_order_id (bk_heap b (entry_ref e)) = oid)"

definition live_volumes :: "book \<Rightarrow> bool" where
  "live_volumes b \<longleftrightarrow> (\<forall>e \<in> set (bk_bids b) \<union> set (bk_asks b). EPS < o_volume (bk_heap b (entry_ref e)))"

definition uncrossed :: "book \<Rightarrow> bool" where
  "uncrossed b \<longleftrightarrow> (\<forall>e \<in> set (bk_bids b). \<forall>a \<in> set (bk_asks b). - fst e < fst a)"

definition book_inv :: "book \<Rightarrow> bool" where
  "book_inv b \<longleftrightarrow> book_wf b \<and> live_volumes b \<and> uncrossed b"

declare split_paired_All [simp del] split_paired_Ex [simp del]

lemma EPS_nonneg: "0 \<le> EPS"
  unfolding EPS_def by (rule fl.nonneg) simp

lemma entry_less_irrefl: "\<not> entry_less e e"
  by (simp add: entry_less_def)

lemma entry_less_trans: "entry_less a b \<Longrightarrow> entry_less b c \<Longrightarrow> entry_less a c"
  by (auto simp: entry_less_def)

lemma sorted_distinct: "sorted_wrt entry_less xs \<Longrightarrow> distinct xs"
  by (induction xs) (auto simp: entry_less_irrefl)

lemma set_sorted_add [simp]: "set (sorted_add e xs) = insert e (set xs)"
  by (induction xs) auto

lemma sorted_add_sorted:
  "sorted_wrt entry_less xs \<Longrightarrow> (\<And>x. x \<in> set xs \<Longrightarrow> entry_less e x \<or> entry_less x e)
    \<Longrightarrow> sorted_wrt entry_less (sorted_add e xs)"
  by (induction xs) (auto intro: entry_less_trans)

lemma sorted_wrt_remove1: "sorted_wrt R xs \<Longrightarrow> sorted_wrt R (remove1 e xs)"
  by (induction xs) (auto dest: in_set_remove1 [THEN iffD1, rotated] notin_set_remove1 [rotated] set_mp [OF set_remove1_subset])

lemma set_remove1_distinct: "distinct xs \<Longrightarrow> set (remove1 e xs) = set xs - {e}"
  by simp

lemma placed_same: "placed x b e \<Longrightarrow> placed y b e' \<Longrightarrow>
    o_order_id (bk_heap b (entry_ref e)) = o_order_id (bk_heap b (entry_ref e')) \<Longrightarrow> e = e'"
  by (simp add: placed_def Let_def)

text \<open>Well-formedness does not look at volumes.\<close>

definition set_volume :: "nat \<Rightarrow> rat \<Rightarrow> book \<Rightarrow> book" where
  "set_volume r v b = b\<lparr>bk_heap := (bk_heap b)(r := (bk_heap b r)\<lparr>o_volume := v\<rparr>)\<rparr>"

lemma set_volume_fields [simp]:
  "bk_bids (set_volume r v b) = bk_bids b" "bk_asks (set_volume r v b) = bk_asks b"
  "bk_orders (set_volume r v b) = bk_orders b" "bk_seq (set_volume r v b) = bk_seq b"
  "is_buy (bk_heap (set_volume r v b) x) = is_buy (bk_heap b x)"
  "o_price (bk_heap (set_volume r v b) x) = o_price (bk_heap b x)"
  "o_order_id (bk_heap (set_volume r v b) x) = o_order_id (bk_heap b x)"
  "o_order_type (bk_heap (set_volume r v b) x) = o_order_type (bk_heap b x)"
  "o_volume (bk_heap (set_volume r v b) x) = (if x = r then v else o_volume (bk_heap b x))"
  by (simp_all add: set_volume_def is_buy_def)

lemma book_wf_set_volume [simp]: "book_wf (set_volume r v b) = book_wf b"
  by (simp add: book_wf_def placed_def Let_def)

lemma cancel_sides:
  assumes wf: "book_wf b" and e: "bk_orders b oid = Some e"
  shows "bk_bids (snd (cancel_order oid b)) = remove1 e (bk_bids b)"
    and "bk_asks (snd (cancel_order oid b)) = remove1 e (bk_asks b)"
    and "bk_orders (snd (cancel_order oid b)) = (bk_orders b)(oid := None)"
    and "bk_heap (snd (cancel_order oid b)) = bk_heap b" and "bk_seq (snd (cancel_order oid b)) = bk_seq b"
proof -
  have side: "e \<in> set (bk_bids b) \<Longrightarrow> is_buy (bk_heap b (snd (snd e)))"
    "e \<in> set (bk_asks b) \<Longrightarrow> \<not> is_buy (bk_heap b (snd (snd e)))"
    using wf by (auto simp: book_wf_def placed_def Let_def entry_ref_def)
  have "e \<in> set (bk_bids b) \<union> set (bk_asks b)" using wf e by (simp add: book_wf_def)
  with side have "is_buy (bk_heap b (snd (snd e))) \<Longrightarrow> e \<notin> set (bk_asks b)"
    "\<not> is_buy (bk_heap b (snd (snd e))) \<Longrightarrow> e \<notin> set (bk_bids b)" by auto
  then show "bk_bids (snd (cancel_order oid b)) = remove1 e (bk_bids b)"
    and "bk_asks (snd (cancel_order oid b)) = remove1 e (bk_asks b)"
    and "bk_orders (snd (cancel_order oid b)) = (bk_orders b)(oid := None)"
    and "bk_heap (snd (cancel_order oid b)) = bk_heap b" and "bk_seq (snd (cancel_order oid b)) = bk_seq b"
    by (auto simp: cancel_order_def e Let_def remove1_idem)
qed

lemma cancel_wf: "book_wf b \<Longrightarrow> book_wf (snd (cancel_order oid b))"
proof (cases "bk_orders b oid")
  case (Some e)
  assume wf: "book_wf b"
  note c = cancel_sides [OF wf Some]
  have oid: "o_order_id (bk_heap b (entry_ref e)) = oid" using wf Some by (simp add: book_wf_def)
  have dis: "distinct (bk_bids b)" "distinct (bk_asks b)" using wf by (auto simp: book_wf_def sorted_distinct)
  have other: "placed x b e' \<Longrightarrow> e' \<noteq> e \<Longrightarrow> placed x (snd (cancel_order oid b)) e'" for x e'
    using Some by (auto simp: placed_def Let_def c)
  have "\<forall>oid' e'. ((bk_orders b)(oid := None)) oid' = Some e' \<longrightarrow> e' \<noteq> e"
    using wf oid by (auto simp: book_wf_def)
  then show ?thesis
    using wf other dis by (auto simp: book_wf_def c sorted_wrt_remove1 split: if_splits)
qed (simp add: cancel_order_def)

lemma live_volumes_cancel:
  assumes "book_wf b" and "bk_orders b oid = Some e"
    and "\<And>x. x \<in> set (bk_bids b) \<union> set (bk_asks b) \<Longrightarrow> x \<noteq> e \<Longrightarrow> EPS < o_volume (bk_heap b (entry_ref x))"
  shows "live_volumes (snd (cancel_order oid b))"
proof -
  have "distinct (bk_bids b)" "distinct (bk_asks b)" using assms(1) by (auto simp: book_wf_def sorted_distinct)
  then show ?thesis using assms(3) by (auto simp: live_volumes_def cancel_sides [OF assms(1,2)])
qed

lemma reduce_unfold:
  "bk_orders b oid = Some e \<Longrightarrow> reduce_volume oid x b =
     (let v = fsub (o_volume (bk_heap b (entry_ref e))) x; b1 = set_volume (entry_ref e) v b
      in if v \<le> EPS then snd (cancel_order oid b1) else b1)"
  by (simp add: reduce_volume_def Let_def set_volume_def entry_ref_def)

text \<open>One match: the head of the counter side is reduced, and removed when it is used up.\<close>

lemma match_step:
  assumes wf: "book_wf b" and lv: "live_volumes b" and side: "counter_side buy b = e # es"
    and v: "v = o_volume (bk_heap b (entry_ref e))"
    and b': "b' = reduce_volume (o_order_id (bk_heap b (entry_ref e))) (min rem v) b"
  shows "book_wf b' \<and> live_volumes b' \<and> counter_side (\<not> buy) b' = counter_side (\<not> buy) b
    \<and> (counter_side buy b' = es \<or> counter_side buy b' = e # es \<and> fsub rem (min rem v) = 0)
    \<and> dom (bk_orders b') \<subseteq> dom (bk_orders b)
    \<and> (\<forall>x. o_order_id (bk_heap b' x) = o_order_id (bk_heap b x))
    \<and> (\<forall>x. x \<noteq> entry_ref e \<longrightarrow> bk_heap b' x = bk_heap b x)"
proof -
  have mem: "e \<in> set (bk_bids b) \<union> set (bk_asks b)"
    using side by (auto simp: counter_side_def split: if_splits)
  have pl: "placed (\<not> buy) b e" using wf side by (auto simp: book_wf_def counter_side_def split: if_splits)
  then have idx: "bk_orders b (o_order_id (bk_heap b (entry_ref e))) = Some e" by (simp add: placed_def Let_def)
  define oid where "oid = o_order_id (bk_heap b (entry_ref e))"
  define b1 where "b1 = set_volume (entry_ref e) (fsub v (min rem v)) b"
  have red: "b' = (if fsub v (min rem v) \<le> EPS then snd (cancel_order oid b1) else b1)"
    by (simp add: b' reduce_unfold [OF idx] v b1_def oid_def Let_def)
  have wf1: "book_wf b1" and idx1: "bk_orders b1 oid = Some e" using wf idx by (simp_all add: b1_def oid_def)
  have others: "EPS < o_volume (bk_heap b1 (entry_ref x))"
    if "x \<in> set (bk_bids b) \<union> set (bk_asks b)" "x \<noteq> e" for x
  proof -
    have "\<exists>y. placed y b x" using that(1) wf by (auto simp: book_wf_def)
    then have "entry_ref x \<noteq> entry_ref e" using placed_same [OF pl] that(2) by metis
    then show ?thesis using lv that(1) by (auto simp: live_volumes_def b1_def)
  qed
  have dis: "distinct (bk_bids b)" "distinct (bk_asks b)" using wf by (auto simp: book_wf_def sorted_distinct)
  show ?thesis
  proof (cases "fsub v (min rem v) \<le> EPS")
    case True
    then have b'1: "b' = snd (cancel_order oid b1)" by (simp add: red)
    note c = cancel_sides [OF wf1 idx1, folded b'1]
    have "e \<notin> set (counter_side (\<not> buy) b)"
      using wf pl by (auto simp: book_wf_def counter_side_def placed_def Let_def split: if_splits)
    then have "counter_side (\<not> buy) b' = counter_side (\<not> buy) b" "counter_side buy b' = es"
      using side by (auto simp: counter_side_def c b1_def remove1_idem split: if_splits)
    moreover have "book_wf b'" unfolding b'1 by (rule cancel_wf [OF wf1])
    moreover have "live_volumes b'"
      unfolding b'1 by (rule live_volumes_cancel [OF wf1 idx1]) (use others in \<open>simp add: b1_def\<close>)
    ultimately show ?thesis by (auto simp: c b1_def set_volume_def)
  next
    case False
    then have b'1: "b' = b1" by (simp add: red)
    have "min rem v = rem" using False EPS_nonneg by (auto simp: min_def split: if_splits)
    moreover have "EPS < o_volume (bk_heap b1 (entry_ref x))" if "x \<in> set (bk_bids b) \<union> set (bk_asks b)" for x
    proof (cases "x = e")
      case True
      then show ?thesis using False by (simp add: b1_def)
    qed (rule others [OF that])
    then have "live_volumes b'" by (simp add: live_volumes_def b'1 b1_def)
    ultimately show ?thesis
      using wf1 side by (auto simp: b'1 b1_def counter_side_def set_volume_def)
  qed
qed

text \<open>What the matching loop does, and that it ends: it matches a prefix of the counter side in
  priority order.\<close>

definition entry_price :: "bool \<Rightarrow> entry \<Rightarrow> rat" where
  "entry_price buy e = (if buy then fst e else - fst e)"

definition counter_id :: "bool \<Rightarrow> trade \<Rightarrow> string" where
  "counter_id buy t = (if buy then t_sell_order_id t else t_buy_order_id t)"

definition loop_post :: "bool \<Rightarrow> rat option \<Rightarrow> book \<Rightarrow> trade list \<Rightarrow> rat \<Rightarrow> book \<Rightarrow> bool" where
  "loop_post buy limit b ts rem' b' \<longleftrightarrow> book_wf b' \<and> live_volumes b'
    \<and> counter_side (\<not> buy) b' = counter_side (\<not> buy) b
    \<and> (\<exists>k. counter_side buy b' = drop k (counter_side buy b))
    \<and> dom (bk_orders b') \<subseteq> dom (bk_orders b)
    \<and> (\<forall>x. o_order_id (bk_heap b' x) = o_order_id (bk_heap b x))
    \<and> (\<forall>x. x \<notin> entry_ref ` set (counter_side buy b) \<longrightarrow> bk_heap b' x = bk_heap b x)
    \<and> map (counter_id buy) ts = map (\<lambda>e. o_order_id (bk_heap b (entry_ref e)))
        (take (length ts) (counter_side buy b))
    \<and> map t_price ts = map (\<lambda>e. py_round (entry_price buy e) 6) (take (length ts) (counter_side buy b))
    \<and> (\<forall>e \<in> set (take (length ts) (counter_side buy b)). \<not> beyond_limit buy limit (entry_price buy e))
    \<and> (EPS < rem' \<longrightarrow> (case counter_side buy b' of [] \<Rightarrow> True
        | e # _ \<Rightarrow> beyond_limit buy limit (entry_price buy e)))"

lemma loop_post_stop:
  assumes "book_wf b" and "live_volumes b"
    and "EPS < rem \<Longrightarrow> case counter_side buy b of [] \<Rightarrow> True | e # _ \<Rightarrow> beyond_limit buy limit (entry_price buy e)"
  shows "loop_post buy limit b [] rem b"
  using assms by (auto simp: loop_post_def intro: exI [of _ 0])

lemma loop_post_step:
  assumes side: "counter_side buy b = e # es" and ok: "\<not> beyond_limit buy limit (entry_price buy e)"
    and t: "counter_id buy t = o_order_id (bk_heap b (entry_ref e))" "t_price t = py_round (entry_price buy e) 6"
    and b1: "counter_side (\<not> buy) b1 = counter_side (\<not> buy) b" "counter_side buy b1 = es"
      "dom (bk_orders b1) \<subseteq> dom (bk_orders b)" "\<forall>x. o_order_id (bk_heap b1 x) = o_order_id (bk_heap b x)"
      "\<forall>x. x \<noteq> entry_ref e \<longrightarrow> bk_heap b1 x = bk_heap b x"
    and post: "loop_post buy limit b1 ts rem' b'"
  shows "loop_post buy limit b (t # ts) rem' b'"
proof -
  from post obtain k where "counter_side buy b' = drop k es" by (auto simp: loop_post_def b1)
  then have "\<exists>k. counter_side buy b' = drop k (e # es)" by (intro exI [of _ "Suc k"]) simp
  moreover have "dom (bk_orders b') \<subseteq> dom (bk_orders b)"
    by (rule subset_trans [OF _ b1(3)]) (use post in \<open>simp add: loop_post_def\<close>)
  ultimately show ?thesis using assms by (simp add: loop_post_def)
qed

lemma fill_loop_spec:
  assumes "book_wf b" and "live_volumes b" and "length (counter_side (is_buy inc) b) < fuel"
  shows "\<exists>ts rem' b'. fill_loop fuel ids n inc limit rem b = Some (ts, rem', b')
    \<and> loop_post (is_buy inc) limit b ts rem' b'"
  using assms
proof (induction fuel arbitrary: n rem b)
  case (Suc fuel)
  let ?buy = "is_buy inc"
  show ?case
  proof (cases "EPS < rem \<and> (\<exists>e es. counter_side ?buy b = e # es \<and> \<not> beyond_limit ?buy limit (entry_price ?buy e))")
    case False
    then have "fill_loop (Suc fuel) ids n inc limit rem b = Some ([], rem, b)"
      and "EPS < rem \<Longrightarrow> case counter_side ?buy b of [] \<Rightarrow> True | e # _ \<Rightarrow> beyond_limit ?buy limit (entry_price ?buy e)"
      by (auto simp: entry_price_def Let_def split: list.split)
    then show ?thesis using loop_post_stop [OF Suc.prems(1,2)] by blast
  next
    case True
    then obtain e es where rem: "EPS < rem" and side: "counter_side ?buy b = e # es"
      and ok: "\<not> beyond_limit ?buy limit (entry_price ?buy e)" by blast
    define v where "v = o_volume (bk_heap b (entry_ref e))"
    define b1 where "b1 = reduce_volume (o_order_id (bk_heap b (entry_ref e))) (min rem v) b"
    define t where "t = make_trade (ids n) inc (bk_heap b (entry_ref e)) (entry_price ?buy e) (min rem v)"
    note st = match_step [OF Suc.prems(1,2) side v_def b1_def]
    have step: "fill_loop (Suc fuel) ids n inc limit rem b =
        map_option (\<lambda>(ts, r, b'). (t # ts, r, b')) (fill_loop fuel ids (Suc n) inc limit (fsub rem (min rem v)) b1)"
      using rem ok by (simp add: side Let_def entry_price_def t_def v_def b1_def entry_ref_def)
    have tid: "counter_id ?buy t = o_order_id (bk_heap b (entry_ref e))"
      "t_price t = py_round (entry_price ?buy e) 6"
      by (simp_all add: t_def make_trade_def counter_id_def)
    show ?thesis
    proof (cases "counter_side ?buy b1 = es")
      case True
      have "book_wf b1" "live_volumes b1" "length (counter_side ?buy b1) < fuel"
        using st Suc.prems(3) side True by simp_all
      from Suc.IH [OF this, of "Suc n" "fsub rem (min rem v)"] obtain ts rem' b' where
        ih: "fill_loop fuel ids (Suc n) inc limit (fsub rem (min rem v)) b1 = Some (ts, rem', b')"
        and post: "loop_post ?buy limit b1 ts rem' b'" by blast
      have "loop_post ?buy limit b (t # ts) rem' b'"
        using st by (intro loop_post_step [OF side ok tid _ True _ _ _ post]) auto
      then show ?thesis using step ih by (auto simp del: fill_loop.simps)
    next
      case False
      with st have zero: "fsub rem (min rem v) = 0" and same: "counter_side ?buy b1 = e # es" by auto
      have "0 < fuel" using Suc.prems(3) side by simp
      then have "fill_loop fuel ids (Suc n) inc limit 0 b1 = Some ([], 0, b1)"
        using EPS_nonneg by (cases fuel) auto
      then have "fill_loop (Suc fuel) ids n inc limit rem b = Some ([t], 0, b1)"
        by (simp add: step zero del: fill_loop.simps)
      moreover have "loop_post ?buy limit b [t] 0 b1"
        using st same ok tid EPS_nonneg by (auto simp: loop_post_def side intro: exI [of _ 0])
      ultimately show ?thesis by blast
    qed
  qed
qed simp

lemma add_wf:
  assumes wf: "book_wf b" and fresh: "bk_orders b (o_order_id (bk_heap b r)) = None"
    and lim: "o_order_type (bk_heap b r) = ''LIMIT''" "o_price (bk_heap b r) = Some p"
  shows "\<exists>b'. add_limit_order r b = (Inr (), b') \<and> book_wf b' \<and> bk_heap b' = bk_heap b
    \<and> set (bk_bids b') = (if is_buy (bk_heap b r) then insert (- p, bk_seq b, r) (set (bk_bids b)) else set (bk_bids b))
    \<and> set (bk_asks b') = (if is_buy (bk_heap b r) then set (bk_asks b) else insert (p, bk_seq b, r) (set (bk_asks b)))"
proof -
  define e where "e = (if is_buy (bk_heap b r) then - p else p, bk_seq b, r)"
  have pl: "placed x b e' \<Longrightarrow> fst (snd e') < bk_seq b" for x e' by (simp add: placed_def Let_def)
  have lt: "entry_less x e \<or> entry_less e x" if "x \<in> set (bk_bids b) \<union> set (bk_asks b)" for x
    using that wf pl by (fastforce simp: book_wf_def e_def entry_less_def)
  have srt: "sorted_wrt entry_less (sorted_add e (bk_bids b))" "sorted_wrt entry_less (sorted_add e (bk_asks b))"
    using wf lt by (auto simp: book_wf_def intro!: sorted_add_sorted)
  obtain b' where b': "add_limit_order r b = (Inr (), b')"
    by (cases "is_buy (bk_heap b r)") (simp_all add: add_limit_order_def lim Let_def)
  have f: "bk_bids b' = (if is_buy (bk_heap b r) then sorted_add e (bk_bids b) else bk_bids b)"
    "bk_asks b' = (if is_buy (bk_heap b r) then bk_asks b else sorted_add e (bk_asks b))"
    "bk_seq b' = bk_seq b + 1" "bk_heap b' = bk_heap b"
    "bk_orders b' = (bk_orders b)(o_order_id (bk_heap b r) \<mapsto> e)"
    using b' by (auto simp: add_limit_order_def lim Let_def e_def split: if_splits)
  have keep: "placed x b e' \<Longrightarrow> placed x b' e'" for x e'
    using fresh by (auto simp: placed_def Let_def f)
  have new: "placed (is_buy (bk_heap b r)) b' e"
    by (simp add: placed_def Let_def f lim entry_ref_def) (simp add: e_def lim)
  have "book_wf b'"
    using wf keep new srt by (auto simp: book_wf_def f entry_ref_def e_def split: if_splits)
  then show ?thesis using b' by (auto simp: f e_def)
qed

lemma ref_resting:
  assumes "book_wf b" and "e \<in> set (counter_side buy b)"
  shows "bk_orders b (o_order_id (bk_heap b (entry_ref e))) \<noteq> None"
  using assms by (auto simp: book_wf_def counter_side_def placed_def Let_def split: if_splits)

lemma cancel_inv: "book_inv b \<Longrightarrow> book_inv (snd (cancel_order oid b))"
proof (cases "bk_orders b oid")
  case (Some e)
  assume inv: "book_inv b"
  then have wf: "book_wf b" by (simp add: book_inv_def)
  have "live_volumes (snd (cancel_order oid b))"
    using inv by (intro live_volumes_cancel [OF wf Some]) (auto simp: book_inv_def live_volumes_def)
  moreover have "uncrossed (snd (cancel_order oid b))"
    using inv by (auto simp: book_inv_def uncrossed_def cancel_sides [OF wf Some] dest!: notin_set_remove1 [rotated] set_mp [OF set_remove1_subset])
  ultimately show ?thesis using cancel_wf [OF wf] by (simp add: book_inv_def)
qed (simp add: cancel_order_def)

lemma loop_post_sides:
  assumes "loop_post buy limit b ts rem b'"
  shows "set (bk_bids b') \<subseteq> set (bk_bids b) \<and> set (bk_asks b') \<subseteq> set (bk_asks b)"
proof -
  obtain k where "counter_side buy b' = drop k (counter_side buy b)" using assms by (auto simp: loop_post_def)
  moreover have "counter_side (\<not> buy) b' = counter_side (\<not> buy) b" using assms by (simp add: loop_post_def)
  ultimately show ?thesis by (cases buy) (simp_all add: counter_side_def set_drop_subset)
qed

lemma loop_post_uncrossed: "loop_post buy limit b ts rem b' \<Longrightarrow> uncrossed b \<Longrightarrow> uncrossed b'"
  unfolding uncrossed_def using loop_post_sides by blast

lemma beyond_all:
  assumes "book_wf b" and "counter_side buy b = e # es" and "beyond_limit buy limit (entry_price buy e)"
    and "x \<in> set (counter_side buy b)"
  shows "beyond_limit buy limit (entry_price buy x)"
proof -
  have "x = e \<or> entry_less e x"
    using assms by (auto simp: book_wf_def counter_side_def split: if_splits)
  then have "fst e \<le> fst x" by (auto simp: entry_less_def)
  then show ?thesis using assms(3) by (auto simp: beyond_limit_def entry_price_def split: option.splits if_splits)
qed

text \<open>Resting what is left of a limit order keeps the book well formed and uncrossed.\<close>

lemma rest_remainder:
  assumes post: "loop_post buy (Some p) b ts rem b'" and unc: "uncrossed b" and rem: "EPS < rem"
    and o': "is_buy (bk_heap b r) = buy" "o_price (bk_heap b r) = Some p" "o_order_type (bk_heap b r) = ''LIMIT''"
    and fresh: "bk_orders b (o_order_id (bk_heap b r)) = None" and wf: "book_wf b"
  shows "\<exists>b''. add_limit_order r (set_volume r rem b') = (Inr (), b'') \<and> book_inv b''"
proof -
  have "r \<notin> entry_ref ` set (counter_side buy b)"
  proof
    assume "r \<in> entry_ref ` set (counter_side buy b)"
    then obtain e where "e \<in> set (counter_side buy b)" "r = entry_ref e" by blast
    with ref_resting [OF wf this(1)] fresh show False by simp
  qed
  then have heap: "bk_heap b' r = bk_heap b r" using post by (simp add: loop_post_def)
  have dom: "dom (bk_orders b') \<subseteq> dom (bk_orders b)" using post by (simp add: loop_post_def)
  have wf': "book_wf b'" and lv: "live_volumes b'" using post by (simp_all add: loop_post_def)
  have fresh': "bk_orders b' (o_order_id (bk_heap b r)) = None" using dom fresh by blast
  obtain b'' where b'': "add_limit_order r (set_volume r rem b') = (Inr (), b'')" "book_wf b''"
    "bk_heap b'' = bk_heap (set_volume r rem b')"
    "set (bk_bids b'') = (if buy then insert (- p, bk_seq b', r) (set (bk_bids b')) else set (bk_bids b'))"
    "set (bk_asks b'') = (if buy then set (bk_asks b') else insert (p, bk_seq b', r) (set (bk_asks b')))"
    using add_wf [of "set_volume r rem b'" r p] wf' fresh' o' heap by auto
  have "entry_ref e \<noteq> r" if "e \<in> set (bk_bids b') \<union> set (bk_asks b')" for e
    using ref_resting [OF wf', of e True] ref_resting [OF wf', of e False] that fresh' heap
    by (auto simp: counter_side_def)
  then have "live_volumes b''"
    using lv rem by (auto simp: live_volumes_def b'' entry_ref_def)
  moreover have "uncrossed b'" by (rule loop_post_uncrossed [OF post unc])
  moreover have "\<forall>x \<in> set (counter_side buy b'). beyond_limit buy (Some p) (entry_price buy x)"
  proof (cases "counter_side buy b'")
    case (Cons e es)
    then have "beyond_limit buy (Some p) (entry_price buy e)" using post rem by (simp add: loop_post_def)
    from beyond_all [OF wf' Cons this] show ?thesis by blast
  qed simp
  ultimately have "uncrossed b''"
    by (cases buy) (auto simp: uncrossed_def b'' counter_side_def beyond_limit_def entry_price_def)
  with \<open>live_volumes b''\<close> b'' show ?thesis by (auto simp: book_inv_def)
qed

definition enough_fuel :: "nat \<Rightarrow> book \<Rightarrow> bool" where
  "enough_fuel fuel b \<longleftrightarrow> length (bk_bids b) + length (bk_asks b) < fuel"

lemma process_loop:
  assumes inv: "book_inv b" and fuel: "enough_fuel fuel b" and inc: "inc = bk_heap b r"
    and ty: "o_order_type inc = ''MARKET'' \<and> limit = None \<or> o_order_type inc = ''LIMIT'' \<and> limit = o_price inc \<and> limit \<noteq> None"
    and fresh: "o_order_type inc = ''LIMIT'' \<Longrightarrow> bk_orders b (o_order_id inc) = None"
  shows "\<exists>ts rem' b1 b'. fill_loop fuel ids n inc limit (o_volume inc) b = Some (ts, rem', b1)
    \<and> loop_post (is_buy inc) limit b ts rem' b1
    \<and> process fuel ids n r b = Some (Inr ts, b') \<and> book_inv b'"
proof -
  have wf: "book_wf b" and lv: "live_volumes b" and unc: "uncrossed b" using inv by (simp_all add: book_inv_def)
  have "length (counter_side (is_buy inc) b) < fuel" using fuel by (auto simp: enough_fuel_def counter_side_def)
  from fill_loop_spec [OF wf lv this, of ids n limit "o_volume inc"] obtain ts rem' b1 where
    lp: "fill_loop fuel ids n inc limit (o_volume inc) b = Some (ts, rem', b1)"
    and post: "loop_post (is_buy inc) limit b ts rem' b1" by blast
  have inv1: "book_inv b1" using post loop_post_uncrossed [OF post unc] by (simp add: book_inv_def loop_post_def)
  show ?thesis
  proof (cases "o_order_type inc = ''MARKET''")
    case True
    with ty have "limit = None" by simp
    then have "process fuel ids n r b = Some (Inr ts, b1)"
      using lp True by (simp add: process_def fill_market_def Let_def inc del: fill_loop.simps)
    then show ?thesis using lp post inv1 by blast
  next
    case False
    with ty obtain p where p: "o_order_type inc = ''LIMIT''" "limit = Some p" "o_price inc = Some p" by auto
    show ?thesis
    proof (cases "EPS < rem'")
      case True
      have "\<exists>b''. add_limit_order r (set_volume r rem' b1) = (Inr (), b'') \<and> book_inv b''"
        by (rule rest_remainder [OF post [unfolded p(2)] unc True])
          (use p fresh [OF p(1)] wf in \<open>simp_all add: inc\<close>)
      then obtain b'' where "add_limit_order r (set_volume r rem' b1) = (Inr (), b'')" "book_inv b''" by blast
      then have "process fuel ids n r b = Some (Inr ts, b'')"
        using lp p True by (simp add: process_def fill_limit_def Let_def inc set_volume_def)
      then show ?thesis using lp post \<open>book_inv b''\<close> by blast
    next
      case no: False
      have "process fuel ids n r b = Some (Inr ts, b1)"
        using lp p no by (simp add: process_def fill_limit_def Let_def inc)
      then show ?thesis using lp post inv1 by blast
    qed
  qed
qed

section \<open>Properties\<close>

text \<open>C10. Processing any order over a consistent book ends within as many iterations as there are
  resting orders, and leaves a consistent book: both sides in price-time order, every entry indexed
  under its id with a volume above the tolerance, and no bid at or above an ask. A limit order must
  not reuse the id of a resting order.\<close>

theorem matching_terminates_and_keeps_book:
  assumes inv: "book_inv b" and fuel: "enough_fuel fuel b"
    and fresh: "o_order_type (bk_heap b r) = ''LIMIT'' \<Longrightarrow> bk_orders b (o_order_id (bk_heap b r)) = None"
  shows "\<exists>res b'. process fuel ids n r b = Some (res, b') \<and> book_inv b'
    \<and> (\<forall>x y. best_bid b' = Some x \<and> best_ask b' = Some y \<longrightarrow> x < y)"
proof -
  have quotes: "\<forall>x y. best_bid b' = Some x \<and> best_ask b' = Some y \<longrightarrow> x < y" if "book_inv b'" for b'
    using that by (auto simp: book_inv_def uncrossed_def best_bid_def best_ask_def split: list.splits)
  have "\<exists>res b'. process fuel ids n r b = Some (res, b') \<and> book_inv b'"
  proof (cases "o_order_type (bk_heap b r) = ''MARKET'' \<or> o_order_type (bk_heap b r) = ''LIMIT'' \<and> o_price (bk_heap b r) \<noteq> None")
    case True
    then obtain limit where "o_order_type (bk_heap b r) = ''MARKET'' \<and> limit = None
        \<or> o_order_type (bk_heap b r) = ''LIMIT'' \<and> limit = o_price (bk_heap b r) \<and> limit \<noteq> None" by blast
    from process_loop [OF inv fuel refl this fresh] show ?thesis by blast
  next
    case False
    then show ?thesis
      using inv cancel_inv [OF inv] by (auto simp: process_def fill_limit_def Let_def)
  qed
  then show ?thesis using quotes by blast
qed

definition demo_orders :: "nat \<Rightarrow> order" where
  "demo_orders r = \<lparr>o_agent_id = ''a'', o_side = (if r = 0 then ''SELL'' else ''BUY''), o_order_type = ''LIMIT'',
     o_price = Some (if r = 0 then 101 else 100), o_volume = 2, o_tick = 0, o_order_id = show_int (int r)\<rparr>"

lemma new_book_inv: "book_inv (new_book heap)"
  by (simp add: book_inv_def book_wf_def live_volumes_def uncrossed_def new_book_def)

theorem matching_terminates_and_keeps_book_witness:
  "\<exists>res b'. process 2 (\<lambda>n. show_int (int n)) 0 2 (new_book demo_orders) = Some (res, b') \<and> book_inv b'"
proof -
  have "enough_fuel 2 (new_book demo_orders)" by (simp add: enough_fuel_def new_book_def)
  from matching_terminates_and_keeps_book [OF new_book_inv this, of 2 "\<lambda>n. show_int (int n)" 0]
  show ?thesis by (auto simp: new_book_def)
qed

text \<open>C11. Price-time priority: an incoming order trades with the front of the opposite side in the
  book's order, each time at that resting order's price, and a limit order never trades at a price
  worse than its limit.\<close>

theorem trades_follow_price_time_priority:
  assumes inv: "book_inv b" and fuel: "enough_fuel fuel b" and inc: "inc = bk_heap b r"
    and ty: "o_order_type inc = ''MARKET'' \<or> o_order_type inc = ''LIMIT'' \<and> o_price inc = Some l"
    and fresh: "o_order_type inc = ''LIMIT'' \<Longrightarrow> bk_orders b (o_order_id inc) = None"
    and pr: "process fuel ids n r b = Some (Inr ts, b')"
  shows "map (counter_id (is_buy inc)) ts = map (\<lambda>e. o_order_id (bk_heap b (entry_ref e)))
        (take (length ts) (counter_side (is_buy inc) b))
    \<and> map t_price ts = map (\<lambda>e. py_round (entry_price (is_buy inc) e) 6)
        (take (length ts) (counter_side (is_buy inc) b))
    \<and> (o_order_type inc = ''LIMIT'' \<longrightarrow> (\<forall>t \<in> set ts. if is_buy inc then t_price t \<le> py_round l 6 else py_round l 6 \<le> t_price t))"
proof -
  define limit where "limit = (if o_order_type inc = ''MARKET'' then None else Some l)"
  have lim: "o_order_type inc = ''MARKET'' \<and> limit = None
      \<or> o_order_type inc = ''LIMIT'' \<and> limit = o_price inc \<and> limit \<noteq> None"
    using ty by (auto simp: limit_def)
  obtain ts1 rem' b1 b2 where post: "loop_post (is_buy inc) limit b ts1 rem' b1"
    and "process fuel ids n r b = Some (Inr ts1, b2)"
    using process_loop [OF inv fuel inc lim fresh, of ids n] by blast
  then have ts: "ts1 = ts" using pr by simp
  have prices: "map t_price ts = map (\<lambda>e. py_round (entry_price (is_buy inc) e) 6)
      (take (length ts) (counter_side (is_buy inc) b))"
    and ok: "\<forall>e \<in> set (take (length ts) (counter_side (is_buy inc) b)).
      \<not> beyond_limit (is_buy inc) limit (entry_price (is_buy inc) e)"
    using post by (simp_all add: loop_post_def ts)
  have "if is_buy inc then t_price t \<le> py_round l 6 else py_round l 6 \<le> t_price t"
    if "o_order_type inc = ''LIMIT''" "t \<in> set ts" for t
  proof -
    have "t_price t \<in> set (map t_price ts)" using that(2) by simp
    then obtain e where e: "e \<in> set (take (length ts) (counter_side (is_buy inc) b))"
      "t_price t = py_round (entry_price (is_buy inc) e) 6" unfolding prices by auto
    then have "\<not> beyond_limit (is_buy inc) (Some l) (entry_price (is_buy inc) e)"
      using ok that(1) by (auto simp: limit_def)
    then show ?thesis using e(2) by (auto simp: beyond_limit_def not_less intro: py_round_mono)
  qed
  then show ?thesis using post prices by (simp add: loop_post_def ts)
qed

theorem trades_follow_price_time_priority_witness:
  "\<exists>ts b'. process 2 (\<lambda>n. show_int (int n)) 0 2 (new_book demo_orders) = Some (Inr ts, b')
    \<and> map t_price ts = map (\<lambda>e. py_round (entry_price True e) 6) (take (length ts) (bk_asks (new_book demo_orders)))"
proof -
  have fuel: "enough_fuel 2 (new_book demo_orders)" by (simp add: enough_fuel_def new_book_def)
  have o1: "bk_heap (new_book demo_orders) 2 = demo_orders 2" "is_buy (demo_orders 2)"
    "o_order_type (demo_orders 2) = ''LIMIT''" "o_price (demo_orders 2) = Some 100"
    by (simp_all add: new_book_def demo_orders_def is_buy_def)
  have "bk_orders (new_book demo_orders) x = None" for x by (simp add: new_book_def)
  with process_loop [OF new_book_inv fuel refl, of 2 "Some 100" "\<lambda>n. show_int (int n)" 0] o1 obtain ts b' where
    pr: "process 2 (\<lambda>n. show_int (int n)) 0 2 (new_book demo_orders) = Some (Inr ts, b')" by (auto simp del: fill_loop.simps)
  from trades_follow_price_time_priority [OF new_book_inv fuel refl _ _ pr, of 100] o1
  show ?thesis using pr by (auto simp: new_book_def counter_side_def)
qed

text \<open>Cancelling a resting buy order removes it from the bids but not from the book's level
  volumes: the level of its price keeps the full volume, because the cancellation looks the level up
  under the negated price stored in the entry.\<close>

theorem cancelled_bid_stays_in_level_volume:
  assumes "book_wf b" and "bk_orders b oid = Some e" and "is_buy (bk_heap b (entry_ref e))" and "fst e \<noteq> 0"
  shows "e \<notin> set (bk_bids (snd (cancel_order oid b)))
    \<and> volume_at_price ''BUY'' (- fst e) (snd (cancel_order oid b)) = volume_at_price ''BUY'' (- fst e) b"
proof -
  have "distinct (bk_bids b)" using assms(1) by (simp add: book_wf_def sorted_distinct)
  moreover have "bk_price_bids (snd (cancel_order oid b)) (- fst e) = bk_price_bids b (- fst e)"
    using assms(2-4) by (simp add: cancel_order_def Let_def entry_ref_def level_remove_def)
  ultimately show ?thesis
    by (simp add: cancel_sides [OF assms(1,2)] volume_at_price_def)
qed

theorem cancelled_bid_stays_in_level_volume_witness:
  "volume_at_price ''BUY'' 100 (snd (cancel_order ''2'' (snd (add_limit_order 2 (new_book demo_orders))))) = 2"
proof -
  have sh: "show_int 2 = ''2''" by code_simp
  define b where "b = snd (add_limit_order 2 (new_book demo_orders))"
  have "fadd 0 2 = 2" by code_simp
  then have b: "bk_orders b ''2'' = Some (- 100, 0, 2)" "bk_heap b 2 = demo_orders 2" "volume_at_price ''BUY'' 100 b = 2"
    by (simp_all add: b_def add_limit_order_def Let_def new_book_def demo_orders_def is_buy_def volume_at_price_def sh)
  have "book_wf b"
    using add_wf [of "new_book demo_orders" 2 100] new_book_inv [of demo_orders]
    by (auto simp: b_def book_inv_def new_book_def demo_orders_def)
  from cancelled_bid_stays_in_level_volume [OF this b(1)] b(2,3) show ?thesis
    by (simp add: b_def [symmetric] entry_ref_def demo_orders_def is_buy_def)
qed

end
