(* ===== verification/Ohlcv.thy ===== *)
theory Ohlcv
  imports Order_Book
begin

text \<open>
  The aggregation of trades into bars, \<^verbatim>\<open>simulation/engine/ohlcv_aggregator.py\<close>. The bar being formed
  is the object stored under its index, so the model keeps it only there. A returned data frame is the
  list of its rows. The reference \<open>bar_of\<close> computes a bar from all trades of its index at once.
\<close>

section \<open>The aggregator\<close>

record bar =
  b_time :: int
  b_open :: rat
  b_high :: rat
  b_low :: rat
  b_close :: rat
  b_volume :: rat

record aggregator =
  ag_bar_interval_ticks :: int
  ag_tick_duration_seconds :: int
  ag_start_tick :: int
  ag_wall_anchor :: int
  ag_last_price :: "rat option"
  ag_bars :: "(int \<times> bar) list"
  ag_current_bar_tick :: "int option"

definition new_aggregator :: "int \<Rightarrow> int \<Rightarrow> int \<Rightarrow> int \<Rightarrow> aggregator" where
  "new_aggregator interval duration start_tick start_timestamp =
     \<lparr>ag_bar_interval_ticks = interval, ag_tick_duration_seconds = duration, ag_start_tick = start_tick,
      ag_wall_anchor = start_timestamp, ag_last_price = None, ag_bars = [], ag_current_bar_tick = None\<rparr>"

text \<open>Opening time of a bar; the anchor 0 is the relative mode.\<close>

definition bar_time :: "aggregator \<Rightarrow> int \<Rightarrow> int" where
  "bar_time a bar_index =
     (let offset = ag_start_tick a div ag_bar_interval_ticks a + bar_index
      in if ag_wall_anchor a \<noteq> 0
         then ag_wall_anchor a + offset * ag_bar_interval_ticks a * ag_tick_duration_seconds a
         else offset * ag_bar_interval_ticks a * ag_tick_duration_seconds a)"

definition open_bar :: "int \<Rightarrow> trade \<Rightarrow> bar" where
  "open_bar time t = \<lparr>b_time = time, b_open = t_price t, b_high = t_price t, b_low = t_price t,
     b_close = t_price t, b_volume = t_volume t\<rparr>"

definition extend_bar :: "trade \<Rightarrow> bar \<Rightarrow> bar" where
  "extend_bar t b = b\<lparr>b_high := max (b_high b) (t_price t), b_low := min (b_low b) (t_price t),
     b_close := t_price t, b_volume := fadd (b_volume b) (t_volume t)\<rparr>"

text \<open>A missing current bar is the failing assertion of the code; it is unreachable.\<close>

definition on_tick :: "trade \<Rightarrow> (aggregator, unit) comp" where
  "on_tick t a0 =
     (let a = a0\<lparr>ag_last_price := Some (t_price t)\<rparr>
      in if ag_bar_interval_ticks a = 0 then (Inl ZeroDivisionError, a)
         else
           let idx = t_tick t div ag_bar_interval_ticks a
           in if ag_current_bar_tick a \<noteq> Some idx
              then (Inr (), a\<lparr>ag_current_bar_tick := Some idx,
                  ag_bars := dict_put idx (open_bar (bar_time a idx) t) (ag_bars a)\<rparr>)
              else case map_of (ag_bars a) idx of
                     None \<Rightarrow> (Inl (RuntimeError ''AssertionError''), a)
                   | Some b \<Rightarrow> (Inr (), a\<lparr>ag_bars := dict_put idx (extend_bar t b) (ag_bars a)\<rparr>))"

definition resampled_bar_time :: "aggregator \<Rightarrow> int \<Rightarrow> int \<Rightarrow> int" where
  "resampled_bar_time a target bar_interval =
     (if ag_wall_anchor a \<noteq> 0
      then ag_wall_anchor a + target * bar_interval * ag_tick_duration_seconds a
      else (ag_start_tick a div ag_bar_interval_ticks a) * ag_bar_interval_ticks a * ag_tick_duration_seconds a
           + target * bar_interval * ag_tick_duration_seconds a)"

definition merge_bar :: "bar \<Rightarrow> bar \<Rightarrow> bar" where
  "merge_bar e b = e\<lparr>b_high := max (b_high e) (b_high b), b_low := min (b_low e) (b_low b),
     b_close := b_close b, b_volume := fadd (b_volume e) (b_volume b)\<rparr>"

fun rebuild_loop :: "aggregator \<Rightarrow> int \<Rightarrow> rat \<Rightarrow> (int \<times> bar) list \<Rightarrow> (int \<times> bar) list \<Rightarrow> (int \<times> bar) list" where
  "rebuild_loop a bar_interval ratio merged [] = merged"
| "rebuild_loop a bar_interval ratio merged ((idx, b) # bars) =
     (let target = \<lfloor>of_int idx / ratio\<rfloor>
      in rebuild_loop a bar_interval ratio
           (case map_of merged target of
              None \<Rightarrow> dict_put target (b\<lparr>b_time := resampled_bar_time a target bar_interval\<rparr>) merged
            | Some e \<Rightarrow> dict_put target (merge_bar e b) merged) bars)"

definition rebuild_bars :: "aggregator \<Rightarrow> int \<Rightarrow> (int \<times> bar) list" where
  "rebuild_bars a bar_interval =
     (if ag_bars a = [] \<or> bar_interval < ag_bar_interval_ticks a then []
      else sort_key fst (rebuild_loop a bar_interval
             (fdiv (of_int bar_interval) (of_int (ag_bar_interval_ticks a))) [] (sort_key fst (ag_bars a))))"

definition last_n :: "int \<Rightarrow> 'a list \<Rightarrow> 'a list" where
  "last_n n xs = (if n > 0 then drop (length xs - nat n) xs else xs)"

definition get_bars_by_interval :: "aggregator \<Rightarrow> int \<Rightarrow> int \<Rightarrow> bar list" where
  "get_bars_by_interval a bar_interval n =
     (if bar_interval \<le> 0 then []
      else map snd (last_n n (if bar_interval = ag_bar_interval_ticks a then sort_key fst (ag_bars a)
                              else rebuild_bars a bar_interval)))"

definition get_bars :: "aggregator \<Rightarrow> int \<Rightarrow> bar list" where
  "get_bars a n = get_bars_by_interval a (ag_bar_interval_ticks a) n"

definition reset :: "int \<Rightarrow> aggregator \<Rightarrow> aggregator" where
  "reset new_start_tick a =
     a\<lparr>ag_bars := [], ag_current_bar_tick := None, ag_last_price := None,
       ag_start_tick := (if new_start_tick \<noteq> 0 then new_start_tick else ag_start_tick a)\<rparr>"

section \<open>Reference\<close>

text \<open>A feed of trades, as the matching engine's callback delivers it.\<close>

fun feed :: "trade list \<Rightarrow> aggregator \<Rightarrow> aggregator" where
  "feed [] a = a"
| "feed (t # ts) a = feed ts (snd (on_tick t a))"

definition bar_of :: "int \<Rightarrow> trade list \<Rightarrow> bar option" where
  "bar_of time ts =
     (if ts = [] then None
      else Some \<lparr>b_time = time, b_open = t_price (hd ts), b_high = Max (set (map t_price ts)),
        b_low = Min (set (map t_price ts)), b_close = t_price (last ts),
        b_volume = foldl fadd (t_volume (hd ts)) (map t_volume (tl ts))\<rparr>)"

definition trades_of :: "int \<Rightarrow> int \<Rightarrow> trade list \<Rightarrow> trade list" where
  "trades_of interval idx ts = filter (\<lambda>t. t_tick t div interval = idx) ts"

text \<open>The aggregator agrees with the reference on the trades seen so far.\<close>

definition agrees :: "trade list \<Rightarrow> aggregator \<Rightarrow> bool" where
  "agrees ts a \<longleftrightarrow>
     (\<forall>idx. map_of (ag_bars a) idx = bar_of (bar_time a idx) (trades_of (ag_bar_interval_ticks a) idx ts))
     \<and> ag_current_bar_tick a = (if ts = [] then None else Some (t_tick (last ts) div ag_bar_interval_ticks a))
     \<and> ag_last_price a = (if ts = [] then None else Some (t_price (last ts)))"

lemma bar_of_snoc:
  assumes "bar_of time ts = Some b"
  shows "bar_of time (ts @ [t]) = Some (extend_bar t b)"
proof -
  have ne: "ts \<noteq> []" using assms by (auto simp: bar_of_def)
  then have "Max (insert (t_price t) (t_price ` set ts)) = max (Max (t_price ` set ts)) (t_price t)"
    and "Min (insert (t_price t) (t_price ` set ts)) = min (Min (t_price ` set ts)) (t_price t)"
    by (simp_all add: max.commute min.commute)
  then show ?thesis using assms ne by (auto simp: bar_of_def extend_bar_def)
qed

lemma bar_of_single: "bar_of time [t] = Some (open_bar time t)"
  by (simp add: bar_of_def open_bar_def)

lemma bar_time_simps [simp]:
  "bar_time (a\<lparr>ag_last_price := p, ag_bars := bs\<rparr>) i = bar_time a i"
  "bar_time (a\<lparr>ag_last_price := p\<rparr>) i = bar_time a i"
  "bar_time (a\<lparr>ag_last_price := p, ag_bars := bs, ag_current_bar_tick := c\<rparr>) i = bar_time a i"
  "bar_time (a\<lparr>ag_last_price := p, ag_current_bar_tick := c, ag_bars := bs\<rparr>) i = bar_time a i"
  by (simp_all add: bar_time_def Let_def)

text \<open>Ticks that do not go back visit each bar in one stretch.\<close>

definition ordered :: "trade list \<Rightarrow> bool" where
  "ordered ts \<longleftrightarrow> sorted (map t_tick ts)"

lemma sorted_le_last: "sorted (map f xs) \<Longrightarrow> x \<in> set xs \<Longrightarrow> f x \<le> f (last xs)"
  by (induction xs) auto

lemma agrees_step:
  assumes ag: "agrees ts a" and pos: "0 < ag_bar_interval_ticks a" and ord: "ordered (ts @ [t])"
  shows "fst (on_tick t a) = Inr () \<and> agrees (ts @ [t]) (snd (on_tick t a))
    \<and> ag_bar_interval_ticks (snd (on_tick t a)) = ag_bar_interval_ticks a
    \<and> (\<forall>i. bar_time (snd (on_tick t a)) i = bar_time a i)"
proof -
  let ?n = "ag_bar_interval_ticks a" and ?i = "t_tick t div ag_bar_interval_ticks a"
  show ?thesis
  proof (cases "ag_current_bar_tick a = Some ?i")
    case True
    then have "ts \<noteq> []" and last: "t_tick (last ts) div ?n = ?i" using ag by (auto simp: agrees_def split: if_splits)
    then have "trades_of ?n ?i ts \<noteq> []" by (auto simp: trades_of_def filter_empty_conv intro: last_in_set)
    then obtain b where b: "bar_of (bar_time a ?i) (trades_of ?n ?i ts) = Some b" by (simp add: bar_of_def)
    then have "map_of (ag_bars a) ?i = Some b" using ag by (simp add: agrees_def)
    then show ?thesis
      using True ag pos bar_of_snoc [OF b, of t] by (auto simp: on_tick_def Let_def agrees_def trades_of_def)
  next
    case False
    have "t_tick x div ?n \<noteq> ?i" if "x \<in> set ts" for x
    proof -
      have "last ts \<in> set ts" using that by (cases ts) auto
      then have "t_tick x \<le> t_tick (last ts)" "t_tick (last ts) \<le> t_tick t"
        using ord that sorted_le_last [of t_tick ts x] by (auto simp: ordered_def sorted_append)
      then have "t_tick x div ?n \<le> t_tick (last ts) div ?n" "t_tick (last ts) div ?n \<le> ?i"
        using pos by (auto intro: zdiv_mono1)
      moreover have "t_tick (last ts) div ?n \<noteq> ?i" using False ag that by (auto simp: agrees_def split: if_splits)
      ultimately show ?thesis by linarith
    qed
    then have "trades_of ?n ?i ts = []" by (auto simp: trades_of_def filter_empty_conv)
    then show ?thesis
      using False ag pos bar_of_single [of "bar_time a ?i" t] by (auto simp: on_tick_def Let_def agrees_def trades_of_def)
  qed
qed

lemma feed_snoc: "feed (ts @ [t]) a = snd (on_tick t (feed ts a))"
  by (induction ts arbitrary: a) auto

lemma feed_agrees:
  assumes "agrees [] a" and "0 < ag_bar_interval_ticks a" and "ordered ts"
  shows "agrees ts (feed ts a) \<and> ag_bar_interval_ticks (feed ts a) = ag_bar_interval_ticks a
    \<and> (\<forall>i. bar_time (feed ts a) i = bar_time a i)"
  using assms(3)
proof (induction ts rule: rev_induct)
  case (snoc t ts)
  then have "ordered ts" by (simp add: ordered_def sorted_append)
  with snoc agrees_step [of ts "feed ts a" t] assms(2) show ?case by (simp add: feed_snoc)
qed (simp add: assms(1))

lemma agrees_new: "agrees [] (new_aggregator n d s w)"
  by (simp add: agrees_def new_aggregator_def trades_of_def bar_of_def)

lemma bar_of_bounds:
  assumes "bar_of time ts = Some b"
  shows "b_low b \<le> b_open b \<and> b_open b \<le> b_high b \<and> b_low b \<le> b_close b \<and> b_close b \<le> b_high b"
proof -
  have "ts \<noteq> []" using assms by (auto simp: bar_of_def)
  then show ?thesis using assms by (auto simp: bar_of_def)
qed

text \<open>C12. Feeding trades in tick order gives exactly the bars of the reference: under each bar index
  there is a bar if and only if some trade falls into it, and the bar opens at the first, closes at
  the last, and has the highest, the lowest price and the summed volume of those trades; its low and
  high enclose open and close.\<close>

theorem aggregator_builds_reference_bars:
  assumes "0 < interval" and "ordered ts" and "a = new_aggregator interval duration start anchor"
  shows "map_of (ag_bars (feed ts a)) idx = bar_of (bar_time a idx) (trades_of interval idx ts)
    \<and> (\<forall>b. map_of (ag_bars (feed ts a)) idx = Some b \<longrightarrow>
        b_low b \<le> b_open b \<and> b_open b \<le> b_high b \<and> b_low b \<le> b_close b \<and> b_close b \<le> b_high b)"
proof -
  have "ag_bar_interval_ticks a = interval" "agrees [] a"
    using assms(3) agrees_new by (simp_all add: new_aggregator_def)
  with feed_agrees [of a ts] assms(1,2)
  have "map_of (ag_bars (feed ts a)) idx = bar_of (bar_time a idx) (trades_of interval idx ts)"
    by (simp add: agrees_def)
  then show ?thesis using bar_of_bounds by metis
qed

definition demo_trade :: "rat \<Rightarrow> int \<Rightarrow> trade" where
  "demo_trade price tick = \<lparr>t_trade_id = ''t'', t_buy_order_id = ''b'', t_sell_order_id = ''s'',
     t_price = price, t_volume = 1, t_tick = tick\<rparr>"

theorem aggregator_builds_reference_bars_witness:
  "map_option b_high (map_of (ag_bars (feed [demo_trade 100 3, demo_trade 102 5, demo_trade 99 7]
     (new_aggregator 12 5 0 0))) 0) = Some 102"
  using aggregator_builds_reference_bars
    [of 12 "[demo_trade 100 3, demo_trade 102 5, demo_trade 99 7]" "new_aggregator 12 5 0 0" 5 0 0 0]
  by (simp add: ordered_def demo_trade_def trades_of_def bar_of_def)

end
