(* ===== verification/Trade_Throttle.thy ===== *)
theory Trade_Throttle
  imports Py_Prelude
begin

text \<open>
  The loss-streak throttle of the live trader, \<^verbatim>\<open>risk/legacy_throttle.py\<close>: a daily trade limit, a
  cooldown after a losing streak, a hard stop for the rest of the day, a daily loss limit and a risk
  step-down, with its state persisted to a file. A call takes the moment it runs at; the file is a
  field of the state, so that a restart reads what the last successful save wrote. The reason texts
  are kept as values that carry the interpolated numbers. The lock makes calls sequential.
\<close>

section \<open>The moment of a call\<close>

text \<open>Reading and writing the state file can fail: creating the directory raises, a failed write is
  swallowed and leaves the old file, because the new one is moved into place at the end.\<close>

datatype disk = DirectoryFails | WriteFails | Writable

record moment =
  at_now :: rat
  at_today :: int
  at_disk :: disk

section \<open>Configuration and state\<close>

datatype reason =
    Allowed
  | HardStopActive int int
  | CooldownActive int int int
  | DailyLimitReached int int
  | LossLimitUsd rat rat
  | LossLimitPct rat rat
  | StreakHalt int int

record throttle_cfg =
  tc_max_trades_per_day :: "int option"
  tc_loss_streak_threshold :: "int option"
  tc_cooldown_minutes :: "int option"
  tc_hard_stop_streak :: "int option"
  tc_risk_step_down_map :: "(int \<times> rat) list option"
  tc_max_daily_loss_pct :: "rat option"
  tc_max_daily_loss_usd :: "rat option"
  tc_stub :: "bool option"

text \<open>The JSON object of the state file; \<open>None\<close> is a missing key.\<close>

record saved_throttle =
  sv_current_day :: "int option"
  sv_starting_equity :: "rat option"
  sv_trades_today :: "int option"
  sv_consecutive_losses :: "int option"
  sv_cooldown_until :: "rat option"
  sv_hard_stopped :: "bool option"
  sv_halt_reason :: "reason option"

datatype 'd state_file = Absent | Unreadable | Stored 'd

record throttle =
  th_max_trades_per_day :: int
  th_loss_streak_threshold :: int
  th_cooldown_minutes :: int
  th_hard_stop_streak :: int
  th_risk_step_down_map :: "(int \<times> rat) list"
  th_max_daily_loss_pct :: rat
  th_max_daily_loss_usd :: "rat option"
  th_stub :: bool
  th_current_day :: "int option"
  th_starting_equity :: rat
  th_trades_today :: int
  th_consecutive_losses :: int
  th_cooldown_until :: rat
  th_hard_stopped :: bool
  th_halt_reason :: "reason option"
  th_on_halt :: bool
  th_notified :: "reason option list"
  th_file :: "saved_throttle state_file"

definition DEFAULT_STEP_DOWN :: "(int \<times> rat) list" where
  "DEFAULT_STEP_DOWN = [(1, 1), (2, 1 / 2), (3, 1 / 4)]"

text \<open>A missing and an empty map both select the default; equal keys overwrite each other.\<close>

definition step_down_map :: "(int \<times> rat) list option \<Rightarrow> (int \<times> rat) list" where
  "step_down_map m =
     fold (\<lambda>(k, v). dict_put k v) (case m of None \<Rightarrow> DEFAULT_STEP_DOWN | Some [] \<Rightarrow> DEFAULT_STEP_DOWN | Some m' \<Rightarrow> m') []"

definition load_state :: "throttle \<Rightarrow> throttle" where
  "load_state s =
     (case th_file s of
        Absent \<Rightarrow> s
      | Unreadable \<Rightarrow> s
      | Stored d \<Rightarrow>
          s\<lparr>th_current_day := sv_current_day d,
            th_starting_equity := get_or 0 (sv_starting_equity d),
            th_trades_today := get_or 0 (sv_trades_today d),
            th_consecutive_losses := get_or 0 (sv_consecutive_losses d),
            th_cooldown_until := get_or 0 (sv_cooldown_until d),
            th_hard_stopped := get_or False (sv_hard_stopped d),
            th_halt_reason := sv_halt_reason d\<rparr>)"

definition TradeThrottle :: "throttle_cfg \<Rightarrow> saved_throttle state_file \<Rightarrow> throttle" where
  "TradeThrottle tc file =
     load_state
       \<lparr>th_max_trades_per_day = get_or 5 (tc_max_trades_per_day tc),
        th_loss_streak_threshold = get_or 2 (tc_loss_streak_threshold tc),
        th_cooldown_minutes = get_or 45 (tc_cooldown_minutes tc),
        th_hard_stop_streak = get_or 3 (tc_hard_stop_streak tc),
        th_risk_step_down_map = step_down_map (tc_risk_step_down_map tc),
        th_max_daily_loss_pct = get_or 3 (tc_max_daily_loss_pct tc),
        th_max_daily_loss_usd = tc_max_daily_loss_usd tc,
        th_stub = get_or False (tc_stub tc),
        th_current_day = None, th_starting_equity = 0, th_trades_today = 0, th_consecutive_losses = 0,
        th_cooldown_until = 0, th_hard_stopped = False, th_halt_reason = None,
        th_on_halt = False, th_notified = [], th_file = file\<rparr>"

definition persisted :: "throttle \<Rightarrow> saved_throttle" where
  "persisted s =
     \<lparr>sv_current_day = th_current_day s, sv_starting_equity = Some (th_starting_equity s),
      sv_trades_today = Some (th_trades_today s), sv_consecutive_losses = Some (th_consecutive_losses s),
      sv_cooldown_until = Some (th_cooldown_until s), sv_hard_stopped = Some (th_hard_stopped s),
      sv_halt_reason = th_halt_reason s\<rparr>"

definition save_state :: "moment \<Rightarrow> (throttle, unit) comp" where
  "save_state t s =
     (case at_disk t of
        DirectoryFails \<Rightarrow> (Inl OSError, s)
      | WriteFails \<Rightarrow> (Inr (), s)
      | Writable \<Rightarrow> (Inr (), s\<lparr>th_file := Stored (persisted s)\<rparr>))"

section \<open>Operations\<close>

definition reset_if_new_day :: "moment \<Rightarrow> rat \<Rightarrow> (throttle, unit) comp" where
  "reset_if_new_day t current_equity =
     bnd (gets th_current_day) (\<lambda>prev_day.
       if prev_day = Some (at_today t) then ret ()
       else
         seq (modify (\<lambda>s. s\<lparr>th_current_day := Some (at_today t), th_starting_equity := current_equity\<rparr>))
        (seq (if prev_day \<noteq> None
              then modify (\<lambda>s. s\<lparr>th_trades_today := 0, th_consecutive_losses := 0, th_cooldown_until := 0,
                th_hard_stopped := False, th_halt_reason := None\<rparr>)
              else ret ())
         (save_state t)))"

text \<open>The callback's own exceptions are swallowed; the model records the calls.\<close>

definition notify_halt :: "(throttle, unit) comp" where
  "notify_halt = modify (\<lambda>s. if th_on_halt s then s\<lparr>th_notified := th_notified s @ [th_halt_reason s]\<rparr> else s)"

definition halt_trading :: "moment \<Rightarrow> reason \<Rightarrow> (throttle, bool \<times> reason) comp" where
  "halt_trading t r =
     seq (modify (\<lambda>s. s\<lparr>th_hard_stopped := True, th_halt_reason := Some r\<rparr>))
    (seq (save_state t)
    (seq notify_halt
    (ret (False, r))))"

definition check_daily_loss :: "moment \<Rightarrow> rat \<Rightarrow> throttle \<Rightarrow> (throttle, bool \<times> reason) comp" where
  "check_daily_loss t current_equity s =
     (if \<not> th_stub s \<and> th_starting_equity s > 0 \<and> current_equity > 0
      then
        let daily_pnl = fsub current_equity (th_starting_equity s);
            daily_pnl_pct = fmul (fdiv daily_pnl (th_starting_equity s)) 100
        in case th_max_daily_loss_usd s of
             Some usd \<Rightarrow>
               if daily_pnl \<le> - usd then halt_trading t (LossLimitUsd daily_pnl usd)
               else if daily_pnl_pct \<le> - th_max_daily_loss_pct s
               then halt_trading t (LossLimitPct daily_pnl_pct (th_max_daily_loss_pct s))
               else ret (True, Allowed)
           | None \<Rightarrow>
               if daily_pnl_pct \<le> - th_max_daily_loss_pct s
               then halt_trading t (LossLimitPct daily_pnl_pct (th_max_daily_loss_pct s))
               else ret (True, Allowed)
      else ret (True, Allowed))"

definition can_trade :: "moment \<Rightarrow> rat \<Rightarrow> (throttle, bool \<times> reason) comp" where
  "can_trade t current_equity =
     seq (reset_if_new_day t current_equity)
    (bnd (gets (\<lambda>s. s)) (\<lambda>s.
       if \<not> th_stub s \<and> th_hard_stopped s
       then ret (False, HardStopActive (th_consecutive_losses s) (th_hard_stop_streak s))
       else if \<not> th_stub s \<and> th_cooldown_until s > 0 \<and> at_now t < th_cooldown_until s
       then ret (False, CooldownActive (th_consecutive_losses s) (trunc (fsub (th_cooldown_until s) (at_now t)))
              (th_cooldown_minutes s))
       else if th_trades_today s \<ge> th_max_trades_per_day s
       then ret (False, DailyLimitReached (th_trades_today s) (th_max_trades_per_day s))
       else check_daily_loss t current_equity s))"

definition risk_multiplier :: "throttle \<Rightarrow> rat" where
  "risk_multiplier s =
     (if th_stub s then 1
      else case find (\<lambda>threshold. th_consecutive_losses s \<ge> threshold) (rev (sort (map fst (th_risk_step_down_map s)))) of
             None \<Rightarrow> 1
           | Some threshold \<Rightarrow> get_or 1 (map_of (th_risk_step_down_map s) threshold))"

text \<open>A losing trade: the streak grows, and stops or pauses trading at its thresholds.\<close>

definition count_loss :: "moment \<Rightarrow> (throttle, unit) comp" where
  "count_loss t =
     seq (modify (\<lambda>s. s\<lparr>th_consecutive_losses := th_consecutive_losses s + 1\<rparr>))
    (bnd (gets (\<lambda>s. s)) (\<lambda>s.
       if th_consecutive_losses s \<ge> th_hard_stop_streak s
       then seq (modify (\<lambda>s. s\<lparr>th_hard_stopped := True,
                  th_halt_reason := Some (StreakHalt (th_consecutive_losses s) (th_hard_stop_streak s))\<rparr>))
              (if \<not> th_hard_stopped s then notify_halt else ret ())
       else if th_consecutive_losses s \<ge> th_loss_streak_threshold s
       then modify (\<lambda>s. s\<lparr>th_cooldown_until := fadd (at_now t) (of_int (th_cooldown_minutes s * 60))\<rparr>)
       else ret ()))"

definition on_trade_closed :: "moment \<Rightarrow> rat \<Rightarrow> (throttle, unit) comp" where
  "on_trade_closed t pnl =
     seq (modify (\<lambda>s. s\<lparr>th_trades_today := th_trades_today s + 1\<rparr>))
    (bnd (gets th_stub) (\<lambda>stub.
       if stub then save_state t
       else seq (if pnl < 0 then count_loss t
                 else modify (\<lambda>s. s\<lparr>th_consecutive_losses := 0, th_cooldown_until := 0\<rparr>))
              (save_state t)))"

record throttle_view =
  tv_current_day :: "int option"
  tv_trades_today :: int
  tv_max_trades_per_day :: int
  tv_consecutive_losses :: int
  tv_hard_stopped :: bool
  tv_cooldown_active :: bool
  tv_cooldown_remaining_seconds :: int
  tv_risk_multiplier :: rat
  tv_halt_reason :: "reason option"

definition get_state :: "moment \<Rightarrow> throttle \<Rightarrow> throttle_view" where
  "get_state t s =
     \<lparr>tv_current_day = th_current_day s, tv_trades_today = th_trades_today s,
      tv_max_trades_per_day = th_max_trades_per_day s, tv_consecutive_losses = th_consecutive_losses s,
      tv_hard_stopped = th_hard_stopped s,
      tv_cooldown_active = (th_cooldown_until s > 0 \<and> at_now t < th_cooldown_until s),
      tv_cooldown_remaining_seconds =
        (if th_cooldown_until s > 0 then trunc (max 0 (fsub (th_cooldown_until s) (at_now t))) else 0),
      tv_risk_multiplier = risk_multiplier s, tv_halt_reason = th_halt_reason s\<rparr>"

section \<open>Runs\<close>

text \<open>What happens to a throttle over a day: gate queries, closed trades, and restarts of the process,
  which build the throttle again from the configuration and the file.\<close>

datatype throttle_op = Query moment rat | Closed moment rat | Restart

fun op_day :: "throttle_op \<Rightarrow> int option" where
  "op_day (Query t _) = Some (at_today t)"
| "op_day (Closed t _) = Some (at_today t)"
| "op_day Restart = None"

fun throttle_step :: "throttle_cfg \<Rightarrow> throttle_op \<Rightarrow> throttle \<Rightarrow> throttle" where
  "throttle_step tc (Query t equity) s = snd (can_trade t equity s)"
| "throttle_step tc (Closed t pnl) s = snd (on_trade_closed t pnl s)"
| "throttle_step tc Restart s =
     (TradeThrottle tc (th_file s))\<lparr>th_on_halt := th_on_halt s, th_notified := th_notified s\<rparr>"

definition on_day :: "int \<Rightarrow> throttle_op \<Rightarrow> bool" where
  "on_day d x \<longleftrightarrow> op_day x = None \<or> op_day x = Some d"

section \<open>The hard stop within a day\<close>

lemmas throttle_defs = can_trade_def reset_if_new_day_def check_daily_loss_def halt_trading_def
  save_state_def notify_halt_def on_trade_closed_def count_loss_def Let_def

definition same_day :: "int \<Rightarrow> int option \<Rightarrow> bool" where
  "same_day d x \<longleftrightarrow> x = None \<or> x = Some d"

text \<open>Halted for the day, in memory and in the file.\<close>

definition halted :: "throttle_cfg \<Rightarrow> int \<Rightarrow> reason option list \<Rightarrow> throttle \<Rightarrow> bool" where
  "halted tc d calls s \<longleftrightarrow> \<not> get_or False (tc_stub tc) \<and> \<not> th_stub s \<and> th_hard_stopped s
     \<and> same_day d (th_current_day s) \<and> th_notified s = calls
     \<and> (\<exists>f. th_file s = Stored f \<and> sv_hard_stopped f = Some True \<and> same_day d (sv_current_day f))"

lemma halted_query:
  assumes "halted tc d calls s" and "at_today t = d"
  shows "halted tc d calls (snd (can_trade t equity s)) \<and> fst (can_trade t equity s) \<noteq> Inr (True, r)"
  using assms
  by (cases "at_disk t"; cases "th_current_day s = Some d")
    (auto simp: halted_def same_day_def throttle_defs py_simps persisted_def)

lemma halted_closed:
  assumes "halted tc d calls s"
  shows "halted tc d calls (snd (on_trade_closed t pnl s))"
  using assms
  by (cases "at_disk t") (auto simp: halted_def same_day_def throttle_defs py_simps persisted_def)

lemma halted_restart: "halted tc d calls s \<Longrightarrow> halted tc d calls (throttle_step tc Restart s)"
  by (auto simp: halted_def TradeThrottle_def load_state_def)

interpretation halt: guarded_invariant "throttle_step tc" "on_day d" "halted tc d calls" for tc d calls
proof
  fix x s assume "on_day d x" "halted tc d calls s"
  then show "halted tc d calls (throttle_step tc x s)"
    using halted_query halted_closed halted_restart by (cases x) (auto simp: on_day_def simp del: throttle_step.simps(3))
qed

text \<open>A run of losing trades.\<close>

fun close_all :: "(moment \<times> rat) list \<Rightarrow> throttle \<Rightarrow> throttle" where
  "close_all [] s = s"
| "close_all ((t, pnl) # xs) s = close_all xs (snd (on_trade_closed t pnl s))"

lemma loss_step:
  assumes "\<not> th_stub s" and "pnl < 0"
  shows "th_consecutive_losses (snd (on_trade_closed t pnl s)) = th_consecutive_losses s + 1
    \<and> \<not> th_stub (snd (on_trade_closed t pnl s))
    \<and> th_current_day (snd (on_trade_closed t pnl s)) = th_current_day s
    \<and> th_hard_stop_streak (snd (on_trade_closed t pnl s)) = th_hard_stop_streak s
    \<and> th_on_halt (snd (on_trade_closed t pnl s)) = th_on_halt s
    \<and> (th_hard_stopped (snd (on_trade_closed t pnl s)) \<longleftrightarrow>
        th_hard_stopped s \<or> th_hard_stop_streak s \<le> th_consecutive_losses s + 1)
    \<and> (th_hard_stopped s \<or> \<not> th_hard_stopped (snd (on_trade_closed t pnl s)) \<longrightarrow>
        th_notified (snd (on_trade_closed t pnl s)) = th_notified s)
    \<and> length (th_notified (snd (on_trade_closed t pnl s))) \<le> length (th_notified s) + 1
    \<and> (at_disk t = Writable \<longrightarrow> th_file (snd (on_trade_closed t pnl s)) =
        Stored (persisted (snd (on_trade_closed t pnl s))))"
  using assms by (cases "at_disk t") (auto simp: throttle_defs py_simps persisted_def)

lemma losses_halt:
  assumes "\<not> th_stub s" and "list_all (\<lambda>(t, pnl). pnl < 0 \<and> at_disk t = Writable) xs" and "xs \<noteq> []"
  shows "\<not> th_stub (close_all xs s) \<and> th_current_day (close_all xs s) = th_current_day s
    \<and> (th_hard_stopped s \<or> th_hard_stop_streak s \<le> th_consecutive_losses s + int (length xs) \<longrightarrow>
        th_hard_stopped (close_all xs s))
    \<and> length (th_notified (close_all xs s)) \<le> length (th_notified s) + (if th_hard_stopped s then 0 else 1)
    \<and> th_file (close_all xs s) = Stored (persisted (close_all xs s))"
  using assms
proof (induction xs arbitrary: s)
  case (Cons x xs)
  obtain t pnl where x: "x = (t, pnl)" by (cases x)
  note st = loss_step [of s pnl t]
  show ?case
  proof (cases xs)
    case Nil
    then show ?thesis using st Cons.prems by (simp add: x)
  next
    case (Cons y ys)
    then show ?thesis
      using st Cons.prems Cons.IH [of "snd (on_trade_closed t pnl s)"] by (auto simp: x split: if_splits)
  qed
qed simp

section \<open>What permission means\<close>

definition throttle_open :: "moment \<Rightarrow> rat \<Rightarrow> throttle \<Rightarrow> bool" where
  "throttle_open t equity s \<longleftrightarrow> th_current_day s = Some (at_today t)
     \<and> th_trades_today s < th_max_trades_per_day s
     \<and> (th_stub s \<or> \<not> th_hard_stopped s \<and> (th_cooldown_until s \<le> 0 \<or> th_cooldown_until s \<le> at_now t)
         \<and> (th_starting_equity s > 0 \<and> equity > 0 \<longrightarrow>
              (\<forall>usd. th_max_daily_loss_usd s = Some usd \<longrightarrow> - usd < fsub equity (th_starting_equity s))
              \<and> - th_max_daily_loss_pct s < fmul (fdiv (fsub equity (th_starting_equity s)) (th_starting_equity s)) 100))"

lemma check_daily_loss_granted:
  "check_daily_loss t equity s s1 = (Inr (True, r), s') \<Longrightarrow> s' = s1 \<and>
    (\<not> th_stub s \<and> th_starting_equity s > 0 \<and> equity > 0 \<longrightarrow>
      (\<forall>usd. th_max_daily_loss_usd s = Some usd \<longrightarrow> - usd < fsub equity (th_starting_equity s))
      \<and> - th_max_daily_loss_pct s < fmul (fdiv (fsub equity (th_starting_equity s)) (th_starting_equity s)) 100)"
  by (auto simp: check_daily_loss_def halt_trading_def Let_def py_simps split: if_splits option.splits sum.splits)

lemma can_trade_granted:
  assumes "can_trade t equity s = (Inr (True, r), s')"
  shows "throttle_open t equity s'"
proof -
  obtain s1 where s1: "reset_if_new_day t equity s = (Inr (), s1)"
    using assms by (cases "reset_if_new_day t equity s") (auto simp: can_trade_def py_simps split: sum.splits)
  then have "th_current_day s1 = Some (at_today t)"
    by (cases "at_disk t"; auto simp: reset_if_new_day_def save_state_def py_simps split: if_splits)
  moreover have "check_daily_loss t equity s1 s1 = (Inr (True, r), s')"
    and "th_trades_today s1 < th_max_trades_per_day s1"
    and "th_stub s1 \<or> \<not> th_hard_stopped s1 \<and> (th_cooldown_until s1 \<le> 0 \<or> th_cooldown_until s1 \<le> at_now t)"
    using assms s1 by (auto simp: can_trade_def py_simps split: if_splits)
  ultimately show ?thesis using check_daily_loss_granted [of t equity s1 s1 r s'] by (auto simp: throttle_open_def)
qed

section \<open>A day anchored without equity\<close>

definition unanchored :: "throttle_cfg \<Rightarrow> int \<Rightarrow> throttle \<Rightarrow> bool" where
  "unanchored tc d s \<longleftrightarrow> th_current_day s = Some d \<and> th_starting_equity s = 0
     \<and> (\<exists>f. th_file s = Stored f \<and> sv_current_day f = Some d \<and> sv_starting_equity f = Some 0)"

lemma unanchored_query:
  assumes "unanchored tc d s" and "at_today t = d"
  shows "unanchored tc d (snd (can_trade t equity s))
    \<and> (\<forall>pnl limit. fst (can_trade t equity s) \<noteq> Inr (False, LossLimitUsd pnl limit)
        \<and> fst (can_trade t equity s) \<noteq> Inr (False, LossLimitPct pnl limit))"
  using assms by (auto simp: unanchored_def throttle_defs py_simps)

lemma unanchored_closed: "unanchored tc d s \<Longrightarrow> unanchored tc d (snd (on_trade_closed t pnl s))"
  by (cases "at_disk t") (auto simp: unanchored_def throttle_defs py_simps persisted_def)

lemma unanchored_restart: "unanchored tc d s \<Longrightarrow> unanchored tc d (throttle_step tc Restart s)"
  by (auto simp: unanchored_def TradeThrottle_def load_state_def)

interpretation blind: guarded_invariant "throttle_step tc" "on_day d" "unanchored tc d" for tc d
proof
  fix x s assume "on_day d x" "unanchored tc d s"
  then show "unanchored tc d (throttle_step tc x s)"
    using unanchored_query unanchored_closed unanchored_restart
    by (cases x) (auto simp: on_day_def simp del: throttle_step.simps(3))
qed

section \<open>Properties\<close>

definition demo_cfg :: throttle_cfg where
  "demo_cfg = \<lparr>tc_max_trades_per_day = None, tc_loss_streak_threshold = None, tc_cooldown_minutes = None,
     tc_hard_stop_streak = None, tc_risk_step_down_map = None, tc_max_daily_loss_pct = None,
     tc_max_daily_loss_usd = Some 500, tc_stub = None\<rparr>"

definition demo_moment :: "int \<Rightarrow> moment" where
  "demo_moment d = \<lparr>at_now = 1000, at_today = d, at_disk = Writable\<rparr>"

definition demo_throttle :: throttle where
  "demo_throttle = snd (can_trade (demo_moment 7) 10000 (TradeThrottle demo_cfg Absent))"

definition demo_losses :: "(moment \<times> rat) list" where
  "demo_losses = [(demo_moment 7, - 20), (demo_moment 7, - 30), (demo_moment 7, - 10)]"

lemma demo_throttle_fields:
  "\<not> get_or False (tc_stub demo_cfg)" "\<not> th_stub demo_throttle" "th_current_day demo_throttle = Some 7"
  "th_hard_stop_streak demo_throttle = 3" "th_consecutive_losses demo_throttle = 0"
  "0 < th_max_trades_per_day demo_throttle" "0 < th_max_daily_loss_pct demo_throttle"
  "th_max_daily_loss_usd demo_throttle = Some 500"
  "list_all (\<lambda>(t, pnl). pnl < 0 \<and> at_disk t = Writable) demo_losses" "demo_losses \<noteq> []" "length demo_losses = 3"
  "at_today (demo_moment d) = d" "at_disk (demo_moment d) = Writable"
  by (simp_all add: demo_throttle_def demo_cfg_def demo_moment_def demo_losses_def TradeThrottle_def load_state_def
      throttle_defs py_simps fdiv_def fmul_def)

lemma closed_config:
  "th_max_trades_per_day (snd (on_trade_closed t pnl s)) = th_max_trades_per_day s"
  "th_max_daily_loss_pct (snd (on_trade_closed t pnl s)) = th_max_daily_loss_pct s"
  "th_max_daily_loss_usd (snd (on_trade_closed t pnl s)) = th_max_daily_loss_usd s"
  by (cases "at_disk t"; auto simp: throttle_defs py_simps)+

lemma close_all_config:
  "th_max_trades_per_day (close_all xs s) = th_max_trades_per_day s"
  "th_max_daily_loss_pct (close_all xs s) = th_max_daily_loss_pct s"
  "th_max_daily_loss_usd (close_all xs s) = th_max_daily_loss_usd s"
  by (induction xs s rule: close_all.induct) (simp_all add: closed_config)



text \<open>A halt ends with the day: the first gate query of another day is granted again, whatever
  streak, cooldown, trade count or halt the day before left, provided the limits admit any trading
  at all.\<close>

theorem throttle_reopens_on_a_new_day:
  assumes "th_current_day s = Some d" and "at_today t \<noteq> d" and "at_disk t \<noteq> DirectoryFails"
    and "0 < th_max_trades_per_day s" and "0 < th_max_daily_loss_pct s"
    and "\<And>usd. th_max_daily_loss_usd s = Some usd \<Longrightarrow> 0 < usd"
  shows "fst (can_trade t equity s) = Inr (True, Allowed)
    \<and> th_consecutive_losses (snd (can_trade t equity s)) = 0 \<and> \<not> th_hard_stopped (snd (can_trade t equity s))
    \<and> th_current_day (snd (can_trade t equity s)) = Some (at_today t)"
  using assms
  by (cases "at_disk t"; cases "th_max_daily_loss_usd s")
    (auto simp: throttle_defs py_simps fdiv_def fmul_def)

theorem throttle_reopens_on_a_new_day_witness:
  "fst (can_trade (demo_moment 8) 9000 (close_all demo_losses demo_throttle)) = Inr (True, Allowed)"
proof -
  have "th_current_day (close_all demo_losses demo_throttle) = Some 7"
    using losses_halt [OF demo_throttle_fields(2,9,10)] by (simp add: demo_throttle_fields)
  from throttle_reopens_on_a_new_day [OF this, of "demo_moment 8" 9000] show ?thesis
    by (simp add: demo_throttle_fields close_all_config)
qed

text \<open>When the first query of a day carries no equity (the default argument 0, which the risk
  engine passes when its caller leaves the account to the broker), the day is anchored at 0 and the
  daily loss limit is off until the next day: no later query of the day is refused for a loss,
  however large, also after restarts.\<close>

theorem day_anchored_without_equity_has_no_loss_limit:
  assumes "th_current_day s \<noteq> Some (at_today t0)" and "at_disk t0 = Writable"
    and ops: "list_all (on_day (at_today t0)) ops" and t: "at_today t = at_today t0"
    and s': "s' = run_steps (throttle_step tc) ops (snd (can_trade t0 0 s))"
  shows "fst (can_trade t equity s') \<noteq> Inr (False, LossLimitUsd pnl limit)
    \<and> fst (can_trade t equity s') \<noteq> Inr (False, LossLimitPct pnl limit)"
proof -
  have "unanchored tc (at_today t0) (snd (can_trade t0 0 s))"
    using assms(1,2) by (auto simp: unanchored_def throttle_defs py_simps persisted_def)
  from blind.guarded_run [OF ops this] have "unanchored tc (at_today t0) s'" by (simp add: s')
  from unanchored_query [OF this t] show ?thesis by blast
qed

theorem day_anchored_without_equity_has_no_loss_limit_witness:
  "fst (can_trade (demo_moment 8) 1 (run_steps (throttle_step demo_cfg) [Query (demo_moment 8) 10000, Restart]
     (snd (can_trade (demo_moment 8) 0 demo_throttle)))) \<noteq> Inr (False, LossLimitUsd (- 9999) 500)"
  using day_anchored_without_equity_has_no_loss_limit [of demo_throttle "demo_moment 8"
      "[Query (demo_moment 8) 10000, Restart]" "demo_moment 8" _ demo_cfg 1 "- 9999" 500]
  by (simp add: demo_throttle_fields on_day_def)

end
