(* ===== verification/Risk_State.thy ===== *)
theory Risk_State
  imports Trade_Throttle
begin

text \<open>
  The parts the risk engine is built from: the persisted daily risk state of \<^verbatim>\<open>risk/state.py\<close>, the
  sliding-window rate throttle of \<^verbatim>\<open>risk/throttle.py\<close> and the sizing rules of \<^verbatim>\<open>risk/sizing.py\<close> that
  need no numpy. The state file is a field of the risk state, as in the throttle; the rate window is
  in memory only. The interface \<open>rate_gate\<close> states what a client may rely on from a rate limiter.
\<close>

section \<open>Persisted risk state\<close>

text \<open>The JSON object of the file. The balance anchor can be missing (old files) or null.\<close>

record saved_risk =
  sr_current_day :: "int option"
  sr_starting_equity_today :: "rat option"
  sr_starting_balance_today :: "rat option option"
  sr_hwm :: "rat option"
  sr_daily_trades_count :: "(string \<times> int) list option"
  sr_circuit_breaker_tripped :: "bool option"

record risk_state =
  rs_current_day :: "int option"
  rs_starting_equity_today :: "rat option"
  rs_starting_balance_today :: "rat option"
  rs_hwm :: "rat option"
  rs_daily_trades_count :: "(string \<times> int) list"
  rs_circuit_breaker_tripped :: bool
  rs_file :: "saved_risk state_file"

definition load :: "risk_state \<Rightarrow> risk_state" where
  "load s =
     (case rs_file s of
        Absent \<Rightarrow> s
      | Unreadable \<Rightarrow> s
      | Stored d \<Rightarrow>
          s\<lparr>rs_current_day := (case sr_current_day d of None \<Rightarrow> rs_current_day s | Some day \<Rightarrow> Some day),
            rs_starting_equity_today := sr_starting_equity_today d,
            rs_starting_balance_today := get_or (sr_starting_equity_today d) (sr_starting_balance_today d),
            rs_hwm := sr_hwm d,
            rs_daily_trades_count := get_or [] (sr_daily_trades_count d),
            rs_circuit_breaker_tripped := get_or False (sr_circuit_breaker_tripped d)\<rparr>)"

definition RiskState :: "saved_risk state_file \<Rightarrow> risk_state" where
  "RiskState file =
     load \<lparr>rs_current_day = None, rs_starting_equity_today = None, rs_starting_balance_today = None,
       rs_hwm = None, rs_daily_trades_count = [], rs_circuit_breaker_tripped = False, rs_file = file\<rparr>"

definition risk_persisted :: "risk_state \<Rightarrow> saved_risk" where
  "risk_persisted s =
     \<lparr>sr_current_day = rs_current_day s, sr_starting_equity_today = rs_starting_equity_today s,
      sr_starting_balance_today = Some (rs_starting_balance_today s), sr_hwm = rs_hwm s,
      sr_daily_trades_count = Some (rs_daily_trades_count s),
      sr_circuit_breaker_tripped = Some (rs_circuit_breaker_tripped s)\<rparr>"

definition save :: "moment \<Rightarrow> (risk_state, unit) comp" where
  "save t s =
     (case at_disk t of
        DirectoryFails \<Rightarrow> (Inl OSError, s)
      | WriteFails \<Rightarrow> (Inr (), s)
      | Writable \<Rightarrow> (Inr (), s\<lparr>rs_file := Stored (risk_persisted s)\<rparr>))"

definition reset_for_new_day :: "moment \<Rightarrow> rat \<Rightarrow> rat option \<Rightarrow> (risk_state, unit) comp" where
  "reset_for_new_day t current_equity current_balance =
     seq (modify (\<lambda>s. s\<lparr>rs_current_day := Some (at_today t),
            rs_starting_equity_today := Some current_equity,
            rs_starting_balance_today := Some (get_or current_equity current_balance),
            rs_daily_trades_count := [], rs_circuit_breaker_tripped := False\<rparr>))
         (save t)"

definition ratchet :: "rat \<Rightarrow> rat option \<Rightarrow> rat" where
  "ratchet equity hwm = (case hwm of None \<Rightarrow> equity | Some h \<Rightarrow> if equity > h then equity else h)"

definition update_hwm :: "rat \<Rightarrow> (risk_state, rat) comp" where
  "update_hwm equity =
     bnd (gets rs_hwm) (\<lambda>h.
     seq (modify (\<lambda>s. s\<lparr>rs_hwm := Some (ratchet equity h)\<rparr>))
         (ret (ratchet equity h)))"

definition record_trade :: "string \<Rightarrow> (risk_state, int) comp" where
  "record_trade asset_key =
     bnd (gets (\<lambda>s. get_or 0 (map_of (rs_daily_trades_count s) asset_key) + 1)) (\<lambda>n.
     seq (modify (\<lambda>s. s\<lparr>rs_daily_trades_count := dict_put asset_key n (rs_daily_trades_count s)\<rparr>))
         (ret n))"

definition is_today :: "moment \<Rightarrow> risk_state \<Rightarrow> bool" where
  "is_today t s \<longleftrightarrow> rs_current_day s = Some (at_today t)"

text \<open>Reading back what was written restores the state.\<close>

lemma saved_state_reloads:
  "save t s = (Inr (), s') \<Longrightarrow> at_disk t = Writable \<Longrightarrow> RiskState (rs_file s') = s'"
  by (cases s) (auto simp: save_def RiskState_def load_def risk_persisted_def split: option.split)

section \<open>Sizing\<close>

definition drawdown_levels :: "(rat \<times> rat) list" where
  "drawdown_levels = [(- fl (4 / 100), 3 / 4), (- fl (6 / 100), 1 / 2), (- fl (8 / 100), 0)]"

text \<open>\<^verbatim>\<open>sorted(levels)\<close> orders the pairs lexicographically.\<close>

definition pair_le :: "rat \<times> rat \<Rightarrow> rat \<times> rat \<Rightarrow> bool" where
  "pair_le a b \<longleftrightarrow> fst a < fst b \<or> (fst a = fst b \<and> snd a \<le> snd b)"

fun insert_pair :: "rat \<times> rat \<Rightarrow> (rat \<times> rat) list \<Rightarrow> (rat \<times> rat) list" where
  "insert_pair x [] = [x]"
| "insert_pair x (y # ys) = (if pair_le x y then x # y # ys else y # insert_pair x ys)"

definition drawdown_throttle :: "rat \<Rightarrow> (rat \<times> rat) list \<Rightarrow> rat" where
  "drawdown_throttle dd_from_hwm levels =
     (case find (\<lambda>(level, m). min 0 dd_from_hwm \<le> level) (foldr insert_pair levels []) of
        None \<Rightarrow> 1
      | Some (level, m) \<Rightarrow> m)"

record exposure =
  xp_ok :: bool
  xp_cluster_sum :: rat
  xp_total_sum :: rat
  xp_cluster_cap :: rat
  xp_total_cap :: rat

definition cluster_exposure_ok :: "(string \<times> rat) list \<Rightarrow> string \<Rightarrow> rat \<Rightarrow> rat \<Rightarrow> rat \<Rightarrow> exposure" where
  "cluster_exposure_ok current_risk_by_cluster cluster add_risk_pct cluster_cap total_cap =
     (let cluster_sum = fadd (get_or 0 (map_of current_risk_by_cluster cluster)) add_risk_pct;
          total_sum = fadd (py_sum (map snd current_risk_by_cluster)) add_risk_pct
      in \<lparr>xp_ok = (cluster_sum \<le> cluster_cap \<and> total_sum \<le> total_cap),
          xp_cluster_sum = cluster_sum, xp_total_sum = total_sum,
          xp_cluster_cap = cluster_cap, xp_total_cap = total_cap\<rparr>)"

datatype sizing = Sized rat | SkippedNonPositive | SkippedBelowMinimum rat

definition lots_for_risk :: "rat \<Rightarrow> rat \<Rightarrow> rat \<Rightarrow> rat \<Rightarrow> rat \<Rightarrow> sizing result" where
  "lots_for_risk equity risk_pct sl_ticks tick_value_per_lot min_lot =
     (if equity \<le> 0 \<or> risk_pct \<le> 0 \<or> sl_ticks \<le> 0 \<or> tick_value_per_lot \<le> 0 then Inr SkippedNonPositive
      else if fmul sl_ticks tick_value_per_lot = 0 then Inl ZeroDivisionError
      else
        let lots = fdiv (fmul equity risk_pct) (fmul sl_ticks tick_value_per_lot)
        in if lots < min_lot then Inr (SkippedBelowMinimum lots) else Inr (Sized lots))"

definition same_direction_cluster_penalty :: "(string \<rightharpoonup> int) \<Rightarrow> int \<Rightarrow> string \<Rightarrow> rat \<Rightarrow> rat" where
  "same_direction_cluster_penalty current_dir direction cluster multiplier =
     (if current_dir cluster = Some direction then multiplier else 1)"

lemma sized_lots_reach_minimum:
  "lots_for_risk equity risk_pct sl_ticks tick_value min_lot = Inr (Sized lots) \<Longrightarrow>
    min_lot \<le> lots \<and> lots = fdiv (fmul equity risk_pct) (fmul sl_ticks tick_value)"
  by (auto simp: lots_for_risk_def Let_def split: if_splits)

lemma drawdown_blocks:
  "dd \<le> - fl (8 / 100) \<Longrightarrow> drawdown_throttle dd drawdown_levels = 0"
proof -
  assume "dd \<le> - fl (8 / 100)"
  moreover have f: "fl (4 / 100) < fl (6 / 100)" "fl (6 / 100) < fl (8 / 100)" "0 < fl (8 / 100)" by code_simp+
  ultimately show ?thesis by (simp add: drawdown_throttle_def drawdown_levels_def pair_le_def)
qed

section \<open>Rate throttle\<close>

record rate =
  rt_max_orders_per_minute :: int
  rt_window_seconds :: rat
  rt_orders :: "(string \<times> rat list) list"

datatype rate_reason = RateOk | RateThrottled int int int int

definition RateThrottle :: "int option \<Rightarrow> rat option \<Rightarrow> int option \<Rightarrow> rate" where
  "RateThrottle cfg_max cfg_window max_orders_per_minute =
     \<lparr>rt_max_orders_per_minute = get_or (get_or 60 cfg_max) max_orders_per_minute,
      rt_window_seconds = get_or 60 cfg_window, rt_orders = []\<rparr>"

definition window :: "string \<Rightarrow> rate \<Rightarrow> rat list" where
  "window asset_key r = get_or [] (map_of (rt_orders r) asset_key)"

definition rate_can_trade :: "rat \<Rightarrow> string \<Rightarrow> (rate, bool \<times> rate_reason) comp" where
  "rate_can_trade now asset_key r =
     (let cutoff = fsub now (rt_window_seconds r);
          w = dropWhile (\<lambda>stamp. stamp \<le> cutoff) (window asset_key r);
          r' = r\<lparr>rt_orders := dict_put asset_key w (rt_orders r)\<rparr>
      in if int (length w) \<ge> rt_max_orders_per_minute r
         then (case w of
                 [] \<Rightarrow> (Inl IndexError, r')
               | oldest # _ \<Rightarrow>
                   (Inr (False, RateThrottled (int (length w)) (rt_max_orders_per_minute r)
                      (trunc (rt_window_seconds r))
                      (trunc (fsub (fadd oldest (rt_window_seconds r)) now) + 1)), r'))
         else (Inr (True, RateOk), r'))"

definition record_order :: "rat \<Rightarrow> string \<Rightarrow> (rate, unit) comp" where
  "record_order now asset_key =
     modify (\<lambda>r. r\<lparr>rt_orders := dict_put asset_key (window asset_key r @ [now]) (rt_orders r)\<rparr>)"

definition clear :: "string option \<Rightarrow> (rate, unit) comp" where
  "clear asset_key = modify (\<lambda>r. r\<lparr>rt_orders :=
     (case asset_key of None \<Rightarrow> [] | Some a \<Rightarrow> filter (\<lambda>kv. fst kv \<noteq> a) (rt_orders r))\<rparr>)"

text \<open>What a client may rely on: asking forgets the stamps that left the window of the asset and
  grants only below the cap; a stamp is appended to its asset's window.\<close>

locale rate_gate =
  fixes valid :: "'s \<Rightarrow> bool" and recent :: "string \<Rightarrow> 's \<Rightarrow> rat list"
    and ask :: "rat \<Rightarrow> string \<Rightarrow> 's \<Rightarrow> bool \<times> 's" and stamp :: "rat \<Rightarrow> string \<Rightarrow> 's \<Rightarrow> 's"
    and width :: rat and cap :: nat
  assumes ask_valid: "valid s \<Longrightarrow> valid (snd (ask now a s))"
    and ask_recent: "valid s \<Longrightarrow> recent b (snd (ask now a s)) =
      (if b = a then dropWhile (\<lambda>x. x \<le> fsub now width) (recent a s) else recent b s)"
    and ask_cap: "valid s \<Longrightarrow> fst (ask now a s) \<Longrightarrow> length (recent a (snd (ask now a s))) < cap"
    and stamp_valid: "valid s \<Longrightarrow> valid (stamp now a s)"
    and stamp_recent: "valid s \<Longrightarrow> recent b (stamp now a s) = (if b = a then recent a s @ [now] else recent b s)"

text \<open>A client that sends an order exactly when it is granted, and the orders it sends.\<close>

fun orders_sent ::
  "(rat \<Rightarrow> string \<Rightarrow> 's \<Rightarrow> bool \<times> 's) \<Rightarrow> (rat \<Rightarrow> string \<Rightarrow> 's \<Rightarrow> 's) \<Rightarrow> (rat \<times> string) list \<Rightarrow> 's \<Rightarrow> (rat \<times> string) list" where
  "orders_sent ask stamp [] s = []"
| "orders_sent ask stamp ((now, a) # xs) s =
     (let (granted, s') = ask now a s
      in if granted then (now, a) # orders_sent ask stamp xs (stamp now a s')
         else orders_sent ask stamp xs s')"

definition stamps :: "string \<Rightarrow> (rat \<times> string) list \<Rightarrow> rat list" where
  "stamps a xs = map fst (filter (\<lambda>x. snd x = a) xs)"

text \<open>No window of the given width that ends at an order holds more than \<open>cap\<close> orders of the asset.\<close>

definition within_rate :: "rat \<Rightarrow> nat \<Rightarrow> (rat \<times> string) list \<Rightarrow> bool" where
  "within_rate width cap xs \<longleftrightarrow>
     (\<forall>a. \<forall>s \<in> set (stamps a xs). length (filter (\<lambda>x. fsub s width < x \<and> x \<le> s) (stamps a xs)) \<le> cap)"

lemma stamps_snoc: "stamps b (xs @ [(now, a)]) = (if b = a then stamps b xs @ [now] else stamps b xs)"
  by (simp add: stamps_def)

lemma dropWhile_filter_sorted:
  fixes c d :: rat
  assumes "sorted xs" and "c \<le> d"
  shows "dropWhile (\<lambda>x. x \<le> d) (filter (\<lambda>x. c < x) xs) = filter (\<lambda>x. d < x) xs"
  using assms(1)
proof (induction xs)
  case (Cons x xs)
  show ?case
  proof (cases "x \<le> d")
    case False
    then have "filter (\<lambda>x. d < x) xs = xs" "filter (\<lambda>x. c < x) xs = xs"
      using Cons.prems assms(2) by (auto simp: filter_id_conv)
    then show ?thesis using False assms(2) by simp
  qed (use Cons assms(2) in auto)
qed simp

context rate_gate
begin

definition tracks :: "(rat \<times> string) list \<Rightarrow> rat \<Rightarrow> 's \<Rightarrow> bool" where
  "tracks past now s \<longleftrightarrow> valid s \<and> within_rate width cap past
     \<and> (\<forall>a. sorted (stamps a past) \<and> (\<forall>x \<in> set (stamps a past). x \<le> now)
          \<and> (\<exists>c \<le> fsub now width. recent a s = filter (\<lambda>x. c < x) (stamps a past)))"

lemma tracks_ask:
  assumes "tracks past now0 s" and "now0 \<le> now"
  shows "tracks past now (snd (ask now a s))
    \<and> recent a (snd (ask now a s)) = filter (\<lambda>x. fsub now width < x) (stamps a past)"
proof -
  have v: "valid s" using assms(1) by (simp add: tracks_def)
  have mono: "fsub now0 width \<le> fsub now width" using assms(2) by (rule fsub_mono) simp
  obtain c where c: "c \<le> fsub now0 width" "recent a s = filter (\<lambda>x. c < x) (stamps a past)" "sorted (stamps a past)"
    using assms(1) unfolding tracks_def by metis
  then have r: "recent a (snd (ask now a s)) = filter (\<lambda>x. fsub now width < x) (stamps a past)"
    using mono by (simp add: ask_recent [OF v] dropWhile_filter_sorted)
  have "\<exists>c \<le> fsub now width. recent b (snd (ask now a s)) = filter (\<lambda>x. c < x) (stamps b past)" for b
  proof (cases "b = a")
    case False
    obtain c where "c \<le> fsub now0 width" "recent b s = filter (\<lambda>x. c < x) (stamps b past)"
      using assms(1) unfolding tracks_def by metis
    then show ?thesis using False mono by (intro exI [of _ c]) (simp add: ask_recent [OF v])
  qed (use r in auto)
  moreover have "\<forall>x \<in> set (stamps b past). x \<le> now" for b
    using assms unfolding tracks_def by (metis order_trans)
  ultimately show ?thesis using r assms(1) ask_valid [OF v] by (auto simp: tracks_def)
qed

lemma within_rate_grow:
  assumes past: "within_rate width cap past" and le: "\<forall>x \<in> set (stamps a past). x \<le> now"
    and few: "length (filter (\<lambda>x. fsub now width < x) (stamps a past)) < cap"
  shows "within_rate width cap (past @ [(now, a)])"
proof -
  have now: "length (filter (\<lambda>x. fsub now width < x \<and> x \<le> now) (stamps a past @ [now])) \<le> cap"
  proof -
    have "filter (\<lambda>x. fsub now width < x \<and> x \<le> now) (stamps a past) = filter (\<lambda>x. fsub now width < x) (stamps a past)"
      by (rule filter_cong) (use le in auto)
    then show ?thesis using few by simp
  qed
  have "length (filter (\<lambda>x. fsub s width < x \<and> x \<le> s) (stamps a past @ [now])) \<le> cap"
    if "s \<in> set (stamps a past @ [now])" for s
  proof (cases "s = now")
    case False
    then have "s \<in> set (stamps a past)" and "\<not> now \<le> s" using that le by force+
    then show ?thesis using past by (simp add: within_rate_def)
  qed (use now in simp)
  then show ?thesis using past by (simp add: within_rate_def stamps_snoc)
qed

lemma tracks_stamp:
  assumes tr: "tracks past now s" and r: "recent a s = filter (\<lambda>x. fsub now width < x) (stamps a past)"
    and cap: "length (recent a s) < cap" and pos: "fsub now width < now"
  shows "tracks (past @ [(now, a)]) now (stamp now a s)"
proof -
  have v: "valid s" using tr by (simp add: tracks_def)
  have rec: "\<exists>c \<le> fsub now width. recent b (stamp now a s) = filter (\<lambda>x. c < x) (stamps b (past @ [(now, a)]))" for b
  proof (cases "b = a")
    case True
    then show ?thesis using r pos by (intro exI [of _ "fsub now width"]) (simp add: stamp_recent [OF v] stamps_snoc)
  next
    case False
    then show ?thesis using tr by (auto simp: tracks_def stamp_recent [OF v] stamps_snoc)
  qed
  have "sorted (stamps b (past @ [(now, a)])) \<and> (\<forall>x \<in> set (stamps b (past @ [(now, a)])). x \<le> now)" for b
    using tr by (auto simp: tracks_def stamps_snoc sorted_append)
  moreover have "within_rate width cap (past @ [(now, a)])"
    using tr cap by (intro within_rate_grow) (auto simp: tracks_def r)
  ultimately show ?thesis using rec stamp_valid [OF v] by (auto simp: tracks_def)
qed

lemma rate_bound:
  assumes "tracks past now s" and "sorted (now # map fst xs)" and "\<forall>x \<in> set (map fst xs). fsub x width < x"
  shows "within_rate width cap (past @ orders_sent ask stamp xs s)"
  using assms
proof (induction xs arbitrary: past now s)
  case Nil
  then show ?case by (simp add: tracks_def)
next
  case (Cons x xs)
  obtain t a where x: "x = (t, a)" by (cases x)
  obtain g s' where ask: "ask t a s = (g, s')" by (cases "ask t a s")
  have "now \<le> t" and srt: "sorted (t # map fst xs)" using Cons.prems(2) by (auto simp: x)
  note tr = tracks_ask [OF Cons.prems(1) this(1), of a]
  show ?case
  proof (cases g)
    case True
    have v: "valid s" using Cons.prems(1) by (simp add: tracks_def)
    have "length (recent a s') < cap" using ask_cap [OF v, of t a] True ask by simp
    then have "tracks (past @ [(t, a)]) t (stamp t a s')"
      using tracks_stamp [of past t s' a] tr Cons.prems(3) by (simp add: ask x)
    from Cons.IH [OF this srt] show ?thesis using True Cons.prems(3) by (simp add: x ask)
  next
    case False
    then show ?thesis using Cons.IH [of past t s'] tr srt Cons.prems(3) by (simp add: x ask)
  qed
qed

end

text \<open>The throttle's own answers; an \<open>IndexError\<close> grants nothing.\<close>

definition rate_ask :: "rat \<Rightarrow> string \<Rightarrow> rate \<Rightarrow> bool \<times> rate" where
  "rate_ask now a r = (case fst (rate_can_trade now a r) of Inr (True, _) \<Rightarrow> True | _ \<Rightarrow> False, snd (rate_can_trade now a r))"

definition rate_stamp :: "rat \<Rightarrow> string \<Rightarrow> rate \<Rightarrow> rate" where
  "rate_stamp now a r = snd (record_order now a r)"

definition rate_valid :: "rat \<Rightarrow> nat \<Rightarrow> rate \<Rightarrow> bool" where
  "rate_valid width cap r \<longleftrightarrow> rt_window_seconds r = width \<and> rt_max_orders_per_minute r = int cap"

lemma rate_can_trade_window:
  "window b (snd (rate_can_trade now a r)) =
    (if b = a then dropWhile (\<lambda>x. x \<le> fsub now (rt_window_seconds r)) (window a r) else window b r)"
  "rt_window_seconds (snd (rate_can_trade now a r)) = rt_window_seconds r"
  "rt_max_orders_per_minute (snd (rate_can_trade now a r)) = rt_max_orders_per_minute r"
  by (auto simp: rate_can_trade_def Let_def window_def split: list.split)

lemma rate_granted:
  "fst (rate_can_trade now a r) = Inr (True, x) \<Longrightarrow>
    int (length (window a (snd (rate_can_trade now a r)))) < rt_max_orders_per_minute r"
  by (auto simp: rate_can_trade_def Let_def window_def split: list.splits if_splits)

interpretation throttle_gate: rate_gate "rate_valid width cap" window rate_ask rate_stamp width cap for width cap
proof
  fix s now a b
  assume v: "rate_valid width cap s"
  then show "rate_valid width cap (snd (rate_ask now a s))"
    and "window b (snd (rate_ask now a s)) =
      (if b = a then dropWhile (\<lambda>x. x \<le> fsub now width) (window a s) else window b s)"
    and "rate_valid width cap (rate_stamp now a s)"
    and "window b (rate_stamp now a s) = (if b = a then window a s @ [now] else window b s)"
    by (simp_all add: rate_valid_def rate_ask_def rate_stamp_def rate_can_trade_window record_order_def py_simps)
      (simp_all add: window_def)
  show "length (window a (snd (rate_ask now a s))) < cap" if "fst (rate_ask now a s)"
    using that v rate_granted [of now a s] by (auto simp: rate_ask_def rate_valid_def split: sum.splits prod.splits bool.splits)
qed

section \<open>Properties\<close>

text \<open>C14. A client that sends an order exactly when the rate throttle grants it, at times that do not
  go back, never sends more than the configured number of orders of an asset within any window of
  the configured width, over any sequence of requests for any mix of assets.\<close>

theorem granted_orders_stay_within_rate:
  assumes "sorted (map fst requests)" and "\<forall>now \<in> set (map fst requests). fsub now width < now"
    and "r = RateThrottle cfg_max (Some width) (Some (int cap))"
  shows "within_rate width cap (orders_sent rate_ask rate_stamp requests r)"
proof (cases requests)
  case (Cons x xs)
  have "throttle_gate.tracks width cap [] (fst x) r"
    using assms(3) by (auto simp: throttle_gate.tracks_def rate_valid_def RateThrottle_def within_rate_def stamps_def window_def)
  from throttle_gate.rate_bound [OF this, of requests] show ?thesis using assms(1,2) Cons by simp
qed (simp add: within_rate_def stamps_def)

theorem granted_orders_stay_within_rate_witness:
  "within_rate 60 2 (orders_sent rate_ask rate_stamp [(100, ''XAU''), (110, ''XAU''), (120, ''XAU''), (161, ''XAU'')]
     (RateThrottle None (Some 60) (Some 2)))"
  using granted_orders_stay_within_rate
    [of "[(100, ''XAU''), (110, ''XAU''), (120, ''XAU''), (161, ''XAU'')]" 60 _ None 2]
  by (simp add: fsub_def)

end
