(* ===== verification/Risk_Engine.thy ===== *)
theory Risk_Engine
  imports Risk_State
begin

text \<open>
  The limit gates of \<^verbatim>\<open>risk/limits.py\<close> and the engine of \<^verbatim>\<open>risk/engine.py\<close> that runs every pre-trade
  gate in order. The engine owns one risk state that the limits share, a rate throttle and an optional
  loss-streak throttle. The MetaTrader module is not part of the repository: what it answers at the
  moment of a call is an argument. The sets of open groups are given by their members, and the reason
  texts are values that carry the interpolated numbers.
\<close>

section \<open>Limits\<close>

datatype risk_reason =
    ROk
  | ThrottleReason reason
  | BreakerTripped rat rat
  | HaltedToday
  | MaxGroups int int
  | MaxAssetGroups string int int
  | MaxPositions int int
  | DailyTrades string int int
  | NotInitialized
  | NoAccountInfo
  | RateReason rate_reason
  | DrawdownReason rat rat
  | ClusterReason string exposure

record limits =
  li_magic :: "int option"
  li_max_concurrent_positions :: int
  li_max_open_positions_per_asset :: int
  li_max_daily_trades_per_asset :: int
  li_max_daily_loss_pct :: rat
  li_exclude_swaps :: bool

record risk_cfg =
  rc_max_concurrent_positions_global :: "int option"
  rc_max_open_positions_per_asset :: "int option"
  rc_max_daily_trades_per_asset :: "int option"
  rc_max_daily_loss_pct :: "rat option"
  rc_exclude_swaps :: "bool option"
  rc_max_orders_per_minute :: "int option"
  rc_rate_window_seconds :: "rat option"
  rc_throttle :: throttle_cfg

definition RiskLimits :: "risk_cfg \<Rightarrow> int option \<Rightarrow> limits" where
  "RiskLimits cfg magic =
     \<lparr>li_magic = magic,
      li_max_concurrent_positions = get_or 3 (rc_max_concurrent_positions_global cfg),
      li_max_open_positions_per_asset = get_or 2 (rc_max_open_positions_per_asset cfg),
      li_max_daily_trades_per_asset = get_or 10 (rc_max_daily_trades_per_asset cfg),
      li_max_daily_loss_pct = get_or 5 (rc_max_daily_loss_pct cfg),
      li_exclude_swaps = get_or True (rc_exclude_swaps cfg)\<rparr>"

text \<open>What the trading terminal answers: whether it starts, the account's equity and balance, and the
  magic numbers of the open positions, where the query can return nothing or raise.\<close>

record terminal =
  mt_initialize :: bool
  mt_account_info :: "(rat \<times> rat) option"
  mt_positions_get :: "int option list option result"

definition reset_daily_stats_if_needed :: "moment \<Rightarrow> rat \<Rightarrow> rat option \<Rightarrow> (risk_state, unit) comp" where
  "reset_daily_stats_if_needed t current_equity current_balance =
     bnd (gets (\<lambda>st. \<not> is_today t st \<or> rs_starting_equity_today st = None)) (\<lambda>needed.
       if needed then reset_for_new_day t current_equity current_balance else ret ())"

definition daily_pnl :: "limits \<Rightarrow> risk_state \<Rightarrow> rat \<Rightarrow> rat \<Rightarrow> rat" where
  "daily_pnl li st current_equity current_balance =
     (if li_exclude_swaps li
      then let floating_pnl = fsub current_equity current_balance;
               trading_balance_delta = fsub current_balance (get_or 0 (rs_starting_balance_today st))
           in fadd trading_balance_delta floating_pnl
      else fsub current_equity (get_or 0 (rs_starting_equity_today st)))"

definition max_allowed_loss :: "limits \<Rightarrow> risk_state \<Rightarrow> rat" where
  "max_allowed_loss li st =
     fmul (get_or 0 (rs_starting_equity_today st)) (fdiv (li_max_daily_loss_pct li) 100)"

definition check_circuit_breaker :: "limits \<Rightarrow> moment \<Rightarrow> rat \<Rightarrow> rat \<Rightarrow> (risk_state, bool \<times> risk_reason) comp" where
  "check_circuit_breaker li t current_equity current_balance =
     seq (reset_daily_stats_if_needed t current_equity (Some current_balance))
    (bnd (gets (\<lambda>st. st)) (\<lambda>st.
       let pnl = daily_pnl li st current_equity current_balance; limit = max_allowed_loss li st
       in if pnl \<le> - limit
          then seq (modify (\<lambda>st. st\<lparr>rs_circuit_breaker_tripped := True\<rparr>))
              (seq (save t)
              (ret (False, BreakerTripped \<bar>pnl\<bar> limit)))
          else if rs_circuit_breaker_tripped st then ret (False, HaltedToday)
          else ret (True, ROk)))"

definition positions :: "limits \<Rightarrow> terminal \<Rightarrow> int option list" where
  "positions li mt =
     (case mt_positions_get mt of
        Inl _ \<Rightarrow> []
      | Inr ps \<Rightarrow>
          (case li_magic li of None \<Rightarrow> get_or [] ps | Some magic \<Rightarrow> filter (\<lambda>p. p = Some magic) (get_or [] ps)))"

definition total_groups :: "(string \<times> string list) list \<Rightarrow> (string \<times> int) list \<Rightarrow> int" where
  "total_groups groups singles = sum_list (map (\<lambda>kv. int (length (snd kv))) groups) + sum_list (map snd singles)"

definition asset_groups :: "string \<Rightarrow> (string \<times> string list) list \<Rightarrow> (string \<times> int) list \<Rightarrow> int" where
  "asset_groups asset_key groups singles =
     int (length (get_or [] (map_of groups asset_key))) + get_or 0 (map_of singles asset_key)"

definition check_concurrency ::
  "limits \<Rightarrow> terminal \<Rightarrow> string \<Rightarrow> (string \<times> string list) list option \<Rightarrow> (string \<times> int) list option \<Rightarrow> bool \<times> risk_reason" where
  "check_concurrency li mt asset_key groups_by_asset singles_by_asset =
     (case (groups_by_asset, singles_by_asset) of
        (Some groups, Some singles) \<Rightarrow>
          if total_groups groups singles \<ge> li_max_concurrent_positions li
          then (False, MaxGroups (total_groups groups singles) (li_max_concurrent_positions li))
          else if asset_groups asset_key groups singles \<ge> li_max_open_positions_per_asset li
          then (False, MaxAssetGroups asset_key (asset_groups asset_key groups singles) (li_max_open_positions_per_asset li))
          else (True, ROk)
      | _ \<Rightarrow>
          let open_positions = positions li mt
          in if open_positions \<noteq> [] \<and> int (length open_positions) \<ge> li_max_concurrent_positions li
             then (False, MaxPositions (int (length open_positions)) (li_max_concurrent_positions li))
             else (True, ROk))"

definition check_daily_trades :: "limits \<Rightarrow> string \<Rightarrow> risk_state \<Rightarrow> bool \<times> risk_reason" where
  "check_daily_trades li asset_key st =
     (let asset_trades = get_or 0 (map_of (rs_daily_trades_count st) asset_key)
      in if asset_trades \<ge> li_max_daily_trades_per_asset li
         then (False, DailyTrades asset_key asset_trades (li_max_daily_trades_per_asset li))
         else (True, ROk))"

text \<open>\<^verbatim>\<open>ok, reason = gate; if not ok: return False, reason\<close>.\<close>

definition gate :: "('s, bool \<times> risk_reason) comp \<Rightarrow> ('s, bool \<times> risk_reason) comp \<Rightarrow> ('s, bool \<times> risk_reason) comp" where
  "gate m rest = bnd m (\<lambda>(ok, reason). if ok then rest else ret (False, reason))"

definition limits_can_trade ::
  "limits \<Rightarrow> moment \<Rightarrow> terminal \<Rightarrow> string \<Rightarrow> (string \<times> string list) list option \<Rightarrow> (string \<times> int) list option
   \<Rightarrow> (risk_state, bool \<times> risk_reason) comp" where
  "limits_can_trade li t mt asset_key groups_by_asset singles_by_asset =
     (if \<not> mt_initialize mt then ret (False, NotInitialized)
      else case mt_account_info mt of
             None \<Rightarrow> ret (False, NoAccountInfo)
           | Some (current_equity, current_balance) \<Rightarrow>
               gate (check_circuit_breaker li t current_equity current_balance)
              (gate (ret (check_concurrency li mt asset_key groups_by_asset singles_by_asset))
              (gets (check_daily_trades li asset_key))))"

definition record_trade_executed :: "moment \<Rightarrow> string \<Rightarrow> (risk_state, unit) comp" where
  "record_trade_executed t asset_key = seq (record_trade asset_key) (save t)"

section \<open>Engine\<close>

record engine =
  en_limits :: limits
  en_state :: risk_state
  en_rate :: rate
  en_legacy :: "throttle option"

definition RiskEngine ::
  "risk_cfg \<Rightarrow> int option \<Rightarrow> bool \<Rightarrow> saved_risk state_file \<Rightarrow> saved_throttle state_file \<Rightarrow> engine" where
  "RiskEngine cfg magic importable risk_file throttle_file =
     \<lparr>en_limits = RiskLimits cfg magic, en_state = RiskState risk_file,
      en_rate = RateThrottle (rc_max_orders_per_minute cfg) (rc_rate_window_seconds cfg) None,
      en_legacy = (if importable then Some (TradeThrottle (rc_throttle cfg) throttle_file) else None)\<rparr>"

text \<open>A method of a part of the engine, run on that part.\<close>

definition on_state :: "(risk_state, 'a) comp \<Rightarrow> (engine, 'a) comp" where
  "on_state m e = (fst (m (en_state e)), e\<lparr>en_state := snd (m (en_state e))\<rparr>)"

definition on_rate :: "(rate, 'a) comp \<Rightarrow> (engine, 'a) comp" where
  "on_rate m e = (fst (m (en_rate e)), e\<lparr>en_rate := snd (m (en_rate e))\<rparr>)"

definition on_legacy :: "(throttle, bool \<times> reason) comp \<Rightarrow> (engine, bool \<times> reason) comp" where
  "on_legacy m e =
     (case en_legacy e of
        None \<Rightarrow> (Inr (True, Allowed), e)
      | Some th \<Rightarrow> (fst (m th), e\<lparr>en_legacy := Some (snd (m th))\<rparr>))"

definition NO_ENTRY_DD :: rat where
  "NO_ENTRY_DD = - fl (8 / 100)"

definition check_drawdown_throttle :: "moment \<Rightarrow> rat \<Rightarrow> (risk_state, bool \<times> risk_reason) comp" where
  "check_drawdown_throttle t equity =
     (if equity \<le> 0 then ret (True, ROk)
      else
        bnd (gets rs_hwm) (\<lambda>prev_hwm.
        seq (update_hwm equity)
       (bnd (gets rs_hwm) (\<lambda>hwm.
        seq (if prev_hwm = None \<or> hwm \<noteq> prev_hwm then save t else ret ())
       (case prev_hwm of
          None \<Rightarrow> ret (True, ROk)
        | Some prev \<Rightarrow>
            if prev = 0 then throw ZeroDivisionError
            else
              let dd = fsub (fdiv equity prev) 1; mult = drawdown_throttle dd drawdown_levels
              in if mult \<le> 0 \<or> dd \<le> NO_ENTRY_DD then ret (False, DrawdownReason dd mult)
                 else ret (True, ROk))))))"

definition check_cluster_exposure ::
  "string \<Rightarrow> rat option \<Rightarrow> (string \<times> rat) list option \<Rightarrow> rat option \<Rightarrow> rat option \<Rightarrow> (bool \<times> risk_reason) result" where
  "check_cluster_exposure cluster add_risk_pct current_risk_by_cluster cluster_cap total_cap =
     (case add_risk_pct of
        None \<Rightarrow> Inr (True, ROk)
      | Some add \<Rightarrow>
          (case (cluster_cap, total_cap) of
             (Some ccap, Some tcap) \<Rightarrow>
               let check = cluster_exposure_ok (get_or [] current_risk_by_cluster) cluster add ccap tcap
               in if \<not> xp_ok check then Inr (False, ClusterReason cluster check) else Inr (True, ROk)
           | _ \<Rightarrow> Inl (TypeError ''cluster_cap and total_cap are required'')))"

record open_args =
  oa_equity :: rat
  oa_balance :: "rat option"
  oa_groups_by_asset :: "(string \<times> string list) list option"
  oa_singles_by_asset :: "(string \<times> int) list option"
  oa_current_risk_by_cluster :: "(string \<times> rat) list option"
  oa_cluster :: "string option"
  oa_add_risk_pct :: "rat option"
  oa_cluster_cap :: "rat option"
  oa_total_cap :: "rat option"
  oa_use_legacy_throttle :: bool

text \<open>The four groups of gates of \<open>can_open\<close>, in the order the code runs them.\<close>

definition legacy_gate :: "moment \<Rightarrow> open_args \<Rightarrow> (engine, bool \<times> risk_reason) comp" where
  "legacy_gate t a =
     (if oa_use_legacy_throttle a
      then bnd (on_legacy (can_trade t (oa_equity a))) (\<lambda>(ok, reason). ret (ok, if ok then ROk else ThrottleReason reason))
      else ret (True, ROk))"

definition limit_gates :: "moment \<Rightarrow> terminal \<Rightarrow> open_args \<Rightarrow> string \<Rightarrow> limits \<Rightarrow> (engine, bool \<times> risk_reason) comp" where
  "limit_gates t mt a asset_key li =
     (if oa_equity a > 0
      then gate (on_state (check_circuit_breaker li t (oa_equity a) (get_or (oa_equity a) (oa_balance a))))
          (gate (ret (check_concurrency li mt asset_key (oa_groups_by_asset a) (oa_singles_by_asset a)))
          (on_state (gets (check_daily_trades li asset_key))))
      else on_state (limits_can_trade li t mt asset_key (oa_groups_by_asset a) (oa_singles_by_asset a)))"

definition rate_and_drawdown_gates :: "moment \<Rightarrow> open_args \<Rightarrow> string \<Rightarrow> (engine, bool \<times> risk_reason) comp" where
  "rate_and_drawdown_gates t a asset_key =
     gate (bnd (on_rate (rate_can_trade (at_now t) asset_key)) (\<lambda>(ok, reason). ret (ok, RateReason reason)))
     (if oa_equity a > 0 then on_state (check_drawdown_throttle t (oa_equity a)) else ret (True, ROk))"

definition cluster_gate :: "open_args \<Rightarrow> string \<Rightarrow> (engine, bool \<times> risk_reason) comp" where
  "cluster_gate a asset_key =
     (if oa_add_risk_pct a \<noteq> None
      then lift_result (check_cluster_exposure (or_str (oa_cluster a) asset_key) (oa_add_risk_pct a)
             (oa_current_risk_by_cluster a) (oa_cluster_cap a) (oa_total_cap a))
      else ret (True, ROk))"

definition can_open :: "moment \<Rightarrow> terminal \<Rightarrow> open_args \<Rightarrow> string \<Rightarrow> (engine, bool \<times> risk_reason) comp" where
  "can_open t mt a asset_key =
     bnd (gets en_limits) (\<lambda>li.
     gate (legacy_gate t a)
    (gate (limit_gates t mt a asset_key li)
    (gate (rate_and_drawdown_gates t a asset_key)
    (gate (cluster_gate a asset_key)
    (ret (True, ROk))))))"

definition engine_record_trade :: "moment \<Rightarrow> string \<Rightarrow> rat option \<Rightarrow> (engine, unit) comp" where
  "engine_record_trade t asset_key equity =
     on_state
       (seq (record_trade_executed t asset_key)
       (seq (case equity of None \<Rightarrow> ret () | Some q \<Rightarrow> if q > 0 then seq (update_hwm q) (ret ()) else ret ())
       (save t)))"

definition engine_record_order :: "moment \<Rightarrow> string \<Rightarrow> (engine, unit) comp" where
  "engine_record_order t asset_key = on_rate (record_order (at_now t) asset_key)"

record risk_summary =
  sm_circuit_breaker_tripped :: bool
  sm_current_day :: "int option"
  sm_starting_equity_today :: "rat option"
  sm_starting_balance_today :: "rat option"
  sm_hwm :: "rat option"
  sm_daily_trades_count :: "(string \<times> int) list"
  sm_rate_orders_per_asset :: "(string \<times> int) list"

definition summary :: "engine \<Rightarrow> risk_summary" where
  "summary e =
     \<lparr>sm_circuit_breaker_tripped = rs_circuit_breaker_tripped (en_state e),
      sm_current_day = rs_current_day (en_state e),
      sm_starting_equity_today = rs_starting_equity_today (en_state e),
      sm_starting_balance_today = rs_starting_balance_today (en_state e), sm_hwm = rs_hwm (en_state e),
      sm_daily_trades_count = rs_daily_trades_count (en_state e),
      sm_rate_orders_per_asset = map (\<lambda>(k, v). (k, int (length v))) (rt_orders (en_rate e))\<rparr>"

section \<open>Runs\<close>

text \<open>What happens to an engine: gate queries, recorded trades and orders, and restarts, which build
  the engine again from the configuration and the two state files.\<close>

datatype engine_op =
    CanOpen moment terminal open_args string
  | RecordTrade moment string "rat option"
  | RecordOrder moment string
  | RestartEngine

definition legacy_file :: "engine \<Rightarrow> saved_throttle state_file" where
  "legacy_file e = (case en_legacy e of None \<Rightarrow> Absent | Some th \<Rightarrow> th_file th)"

fun engine_step :: "risk_cfg \<Rightarrow> int option \<Rightarrow> engine_op \<Rightarrow> engine \<Rightarrow> engine" where
  "engine_step cfg magic (CanOpen t mt a asset_key) e = snd (can_open t mt a asset_key e)"
| "engine_step cfg magic (RecordTrade t asset_key equity) e = snd (engine_record_trade t asset_key equity e)"
| "engine_step cfg magic (RecordOrder t asset_key) e = snd (engine_record_order t asset_key e)"
| "engine_step cfg magic RestartEngine e =
     RiskEngine cfg magic (en_legacy e \<noteq> None) (rs_file (en_state e)) (legacy_file e)"

fun op_moment :: "engine_op \<Rightarrow> moment option" where
  "op_moment (CanOpen t _ _ _) = Some t"
| "op_moment (RecordTrade t _ _) = Some t"
| "op_moment (RecordOrder t _) = Some t"
| "op_moment RestartEngine = None"

section \<open>Rules for the gates\<close>

lemma wp_gate [wp_simps]:
  "wp (gate m rest) Q E s = wp m (\<lambda>(ok, reason) s'. if ok then wp rest Q E s' else Q (False, reason) s') E s"
  by (simp add: gate_def wp_def bnd_run py_simps case_prod_beta split: sum.split)

lemma wp_on_state [wp_simps]:
  "wp (on_state m) Q E e = wp m (\<lambda>x st. Q x (e\<lparr>en_state := st\<rparr>)) (\<lambda>st. E (e\<lparr>en_state := st\<rparr>)) (en_state e)"
  by (simp add: wp_def on_state_def case_prod_beta split: sum.split)

lemma wp_on_rate [wp_simps]:
  "wp (on_rate m) Q E e = wp m (\<lambda>x r. Q x (e\<lparr>en_rate := r\<rparr>)) (\<lambda>r. E (e\<lparr>en_rate := r\<rparr>)) (en_rate e)"
  by (simp add: wp_def on_rate_def case_prod_beta split: sum.split)

lemma wp_save [wp_simps]:
  "wp (save t) Q E st = (case at_disk t of DirectoryFails \<Rightarrow> E st | WriteFails \<Rightarrow> Q () st
     | Writable \<Rightarrow> Q () (st\<lparr>rs_file := Stored (risk_persisted st)\<rparr>))"
  by (simp add: wp_def save_def split: disk.split)

text \<open>The account a query is judged by.\<close>

definition account :: "terminal \<Rightarrow> open_args \<Rightarrow> (rat \<times> rat) option" where
  "account mt a = (if oa_equity a > 0 then Some (oa_equity a, get_or (oa_equity a) (oa_balance a))
     else if mt_initialize mt then mt_account_info mt else None)"

text \<open>What the limit gates promise of the state they leave.\<close>

definition breaker_open :: "limits \<Rightarrow> moment \<Rightarrow> rat \<Rightarrow> rat \<Rightarrow> risk_state \<Rightarrow> bool" where
  "breaker_open li t equity balance st \<longleftrightarrow> rs_current_day st = Some (at_today t)
     \<and> \<not> rs_circuit_breaker_tripped st \<and> - max_allowed_loss li st < daily_pnl li st equity balance"

definition limits_open :: "limits \<Rightarrow> moment \<Rightarrow> terminal \<Rightarrow> open_args \<Rightarrow> string \<Rightarrow> risk_state \<Rightarrow> bool" where
  "limits_open li t mt a asset_key st \<longleftrightarrow>
     (\<exists>equity balance. account mt a = Some (equity, balance) \<and> breaker_open li t equity balance st)
     \<and> get_or 0 (map_of (rs_daily_trades_count st) asset_key) < li_max_daily_trades_per_asset li
     \<and> (\<forall>groups singles. oa_groups_by_asset a = Some groups \<and> oa_singles_by_asset a = Some singles \<longrightarrow>
          total_groups groups singles < li_max_concurrent_positions li
          \<and> asset_groups asset_key groups singles < li_max_open_positions_per_asset li)
     \<and> (oa_groups_by_asset a = None \<or> oa_singles_by_asset a = None \<longrightarrow>
          positions li mt = [] \<or> int (length (positions li mt)) < li_max_concurrent_positions li)"

lemma breaker_spec:
  "wp (check_circuit_breaker li t equity balance)
     (\<lambda>(ok, r) st'. rs_hwm st' = rs_hwm st \<and> (ok \<longrightarrow> breaker_open li t equity balance st')) (\<lambda>_. True) st"
  by (cases "at_disk t")
    (auto simp: check_circuit_breaker_def reset_daily_stats_if_needed_def reset_for_new_day_def Let_def
      wp_simps breaker_open_def is_today_def)

lemma concurrency_spec:
  assumes "fst (check_concurrency li mt asset_key groups singles)"
  shows "(\<forall>gs ss. groups = Some gs \<and> singles = Some ss \<longrightarrow>
          total_groups gs ss < li_max_concurrent_positions li \<and> asset_groups asset_key gs ss < li_max_open_positions_per_asset li)
     \<and> (groups = None \<or> singles = None \<longrightarrow>
          positions li mt = [] \<or> int (length (positions li mt)) < li_max_concurrent_positions li)"
  using assms by (auto simp: check_concurrency_def Let_def split: option.splits if_splits)

text \<open>Both branches of \<open>limit_gates\<close> run the same three gates on an account.\<close>

definition account_gates :: "limits \<Rightarrow> moment \<Rightarrow> terminal \<Rightarrow> open_args \<Rightarrow> string \<Rightarrow> rat \<Rightarrow> rat \<Rightarrow> (risk_state, bool \<times> risk_reason) comp" where
  "account_gates li t mt a asset_key equity balance =
     gate (check_circuit_breaker li t equity balance)
    (gate (ret (check_concurrency li mt asset_key (oa_groups_by_asset a) (oa_singles_by_asset a)))
    (gets (check_daily_trades li asset_key)))"

lemma on_state_gate: "gate (on_state m) (on_state n) = on_state (gate m n)"
  by (rule ext) (simp add: gate_def on_state_def bnd_run py_simps split: sum.split)

lemma on_state_ret: "on_state (ret x) = ret x"
  by (rule ext) (simp add: on_state_def py_simps)

lemma limit_gates_account:
  "limit_gates t mt a asset_key li =
     (case account mt a of
        Some (equity, balance) \<Rightarrow> on_state (account_gates li t mt a asset_key equity balance)
      | None \<Rightarrow> ret (False, if mt_initialize mt then NoAccountInfo else NotInitialized))"
  by (auto simp: limit_gates_def account_def limits_can_trade_def account_gates_def on_state_gate [symmetric]
      on_state_ret split: option.split)

lemma account_gates_spec:
  assumes "account mt a = Some (equity, balance)"
  shows "wp (account_gates li t mt a asset_key equity balance)
     (\<lambda>(ok, r) st'. rs_hwm st' = rs_hwm st \<and> (ok \<longrightarrow> limits_open li t mt a asset_key st')) (\<lambda>_. True) st"
  unfolding account_gates_def wp_gate
proof (rule wp_mono [OF breaker_spec], goal_cases)
  case (1 x st')
  obtain ok1 r1 where c: "check_concurrency li mt asset_key (oa_groups_by_asset a) (oa_singles_by_asset a) = (ok1, r1)"
    by (cases "check_concurrency li mt asset_key (oa_groups_by_asset a) (oa_singles_by_asset a)")
  obtain ok2 r2 where d: "check_daily_trades li asset_key st' = (ok2, r2)" by (cases "check_daily_trades li asset_key st'")
  have "ok2 \<Longrightarrow> get_or 0 (map_of (rs_daily_trades_count st') asset_key) < li_max_daily_trades_per_asset li"
    using d by (auto simp: check_daily_trades_def Let_def split: if_splits)
  moreover note concurrency_spec [of li mt asset_key "oa_groups_by_asset a" "oa_singles_by_asset a"]
  ultimately show ?case
    using 1 assms by (simp add: wp_simps c d case_prod_beta) (simp add: limits_open_def)
qed simp

lemma limit_gates_spec:
  "wp (limit_gates t mt a asset_key li)
     (\<lambda>(ok, r) e'. en_limits e' = en_limits e \<and> en_rate e' = en_rate e \<and> en_legacy e' = en_legacy e
        \<and> rs_hwm (en_state e') = rs_hwm (en_state e) \<and> (ok \<longrightarrow> limits_open li t mt a asset_key (en_state e')))
     (\<lambda>_. True) e"
proof (cases "account mt a")
  case (Some x)
  obtain equity balance where x: "x = (equity, balance)" by (cases x)
  show ?thesis
    using account_gates_spec [of mt a equity balance li t asset_key "en_state e"] Some
    by (auto simp: limit_gates_account x wp_simps elim!: wp_mono)
qed (simp add: limit_gates_account wp_simps)

lemma legacy_gate_spec:
  "wp (legacy_gate t a)
     (\<lambda>(ok, r) e'. en_limits e' = en_limits e \<and> en_rate e' = en_rate e \<and> en_state e' = en_state e
        \<and> (ok \<longrightarrow> (\<forall>th. oa_use_legacy_throttle a \<and> en_legacy e' = Some th \<longrightarrow> throttle_open t (oa_equity a) th)))
     (\<lambda>_. True) e"
proof (cases "en_legacy e")
  case (Some th)
  obtain res th' where c: "can_trade t (oa_equity a) th = (res, th')" by (cases "can_trade t (oa_equity a) th")
  show ?thesis
    using can_trade_granted [of t "oa_equity a" th _ th'] c
    by (cases res) (auto simp: legacy_gate_def wp_def on_legacy_def Some bnd_run py_simps)
qed (simp add: legacy_gate_def wp_def on_legacy_def bnd_run py_simps)

text \<open>The drawdown of an equity against an earlier high-water mark, as the code computes it.\<close>

definition drawdown :: "rat \<Rightarrow> rat \<Rightarrow> rat" where
  "drawdown equity hwm = fsub (fdiv equity hwm) 1"

lemma drawdown_spec:
  "wp (check_drawdown_throttle t equity)
     (\<lambda>(ok, r) st'. rs_circuit_breaker_tripped st' = rs_circuit_breaker_tripped st \<and> rs_current_day st' = rs_current_day st
        \<and> rs_starting_equity_today st' = rs_starting_equity_today st
        \<and> rs_starting_balance_today st' = rs_starting_balance_today st
        \<and> rs_daily_trades_count st' = rs_daily_trades_count st
        \<and> (ok \<and> 0 < equity \<longrightarrow> (\<forall>h. rs_hwm st = Some h \<longrightarrow> NO_ENTRY_DD < drawdown equity h)))
     (\<lambda>_. True) st"
  by (cases "at_disk t"; cases "rs_hwm st")
    (auto simp: check_drawdown_throttle_def update_hwm_def wp_simps Let_def drawdown_def)

lemma limits_open_cong:
  "rs_circuit_breaker_tripped st' = rs_circuit_breaker_tripped st \<Longrightarrow> rs_current_day st' = rs_current_day st
   \<Longrightarrow> rs_starting_equity_today st' = rs_starting_equity_today st
   \<Longrightarrow> rs_starting_balance_today st' = rs_starting_balance_today st
   \<Longrightarrow> rs_daily_trades_count st' = rs_daily_trades_count st
   \<Longrightarrow> limits_open li t mt a asset_key st' = limits_open li t mt a asset_key st"
  by (simp add: limits_open_def breaker_open_def daily_pnl_def max_allowed_loss_def)

lemma rate_gate_spec:
  "wp (rate_can_trade now asset_key) (\<lambda>(ok, x) r'. ok \<longrightarrow>
     int (length (window asset_key r')) < rt_max_orders_per_minute r') (\<lambda>_. True) r"
proof -
  obtain res r' where c: "rate_can_trade now asset_key r = (res, r')" by (cases "rate_can_trade now asset_key r")
  then show ?thesis
    using rate_granted [of now asset_key r] rate_can_trade_window(3) [of now asset_key r]
    by (cases res) (auto simp: wp_def)
qed

definition passed :: "open_args \<Rightarrow> string \<Rightarrow> engine \<Rightarrow> engine \<Rightarrow> bool" where
  "passed a asset_key e e' \<longleftrightarrow> int (length (window asset_key (en_rate e'))) < rt_max_orders_per_minute (en_rate e')
     \<and> (0 < oa_equity a \<longrightarrow> (\<forall>h. rs_hwm (en_state e) = Some h \<longrightarrow> NO_ENTRY_DD < drawdown (oa_equity a) h))"

lemma rate_and_drawdown_spec:
  "wp (rate_and_drawdown_gates t a asset_key)
     (\<lambda>(ok, r) e'. en_limits e' = en_limits e \<and> en_legacy e' = en_legacy e
        \<and> (limits_open li t mt a asset_key (en_state e) \<longrightarrow> limits_open li t mt a asset_key (en_state e'))
        \<and> (ok \<longrightarrow> passed a asset_key e e'))
     (\<lambda>_. True) e"
  unfolding rate_and_drawdown_gates_def wp_gate wp_bnd wp_on_rate
proof (rule wp_mono [OF rate_gate_spec], goal_cases)
  case (1 x r')
  obtain ok y where x: "x = (ok, y)" by (cases x)
  have "wp (check_drawdown_throttle t (oa_equity a))
    (\<lambda>(ok, r) st. (limits_open li t mt a asset_key (en_state e) \<longrightarrow> limits_open li t mt a asset_key st)
       \<and> (ok \<longrightarrow> (0 < oa_equity a \<longrightarrow> (\<forall>h. rs_hwm (en_state e) = Some h \<longrightarrow> NO_ENTRY_DD < drawdown (oa_equity a) h))))
    (\<lambda>_. True) (en_state e)"
  proof (rule wp_mono [OF drawdown_spec], goal_cases)
    case (1 z st')
    then show ?case using limits_open_cong [of st' "en_state e" li t mt a asset_key] by (cases z) simp
  qed simp
  then show ?case
    using 1 by (cases ok) (auto simp: x wp_simps passed_def elim!: wp_mono)
qed simp

lemma cluster_spec:
  "wp (cluster_gate a asset_key) (\<lambda>(ok, r) e'. e' = e \<and> (ok \<longrightarrow> (\<forall>add. oa_add_risk_pct a = Some add \<longrightarrow>
       (\<exists>ccap tcap. oa_cluster_cap a = Some ccap \<and> oa_total_cap a = Some tcap
         \<and> fadd (get_or 0 (map_of (get_or [] (oa_current_risk_by_cluster a)) (or_str (oa_cluster a) asset_key))) add \<le> ccap
         \<and> fadd (py_sum (map snd (get_or [] (oa_current_risk_by_cluster a)))) add \<le> tcap)))) (\<lambda>_. True) e"
  by (auto simp: cluster_gate_def wp_simps check_cluster_exposure_def cluster_exposure_ok_def Let_def split: option.splits)

definition cluster_open :: "open_args \<Rightarrow> string \<Rightarrow> bool" where
  "cluster_open a asset_key \<longleftrightarrow> (\<forall>add. oa_add_risk_pct a = Some add \<longrightarrow>
     (\<exists>ccap tcap. oa_cluster_cap a = Some ccap \<and> oa_total_cap a = Some tcap
       \<and> fadd (get_or 0 (map_of (get_or [] (oa_current_risk_by_cluster a)) (or_str (oa_cluster a) asset_key))) add \<le> ccap
       \<and> fadd (py_sum (map snd (get_or [] (oa_current_risk_by_cluster a)))) add \<le> tcap))"

text \<open>Permission of a chain of gates is permission of each.\<close>

lemma wp_gate_granted:
  assumes "wp m (\<lambda>(ok, r) s'. ok \<longrightarrow> A s') (\<lambda>_. True) s"
    and "\<And>s'. A s' \<Longrightarrow> wp rest (\<lambda>(ok, r) s''. ok \<longrightarrow> B s'') (\<lambda>_. True) s'"
  shows "wp (gate m rest) (\<lambda>(ok, r) s''. ok \<longrightarrow> B s'') (\<lambda>_. True) s"
  unfolding wp_gate by (rule wp_mono [OF assms(1)]) (use assms(2) in \<open>auto split: if_splits\<close>)

lemma can_open_spec:
  "wp (can_open t mt a asset_key)
     (\<lambda>(ok, r) e'. ok \<longrightarrow>
        (\<forall>th. oa_use_legacy_throttle a \<and> en_legacy e' = Some th \<longrightarrow> throttle_open t (oa_equity a) th)
        \<and> limits_open (en_limits e) t mt a asset_key (en_state e')
        \<and> passed a asset_key e e' \<and> cluster_open a asset_key) (\<lambda>_. True) e"
  unfolding can_open_def wp_bnd wp_basic
proof (rule wp_gate_granted [where A = "\<lambda>e1. en_state e1 = en_state e \<and>
      (\<forall>th. oa_use_legacy_throttle a \<and> en_legacy e1 = Some th \<longrightarrow> throttle_open t (oa_equity a) th)"], goal_cases)
  case 1
  show ?case by (rule wp_mono [OF legacy_gate_spec]) auto
next
  case (2 e1)
  show ?case
  proof (rule wp_gate_granted [where A = "\<lambda>e2. en_legacy e2 = en_legacy e1 \<and> rs_hwm (en_state e2) = rs_hwm (en_state e)
        \<and> limits_open (en_limits e) t mt a asset_key (en_state e2)"], goal_cases)
    case 1
    show ?case by (rule wp_mono [OF limit_gates_spec]) (use 2 in auto)
  next
    case (2 e2)
    show ?case
    proof (rule wp_gate_granted [where A = "\<lambda>e3. en_legacy e3 = en_legacy e1 \<and> passed a asset_key e2 e3
          \<and> limits_open (en_limits e) t mt a asset_key (en_state e3)"], goal_cases)
      case 1
      show ?case by (rule wp_mono [OF rate_and_drawdown_spec [of t a asset_key _ "en_limits e" mt]]) (use 2 in auto)
    next
      case (2 e3)
      have "passed a asset_key e e3" using 2 \<open>en_legacy e2 = _ \<and> _\<close> by (simp add: passed_def)
      then show ?case
        by (intro wp_gate_granted [where A = "\<lambda>e4. e4 = e3 \<and> cluster_open a asset_key"] wp_mono [OF cluster_spec])
          (use 2 \<open>en_state e1 = _ \<and> _\<close> in \<open>auto simp: cluster_open_def wp_simps\<close>)
    qed
  qed
qed

section \<open>Invariants over runs\<close>

lemma keeps_gate [keeps_intros]: "keeps P m \<Longrightarrow> keeps P n \<Longrightarrow> keeps P (gate m n)"
  unfolding gate_def by (intro keeps_bnd) (auto intro: keeps_intros)

lemma keeps_on_state: "keeps P m \<Longrightarrow> keeps (\<lambda>e. P (en_state e)) (on_state m)"
  by (simp add: keeps_def on_state_def)

lemma keeps_on_other:
  "keeps (\<lambda>e. P (en_state e)) (on_rate m)" "keeps (\<lambda>e. P (en_state e)) (on_legacy l)"
  by (auto simp: keeps_def on_rate_def on_legacy_def split: option.split)

text \<open>An invariant of the risk state that the breaker check and the writes keep is kept by the engine.\<close>

lemma keeps_can_open:
  assumes "\<And>li q b. keeps P (check_circuit_breaker li t q b)" and "\<And>q. keeps P (check_drawdown_throttle t q)"
  shows "keeps (\<lambda>e. P (en_state e)) (can_open t mt a asset_key)"
proof -
  have acc: "keeps P (account_gates li t mt a asset_key q b)" for li q b
    unfolding account_gates_def by (intro keeps_intros assms)
  have "keeps (\<lambda>e. P (en_state e)) (legacy_gate t a)" "keeps (\<lambda>e. P (en_state e)) (cluster_gate a asset_key)"
    unfolding legacy_gate_def cluster_gate_def case_prod_beta by (intro keeps_intros keeps_on_other)+
  moreover have "keeps (\<lambda>e. P (en_state e)) (limit_gates t mt a asset_key li)" for li
    by (auto simp: limit_gates_account intro!: keeps_intros keeps_on_state acc split: option.split prod.split)
  moreover have "keeps (\<lambda>e. P (en_state e)) (rate_and_drawdown_gates t a asset_key)"
    unfolding rate_and_drawdown_gates_def case_prod_beta by (intro keeps_intros keeps_on_other keeps_on_state assms)
  ultimately show ?thesis unfolding can_open_def by (intro keeps_intros) auto
qed

lemma keeps_engine_record_trade:
  assumes "\<And>P'. P' = P \<Longrightarrow> keeps P' (record_trade_executed t asset_key)" and "keeps P (save t)" and "\<And>q. keeps P (update_hwm q)"
  shows "keeps (\<lambda>e. P (en_state e)) (engine_record_trade t asset_key equity)"
  unfolding engine_record_trade_def by (intro keeps_on_state keeps_intros assms refl)

lemmas state_defs = check_circuit_breaker_def reset_daily_stats_if_needed_def reset_for_new_day_def is_today_def
  check_drawdown_throttle_def record_trade_executed_def record_trade_def update_hwm_def Let_def

text \<open>The breaker tripped for the day, in memory and in the file.\<close>

definition tripped :: "int \<Rightarrow> risk_state \<Rightarrow> bool" where
  "tripped d st \<longleftrightarrow> rs_circuit_breaker_tripped st \<and> rs_current_day st = Some d \<and> rs_starting_equity_today st \<noteq> None
     \<and> (\<exists>f. rs_file st = Stored f \<and> sr_circuit_breaker_tripped f = Some True \<and> sr_current_day f = Some d
          \<and> sr_starting_equity_today f \<noteq> None)"

lemma tripped_keeps:
  "at_today t = d \<Longrightarrow> keeps (tripped d) (check_circuit_breaker li t q b)"
  "keeps (tripped d) (check_drawdown_throttle t q')" "keeps (tripped d) (record_trade_executed t asset_key)"
  "keeps (tripped d) (save t)" "keeps (tripped d) (update_hwm q'')"
  by (cases "at_disk t"; auto intro!: keeps_wp
      simp: state_defs wp_simps tripped_def risk_persisted_def split: option.split)+

definition on_engine_day :: "int \<Rightarrow> engine_op \<Rightarrow> bool" where
  "on_engine_day d x \<longleftrightarrow> (\<forall>t. op_moment x = Some t \<longrightarrow> at_today t = d)"

lemma tripped_restart: "tripped d (en_state e) \<Longrightarrow> tripped d (en_state (engine_step cfg magic RestartEngine e))"
  by (auto simp: tripped_def RiskEngine_def RiskState_def load_def)

interpretation breaker: guarded_invariant "engine_step cfg magic" "on_engine_day d" "\<lambda>e. tripped d (en_state e)" for cfg magic d
proof
  fix x and e :: engine assume ok: "on_engine_day d x" and inv: "tripped d (en_state e)"
  show "tripped d (en_state (engine_step cfg magic x e))"
  proof (cases x)
    case (CanOpen t mt a asset_key)
    then have "keeps (\<lambda>e. tripped d (en_state e)) (can_open t mt a asset_key)"
      using ok by (intro keeps_can_open tripped_keeps) (auto simp: on_engine_day_def)
    from keepsD [OF this inv] show ?thesis by (simp add: CanOpen)
  next
    case (RecordTrade t asset_key equity)
    have "keeps (\<lambda>e. tripped d (en_state e)) (engine_record_trade t asset_key equity)"
      by (intro keeps_engine_record_trade) (simp_all add: tripped_keeps)
    from keepsD [OF this inv] show ?thesis by (simp add: RecordTrade)
  qed (use inv tripped_restart in \<open>simp_all add: engine_record_order_def on_rate_def del: engine_step.simps(4)\<close>)
qed

text \<open>A refusal by the breaker leaves it tripped.\<close>

definition trip_reason :: "risk_reason \<Rightarrow> bool" where
  "trip_reason r \<longleftrightarrow> (case r of BreakerTripped _ _ \<Rightarrow> True | _ \<Rightarrow> False)"

lemma rate_not_trip: "\<not> trip_reason (RateReason x)"
  by (simp add: trip_reason_def)

lemma wp_True: "wp m (\<lambda>_ _. True) (\<lambda>_. True) s"
  by (auto simp: wp_def split: sum.split)

lemma breaker_trips:
  "at_disk t = Writable \<Longrightarrow>
    wp (check_circuit_breaker li t q b) (\<lambda>(ok, r) st'. trip_reason r \<longrightarrow> tripped (at_today t) st') (\<lambda>_. True) st"
  by (auto simp: state_defs wp_simps tripped_def risk_persisted_def trip_reason_def)

lemma wp_gate_refused:
  assumes "wp m (\<lambda>(ok, r) s'. \<not> ok \<longrightarrow> B r s') (\<lambda>_. True) s"
    and "\<And>s'. wp rest (\<lambda>(ok, r) s''. \<not> ok \<longrightarrow> B r s'') (\<lambda>_. True) s'"
  shows "wp (gate m rest) (\<lambda>(ok, r) s''. \<not> ok \<longrightarrow> B r s'') (\<lambda>_. True) s"
  unfolding wp_gate by (rule wp_mono [OF assms(1)]) (use assms(2) in \<open>auto split: if_splits\<close>)

lemma can_open_trips:
  assumes w: "at_disk t = Writable"
  shows "wp (can_open t mt a asset_key) (\<lambda>(ok, r) e'. \<not> ok \<longrightarrow> trip_reason r \<longrightarrow> tripped (at_today t) (en_state e')) (\<lambda>_. True) e"
proof -
  have other: "\<not> trip_reason (snd (check_daily_trades li asset_key st))"
    "\<not> trip_reason (snd (check_concurrency li mt asset_key gs ss))" for li st gs ss
    by (auto simp: check_daily_trades_def check_concurrency_def Let_def trip_reason_def split: option.split)
  have acc: "wp (account_gates li t mt a asset_key q b)
      (\<lambda>(ok, r) st'. \<not> ok \<longrightarrow> trip_reason r \<longrightarrow> tripped (at_today t) st') (\<lambda>_. True) st" for li q b st
    unfolding account_gates_def
    by (intro wp_gate_refused) (auto simp: wp_simps case_prod_beta other intro: wp_mono [OF breaker_trips [OF w]])
  have "wp (limit_gates t mt a asset_key li)
      (\<lambda>(ok, r) e'. \<not> ok \<longrightarrow> trip_reason r \<longrightarrow> tripped (at_today t) (en_state e')) (\<lambda>_. True) s" for li s
    by (auto simp: limit_gates_account wp_simps trip_reason_def intro: wp_mono [OF acc] split: option.split)
  moreover have "wp (legacy_gate t a) (\<lambda>(ok, r) e'. \<not> ok \<longrightarrow> trip_reason r \<longrightarrow> tripped (at_today t) (en_state e')) (\<lambda>_. True) s" for s
    by (auto simp: legacy_gate_def wp_def bnd_run py_simps trip_reason_def split: sum.splits)
  moreover have "wp (rate_and_drawdown_gates t a asset_key)
      (\<lambda>(ok, r) e'. \<not> ok \<longrightarrow> trip_reason r \<longrightarrow> tripped (at_today t) (en_state e')) (\<lambda>_. True) s" for s
  proof -
    have dd: "wp (check_drawdown_throttle t q) (\<lambda>(ok, r) st'. \<not> trip_reason r) (\<lambda>_. True) st" for q st
      by (cases "at_disk t"; cases "rs_hwm st") (auto simp: check_drawdown_throttle_def update_hwm_def wp_simps Let_def trip_reason_def)
    show ?thesis
      unfolding rate_and_drawdown_gates_def
      by (intro wp_gate_refused) (auto simp: wp_simps rate_not_trip intro: wp_mono [OF dd] wp_mono [OF wp_True])
  qed
  moreover have "wp (cluster_gate a asset_key)
      (\<lambda>(ok, r) e'. \<not> ok \<longrightarrow> trip_reason r \<longrightarrow> tripped (at_today t) (en_state e')) (\<lambda>_. True) s" for s
    by (auto simp: cluster_gate_def wp_simps check_cluster_exposure_def Let_def trip_reason_def split: option.splits)
  ultimately show ?thesis unfolding can_open_def wp_bnd wp_basic
    by (intro wp_gate_refused) (auto simp: wp_simps)
qed

text \<open>A high-water mark, in memory and in the file, that has reached \<open>h\<close>.\<close>

definition high :: "rat \<Rightarrow> risk_state \<Rightarrow> bool" where
  "high h st \<longleftrightarrow> (\<exists>g \<ge> h. rs_hwm st = Some g) \<and> (\<exists>f. \<exists>g \<ge> h. rs_file st = Stored f \<and> sr_hwm f = Some g)"

lemma high_keeps:
  "keeps (high h) (check_circuit_breaker li t q b)" "keeps (high h) (check_drawdown_throttle t q')"
  "keeps (high h) (record_trade_executed t asset_key)" "keeps (high h) (save t)" "keeps (high h) (update_hwm q'')"
  by (cases "at_disk t"; auto intro!: keeps_wp
      simp: state_defs wp_simps high_def risk_persisted_def ratchet_def split: option.split)+

lemma high_restart: "high h (en_state e) \<Longrightarrow> high h (en_state (engine_step cfg magic RestartEngine e))"
  by (auto simp: high_def RiskEngine_def RiskState_def load_def)

interpretation mark: step_invariant "engine_step cfg magic" "\<lambda>e. high h (en_state e)" for cfg magic h
proof
  fix x and e :: engine assume inv: "high h (en_state e)"
  show "high h (en_state (engine_step cfg magic x e))"
  proof (cases x)
    case (CanOpen t mt a asset_key)
    have "keeps (\<lambda>e. high h (en_state e)) (can_open t mt a asset_key)" by (intro keeps_can_open high_keeps)
    from keepsD [OF this inv] show ?thesis by (simp add: CanOpen)
  next
    case (RecordTrade t asset_key equity)
    have "keeps (\<lambda>e. high h (en_state e)) (engine_record_trade t asset_key equity)"
      by (intro keeps_engine_record_trade) (simp_all add: high_keeps)
    from keepsD [OF this inv] show ?thesis by (simp add: RecordTrade)
  qed (use inv high_restart in \<open>simp_all add: engine_record_order_def on_rate_def del: engine_step.simps(4)\<close>)
qed

lemma drawdown_mono: "0 < h \<Longrightarrow> h \<le> g \<Longrightarrow> 0 \<le> q \<Longrightarrow> drawdown q g \<le> drawdown q h"
  unfolding drawdown_def fdiv_def by (intro fsub_mono fl.mono divide_left_mono) auto

definition demo_risk_cfg :: risk_cfg where
  "demo_risk_cfg = \<lparr>rc_max_concurrent_positions_global = None, rc_max_open_positions_per_asset = None,
     rc_max_daily_trades_per_asset = None, rc_max_daily_loss_pct = None, rc_exclude_swaps = None,
     rc_max_orders_per_minute = Some 6, rc_rate_window_seconds = None, rc_throttle = demo_cfg\<rparr>"

definition demo_file :: saved_risk where
  "demo_file = \<lparr>sr_current_day = Some 6, sr_starting_equity_today = Some 10000, sr_starting_balance_today = None,
     sr_hwm = Some 10000, sr_daily_trades_count = None, sr_circuit_breaker_tripped = None\<rparr>"

definition demo_engine :: engine where
  "demo_engine = RiskEngine demo_risk_cfg (Some 777111) True (Stored demo_file) Absent"

definition demo_args :: "rat \<Rightarrow> open_args" where
  "demo_args equity = \<lparr>oa_equity = equity, oa_balance = None, oa_groups_by_asset = Some [], oa_singles_by_asset = Some [],
     oa_current_risk_by_cluster = None, oa_cluster = Some ''metals'', oa_add_risk_pct = Some (1 / 512),
     oa_cluster_cap = Some (1 / 256), oa_total_cap = Some (1 / 128), oa_use_legacy_throttle = True\<rparr>"

definition demo_terminal :: terminal where
  "demo_terminal = \<lparr>mt_initialize = False, mt_account_info = None, mt_positions_get = Inr None\<rparr>"

lemma demo_granted:
  "fst (can_open (demo_moment 7) demo_terminal (demo_args 9500) ''XAUUSD'' demo_engine) = Inr (True, ROk)"
  by code_simp

text \<open>An engine whose budget of the day was anchored at 10000, without the loss-streak throttle.\<close>

definition demo_losing_engine :: engine where
  "demo_losing_engine = RiskEngine demo_risk_cfg (Some 777111) False (Stored (demo_file\<lparr>sr_current_day := Some 7\<rparr>)) Absent"

lemma demo_tripped:
  "fst (can_open (demo_moment 7) demo_terminal (demo_args 9000) ''XAUUSD'' demo_losing_engine) =
     Inr (False, BreakerTripped 1000 500)"
  by code_simp

section \<open>Properties\<close>

text \<open>C15. Permission to open passes every gate: when \<open>can_open\<close> grants, the loss-streak throttle (if
  consulted) is open on its state after the call, the circuit breaker is not tripped and the day's
  profit and loss is above the loss limit for the account judged, group and trade counts are below
  their caps, the rate window has room, the equity is above the drawdown floor against the
  high-water mark before the call, and the cluster and total risk stay within caps that were given.\<close>

theorem open_permission_passes_every_gate:
  assumes "can_open t mt a asset_key e = (Inr (True, r), e')"
  shows "(oa_use_legacy_throttle a \<and> en_legacy e' = Some th \<longrightarrow> throttle_open t (oa_equity a) th)
    \<and> limits_open (en_limits e) t mt a asset_key (en_state e')
    \<and> passed a asset_key e e' \<and> cluster_open a asset_key"
  using wpD [OF can_open_spec assms] by simp

theorem open_permission_passes_every_gate_witness:
  "passed (demo_args 9500) ''XAUUSD'' demo_engine
     (snd (can_open (demo_moment 7) demo_terminal (demo_args 9500) ''XAUUSD'' demo_engine))"
proof -
  have "can_open (demo_moment 7) demo_terminal (demo_args 9500) ''XAUUSD'' demo_engine =
    (Inr (True, ROk), snd (can_open (demo_moment 7) demo_terminal (demo_args 9500) ''XAUUSD'' demo_engine))"
    using demo_granted by (simp add: prod_eq_iff)
  from open_permission_passes_every_gate [OF this] show ?thesis by blast
qed

text \<open>The circuit breaker holds for the day: after a query was refused because the daily loss
  limit is exceeded (and the state file could be written), no query of that day is granted, whatever
  is asked and recorded in between, whatever the equity does, and however often the engine is
  restarted from its state files.\<close>

theorem circuit_breaker_holds_for_the_day:
  assumes trip: "can_open t0 mt0 a0 asset0 e0 = (Inr (False, BreakerTripped loss limit), e)"
    and w: "at_disk t0 = Writable" and ops: "list_all (on_engine_day (at_today t0)) ops" and t: "at_today t = at_today t0"
  shows "fst (can_open t mt a asset_key (run_steps (engine_step cfg magic) ops e)) \<noteq> Inr (True, r)"
proof
  let ?e = "run_steps (engine_step cfg magic) ops e"
  assume g: "fst (can_open t mt a asset_key ?e) = Inr (True, r)"
  have "tripped (at_today t0) (en_state e)"
    using wpD [OF can_open_trips [OF w] trip] by (simp add: trip_reason_def)
  from breaker.guarded_run [OF ops, of "e", OF this] have "tripped (at_today t0) (en_state ?e)" .
  moreover have "keeps (\<lambda>e. tripped (at_today t0) (en_state e)) (can_open t mt a asset_key)"
    using t by (intro keeps_can_open tripped_keeps) auto
  ultimately have "rs_circuit_breaker_tripped (en_state (snd (can_open t mt a asset_key ?e)))"
    using keepsD by (fastforce simp: tripped_def)
  moreover have "can_open t mt a asset_key ?e = (Inr (True, r), snd (can_open t mt a asset_key ?e))"
    using g by (simp add: prod_eq_iff)
  from wpD [OF can_open_spec this] have "\<not> rs_circuit_breaker_tripped (en_state (snd (can_open t mt a asset_key ?e)))"
    by (auto simp: limits_open_def breaker_open_def)
  ultimately show False by simp
qed

theorem circuit_breaker_holds_for_the_day_witness:
  "\<exists>e loss limit. can_open (demo_moment 7) demo_terminal (demo_args 9000) ''XAUUSD'' demo_losing_engine =
      (Inr (False, BreakerTripped loss limit), e)
    \<and> fst (can_open (demo_moment 7) demo_terminal (demo_args 10000) ''XAUUSD''
        (run_steps (engine_step demo_risk_cfg None) [RestartEngine, RecordTrade (demo_moment 7) ''XAUUSD'' (Some 10000)] e))
      \<noteq> Inr (True, ROk)"
proof -
  define e where "e = snd (can_open (demo_moment 7) demo_terminal (demo_args 9000) ''XAUUSD'' demo_losing_engine)"
  have trip: "can_open (demo_moment 7) demo_terminal (demo_args 9000) ''XAUUSD'' demo_losing_engine =
      (Inr (False, BreakerTripped 1000 500), e)"
    using demo_tripped by (simp add: e_def prod_eq_iff)
  have "at_disk (demo_moment 7) = Writable" "at_today (demo_moment 7) = 7" by (simp_all add: demo_throttle_fields)
  then show ?thesis
    using circuit_breaker_holds_for_the_day [OF trip, of "[RestartEngine, RecordTrade (demo_moment 7) ''XAUUSD'' (Some 10000)]"
        "demo_moment 7" demo_terminal "demo_args 10000" "''XAUUSD''" demo_risk_cfg None ROk] trip
    by (auto simp: on_engine_day_def)
qed



text \<open>Excluding swaps has no effect: with \<open>exclude_swaps\<close> set, a swap of \<open>w\<close> that the broker charges
  to the balance, and with it to the equity, lowers the day's profit and loss by exactly \<open>w\<close>, so a
  swap alone can trip the breaker. Stated for whole amounts, on which the arithmetic is exact.\<close>

theorem swap_counts_although_excluded:
  assumes "li_exclude_swaps li" and "rs_starting_balance_today st = Some (of_int b0)"
    and "\<bar>b0\<bar> < 2 ^ 50" and "\<bar>q\<bar> < 2 ^ 50" and "\<bar>b\<bar> < 2 ^ 50" and "\<bar>w\<bar> < 2 ^ 50"
  shows "daily_pnl li st (of_int (q - w)) (of_int (b - w)) = daily_pnl li st (of_int q) (of_int b) - of_int w"
proof -
  have pnl: "daily_pnl li st (of_int x) (of_int y) = of_int (x - b0)" if "\<bar>x\<bar> < 2 ^ 51" "\<bar>y\<bar> < 2 ^ 51" for x y
  proof -
    have "fsub (of_int x) (of_int y) = of_int (x - y)" "fsub (of_int y) (of_int b0) = of_int (y - b0)"
      "fl (of_int (x - b0)) = of_int (x - b0)"
      using that assms(3) unfolding fsub_def of_int_diff [symmetric] by (intro fl_of_int; simp)+
    then show ?thesis using assms(1,2) by (simp add: daily_pnl_def fadd_def Let_def)
  qed
  show ?thesis using assms pnl [of q b] pnl [of "q - w" "b - w"] by simp
qed

theorem swap_counts_although_excluded_witness:
  "daily_pnl (RiskLimits demo_risk_cfg None) (RiskState (Stored demo_file)) 9900 9900 =
     daily_pnl (RiskLimits demo_risk_cfg None) (RiskState (Stored demo_file)) 10000 10000 - 100"
  using swap_counts_although_excluded [of "RiskLimits demo_risk_cfg None" "RiskState (Stored demo_file)" 10000 10000 10000 100]
  by (simp add: RiskLimits_def demo_risk_cfg_def RiskState_def load_def demo_file_def)

end
