(* ===== verification/Sim_Clock.thy ===== *)
theory Sim_Clock
  imports Py_Prelude
begin

text \<open>
  The discrete-event clock of the market simulation, \<^verbatim>\<open>simulation/environment/clock.py\<close>. The binary heap
  is kept as the list of its entries in the order in which \<^verbatim>\<open>heappop\<close> yields them. A client callback is
  a parameter: given its tick, the ordinal of a repeating call and the client's world, it answers with
  the scheduling calls it makes, whether it then raises, and the world it leaves. The closure of a
  repeating action is a value that carries its ordinal, since at most one heap entry refers to it.
  The loop of \<open>advance\<close> takes fuel, because callbacks may schedule events for the current tick for ever.
\<close>

section \<open>Events and clock\<close>

datatype 'c action =
    Once 'c
  | Recur (recur_callback: 'c) (recur_interval: int) (recur_tick: int) (recur_ordinal: int)
      (recur_max_repeats: "int option") (recur_priority: int)

record 'c event =
  ev_tick :: int
  ev_sequence :: int
  ev_priority :: int
  ev_action :: "'c action"

record 'c clock =
  ck_tick :: int
  ck_heap :: "'c event list"
  ck_seq :: int

definition SimClock :: "int \<Rightarrow> 'c clock" where
  "SimClock initial_tick = \<lparr>ck_tick = initial_tick, ck_heap = [], ck_seq = 0\<rparr>"

text \<open>The generated order of the dataclass: tick, then sequence, then priority.\<close>

definition event_less :: "'c event \<Rightarrow> 'c event \<Rightarrow> bool" where
  "event_less a b \<longleftrightarrow> ev_tick a < ev_tick b \<or> ev_tick a = ev_tick b \<and>
     (ev_sequence a < ev_sequence b \<or> ev_sequence a = ev_sequence b \<and> ev_priority a < ev_priority b)"

fun heappush :: "'c event \<Rightarrow> 'c event list \<Rightarrow> 'c event list" where
  "heappush e [] = [e]"
| "heappush e (x # xs) = (if event_less e x then e # x # xs else x # heappush e xs)"

definition schedule_action :: "int \<Rightarrow> 'c action \<Rightarrow> int \<Rightarrow> ('c clock, unit) comp" where
  "schedule_action tick action priority c =
     (if tick < ck_tick c then (Inl (ValueError ''Cannot schedule event in the past''), c)
      else (Inr (), c\<lparr>ck_heap := heappush \<lparr>ev_tick = tick, ev_sequence = ck_seq c, ev_priority = priority, ev_action = action\<rparr> (ck_heap c),
              ck_seq := ck_seq c + 1\<rparr>))"

definition schedule_at :: "int \<Rightarrow> 'c \<Rightarrow> int \<Rightarrow> ('c clock, unit) comp" where
  "schedule_at tick callback priority = schedule_action tick (Once callback) priority"

definition schedule :: "int \<Rightarrow> 'c \<Rightarrow> int \<Rightarrow> ('c clock, unit) comp" where
  "schedule delay_ticks callback priority =
     bnd (gets ck_tick) (\<lambda>tick. schedule_at (tick + delay_ticks) callback priority)"

definition schedule_every :: "int \<Rightarrow> 'c \<Rightarrow> int \<Rightarrow> int \<Rightarrow> int option \<Rightarrow> ('c clock, unit) comp" where
  "schedule_every interval callback priority start_in max_repeats =
     seq (require (interval > 0) (ValueError ''interval must be a positive integer''))
    (seq (require (case max_repeats of None \<Rightarrow> True | Some m \<Rightarrow> m > 0) (ValueError ''max_repeats must be positive or None''))
    (bnd (gets ck_tick) (\<lambda>now.
       schedule_action (now + start_in) (Recur callback interval (now + start_in) 0 max_repeats priority) priority)))"

definition cancel_at :: "int \<Rightarrow> 'c clock \<Rightarrow> 'c clock" where
  "cancel_at tick c = c\<lparr>ck_heap := dropWhile (\<lambda>e. ev_tick e = tick) (ck_heap c)\<rparr>"

definition next_tick :: "'c clock \<Rightarrow> int" where
  "next_tick c = (case ck_heap c of [] \<Rightarrow> ck_tick c | e # _ \<Rightarrow> max (ev_tick e) (ck_tick c))"

definition has_events :: "'c clock \<Rightarrow> bool" where
  "has_events c \<longleftrightarrow> ck_heap c \<noteq> []"

definition pending_event_count :: "'c clock \<Rightarrow> nat" where
  "pending_event_count c = length (ck_heap c)"

definition next_event_tick :: "'c clock \<Rightarrow> int option" where
  "next_event_tick c = (case ck_heap c of [] \<Rightarrow> None | e # _ \<Rightarrow> Some (ev_tick e))"

section \<open>Firing events\<close>

datatype 'c request =
    ScheduleAt int 'c int
  | ScheduleIn int 'c int
  | ScheduleEvery int 'c int int "int option"
  | CancelAt int

fun do_request :: "'c request \<Rightarrow> ('c clock, unit) comp" where
  "do_request (ScheduleAt tick cb p) = schedule_at tick cb p"
| "do_request (ScheduleIn delay cb p) = schedule delay cb p"
| "do_request (ScheduleEvery interval cb p start m) = schedule_every interval cb p start m"
| "do_request (CancelAt tick) = modify (cancel_at tick)"

type_synonym ('c, 'w) handler = "'c \<Rightarrow> int \<Rightarrow> int option \<Rightarrow> 'w \<Rightarrow> 'c request list \<times> bool \<times> 'w"

text \<open>A callback's calls end at the first one that raises; a raise of its own comes after them.\<close>

definition callback_calls :: "'c request list \<Rightarrow> bool \<Rightarrow> ('c clock, unit) comp" where
  "callback_calls reqs raised = seq (for_each reqs do_request) (require (\<not> raised) (RuntimeError ''callback''))"

definition run_action :: "('c, 'w) handler \<Rightarrow> 'c event \<Rightarrow> 'w \<Rightarrow> 'c clock \<Rightarrow> (unit result \<times> 'c clock) \<times> 'w" where
  "run_action h ev w c =
     (case ev_action ev of
        Once cb \<Rightarrow> (case h cb (ev_tick ev) None w of (reqs, raised, w') \<Rightarrow> (callback_calls reqs raised c, w'))
      | Recur cb interval tick ordinal max_repeats priority \<Rightarrow>
          (case h cb tick (Some (ordinal + 1)) w of (reqs, raised, w') \<Rightarrow>
             (seq (callback_calls reqs raised)
               (case max_repeats of
                  Some m \<Rightarrow> if ordinal + 1 \<ge> m then ret () else
                    bnd (gets ck_tick) (\<lambda>now. schedule_action (max (tick + interval) (now + interval))
                      (Recur cb interval tick (ordinal + 1) max_repeats priority) priority)
                | None \<Rightarrow>
                    bnd (gets ck_tick) (\<lambda>now. schedule_action (max (tick + interval) (now + interval))
                      (Recur cb interval tick (ordinal + 1) max_repeats priority) priority)) c, w')))"

text \<open>The loop of \<open>advance\<close>: an exception of an action is logged and dropped. The events fired come first.\<close>

fun fire_due :: "('c, 'w) handler \<Rightarrow> nat \<Rightarrow> 'w \<Rightarrow> 'c clock \<Rightarrow> ('c event list \<times> 'w \<times> 'c clock) option" where
  "fire_due h 0 w c = None"
| "fire_due h (Suc fuel) w c =
     (case ck_heap c of
        [] \<Rightarrow> Some ([], w, c)
      | ev # rest \<Rightarrow>
          if ev_tick ev \<le> ck_tick c
          then (case run_action h ev w (c\<lparr>ck_heap := rest\<rparr>) of ((_, c'), w') \<Rightarrow>
                  map_option (\<lambda>(evs, res). (ev # evs, res)) (fire_due h fuel w' c'))
          else Some ([], w, c))"

definition advance :: "('c, 'w) handler \<Rightarrow> nat \<Rightarrow> int \<Rightarrow> 'w \<Rightarrow> 'c clock \<Rightarrow> ('c event list \<times> 'w \<times> 'c clock) option" where
  "advance h fuel n_ticks w c =
     (let target = ck_tick c + n_ticks
      in if target = ck_tick c then Some ([], w, c)
         else fire_due h fuel w (c\<lparr>ck_tick := target\<rparr>))"

definition step :: "('c, 'w) handler \<Rightarrow> nat \<Rightarrow> 'w \<Rightarrow> 'c clock \<Rightarrow> ('c event list \<times> 'w \<times> 'c clock) option" where
  "step h fuel w c = advance h fuel 1 w c"

section \<open>Order of the heap\<close>

text \<open>The entries are in firing order, their sequence numbers are distinct and below the next one, and
  a repeating action has a positive interval.\<close>

definition before :: "'c event \<Rightarrow> 'c event \<Rightarrow> bool" where
  "before a b \<longleftrightarrow> ev_tick a < ev_tick b \<or> ev_tick a = ev_tick b \<and> ev_sequence a < ev_sequence b"

definition action_ok :: "'c action \<Rightarrow> bool" where
  "action_ok x \<longleftrightarrow> (case x of Once _ \<Rightarrow> True | Recur _ interval _ _ _ _ \<Rightarrow> 0 < interval)"

definition clock_wf :: "'c clock \<Rightarrow> bool" where
  "clock_wf c \<longleftrightarrow> sorted_wrt before (ck_heap c) \<and> (\<forall>e \<in> set (ck_heap c). ev_sequence e < ck_seq c \<and> action_ok (ev_action e))"

lemma set_heappush [simp]: "set (heappush e xs) = insert e (set xs)"
  by (induction xs) auto

lemma heappush_sorted:
  "sorted_wrt before xs \<Longrightarrow> (\<forall>x \<in> set xs. ev_sequence x < ev_sequence e) \<Longrightarrow> sorted_wrt before (heappush e xs)"
proof (induction xs)
  case (Cons x xs)
  then show ?case by (auto simp: before_def event_less_def)
qed simp

lemma schedule_action_wf: "clock_wf c \<Longrightarrow> action_ok action \<Longrightarrow> clock_wf (snd (schedule_action tick action p c))"
  by (auto simp: clock_wf_def schedule_action_def less_SucI intro!: heappush_sorted)

lemma clock_keeps:
  "keeps clock_wf (schedule_at tick cb p)" "keeps clock_wf (schedule d cb' p')"
  "keeps clock_wf (schedule_every i cb'' p'' s m)" "keeps clock_wf (modify (cancel_at tick'))"
proof -
  have at: "keeps clock_wf (schedule_at tick cb p)" for tick p and cb :: 'x
    unfolding schedule_at_def by (rule keepsI) (simp add: schedule_action_wf action_ok_def)
  show "keeps clock_wf (schedule_at tick cb p)" by (rule at)
  show "keeps clock_wf (schedule d cb' p')" unfolding schedule_def by (intro keeps_intros at)
  show "keeps clock_wf (schedule_every i cb'' p'' s m)"
    by (rule keepsI) (auto simp: schedule_every_def py_simps intro!: schedule_action_wf simp: action_ok_def)
  show "keeps clock_wf (modify (cancel_at tick'))"
    by (rule keeps_modify) (auto simp: clock_wf_def cancel_at_def dest: set_dropWhileD sorted_wrt_dropWhile)
qed

section \<open>Advancing\<close>

text \<open>A client that schedules only for later ticks.\<close>

fun later :: "'c request \<Rightarrow> bool" where
  "later (ScheduleAt _ _ _) = False"
| "later (ScheduleIn delay _ _) = (0 < delay)"
| "later (ScheduleEvery _ _ _ start _) = (0 < start)"
| "later (CancelAt _) = False"

definition polite :: "('c, 'w) handler \<Rightarrow> bool" where
  "polite h \<longleftrightarrow> (\<forall>cb tick ordinal w. list_all later (fst (h cb tick ordinal w)))"

definition due :: "int \<Rightarrow> 'c event list \<Rightarrow> 'c event list" where
  "due target es = filter (\<lambda>e. ev_tick e \<le> target) es"

definition settled :: "int \<Rightarrow> 'c event list \<Rightarrow> 'c clock \<Rightarrow> bool" where
  "settled target es c \<longleftrightarrow> clock_wf c \<and> ck_tick c = target \<and> due target (ck_heap c) = es"

lemma due_heappush: "target < ev_tick e \<Longrightarrow> due target (heappush e xs) = due target xs"
  by (induction xs) (auto simp: due_def)

lemma schedule_later_settled:
  "settled target es c \<Longrightarrow> target < tick \<Longrightarrow> action_ok action \<Longrightarrow> settled target es (snd (schedule_action tick action p c))"
  using schedule_action_wf [of c action tick p]
  by (auto simp: settled_def schedule_action_def due_heappush)

lemma later_settled:
  assumes "later x"
  shows "keeps (settled target es) (do_request x)"
proof (rule keepsI)
  fix c assume s: "settled target es c"
  show "settled target es (snd (do_request x c))"
  proof (cases x)
    case (ScheduleIn delay cb p)
    then show ?thesis using assms s schedule_later_settled [OF s, of "ck_tick c + delay" "Once cb" p]
      by (simp add: schedule_def schedule_at_def py_simps action_ok_def settled_def)
  next
    case (ScheduleEvery interval cb p start m)
    then show ?thesis
      using assms s schedule_later_settled [OF s, of "ck_tick c + start" "Recur cb interval (ck_tick c + start) 0 m p" p]
      by (simp add: schedule_every_def py_simps action_ok_def settled_def)
  qed (use assms in auto)
qed

lemma keeps_for_each_set: "(\<And>x. x \<in> set xs \<Longrightarrow> keeps P (body x)) \<Longrightarrow> keeps P (for_each xs body)"
  by (induction xs) (auto intro: keeps_intros)

lemma run_action_settled:
  assumes "polite h" and "action_ok (ev_action ev)" and "settled target es c"
  shows "settled target es (snd (fst (run_action h ev w c)))"
proof -
  have calls: "keeps (settled target es) (callback_calls reqs raised)" if "list_all later reqs" for reqs raised
    unfolding callback_calls_def using that
    by (intro keeps_intros keeps_for_each_set later_settled) (auto simp: list_all_iff)
  have again: "keeps (settled target es) (bnd (gets ck_tick) (\<lambda>now. schedule_action (max (tick + i) (now + i)) (Recur cb i tick k m p) p))"
    if "0 < i" for i tick cb k m p
  proof (rule keepsI)
    fix s :: "'a clock" assume s: "settled target es s"
    then have "target < max (tick + i) (ck_tick s + i)" using that by (simp add: settled_def)
    from schedule_later_settled [OF s this, of "Recur cb i tick k m p" p] that
    show "settled target es (snd (bnd (gets ck_tick) (\<lambda>now. schedule_action (max (tick + i) (now + i)) (Recur cb i tick k m p) p) s))"
      by (simp add: py_simps action_ok_def)
  qed
  have polite: "list_all later reqs" if "h cb tick ordinal w = (reqs, raised, w')" for cb tick ordinal reqs raised w'
    using assms(1) that unfolding polite_def by (metis fst_conv)
  show ?thesis
  proof (cases "ev_action ev")
    case (Once cb)
    then show ?thesis using keepsD [OF calls [OF polite] assms(3)]
      by (cases "h cb (ev_tick ev) None w") (auto simp: run_action_def)
  next
    case (Recur cb i tick k m p)
    then have "0 < i" using assms(2) by (simp add: action_ok_def)
    obtain reqs raised w' where h: "h cb tick (Some (k + 1)) w = (reqs, raised, w')"
      by (cases "h cb tick (Some (k + 1)) w")
    have "keeps (settled target es) (seq (callback_calls reqs raised) (case m of
        Some m' \<Rightarrow> if k + 1 \<ge> m' then ret () else
          bnd (gets ck_tick) (\<lambda>now. schedule_action (max (tick + i) (now + i)) (Recur cb i tick (k + 1) m p) p)
      | None \<Rightarrow> bnd (gets ck_tick) (\<lambda>now. schedule_action (max (tick + i) (now + i)) (Recur cb i tick (k + 1) m p) p)))"
      by (intro keeps_seq calls [OF polite [OF h]] keeps_option keeps_if again [OF \<open>0 < i\<close>] keeps_pure)
    from keepsD [OF this assms(3)] show ?thesis by (simp add: run_action_def Recur h)
  qed
qed

lemma before_le: "before a b \<Longrightarrow> ev_tick a \<le> ev_tick b"
  by (auto simp: before_def)

lemma fire_due_spec:
  assumes "polite h" and "settled target es c" and "length es < fuel"
  shows "\<exists>w' c'. fire_due h fuel w c = Some (es, w', c') \<and> settled target [] c'"
  using assms(2,3)
proof (induction fuel arbitrary: es w c)
  case (Suc fuel)
  show ?case
  proof (cases "\<exists>ev rest. ck_heap c = ev # rest \<and> ev_tick ev \<le> target")
    case False
    have "due target (ck_heap c) = []"
    proof (cases "ck_heap c")
      case (Cons ev rest)
      have "\<forall>x \<in> set rest. ev_tick ev \<le> ev_tick x"
        using Suc.prems(1) Cons by (auto simp: settled_def clock_wf_def dest: before_le)
      then show ?thesis using False Cons by (auto simp: due_def filter_empty_conv)
    qed (simp add: due_def)
    then show ?thesis using False Suc.prems(1) by (auto simp: settled_def split: list.split)
  next
    case True
    then obtain ev rest where ev: "ck_heap c = ev # rest" "ev_tick ev \<le> target" by blast
    let ?c = "c\<lparr>ck_heap := rest\<rparr>"
    have es: "es = ev # due target rest" and tick: "ck_tick c = target"
      using Suc.prems(1) ev by (auto simp: settled_def due_def)
    have "settled target (due target rest) ?c" and "action_ok (ev_action ev)"
      using Suc.prems(1) ev(1) by (auto simp: settled_def clock_wf_def)
    then have "settled target (due target rest) (snd (fst (run_action h ev w ?c)))"
      by (intro run_action_settled [OF assms(1)])
    from Suc.IH [OF this] Suc.prems(2) show ?thesis
      using ev tick es by (fastforce simp: case_prod_beta)
  qed
qed simp

section \<open>Properties\<close>


text \<open>A clock with an ordinary and then an urgent event at tick 2.\<close>

definition demo_clock :: "string clock" where
  "demo_clock = snd (schedule_at 2 ''urgent'' (- 10) (snd (schedule_at 2 ''ordinary'' 0 (SimClock 0))))"


text \<open>An urgent event does not overtake an ordinary one that was scheduled before it.\<close>

lemma priority_has_no_effect:
  assumes "clock_wf c" and "ck_tick c \<le> tick" and "schedule_at tick a p c = (Inr (), c1)" and "schedule_at tick b q c1 = (Inr (), c2)"
  shows "\<exists>e1 e2. e1 \<in> set (ck_heap c2) \<and> e2 \<in> set (ck_heap c2) \<and> ev_action e1 = Once a \<and> ev_action e2 = Once b \<and> before e1 e2"
  using assms
  by (intro exI [of _ "\<lparr>ev_tick = tick, ev_sequence = ck_seq c, ev_priority = p, ev_action = Once a\<rparr>"]
      exI [of _ "\<lparr>ev_tick = tick, ev_sequence = ck_seq c + 1, ev_priority = q, ev_action = Once b\<rparr>"])
    (auto simp: schedule_at_def schedule_action_def before_def)

text \<open>Cancelling at the tick of the head removes every event of that tick.\<close>

lemma cancel_at_removes_whole_tick:
  assumes "clock_wf c" and "ck_heap c = ev # rest"
  shows "\<forall>x \<in> set (ck_heap (cancel_at (ev_tick ev) c)). ev_tick ev < ev_tick x"
proof -
  have "sorted_wrt before (ck_heap c)" using assms(1) by (simp add: clock_wf_def)
  then have le: "\<forall>x \<in> set (ev # rest). ev_tick ev \<le> ev_tick x" and srt: "sorted_wrt before (ev # rest)"
    unfolding assms(2) by (auto dest: before_le)
  have key: "\<forall>x \<in> set (dropWhile (\<lambda>e. ev_tick e = m) xs). m < ev_tick x"
    if "sorted_wrt before xs" "\<forall>x \<in> set xs. m \<le> ev_tick x" for m and xs :: "'a event list"
    using that
  proof (induction xs)
    case (Cons y ys)
    then have "m < ev_tick y \<Longrightarrow> \<forall>x \<in> set (y # ys). m < ev_tick x" by (auto dest!: before_le)
    then show ?case using Cons by (cases "ev_tick y = m") (auto simp: order.strict_iff_order)
  qed simp
  show ?thesis using key [OF srt le] by (simp only: cancel_at_def assms(2)) simp
qed

end
