(* ===== verification/Signal_Grid.thy ===== *)
theory Signal_Grid
  imports Py_Prelude
begin

text \<open>
  The target and stop grid of a signal, \<^verbatim>\<open>get_signal_grid\<close> of \<^verbatim>\<open>config/loader.py\<close>: the multipliers of the
  section \<^verbatim>\<open>labeling\<close>, on shared of them the section \<^verbatim>\<open>signal_grid\<close>, that of the asset, and the override for
  the market regime. A section is the list of its numeric entries, where a null is \<open>None\<close>, and its
  overrides by regime; an override that is not a mapping is \<open>None\<close>. Entries that are mappings
  (\<^verbatim>\<open>scaleout\<close>, \<^verbatim>\<open>profit_trail\<close>) are read elsewhere.
\<close>

section \<open>Sections\<close>

type_synonym grid = "(string \<times> rat option) list"

record grid_section =
  gs_values :: grid
  gs_regimes :: "(string \<times> grid option) list option"

definition grid_base :: "(string \<times> rat) list \<Rightarrow> grid" where
  "grid_base lab =
     [(''tp1_mult'', Some (get_or 1 (map_of lab ''tp1_atr_multiplier''))),
      (''tp2_mult'', Some (get_or 2 (map_of lab ''tp2_atr_multiplier''))),
      (''tp3_mult'', Some (get_or 3 (map_of lab ''tp3_atr_multiplier''))),
      (''stop_mult'', Some (get_or 3 (map_of lab ''stop_atr_multiplier''))),
      (''breakeven_trigger_atr'', Some (get_or 1 (map_of lab ''breakeven_trigger_atr''))),
      (''step_points'', map_of lab ''step_points''),
      (''step_min_points'', map_of lab ''step_min_points''),
      (''step_max_points'', map_of lab ''step_max_points'')]"

text \<open>\<^verbatim>\<open>grid.update({k: v for k, v in values.items() if v is not None})\<close>.\<close>

fun grid_update :: "grid \<Rightarrow> grid \<Rightarrow> grid" where
  "grid_update g [] = g"
| "grid_update g ((k, v) # kvs) = grid_update (if v = None then g else dict_put k v g) kvs"

fun dict_update :: "('k \<times> 'v) list \<Rightarrow> ('k \<times> 'v) list \<Rightarrow> ('k \<times> 'v) list" where
  "dict_update d [] = d"
| "dict_update d ((k, v) # kvs) = dict_update (dict_put k v d) kvs"

text \<open>The multiplier of the trail is taken from the first section that has the key, null or not.\<close>

definition trailing_entry :: "grid_section \<Rightarrow> grid_section option \<Rightarrow> rat option" where
  "trailing_entry shared asset =
     (case Option.bind asset (\<lambda>a. map_of (gs_values a) ''trailing_atr_mult'') of
        Some v \<Rightarrow> v
      | None \<Rightarrow> get_or None (map_of (gs_values shared) ''trailing_atr_mult''))"

definition regime_override :: "grid_section \<Rightarrow> grid_section option \<Rightarrow> string option \<Rightarrow> grid" where
  "regime_override shared asset regime =
     (case regime of
        None \<Rightarrow> []
      | Some r \<Rightarrow>
          if r = [] then []
          else get_or [] (get_or None (map_of (dict_update (get_or [] (gs_regimes shared))
                 (get_or [] (Option.bind asset gs_regimes))) r)))"

definition get_signal_grid ::
  "(string \<times> rat) list \<Rightarrow> grid_section \<Rightarrow> grid_section option \<Rightarrow> string option \<Rightarrow> grid" where
  "get_signal_grid lab shared asset regime =
     (let g = grid_update (grid_base lab) (gs_values shared);
          g = grid_update g (get_or [] (map_option gs_values asset));
          g = dict_put ''trailing_atr_mult'' (trailing_entry shared asset) g
      in grid_update g (filter (\<lambda>(k, _). k \<noteq> ''regime_overrides'') (regime_override shared asset regime)))"

text \<open>\<^verbatim>\<open>float(grid.get(key, default))\<close>; a null raises.\<close>

definition grid_number :: "grid \<Rightarrow> string \<Rightarrow> rat \<Rightarrow> rat result" where
  "grid_number g key d =
     (case map_of g key of
        None \<Rightarrow> Inr d
      | Some None \<Rightarrow> Inl (TypeError ''float() argument must be a string or a real number'')
      | Some (Some x) \<Rightarrow> Inr x)"

section \<open>Which entry wins\<close>

text \<open>The last entry of a key that is not null.\<close>

fun setting :: "grid \<Rightarrow> string \<Rightarrow> rat option" where
  "setting [] k = None"
| "setting ((k', v) # kvs) k = (case setting kvs k of Some x \<Rightarrow> Some x | None \<Rightarrow> if k' = k then v else None)"

lemma map_of_grid_update:
  "map_of (grid_update g kvs) k = (case setting kvs k of None \<Rightarrow> map_of g k | Some x \<Rightarrow> Some (Some x))"
  by (induction g kvs rule: grid_update.induct) (auto split: option.split)

lemma map_of_dict_update: "map_of (dict_update d kvs) k = (case map_of (rev kvs) k of None \<Rightarrow> map_of d k | Some v \<Rightarrow> Some v)"
  by (induction d kvs rule: dict_update.induct) (auto simp: map_add_def split: option.split)

definition MULTIPLIERS :: "string list" where
  "MULTIPLIERS = [''tp1_mult'', ''tp2_mult'', ''tp3_mult'', ''stop_mult'', ''breakeven_trigger_atr'']"

lemma grid_base_multiplier:
  assumes "k \<in> set MULTIPLIERS"
  shows "\<exists>x. map_of (grid_base lab) k = Some (Some x)"
  using assms by (auto simp: MULTIPLIERS_def grid_base_def)

lemma not_trailing: "k \<in> set MULTIPLIERS \<Longrightarrow> k \<noteq> ''trailing_atr_mult''" "k \<in> set MULTIPLIERS \<Longrightarrow> k \<noteq> ''regime_overrides''"
  by (auto simp: MULTIPLIERS_def)

lemma setting_filter: "k \<noteq> k' \<Longrightarrow> setting (filter (\<lambda>(x, _). x \<noteq> k') kvs) k = setting kvs k"
  by (induction kvs) (auto split: option.splits)

lemma get_signal_grid_multiplier:
  assumes "k \<in> set MULTIPLIERS"
  shows "map_of (get_signal_grid lab shared asset regime) k =
    (case setting (regime_override shared asset regime) k of Some x \<Rightarrow> Some (Some x) | None \<Rightarrow>
     (case setting (get_or [] (map_option gs_values asset)) k of Some x \<Rightarrow> Some (Some x) | None \<Rightarrow>
      (case setting (gs_values shared) k of Some x \<Rightarrow> Some (Some x) | None \<Rightarrow> map_of (grid_base lab) k)))"
  using not_trailing [OF assms]
  by (simp add: get_signal_grid_def map_of_grid_update setting_filter eq_commute [of k] split: option.split)


definition demo_top :: grid_section where
  "demo_top = \<lparr>gs_values = [(''stop_mult'', None), (''tp3_mult'', Some 4)],
     gs_regimes = Some [(''range'', Some [(''stop_mult'', Some 2), (''tp1_mult'', Some (1 / 2))])]\<rparr>"

definition demo_asset_grid :: grid_section where
  "demo_asset_grid = \<lparr>gs_values = [(''tp3_mult'', Some 5)],
     gs_regimes = Some [(''range'', Some [(''tp1_mult'', Some (3 / 4))])]\<rparr>"


end
