(* ===== verification/Trader_State.thy ===== *)
theory Trader_State
  imports MT5_Context Risk_Engine Signal_Grid
begin

text \<open>
  The live trader of \<^verbatim>\<open>execution/mt5_trader.py\<close>: its state, what it reads, and the files it keeps. The
  MetaTrader5 package is a parameter, the record \<open>trader_api\<close> of the calls the trader makes on a terminal
  state \<open>'m\<close>; so are the readings of the clock and the disk (\<open>te_moment\<close>), the average true range of a
  pipeline's last frame and the correlation table, which are computed by packages outside the
  repository. Log messages, the execution telemetry of \<open>_record_execution_result\<close> and the outbox, and the
  feature snapshots for retraining are left out: they are best effort and nothing here reads them. The
  requests handed to the terminal and the texts handed to Telegram are recorded in the state.
\<close>

section \<open>The terminal\<close>

record quote =
  qt_bid :: rat
  qt_ask :: rat

record instrument =
  ins_digits :: nat
  ins_point :: rat
  ins_stops_level :: int
  ins_freeze_level :: int
  ins_volume_step :: "rat option"
  ins_volume_min :: "rat option"

record history_deal = deal_raw +
  hd_profit :: rat
  hd_swap :: rat
  hd_commission :: rat

record 'm trader_api =
  ta_initialize :: "('m, bool) comp"
  ta_account :: "('m, (rat \<times> rat) option) comp"
  ta_positions_get :: "string option \<Rightarrow> ('m, position_raw list option) comp"
  ta_symbol_info :: "string \<Rightarrow> ('m, instrument option) comp"
  ta_symbol_info_tick :: "string \<Rightarrow> ('m, quote option) comp"
  ta_symbol_select :: "string \<Rightarrow> ('m, bool) comp"
  ta_history_deals_get :: "int \<Rightarrow> ('m, history_deal list option) comp"
  ta_order_send :: "trade_request \<Rightarrow> ('m, send_result option) comp"
  ta_is_demo :: "('m, bool) comp"
  RETCODE_DONE :: int
  RETCODE_MARKET_CLOSED :: "int option"
  ACTION_DEAL :: int
  ACTION_SLTP :: int
  TYPE_BUY :: int
  TYPE_SELL :: int
  TIME_GTC :: int
  FILLING_IOC :: int

section \<open>Signals and trades\<close>

record live_signal =
  ls_bias :: string
  ls_confidence :: rat
  ls_signal_id :: "string option"
  ls_timestamp_utc :: "int option"
  ls_expires_at_utc :: "int option"
  ls_signal_state :: "string option"
  ls_confirmed_by :: "string option"
  ls_step :: "rat option"
  ls_regime :: "string option"
  ls_session :: "string option"
  ls_reasoning_summary :: "string option"
  ls_entry_zone :: "rat list option"
  ls_invalidation :: "rat option"
  ls_targets :: "rat list option"
  ls_strategy_version :: "string option"
  ls_config_hash :: "string option"
  ls_model_hash :: "string option"
  ls_feature_snapshot_hash :: "string option"
  ls_leg :: "int option"

text \<open>The identifiers of a signal that a trade keeps; the outer option of the timestamp is the key.\<close>

record contract =
  ct_signal_id :: "string option"
  ct_strategy_version :: "string option"
  ct_config_hash :: "string option"
  ct_model_hash :: "string option"
  ct_feature_snapshot_hash :: "string option"
  ct_timestamp_utc :: "int option option"

definition no_contract :: contract where
  "no_contract = \<lparr>ct_signal_id = None, ct_strategy_version = None, ct_config_hash = None, ct_model_hash = None,
     ct_feature_snapshot_hash = None, ct_timestamp_utc = None\<rparr>"

definition signal_contract :: "live_signal \<Rightarrow> contract" where
  "signal_contract s = \<lparr>ct_signal_id = ls_signal_id s, ct_strategy_version = ls_strategy_version s,
     ct_config_hash = ls_config_hash s, ct_model_hash = ls_model_hash s,
     ct_feature_snapshot_hash = ls_feature_snapshot_hash s, ct_timestamp_utc = Some (ls_timestamp_utc s)\<rparr>"

record trade =
  tr_symbol :: string
  tr_type :: string
  tr_entry_price :: "rat option"
  tr_original_volume :: "rat option"
  tr_leg :: "int option"
  tr_group_key :: "string option"
  tr_tp1 :: "rat option"
  tr_tp2 :: "rat option"
  tr_tp3 :: "rat option"
  tr_tp1_hit :: bool
  tr_tp2_hit :: bool
  tr_be_done :: bool
  tr_trailing_active :: bool
  tr_contract :: "contract option"

text \<open>The entry of the position journal.\<close>

record position_context =
  pc_asset_key :: string
  pc_opened_at_utc :: rat
  pc_bias :: string
  pc_confidence :: rat
  pc_regime :: "string option"
  pc_reasoning_summary :: "string option"
  pc_entry_zone :: "rat list option"
  pc_invalidation :: "rat option"
  pc_targets :: "rat list option"
  pc_session :: "string option"
  pc_leg :: "int option"

section \<open>Configuration\<close>

record trail_cfg =
  pt_activation_atr :: "rat option"
  pt_lock_pct :: "rat option"
  pt_min_profit_price :: "rat option"

record asset_cfg =
  aa_enabled :: bool
  aa_mt5_symbol :: "string option"
  aa_min_confidence :: "rat option"
  aa_profit_trail :: "trail_cfg option"
  aa_signal_grid :: grid_section

record blackout_cfg =
  bo_enabled :: "bool option"
  bo_daily_break_utc :: "string list option"
  bo_start_dow :: "int option"
  bo_start_utc :: "string option"
  bo_end_dow :: "int option"
  bo_end_utc :: "string option"
  bo_flatten_before_minutes :: "int option"
  bo_manual_until :: "int option"

record deployment_cfg =
  dc_mode :: "string option"
  dc_live_approval_id :: "string option"
  dc_require_telegram_admin :: "bool option"
  dc_require_demo_account :: "bool option"

type_synonym corr_matrix = "(string \<times> (string \<times> rat) list) list"

record trader_cfg =
  cf_dry_run_env :: bool
  cf_telegram_admin :: bool
  cf_deployment :: deployment_cfg
  cf_enabled_assets :: "string list option option"
  cf_assets :: "(string \<times> asset_cfg) list"
  cf_min_confidence :: "rat option"
  cf_profit_trail :: "trail_cfg option"
  cf_labeling :: "(string \<times> rat) list"
  cf_signal_grid :: grid_section
  cf_blackout :: blackout_cfg
  cf_corr_enabled :: "bool option"
  cf_corr_threshold :: "rat option"
  cf_corr_interval :: "rat option"
  cf_strategy_version :: string
  cf_config_hash :: string

record 'm trader_env = io_env +
  te_api :: "'m trader_api"
  te_magic :: int
  te_cfg :: trader_cfg
  te_limits :: limits
  te_moment :: "nat \<Rightarrow> moment"
  te_pipelines :: "string list"
  te_frame_atr :: "string \<Rightarrow> nat \<Rightarrow> rat option result"
  te_corr_table :: "nat \<Rightarrow> corr_matrix option"

section \<open>State\<close>

datatype message =
    TradeClosed string int "int option" rat int
  | LegExecuted string int int string rat rat rat rat
  | SignalAlert string

record 'm trader =
  lt_term :: 'm
  lt_volume :: rat
  lt_active :: "(int \<times> trade) list"
  lt_last_close_pnl :: "(int \<times> rat) list"
  lt_streak_losses :: "(string \<times> int) list"
  lt_throttle :: throttle
  lt_risk :: risk_state
  lt_saved :: "(string \<times> trade) list state_file"
  lt_journal :: "(string \<times> position_context) list state_file"
  lt_ledger :: ledger
  lt_corr_matrix :: corr_matrix
  lt_corr_last_update :: rat
  lt_blackout_flattened :: bool
  lt_sent :: "trade_request list"
  lt_messages :: "message list"
  lt_reads :: nat

type_synonym ('m, 'a) tcomp = "('m trader, 'a) comp"

text \<open>A call on the terminal, on the throttle and on the risk state; a reading of the clock.\<close>

definition on_term :: "('m, 'a) comp \<Rightarrow> ('m, 'a) tcomp" where
  "on_term m w = (case m (lt_term w) of (r, t) \<Rightarrow> (r, w\<lparr>lt_term := t\<rparr>))"

definition on_throttle :: "(throttle, 'a) comp \<Rightarrow> ('m, 'a) tcomp" where
  "on_throttle m w = (case m (lt_throttle w) of (r, t) \<Rightarrow> (r, w\<lparr>lt_throttle := t\<rparr>))"

definition on_risk :: "(risk_state, 'a) comp \<Rightarrow> ('m, 'a) tcomp" where
  "on_risk m w = (case m (lt_risk w) of (r, t) \<Rightarrow> (r, w\<lparr>lt_risk := t\<rparr>))"

definition read_moment :: "'m trader_env \<Rightarrow> ('m, moment) tcomp" where
  "read_moment ex w = (Inr (te_moment ex (lt_reads w)), w\<lparr>lt_reads := lt_reads w + 1\<rparr>)"

text \<open>\<^verbatim>\<open>try: m except Exception: log\<close>.\<close>

definition swallow :: "('s, unit) comp \<Rightarrow> ('s, unit) comp" where
  "swallow m = catch m (\<lambda>_. Some (ret ()))"

definition send_text :: "message \<Rightarrow> ('m, unit) tcomp" where
  "send_text msg = modify (\<lambda>w. w\<lparr>lt_messages := lt_messages w @ [msg]\<rparr>)"

text \<open>\<^verbatim>\<open>mt5.order_send\<close>; its answer can be \<^verbatim>\<open>None\<close>, whose attributes then raise.\<close>

definition trader_order_send :: "'m trader_env \<Rightarrow> trade_request \<Rightarrow> ('m, send_result option) tcomp" where
  "trader_order_send ex rq =
     seq (modify (\<lambda>w. w\<lparr>lt_sent := lt_sent w @ [rq]\<rparr>)) (on_term (ta_order_send (te_api ex) rq))"

definition the_result :: "send_result option \<Rightarrow> ('s, send_result) comp" where
  "the_result r = (case r of None \<Rightarrow> throw AttributeError | Some x \<Rightarrow> ret x)"

definition dict_del :: "'k \<Rightarrow> ('k \<times> 'v) list \<Rightarrow> ('k \<times> 'v) list" where
  "dict_del k d = filter (\<lambda>(k', _). k' \<noteq> k) d"

lemma map_of_dict_del [simp]: "map_of (dict_del k d) k' = (if k' = k then None else map_of d k')"
  by (induction d) (auto simp: dict_del_def)

section \<open>Deployment modes\<close>

datatype DeploymentMode = SIMULATION | RESEARCH | PAPER | HUMAN_CONFIRMED | DEMO_SYSTEMATIC | LIVE_SYSTEMATIC

fun deployment_value :: "DeploymentMode \<Rightarrow> string" where
  "deployment_value SIMULATION = ''simulation''"
| "deployment_value RESEARCH = ''research''"
| "deployment_value PAPER = ''paper''"
| "deployment_value HUMAN_CONFIRMED = ''human_confirmed''"
| "deployment_value DEMO_SYSTEMATIC = ''demo_systematic''"
| "deployment_value LIVE_SYSTEMATIC = ''live_systematic''"

definition deployment_mode :: "deployment_cfg \<Rightarrow> DeploymentMode result" where
  "deployment_mode cfg =
     (let raw = get_or ''research'' (dc_mode cfg)
      in case find (\<lambda>m. deployment_value m = raw)
           [SIMULATION, RESEARCH, PAPER, HUMAN_CONFIRMED, DEMO_SYSTEMATIC, LIVE_SYSTEMATIC] of
           Some m \<Rightarrow> Inr m | None \<Rightarrow> Inl (ValueError ''not a valid DeploymentMode''))"

definition order_routing_allowed :: "deployment_cfg \<Rightarrow> string option \<Rightarrow> bool result" where
  "order_routing_allowed cfg confirmed_by =
     rbind (deployment_mode cfg) (\<lambda>m.
       if m \<in> {SIMULATION, RESEARCH, PAPER} then Inr False
       else if m = HUMAN_CONFIRMED \<and> falsy confirmed_by then Inr False
       else if m = LIVE_SYSTEMATIC \<and> falsy (dc_live_approval_id cfg) then Inr False
       else Inr True)"

text \<open>The capability decided at start; a mode the configuration does not know raises there.\<close>

definition order_routing_enabled :: "'m trader_env \<Rightarrow> bool" where
  "order_routing_enabled ex =
     (case order_routing_allowed (cf_deployment (te_cfg ex)) (Some ''startup-capability-check'') of Inr b \<Rightarrow> b | Inl _ \<Rightarrow> False)"

definition dry_run :: "'m trader_env \<Rightarrow> bool" where
  "dry_run ex \<longleftrightarrow> cf_dry_run_env (te_cfg ex) \<or> \<not> order_routing_enabled ex"

definition configured_execution_assets :: "'m trader_env \<Rightarrow> string list result" where
  "configured_execution_assets ex =
     (case cf_enabled_assets (te_cfg ex) of
        Some None \<Rightarrow> Inl (ValueError ''execution.enabled_assets must be a list, not null'')
      | Some (Some xs) \<Rightarrow> Inr xs
      | None \<Rightarrow> Inr (map fst (filter (\<lambda>(_, a). aa_enabled a) (cf_assets (te_cfg ex)))))"

definition execution_assets :: "'m trader_env \<Rightarrow> string list" where
  "execution_assets ex = (case configured_execution_assets ex of Inr xs \<Rightarrow> xs | Inl _ \<Rightarrow> [])"

section \<open>Tables by symbol\<close>

text \<open>Built once at start, one entry per broker symbol: the trigger of the early break-even and the
  multiplier of the trail. A number that is missing raises there; it never is.\<close>

definition asset_grid :: "'m trader_env \<Rightarrow> asset_cfg \<Rightarrow> string option \<Rightarrow> grid" where
  "asset_grid ex a regime =
     get_signal_grid (cf_labeling (te_cfg ex)) (cf_signal_grid (te_cfg ex)) (Some (aa_signal_grid a)) regime"

definition with_symbol :: "'m trader_env \<Rightarrow> (string \<times> asset_cfg) list" where
  "with_symbol ex = filter (\<lambda>(_, a). \<not> falsy (aa_mt5_symbol a)) (cf_assets (te_cfg ex))"

definition be_trigger_by_symbol :: "'m trader_env \<Rightarrow> (string \<times> rat) list" where
  "be_trigger_by_symbol ex = dict_update []
     (map (\<lambda>(_, a). (get_or [] (aa_mt5_symbol a),
        case grid_number (asset_grid ex a None) ''breakeven_trigger_atr'' 1 of Inr x \<Rightarrow> x | Inl _ \<Rightarrow> 1)) (with_symbol ex))"

definition trailing_atr_mult_by_symbol :: "'m trader_env \<Rightarrow> (string \<times> rat option) list" where
  "trailing_atr_mult_by_symbol ex = dict_update []
     (map (\<lambda>(_, a). (get_or [] (aa_mt5_symbol a),
        get_or None (map_of (asset_grid ex a None) ''trailing_atr_mult''))) (with_symbol ex))"

section \<open>Positions\<close>

text \<open>An error of the query becomes \<^verbatim>\<open>None\<close>; no position is the empty list.\<close>

definition positions_get_by_magic :: "'m trader_env \<Rightarrow> string option \<Rightarrow> ('m, position_raw list option) tcomp" where
  "positions_get_by_magic ex symbol =
     bnd (catch (on_term (ta_positions_get (te_api ex) symbol)) (\<lambda>_. Some (ret None)))
       (\<lambda>ps. ret (map_option (filter (\<lambda>p. pr_magic p = te_magic ex)) ps))"

section \<open>Files\<close>

text \<open>Writing a file moves it into place at the end, so a failed write leaves the old one.\<close>

definition save_management_state :: "'m trader_env \<Rightarrow> ('m, unit) tcomp" where
  "save_management_state ex =
     bnd (read_moment ex) (\<lambda>t. case at_disk t of
        DirectoryFails \<Rightarrow> throw OSError
      | WriteFails \<Rightarrow> ret ()
      | Writable \<Rightarrow> modify (\<lambda>w. w\<lparr>lt_saved := Stored (map (\<lambda>(k, v). (show_int k, v)) (lt_active w))\<rparr>))"

text \<open>The entries that are restored: those with a target and a key that reads as a ticket.\<close>

fun restored :: "(string \<times> trade) list \<Rightarrow> (int \<times> trade) list \<Rightarrow> (int \<times> trade) list" where
  "restored [] acc = acc"
| "restored ((k, v) # d) acc =
     restored d (if tr_tp1 v = None then acc else case parse_int k of None \<Rightarrow> acc | Some n \<Rightarrow> dict_put n v acc)"

definition load_management_state :: "('m, unit) tcomp" where
  "load_management_state =
     modify (\<lambda>w. case lt_saved w of Stored d \<Rightarrow> w\<lparr>lt_active := restored d []\<rparr> | _ \<Rightarrow> w)"

definition write_journal :: "'m trader_env \<Rightarrow> (string \<times> position_context) list \<Rightarrow> ('m, unit) tcomp" where
  "write_journal ex d =
     bnd (read_moment ex) (\<lambda>t. case at_disk t of
        Writable \<Rightarrow> modify (\<lambda>w. w\<lparr>lt_journal := Stored d\<rparr>) | _ \<Rightarrow> throw OSError)"

definition record_position_context :: "'m trader_env \<Rightarrow> int \<Rightarrow> string \<Rightarrow> live_signal \<Rightarrow> ('m, unit) tcomp" where
  "record_position_context ex ticket asset_key s =
     bnd (gets lt_journal) (\<lambda>file.
     bnd (read_moment ex) (\<lambda>t.
     let data = (case file of Stored d \<Rightarrow> d | _ \<Rightarrow> []);
         context = \<lparr>pc_asset_key = asset_key, pc_opened_at_utc = at_now t, pc_bias = ls_bias s,
           pc_confidence = ls_confidence s, pc_regime = ls_regime s, pc_reasoning_summary = ls_reasoning_summary s,
           pc_entry_zone = ls_entry_zone s, pc_invalidation = ls_invalidation s, pc_targets = ls_targets s,
           pc_session = ls_session s, pc_leg = ls_leg s\<rparr>
     in write_journal ex (dict_put (show_int ticket) context data)))"

definition purge_closed_position_context :: "'m trader_env \<Rightarrow> int \<Rightarrow> ('m, unit) tcomp" where
  "purge_closed_position_context ex ticket =
     bnd (gets lt_journal) (\<lambda>file. case file of
        Stored d \<Rightarrow> write_journal ex (dict_del (show_int ticket) d) | _ \<Rightarrow> ret ())"

definition reconcile_position_context :: "'m trader_env \<Rightarrow> int list \<Rightarrow> ('m, unit) tcomp" where
  "reconcile_position_context ex open_tickets =
     bnd (gets lt_journal) (\<lambda>file. case file of
        Stored d \<Rightarrow>
          let kept = filter (\<lambda>(k, _). k \<in> set (map show_int open_tickets)) d
          in if kept = d then ret () else write_journal ex kept
      | _ \<Rightarrow> ret ())"

section \<open>The event ledger\<close>

definition legacy_signal_id :: "string \<Rightarrow> contract \<Rightarrow> string" where
  "legacy_signal_id asset_key c =
     ''legacy:'' @ asset_key @ '':''
       @ (case ct_timestamp_utc c of None \<Rightarrow> ''0'' | Some None \<Rightarrow> ''None'' | Some (Some n) \<Rightarrow> show_int n)"

record event_info =
  ed_position_ticket :: "int option"
  ed_order_ticket :: "int option"
  ed_reason :: "string option"
  ed_payload :: jdict
  ed_actor :: string

definition event_details :: event_info where
  "event_details = \<lparr>ed_position_ticket = None, ed_order_ticket = None, ed_reason = None, ed_payload = [],
     ed_actor = ''mt5_trader''\<rparr>"

definition trade_event :: "'m trader_env \<Rightarrow> string \<Rightarrow> string \<Rightarrow> contract \<Rightarrow> event_info \<Rightarrow> event_args" where
  "trade_event ex event_type asset_key c d =
     \<lparr>ea_event_type = event_type, ea_signal_id = or_str (ct_signal_id c) (legacy_signal_id asset_key c),
      ea_asset_key = asset_key,
      ea_strategy_version = or_str (ct_strategy_version c) (cf_strategy_version (te_cfg ex)),
      ea_config_hash = or_str (ct_config_hash c) (cf_config_hash (te_cfg ex)), ea_actor = ed_actor d,
      ea_event_timestamp_utc = None, ea_model_hash = ct_model_hash c,
      ea_feature_snapshot_hash = ct_feature_snapshot_hash c, ea_position_ticket = ed_position_ticket d,
      ea_order_ticket = ed_order_ticket d, ea_reason = ed_reason d, ea_payload = ed_payload d,
      ea_event_id = None, ea_group_id = None, ea_leg_id = None, ea_source = None, ea_source_type = None,
      ea_source_id = None, ea_observed_at_utc_ms = None\<rparr>"

text \<open>A write that fails is logged and does not disturb the trader.\<close>

definition append_trade_event ::
  "'m trader_env \<Rightarrow> string \<Rightarrow> string \<Rightarrow> contract \<Rightarrow> event_info \<Rightarrow> ('m, unit) tcomp" where
  "append_trade_event ex event_type asset_key c d w =
     (let n = lt_reads w
      in (Inr (), w\<lparr>lt_reads := n + 1, lt_ledger := snd (append_trading_event (io_sha ex) (io_clock ex n) (io_uuid ex n)
            (trade_event ex event_type asset_key c d) (lt_ledger w))\<rparr>))"

section \<open>Start\<close>

text \<open>The checks of the constructor and the restart of the management state. A demo deployment, or one that
  asks for it, runs only on a demo account.\<close>

definition require_demo_account_cfg :: "'m trader_env \<Rightarrow> bool" where
  "require_demo_account_cfg ex \<longleftrightarrow>
     deployment_mode (cf_deployment (te_cfg ex)) = Inr DEMO_SYSTEMATIC \<or> get_or False (dc_require_demo_account (cf_deployment (te_cfg ex)))"

definition start_trader :: "'m trader_env \<Rightarrow> ('m, unit) tcomp" where
  "start_trader ex =
     bnd (lift_result (order_routing_allowed (cf_deployment (te_cfg ex)) (Some ''startup-capability-check''))) (\<lambda>enabled.
     seq (require (\<not> (enabled \<and> get_or True (dc_require_telegram_admin (cf_deployment (te_cfg ex))) \<and> \<not> cf_telegram_admin (te_cfg ex)))
       (RuntimeError ''Execution-capable deployment requires TELEGRAM_ADMIN_CHAT_ID''))
     (seq (if require_demo_account_cfg ex \<and> \<not> dry_run ex then
             bnd (on_term (ta_initialize (te_api ex))) (\<lambda>up.
             seq (require up (RuntimeError ''MT5 initialize failed''))
             (bnd (on_term (ta_is_demo (te_api ex))) (\<lambda>demo.
              require demo (RuntimeError ''Execution is locked''))))
           else ret ())
     (seq (lift_result (rbind (configured_execution_assets ex) (\<lambda>_. Inr ())))
      (seq (modify (\<lambda>w. w\<lparr>lt_active := [], lt_last_close_pnl := [], lt_streak_losses := [],
          lt_corr_matrix := [], lt_corr_last_update := 0, lt_blackout_flattened := False\<rparr>))
      load_management_state))))"

end
