(* ===== verification/Trader_Blackout.thy ===== *)
theory Trader_Blackout
  imports Trader_State
begin

text \<open>
  The hours in which the live trader is off: \<^verbatim>\<open>_init_blackout\<close>, \<^verbatim>\<open>_dow_utc\<close>, \<^verbatim>\<open>_blackout_status\<close> and
  \<^verbatim>\<open>_in_daily_break\<close> of \<^verbatim>\<open>execution/mt5_trader.py\<close>. A UTC datetime is its number of microseconds since the
  epoch, a Thursday; the manual halt is configured as such a number, \<open>None\<close> when its text does not parse.
  The weekly and the daily window are proved equal to intervals on a circle.
\<close>

section \<open>Datetimes\<close>

definition DAY :: int where "DAY = 86400000000"
definition MINUTE :: int where "MINUTE = 60000000"

text \<open>\<^verbatim>\<open>datetime.fromtimestamp(time.time(), tz=UTC)\<close>.\<close>

definition utc_now :: "moment \<Rightarrow> int" where
  "utc_now t = rhe (at_now t * 10 ^ 6)"

definition weekday :: "int \<Rightarrow> int" where
  "weekday n = (n div DAY + 3) mod 7"

definition minute_of_day :: "int \<Rightarrow> int" where
  "minute_of_day n = n mod DAY div MINUTE"

definition replace_time :: "int \<Rightarrow> int \<Rightarrow> int \<Rightarrow> int result" where
  "replace_time n h m =
     (if 0 \<le> h \<and> h < 24 \<and> 0 \<le> m \<and> m < 60 then Inr (n div DAY * DAY + (h * 60 + m) * MINUTE)
      else Inl (ValueError ''hour must be in 0..23''))"

fun split_on :: "char \<Rightarrow> string \<Rightarrow> string list" where
  "split_on x [] = [[]]"
| "split_on x (c # cs) =
     (if c = x then [] # split_on x cs else case split_on x cs of [] \<Rightarrow> [[c]] | t # ts \<Rightarrow> (c # t) # ts)"

text \<open>\<^verbatim>\<open>h, m = map(int, hm.split(":"))\<close>.\<close>

definition parse_hm :: "string \<Rightarrow> (int \<times> int) result" where
  "parse_hm hm =
     (case split_on CHR '':'' hm of
        [a, b] \<Rightarrow> rbind (to_int a) (\<lambda>h. rbind (to_int b) (\<lambda>m. Inr (h, m)))
      | _ \<Rightarrow> Inl (ValueError ''not enough values to unpack''))"

section \<open>The windows\<close>

record blackout =
  bk_enabled :: bool
  bk_daily_break :: "(string \<times> string) option"
  bk_weekend :: "int \<times> string \<times> int \<times> string"
  bk_flatten_minutes :: int
  bk_manual_until :: "int option"

definition init_blackout :: "blackout_cfg \<Rightarrow> blackout" where
  "init_blackout c =
     \<lparr>bk_enabled = get_or False (bo_enabled c),
      bk_daily_break = (case bo_daily_break_utc c of Some [a, b] \<Rightarrow> Some (a, b) | _ \<Rightarrow> None),
      bk_weekend = (get_or 4 (bo_start_dow c), get_or ''21:00'' (bo_start_utc c),
        get_or 0 (bo_end_dow c), get_or ''21:00'' (bo_end_utc c)),
      bk_flatten_minutes = get_or 10 (bo_flatten_before_minutes c), bk_manual_until = bo_manual_until c\<rparr>"

definition dow_utc :: "int \<Rightarrow> int \<Rightarrow> string \<Rightarrow> int result" where
  "dow_utc now dow hm =
     rbind (parse_hm hm) (\<lambda>(h, m).
     let d = now - (weekday now - dow) mod 7 * DAY in
     rbind (replace_time d h m) (\<lambda>cand. Inr (if cand > now then cand - 7 * DAY else cand)))"

datatype halt_reason = ManualHalt int | WeekendBlackout int string int string

text \<open>The first day after the start that has the weekday of the end; without one the window is empty.\<close>

definition weekend_end :: "int \<Rightarrow> int \<Rightarrow> string \<Rightarrow> int result" where
  "weekend_end start e_dow e_utc =
     (case find (\<lambda>k. weekday (start + k * DAY) = e_dow) [1, 2, 3, 4, 5, 6, 7] of
        None \<Rightarrow> Inr start
      | Some k \<Rightarrow> rbind (parse_hm e_utc) (\<lambda>(h, m). replace_time (start + k * DAY) h m))"

definition weekend_status :: "blackout \<Rightarrow> int \<Rightarrow> (bool \<times> halt_reason option \<times> int option) result" where
  "weekend_status bk now =
     (case bk_weekend bk of (s_dow, s_utc, e_dow, e_utc) \<Rightarrow>
        rbind (dow_utc now s_dow s_utc) (\<lambda>start.
        rbind (weekend_end start e_dow e_utc) (\<lambda>stop.
        if start \<le> now \<and> now < stop then Inr (True, Some (WeekendBlackout s_dow s_utc e_dow e_utc), Some stop)
        else Inr (False, None, None))))"

definition blackout_status :: "blackout \<Rightarrow> int \<Rightarrow> (bool \<times> halt_reason option \<times> int option) result" where
  "blackout_status bk now =
     (if \<not> bk_enabled bk then Inr (False, None, None)
      else case bk_manual_until bk of
        Some until \<Rightarrow>
          if now < until then Inr (True, Some (ManualHalt until), Some until) else weekend_status bk now
      | None \<Rightarrow> weekend_status bk now)"

definition in_daily_break :: "blackout \<Rightarrow> int \<Rightarrow> bool result" where
  "in_daily_break bk now =
     (case bk_daily_break bk of
        Some (a, b) \<Rightarrow>
          if \<not> bk_enabled bk then Inr False
          else rbind (parse_hm a) (\<lambda>(h, m). rbind (parse_hm b) (\<lambda>(h2, m2).
            let start = h * 60 + m; stop = h2 * 60 + m2; t = minute_of_day now in
            Inr (if stop \<le> start then t \<ge> start \<or> t < stop else start \<le> t \<and> t < stop)))
      | None \<Rightarrow> Inr False)"

section \<open>Reference windows\<close>

text \<open>The position in the week that starts on Monday, and the time since the window opened.\<close>

definition WEEK :: int where "WEEK = 7 * DAY"

definition week_pos :: "int \<Rightarrow> int" where
  "week_pos n = (n + 3 * DAY) mod WEEK"

definition since_opening :: "int \<Rightarrow> int \<Rightarrow> int \<Rightarrow> int" where
  "since_opening now dow time = (week_pos now - (dow * DAY + time)) mod WEEK"

definition window_length :: "int \<Rightarrow> int \<Rightarrow> int \<Rightarrow> int \<Rightarrow> int" where
  "window_length s_dow s_time e_dow e_time = ((e_dow - s_dow - 1) mod 7 + 1) * DAY + e_time - s_time"

lemma DAY_pos [simp]: "0 < DAY" "DAY \<noteq> 0" by (simp_all add: DAY_def)

lemma week_pos_weekday: "week_pos n = weekday n * DAY + n mod DAY"
proof -
  have "(n + 3 * DAY) mod (DAY * 7) = DAY * ((n + 3 * DAY) div DAY mod 7) + (n + 3 * DAY) mod DAY"
    by (rule zmod_zmult2_eq) simp
  then show ?thesis by (simp add: week_pos_def weekday_def WEEK_def mult.commute add.commute)
qed

lemma same_day_plus: "(n + k * DAY) div DAY * DAY = n - n mod DAY + k * DAY"
  by (simp add: distrib_right minus_mod_eq_div_mult)

lemma same_day: "(n - k * DAY) div DAY * DAY = n - n mod DAY - k * DAY"
  using same_day_plus [of n "- k"] by simp

lemma mod_once:
  assumes "- w \<le> x" and "x < (w :: int)"
  shows "x mod w = (if x < 0 then x + w else x)"
proof (cases "x < 0")
  case True
  then have "(x + w) mod w = x + w" using assms by (intro mod_pos_pos_trivial) auto
  then show ?thesis using True by simp
qed (use assms in simp)

lemma replace_time_Inr: "replace_time n h m = Inr x \<longleftrightarrow>
    0 \<le> h \<and> h < 24 \<and> 0 \<le> m \<and> m < 60 \<and> x = n div DAY * DAY + (h * 60 + m) * MINUTE"
  by (auto simp: replace_time_def)

lemma dow_utc_start:
  assumes "parse_hm hm = Inr (h, m)" and "0 \<le> h" "h < 24" "0 \<le> m" "m < 60"
  shows "dow_utc now dow hm = Inr (now - since_opening now dow ((h * 60 + m) * MINUTE))"
proof -
  let ?t = "(h * 60 + m) * MINUTE" and ?k = "(weekday now - dow) mod 7" and ?r = "now mod DAY"
  have time: "0 \<le> ?t" "?t < DAY" using assms(2-5) by (auto simp: MINUTE_def DAY_def)
  have r: "0 \<le> ?r" "?r < DAY" by simp_all
  have k: "0 \<le> ?k" "?k < 7" by simp_all
  have "since_opening now dow ?t = (?k * DAY + ?r - ?t) mod WEEK"
  proof -
    have "?k * DAY + ?r - ?t = (week_pos now - (dow * DAY + ?t)) - (weekday now - dow) div 7 * WEEK"
      unfolding week_pos_weekday WEEK_def minus_div_mult_eq_mod [symmetric] by (simp add: algebra_simps)
    then show ?thesis unfolding since_opening_def
      by (metis (no_types) mod_mult_self2 mult.commute diff_add_cancel)
  qed
  also have "\<dots> = (if ?k * DAY + ?r - ?t < 0 then ?k * DAY + ?r - ?t + WEEK else ?k * DAY + ?r - ?t)"
  proof (rule mod_once)
    have "0 \<le> ?k * DAY" "?k * DAY \<le> 6 * DAY"
      using k by (simp_all add: mult_right_mono less_imp_le del: pos_mod_bound)
    then show "- WEEK \<le> ?k * DAY + ?r - ?t" "?k * DAY + ?r - ?t < WEEK"
      using time r DAY_pos(1) unfolding WEEK_def by linarith+
  qed
  finally have s: "since_opening now dow ?t = \<dots>" .
  show ?thesis
    unfolding s using assms by (auto simp: dow_utc_def replace_time_def WEEK_def Let_def same_day)
qed

lemma weekend_end_found:
  assumes "0 \<le> e_dow" "e_dow < 7" and "parse_hm hm = Inr (h, m)" and "0 \<le> h" "h < 24" "0 \<le> m" "m < 60"
  shows "weekend_end start e_dow hm
    = Inr (start - start mod DAY + ((e_dow - weekday start - 1) mod 7 + 1) * DAY + (h * 60 + m) * MINUTE)"
proof -
  let ?k = "(e_dow - weekday start - 1) mod 7 + 1"
  have day: "weekday (start + j * DAY) = (weekday start + j) mod 7" for j
    by (simp add: weekday_def mod_simps algebra_simps)
  have "find (\<lambda>k. weekday (start + k * DAY) = e_dow) [1, 2, 3, 4, 5, 6, 7] = Some ?k"
  proof -
    have week: "x \<in> {0, 1, 2, 3, 4, 5, 6}" if "0 \<le> x" "x < 7" for x :: int
      using that by (simp, presburger)
    have "weekday start \<in> {0, 1, 2, 3, 4, 5, 6}" by (rule week) (simp_all add: weekday_def)
    moreover have "e_dow \<in> {0, 1, 2, 3, 4, 5, 6}" using assms(1,2) by (rule week)
    ultimately show ?thesis unfolding day by (elim insertE emptyE) simp_all
  qed
  then show ?thesis
    unfolding weekend_end_def using assms(3-7) by (simp only: option.case rbind_simps prod.case replace_time_def simp_thms if_True
      same_day_plus)
qed

section \<open>The windows are intervals\<close>

text \<open>C39. The weekend halt is a weekly interval: with a valid configuration and no manual halt, the trader
  is halted exactly when less than the length of the window has passed since it last opened, counted on the
  circle of the week, and it then resumes when the window closes.\<close>

theorem weekend_blackout_is_weekly_window:
  assumes cfg: "bk_enabled bk" "bk_weekend bk = (s_dow, s_utc, e_dow, e_utc)"
    and manual: "\<And>until. bk_manual_until bk = Some until \<Longrightarrow> until \<le> now"
    and days: "0 \<le> s_dow" "s_dow < 7" "0 \<le> e_dow" "e_dow < 7"
    and s: "parse_hm s_utc = Inr (h, m)" "0 \<le> h" "h < 24" "0 \<le> m" "m < 60"
    and e: "parse_hm e_utc = Inr (h2, m2)" "0 \<le> h2" "h2 < 24" "0 \<le> m2" "m2 < 60"
  shows "blackout_status bk now =
    (let since = since_opening now s_dow ((h * 60 + m) * MINUTE);
         len = window_length s_dow ((h * 60 + m) * MINUTE) e_dow ((h2 * 60 + m2) * MINUTE)
     in if since < len then Inr (True, Some (WeekendBlackout s_dow s_utc e_dow e_utc), Some (now - since + len))
        else Inr (False, None, None))"
proof -
  let ?s = "(h * 60 + m) * MINUTE" and ?e = "(h2 * 60 + m2) * MINUTE"
  let ?since = "since_opening now s_dow ?s"
  let ?start = "now - ?since"
  have time: "0 \<le> ?s" "?s < DAY" using s(2-5) by (auto simp: MINUTE_def DAY_def)
  have nonneg: "0 \<le> ?since" by (simp add: since_opening_def WEEK_def DAY_def)
  have A: "0 \<le> s_dow * DAY + ?s" "s_dow * DAY + ?s < WEEK"
  proof -
    have "0 \<le> s_dow * DAY" "s_dow * DAY \<le> 6 * DAY" using days(1,2) less_imp_le [OF DAY_pos(1)] by (auto intro!: mult_nonneg_nonneg mult_right_mono simp del: mult_le_cancel_right)
    then show "0 \<le> s_dow * DAY + ?s" "s_dow * DAY + ?s < WEEK" using time unfolding WEEK_def by linarith+
  qed
  have "week_pos ?start = (now + 3 * DAY - (now + 3 * DAY - (s_dow * DAY + ?s)) mod WEEK) mod WEEK"
    by (simp add: week_pos_def since_opening_def mod_diff_left_eq algebra_simps)
  also have "\<dots> = s_dow * DAY + ?s" using A by (simp add: mod_diff_right_eq)
  finally have pos: "weekday ?start * DAY + ?start mod DAY = s_dow * DAY + ?s" by (simp only: week_pos_weekday)
  have parts: "(a * DAY + b) div DAY = a \<and> (a * DAY + b) mod DAY = b" if "0 \<le> b" "b < DAY" for a b
    using that by simp
  have day: "weekday ?start = s_dow" "?start mod DAY = ?s"
    using parts [of "?start mod DAY" "weekday ?start"] parts [OF time, of s_dow] pos
    by (metis DAY_pos(1) pos_mod_bound pos_mod_sign)+
  have "weekend_end ?start e_dow e_utc = Inr (?start + window_length s_dow ?s e_dow ?e)"
    using weekend_end_found [OF days(3,4) e, of ?start] unfolding day window_length_def
    by (simp add: algebra_simps)
  then have "weekend_status bk now = (if ?since < window_length s_dow ?s e_dow ?e
      then Inr (True, Some (WeekendBlackout s_dow s_utc e_dow e_utc), Some (?start + window_length s_dow ?s e_dow ?e))
      else Inr (False, None, None))"
    using nonneg by (auto simp: weekend_status_def cfg dow_utc_start [OF s])
  then show ?thesis
    using manual by (auto simp: blackout_status_def cfg Let_def split: option.split)
qed

theorem weekend_blackout_is_weekly_window_witness:
  "blackout_status \<lparr>bk_enabled = True, bk_daily_break = None, bk_weekend = (4, ''21:00'', 6, ''21:00''),
     bk_flatten_minutes = 10, bk_manual_until = None\<rparr> (2 * DAY)
   = Inr (True, Some (WeekendBlackout 4 ''21:00'' 6 ''21:00''), Some (4 * DAY - 180 * MINUTE))"
proof -
  have hm: "parse_hm ''21:00'' = Inr (21, 0)" by code_simp
  show ?thesis
    using weekend_blackout_is_weekly_window [of "\<lparr>bk_enabled = True, bk_daily_break = None,
        bk_weekend = (4, ''21:00'', 6, ''21:00''), bk_flatten_minutes = 10, bk_manual_until = None\<rparr>" 4 "''21:00''" 6 "''21:00''"
        "2 * DAY" 21 0 21 0]
    by (simp add: hm since_opening_def week_pos_def window_length_def WEEK_def DAY_def MINUTE_def)
qed

text \<open>The nightly break is a daily interval: with two valid times the trader is in the break exactly when
  less than the length of the break has passed since its start, counted on the circle of the day in minutes;
  two equal times mean the whole day.\<close>

theorem daily_break_is_daily_window:
  assumes "bk_enabled bk" and "bk_daily_break bk = Some (a, b)"
    and "parse_hm a = Inr (h, m)" "0 \<le> h" "h < 24" "0 \<le> m" "m < 60"
    and "parse_hm b = Inr (h2, m2)" "0 \<le> h2" "h2 < 24" "0 \<le> m2" "m2 < 60"
  shows "in_daily_break bk now =
    (let start = h * 60 + m; stop = h2 * 60 + m2
     in Inr (start = stop \<or> (minute_of_day now - start) mod 1440 < (stop - start) mod 1440))"
proof -
  let ?t = "minute_of_day now" and ?s = "h * 60 + m" and ?e = "h2 * 60 + m2"
  have t: "0 \<le> ?t" "?t < 1440"
    by (simp_all add: minute_of_day_def MINUTE_def DAY_def pos_imp_zdiv_nonneg_iff) 
  have range: "0 \<le> ?s" "?s < 1440" "0 \<le> ?e" "?e < 1440" using assms by auto
  have "(?t - ?s) mod 1440 = (if ?t - ?s < 0 then ?t - ?s + 1440 else ?t - ?s)"
    "(?e - ?s) mod 1440 = (if ?e - ?s < 0 then ?e - ?s + 1440 else ?e - ?s)"
    using t range by (intro mod_once; linarith)+
  then show ?thesis using t range by (auto simp: in_daily_break_def assms Let_def) (use range in linarith)+
qed

theorem daily_break_is_daily_window_witness:
  "in_daily_break \<lparr>bk_enabled = True, bk_daily_break = Some (''22:00'', ''08:00''), bk_weekend = (4, [], 6, []),
     bk_flatten_minutes = 10, bk_manual_until = None\<rparr> (23 * 60 * MINUTE) = Inr True"
proof -
  have hm: "parse_hm ''22:00'' = Inr (22, 0)" "parse_hm ''08:00'' = Inr (8, 0)" by code_simp+
  show ?thesis
    using daily_break_is_daily_window [of "\<lparr>bk_enabled = True, bk_daily_break = Some (''22:00'', ''08:00''),
        bk_weekend = (4, [], 6, []), bk_flatten_minutes = 10, bk_manual_until = None\<rparr>" "''22:00''" "''08:00''"
        22 0 8 0 "23 * 60 * MINUTE"]
    by (simp add: hm minute_of_day_def DAY_def MINUTE_def)
qed

end
