(* ===== verification/Trader_Sizing.thy ===== *)
theory Trader_Sizing
  imports Trader_State
begin

text \<open>
  Prices and volumes of the live trader that the broker must accept: \<^verbatim>\<open>_normalize_stops\<close>,
  \<^verbatim>\<open>_normalize_tp_level\<close>, \<^verbatim>\<open>_get_min_dist\<close>, \<^verbatim>\<open>_be_min_dist\<close>, \<^verbatim>\<open>_scaleout_volume\<close> and \<^verbatim>\<open>_leg_volumes\<close> of
  \<^verbatim>\<open>execution/mt5_trader.py\<close>, in the float arithmetic of the source.
\<close>

section \<open>Prices\<close>

definition get_min_dist :: "quote \<Rightarrow> instrument \<Rightarrow> rat" where
  "get_min_dist tick info =
     max (max (fmul (of_int (ins_stops_level info)) (ins_point info)) (fmul (of_int (ins_freeze_level info)) (ins_point info)))
       (fadd \<bar>fsub (qt_ask tick) (qt_bid tick)\<bar> (fmul 30 (ins_point info)))"

definition be_min_dist :: "instrument \<Rightarrow> rat" where
  "be_min_dist info = fmul (of_int (max (ins_stops_level info) (ins_freeze_level info))) (ins_point info)"

text \<open>\<^verbatim>\<open>10**-digits\<close>.\<close>

definition tick_size :: "nat \<Rightarrow> rat" where
  "tick_size digits = fl (1 / 10 ^ digits)"

text \<open>The distance in whole points, at least thirty above the spread; a zero point divides by zero.\<close>

definition min_dist :: "quote \<Rightarrow> instrument \<Rightarrow> rat result" where
  "min_dist tick info =
     (if ins_point info = 0 then Inl ZeroDivisionError
      else let spread_points = rhe (fdiv \<bar>fsub (qt_ask tick) (qt_bid tick)\<bar> (ins_point info))
           in Inr (fmul (of_int (max (max (ins_stops_level info) (ins_freeze_level info)) (spread_points + 30)))
                (ins_point info)))"

text \<open>\<^verbatim>\<open>round(round(x / point) * point, digits)\<close>.\<close>

definition on_grid :: "instrument \<Rightarrow> rat \<Rightarrow> rat" where
  "on_grid info x = py_round (fmul (of_int (rhe (fdiv x (ins_point info)))) (ins_point info)) (ins_digits info)"

definition normalized_stops :: "quote \<Rightarrow> instrument \<Rightarrow> string \<Rightarrow> rat \<Rightarrow> rat \<Rightarrow> (rat \<times> rat) result" where
  "normalized_stops tick info side raw_sl raw_tp =
     rbind (min_dist tick info) (\<lambda>d.
       Inr (if side = ''long''
            then (on_grid info (min raw_sl (fsub (qt_bid tick) d)), on_grid info (max raw_tp (fadd (qt_ask tick) d)))
            else (on_grid info (max raw_sl (fadd (qt_ask tick) d)), on_grid info (min raw_tp (fsub (qt_bid tick) d)))))"

definition normalized_tp_level :: "quote \<Rightarrow> instrument \<Rightarrow> string \<Rightarrow> rat \<Rightarrow> rat result" where
  "normalized_tp_level tick info side raw_tp =
     rbind (min_dist tick info) (\<lambda>d.
       Inr (on_grid info (if side = ''long'' then max raw_tp (fadd (qt_ask tick) d)
                          else min raw_tp (fsub (qt_bid tick) d))))"

text \<open>The symbol and its tick, which both calls read; \<open>None\<close> when one is missing.\<close>

definition symbol_market :: "'m trader_env \<Rightarrow> string \<Rightarrow> ('m, (quote \<times> instrument) option) tcomp" where
  "symbol_market ex symbol =
     bnd (on_term (ta_symbol_info_tick (te_api ex) symbol)) (\<lambda>tick.
     bnd (on_term (ta_symbol_info (te_api ex) symbol)) (\<lambda>info.
     ret (case (tick, info) of (Some t, Some i) \<Rightarrow> Some (t, i) | _ \<Rightarrow> None)))"

text \<open>The normalizing methods read the symbol before its tick.\<close>

definition market_info_first :: "'m trader_env \<Rightarrow> string \<Rightarrow> ('m, quote \<times> instrument) tcomp" where
  "market_info_first ex symbol =
     bnd (on_term (ta_symbol_info (te_api ex) symbol)) (\<lambda>info.
     bnd (on_term (ta_symbol_info_tick (te_api ex) symbol)) (\<lambda>tick.
     case (tick, info) of (Some t, Some i) \<Rightarrow> ret (t, i) | _ \<Rightarrow> throw (RuntimeError ''symbol_info failed'')))"

definition normalize_stops :: "'m trader_env \<Rightarrow> string \<Rightarrow> string \<Rightarrow> rat \<Rightarrow> rat \<Rightarrow> ('m, rat \<times> rat) tcomp" where
  "normalize_stops ex symbol side raw_sl raw_tp =
     bnd (market_info_first ex symbol) (\<lambda>(tick, info). lift_result (normalized_stops tick info side raw_sl raw_tp))"

definition normalize_tp_level :: "'m trader_env \<Rightarrow> string \<Rightarrow> string \<Rightarrow> rat \<Rightarrow> ('m, rat) tcomp" where
  "normalize_tp_level ex symbol side raw_tp =
     bnd (market_info_first ex symbol) (\<lambda>(tick, info). lift_result (normalized_tp_level tick info side raw_tp))"

section \<open>Volumes\<close>

definition volume_step :: "instrument \<Rightarrow> rat" where
  "volume_step info = or_num (ins_volume_step info) (fl (1 / 100))"

definition min_lot :: "instrument \<Rightarrow> rat" where
  "min_lot info = or_num (ins_volume_min info) (volume_step info)"

text \<open>\<^verbatim>\<open>math.floor(x / step) * step\<close>.\<close>

definition floor_lots :: "rat \<Rightarrow> rat \<Rightarrow> rat" where
  "floor_lots x step = fmul (of_int \<lfloor>fdiv x step\<rfloor>) step"

definition scaleout_volume :: "instrument \<Rightarrow> rat \<Rightarrow> rat \<Rightarrow> rat" where
  "scaleout_volume info original_volume ratio =
     (let tranche = floor_lots (fmul original_volume ratio) (volume_step info)
      in if tranche < fsub (min_lot info) (fl (1 / 10 ^ 9)) \<or> tranche \<le> 0 then 0 else py_round tranche 6)"

definition trader_leg_volumes :: "rat \<Rightarrow> instrument \<Rightarrow> rat list" where
  "trader_leg_volumes volume info =
     (let each = floor_lots (fdiv volume 3) (volume_step info)
      in [py_round each 6, py_round each 6, py_round (fsub volume (fmul 2 each)) 8])"

section \<open>Monotonicity of the price grid\<close>

lemma on_grid_mono: "0 < ins_point info \<Longrightarrow> x \<le> y \<Longrightarrow> on_grid info x \<le> on_grid info y"
  unfolding on_grid_def fdiv_def
  by (intro py_round_mono fmul_mono) (auto intro!: rhe_mono fl.mono divide_right_mono)

lemma min_dist_nonneg:
  assumes "min_dist tick info = Inr d" and "0 < ins_point info"
  shows "0 \<le> d"
proof -
  have "0 \<le> rhe (fdiv \<bar>fsub (qt_ask tick) (qt_bid tick)\<bar> (ins_point info))"
    using assms(2) by (intro rhe_ge_int) (simp add: fdiv_nonneg)
  then show ?thesis using assms by (auto simp: min_dist_def Let_def split: if_splits intro!: fmul_nonneg)
qed

section \<open>What the broker gets\<close>

text \<open>C38. Normalized stops respect the broker's distance: for a long order the stop is not above the price
  grid's level at the minimum distance under the bid, nor above the stop that was asked for, the target is
  not under the level at the minimum distance over the ask, nor under the target asked for, and the stop is
  not above the target; for a short order the mirror image holds. Every float rounding is included.\<close>

theorem normalized_stops_keep_their_distance:
  assumes stops: "normalized_stops tick info side raw_sl raw_tp = Inr (sl, tp)" and d: "min_dist tick info = Inr d"
    and point: "0 < ins_point info" and spread: "qt_bid tick \<le> qt_ask tick"
  shows "if side = ''long''
    then sl \<le> on_grid info (fsub (qt_bid tick) d) \<and> sl \<le> on_grid info raw_sl
      \<and> on_grid info (fadd (qt_ask tick) d) \<le> tp \<and> on_grid info raw_tp \<le> tp \<and> sl \<le> tp
    else on_grid info (fadd (qt_ask tick) d) \<le> sl \<and> on_grid info raw_sl \<le> sl
      \<and> tp \<le> on_grid info (fsub (qt_bid tick) d) \<and> tp \<le> on_grid info raw_tp \<and> tp \<le> sl"
proof -
  have "fsub (qt_bid tick) d \<le> fadd (qt_ask tick) d"
    unfolding fsub_def fadd_def using min_dist_nonneg [OF d point] spread by (intro fl.mono) simp
  then show ?thesis
    using stops by (auto simp: normalized_stops_def d intro!: on_grid_mono [OF point])
qed

definition demo_instrument :: instrument where
  "demo_instrument = \<lparr>ins_digits = 0, ins_point = 1, ins_stops_level = 10, ins_freeze_level = 0,
     ins_volume_step = Some (1 / 4), ins_volume_min = Some (1 / 4)\<rparr>"

definition demo_quote :: quote where
  "demo_quote = \<lparr>qt_bid = 2000, qt_ask = 2002\<rparr>"

lemma demo_min_dist: "min_dist demo_quote demo_instrument = Inr 32"
  by (simp add: min_dist_def demo_quote_def demo_instrument_def fsub_def fdiv_def fmul_def)

lemma demo_stops: "normalized_stops demo_quote demo_instrument ''long'' 1990 2004 = Inr (1968, 2034)"
  by (simp add: normalized_stops_def demo_min_dist)
    (simp add: demo_quote_def demo_instrument_def on_grid_def fadd_def fsub_def fdiv_def fmul_def py_round_def)

theorem normalized_stops_keep_their_distance_witness:
  "(1968 :: rat) \<le> on_grid demo_instrument (fsub 2000 32) \<and> on_grid demo_instrument (fadd 2002 32) \<le> 2034"
  using normalized_stops_keep_their_distance [OF demo_stops demo_min_dist]
  by (simp add: demo_instrument_def demo_quote_def)

text \<open>A volume whose third is under one lot step goes to the third leg alone: the first two legs are
  zero, and the third is the whole volume, rounded to eight digits only. It is neither a multiple of the lot
  step nor checked against the minimum: the leg is sent although the method is documented to report legs
  under the minimum as zero.\<close>

theorem small_volume_goes_to_third_leg:
  assumes "0 \<le> fdiv (fdiv volume 3) (volume_step info)" and "fdiv (fdiv volume 3) (volume_step info) < 1"
  shows "trader_leg_volumes volume info = [0, 0, py_round (fl volume) 8]"
proof -
  have "\<lfloor>fdiv (fdiv volume 3) (volume_step info)\<rfloor> = 0" using assms by (simp add: floor_eq_iff)
  then show ?thesis by (simp add: trader_leg_volumes_def floor_lots_def fmul_def fsub_def)
qed

lemma demo_small_volume: "fdiv (fdiv (1 / 8) 3) (1 / 4) < 1" "0 \<le> fdiv (fdiv (1 / 8) 3) (1 / 4)" "py_round (fl (1 / 8)) 8 = 1 / 8"
  by code_simp+

theorem small_volume_goes_to_third_leg_witness:
  "trader_leg_volumes (1 / 8) demo_instrument = [0, 0, 1 / 8] \<and> 1 / 8 < min_lot demo_instrument"
  using small_volume_goes_to_third_leg [of "1 / 8" demo_instrument] demo_small_volume
  by (simp add: volume_step_def min_lot_def or_num_def demo_instrument_def)

end
