(* ===== verification/Trader_Management.thy ===== *)
theory Trader_Management
  imports Trader_Sizing
begin

text \<open>
  How the live trader manages open positions, \<^verbatim>\<open>check_and_move_breakeven\<close> of \<^verbatim>\<open>execution/mt5_trader.py\<close>: the
  modification of a stop and the partial close, the early break-even, the break-even of the later legs, the
  profit trail, the partial-close ladder of single positions, and the detector of closed positions. The
  dict \<open>trade_data\<close> of a position is the entry of the trader's state and is changed there. The map
  \<^verbatim>\<open>be_state\<close> of the source is never written and is left out; the set of vanished tickets is visited in the
  order of \<open>lt_active\<close>.
\<close>

section \<open>Trades\<close>

definition trade_of :: "int \<Rightarrow> 'm trader \<Rightarrow> trade option" where
  "trade_of ticket w = map_of (lt_active w) ticket"

definition update_trade :: "int \<Rightarrow> (trade \<Rightarrow> trade) \<Rightarrow> ('m, unit) tcomp" where
  "update_trade ticket f =
     modify (\<lambda>w. w\<lparr>lt_active := map (\<lambda>(k, v). (k, if k = ticket then f v else v)) (lt_active w)\<rparr>)"

text \<open>The asset and the identifiers under which an event on a position is written.\<close>

definition asset_of :: "position_raw \<Rightarrow> trade option \<Rightarrow> string" where
  "asset_of pos t = get_or (pr_symbol pos) (map_option tr_symbol t)"

definition contract_of :: "trade option \<Rightarrow> contract" where
  "contract_of t = get_or no_contract (Option.bind t tr_contract)"

section \<open>Requests\<close>

definition modify_request :: "'m trader_env \<Rightarrow> position_raw \<Rightarrow> rat \<Rightarrow> rat \<Rightarrow> trade_request" where
  "modify_request ex pos new_sl new_tp =
     \<lparr>rq_action = ACTION_SLTP (te_api ex), rq_position = Some (pr_ticket pos), rq_symbol = pr_symbol pos,
      rq_volume = None, rq_type = None, rq_price = None, rq_deviation = None, rq_magic = None,
      rq_comment = None, rq_type_time = None, rq_type_filling = None, rq_sl = Some new_sl, rq_tp = Some new_tp\<rparr>"

definition trader_modify_sl_tp :: "'m trader_env \<Rightarrow> position_raw \<Rightarrow> rat \<Rightarrow> rat \<Rightarrow> ('m, bool) tcomp" where
  "trader_modify_sl_tp ex pos new_sl new_tp =
     (if dry_run ex then ret True
      else bnd (gets (trade_of (pr_ticket pos))) (\<lambda>t.
        let event = (\<lambda>et d. append_trade_event ex et (asset_of pos t) (contract_of t)
              (d\<lparr>ed_position_ticket := Some (pr_ticket pos)\<rparr>)) in
        seq (event ''stop_move_requested'' (event_details\<lparr>ed_payload :=
          [(''old_sl'', JFloat (pr_sl pos)), (''new_sl'', JFloat new_sl), (''old_tp'', JFloat (pr_tp pos)),
           (''new_tp'', JFloat new_tp)]\<rparr>))
       (bnd (trader_order_send ex (modify_request ex pos new_sl new_tp)) (\<lambda>r. bnd (the_result r) (\<lambda>res.
        if sr_retcode res = RETCODE_DONE (te_api ex) then
          seq (event ''stop_move_confirmed'' (event_details\<lparr>ed_reason := Some ''broker_confirmed'',
            ed_payload := [(''new_sl'', JFloat new_sl), (''new_tp'', JFloat new_tp)]\<rparr>)) (ret True)
        else
          seq (event ''stop_move_rejected'' (event_details\<lparr>ed_reason := Some (sr_comment res),
            ed_payload := [(''retcode'', JInt (sr_retcode res))]\<rparr>)) (ret False))))))"

definition close_order :: "'m trader_env \<Rightarrow> position_raw \<Rightarrow> rat \<Rightarrow> rat \<Rightarrow> string \<Rightarrow> trade_request" where
  "close_order ex pos price volume label =
     \<lparr>rq_action = ACTION_DEAL (te_api ex), rq_position = Some (pr_ticket pos), rq_symbol = pr_symbol pos,
      rq_volume = Some volume,
      rq_type = Some (if pr_type pos = 0 then TYPE_SELL (te_api ex) else TYPE_BUY (te_api ex)),
      rq_price = Some price, rq_deviation = Some 20, rq_magic = Some (te_magic ex),
      rq_comment = Some (label @ '' close''), rq_type_time = Some (TIME_GTC (te_api ex)),
      rq_type_filling = Some (FILLING_IOC (te_api ex)), rq_sl = None, rq_tp = None\<rparr>"

definition close_partial_position ::
  "'m trader_env \<Rightarrow> position_raw \<Rightarrow> rat \<Rightarrow> rat \<Rightarrow> string \<Rightarrow> bool \<Rightarrow> ('m, bool) tcomp" where
  "close_partial_position ex pos price volume label quiet_market_closed =
     (if dry_run ex then ret True
      else bnd (gets (trade_of (pr_ticket pos))) (\<lambda>t.
        let event = (\<lambda>et d. append_trade_event ex et (asset_of pos t) (contract_of t)
              (d\<lparr>ed_position_ticket := Some (pr_ticket pos)\<rparr>)) in
        seq (event ''partial_close_submitted'' (event_details\<lparr>ed_reason := Some label,
          ed_payload := [(''price'', JFloat price), (''volume'', JFloat volume)]\<rparr>))
       (bnd (trader_order_send ex (close_order ex pos price volume label)) (\<lambda>r. bnd (the_result r) (\<lambda>res.
        if sr_retcode res = RETCODE_DONE (te_api ex) then
          seq (event ''partial_filled'' (event_details\<lparr>ed_order_ticket := Some (sr_order res), ed_reason := Some label,
            ed_payload := [(''requested_price'', JFloat price), (''filled_price'', JFloat (sr_price res)),
              (''volume'', JFloat volume)]\<rparr>)) (ret True)
        else if quiet_market_closed \<and> sr_retcode res = get_or 10018 (RETCODE_MARKET_CLOSED (te_api ex)) then ret False
        else
          seq (event ''partial_rejected'' (event_details\<lparr>ed_reason := Some (sr_comment res),
            ed_payload := [(''retcode'', JInt (sr_retcode res)), (''label'', JStr label)]\<rparr>)) (ret False))))))"

section \<open>Break-even\<close>

text \<open>The stop wanted, the closest one the broker allows, and the one sent; for a long and a short position.\<close>

definition entry_stop :: "position_raw \<Rightarrow> rat \<Rightarrow> nat \<Rightarrow> rat" where
  "entry_stop pos anchor digits =
     (if pr_type pos = 0 then py_round (fadd anchor (tick_size digits)) digits
      else py_round (fsub anchor (tick_size digits)) digits)"

definition closest_stop :: "position_raw \<Rightarrow> quote \<Rightarrow> instrument \<Rightarrow> rat" where
  "closest_stop pos tick info =
     (if pr_type pos = 0 then py_round (fsub (qt_ask tick) (be_min_dist info)) (ins_digits info)
      else py_round (fadd (qt_bid tick) (be_min_dist info)) (ins_digits info))"

definition clamped_stop :: "position_raw \<Rightarrow> rat \<Rightarrow> rat \<Rightarrow> bool" where
  "clamped_stop pos target nearest \<longleftrightarrow> (if pr_type pos = 0 then nearest < target else target < nearest)"

text \<open>Whether a stop is no improvement on the current one; a stop 0 is none.\<close>

definition no_better :: "position_raw \<Rightarrow> rat \<Rightarrow> bool" where
  "no_better pos sl \<longleftrightarrow> 0 < pr_sl pos \<and> (if pr_type pos = 0 then sl \<le> pr_sl pos else pr_sl pos \<le> sl)"

definition move_sl_to_entry :: "'m trader_env \<Rightarrow> position_raw \<Rightarrow> rat option \<Rightarrow> ('m, bool) tcomp" where
  "move_sl_to_entry ex pos entry_price =
     catch (bnd (symbol_market ex (pr_symbol pos)) (\<lambda>m. case m of
        None \<Rightarrow> ret False
      | Some (tick, info) \<Rightarrow>
          let target = entry_stop pos (get_or (pr_price_open pos) entry_price) (ins_digits info);
              nearest = closest_stop pos tick info; clamped = clamped_stop pos target nearest;
              sl = (if clamped then nearest else target)
          in if no_better pos sl then ret False
             else bnd (trader_modify_sl_tp ex pos sl (pr_tp pos)) (\<lambda>ok. ret (ok \<and> \<not> clamped))))
       (\<lambda>_. Some (ret False))"

text \<open>The stop of the early break-even and of the first target: the entry, or the level at the minimum distance
  from the market when that is further in the direction of the trade.\<close>

definition protective_stop :: "position_raw \<Rightarrow> rat \<Rightarrow> quote \<Rightarrow> instrument \<Rightarrow> rat" where
  "protective_stop pos price tick info =
     (let target = entry_stop pos (pr_price_open pos) (ins_digits info);
          min_sl = (if pr_type pos = 0 then fsub price (get_min_dist tick info) else fadd price (get_min_dist tick info))
      in if pr_type pos = 0 then if target < min_sl then min_sl else target
         else if target > min_sl then min_sl else target)"

definition early_break_even ::
  "'m trader_env \<Rightarrow> position_raw \<Rightarrow> trade \<Rightarrow> rat \<Rightarrow> quote \<Rightarrow> instrument \<Rightarrow> ('m, unit) tcomp" where
  "early_break_even ex pos t price tick info =
     (let trigger = get_or 1 (map_of (be_trigger_by_symbol ex) (pr_symbol pos)) in
      case tr_tp1 t of
        None \<Rightarrow> ret ()
      | Some tp1 \<Rightarrow>
          if trigger < 1 \<and> \<not> tr_tp1_hit t \<and> \<not> tr_be_done t then
            (case tr_entry_price t of
               None \<Rightarrow> throw (KeyError ''entry_price'')
             | Some entry \<Rightarrow>
                 let step_dist = \<bar>fsub tp1 entry\<bar> in
                 if 0 < step_dist
                    \<and> (pr_type pos = 0 \<and> price \<ge> fadd entry (fmul trigger step_dist)
                       \<or> pr_type pos = 1 \<and> price \<le> fsub entry (fmul trigger step_dist))
                 then seq (trader_modify_sl_tp ex pos (protective_stop pos price tick info) (pr_tp pos))
                        (update_trade (pr_ticket pos) (\<lambda>t. t\<lparr>tr_be_done := True\<rparr>))
                 else ret ())
          else ret ())"

text \<open>The later legs of a group follow when no first leg is managed any more.\<close>

definition leg1_open :: "string \<Rightarrow> (int \<times> trade) list \<Rightarrow> bool" where
  "leg1_open group_key active = list_ex (\<lambda>(_, t). tr_group_key t = Some group_key \<and> tr_leg t = Some 1) active"

definition leg_break_even :: "'m trader_env \<Rightarrow> position_raw \<Rightarrow> trade \<Rightarrow> ('m, unit) tcomp" where
  "leg_break_even ex pos t =
     (case (tr_group_key t, tr_entry_price t) of
        (Some group_key, Some entry) \<Rightarrow>
          if tr_leg t \<in> {Some 2, Some 3} \<and> \<not> tr_be_done t \<and> group_key \<noteq> [] then
            bnd (gets lt_active) (\<lambda>active.
            if leg1_open group_key active then ret ()
            else bnd (move_sl_to_entry ex pos (Some entry)) (\<lambda>moved.
              if moved then update_trade (pr_ticket pos) (\<lambda>t. t\<lparr>tr_be_done := True\<rparr>) else ret ()))
          else ret ()
      | _ \<Rightarrow> ret ())"

section \<open>Trailing\<close>

definition profit_trail_config :: "'m trader_env \<Rightarrow> string \<Rightarrow> trail_cfg option" where
  "profit_trail_config ex symbol =
     (case find (\<lambda>(_, a). aa_mt5_symbol a = Some symbol) (cf_assets (te_cfg ex)) of
        Some (_, a) \<Rightarrow> (case aa_profit_trail a of Some p \<Rightarrow> Some p | None \<Rightarrow> cf_profit_trail (te_cfg ex))
      | None \<Rightarrow> cf_profit_trail (te_cfg ex))"

text \<open>The pipeline's frame has an average true range that is not finite, or one.\<close>

definition latest_causal_atr :: "'m trader_env \<Rightarrow> string \<Rightarrow> ('m, rat) tcomp" where
  "latest_causal_atr ex asset_key w =
     (if asset_key \<notin> set (te_pipelines ex) then (Inl (RuntimeError ''no live pipeline for ATR''), w)
      else (rbind (te_frame_atr ex asset_key (lt_reads w)) (\<lambda>a. case a of
              Some x \<Rightarrow> if 0 < x then Inr x else Inl (RuntimeError ''invalid live ATR'')
            | None \<Rightarrow> Inl (RuntimeError ''invalid live ATR'')), w\<lparr>lt_reads := lt_reads w + 1\<rparr>))"

definition trail_stop :: "position_raw \<Rightarrow> rat \<Rightarrow> rat \<Rightarrow> rat \<Rightarrow> quote \<Rightarrow> instrument \<Rightarrow> rat" where
  "trail_stop pos price unrealized lock_pct tick info =
     (let slack = fmul unrealized (fsub 1 lock_pct); digits = ins_digits info; d = get_min_dist tick info in
      if pr_type pos = 0 then max (py_round (fsub price slack) digits) (fsub price d)
      else min (py_round (fadd price slack) digits) (fadd price d))"

definition profit_trail ::
  "'m trader_env \<Rightarrow> position_raw \<Rightarrow> trade \<Rightarrow> rat \<Rightarrow> quote \<Rightarrow> instrument \<Rightarrow> ('m, unit) tcomp" where
  "profit_trail ex pos t price tick info =
     (if tr_be_done t \<and> \<not> tr_trailing_active t then
        (case profit_trail_config ex (pr_symbol pos) of
           None \<Rightarrow> ret ()
         | Some p \<Rightarrow>
             bnd (catch (latest_causal_atr ex (tr_symbol t)) (\<lambda>_. Some (ret 0))) (\<lambda>atr.
             let entry = get_or (pr_price_open pos) (tr_entry_price t);
                 min_profit = get_or 0 (pt_min_profit_price p);
                 unrealized = (if pr_type pos = 0 then fsub price entry else fsub entry price);
                 activation = (if 0 < atr then fmul (get_or (1 / 2) (pt_activation_atr p)) atr else min_profit);
                 sl = trail_stop pos price unrealized (get_or (fl (6 / 10)) (pt_lock_pct p)) tick info
             in if unrealized > max activation min_profit
                   \<and> (if pr_type pos = 0 then sl > pr_sl pos else sl < pr_sl pos)
                then seq (trader_modify_sl_tp ex pos sl (pr_tp pos))
                       (update_trade (pr_ticket pos) (\<lambda>t. t\<lparr>tr_trailing_active := True\<rparr>))
                else ret ()))
      else ret ())"

text \<open>The trail after the second target; the new stop is sent when it is nearer to the market than the
  minimum distance.\<close>

definition runner_stop :: "position_raw \<Rightarrow> rat \<Rightarrow> rat \<Rightarrow> nat \<Rightarrow> rat" where
  "runner_stop pos price trail_dist digits =
     (let start = pr_price_open pos in
      if pr_type pos = 0 then
        if price > start then py_round (fsub price trail_dist) digits
        else py_round (fadd start (fmul (fsub price start) (fl (7 / 10)))) digits
      else
        if price < start then py_round (fadd price trail_dist) digits
        else py_round (fsub start (fmul (fsub start price) (fl (7 / 10)))) digits)"

definition runner_trail ::
  "'m trader_env \<Rightarrow> position_raw \<Rightarrow> trade \<Rightarrow> rat \<Rightarrow> quote \<Rightarrow> instrument \<Rightarrow> ('m, unit) tcomp" where
  "runner_trail ex pos t price tick info =
     (case map_of (trailing_atr_mult_by_symbol ex) (pr_symbol pos) of
        Some (Some mult) \<Rightarrow>
          bnd (gets (trade_of (pr_ticket pos))) (\<lambda>current.
          if tr_tp1_hit t \<and> tr_tp2_hit t \<and> \<not> get_or False (map_option tr_trailing_active current) then
            swallow (bnd (latest_causal_atr ex (tr_symbol t)) (\<lambda>atr.
              let sl = runner_stop pos price (fmul mult atr) (ins_digits info); d = get_min_dist tick info in
              if (if pr_type pos = 0 then sl > pr_sl pos \<and> sl \<ge> fsub price d else sl < pr_sl pos \<and> sl \<le> fadd price d)
              then seq (trader_modify_sl_tp ex pos sl (pr_tp pos))
                     (update_trade (pr_ticket pos) (\<lambda>t. t\<lparr>tr_trailing_active := True\<rparr>))
              else ret ()))
          else ret ())
      | _ \<Rightarrow> ret ())"

section \<open>The partial-close ladder\<close>

definition reached_level :: "position_raw \<Rightarrow> rat \<Rightarrow> rat option \<Rightarrow> bool" where
  "reached_level pos price level =
     (case level of None \<Rightarrow> False | Some x \<Rightarrow> if pr_type pos = 0 then price \<ge> x else price \<le> x)"

definition close_price_of :: "position_raw \<Rightarrow> quote \<Rightarrow> rat" where
  "close_price_of pos tick = (if pr_type pos = 0 then qt_bid tick else qt_ask tick)"

definition ladder ::
  "'m trader_env \<Rightarrow> position_raw \<Rightarrow> trade \<Rightarrow> rat \<Rightarrow> quote \<Rightarrow> instrument \<Rightarrow> ('m, unit) tcomp" where
  "ladder ex pos t price tick info =
     (let original = get_or (pr_volume pos) (tr_original_volume t); out = close_price_of pos tick in
      if \<not> tr_tp1_hit t \<and> reached_level pos price (tr_tp1 t) then
        let volume = scaleout_volume info original (1 / 2) in
        if volume > 0 then
          bnd (close_partial_position ex pos out volume ''TP1 (50%)'' False) (\<lambda>ok.
          if ok then
            seq (update_trade (pr_ticket pos) (\<lambda>t. t\<lparr>tr_tp1_hit := True\<rparr>))
           (seq (trader_modify_sl_tp ex pos (protective_stop pos price tick info) (pr_tp pos)) (ret ()))
          else ret ())
        else ret ()
      else if tr_tp1_hit t \<and> \<not> tr_tp2_hit t \<and> reached_level pos price (tr_tp2 t) then
        let volume = scaleout_volume info original (fl (3 / 10)) in
        if volume > 0 then
          bnd (close_partial_position ex pos out volume ''TP2 (30%)'' False) (\<lambda>ok.
          if ok then update_trade (pr_ticket pos) (\<lambda>t. t\<lparr>tr_tp2_hit := True\<rparr>) else ret ())
        else ret ()
      else if tr_tp2_hit t \<and> reached_level pos price (tr_tp3 t) then
        seq (close_partial_position ex pos out (pr_volume pos) ''TP3 (20%)'' False) (ret ())
      else ret ())"

section \<open>One position\<close>

definition unknown_trade :: "position_raw \<Rightarrow> trade" where
  "unknown_trade pos =
     \<lparr>tr_symbol = pr_symbol pos, tr_type = (if pr_type pos = 0 then ''long'' else ''short''),
      tr_entry_price = Some (pr_price_open pos), tr_original_volume = Some (pr_volume pos), tr_leg = None,
      tr_group_key = None, tr_tp1 = None, tr_tp2 = None, tr_tp3 = None, tr_tp1_hit = False, tr_tp2_hit = False,
      tr_be_done = False, tr_trailing_active = False, tr_contract = None\<rparr>"

definition register_position :: "position_raw \<Rightarrow> ('m, unit) tcomp" where
  "register_position pos =
     modify (\<lambda>w. if trade_of (pr_ticket pos) w = None
       then w\<lparr>lt_active := dict_put (pr_ticket pos) (unknown_trade pos) (lt_active w)\<rparr> else w)"

text \<open>The trade as it is now, for the blocks that read the dict again.\<close>

definition current_trade :: "position_raw \<Rightarrow> (trade \<Rightarrow> ('m, unit) tcomp) \<Rightarrow> ('m, unit) tcomp" where
  "current_trade pos f =
     bnd (gets (trade_of (pr_ticket pos))) (\<lambda>t. case t of None \<Rightarrow> throw (KeyError ''ticket'') | Some x \<Rightarrow> f x)"

text \<open>The body of the loop once the position is known.\<close>

definition manage_registered :: "'m trader_env \<Rightarrow> position_raw \<Rightarrow> ('m, unit) tcomp" where
  "manage_registered ex pos =
     bnd (symbol_market ex (pr_symbol pos)) (\<lambda>m. case m of
        None \<Rightarrow> ret ()
      | Some (tick, info) \<Rightarrow>
          let price = (if pr_type pos = 0 then qt_bid tick else qt_ask tick) in
          current_trade pos (\<lambda>t.
            seq (early_break_even ex pos t price tick info)
           (seq (current_trade pos (leg_break_even ex pos))
           (seq (current_trade pos (\<lambda>t'. profit_trail ex pos t' price tick info))
           (if tr_leg t = None then
              seq (ladder ex pos t price tick info) (runner_trail ex pos t price tick info)
            else ret ())))))"

definition manage_position :: "'m trader_env \<Rightarrow> position_raw \<Rightarrow> ('m, unit) tcomp" where
  "manage_position ex pos = seq (register_position pos) (manage_registered ex pos)"

end
