(* ===== verification/Trader_Close.thy ===== *)
theory Trader_Close
  imports Trader_Management
begin

text \<open>
  The detector of closed positions and the whole of \<^verbatim>\<open>check_and_move_breakeven\<close> of
  \<^verbatim>\<open>execution/mt5_trader.py\<close>. A tracked position that the terminal no longer lists is reported once: its
  result is read from the history, the streaks and the throttle are told, a message is sent, and the
  other legs of its group are moved to their entry when it was the first. The tables for retraining
  (\<^verbatim>\<open>log_trade_close\<close>, \<^verbatim>\<open>signal_features\<close>) are left out.
\<close>

section \<open>The result of a closed position\<close>

definition deal_result :: "history_deal \<Rightarrow> rat" where
  "deal_result d = fadd (fadd (hd_profit d) (hd_swap d)) (hd_commission d)"

definition realized_pnl :: "history_deal list \<Rightarrow> rat option \<Rightarrow> rat" where
  "realized_pnl deals cached = (if deals = [] then get_or 0 cached else py_sum (map deal_result deals))"

text \<open>The last exit, else the last deal, else now and the entry price.\<close>

definition close_time_price :: "history_deal list \<Rightarrow> int \<Rightarrow> rat option \<Rightarrow> int \<times> rat" where
  "close_time_price deals now_s entry =
     (let exits = filter (\<lambda>d. dw_entry d = 1) deals in
      if exits \<noteq> [] then (dw_time (last exits), dw_price (last exits))
      else if deals \<noteq> [] then
        (dw_time (last deals), if dw_price (last deals) \<noteq> 0 then dw_price (last deals) else get_or 0 entry)
      else (now_s, get_or 0 entry))"

definition closed_deals :: "'m trader_env \<Rightarrow> int \<Rightarrow> ('m, history_deal list) tcomp" where
  "closed_deals ex ticket =
     bnd (catch (on_term (ta_history_deals_get (te_api ex) ticket)) (\<lambda>_. Some (ret None)))
       (\<lambda>ds. ret (get_or [] ds))"

section \<open>The other legs\<close>

definition position_with :: "position_raw list \<Rightarrow> int \<Rightarrow> position_raw option" where
  "position_with held ticket = find (\<lambda>p. pr_ticket p = ticket) (rev held)"

definition follow_leg ::
  "'m trader_env \<Rightarrow> position_raw list \<Rightarrow> string \<Rightarrow> rat \<Rightarrow> int \<times> trade \<Rightarrow> ('m, unit) tcomp" where
  "follow_leg ex held group_key entry kv =
     (case kv of (other_ticket, other) \<Rightarrow>
      if tr_group_key other = Some group_key \<and> tr_leg other \<in> {Some 2, Some 3} \<and> \<not> tr_be_done other then
        (case position_with held other_ticket of
           None \<Rightarrow> ret ()
         | Some pos \<Rightarrow>
             bnd (move_sl_to_entry ex pos (Some entry)) (\<lambda>moved.
             if moved then update_trade other_ticket (\<lambda>t. t\<lparr>tr_be_done := True\<rparr>) else ret ()))
      else ret ())"

definition follow_first_leg :: "'m trader_env \<Rightarrow> position_raw list \<Rightarrow> trade \<Rightarrow> ('m, unit) tcomp" where
  "follow_first_leg ex held t =
     (case (tr_leg t, tr_group_key t, tr_entry_price t) of
        (Some leg, Some group_key, Some entry) \<Rightarrow>
          if leg = 1 \<and> group_key \<noteq> [] then
            bnd (gets lt_active) (\<lambda>active. for_each active (follow_leg ex held group_key entry))
          else ret ()
      | _ \<Rightarrow> ret ())"

section \<open>The report\<close>

definition count_streak :: "string \<Rightarrow> rat \<Rightarrow> ('m, unit) tcomp" where
  "count_streak symbol pnl = modify (\<lambda>w. w\<lparr>lt_streak_losses :=
     dict_put symbol (if pnl < 0 then get_or 0 (map_of (lt_streak_losses w) symbol) + 1 else 0) (lt_streak_losses w)\<rparr>)"

text \<open>\<^verbatim>\<open>active_trades.pop(ticket, {})\<close>, where the empty dict reads as a trade of the asset \<^verbatim>\<open>ASSET\<close>.\<close>

definition no_trade :: trade where
  "no_trade = \<lparr>tr_symbol = ''ASSET'', tr_type = [], tr_entry_price = None, tr_original_volume = None, tr_leg = None,
     tr_group_key = None, tr_tp1 = None, tr_tp2 = None, tr_tp3 = None, tr_tp1_hit = False, tr_tp2_hit = False,
     tr_be_done = False, tr_trailing_active = False, tr_contract = None\<rparr>"

definition pop_trade :: "int \<Rightarrow> ('m, trade) tcomp" where
  "pop_trade ticket w = (Inr (get_or no_trade (trade_of ticket w)), w\<lparr>lt_active := dict_del ticket (lt_active w)\<rparr>)"

definition announce_close :: "int \<Rightarrow> trade \<Rightarrow> rat \<Rightarrow> ('m, unit) tcomp" where
  "announce_close ticket t pnl =
     bnd (gets (\<lambda>w. get_or 0 (map_of (lt_streak_losses w) (tr_symbol t)))) (\<lambda>streak.
     send_text (TradeClosed (tr_symbol t) ticket (tr_leg t) pnl streak))"

definition report_close :: "'m trader_env \<Rightarrow> position_raw list \<Rightarrow> int \<Rightarrow> ('m, unit) tcomp" where
  "report_close ex held ticket =
     bnd (pop_trade ticket) (\<lambda>t.
     bnd (closed_deals ex ticket) (\<lambda>deals.
     bnd (read_moment ex) (\<lambda>now_t.
     bnd (gets (\<lambda>w. map_of (lt_last_close_pnl w) ticket)) (\<lambda>cached.
     let pnl = realized_pnl deals cached;
         (close_time, close_price) = close_time_price deals (trunc (at_now now_t)) (tr_entry_price t)
     in
     seq (append_trade_event ex ''position_closed'' (tr_symbol t) (contract_of (Some t))
       (event_details\<lparr>ed_position_ticket := Some ticket, ed_reason := Some ''broker_position_closed'',
          ed_payload := [(''close_time'', JInt close_time), (''close_price'', JFloat close_price), (''realized_pnl'', JFloat pnl)],
          ed_actor := ''broker_history''\<rparr>))
    (seq (modify (\<lambda>w. w\<lparr>lt_last_close_pnl := dict_del ticket (lt_last_close_pnl w)\<rparr>))
    (seq (swallow (purge_closed_position_context ex ticket))
    (seq (count_streak (tr_symbol t) pnl)
    (seq (bnd (read_moment ex) (\<lambda>m. on_throttle (on_trade_closed m pnl)))
    (seq (announce_close ticket t pnl)
    (follow_first_leg ex held t))))))))))"

section \<open>One pass\<close>

definition vanished :: "position_raw list \<Rightarrow> 'm trader \<Rightarrow> int list" where
  "vanished held w = filter (\<lambda>k. k \<notin> pr_ticket ` set held) (map fst (lt_active w))"

definition check_and_move_breakeven :: "'m trader_env \<Rightarrow> ('m, unit) tcomp" where
  "check_and_move_breakeven ex =
     bnd (on_term (ta_initialize (te_api ex))) (\<lambda>up.
     if \<not> up then ret ()
     else bnd (positions_get_by_magic ex None) (\<lambda>ps. case ps of
        None \<Rightarrow> ret ()
      | Some held \<Rightarrow>
          seq (for_each held (manage_position ex))
         (seq (save_management_state ex)
         (bnd (gets (vanished held)) (\<lambda>closed.
          seq (for_each closed (report_close ex held))
         (seq (save_management_state ex)
          (reconcile_position_context ex (map pr_ticket held))))))))"

end
