(* ===== verification/Exec_Contracts.thy ===== *)
theory Exec_Contracts
  imports MT5_Context
begin

text \<open>
  The wire contract of \<^verbatim>\<open>contracts/execution_contracts.py\<close>: the protocol version of an envelope, the
  deterministic identifiers of execution facts, and the validation of signal intents and of facts. The
  digest of a text and the random identifier are arguments. The checks that pydantic derives from a
  field's type are the types of the records; those it derives from a \<^verbatim>\<open>Literal\<close> or a bound are written out.
\<close>

section \<open>Protocol version\<close>

definition DEFAULT_PROTOCOL_VERSION :: int where "DEFAULT_PROTOCOL_VERSION = 1"
definition SUPPORTED_PROTOCOL_VERSIONS :: "int list" where "SUPPORTED_PROTOCOL_VERSIONS = [1]"

text \<open>\<^verbatim>\<open>int(version)\<close> on a JSON value.\<close>

definition json_int :: "json \<Rightarrow> int option" where
  "json_int v = (case v of JInt n \<Rightarrow> Some n | JBool b \<Rightarrow> Some (of_bool b) | JFloat x \<Rightarrow> Some (trunc x)
     | JStr s \<Rightarrow> parse_int s | _ \<Rightarrow> None)"

definition check_protocol_version :: "jdict \<Rightarrow> bool \<times> string \<times> int" where
  "check_protocol_version raw =
     (case get_or JNull (map_of raw ''protocol_version'') of
        JNull \<Rightarrow> (True, [], DEFAULT_PROTOCOL_VERSION)
      | v \<Rightarrow> (case json_int v of
          None \<Rightarrow> (False, ''protocol_version must be an integer'', 0)
        | Some n \<Rightarrow> if n \<in> set SUPPORTED_PROTOCOL_VERSIONS then (True, [], n)
                    else (False, ''unsupported protocol_version'', n)))"

section \<open>Identifiers of facts\<close>

abbreviation vbar :: char where "vbar \<equiv> CHR ''|''"

definition canonical_event_id_string :: "string \<Rightarrow> string \<Rightarrow> string \<Rightarrow> string \<Rightarrow> string result" where
  "canonical_event_id_string src fingerprint kind tx =
     (if vbar \<in> set src \<or> vbar \<in> set fingerprint then Inl (ValueError ''source/account_fingerprint'')
      else if vbar \<in> set kind \<or> vbar \<in> set tx then Inl (ValueError ''transaction_kind/transaction_id'')
      else Inr (src @ vbar # fingerprint @ vbar # kind @ vbar # tx))"

definition execution_event_id :: "(string \<Rightarrow> string) \<Rightarrow> string \<Rightarrow> string \<Rightarrow> string \<Rightarrow> string \<Rightarrow> string result" where
  "execution_event_id digest src fingerprint kind tx =
     rbind (canonical_event_id_string src fingerprint kind tx) (\<lambda>s. Inr (digest s))"

definition contract_fingerprint :: "string \<Rightarrow> string \<Rightarrow> string" where
  "contract_fingerprint mode login = mode @ '':'' @ login"

section \<open>Signal intents\<close>

definition VALID_INTENT_MODES :: "string list" where
  "VALID_INTENT_MODES = [''simulation'', ''research'', ''paper'', ''human_confirmed'', ''demo_systematic'', ''live_systematic'']"

definition VALID_SOURCES :: "string list" where
  "VALID_SOURCES = [''mt5_observer'', ''mt5_python_sender'', ''ledger_bridge'', ''preflight_tool'']"

record signal_intent =
  si_intent_id :: string
  si_asset_key :: string
  si_broker_symbol :: string
  si_side :: string
  si_requested_volume :: rat
  si_entry_price :: rat
  si_sl_price :: "rat option"
  si_tp_price :: "rat option"
  si_model_version :: "string option"
  si_feature_manifest_hash :: "string option"
  si_config_hash :: "string option"
  si_mode :: string
  si_magic_number :: int
  si_source :: string
  si_signal_id :: "string option"
  si_created_at_utc_ms :: int

text \<open>The model's own checks: the literals, the bounds, and that the target lies beyond the stop.\<close>

definition intent_geometry_ok :: "signal_intent \<Rightarrow> bool" where
  "intent_geometry_ok i =
     (case (si_sl_price i, si_tp_price i) of
        (Some sl, Some tp) \<Rightarrow> 0 < (if si_side i = ''long'' then 1 else -1) * fsub tp sl
      | _ \<Rightarrow> True)"

definition SignalIntent :: "signal_intent \<Rightarrow> signal_intent result" where
  "SignalIntent i =
     (if si_side i \<in> {''long'', ''short''} \<and> 0 < si_requested_volume i \<and> si_mode i \<in> set VALID_INTENT_MODES
         \<and> 0 \<le> si_magic_number i \<and> si_source i \<in> set VALID_SOURCES
      then if intent_geometry_ok i then Inr i
           else Inl (ValueError ''tp_price must be beyond sl_price for the intent side'')
      else Inl (ValueError ''validation error for SignalIntent''))"

text \<open>\<^verbatim>\<open>build_signal_intent\<close>; the record holds its arguments, with an empty identifier when none is given.\<close>

definition build_signal_intent :: "string \<Rightarrow> signal_intent \<Rightarrow> signal_intent result" where
  "build_signal_intent fresh i =
     (if si_side i \<notin> {''long'', ''short''} then Inl (ValueError ''side must be long or short'')
      else if si_mode i \<notin> set VALID_INTENT_MODES then Inl (ValueError ''unsupported intent mode'')
      else SignalIntent (i\<lparr>si_intent_id := (if si_intent_id i = [] then fresh else si_intent_id i),
             si_source := ''mt5_python_sender''\<rparr>))"

definition intent_dump :: "signal_intent \<Rightarrow> jdict" where
  "intent_dump i =
     [(''asset_key'', JStr (si_asset_key i)), (''broker_symbol'', JStr (si_broker_symbol i)),
      (''config_hash'', jopt JStr (si_config_hash i)), (''created_at_utc_ms'', JInt (si_created_at_utc_ms i)),
      (''entry_price'', JFloat (si_entry_price i)), (''feature_manifest_hash'', jopt JStr (si_feature_manifest_hash i)),
      (''magic_number'', JInt (si_magic_number i)), (''mode'', JStr (si_mode i)),
      (''model_version'', jopt JStr (si_model_version i)), (''requested_volume'', JFloat (si_requested_volume i)),
      (''schema_version'', JInt 1), (''side'', JStr (si_side i)), (''signal_id'', jopt JStr (si_signal_id i)),
      (''sl_price'', jopt JFloat (si_sl_price i)), (''source'', JStr (si_source i)),
      (''tp_price'', jopt JFloat (si_tp_price i))]"

definition intent_hash :: "(json \<Rightarrow> string) \<Rightarrow> signal_intent \<Rightarrow> string" where
  "intent_hash sha i = sha (JObj (intent_dump i))"

section \<open>Execution facts\<close>

definition EXECUTION_EVENT_TYPES :: "string list" where
  "EXECUTION_EVENT_TYPES = [''deal_added'', ''order_history_added'', ''position_modified'', ''request_result'',
     ''preflight_checked'', ''execution_reconciled'', ''intent_created'', ''health_heartbeat'']"

definition VALID_PRECISIONS :: "string list" where
  "VALID_PRECISIONS = [''probe'', ''passive'', ''history_reconciled'', ''request'', ''preflight'']"

definition VALID_ACCOUNT_MODES :: "string list" where
  "VALID_ACCOUNT_MODES = [''demo'', ''real'', ''contest'']"

record execution_fact =
  fa_event_id :: string
  fa_event_type :: string
  fa_source :: string
  fa_account_mode :: string
  fa_precision :: string
  fa_broker_symbol :: string
  fa_received_at_utc_ms :: int
  fa_details :: jdict

definition ExecutionEvent :: "execution_fact \<Rightarrow> execution_fact result" where
  "ExecutionEvent f =
     (if fa_source f \<in> set VALID_SOURCES \<and> fa_account_mode f \<in> set VALID_ACCOUNT_MODES
         \<and> fa_precision f \<in> set VALID_PRECISIONS
      then if fa_event_type f \<notin> set EXECUTION_EVENT_TYPES then Inl (ValueError ''unsupported execution event type'')
           else if strip (fa_event_id f) = [] then Inl (ValueError ''event_id must not be empty'')
           else Inr f
      else Inl (ValueError ''validation error for ExecutionEvent''))"

section \<open>Properties\<close>

text \<open>A text up to its first bar.\<close>

lemma bar_split:
  assumes "x @ c # y = x' @ c # y'" and "c \<notin> set x" and "c \<notin> set x'"
  shows "x = x' \<and> y = y'"
  using assms by (induction x arbitrary: x') (case_tac x'; auto)+

text \<open>Two facts have the same identifier text only when they agree in source, account, kind of
  transaction and transaction: none of the four parts can contain the separator, so repeated delivery
  collapses exactly the repeated facts.\<close>

theorem fact_ids_identify_facts:
  assumes "canonical_event_id_string a b c d = Inr s" and "canonical_event_id_string a' b' c' d' = Inr s"
  shows "a = a' \<and> b = b' \<and> c = c' \<and> d = d'"
proof -
  have free: "vbar \<notin> set a" "vbar \<notin> set b" "vbar \<notin> set c" "vbar \<notin> set a'" "vbar \<notin> set b'" "vbar \<notin> set c'"
    and s: "a @ vbar # b @ vbar # c @ vbar # d = a' @ vbar # b' @ vbar # c' @ vbar # d'"
    using assms by (auto simp: canonical_event_id_string_def split: if_splits)
  from bar_split [OF s free(1,4)] have 1: "a = a'" "b @ vbar # c @ vbar # d = b' @ vbar # c' @ vbar # d'" by auto
  from bar_split [OF this(2) free(2,5)] have 2: "b = b'" "c @ vbar # d = c' @ vbar # d'" by auto
  from bar_split [OF this(2) free(3,6)] 1 2 show ?thesis by auto
qed

theorem fact_ids_identify_facts_witness:
  "\<exists>s. canonical_event_id_string ''mt5_observer'' ''demo:7'' ''deal'' ''42'' = Inr s
    \<and> canonical_event_id_string ''mt5_observer'' ''demo:7'' ''deal'' ''43'' \<noteq> Inr s"
proof (intro exI conjI)
  show "canonical_event_id_string ''mt5_observer'' ''demo:7'' ''deal'' ''42'' = Inr ''mt5_observer|demo:7|deal|42''"
    by (simp add: canonical_event_id_string_def)
  from fact_ids_identify_facts [OF this, of "''mt5_observer''" "''demo:7''" "''deal''" "''43''"]
  show "canonical_event_id_string ''mt5_observer'' ''demo:7'' ''deal'' ''43'' \<noteq> Inr ''mt5_observer|demo:7|deal|42''" by auto
qed

lemma SignalIntent_Inr:
  "SignalIntent i = Inr j \<longleftrightarrow> j = i \<and> si_side i \<in> {''long'', ''short''} \<and> 0 < si_requested_volume i
     \<and> si_mode i \<in> set VALID_INTENT_MODES \<and> 0 \<le> si_magic_number i \<and> si_source i \<in> set VALID_SOURCES \<and> intent_geometry_ok i"
  by (auto simp: SignalIntent_def)

lemma build_signal_intent_Inr:
  assumes "build_signal_intent fresh i = Inr j"
  shows "0 < si_requested_volume j" "si_side j \<in> {''long'', ''short''}" "intent_geometry_ok j"
    "si_requested_volume j = si_requested_volume i" "si_sl_price j = si_sl_price i" "si_tp_price j = si_tp_price i"
    "si_side j = si_side i" "si_intent_id i = [] \<Longrightarrow> si_intent_id j = fresh"
  using assms by (auto simp: build_signal_intent_def SignalIntent_Inr split: if_splits)

end
