(* ===== verification/Trader_Entry.thy ===== *)
theory Trader_Entry
  imports Trader_Blackout Trader_Close Exec_Contracts
begin

text \<open>
  The entries of the live trader, \<^verbatim>\<open>execute_signal\<close> of \<^verbatim>\<open>execution/mt5_trader.py\<close>, with everything it asks
  first, and one pass of \<^verbatim>\<open>run_loop\<close>. The correlation table is computed by pandas and is read from the
  environment, as is the time of the last bar; the signals of a pass arrive in the order in which the
  pipelines finish. The calibration probe, the log of bars and the tables for retraining are left out.
\<close>

section \<open>Confidence\<close>

definition dynamic_min_confidence :: "'m trader_env \<Rightarrow> string \<Rightarrow> 'm trader \<Rightarrow> rat result" where
  "dynamic_min_confidence ex asset_key w =
     (case map_of (cf_assets (te_cfg ex)) asset_key of
        None \<Rightarrow> Inl (KeyError ''asset_key'')
      | Some a \<Rightarrow>
          let base = get_or (get_or (fl (6 / 10)) (cf_min_confidence (te_cfg ex))) (aa_min_confidence a);
              streak = get_or 0 (map_of (lt_streak_losses w) asset_key)
          in Inr (if streak \<ge> 2 then fadd base (min (fl (1 / 10)) (fmul (of_int (streak - 1)) (fl (3 / 100)))) else base))"

section \<open>Correlation\<close>

definition update_corr_matrix :: "'m trader_env \<Rightarrow> ('m, unit) tcomp" where
  "update_corr_matrix ex =
     bnd (gets lt_reads) (\<lambda>n. bnd (read_moment ex) (\<lambda>t. bnd (gets lt_corr_last_update) (\<lambda>prev.
     if fsub (at_now t) prev < fmul (get_or 60 (cf_corr_interval (te_cfg ex))) 60 then ret ()
     else seq (modify (\<lambda>w. w\<lparr>lt_corr_last_update := at_now t\<rparr>))
         (seq (require (list_all (\<lambda>(_, a). aa_enabled a \<longrightarrow> aa_mt5_symbol a \<noteq> None) (cf_assets (te_cfg ex)))
            (KeyError ''mt5_symbol''))
         (case te_corr_table ex n of
            None \<Rightarrow> ret () | Some m \<Rightarrow> modify (\<lambda>w. w\<lparr>lt_corr_matrix := m\<rparr>))))))"

definition are_correlated :: "'m trader_env \<Rightarrow> corr_matrix \<Rightarrow> string \<Rightarrow> string \<Rightarrow> bool" where
  "are_correlated ex m a b \<longleftrightarrow>
     m \<noteq> [] \<and> get_or (fl (8 / 10)) (cf_corr_threshold (te_cfg ex)) \<le> \<bar>get_or 0 (map_of (get_or [] (map_of m a)) b)\<bar>"

definition sym_to_asset :: "'m trader_env \<Rightarrow> (string \<times> string) list" where
  "sym_to_asset ex = dict_update [] (map (\<lambda>(k, a). (get_or [] (aa_mt5_symbol a), k)) (cf_assets (te_cfg ex)))"

definition same_way :: "'m trader_env \<Rightarrow> corr_matrix \<Rightarrow> string \<Rightarrow> int \<Rightarrow> position_raw \<Rightarrow> bool" where
  "same_way ex m asset_key way pos =
     (let pos_asset = get_or [] (map_of (sym_to_asset ex) (pr_symbol pos))
      in pos_asset \<noteq> [] \<and> pos_asset \<noteq> asset_key \<and> (if pr_type pos = 0 then 1 else -1) = way
         \<and> are_correlated ex m asset_key pos_asset)"

definition has_correlated_position :: "'m trader_env \<Rightarrow> string \<Rightarrow> string \<Rightarrow> ('m, bool) tcomp" where
  "has_correlated_position ex asset_key bias =
     (if \<not> get_or True (cf_corr_enabled (te_cfg ex)) then ret False
      else seq (update_corr_matrix ex)
       (bnd (positions_get_by_magic ex None) (\<lambda>ps.
        if get_or [] ps = [] then ret False
        else seq (require (list_all (\<lambda>(_, a). aa_mt5_symbol a \<noteq> None) (cf_assets (te_cfg ex))) (KeyError ''mt5_symbol''))
         (gets (\<lambda>w. list_ex (same_way ex (lt_corr_matrix w) asset_key (if bias = ''long'' then 1 else -1)) (get_or [] ps))))))"

section \<open>Limits\<close>

text \<open>The legs of one group take one slot; a position with no group is a slot of its own.\<close>

definition slot :: "(int \<times> trade) list \<Rightarrow> position_raw \<Rightarrow> string \<times> string option" where
  "slot active pos =
     (let t = map_of active (pr_ticket pos); group_key = Option.bind t tr_group_key
      in (or_str (map_option tr_symbol t) (pr_symbol pos), if falsy group_key then None else group_key))"

fun count_slots ::
  "(int \<times> trade) list \<Rightarrow> position_raw list \<Rightarrow> (string \<times> string list) list \<times> (string \<times> int) list
   \<Rightarrow> (string \<times> string list) list \<times> (string \<times> int) list" where
  "count_slots active [] acc = acc"
| "count_slots active (p # ps) (groups, singles) = count_slots active ps
     (case slot active p of
        (asset_key, Some g) \<Rightarrow>
          (dict_put asset_key (List.insert g (get_or [] (map_of groups asset_key))) groups, singles)
      | (asset_key, None) \<Rightarrow> (groups, dict_put asset_key (get_or 0 (map_of singles asset_key) + 1) singles))"

definition group_position_counts :: "(int \<times> trade) list \<Rightarrow> position_raw list \<Rightarrow> (string \<times> string list) list \<times> (string \<times> int) list" where
  "group_position_counts active ps = count_slots active ps ([], [])"

text \<open>The terminal as the limits see it.\<close>

definition limits_terminal :: "'m trader_env \<Rightarrow> ('m, terminal) tcomp" where
  "limits_terminal ex =
     bnd (on_term (ta_initialize (te_api ex))) (\<lambda>up.
     bnd (if up then on_term (ta_account (te_api ex)) else ret None) (\<lambda>acct.
     ret \<lparr>mt_initialize = up, mt_account_info = acct, mt_positions_get = Inr None\<rparr>))"

definition risk_gate :: "'m trader_env \<Rightarrow> string \<Rightarrow> ('m, bool) tcomp" where
  "risk_gate ex asset_key =
     bnd (positions_get_by_magic ex None) (\<lambda>ps.
     bnd (gets (\<lambda>w. group_position_counts (lt_active w) (get_or [] ps))) (\<lambda>(groups, singles).
     bnd (limits_terminal ex) (\<lambda>mt.
     bnd (read_moment ex) (\<lambda>t.
     bnd (on_risk (limits_can_trade (te_limits ex) t mt asset_key (Some groups) (Some singles))) (\<lambda>(ok, _). ret ok)))))"

definition throttle_gate :: "'m trader_env \<Rightarrow> ('m, bool) tcomp" where
  "throttle_gate ex =
     bnd (catch (bnd (on_term (ta_account (te_api ex))) (\<lambda>a. ret (get_or 0 (map_option fst a)))) (\<lambda>_. Some (ret 0))) (\<lambda>equity.
     bnd (read_moment ex) (\<lambda>t.
     bnd (on_throttle (can_trade t equity)) (\<lambda>(ok, _). ret ok)))"

section \<open>The questions before an entry\<close>

definition the_blackout :: "'m trader_env \<Rightarrow> blackout" where
  "the_blackout ex = init_blackout (cf_blackout (te_cfg ex))"

definition market_off :: "'m trader_env \<Rightarrow> moment \<Rightarrow> bool result" where
  "market_off ex t =
     rbind (blackout_status (the_blackout ex) (utc_now t)) (\<lambda>(halted, _, _).
     if halted then Inr True else in_daily_break (the_blackout ex) (utc_now t))"

definition expired :: "'m trader_env \<Rightarrow> live_signal \<Rightarrow> ('m, bool) tcomp" where
  "expired ex s =
     (let expiry = get_or 0 (ls_expires_at_utc s)
      in if expiry = 0 then ret False else bnd (read_moment ex) (\<lambda>t. ret (expiry < trunc (at_now t))))"

text \<open>Goes on with the next question unless the answer is yes.\<close>

definition unless :: "('s, bool) comp \<Rightarrow> ('s, bool) comp \<Rightarrow> ('s, bool) comp" where
  "unless m rest = bnd m (\<lambda>stop. if stop then ret False else rest)"

definition entry_allowed :: "'m trader_env \<Rightarrow> string \<Rightarrow> live_signal \<Rightarrow> ('m, bool) tcomp" where
  "entry_allowed ex asset_key s =
     unless (bnd (read_moment ex) (\<lambda>t. lift_result (market_off ex t)))
    (unless (bnd (lift_result (order_routing_allowed (cf_deployment (te_cfg ex)) (ls_confirmed_by s))) (\<lambda>allowed.
        ret (\<not> order_routing_enabled ex \<or> \<not> allowed)))
    (unless (ret (asset_key \<notin> set (execution_assets ex)))
    (unless (expired ex s)
    (unless (ret (ls_signal_state s \<notin> {None, Some ''confirmed''}))
    (unless (bnd (gets (dynamic_min_confidence ex asset_key)) (\<lambda>r. bnd (lift_result r) (\<lambda>c. ret (ls_confidence s < c))))
    (unless (has_correlated_position ex asset_key (ls_bias s))
    (bnd (risk_gate ex asset_key) (\<lambda>ok. if ok then throttle_gate ex else ret False))))))))"

end
