(* ===== verification/Trader_Orders.thy ===== *)
theory Trader_Orders
  imports Trader_Entry
begin

text \<open>
  The orders of the live trader, the rest of \<^verbatim>\<open>execute_signal\<close> of \<^verbatim>\<open>execution/mt5_trader.py\<close>: the levels
  around the price of the moment, the reduced volume of a losing streak, the three legs, and what the
  trader remembers of them; then the flattening before a halt and one pass of \<^verbatim>\<open>run_loop\<close>.
\<close>

section \<open>The levels\<close>

text \<open>The identifiers of a signal as it came: a missing timestamp is a missing key.\<close>

definition live_contract :: "live_signal \<Rightarrow> contract" where
  "live_contract s = (signal_contract s)\<lparr>ct_timestamp_utc := map_option Some (ls_timestamp_utc s)\<rparr>"

definition live_signal_id :: "string \<Rightarrow> live_signal \<Rightarrow> string" where
  "live_signal_id asset_key s = or_str (ls_signal_id s) (legacy_signal_id asset_key (live_contract s))"

record entry_plan =
  ep_symbol :: string
  ep_info :: instrument
  ep_price :: rat
  ep_sl :: rat
  ep_tps :: "rat list"
  ep_signal :: live_signal

definition validate_symbol :: "'m trader_env \<Rightarrow> string \<Rightarrow> ('m, unit) tcomp" where
  "validate_symbol ex symbol =
     bnd (on_term (ta_initialize (te_api ex))) (\<lambda>up.
     seq (require up (RuntimeError ''MT5 initialize failed''))
    (bnd (on_term (ta_symbol_info (te_api ex) symbol)) (\<lambda>info.
     seq (require (info \<noteq> None) (RuntimeError ''MT5 symbol was not found''))
    (bnd (on_term (ta_symbol_select (te_api ex) symbol)) (\<lambda>selected.
     require selected (RuntimeError ''Could not enable MT5 symbol''))))))"

text \<open>The grid recentred on the price: three targets and the stop.\<close>

definition grid_levels :: "grid \<Rightarrow> string \<Rightarrow> rat \<Rightarrow> rat \<Rightarrow> (rat list \<times> rat) result" where
  "grid_levels g bias price step =
     (let unit_step = (if bias = ''long'' then step else - step) in
      rbind (grid_number g ''tp1_mult'' 1) (\<lambda>m1.
      rbind (grid_number g ''tp2_mult'' 2) (\<lambda>m2.
      rbind (grid_number g ''tp3_mult'' 3) (\<lambda>m3.
      rbind (grid_number g ''stop_mult'' 2) (\<lambda>ms.
      Inr (map (\<lambda>m. fadd price (fmul unit_step m)) [m1, m2, m3], fsub price (fmul unit_step ms)))))))"

definition recentred :: "live_signal \<Rightarrow> rat \<Rightarrow> rat \<Rightarrow> nat \<Rightarrow> rat \<Rightarrow> rat list \<Rightarrow> live_signal" where
  "recentred s price step digits sl targets =
     s\<lparr>ls_entry_zone := Some [py_round (fsub price (fmul step (fl (1 / 10)))) digits,
         py_round (fadd price (fmul step (fl (1 / 10)))) digits],
       ls_invalidation := Some sl, ls_targets := Some targets\<rparr>"

definition plan_levels ::
  "'m trader_env \<Rightarrow> string \<Rightarrow> live_signal \<Rightarrow> string \<Rightarrow> asset_cfg \<Rightarrow> quote \<Rightarrow> instrument \<Rightarrow> ('m, entry_plan option) tcomp" where
  "plan_levels ex asset_key s symbol a tick info =
     (let bias = ls_bias s; price = (if bias = ''long'' then qt_ask tick else qt_bid tick);
          step = get_or 0 (ls_step s); digits = ins_digits info in
      if step \<le> 0 then ret None
      else bnd (lift_result (grid_levels (asset_grid ex a (Some (get_or [] (ls_regime s)))) bias price step)) (\<lambda>(raw, invalidation).
       bnd (catch (bnd (normalize_stops ex symbol bias invalidation (raw ! 2)) (\<lambda>x. ret (Some x))) (\<lambda>_. Some (ret None)))
       (\<lambda>stops. case stops of None \<Rightarrow> ret None | Some (sl, tp) \<Rightarrow>
       let targets = [py_round (raw ! 0) digits, py_round (raw ! 1) digits, tp] in
       bnd (normalize_tp_level ex symbol bias (targets ! 0)) (\<lambda>tp1.
       bnd (normalize_tp_level ex symbol bias (targets ! 1)) (\<lambda>tp2.
       bnd (normalize_tp_level ex symbol bias (targets ! 2)) (\<lambda>tp3.
       ret (Some \<lparr>ep_symbol = symbol, ep_info = info, ep_price = price, ep_sl = sl, ep_tps = [tp1, tp2, tp3],
         ep_signal = recentred s price step digits sl targets\<rparr>)))))))"

definition plan_entry :: "'m trader_env \<Rightarrow> string \<Rightarrow> live_signal \<Rightarrow> ('m, entry_plan option) tcomp" where
  "plan_entry ex asset_key s =
     (case map_of (cf_assets (te_cfg ex)) asset_key of
        None \<Rightarrow> throw (KeyError ''asset_key'')
      | Some a \<Rightarrow> (case aa_mt5_symbol a of
          None \<Rightarrow> throw (KeyError ''mt5_symbol'')
        | Some symbol \<Rightarrow>
            bnd (on_term (ta_initialize (te_api ex))) (\<lambda>up.
            if \<not> up then ret None
            else seq (validate_symbol ex symbol)
             (bnd (positions_get_by_magic ex (Some symbol)) (\<lambda>ps.
              if get_or [] ps \<noteq> [] then ret None
              else bnd (symbol_market ex symbol) (\<lambda>m. case m of
                  None \<Rightarrow> ret None
                | Some (tick, info) \<Rightarrow> plan_levels ex asset_key s symbol a tick info))))))"

section \<open>One leg\<close>

text \<open>The levels of a leg follow the price: they are moved by what it drifted since the plan.\<close>

definition drifted :: "entry_plan \<Rightarrow> string \<Rightarrow> quote option \<Rightarrow> rat \<Rightarrow> rat" where
  "drifted p bias live level =
     (case live of
        None \<Rightarrow> level
      | Some t \<Rightarrow>
          let live_price = (if bias = ''long'' then qt_ask t else qt_bid t)
          in py_round (fadd level (fsub live_price (ep_price p))) (ins_digits (ep_info p)))"

definition leg_request ::
  "'m trader_env \<Rightarrow> string \<Rightarrow> string \<Rightarrow> entry_plan \<Rightarrow> string \<Rightarrow> int \<Rightarrow> rat \<Rightarrow> rat \<Rightarrow> rat \<Rightarrow> trade_request" where
  "leg_request ex asset_key bias p intent_id leg volume leg_sl leg_tp =
     \<lparr>rq_action = ACTION_DEAL (te_api ex), rq_position = None, rq_symbol = ep_symbol p, rq_volume = Some volume,
      rq_type = Some (if bias = ''long'' then TYPE_BUY (te_api ex) else TYPE_SELL (te_api ex)),
      rq_price = Some (ep_price p), rq_deviation = Some 20, rq_magic = Some (te_magic ex),
      rq_comment = Some (asset_key @ '' ML Scalp L'' @ show_int leg @ '' '' @ take 8 intent_id),
      rq_type_time = Some (TIME_GTC (te_api ex)), rq_type_filling = Some (FILLING_IOC (te_api ex)),
      rq_sl = Some leg_sl, rq_tp = Some leg_tp\<rparr>"

definition request_json :: "trade_request \<Rightarrow> json" where
  "request_json r = JObj [(''action'', JInt (rq_action r)), (''symbol'', JStr (rq_symbol r)),
     (''volume'', jopt JFloat (rq_volume r)), (''type'', jopt JInt (rq_type r)), (''price'', jopt JFloat (rq_price r)),
     (''sl'', jopt JFloat (rq_sl r)), (''tp'', jopt JFloat (rq_tp r)), (''deviation'', jopt JInt (rq_deviation r)),
     (''magic'', jopt JInt (rq_magic r)), (''comment'', jopt JStr (rq_comment r)),
     (''type_time'', jopt JInt (rq_type_time r)), (''type_filling'', jopt JInt (rq_type_filling r))]"

definition new_trade :: "string \<Rightarrow> live_signal \<Rightarrow> rat \<Rightarrow> rat \<Rightarrow> int \<Rightarrow> string \<Rightarrow> rat \<Rightarrow> trade" where
  "new_trade asset_key s price volume leg group_key tp =
     \<lparr>tr_symbol = asset_key, tr_type = ls_bias s, tr_entry_price = Some price, tr_original_volume = Some volume,
      tr_leg = Some leg, tr_group_key = Some group_key, tr_tp1 = Some tp, tr_tp2 = None, tr_tp3 = None,
      tr_tp1_hit = False, tr_tp2_hit = False, tr_be_done = False, tr_trailing_active = False,
      tr_contract = Some (signal_contract s)\<rparr>"

definition mode_value :: "'m trader_env \<Rightarrow> string" where
  "mode_value ex = (case deployment_mode (cf_deployment (te_cfg ex)) of Inr m \<Rightarrow> deployment_value m | Inl _ \<Rightarrow> [])"

text \<open>The ticket of the position that the order opened: the last one of the symbol, else the order's.\<close>

definition opened_ticket :: "'m trader_env \<Rightarrow> string \<Rightarrow> int \<Rightarrow> ('m, int) tcomp" where
  "opened_ticket ex symbol order =
     bnd (positions_get_by_magic ex (Some symbol)) (\<lambda>ps.
     ret (if get_or [] ps = [] then order else pr_ticket (last (get_or [] ps))))"

definition remember_leg ::
  "'m trader_env \<Rightarrow> string \<Rightarrow> entry_plan \<Rightarrow> int \<Rightarrow> rat \<Rightarrow> int \<Rightarrow> rat \<Rightarrow> rat \<Rightarrow> ('m, unit) tcomp" where
  "remember_leg ex asset_key p leg volume ticket leg_sl leg_tp =
     (let s = ep_signal p; group_key = asset_key @ '':'' @ live_signal_id asset_key s in
      seq (send_text (LegExecuted asset_key ticket leg (ls_bias s) volume (ep_price p) leg_sl leg_tp))
     (seq (modify (\<lambda>w. w\<lparr>lt_active :=
         dict_put ticket (new_trade asset_key s (ep_price p) volume leg group_key leg_tp) (lt_active w)\<rparr>))
     (swallow (record_position_context ex ticket asset_key (s\<lparr>ls_leg := Some leg\<rparr>)))))"

definition send_leg :: "'m trader_env \<Rightarrow> string \<Rightarrow> entry_plan \<Rightarrow> string \<Rightarrow> rat \<times> nat \<Rightarrow> ('m, bool) tcomp" where
  "send_leg ex asset_key p intent_id vl =
     (case vl of (volume, n) \<Rightarrow>
      let s = ep_signal p; leg = int n + 1 in
      bnd (catch (on_term (ta_symbol_info_tick (te_api ex) (ep_symbol p))) (\<lambda>_. Some (ret None))) (\<lambda>live.
      let leg_sl = drifted p (ls_bias s) live (ep_sl p); leg_tp = drifted p (ls_bias s) live (ep_tps p ! n);
          rq = leg_request ex asset_key (ls_bias s) p intent_id leg volume leg_sl leg_tp;
          event = (\<lambda>et d. append_trade_event ex et asset_key (live_contract s) d) in
      seq (event ''order_submitted'' (event_details\<lparr>ed_reason := Some ''model_signal_confirmed'', ed_payload :=
        [(''broker_symbol'', JStr (ep_symbol p)), (''side'', JStr (ls_bias s)), (''requested_price'', JFloat (ep_price p)),
         (''volume'', JFloat volume), (''sl'', JFloat (ep_sl p)), (''tp'', JFloat leg_tp),
         (''deployment_mode'', JStr (mode_value ex)), (''intent_id'', JStr intent_id), (''leg'', JInt leg)]\<rparr>))
     (bnd (trader_order_send ex rq) (\<lambda>r. bnd (the_result r) (\<lambda>res.
      if sr_retcode res \<noteq> RETCODE_DONE (te_api ex) then
        seq (event ''order_rejected'' (event_details\<lparr>ed_order_ticket := Some (sr_order res), ed_reason := Some (sr_comment res),
          ed_payload := [(''retcode'', JInt (sr_retcode res)), (''request'', request_json rq), (''leg'', JInt leg)]\<rparr>)) (ret False)
      else bnd (opened_ticket ex (ep_symbol p) (sr_order res)) (\<lambda>ticket.
        seq (event ''order_filled'' (event_details\<lparr>ed_position_ticket := Some ticket, ed_order_ticket := Some (sr_order res),
          ed_reason := Some ''broker_fill'', ed_payload := [(''requested_price'', JFloat (ep_price p)),
            (''filled_price'', JFloat (sr_price res)), (''volume'', JFloat (sr_volume res)), (''sl'', JFloat leg_sl),
            (''tp'', JFloat leg_tp), (''leg'', JInt leg)]\<rparr>))
       (seq (remember_leg ex asset_key p leg volume ticket leg_sl leg_tp) (ret True))))))))"

fun send_legs :: "'m trader_env \<Rightarrow> string \<Rightarrow> entry_plan \<Rightarrow> string \<Rightarrow> (rat \<times> nat) list \<Rightarrow> ('m, bool) tcomp" where
  "send_legs ex asset_key p intent_id [] = ret False"
| "send_legs ex asset_key p intent_id ((volume, n) # legs) =
     bnd (if volume \<le> 0 then ret False else send_leg ex asset_key p intent_id (volume, n)) (\<lambda>a.
     bnd (send_legs ex asset_key p intent_id legs) (\<lambda>b. ret (a \<or> b)))"

section \<open>The whole entry\<close>

text \<open>The intent is validated before anything is sent; its journal is written best effort.\<close>

definition new_intent :: "'m trader_env \<Rightarrow> string \<Rightarrow> entry_plan \<Rightarrow> ('m, signal_intent) tcomp" where
  "new_intent ex asset_key p =
     bnd (gets (\<lambda>w. (lt_reads w, lt_volume w))) (\<lambda>(n, volume).
     bnd (read_moment ex) (\<lambda>t.
     lift_result (build_signal_intent (io_uuid ex n)
       \<lparr>si_intent_id = [], si_asset_key = asset_key, si_broker_symbol = ep_symbol p,
        si_side = (if ls_bias (ep_signal p) = ''long'' then ''long'' else ''short''), si_requested_volume = volume,
        si_entry_price = ep_price p, si_sl_price = Some (ep_sl p), si_tp_price = Some (ep_tps p ! 2),
        si_model_version = None, si_feature_manifest_hash = None,
        si_config_hash = Some (or_str (ls_config_hash (ep_signal p)) (cf_config_hash (te_cfg ex))),
        si_mode = mode_value ex, si_magic_number = te_magic ex, si_source = ''mt5_python_sender'',
        si_signal_id = Some (live_signal_id asset_key (ep_signal p)), si_created_at_utc_ms = trunc (fmul (at_now t) 1000)\<rparr>)))"

definition open_legs :: "'m trader_env \<Rightarrow> string \<Rightarrow> entry_plan \<Rightarrow> ('m, unit) tcomp" where
  "open_legs ex asset_key p =
     bnd (new_intent ex asset_key p) (\<lambda>intent.
     bnd (gets (\<lambda>w. trader_leg_volumes (lt_volume w) (ep_info p))) (\<lambda>volumes.
     bnd (send_legs ex asset_key p (si_intent_id intent) (zip volumes [0, 1, 2])) (\<lambda>opened.
     if opened then
       seq (save_management_state ex)
      (seq (bnd (read_moment ex) (\<lambda>t. on_risk (record_trade_executed t asset_key)))
      (send_text (SignalAlert asset_key)))
     else ret ())))"

definition put_volume :: "rat \<Rightarrow> ('m, unit) tcomp" where
  "put_volume v = modify (\<lambda>w. w\<lparr>lt_volume := v\<rparr>)"

text \<open>What is done once an entry is allowed and planned: a losing streak reduces the volume for it.\<close>

definition enter :: "'m trader_env \<Rightarrow> string \<Rightarrow> entry_plan \<Rightarrow> ('m, unit) tcomp" where
  "enter ex asset_key p =
     bnd (gets (\<lambda>w. (lt_volume w, risk_multiplier (lt_throttle w)))) (\<lambda>(original, mult).
     seq (if mult < 1 then put_volume (py_round (fmul original mult) 6) else ret ())
    (seq (if dry_run ex then ret () else open_legs ex asset_key p)
     (if mult < 1 then put_volume original else ret ())))"

definition execute_signal :: "'m trader_env \<Rightarrow> string \<Rightarrow> live_signal \<Rightarrow> ('m, unit) tcomp" where
  "execute_signal ex asset_key s =
     (if ls_bias s = ''no_trade'' then ret ()
      else bnd (entry_allowed ex asset_key s) (\<lambda>ok. if \<not> ok then ret ()
      else bnd (plan_entry ex asset_key s) (\<lambda>p. case p of None \<Rightarrow> ret () | Some p \<Rightarrow> enter ex asset_key p)))"

section \<open>The halt\<close>

definition flatten_position :: "'m trader_env \<Rightarrow> position_raw \<Rightarrow> ('m, unit) tcomp" where
  "flatten_position ex pos =
     bnd (on_term (ta_symbol_info_tick (te_api ex) (pr_symbol pos))) (\<lambda>tick. case tick of
        None \<Rightarrow> ret ()
      | Some t \<Rightarrow> seq (close_partial_position ex pos (close_price_of pos t) (pr_volume pos) ''blackout-halt'' True) (ret ()))"

definition flatten_all_positions :: "'m trader_env \<Rightarrow> ('m, unit) tcomp" where
  "flatten_all_positions ex =
     bnd (on_term (ta_initialize (te_api ex))) (\<lambda>up.
     if \<not> up then ret ()
     else bnd (positions_get_by_magic ex None) (\<lambda>ps. for_each (get_or [] ps) (flatten_position ex)))"

section \<open>The loop\<close>

definition set_flattened :: "bool \<Rightarrow> ('m, unit) tcomp" where
  "set_flattened b = modify (\<lambda>w. w\<lparr>lt_blackout_flattened := b\<rparr>)"

text \<open>The newest bar of the assets that are traded; one whose reading fails is left out. A traded asset
  without a symbol raises.\<close>

definition current_bar_time :: "'m trader_env \<Rightarrow> (string \<Rightarrow> int option) \<Rightarrow> int result" where
  "current_bar_time ex bars =
     (let traded = filter (\<lambda>(k, a). aa_enabled a \<and> k \<in> set (execution_assets ex)) (cf_assets (te_cfg ex))
      in if list_all (\<lambda>(_, a). aa_mt5_symbol a \<noteq> None) traded
         then Inr (fold max (map (\<lambda>(_, a). get_or 0 (bars (get_or [] (aa_mt5_symbol a)))) traded) 0)
         else Inl (KeyError ''mt5_symbol''))"

definition handle_signal :: "'m trader_env \<Rightarrow> string \<times> live_signal result \<Rightarrow> ('m, unit) tcomp" where
  "handle_signal ex x =
     (case x of (asset_key, r) \<Rightarrow> (case r of
        Inl _ \<Rightarrow> ret ()
      | Inr s \<Rightarrow> if ls_bias s \<noteq> ''no_trade'' then swallow (execute_signal ex asset_key s) else ret ()))"

text \<open>One pass; \<open>last_bar\<close> and \<open>last_be\<close> are the bar and the time of the last analysis and check.\<close>

definition loop_pass ::
  "'m trader_env \<Rightarrow> (string \<Rightarrow> int option) \<Rightarrow> (string \<times> live_signal result) list \<Rightarrow> int \<times> rat \<Rightarrow> ('m, int \<times> rat) tcomp" where
  "loop_pass ex bars signals seen =
     (case seen of (last_bar, last_be) \<Rightarrow>
      bnd (read_moment ex) (\<lambda>t.
      bnd (lift_result (blackout_status (the_blackout ex) (utc_now t))) (\<lambda>(halted, _, _).
      bnd (lift_result (in_daily_break (the_blackout ex) (utc_now t))) (\<lambda>on_break.
      if halted then
        seq (bnd (gets lt_blackout_flattened) (\<lambda>done.
            if done then ret () else seq (swallow (flatten_all_positions ex)) (set_flattened True)))
        (ret (last_bar, last_be))
      else
        seq (set_flattened False)
       (let due = fsub (at_now t) last_be \<ge> 30; last_be = (if due then at_now t else last_be) in
        seq (if due then swallow (check_and_move_breakeven ex) else ret ())
       (bnd (lift_result (current_bar_time ex bars)) (\<lambda>bar.
        if bar = 0 \<or> on_break \<or> bar = last_bar then ret (last_bar, last_be)
        else seq (for_each signals (handle_signal ex)) (ret (bar, last_be)))))))))"

end
