(* ===== verification/Trader_Frames.thy ===== *)
theory Trader_Frames
  imports Trader_Orders
begin

text \<open>
  What the operations of the live trader can change. The locales \<open>reading\<close>, \<open>asking\<close>, \<open>gating\<close>, \<open>managing\<close>,
  \<open>recording\<close>, \<open>trading\<close> and \<open>running\<close> list the writes that ever larger groups of operations make; a predicate that
  survives the writes is kept by the operations, also when they raise. The instance here is the list of
  requests handed to the terminal.
\<close>

section \<open>Combinators\<close>

lemma keeps_swallow [keeps_intros]: "keeps P m \<Longrightarrow> keeps P (swallow m)"
  unfolding swallow_def by (rule keeps_catch) (auto intro: keeps_intros)

lemma keeps_catch_Some [keeps_intros]:
  "keeps P m \<Longrightarrow> (\<And>e. keeps P (h e)) \<Longrightarrow> keeps P (catch m (\<lambda>e. Some (h e)))"
  by (rule keeps_catch) auto

lemma keeps_case_pair [keeps_intros]: "(\<And>a b. keeps P (f a b)) \<Longrightarrow> keeps P (case x of (a, b) \<Rightarrow> f a b)"
  by (cases x) simp

lemma keeps_case_result: "(\<And>a. keeps P (f a)) \<Longrightarrow> (\<And>b. keeps P (g b)) \<Longrightarrow> keeps P (case r of Inl a \<Rightarrow> f a | Inr b \<Rightarrow> g b)"
  by (cases r) simp_all

lemma keeps_file [keeps_intros]: "(\<And>d. keeps P (f d)) \<Longrightarrow> keeps P m \<Longrightarrow> keeps P (case x of Stored d \<Rightarrow> f d | _ \<Rightarrow> m)"
  by (cases x) simp_all

lemma keeps_the_result [keeps_intros]: "keeps P (the_result r)"
  unfolding the_result_def by (intro keeps_intros)

section \<open>Reading\<close>

locale reading =
  fixes ex :: "'m trader_env" and I :: "'m trader \<Rightarrow> bool"
  assumes I_term: "I w \<Longrightarrow> I (w\<lparr>lt_term := m\<rparr>)"
    and I_reads: "I w \<Longrightarrow> I (w\<lparr>lt_reads := n\<rparr>)"
begin

lemma keeps_on_term [keeps_intros]: "keeps I (on_term m)"
  by (rule keepsI) (simp add: on_term_def I_term split: prod.split)

lemma keeps_read_moment [keeps_intros]: "keeps I (read_moment ex')"
  by (rule keepsI) (simp add: read_moment_def I_reads)

lemma keeps_latest_causal_atr [keeps_intros]: "keeps I (latest_causal_atr ex a)"
  by (rule keepsI) (simp add: latest_causal_atr_def I_reads)

lemma keeps_market [keeps_intros]: "keeps I (symbol_market ex symbol)"
  unfolding symbol_market_def by (intro keeps_intros)

lemma keeps_positions [keeps_intros]: "keeps I (positions_get_by_magic ex symbol)"
  unfolding positions_get_by_magic_def by (intro keeps_intros)

lemma keeps_closed_deals [keeps_intros]: "keeps I (closed_deals ex ticket)"
  unfolding closed_deals_def by (intro keeps_intros)

lemma keeps_normalize [keeps_intros]:
  "keeps I (normalize_stops ex symbol side sl tp)" "keeps I (normalize_tp_level ex symbol side tp)"
  unfolding normalize_stops_def normalize_tp_level_def market_info_first_def by (intro keeps_intros)+

lemma keeps_plan [keeps_intros]: "keeps I (plan_entry ex asset_key s)"
  unfolding plan_entry_def plan_levels_def validate_symbol_def Let_def by (intro keeps_intros)

lemma keeps_questions [keeps_intros]:
  "keeps I (expired ex s)" "keeps I (limits_terminal ex)" "keeps I (opened_ticket ex symbol order)"
  unfolding expired_def limits_terminal_def opened_ticket_def Let_def by (intro keeps_intros)+

end

locale asking = reading +
  assumes I_corr: "I w \<Longrightarrow> I (w\<lparr>lt_corr_matrix := cm\<rparr>)" "I w \<Longrightarrow> I (w\<lparr>lt_corr_last_update := u\<rparr>)"
begin

lemma keeps_correlated [keeps_intros]: "keeps I (has_correlated_position ex a b)"
  unfolding has_correlated_position_def update_corr_matrix_def by (intro keeps_intros keeps_modify I_corr)

end

locale gating = asking +
  assumes I_throttle: "I w \<Longrightarrow> I (w\<lparr>lt_throttle := th\<rparr>)"
    and I_risk: "I w \<Longrightarrow> I (w\<lparr>lt_risk := rs\<rparr>)"
begin

lemma keeps_gates [keeps_intros]: "keeps I (on_throttle mt)" "keeps I (on_risk mr)"
  by (auto simp: keeps_def on_throttle_def on_risk_def I_throttle I_risk split: prod.split)

lemma keeps_allowed [keeps_intros]: "keeps I (entry_allowed ex a s)"
  unfolding entry_allowed_def unless_def risk_gate_def throttle_gate_def by (intro keeps_intros)

end

section \<open>Managing a position\<close>

locale managing = reading +
  assumes I_ledger: "I w \<Longrightarrow> I (w\<lparr>lt_ledger := l\<rparr>)"
    and I_update: "I w \<Longrightarrow> I (w\<lparr>lt_active := map (\<lambda>(k, v). (k, if k = ticket then f v else v)) (lt_active w)\<rparr>)"
    and I_modify: "\<not> dry_run ex \<Longrightarrow> I w \<Longrightarrow> I (w\<lparr>lt_sent := lt_sent w @ [modify_request ex pos sl tp]\<rparr>)"
    and I_close: "\<not> dry_run ex \<Longrightarrow> I w \<Longrightarrow> I (w\<lparr>lt_sent := lt_sent w @ [close_order ex pos price volume label]\<rparr>)"
begin

lemma keeps_append_trade_event [keeps_intros]: "keeps I (append_trade_event ex' et a c d)"
proof (rule keepsI)
  fix w assume w: "I w"
  show "I (snd (append_trade_event ex' et a c d w))"
    using I_ledger [OF I_reads [OF w, of "lt_reads w + 1"]] by (simp add: append_trade_event_def Let_def)
qed

lemma keeps_update_trade [keeps_intros]: "keeps I (update_trade ticket f)"
  unfolding update_trade_def by (rule keeps_modify) (rule I_update)

lemma keeps_order_send:
  assumes "\<And>w. I w \<Longrightarrow> I (w\<lparr>lt_sent := lt_sent w @ [rq]\<rparr>)"
  shows "keeps I (trader_order_send ex rq)"
  unfolding trader_order_send_def by (intro keeps_seq keeps_modify assms keeps_on_term)

lemma keeps_modify_sl_tp [keeps_intros]: "keeps I (trader_modify_sl_tp ex pos sl tp)"
proof (cases "dry_run ex")
  case False
  then have "keeps I (trader_order_send ex (modify_request ex pos sl tp))" by (intro keeps_order_send I_modify)
  with False show ?thesis unfolding trader_modify_sl_tp_def Let_def by (intro keeps_intros)
qed (simp add: trader_modify_sl_tp_def keeps_intros)

lemma keeps_close_partial_position [keeps_intros]: "keeps I (close_partial_position ex pos price volume label quiet)"
proof (cases "dry_run ex")
  case False
  then have "keeps I (trader_order_send ex (close_order ex pos price volume label))" by (intro keeps_order_send I_close)
  with False show ?thesis unfolding close_partial_position_def Let_def by (intro keeps_intros)
qed (simp add: close_partial_position_def keeps_intros)

lemma keeps_move_sl_to_entry [keeps_intros]: "keeps I (move_sl_to_entry ex pos entry)"
  unfolding move_sl_to_entry_def Let_def by (intro keeps_intros)

lemma keeps_stops [keeps_intros]:
  "keeps I (early_break_even ex pos t price tick info)" "keeps I (leg_break_even ex pos t)"
  "keeps I (profit_trail ex pos t price tick info)" "keeps I (runner_trail ex pos t price tick info)"
  "keeps I (ladder ex pos t price tick info)"
  unfolding early_break_even_def leg_break_even_def profit_trail_def runner_trail_def ladder_def Let_def
  by (intro keeps_intros)+

lemma keeps_current_trade [keeps_intros]: "(\<And>t. keeps I (f t)) \<Longrightarrow> keeps I (current_trade pos f)"
  unfolding current_trade_def by (intro keeps_intros)

lemma keeps_manage_registered [keeps_intros]: "keeps I (manage_registered ex pos)"
  unfolding manage_registered_def Let_def by (intro keeps_intros)

lemma keeps_follow_first_leg [keeps_intros]: "keeps I (follow_first_leg ex ps t)"
  unfolding follow_first_leg_def follow_leg_def by (intro keeps_intros)

lemma keeps_flatten [keeps_intros]: "keeps I (flatten_all_positions ex)"
  unfolding flatten_all_positions_def flatten_position_def by (intro keeps_intros)

end

section \<open>Records\<close>

text \<open>The records that no order depends on.\<close>

locale recording = managing ex I + gating ex I for ex :: "'m trader_env" and I +
  assumes I_pnl: "I w \<Longrightarrow> I (w\<lparr>lt_last_close_pnl := dict_del k (lt_last_close_pnl w)\<rparr>)"
    and I_streak: "I w \<Longrightarrow> I (w\<lparr>lt_streak_losses := c'\<rparr>)"
    and I_saved: "I w \<Longrightarrow> I (w\<lparr>lt_saved := sv\<rparr>)"
    and I_journal: "I w \<Longrightarrow> I (w\<lparr>lt_journal := j\<rparr>)"
    and I_flattened: "I w \<Longrightarrow> I (w\<lparr>lt_blackout_flattened := b\<rparr>)"
begin

lemma keeps_writes [keeps_intros]:
  "keeps I (set_flattened b)" "keeps I (count_streak symbol x)"
  by (auto simp: keeps_def set_flattened_def count_streak_def py_simps I_flattened I_streak)

lemma keeps_forget_pnl [keeps_intros]: "keeps I (modify (\<lambda>w. w\<lparr>lt_last_close_pnl := dict_del k (lt_last_close_pnl w)\<rparr>))"
  by (intro keeps_modify I_pnl)

lemma keeps_files [keeps_intros]:
  "keeps I (save_management_state ex)" "keeps I (write_journal ex j')" "keeps I (record_position_context ex ticket a s)"
  "keeps I (purge_closed_position_context ex ticket)" "keeps I (reconcile_position_context ex ts)"
proof -
  have disk: "keeps I (case x of DirectoryFails \<Rightarrow> m1 | WriteFails \<Rightarrow> m2 | Writable \<Rightarrow> m3)"
    if "keeps I m1" "keeps I m2" "keeps I m3" for x and m1 m2 m3 :: "('m trader, unit) comp"
    using that by (cases x) simp_all
  show "keeps I (save_management_state ex)"
    unfolding save_management_state_def by (intro keeps_intros disk keeps_modify I_saved)
  show j: "keeps I (write_journal ex j')" for j'
    unfolding write_journal_def by (intro keeps_intros disk keeps_modify I_journal)
  show "keeps I (record_position_context ex ticket a s)" "keeps I (purge_closed_position_context ex ticket)"
      "keeps I (reconcile_position_context ex ts)"
    unfolding record_position_context_def purge_closed_position_context_def reconcile_position_context_def Let_def
    by (intro keeps_intros j)+
qed

end

section \<open>Every operation\<close>

locale trading = recording +
  assumes I_clear: "I w \<Longrightarrow> I (w\<lparr>lt_last_close_pnl := []\<rparr>)"
    and I_active: "I w \<Longrightarrow> I (w\<lparr>lt_active := d\<rparr>)"
    and I_message: "I w \<Longrightarrow> I (w\<lparr>lt_messages := msgs\<rparr>)"
    and I_leg: "\<not> dry_run ex \<Longrightarrow> I w \<Longrightarrow> I (w\<lparr>lt_sent := lt_sent w @ [leg_request ex a side p i leg volume sl tp]\<rparr>)"
begin

lemma keeps_table [keeps_intros]:
  "keeps I (send_text msg)" "keeps I (pop_trade ticket)" "keeps I (register_position pos)" "keeps I load_management_state"
  by (auto simp: keeps_def send_text_def pop_trade_def register_position_def load_management_state_def py_simps I_message
      I_active split: state_file.split)

lemma keeps_report_close [keeps_intros]: "keeps I (report_close ex ps ticket)"
  unfolding report_close_def announce_close_def Let_def by (intro keeps_intros)

lemma keeps_check [keeps_intros]: "keeps I (check_and_move_breakeven ex)"
  unfolding check_and_move_breakeven_def manage_position_def by (intro keeps_intros)

lemma keeps_send_legs [keeps_intros]:
  assumes "\<not> dry_run ex"
  shows "keeps I (send_legs ex a p i' vls)"
proof (induction vls)
  case (Cons vl vls)
  obtain v n where vl: "vl = (v, n)" by (cases vl)
  have send: "keeps I (trader_order_send ex (leg_request ex a side p i' leg volume sl tp))" for side leg volume sl tp
    by (intro keeps_order_send I_leg assms)
  have "keeps I (send_leg ex a p i' (v, n))"
    unfolding send_leg_def remember_leg_def Let_def by (intro keeps_intros send keeps_modify I_active)
  then show ?case unfolding vl send_legs.simps by (intro keeps_intros Cons.IH)
qed (simp add: keeps_intros)

lemma keeps_open_legs [keeps_intros]: "\<not> dry_run ex \<Longrightarrow> keeps I (open_legs ex a p)"
  unfolding open_legs_def new_intent_def by (intro keeps_intros)

lemma keeps_start [keeps_intros]: "keeps I (start_trader ex)"
proof -
  have "keeps I (modify (\<lambda>w. w\<lparr>lt_active := [], lt_last_close_pnl := [], lt_streak_losses := [],
      lt_corr_matrix := [], lt_corr_last_update := 0, lt_blackout_flattened := False\<rparr>))"
    by (intro keeps_modify I_flattened I_corr I_streak I_clear I_active)
  then show ?thesis unfolding start_trader_def by (intro keeps_intros)
qed

end

locale running = trading +
  assumes I_volume: "I w \<Longrightarrow> I (w\<lparr>lt_volume := v\<rparr>)"
begin

lemma keeps_set_volume [keeps_intros]: "keeps I (put_volume v)"
  unfolding put_volume_def by (rule keeps_modify) (rule I_volume)

lemma keeps_execute_signal [keeps_intros]: "keeps I (execute_signal ex a s)"
proof (cases "dry_run ex")
  case True
  show ?thesis unfolding execute_signal_def enter_def if_P [OF True] by (intro keeps_intros)
next
  case False
  show ?thesis unfolding execute_signal_def enter_def if_not_P [OF False] by (intro keeps_intros False)
qed

lemma keeps_handle_signal [keeps_intros]: "keeps I (handle_signal ex x)"
  unfolding handle_signal_def by (intro keeps_intros keeps_case_result)

lemma keeps_loop_pass [keeps_intros]: "keeps I (loop_pass ex bars signals seen)"
  unfolding loop_pass_def Let_def by (intro keeps_intros)

end

section \<open>The requests of a run\<close>

text \<open>What happens to a running trader.\<close>

datatype trader_op =
    Start
  | Check
  | Signal string live_signal
  | Flatten
  | Pass "string \<Rightarrow> int option" "(string \<times> live_signal result) list" "int \<times> rat"

fun trader_step :: "'m trader_env \<Rightarrow> trader_op \<Rightarrow> 'm trader \<Rightarrow> 'm trader" where
  "trader_step ex Start w = snd (start_trader ex w)"
| "trader_step ex Check w = snd (check_and_move_breakeven ex w)"
| "trader_step ex (Signal a s) w = snd (execute_signal ex a s w)"
| "trader_step ex Flatten w = snd (flatten_all_positions ex w)"
| "trader_step ex (Pass bars signals seen) w = snd (loop_pass ex bars signals seen w)"

context running
begin

lemma I_step: "I w \<Longrightarrow> I (trader_step ex x w)"
  by (cases x) (auto intro: keepsD keeps_intros)

end

definition new_requests :: "(trade_request \<Rightarrow> bool) \<Rightarrow> trade_request list \<Rightarrow> 'm trader \<Rightarrow> bool" where
  "new_requests ok l w \<longleftrightarrow> (\<exists>new. lt_sent w = l @ new \<and> list_all ok new)"

text \<open>A request of this trader: a stop of one position, or a deal under its own number.\<close>

definition own_request :: "'m trader_env \<Rightarrow> trade_request \<Rightarrow> bool" where
  "own_request ex rq \<longleftrightarrow> \<not> dry_run ex
     \<and> (rq_action rq = ACTION_SLTP (te_api ex) \<and> rq_position rq \<noteq> None \<and> rq_volume rq = None
        \<or> rq_action rq = ACTION_DEAL (te_api ex) \<and> rq_magic rq = Some (te_magic ex) \<and> rq_deviation rq = Some 20)"

lemma new_requests_snoc: "new_requests ok l w \<Longrightarrow> ok rq \<Longrightarrow> new_requests ok l (w\<lparr>lt_sent := lt_sent w @ [rq]\<rparr>)"
  by (auto simp: new_requests_def)

interpretation own: running ex "new_requests (own_request ex) l" for ex :: "'m trader_env" and l
proof unfold_locales
  fix w :: "'m trader"
  assume live: "\<not> dry_run ex" and w: "new_requests (own_request ex) l w"
  show "new_requests (own_request ex) l (w\<lparr>lt_sent := lt_sent w @ [modify_request ex pos sl tp]\<rparr>)" for pos sl tp
    by (rule new_requests_snoc [OF w]) (simp add: own_request_def modify_request_def live)
  show "new_requests (own_request ex) l (w\<lparr>lt_sent := lt_sent w @ [close_order ex pos price volume label]\<rparr>)" for pos price volume label
    by (rule new_requests_snoc [OF w]) (simp add: own_request_def close_order_def live)
  show "new_requests (own_request ex) l (w\<lparr>lt_sent := lt_sent w @ [leg_request ex a side p i leg volume sl tp]\<rparr>)"
    for a side p i leg volume sl tp
    by (rule new_requests_snoc [OF w]) (simp add: own_request_def leg_request_def live)
qed (simp_all add: new_requests_def)

interpretation own_run: step_invariant "trader_step ex" "new_requests (own_request ex) l" for ex :: "'m trader_env" and l
  by unfold_locales (rule own.I_step)

text \<open>The cache of close results is only ever emptied.\<close>

interpretation pnl: running ex "\<lambda>w. lt_last_close_pnl w = []" for ex :: "'m trader_env"
  by unfold_locales (simp_all add: dict_del_def)

interpretation pnl_run: step_invariant "trader_step ex" "\<lambda>w. lt_last_close_pnl w = []" for ex :: "'m trader_env"
  by unfold_locales (rule pnl.I_step)

end
