(* ===== verification/Trader_Guarantees.thy ===== *)
theory Trader_Guarantees
  imports Trader_Frames
begin

text \<open>
  What the live trader of \<^verbatim>\<open>execution/mt5_trader.py\<close> guarantees, for every terminal: which requests it
  sends and when, how stops move, what the detector of closed positions reports, and what a restart
  finds; and where its safeguards do not hold.
\<close>

section \<open>Requests\<close>


section \<open>Slots\<close>

text \<open>The groups that have an open leg, each under the asset of its leg, and the positions without a group.\<close>

definition open_groups :: "(int \<times> trade) list \<Rightarrow> position_raw list \<Rightarrow> (string \<times> string) set" where
  "open_groups active ps = {(a, g). \<exists>p \<in> set ps. slot active p = (a, Some g)}"

definition lone_positions :: "(int \<times> trade) list \<Rightarrow> position_raw list \<Rightarrow> position_raw list" where
  "lone_positions active ps = filter (\<lambda>p. snd (slot active p) = None) ps"

definition members :: "(string \<times> string list) list \<Rightarrow> (string \<times> string) set" where
  "members groups = {(a, g). g \<in> set (get_or [] (map_of groups a))}"

definition counting :: "(string \<times> string list) list \<Rightarrow> bool" where
  "counting groups \<longleftrightarrow> distinct (map fst groups) \<and> (\<forall>v \<in> snd ` set groups. distinct v)"

lemma keys_dict_put: "fst ` set (dict_put k v d) = insert k (fst ` set d)"
  by (induction k v d rule: dict_put.induct) auto

lemma distinct_dict_put: "distinct (map fst d) \<Longrightarrow> distinct (map fst (dict_put k v d))"
  by (induction k v d rule: dict_put.induct) (auto simp: keys_dict_put image_iff)

lemma values_dict_put: "snd ` set (dict_put k v d) \<subseteq> insert v (snd ` set d)"
  by (induction k v d rule: dict_put.induct) auto

lemma counting_put:
  assumes "counting groups" and "distinct v"
  shows "counting (dict_put k v groups)"
  unfolding counting_def
proof (intro conjI ballI)
  show "distinct (map fst (dict_put k v groups))" using assms by (simp add: counting_def distinct_dict_put)
next
  fix x assume "x \<in> snd ` set (dict_put k v groups)"
  then have "x = v \<or> x \<in> snd ` set groups" using values_dict_put [of k v groups] by (meson insertE subsetD)
  then show "distinct x" using assms unfolding counting_def by metis
qed

lemma counting_get: "counting groups \<Longrightarrow> distinct (get_or [] (map_of groups k))"
  by (cases "map_of groups k") (force simp: counting_def dest: map_of_SomeD)+

lemma group_total: "counting groups \<Longrightarrow> (\<Sum>kv\<leftarrow>groups. int (length (snd kv))) = int (card (members groups)) \<and> finite (members groups)"
proof (induction groups)
  case (Cons kv groups)
  obtain k v where kv: "kv = (k, v)" by (cases kv)
  have new: "k \<notin> fst ` set groups" and v: "distinct v" and rest: "counting groups"
    using Cons.prems by (auto simp: counting_def kv image_iff)
  have "members (kv # groups) = Pair k ` set v \<union> members groups"
    using new by (auto simp: members_def kv map_of_eq_None_iff [symmetric] split: if_splits)
  moreover have "Pair k ` set v \<inter> members groups = {}"
    using new by (auto simp: members_def map_of_eq_None_iff [symmetric])
  moreover have "card (Pair k ` set v) = length v" using v by (simp add: card_image inj_on_def distinct_card)
  ultimately show ?case using Cons.IH [OF rest] by (simp add: card_Un_disjoint kv)
qed (simp add: members_def)

lemma single_total: "distinct (map fst d) \<Longrightarrow> sum_list (map snd (dict_put k v d)) = sum_list (map snd d) - get_or 0 (map_of d k) + (v :: int)"
  by (induction k v d rule: dict_put.induct) (auto simp: map_of_eq_None_iff image_iff)

lemma count_slots_members:
  assumes "counting groups" and "distinct (map fst singles)" and "count_slots active ps (groups, singles) = (groups', singles')"
  shows "counting groups' \<and> distinct (map fst singles') \<and> members groups' = members groups \<union> open_groups active ps
    \<and> sum_list (map snd singles') = sum_list (map snd singles) + int (length (lone_positions active ps))
    \<and> get_or 0 (map_of singles' a) = get_or 0 (map_of singles a) + int (length (filter (\<lambda>p. slot active p = (a, None)) ps))"
  using assms
proof (induction ps arbitrary: groups singles)
  case (Cons p ps)
  obtain k o' where p: "slot active p = (k, o')" by (cases "slot active p")
  show ?case
  proof (cases o')
    case None
    from Cons.IH [of groups "dict_put k (get_or 0 (map_of singles k) + 1) singles"] Cons.prems show ?thesis
      by (auto simp: p None open_groups_def lone_positions_def distinct_dict_put single_total)
  next
    case (Some g)
    let ?v = "List.insert g (get_or [] (map_of groups k))"
    have "counting (dict_put k ?v groups)" using Cons.prems(1) by (simp add: counting_put counting_get)
    moreover have "members (dict_put k ?v groups) = insert (k, g) (members groups)" by (auto simp: members_def split: if_splits)
    ultimately show ?thesis
      using Cons.IH [of "dict_put k ?v groups" singles] Cons.prems by (auto simp: p Some open_groups_def lone_positions_def)
  qed
qed (simp add: open_groups_def lone_positions_def)

text \<open>A group takes one slot of the risk budget however many of its legs are open, in the total and
  in the asset's count; every position that belongs to no known group takes one of its own.\<close>

theorem group_takes_one_slot:
  "\<exists>groups singles. group_position_counts active ps = (groups, singles)
    \<and> total_groups groups singles = int (card (open_groups active ps)) + int (length (lone_positions active ps))
    \<and> asset_groups a groups singles = int (card {g. (a, g) \<in> open_groups active ps})
        + int (length (filter (\<lambda>p. slot active p = (a, None)) ps))"
proof -
  obtain groups singles where c: "count_slots active ps ([], []) = (groups, singles)" by (cases "count_slots active ps ([], [])")
  have "counting []" "members [] = {}" by (simp_all add: counting_def members_def)
  with count_slots_members [of "[]" "[]" active ps groups singles a] c
  have m: "counting groups" "members groups = open_groups active ps"
    "sum_list (map snd singles) = int (length (lone_positions active ps))"
    "get_or 0 (map_of singles a) = int (length (filter (\<lambda>p. slot active p = (a, None)) ps))" by auto
  have "set (get_or [] (map_of groups a)) = {g. (a, g) \<in> open_groups active ps}"
    unfolding m(2) [symmetric] by (auto simp: members_def)
  then have "length (get_or [] (map_of groups a)) = card {g. (a, g) \<in> open_groups active ps}"
    using distinct_card [OF counting_get [OF m(1), of a]] by simp
  then show ?thesis
    using group_total [OF m(1)] m c by (simp add: group_position_counts_def total_groups_def asset_groups_def)
qed

section \<open>Stops\<close>

interpretation sent: reading ex "\<lambda>w. lt_sent w = l" for ex :: "'m trader_env" and l
  by unfold_locales simp_all

lemma event_simps:
  "fst (append_trade_event ex et a c d w) = Inr ()" "lt_sent (snd (append_trade_event ex et a c d w)) = lt_sent w"
  "lt_active (snd (append_trade_event ex et a c d w)) = lt_active w"
  by (simp_all add: append_trade_event_def Let_def)

lemma wp_event: "wp (append_trade_event ex et a c d) Q E w = Q () (snd (append_trade_event ex et a c d w))"
  by (simp add: wp_def event_simps case_prod_beta split: sum.split)

lemma wp_catch_all:
  assumes "wp m Q (\<lambda>s'. \<forall>e. wp (h e) Q E s') s"
  shows "wp (catch m (\<lambda>e. Some (h e))) Q E s"
proof (cases "m s")
  case (Pair r s')
  then show ?thesis using assms by (cases r) (simp_all add: wp_def catch_def)
qed

lemma wp_total: "wp m Q (\<lambda>_. False) s \<Longrightarrow> \<exists>x s'. m s = (Inr x, s') \<and> Q x s'"
  by (auto simp: wp_def split: prod.splits sum.splits)

lemma wp_order_send:
  "wp (trader_order_send ex rq) Q E w = (case ta_order_send (te_api ex) rq (lt_term w) of
     (Inl e, m) \<Rightarrow> E (w\<lparr>lt_sent := lt_sent w @ [rq], lt_term := m\<rparr>)
   | (Inr r, m) \<Rightarrow> Q r (w\<lparr>lt_sent := lt_sent w @ [rq], lt_term := m\<rparr>))"
  by (simp add: wp_def trader_order_send_def seq_run run_simps on_term_def split: prod.split sum.split)

lemma wp_modify_sl_tp:
  "wp (trader_modify_sl_tp ex pos sl tp)
     (\<lambda>ok w'. lt_active w' = lt_active w \<and> (if dry_run ex then ok \<and> w' = w else lt_sent w' = lt_sent w @ [modify_request ex pos sl tp]))
     (\<lambda>w'. \<not> dry_run ex \<and> lt_active w' = lt_active w \<and> lt_sent w' = lt_sent w @ [modify_request ex pos sl tp]) w"
  by (auto simp: trader_modify_sl_tp_def Let_def wp_simps wp_event wp_order_send the_result_def event_simps
      split: prod.split sum.split option.split)

text \<open>C35. The move of a stop to the entry never raises, and sends at most one request, whose stop
  is better than the current one and no nearer to the market than the broker's distance at the prices
  just read. It answers true only for the stop at the entry itself.\<close>

theorem entry_stop_only_improves:
  "\<exists>moved w'. move_sl_to_entry ex pos entry w = (Inr moved, w')
    \<and> (lt_sent w' = lt_sent w \<and> (dry_run ex \<or> \<not> moved)
       \<or> (\<exists>tick info sl w1. symbol_market ex (pr_symbol pos) w = (Inr (Some (tick, info)), w1)
            \<and> lt_sent w' = lt_sent w @ [modify_request ex pos sl (pr_tp pos)]
            \<and> (0 < pr_sl pos \<longrightarrow> (if pr_type pos = 0 then pr_sl pos < sl else sl < pr_sl pos))
            \<and> (if pr_type pos = 0 then sl \<le> closest_stop pos tick info else closest_stop pos tick info \<le> sl)
            \<and> (moved \<longrightarrow> sl = entry_stop pos (get_or (pr_price_open pos) entry) (ins_digits info))))"
    (is "\<exists>moved w'. _ \<and> ?Q moved w'")
proof -
  obtain r w1 where m: "symbol_market ex (pr_symbol pos) w = (r, w1)" by (cases "symbol_market ex (pr_symbol pos) w")
  have same: "lt_sent w1 = lt_sent w" using keepsD [OF sent.keeps_market, of w "lt_sent w" ex "pr_symbol pos"] m by simp
  have "wp (move_sl_to_entry ex pos entry) ?Q (\<lambda>_. False) w"
  proof (cases r)
    case (Inr o')
    show ?thesis
    proof (cases o')
      case (Some p)
      obtain tick info where p: "p = (tick, info)" by (cases p)
      define Q where "Q = ?Q"
      define target where "target = entry_stop pos (get_or (pr_price_open pos) entry) (ins_digits info)"
      define nearest where "nearest = closest_stop pos tick info"
      define clamped where "clamped = clamped_stop pos target nearest"
      define sl where "sl = (if clamped then nearest else target)"
      have read: "symbol_market ex (pr_symbol pos) w = (Inr (Some (tick, info)), w1)" by (simp add: m Inr Some p)
      have bound: "if pr_type pos = 0 then sl \<le> nearest else nearest \<le> sl"
        by (auto simp: sl_def clamped_def clamped_stop_def)
      have refused: "Q False w'" if "lt_sent w' = lt_sent w" for w' using that by (simp add: Q_def)
      have dry: "Q ok w'" if "lt_sent w' = lt_sent w" "dry_run ex" for ok w' using that by (simp add: Q_def)
      have asked: "Q ok w'" if "lt_sent w' = lt_sent w @ [modify_request ex pos sl (pr_tp pos)]" "\<not> no_better pos sl"
          "ok \<Longrightarrow> \<not> clamped" for ok w'
        unfolding Q_def using that bound read
        by (intro disjI2 exI [of _ tick] exI [of _ info] exI [of _ sl] exI [of _ w1])
          (auto simp: sl_def nearest_def target_def no_better_def)
      have answer: "(\<lambda>ok. wp (ret (ok \<and> \<not> clamped)) Q E) = (\<lambda>ok. Q (ok \<and> \<not> clamped))" for E
        by (simp add: fun_eq_iff wp_simps)
      have "wp (trader_modify_sl_tp ex pos sl (pr_tp pos)) (\<lambda>ok. Q (ok \<and> \<not> clamped)) (Q False) w1" if "\<not> no_better pos sl"
        by (rule wp_mono [OF wp_modify_sl_tp]) (use that same in \<open>auto intro: asked dry split: if_splits\<close>)
      then have "wp (if no_better pos sl then ret False
          else bnd (trader_modify_sl_tp ex pos sl (pr_tp pos)) (\<lambda>ok. ret (ok \<and> \<not> clamped))) Q (Q False) w1"
        by (simp add: wp_simps refused same answer)
      then show ?thesis
        unfolding move_sl_to_entry_def Q_def [symmetric]
        by (intro wp_catch_all) (simp only: wp_bnd wp_def [of "symbol_market ex (pr_symbol pos)"] read Let_def wp_basic simp_thms
            prod.case sum.case option.case target_def [symmetric] nearest_def [symmetric] clamped_def [symmetric]
            sl_def [symmetric])
    qed (auto simp: move_sl_to_entry_def wp_def catch_run bnd_run m Inr same run_simps)
  qed (auto simp: move_sl_to_entry_def wp_def catch_run bnd_run m same run_simps)
  then show ?thesis by (rule wp_total)
qed

text \<open>The stop of the early break-even is on the wrong side of the broker's distance.\<close>

lemma protective_stop_too_close:
  "pr_type pos = 0 \<Longrightarrow> fsub price (get_min_dist tick info) \<le> protective_stop pos price tick info"
  "pr_type pos \<noteq> 0 \<Longrightarrow> protective_stop pos price tick info \<le> fadd price (get_min_dist tick info)"
  by (auto simp: protective_stop_def Let_def)

lemma trade_of_update: "trade_of k (snd (update_trade k f w)) = map_option f (trade_of k w)"
proof -
  have "map_of (map (\<lambda>(k', v). (k', if k' = k then f v else v)) d) k = map_option f (map_of d k)" for d :: "(int \<times> trade) list"
    by (induction d) auto
  then show ?thesis by (simp add: trade_of_def update_trade_def run_simps)
qed


end
