(* ===== verification/Trader_Tracking.thy ===== *)
theory Trader_Tracking
  imports Trader_Guarantees
begin

text \<open>
  What the live trader remembers of its positions: the detector of closed positions reports each once and
  leaves the tracked tickets equal to the listed ones, a restart resumes the trades that have a target,
  and a close whose history cannot be read counts as no loss.
\<close>

section \<open>Tickets and reports\<close>

abbreviation tickets :: "'m trader \<Rightarrow> int list" where
  "tickets w \<equiv> map fst (lt_active w)"

fun reported_ticket :: "message \<Rightarrow> int list" where
  "reported_ticket (TradeClosed _ k _ _ _) = [k]"
| "reported_ticket _ = []"

definition reported :: "'m trader \<Rightarrow> int list" where
  "reported w = concat (map reported_ticket (lt_messages w))"

definition tracked :: "int list \<Rightarrow> int list \<Rightarrow> 'm trader \<Rightarrow> bool" where
  "tracked ks rs w \<longleftrightarrow> tickets w = ks \<and> reported w = rs"

interpretation tracked: recording ex "tracked ks rs" for ex :: "'m trader_env" and ks rs
  by unfold_locales (simp_all add: tracked_def reported_def o_def case_prod_beta)

lemma wp_via: "keeps P m \<Longrightarrow> P s \<Longrightarrow> (\<And>x s'. P s' \<Longrightarrow> Q x s') \<Longrightarrow> wp m Q (\<lambda>_. True) s"
  using wp_mono [OF wp_keeps [of P m s], of Q "\<lambda>_. True"] by auto

lemma book_pop: "tracked ks rs w \<Longrightarrow> tracked (filter (\<lambda>k'. k' \<noteq> k) ks) rs (snd (pop_trade k w))"
  by (auto simp: tracked_def pop_trade_def dict_del_def reported_def filter_map o_def case_prod_unfold)

lemma wp_announce: "tracked ks rs w \<Longrightarrow> wp (announce_close k t pnl) (\<lambda>_. tracked ks (rs @ [k])) (\<lambda>_. True) w"
  by (simp add: announce_close_def send_text_def wp_simps tracked_def reported_def)

lemma wp_report_close:
  assumes "tracked ks rs w"
  shows "wp (report_close ex ps k) (\<lambda>_. tracked (filter (\<lambda>k'. k' \<noteq> k) ks) (rs @ [k])) (\<lambda>_. True) w"
proof -
  let ?ks = "filter (\<lambda>k'. k' \<noteq> k) ks"
  have pop: "wp (pop_trade k) (\<lambda>_. tracked ?ks rs) (\<lambda>_. True) w"
    using book_pop [OF assms, of k] by (simp add: wp_def pop_trade_def)
  show ?thesis
    unfolding report_close_def Let_def case_prod_beta wp_bnd wp_seq
    apply (rule wp_mono [OF pop])
     apply (rule wp_via [OF tracked.keeps_closed_deals], assumption)
     apply (rule wp_via [OF tracked.keeps_read_moment], assumption)
     apply (simp only: wp_basic)
     apply (rule wp_via [OF tracked.keeps_append_trade_event], assumption)
     apply (rule wp_via [OF tracked.keeps_forget_pnl], assumption)
     apply (rule wp_via [OF keeps_swallow [OF tracked.keeps_files(4)]], assumption)
     apply (rule wp_via [OF tracked.keeps_writes(2)], assumption)
     apply (rule wp_via [OF tracked.keeps_read_moment], assumption)
     apply (rule wp_via [OF tracked.keeps_gates(1)], assumption)
     apply (rule wp_mono [OF wp_announce], assumption)
      apply (rule wp_via [OF tracked.keeps_follow_first_leg], assumption)
      apply simp_all
    done
qed

lemma wp_report_all:
  "tracked ks rs w \<Longrightarrow> wp (for_each gone (report_close ex ps)) (\<lambda>_. tracked (filter (\<lambda>k. k \<notin> set gone) ks) (rs @ gone)) (\<lambda>_. True) w"
proof (induction gone arbitrary: ks rs w)
  case (Cons k gone)
  have IH: "wp (for_each gone (report_close ex ps)) (\<lambda>_. tracked (filter (\<lambda>k'. k' \<notin> set (k # gone)) ks) (rs @ k # gone)) (\<lambda>_. True) s'"
    if "tracked (filter (\<lambda>k'. k' \<noteq> k) ks) (rs @ [k]) s'" for s'
    using Cons.IH [OF that] by (simp add: conj_commute)
  show ?case
    unfolding for_each.simps wp_seq
    by (rule wp_mono [OF wp_report_close [OF Cons.prems]]) (simp_all only: IH)
qed (simp add: wp_simps)

section \<open>Registration\<close>

fun register_all :: "int list \<Rightarrow> int list \<Rightarrow> int list" where
  "register_all ks [] = ks"
| "register_all ks (k # qs) = register_all (if k \<in> set ks then ks else ks @ [k]) qs"

lemma register_all_props:
  "set (register_all ks qs) = set ks \<union> set qs" "distinct ks \<Longrightarrow> distinct (register_all ks qs)"
  "filter (\<lambda>k. k \<notin> set qs) (register_all ks qs) = filter (\<lambda>k. k \<notin> set qs) ks"
proof -
  show "set (register_all ks qs) = set ks \<union> set qs" "distinct ks \<Longrightarrow> distinct (register_all ks qs)"
    by (induction ks qs rule: register_all.induct) auto
  have "filter (\<lambda>k. k \<notin> S) (register_all ks qs) = filter (\<lambda>k. k \<notin> S) ks" if "set qs \<subseteq> S" for S
    using that by (induction ks qs rule: register_all.induct) auto
  then show "filter (\<lambda>k. k \<notin> set qs) (register_all ks qs) = filter (\<lambda>k. k \<notin> set qs) ks" by simp
qed

lemma keys_put_new: "map_of d k = None \<Longrightarrow> map fst (dict_put k v d) = map fst d @ [k]"
  by (induction k v d rule: dict_put.induct) (auto split: if_splits)

lemma book_register: "tracked ks rs w \<Longrightarrow> tracked (if pr_ticket p \<in> set ks then ks else ks @ [pr_ticket p]) rs (snd (register_position p w))"
  by (auto simp: tracked_def register_position_def run_simps trade_of_def reported_def keys_put_new map_of_eq_None_iff)
    (metis fst_conv image_eqI)

lemma wp_manage_one:
  assumes "tracked ks rs w"
  shows "wp (manage_position ex p) (\<lambda>_. tracked (if pr_ticket p \<in> set ks then ks else ks @ [pr_ticket p]) rs) (\<lambda>_. True) w"
proof -
  have "wp (register_position p) (\<lambda>_. tracked (if pr_ticket p \<in> set ks then ks else ks @ [pr_ticket p]) rs) (\<lambda>_. True) w"
    using book_register [OF assms, of p] by (simp add: wp_def register_position_def run_simps)
  then show ?thesis
    unfolding manage_position_def wp_seq by (rule wp_mono) (auto intro: wp_via [OF tracked.keeps_manage_registered])
qed

lemma wp_manage_all:
  "tracked ks rs w \<Longrightarrow> wp (for_each ps (manage_position ex)) (\<lambda>_. tracked (register_all ks (map pr_ticket ps)) rs) (\<lambda>_. True) w"
proof (induction ps arbitrary: ks w)
  case (Cons p ps)
  have IH: "wp (for_each ps (manage_position ex)) (\<lambda>_. tracked (register_all ks (map pr_ticket (p # ps))) rs) (\<lambda>_. True) s'"
    if "tracked (if pr_ticket p \<in> set ks then ks else ks @ [pr_ticket p]) rs s'" for s'
    using Cons.IH [OF that] by simp
  show ?case
    unfolding for_each.simps wp_seq by (rule wp_mono [OF wp_manage_one [OF Cons.prems]]) (simp_all only: IH)
qed (simp add: wp_simps)

text \<open>C25. When a check of the positions runs to its end, every tracked position that the terminal no
  longer lists has been reported exactly once, in the order of the table and whatever else was managed, and
  the tracked tickets are exactly the listed ones.\<close>

theorem closed_positions_are_reported_once:
  assumes "distinct (tickets w)" and up: "on_term (ta_initialize (te_api ex)) w = (Inr True, w1)"
    and listed: "positions_get_by_magic ex None w1 = (Inr (Some ps), w2)"
    and run: "check_and_move_breakeven ex w = (Inr (), w')"
  shows "reported w' = reported w @ vanished ps w \<and> distinct (tickets w') \<and> set (tickets w') = pr_ticket ` set ps"
proof -
  let ?ts = "map pr_ticket ps"
  let ?ks = "register_all (tickets w) ?ts"
  have b1: "tracked (tickets w) (reported w) w2"
    using keepsD [OF tracked.keeps_on_term, of "tickets w" "reported w" w "ta_initialize (te_api ex)"] up
      keepsD [OF tracked.keeps_positions, of "tickets w" "reported w" w1 ex None] listed by (simp add: tracked_def)
  let ?gone = "filter (\<lambda>k. k \<notin> set ?ts) ?ks"
  let ?Q = "\<lambda>_. tracked (filter (\<lambda>k. k \<notin> set ?gone) ?ks) (reported w @ ?gone)"
  let ?close = "\<lambda>gone. seq (for_each gone (report_close ex ps)) (seq (save_management_state ex) (reconcile_position_context ex ?ts))"
  have report: "wp (bnd (gets (vanished ps)) ?close) ?Q (\<lambda>_. True) s'" if b: "tracked ?ks (reported w) s'" for s'
  proof -
    have v: "vanished ps s' = ?gone" using b by (simp add: tracked_def vanished_def)
    show ?thesis
      unfolding wp_bnd wp_basic v wp_seq
      by (rule wp_mono [OF wp_report_all [OF b]])
        (rule wp_via [OF tracked.keeps_files(1)], assumption, rule wp_via [OF tracked.keeps_files(5)], assumption, simp_all)
  qed
  have "wp (seq (for_each ps (manage_position ex)) (seq (save_management_state ex) (bnd (gets (vanished ps)) ?close)))
      ?Q (\<lambda>_. True) w2"
    unfolding wp_seq
    by (rule wp_mono [OF wp_manage_all [OF b1]]) (rule wp_via [OF tracked.keeps_files(1)], assumption, rule report, simp_all)
  then have "tracked (filter (\<lambda>k. k \<notin> set (filter (\<lambda>k. k \<notin> set ?ts) ?ks)) ?ks)
      (reported w @ filter (\<lambda>k. k \<notin> set ?ts) ?ks) w'"
    using run by (simp add: check_and_move_breakeven_def bnd_run up listed wp_def)
  moreover have "filter (\<lambda>k. k \<notin> set ?ts) ?ks = vanished ps w"
    using register_all_props(3) [where qs = ?ts] by (simp add: vanished_def)
  ultimately show ?thesis
    using register_all_props(1,2) [of "tickets w" ?ts] assms(1) by (auto simp: tracked_def)
qed

section \<open>Restart\<close>

lemma dict_put_new: "k \<notin> fst ` set d \<Longrightarrow> dict_put k v d = d @ [(k, v)]"
  by (induction k v d rule: dict_put.induct) auto

lemma restored_saved:
  assumes "distinct (map fst (acc @ d))"
  shows "restored (map (\<lambda>(k, t). (show_int k, t)) d) acc = acc @ filter (\<lambda>(_, t). tr_tp1 t \<noteq> None) d"
  using assms
proof (induction d arbitrary: acc)
  case (Cons kt d)
  obtain k t where kt: "kt = (k, t)" by (cases kt)
  show ?case
  proof (cases "tr_tp1 t")
    case None
    then show ?thesis using Cons.IH [of acc] Cons.prems by (simp add: kt)
  next
    case (Some x)
    have "k \<notin> fst ` set acc" using Cons.prems by (auto simp: kt image_iff)
    then show ?thesis using Cons.IH [of "acc @ [(k, t)]"] Cons.prems by (simp add: kt Some dict_put_new)
  qed
qed simp

text \<open>C37. A trader that starts on the file another one saved manages the same trades, in the same
  order and with all their flags, except those without a target, which it registers again as unknown when
  they are listed.\<close>

theorem restart_resumes_trades:
  assumes "distinct (tickets w)" and "at_disk (te_moment ex (lt_reads w)) = Writable"
    and "save_management_state ex w = (Inr (), w1)" and "lt_saved w2 = lt_saved w1"
    and start: "start_trader ex w2 = (Inr (), w')"
  shows "lt_active w' = filter (\<lambda>(_, t). tr_tp1 t \<noteq> None) (lt_active w)"
proof -
  have saved: "lt_saved w2 = Stored (map (\<lambda>(k, v). (show_int k, v)) (lt_active w))"
    using assms by (auto simp: save_management_state_def bnd_run read_moment_def run_simps)
  have called: "wp (on_term m) (\<lambda>_ v. lt_saved v = lt_saved w2) (\<lambda>_. True) v" if "lt_saved v = lt_saved w2" for m v
    using that by (simp add: wp_def on_term_def split: prod.split sum.split)
  have "wp (start_trader ex) (\<lambda>_ w'. lt_active w' = filter (\<lambda>(_, t). tr_tp1 t \<noteq> None) (lt_active w)) (\<lambda>_. True) w2"
    unfolding start_trader_def
    by (auto simp: wp_simps load_management_state_def saved restored_saved assms(1) split: sum.split
        intro!: wp_mono [OF called])
  then show ?thesis using start by (simp add: wp_def)
qed

section \<open>A history that cannot be read\<close>

text \<open>What the rest of a report leaves alone: the streaks, the throttle and the messages.\<close>

definition settled :: "(string \<times> int) list \<Rightarrow> throttle \<Rightarrow> message list \<Rightarrow> 'm trader \<Rightarrow> bool" where
  "settled c th msgs w \<longleftrightarrow> lt_streak_losses w = c \<and> lt_throttle w = th \<and> lt_messages w = msgs"

interpretation settled: managing ex "settled c th msgs" for ex :: "'m trader_env" and c th msgs
  by unfold_locales (simp_all add: settled_def)

lemma settled_purge: "keeps (settled c th msgs) (swallow (purge_closed_position_context ex ticket))"
proof -
  have "keeps (settled c th msgs) (case d of Writable \<Rightarrow> modify (\<lambda>w. w\<lparr>lt_journal := Stored j\<rparr>) | _ \<Rightarrow> throw OSError)" for d j
    by (cases d) (simp_all add: keeps_def run_simps settled_def)
  then have "keeps (settled c th msgs) (write_journal ex j)" for j
    unfolding write_journal_def by (intro keeps_bnd settled.keeps_read_moment)
  then show ?thesis unfolding purge_closed_position_context_def by (intro keeps_intros)
qed

lemma wp_on_throttle: "wp (on_throttle m) Q E w = wp m (\<lambda>x th. Q x (w\<lparr>lt_throttle := th\<rparr>)) (\<lambda>th. E (w\<lparr>lt_throttle := th\<rparr>)) (lt_throttle w)"
  by (simp add: wp_def on_throttle_def split: prod.split sum.split)

lemma wp_closed_without_loss:
  "wp (on_trade_closed m 0) (\<lambda>_ s'. \<not> th_stub s \<longrightarrow> th_consecutive_losses s' = 0) (\<lambda>_. True) s"
proof -
  have "wp (save_state m) (\<lambda>_ s'. True) (\<lambda>_. True) s" for s
    by (simp add: wp_def save_state_def split: disk.split)
  moreover have "wp (save_state m) (\<lambda>_ s'. th_consecutive_losses s' = 0) (\<lambda>_. True) s" if "th_consecutive_losses s = 0" for s
    using that by (simp add: wp_def save_state_def split: disk.split)
  ultimately show ?thesis by (simp add: on_trade_closed_def wp_simps)
qed

text \<open>When the history of a closed position cannot be read, its result counts as zero: nothing ever
  writes the cache that is consulted then. The position is announced with no loss, its asset's streak of
  losses and the streak of the throttle start again, whatever the position lost.\<close>

theorem lost_history_counts_as_no_loss:
  assumes start: "lt_last_close_pnl w0 = []" and w: "w = run_steps (trader_step ex) ops w0"
    and tracked: "trade_of ticket w = Some t"
    and lost: "case fst (ta_history_deals_get (te_api ex) ticket (lt_term w)) of Inl _ \<Rightarrow> True | Inr ds \<Rightarrow> get_or [] ds = []"
    and run: "report_close ex ps ticket w = (Inr (), w')"
  shows "map_of (lt_streak_losses w') (tr_symbol t) = Some 0
    \<and> (\<not> th_stub (lt_throttle w) \<longrightarrow> th_consecutive_losses (lt_throttle w') = 0)
    \<and> lt_messages w' = lt_messages w @ [TradeClosed (tr_symbol t) ticket (tr_leg t) 0 0]"
proof -
  let ?c = "lt_streak_losses w" and ?th = "lt_throttle w" and ?ms = "lt_messages w"
  have empty: "lt_last_close_pnl w = []" unfolding w by (rule pnl_run.run_inv) (rule start)
  have popped: "wp (pop_trade ticket) (\<lambda>x v. x = t \<and> settled ?c ?th ?ms v \<and> lt_last_close_pnl v = [] \<and> lt_term v = lt_term w) (\<lambda>_. True) w"
    using tracked empty by (simp add: wp_def pop_trade_def settled_def)
  have deals: "wp (closed_deals ex ticket) (\<lambda>ds v'. ds = [] \<and> settled ?c ?th ?ms v' \<and> lt_last_close_pnl v' = []) (\<lambda>_. True) v"
    if v: "settled ?c ?th ?ms v" "lt_last_close_pnl v = []" "lt_term v = lt_term w" for v
  proof (cases "ta_history_deals_get (te_api ex) ticket (lt_term w)")
    case (Pair r m)
    then show ?thesis
      using v lost by (cases r) (simp_all add: wp_def closed_deals_def bnd_run catch_run on_term_def run_simps settled_def)
  qed
  have zero: "realized_pnl [] (map_of [] ticket) = 0" by (simp add: realized_pnl_def)
  have count: "wp (count_streak (tr_symbol t) 0) (\<lambda>_. settled (dict_put (tr_symbol t) 0 ?c) ?th ?ms) (\<lambda>_. True) v"
    if "settled ?c ?th ?ms v" for v
    using that by (simp add: wp_def count_streak_def run_simps settled_def)
  let ?done = "\<lambda>ms v. lt_streak_losses v = dict_put (tr_symbol t) 0 ?c
      \<and> (\<not> th_stub ?th \<longrightarrow> th_consecutive_losses (lt_throttle v) = 0) \<and> lt_messages v = ms"
  have told: "wp (on_throttle (on_trade_closed m 0)) (\<lambda>_. ?done ?ms) (\<lambda>_. True) v"
    if "settled (dict_put (tr_symbol t) 0 ?c) ?th ?ms v" for m v
    unfolding wp_on_throttle using that wp_closed_without_loss [of m ?th]
    by (auto simp: settled_def elim: wp_mono)
  let ?closed = "?done (?ms @ [TradeClosed (tr_symbol t) ticket (tr_leg t) 0 0])"
  have announced: "wp (announce_close ticket t 0) (\<lambda>_. ?closed) (\<lambda>_. True) v" if "?done ?ms v" for v
    using that by (simp add: announce_close_def send_text_def wp_simps)
  have follow: "wp (follow_first_leg ex ps t) (\<lambda>_. ?closed) (\<lambda>_. True) v" if "?closed v" for v
    by (rule wp_via [OF settled.keeps_follow_first_leg, of "lt_streak_losses v" "lt_throttle v" "lt_messages v"])
      (use that in \<open>simp_all add: settled_def\<close>)
  have moment: "wp (read_moment ex) (\<lambda>_ v'. settled ?c ?th ?ms v' \<and> lt_last_close_pnl v' = []) (\<lambda>_. True) v"
    if "settled ?c ?th ?ms v" "lt_last_close_pnl v = []" for v
    using that by (simp add: wp_def read_moment_def settled_def)
  have "wp (report_close ex ps ticket) (\<lambda>_. ?closed) (\<lambda>_. True) w"
    unfolding report_close_def Let_def case_prod_beta wp_bnd wp_seq
    apply (rule wp_mono [OF popped], elim conjE)
     apply (rule wp_mono [OF deals], assumption+, elim conjE)
      apply (rule wp_mono [OF moment], assumption+, elim conjE)
       apply (simp only: wp_basic zero)
       apply (rule wp_via [OF settled.keeps_append_trade_event], assumption)
       apply (simp only: wp_basic)
       apply (rule wp_via [OF settled_purge [of ?c ?th ?ms]], simp add: settled_def)
       apply (rule wp_mono [OF count], assumption)
        apply (rule wp_via [OF settled.keeps_read_moment], assumption)
        apply (rule wp_mono [OF told], assumption)
         apply (rule wp_mono [OF announced], assumption)
          apply (rule follow, assumption)
         apply simp_all
    done
  then show ?thesis using run by (simp add: wp_def)
qed

end
