(* ===== verification/Trader_Permission.thy ===== *)
theory Trader_Permission
  imports Trader_Tracking
begin

text \<open>
  When the live trader sends an entry: everything that must have been granted first, and what happens to
  its volume, which a losing streak reduces for one entry.
\<close>

section \<open>The questions\<close>

text \<open>What no question changes.\<close>

definition unasked :: "'m trader \<Rightarrow> 'm trader \<Rightarrow> bool" where
  "unasked w0 w \<longleftrightarrow> lt_sent w = lt_sent w0 \<and> lt_active w = lt_active w0 \<and> lt_streak_losses w = lt_streak_losses w0
     \<and> lt_risk w = lt_risk w0 \<and> lt_throttle w = lt_throttle w0 \<and> lt_volume w = lt_volume w0"

interpretation unasked: asking ex "unasked w0" for ex :: "'m trader_env" and w0
  by unfold_locales (simp_all add: unasked_def)

lemma unasked_refl: "unasked w w" by (simp add: unasked_def)

definition risk_granted :: "'m trader_env \<Rightarrow> string \<Rightarrow> 'm trader \<Rightarrow> bool" where
  "risk_granted ex asset_key w \<longleftrightarrow> (\<exists>ps mt t r.
     fst (limits_can_trade (te_limits ex) t mt asset_key (Some (fst (group_position_counts (lt_active w) ps)))
        (Some (snd (group_position_counts (lt_active w) ps))) (lt_risk w)) = Inr (True, r))"

definition throttle_granted :: "'m trader \<Rightarrow> bool" where
  "throttle_granted w \<longleftrightarrow> (\<exists>t equity r. fst (can_trade t equity (lt_throttle w)) = Inr (True, r))"

definition not_expired :: "'m trader_env \<Rightarrow> live_signal \<Rightarrow> bool" where
  "not_expired ex s \<longleftrightarrow> get_or 0 (ls_expires_at_utc s) = 0
     \<or> (\<exists>n. trunc (at_now (te_moment ex n)) \<le> get_or 0 (ls_expires_at_utc s))"

definition permitted :: "'m trader_env \<Rightarrow> string \<Rightarrow> live_signal \<Rightarrow> 'm trader \<Rightarrow> bool" where
  "permitted ex asset_key s w \<longleftrightarrow>
     market_off ex (te_moment ex (lt_reads w)) = Inr False
   \<and> order_routing_enabled ex \<and> order_routing_allowed (cf_deployment (te_cfg ex)) (ls_confirmed_by s) = Inr True
   \<and> asset_key \<in> set (execution_assets ex) \<and> not_expired ex s \<and> ls_signal_state s \<in> {None, Some ''confirmed''}
   \<and> (\<exists>c. dynamic_min_confidence ex asset_key w = Inr c \<and> c \<le> ls_confidence s)
   \<and> risk_granted ex asset_key w \<and> throttle_granted w"

lemma wp_unless:
  assumes "wp m (\<lambda>stop w'. if stop then Q False w' else wp rest Q E w') E w"
  shows "wp (unless m rest) Q E w"
proof -
  have eq: "(\<lambda>stop. wp (if stop then ret False else rest) Q E) = (\<lambda>stop w'. if stop then Q False w' else wp rest Q E w')"
    by (auto simp: fun_eq_iff wp_simps)
  show ?thesis unfolding unless_def wp_bnd eq by (rule assms)
qed

lemma wp_throttle_gate:
  assumes "unasked w0 w"
  shows "wp (throttle_gate ex) (\<lambda>ok _. ok \<longrightarrow> throttle_granted w0) (\<lambda>_. True) w"
proof -
  have ask: "wp (bnd (on_throttle (can_trade t equity)) (\<lambda>(ok, _). ret ok)) (\<lambda>ok _. ok \<longrightarrow> throttle_granted w0) (\<lambda>_. True) v"
    if "unasked w0 v" for t equity v
  proof (cases "can_trade t equity (lt_throttle w0)")
    case (Pair r th)
    then show ?thesis
      using that by (cases r) (auto simp: wp_def bnd_run on_throttle_def unasked_def throttle_granted_def run_simps, metis fst_conv)
  qed
  show ?thesis
    unfolding throttle_gate_def wp_bnd [where m = "catch _ _"] wp_bnd [where m = "read_moment _"]
    by (rule wp_via [where P = "unasked w0"], intro keeps_intros unasked.keeps_on_term, rule assms)
      (rule wp_via [OF unasked.keeps_read_moment], assumption, rule ask)
qed

lemma wp_risk_gate:
  assumes "unasked w0 w"
  shows "wp (risk_gate ex a) (\<lambda>ok w'. (ok \<longrightarrow> risk_granted ex a w0) \<and> lt_throttle w' = lt_throttle w0) (\<lambda>_. True) w"
proof -
  have ask: "wp (bnd (on_risk (limits_can_trade (te_limits ex) t mt a (Some groups) (Some singles))) (\<lambda>(ok, _). ret ok))
      (\<lambda>ok w'. (ok \<longrightarrow> risk_granted ex a w0) \<and> lt_throttle w' = lt_throttle w0) (\<lambda>_. True) v"
    if "unasked w0 v0" and counted: "group_position_counts (lt_active v0) ps = (groups, singles)" and "unasked w0 v"
    for t mt groups singles v0 v ps
  proof (cases "limits_can_trade (te_limits ex) t mt a (Some groups) (Some singles) (lt_risk w0)")
    case (Pair r st)
    have "risk_granted ex a w0" if "r = Inr (True, x)" for x
      unfolding risk_granted_def using Pair that \<open>unasked w0 v0\<close> counted
      by (intro exI [of _ ps] exI [of _ mt] exI [of _ t] exI [of _ x]) (simp add: unasked_def)
    then show ?thesis
      using that Pair by (cases r) (auto simp: wp_def bnd_run on_risk_def unasked_def run_simps)
  qed
  show ?thesis
    unfolding risk_gate_def wp_bnd [where m = "positions_get_by_magic _ _"] wp_bnd [where m = "gets _"]
    apply (rule wp_via [OF unasked.keeps_positions assms])
    apply (simp only: wp_basic wp_case_prod split: prod.split)
    apply (intro allI impI)
    apply (simp only: wp_bnd [where m = "limits_terminal _"])
    apply (rule wp_via [OF unasked.keeps_questions(2)], assumption)
    apply (simp only: wp_bnd [where m = "read_moment _"])
    apply (rule wp_via [OF unasked.keeps_read_moment], assumption)
    apply (rule ask, assumption+)
    done
qed

lemma wp_expired: "unasked w0 w \<Longrightarrow> wp (expired ex s) (\<lambda>stop w'. (\<not> stop \<longrightarrow> not_expired ex s) \<and> unasked w0 w') (\<lambda>_. True) w"
  by (auto simp: expired_def Let_def wp_simps wp_def [of "read_moment ex"] read_moment_def unasked_def not_expired_def not_less)

text \<open>\<open>yields m P w\<close>: the computation answers true only when \<open>P\<close>.\<close>

definition yields :: "('s, bool) comp \<Rightarrow> bool \<Rightarrow> 's \<Rightarrow> bool" where
  "yields m P w \<longleftrightarrow> wp m (\<lambda>ok _. ok \<longrightarrow> P) (\<lambda>_. True) w"

lemma yields_unless:
  assumes "wp m (\<lambda>stop w'. \<not> stop \<longrightarrow> A \<and> yields rest B w') (\<lambda>_. True) w"
  shows "yields (unless m rest) (A \<and> B) w"
  unfolding yields_def
  by (intro wp_unless wp_mono [OF assms]) (auto simp: yields_def elim!: wp_mono)

lemma yields_unless_ret: "(\<not> c \<Longrightarrow> yields rest B w) \<Longrightarrow> yields (unless (ret c) rest) (\<not> c \<and> B) w"
  by (rule yields_unless) (simp add: wp_simps)

lemma dynamic_min_confidence_same: "unasked w0 w \<Longrightarrow> dynamic_min_confidence ex a w = dynamic_min_confidence ex a w0"
  by (simp add: unasked_def dynamic_min_confidence_def split: option.split)

lemma yields_throttle: "lt_throttle v = lt_throttle w \<Longrightarrow> yields (throttle_gate ex) (throttle_granted w) v"
  using wp_throttle_gate [of "v\<lparr>lt_throttle := lt_throttle w\<rparr>" v ex] by (simp add: yields_def unasked_def throttle_granted_def)

lemma yields_limits:
  assumes "unasked w v"
  shows "yields (bnd (risk_gate ex a) (\<lambda>ok. if ok then throttle_gate ex else ret False)) (risk_granted ex a w \<and> throttle_granted w) v"
proof -
  have "wp (if ok then throttle_gate ex else ret False) (\<lambda>ok _. ok \<longrightarrow> risk_granted ex a w \<and> throttle_granted w) (\<lambda>_. True) v'"
    if "(ok \<longrightarrow> risk_granted ex a w) \<and> lt_throttle v' = lt_throttle w" for ok v'
    using that yields_throttle [of v' w ex] by (auto simp: wp_simps yields_def elim!: wp_mono)
  then show ?thesis
    unfolding yields_def wp_bnd by (intro wp_mono [OF wp_risk_gate [OF assms]]) auto
qed

lemma yields_correlated:
  "unasked w v \<Longrightarrow> yields (unless (has_correlated_position ex a b) (bnd (risk_gate ex a) (\<lambda>ok. if ok then throttle_gate ex else ret False)))
     (True \<and> risk_granted ex a w \<and> throttle_granted w) v"
  by (rule yields_unless, rule wp_via [OF unasked.keeps_correlated]) (auto intro: yields_limits)

lemma wp_entry_allowed: "yields (entry_allowed ex a s) (permitted ex a s w) w"
proof -
  let ?limits = "risk_granted ex a w \<and> throttle_granted w"
  let ?confident = "\<exists>c. dynamic_min_confidence ex a w = Inr c \<and> c \<le> ls_confidence s"
  have confidence: "wp (bnd (gets (dynamic_min_confidence ex a)) (\<lambda>r. bnd (lift_result r) (\<lambda>c. ret (ls_confidence s < c))))
      (\<lambda>stop v'. \<not> stop \<longrightarrow> ?confident \<and> unasked w v') (\<lambda>_. True) v" if "unasked w v" for v
    using that dynamic_min_confidence_same [OF that, of ex a] by (auto simp: wp_simps split: sum.split)
  have routing: "wp (bnd (lift_result (order_routing_allowed (cf_deployment (te_cfg ex)) (ls_confirmed_by s))) (\<lambda>allowed.
        ret (\<not> order_routing_enabled ex \<or> \<not> allowed)))
      (\<lambda>stop v'. \<not> stop \<longrightarrow> (order_routing_enabled ex \<and> order_routing_allowed (cf_deployment (te_cfg ex)) (ls_confirmed_by s) = Inr True)
        \<and> unasked w v') (\<lambda>_. True) v" if "unasked w v" for v
    using that by (auto simp: wp_simps split: sum.split)
  have market: "wp (bnd (read_moment ex) (\<lambda>t. lift_result (market_off ex t)))
      (\<lambda>stop v'. \<not> stop \<longrightarrow> market_off ex (te_moment ex (lt_reads w)) = Inr False \<and> unasked w v') (\<lambda>_. True) w"
    by (auto simp: wp_def bnd_run read_moment_def run_simps unasked_def split: sum.split)
  have "yields (entry_allowed ex a s)
    (market_off ex (te_moment ex (lt_reads w)) = Inr False \<and>
     (order_routing_enabled ex \<and> order_routing_allowed (cf_deployment (te_cfg ex)) (ls_confirmed_by s) = Inr True) \<and>
     \<not> a \<notin> set (execution_assets ex) \<and> not_expired ex s \<and> \<not> ls_signal_state s \<notin> {None, Some ''confirmed''} \<and>
     ?confident \<and> True \<and> ?limits) w"
    unfolding entry_allowed_def
    apply (rule yields_unless, rule wp_mono [OF market], intro impI conjI, simp, drule mp, assumption, elim conjE)
     apply (rule yields_unless, rule wp_mono [OF routing], assumption, intro impI conjI, simp, simp, drule mp, assumption, elim conjE)
      apply (rule yields_unless_ret)
      apply (rule yields_unless, rule wp_mono [OF wp_expired], assumption, intro impI conjI, simp, elim conjE)
       apply (rule yields_unless_ret)
       apply (rule yields_unless, rule wp_mono [OF confidence], assumption, intro impI conjI, simp, drule mp, assumption, elim conjE)
        apply (rule yields_correlated, assumption)
       apply simp_all
    done
  then show ?thesis by (simp add: permitted_def)
qed

section \<open>The entry\<close>

text \<open>The questions and the plan send nothing and leave the volume; the legs leave the volume too.\<close>

interpretation quiet: gating ex "\<lambda>w. lt_sent w = l \<and> lt_volume w = v" for ex :: "'m trader_env" and l v
  by unfold_locales simp_all

interpretation volume: trading ex "\<lambda>w. lt_volume w = v" for ex :: "'m trader_env" and v
  by unfold_locales simp_all

lemma enter_dry_sends_nothing: "dry_run ex \<Longrightarrow> wp (enter ex a p) (\<lambda>_ w'. lt_sent w' = lt_sent w) (\<lambda>w'. lt_sent w' = lt_sent w) w"
  by (simp add: enter_def put_volume_def wp_simps)


section \<open>The volume\<close>

lemma set_volume_run: "put_volume v w = (Inr (), w\<lparr>lt_volume := v\<rparr>)"
  by (simp add: put_volume_def run_simps)

text \<open>The volume reduced after losses is restored when the entry returns, but not when it raises:
  then the trader goes on with the reduced volume, and the next entry in a losing streak reduces it again.\<close>

theorem failed_entry_keeps_reduced_volume:
  assumes "enter ex a p w = (r, w')"
  shows "lt_volume w' = (if r = Inr () \<or> risk_multiplier (lt_throttle w) \<ge> 1 then lt_volume w
    else py_round (fmul (lt_volume w) (risk_multiplier (lt_throttle w))) 6)"
proof -
  let ?m = "risk_multiplier (lt_throttle w)"
  let ?w = "if ?m < 1 then w\<lparr>lt_volume := py_round (fmul (lt_volume w) ?m) 6\<rparr> else w"
  let ?legs = "if dry_run ex then ret () else open_legs ex a p"
  have "lt_volume (snd (?legs ?w)) = lt_volume ?w"
  proof (cases "dry_run ex")
    case False
    then show ?thesis using keepsD [OF volume.keeps_open_legs [OF False, of "lt_volume ?w" a p], of ?w] by simp
  qed (simp add: run_simps)
  moreover have "enter ex a p w = seq ?legs (if ?m < 1 then put_volume (lt_volume w) else ret ()) ?w"
    by (simp add: enter_def bnd_run seq_run run_simps set_volume_run)
  ultimately show ?thesis
    using assms by (auto simp: seq_run run_simps set_volume_run split: sum.splits if_splits)
qed

section \<open>A trader at work\<close>

definition demo_terminal_api :: "send_result option \<Rightarrow> unit trader_api" where
  "demo_terminal_api answer = \<lparr>ta_initialize = ret True, ta_account = ret (Some (10000, 10000)),
     ta_positions_get = (\<lambda>_. ret (Some [])), ta_symbol_info = (\<lambda>_. ret (Some demo_instrument)),
     ta_symbol_info_tick = (\<lambda>_. ret (Some demo_quote)), ta_symbol_select = (\<lambda>_. ret True),
     ta_history_deals_get = (\<lambda>_. ret None), ta_order_send = (\<lambda>_. ret answer), ta_is_demo = ret True,
     RETCODE_DONE = 10009, RETCODE_MARKET_CLOSED = None, ACTION_DEAL = 1, ACTION_SLTP = 6, TYPE_BUY = 0, TYPE_SELL = 1,
     TIME_GTC = 0, FILLING_IOC = 1\<rparr>"

definition filled_order :: send_result where
  "filled_order = \<lparr>sr_retcode = 10009, sr_order = 5001, sr_deal = 1, sr_comment = ''done'', sr_price = 2002, sr_volume = 1\<rparr>"

definition demo_gold :: asset_cfg where
  "demo_gold = \<lparr>aa_enabled = True, aa_mt5_symbol = Some ''GOLD'', aa_min_confidence = Some (1 / 2), aa_profit_trail = None,
     aa_signal_grid = \<lparr>gs_values = [], gs_regimes = None\<rparr>\<rparr>"

definition demo_trader_cfg :: trader_cfg where
  "demo_trader_cfg = \<lparr>cf_dry_run_env = False, cf_telegram_admin = True,
     cf_deployment = \<lparr>dc_mode = Some ''demo_systematic'', dc_live_approval_id = None, dc_require_telegram_admin = None,
       dc_require_demo_account = None\<rparr>,
     cf_enabled_assets = None, cf_assets = [(''XAU'', demo_gold)], cf_min_confidence = None, cf_profit_trail = None,
     cf_labeling = [], cf_signal_grid = \<lparr>gs_values = [], gs_regimes = None\<rparr>,
     cf_blackout = \<lparr>bo_enabled = None, bo_daily_break_utc = None, bo_start_dow = None, bo_start_utc = None,
       bo_end_dow = None, bo_end_utc = None, bo_flatten_before_minutes = None, bo_manual_until = None\<rparr>,
     cf_corr_enabled = Some False, cf_corr_threshold = None, cf_corr_interval = None, cf_strategy_version = ''v1'',
     cf_config_hash = ''c1''\<rparr>"

definition demo_trader_env :: "send_result option \<Rightarrow> unit trader_env" where
  "demo_trader_env answer = \<lparr>io_sha = (\<lambda>_. ''h''), io_clock = int, io_uuid = (\<lambda>n. replicate (Suc n) CHR ''u''),
     te_api = demo_terminal_api answer, te_magic = 777111, te_cfg = demo_trader_cfg,
     te_limits = RiskLimits demo_risk_cfg (Some 777111), te_moment = (\<lambda>_. demo_moment 7), te_pipelines = [''XAU''],
     te_frame_atr = (\<lambda>_ _. Inr (Some 4)), te_corr_table = (\<lambda>_. None)\<rparr>"

definition demo_live_signal :: live_signal where
  "demo_live_signal = \<lparr>ls_bias = ''long'', ls_confidence = 3 / 4, ls_signal_id = Some ''s1'', ls_timestamp_utc = None,
     ls_expires_at_utc = None, ls_signal_state = None, ls_confirmed_by = None, ls_step = Some 64, ls_regime = None,
     ls_session = None, ls_reasoning_summary = None, ls_entry_zone = None, ls_invalidation = None, ls_targets = None,
     ls_strategy_version = None, ls_config_hash = None, ls_model_hash = None, ls_feature_snapshot_hash = None, ls_leg = None\<rparr>"

definition demo_trader :: "throttle \<Rightarrow> unit trader" where
  "demo_trader th = \<lparr>lt_term = (), lt_volume = 3, lt_active = [], lt_last_close_pnl = [], lt_streak_losses = [],
     lt_throttle = th, lt_risk = RiskState Absent, lt_saved = Absent, lt_journal = Absent, lt_ledger = [],
     lt_corr_matrix = [], lt_corr_last_update = 0, lt_blackout_flattened = False, lt_sent = [], lt_messages = [], lt_reads = 0\<rparr>"

lemma demo_allowed:
  "fst (entry_allowed (demo_trader_env answer) ''XAU'' demo_live_signal (demo_trader demo_throttle)) = Inr True"
  by code_simp

text \<open>An entry that is planned sends its first leg when that leg has a volume.\<close>

interpretation grown: running ex "new_requests (\<lambda>_. True) l" for ex :: "'m trader_env" and l
  by unfold_locales (auto simp: new_requests_def)

definition grew :: "trade_request list \<Rightarrow> 'm trader \<Rightarrow> bool" where
  "grew l w \<longleftrightarrow> (\<exists>rq. new_requests (\<lambda>_. True) (l @ [rq]) w)"

lemma grew_keeps:
  fixes m :: "('m trader, 'b) comp"
  assumes "\<And>rq. keeps (new_requests (\<lambda>_. True) (l @ [rq])) m" and "grew l w"
  shows "wp m (\<lambda>_. grew l) (grew l) w"
proof -
  have "keeps (grew l) m"
  proof (rule keepsI)
    fix s :: "'m trader" assume "grew l s"
    then obtain rq where "new_requests (\<lambda>_. True) (l @ [rq]) s" by (auto simp: grew_def)
    then show "grew l (snd (m s))" using keepsD [OF assms(1)] by (auto simp: grew_def)
  qed
  then show ?thesis using assms(2) by (rule wp_keeps)
qed

lemma grew_order_send:
  assumes "lt_sent w = l" and "\<And>r rq'. keeps (new_requests (\<lambda>_. True) (l @ [rq'])) (f r)"
  shows "wp (bnd (trader_order_send ex rq) f) (\<lambda>_. grew l) (grew l) w"
proof -
  have g: "grew l (w\<lparr>lt_sent := lt_sent w @ [rq], lt_term := m\<rparr>)" for m
    using assms(1) by (auto simp: grew_def new_requests_def)
  show ?thesis
    unfolding wp_bnd wp_order_send by (auto split: prod.split sum.split intro: g grew_keeps assms(2))
qed

lemma grew_send_leg:
  assumes "lt_sent w = l"
  shows "wp (send_leg ex a p i (v, n)) (\<lambda>_. grew l) (grew l) w"
proof -
  let ?tick = "catch (on_term (ta_symbol_info_tick (te_api ex) (ep_symbol p))) (\<lambda>_. Some (ret None))"
  have tick: "wp ?tick (\<lambda>_ w. lt_sent w = l) (\<lambda>_. False) w"
    by (rule wp_catch_all) (use assms in \<open>simp add: wp_def on_term_def run_simps split: prod.split sum.split\<close>)
  have after: "wp (seq (append_trade_event ex et c d e') (bnd (trader_order_send ex rq) f)) (\<lambda>_. grew l) (grew l) v"
    if "lt_sent v = l" and "\<And>r rq'. keeps (new_requests (\<lambda>_. True) (l @ [rq'])) (f r)" for et c d e' rq f v
    unfolding wp_seq wp_event by (rule grew_order_send) (use that in \<open>simp_all add: event_simps\<close>)
  show ?thesis
    unfolding send_leg_def prod.case Let_def wp_bnd [where m = ?tick] remember_leg_def
    by (rule wp_mono [OF tick]) (rule after, assumption, intro keeps_intros grown.I_active keeps_modify, simp_all)
qed

lemma grew_send_legs:
  assumes "lt_sent w = l" and "0 < v" and "\<not> dry_run ex"
  shows "wp (send_legs ex a p i ((v, n) # legs)) (\<lambda>_. grew l) (grew l) w"
proof -
  have "wp (send_leg ex a p i (v, n)) (\<lambda>_. grew l) (grew l) w" using assms(1) by (rule grew_send_leg)
  moreover have "wp (bnd (send_legs ex a p i legs) (\<lambda>b. ret (x \<or> b))) (\<lambda>_. grew l) (grew l) w'" if "grew l w'" for x w'
    by (rule grew_keeps [OF _ that]) (intro keeps_intros assms(3))
  ultimately show ?thesis
    using assms(2) by (simp add: wp_simps) (rule wp_mono, assumption, simp_all add: wp_simps)
qed

lemma enter_sends:
  assumes live: "\<not> dry_run ex" and volume: "trader_leg_volumes (lt_volume w) (ep_info p) = [v, u, t]" "0 < v"
    and mult: "risk_multiplier (lt_throttle w) \<ge> 1"
    and intent: "fst (new_intent ex a p w) = Inr j"
  shows "lt_sent (snd (enter ex a p w)) \<noteq> lt_sent w"
proof -
  let ?l = "lt_sent w"
  have made: "wp (new_intent ex a p) (\<lambda>_ w'. lt_sent w' = ?l \<and> lt_volume w' = lt_volume w) (\<lambda>_. False) w"
    using intent by (auto simp: new_intent_def wp_def bnd_run run_simps read_moment_def split: sum.splits)
  let ?rest = "\<lambda>opened. if opened then seq (save_management_state ex)
      (seq (bnd (read_moment ex) (\<lambda>t. on_risk (record_trade_executed t a))) (send_text (SignalAlert a))) else ret ()"
  have legs: "wp (bnd (send_legs ex a p i (zip [v, u, t] [0, 1, 2])) ?rest) (\<lambda>_. grew ?l) (grew ?l) w'"
    if "lt_sent w' = ?l" for i w'
  proof -
    have "wp (send_legs ex a p i ((v, 0) # zip [u, t] [1, 2])) (\<lambda>_. grew ?l) (grew ?l) w'"
      using that volume(2) live by (rule grew_send_legs)
    then show ?thesis
      unfolding wp_bnd [where m = "send_legs _ _ _ _ _"] zip_Cons_Cons
      by (rule wp_mono) (rule grew_keeps, intro keeps_intros, simp_all)
  qed
  have "wp (open_legs ex a p) (\<lambda>_. grew ?l) (grew ?l) w"
    unfolding open_legs_def wp_bnd [where m = "new_intent _ _ _"] wp_bnd [where m = "gets _"] wp_basic
    by (rule wp_mono [OF made], elim conjE, simp only: volume, rule legs, assumption, simp)
  then have "grew ?l (snd (open_legs ex a p w))" by (simp add: wp_snd)
  then have "lt_sent (snd (open_legs ex a p w)) \<noteq> ?l" by (auto simp: grew_def new_requests_def)
  then show ?thesis using mult live
    by (simp add: enter_def bnd_run seq_run run_simps split: sum.split)
qed

lemma demo_step1:
  "risk_multiplier (lt_throttle (snd (entry_allowed (demo_trader_env x) ''XAU'' demo_live_signal (demo_trader demo_throttle)))) = 1"
  by code_simp

definition demo_plan :: entry_plan where
  "demo_plan = \<lparr>ep_symbol = ''GOLD'', ep_info = demo_instrument, ep_price = 2002, ep_sl = 1810, ep_tps = [2066, 2130, 2194],
     ep_signal = recentred demo_live_signal 2002 64 0 1810 [2066, 2130, 2194]\<rparr>"

lemma on_term_ret: "on_term (ret x) w = (Inr x, w)"
  by (simp add: on_term_def run_simps)

lemma demo_env_simps:
  "te_api (demo_trader_env x) = demo_terminal_api x" "te_cfg (demo_trader_env x) = demo_trader_cfg"
  "ta_initialize (demo_terminal_api x) = ret True" "ta_symbol_info (demo_terminal_api x) = (\<lambda>_. ret (Some demo_instrument))"
  "ta_symbol_info_tick (demo_terminal_api x) = (\<lambda>_. ret (Some demo_quote))"
  "ta_symbol_select (demo_terminal_api x) = (\<lambda>_. ret True)" "ta_positions_get (demo_terminal_api x) = (\<lambda>_. ret (Some []))"
  "map_of (cf_assets demo_trader_cfg) ''XAU'' = Some demo_gold" "aa_mt5_symbol demo_gold = Some ''GOLD''"
  by (simp_all add: demo_trader_env_def demo_terminal_api_def demo_trader_cfg_def demo_gold_def)

lemma demo_market: "market_info_first (demo_trader_env x) s w = (Inr (demo_quote, demo_instrument), w)"
  "symbol_market (demo_trader_env x) s w = (Inr (Some (demo_quote, demo_instrument)), w)"
  by (simp_all add: market_info_first_def symbol_market_def demo_env_simps bnd_run on_term_ret run_simps)

lemma demo_grid_levels:
  "grid_levels (asset_grid (demo_trader_env x) demo_gold (Some [])) ''long'' 2002 64 = Inr ([2066, 2130, 2194], 1810)"
  by (simp add: grid_levels_def asset_grid_def demo_env_simps demo_gold_def demo_trader_cfg_def get_signal_grid_def
      grid_base_def regime_override_def trailing_entry_def grid_number_def fadd_def fsub_def fmul_def)

lemma demo_normal: "normalized_stops demo_quote demo_instrument ''long'' 1810 2194 = Inr (1810, 2194)"
  "normalized_tp_level demo_quote demo_instrument ''long'' 2066 = Inr 2066"
  "normalized_tp_level demo_quote demo_instrument ''long'' 2130 = Inr 2130"
  "normalized_tp_level demo_quote demo_instrument ''long'' 2194 = Inr 2194"
  by (simp_all add: normalized_stops_def normalized_tp_level_def demo_min_dist)
    (simp_all add: demo_quote_def demo_instrument_def on_grid_def fadd_def fsub_def fdiv_def fmul_def py_round_def)

lemma demo_planned: "plan_entry (demo_trader_env x) ''XAU'' demo_live_signal w = (Inr (Some demo_plan), w)"
proof -
  have s: "ls_bias demo_live_signal = ''long''" "ls_step demo_live_signal = Some 64" "ls_regime demo_live_signal = None"
    by (simp_all add: demo_live_signal_def)
  have q: "qt_ask demo_quote = 2002" "ins_digits demo_instrument = 0" by (simp_all add: demo_quote_def demo_instrument_def)
  have r: "py_round 2066 0 = 2066" "py_round 2130 0 = 2130" by (simp_all add: py_round_def)
  show ?thesis
    by (simp add: plan_entry_def plan_levels_def validate_symbol_def positions_get_by_magic_def normalize_stops_def
        normalize_tp_level_def demo_env_simps demo_market demo_grid_levels demo_normal bnd_run seq_run catch_run on_term_ret
        run_simps s q r demo_plan_def Let_def)
qed

lemma demo_live: "\<not> dry_run (demo_trader_env x)"
  by code_simp

lemma demo_volumes: "trader_leg_volumes 3 demo_instrument = [1, 1, 1]"
  by (simp add: trader_leg_volumes_def floor_lots_def volume_step_def or_num_def demo_instrument_def fdiv_def fmul_def
      fsub_def py_round_def)

lemma demo_intent:
  assumes "lt_volume w = 3"
  shows "is_ok (fst (new_intent (demo_trader_env x) a demo_plan w))"
  using assms
  by (simp add: new_intent_def bnd_run run_simps read_moment_def build_signal_intent_def SignalIntent_def
      intent_geometry_ok_def demo_plan_def recentred_def demo_live_signal_def demo_trader_env_def demo_trader_cfg_def mode_value_def
      deployment_mode_def VALID_INTENT_MODES_def VALID_SOURCES_def fsub_def)

lemma demo_entry_sends:
  "lt_sent (snd (execute_signal (demo_trader_env x) ''XAU'' demo_live_signal (demo_trader demo_throttle))) \<noteq> []"
proof -
  let ?ex = "demo_trader_env x" and ?w = "demo_trader demo_throttle"
  obtain w1 where w1: "entry_allowed ?ex ''XAU'' demo_live_signal ?w = (Inr True, w1)"
    using demo_allowed [of x] by (cases "entry_allowed ?ex ''XAU'' demo_live_signal ?w") simp
  have same: "lt_sent w1 = []" "lt_volume w1 = 3"
    using keepsD [OF quiet.keeps_allowed, of ?w "[]" 3 ?ex "''XAU''" demo_live_signal] w1 by (simp_all add: demo_trader_def)
  have "risk_multiplier (lt_throttle w1) = 1" using demo_step1 [of x] w1 by simp
  moreover obtain j where "fst (new_intent ?ex ''XAU'' demo_plan w1) = Inr j"
    using demo_intent [of w1 x "''XAU''"] same by (auto simp: is_ok_iff)
  moreover have "trader_leg_volumes (lt_volume w1) (ep_info demo_plan) = [1, 1, 1]"
    by (simp add: same demo_plan_def demo_volumes)
  ultimately have "lt_sent (snd (enter ?ex ''XAU'' demo_plan w1)) \<noteq> lt_sent w1"
    by (intro enter_sends [OF demo_live, where v = 1 and u = 1 and t = 1]) simp_all
  then show ?thesis
    by (simp add: execute_signal_def bnd_run w1 demo_planned same) (simp add: demo_live_signal_def)
qed


text \<open>A terminal that does not answer an order: the entry raises.\<close>

lemma unanswered_leg:
  assumes "\<And>rq. ta_order_send (te_api ex) rq = ret None"
  shows "wp (send_leg ex a p i (v, n)) (\<lambda>_ _. False) (\<lambda>_. True) w"
proof -
  let ?tick = "catch (on_term (ta_symbol_info_tick (te_api ex) (ep_symbol p))) (\<lambda>_. Some (ret None))"
  have tick: "wp ?tick (\<lambda>_ _. True) (\<lambda>_. True) w" by (simp add: wp_def split: prod.split sum.split)
  have unanswered: "wp (seq (append_trade_event ex et c d e') (bnd (trader_order_send ex rq) (\<lambda>r. bnd (the_result r) f))) (\<lambda>_ _. False) (\<lambda>_. True) w'"
    for et c d e' rq f w'
    by (simp add: wp_seq wp_event wp_bnd wp_order_send assms run_simps the_result_def wp_basic)
  show ?thesis
    unfolding send_leg_def prod.case Let_def wp_bnd [where m = ?tick] by (rule wp_mono [OF tick]) (rule unanswered, simp)
qed

lemma demo_reduced: "trader_leg_volumes (3 / 2) demo_instrument = [1 / 2, 1 / 2, 1 / 2]" "py_round (fmul 3 (1 / 2)) 6 = 3 / 2"
proof -
  have d: "fl (3 / 2) = 3 / 2" using fl_dyadic [of 3 "- 1"] by (simp add: bpow_def)
  show "trader_leg_volumes (3 / 2) demo_instrument = [1 / 2, 1 / 2, 1 / 2]"
    by (simp add: trader_leg_volumes_def floor_lots_def volume_step_def or_num_def demo_instrument_def fdiv_def fmul_def
        fsub_def py_round_def Let_def)
  show "py_round (fmul 3 (1 / 2)) 6 = 3 / 2" by (simp add: py_round_def fmul_def d)
qed

definition losing_trader :: "unit trader" where
  "losing_trader = demo_trader (demo_throttle\<lparr>th_consecutive_losses := 2\<rparr>)"

lemma losing_fields: "lt_volume losing_trader = 3" "risk_multiplier (lt_throttle losing_trader) = 1 / 2"
  by code_simp+

lemma losing_entry_raises: "fst (enter (demo_trader_env None) ''XAU'' demo_plan losing_trader) \<noteq> Inr ()"
proof -
  let ?ex = "demo_trader_env None" and ?w = "losing_trader\<lparr>lt_volume := 3 / 2\<rparr>"
  have answer: "ta_order_send (te_api ?ex) rq = ret None" for rq by (simp add: demo_trader_env_def demo_terminal_api_def)
  have "wp (open_legs ?ex ''XAU'' demo_plan) (\<lambda>_ _. False) (\<lambda>_. True) ?w"
  proof -
    have kept: "wp (new_intent ?ex ''XAU'' demo_plan) (\<lambda>_ w. lt_volume w = 3 / 2) (\<lambda>_. True) ?w"
      by (simp add: new_intent_def wp_def bnd_run run_simps read_moment_def split: sum.split)
    have leg: "wp (send_legs ?ex ''XAU'' demo_plan i ((1 / 2, 0) # vs)) (\<lambda>_ _. False) (\<lambda>_. True) w" for i vs w
      unfolding send_legs.simps by (simp add: wp_bnd wp_mono [OF unanswered_leg [OF answer]])
    have "wp (bnd (send_legs ?ex ''XAU'' demo_plan i (zip [1 / 2, 1 / 2, 1 / 2] [0, 1, 2])) f) (\<lambda>_ _. False) (\<lambda>_. True) w" for i w f
      unfolding wp_bnd zip_Cons_Cons by (rule wp_mono [OF leg]) simp_all
    note sent = this
    have v: "trader_leg_volumes (3 / 2) (ep_info demo_plan) = [1 / 2, 1 / 2, 1 / 2]" by (simp add: demo_plan_def demo_reduced)
    show ?thesis
      unfolding open_legs_def wp_bnd [where m = "new_intent _ _ _"] wp_bnd [where m = "gets _"] wp_basic
      by (rule wp_mono [OF kept], simp only: v, rule sent)
  qed
  then have "fst (open_legs ?ex ''XAU'' demo_plan ?w) \<noteq> Inr ()" by (auto simp: wp_def split: prod.splits sum.splits)
  then show ?thesis
    by (auto simp: enter_def bnd_run seq_run run_simps losing_fields demo_live set_volume_run demo_reduced split: sum.split)
qed

theorem failed_entry_keeps_reduced_volume_witness:
  "fst (enter (demo_trader_env None) ''XAU'' demo_plan losing_trader) \<noteq> Inr ()
    \<and> lt_volume (snd (enter (demo_trader_env None) ''XAU'' demo_plan losing_trader)) = 3 / 2"
proof -
  let ?r = "enter (demo_trader_env None) ''XAU'' demo_plan losing_trader"
  have "?r = (fst ?r, snd ?r)" by simp
  from failed_entry_keeps_reduced_volume [OF this] losing_entry_raises show ?thesis
    by (simp add: losing_fields demo_reduced)
qed

end
