(* ===== verification/Trader_Witnesses.thy ===== *)
theory Trader_Witnesses
  imports Trader_Permission
begin

text \<open>
  The guarantees of the live trader applied to a concrete trader with one leg of a group, on a terminal
  that lists no position and answers every order in the same way.
\<close>

definition demo_leg :: trade where
  "demo_leg = \<lparr>tr_symbol = ''XAU'', tr_type = ''long'', tr_entry_price = Some 2002, tr_original_volume = Some 1,
     tr_leg = Some 1, tr_group_key = Some ''XAU:s1'', tr_tp1 = Some 2066, tr_tp2 = None, tr_tp3 = None, tr_tp1_hit = False,
     tr_tp2_hit = False, tr_be_done = False, tr_trailing_active = False, tr_contract = None\<rparr>"

definition demo_position :: position_raw where
  "demo_position = \<lparr>pr_ticket = 5001, pr_symbol = ''GOLD'', pr_type = 0, pr_volume = 1, pr_price_open = 2002,
     pr_price_current = 2040, pr_sl = 1810, pr_tp = 2066, pr_magic = 777111, pr_comment = []\<rparr>"

definition tracking_trader :: "unit trader" where
  "tracking_trader = (demo_trader demo_throttle)\<lparr>lt_active := [(5001, demo_leg), (5002, demo_leg\<lparr>tr_tp1 := None\<rparr>)]\<rparr>"

theorem entry_stop_only_improves_witness:
  "\<exists>moved w'. move_sl_to_entry (demo_trader_env (Some filled_order)) demo_position None tracking_trader = (Inr moved, w')
     \<and> length (lt_sent w') \<le> 1"
proof -
  have "lt_sent tracking_trader = []" by (simp add: tracking_trader_def demo_trader_def)
  then show ?thesis
    using entry_stop_only_improves [of "demo_trader_env (Some filled_order)" demo_position None tracking_trader] by auto
qed

lemma tracking_check: "fst (check_and_move_breakeven (demo_trader_env None) tracking_trader) = Inr ()"
  by code_simp

lemma tracking_lists_nothing:
  "on_term (ta_initialize (te_api (demo_trader_env x))) w = (Inr True, w)"
  "positions_get_by_magic (demo_trader_env x) None w = (Inr (Some []), w)"
  by (simp_all add: demo_env_simps positions_get_by_magic_def on_term_ret bnd_run catch_run run_simps)

theorem closed_positions_are_reported_once_witness:
  "reported (snd (check_and_move_breakeven (demo_trader_env None) tracking_trader)) = [5001, 5002]
    \<and> lt_active (snd (check_and_move_breakeven (demo_trader_env None) tracking_trader)) = []"
proof -
  let ?ex = "demo_trader_env None"
  obtain w' where w': "check_and_move_breakeven ?ex tracking_trader = (Inr (), w')"
    using tracking_check by (cases "check_and_move_breakeven ?ex tracking_trader") simp
  have w: "distinct (tickets tracking_trader)" "reported tracking_trader = []" "vanished [] tracking_trader = [5001, 5002]"
    by (simp_all add: tracking_trader_def demo_trader_def reported_def vanished_def)
  from closed_positions_are_reported_once [OF w(1) tracking_lists_nothing w'] show ?thesis by (simp add: w w')
qed

lemma tracking_saves: "fst (save_management_state (demo_trader_env None) tracking_trader) = Inr ()"
  "fst (start_trader (demo_trader_env None) (snd (save_management_state (demo_trader_env None) tracking_trader))) = Inr ()"
  by code_simp+

theorem restart_resumes_trades_witness:
  "lt_active (snd (start_trader (demo_trader_env None) (snd (save_management_state (demo_trader_env None) tracking_trader))))
     = [(5001, demo_leg)]"
proof -
  let ?ex = "demo_trader_env None"
  obtain w1 where w1: "save_management_state ?ex tracking_trader = (Inr (), w1)"
    using tracking_saves(1) by (cases "save_management_state ?ex tracking_trader") simp
  obtain w' where w': "start_trader ?ex w1 = (Inr (), w')"
    using tracking_saves(2) w1 by (cases "start_trader ?ex w1") simp
  have w: "distinct (tickets tracking_trader)" "at_disk (te_moment ?ex (lt_reads tracking_trader)) = Writable"
    "lt_active tracking_trader = [(5001, demo_leg), (5002, demo_leg\<lparr>tr_tp1 := None\<rparr>)]" "tr_tp1 demo_leg \<noteq> None"
    by (simp_all add: tracking_trader_def demo_trader_def demo_trader_env_def demo_moment_def demo_leg_def)
  from restart_resumes_trades [OF w(1,2) w1 refl w'] show ?thesis by (simp add: w w1 w')
qed

lemma tracking_reports: "fst (report_close (demo_trader_env None) [] 5001 tracking_trader) = Inr ()"
  by code_simp

theorem lost_history_counts_as_no_loss_witness:
  "lt_messages (snd (report_close (demo_trader_env None) [] 5001 tracking_trader)) = [TradeClosed ''XAU'' 5001 (Some 1) 0 0]"
proof -
  let ?ex = "demo_trader_env None"
  obtain w' where w': "report_close ?ex [] 5001 tracking_trader = (Inr (), w')"
    using tracking_reports by (cases "report_close ?ex [] 5001 tracking_trader") simp
  have w: "lt_last_close_pnl tracking_trader = []" "tracking_trader = run_steps (trader_step ?ex) [] tracking_trader"
    "trade_of 5001 tracking_trader = Some demo_leg" "lt_messages tracking_trader = []" "tr_symbol demo_leg = ''XAU''" "tr_leg demo_leg = Some 1"
    by (simp_all add: tracking_trader_def demo_trader_def trade_of_def demo_leg_def)
  have h: "case fst (ta_history_deals_get (te_api ?ex) 5001 (lt_term tracking_trader)) of Inl _ \<Rightarrow> True | Inr ds \<Rightarrow> get_or [] ds = []"
    by (simp add: demo_trader_env_def demo_terminal_api_def run_simps)
  from lost_history_counts_as_no_loss [OF w(1-3) h w'] show ?thesis by (simp add: w(4-6) w')
qed

text \<open>A terminal that refuses every stop, and a grid that moves the stop half-way to the first target.\<close>

definition refusal :: send_result where
  "refusal = filled_order\<lparr>sr_retcode := 10016, sr_comment := ''Invalid stops''\<rparr>"

definition early_env :: "unit trader_env" where
  "early_env = (demo_trader_env (Some refusal))\<lparr>te_cfg := demo_trader_cfg\<lparr>cf_labeling := [(''breakeven_trigger_atr'', 1 / 2)]\<rparr>\<rparr>"

definition rising_quote :: quote where
  "rising_quote = \<lparr>qt_bid = 2040, qt_ask = 2042\<rparr>"

lemma early_facts:
  "\<not> dry_run early_env" "map_of (be_trigger_by_symbol early_env) ''GOLD'' = Some (1 / 2)"
  "fst (early_break_even early_env demo_position demo_leg 2040 rising_quote demo_instrument tracking_trader) = Inr ()"
  by code_simp+


end
