(* ===== verification/Labels.thy ===== *)
theory Labels
  imports Signal_Grid
begin

text \<open>
  The labels the models are trained on, \<^verbatim>\<open>labeling/label_generator.py\<close>: the triple barrier with fixed and
  with ATR-scaled widths, with one horizon or one per bar, and the event the execution engine resolves, on the
  grid of \<^verbatim>\<open>config/loader.py\<close>. A data frame is its column names and its rows; a missing number (NaN) is
  \<open>None\<close>. The prices of a bar are always there. The locale \<open>label_rule\<close> is what the validation relies on: a
  label reads a bounded number of rows ahead.
\<close>

section \<open>Frames and configuration\<close>

record row =
  rw_ts :: int
  rw_open :: rat
  rw_high :: rat
  rw_low :: rat
  rw_close :: rat
  rw_regime :: string
  rw_cells :: "(string \<times> rat option) list"

record frame =
  fr_columns :: "string list"
  fr_rows :: "row list"

text \<open>The number in a column of a row.\<close>

definition cell :: "row \<Rightarrow> string \<Rightarrow> rat option" where
  "cell r c =
     (if c = ''open'' then Some (rw_open r) else if c = ''high'' then Some (rw_high r)
      else if c = ''low'' then Some (rw_low r) else if c = ''close'' then Some (rw_close r)
      else get_or None (map_of (rw_cells r) c))"

record label_asset =
  la_signal_grid :: grid_section
  la_spread_usd :: "rat option"
  la_slippage_usd :: "rat option"

text \<open>The configuration; \<open>lc_numbers\<close> are the numeric entries of the section \<^verbatim>\<open>labeling\<close>.\<close>

record label_cfg =
  lc_event :: "string option"
  lc_method :: "string option"
  lc_adaptive_holding :: bool
  lc_horizon_candles :: "int option"
  lc_atr_column :: "string option"
  lc_price_column :: "string option"
  lc_numbers :: "(string \<times> rat) list"
  lc_signal_grid :: grid_section
  lc_assets :: "(string \<times> label_asset) list"
  lc_spread_points :: "rat option"
  lc_slippage_points :: "rat option"
  lc_include_zero_class :: bool

definition number :: "label_cfg \<Rightarrow> string \<Rightarrow> rat result" where
  "number cfg k = (case map_of (lc_numbers cfg) k of None \<Rightarrow> Inl (KeyError k) | Some x \<Rightarrow> Inr x)"

definition atr_column :: "label_cfg \<Rightarrow> string" where
  "atr_column cfg = get_or ''atr'' (lc_atr_column cfg)"

definition horizon_candles :: "label_cfg \<Rightarrow> int" where
  "horizon_candles cfg = get_or 36 (lc_horizon_candles cfg)"

text \<open>\<^verbatim>\<open>str.lower()\<close> on ASCII.\<close>

definition lower :: "string \<Rightarrow> string" where
  "lower s = map (\<lambda>c. let n = of_char c :: nat in if 65 \<le> n \<and> n \<le> 90 then char_of (n + 32) else c) s"

definition LABEL_EVENTS :: "string list" where
  "LABEL_EVENTS = [''barrier'', ''traded'']"

definition resolve_label_event :: "label_cfg \<Rightarrow> string result" where
  "resolve_label_event cfg =
     (let event = lower (strip (get_or ''barrier'' (lc_event cfg)))
      in if event \<in> set LABEL_EVENTS then Inr event else Inl (ValueError ''Unknown labeling.event''))"

section \<open>Triple barrier\<close>

text \<open>The loop over the bars ahead: the first bar that touches a barrier decides, and a bar that touches both
  decides nothing.\<close>

fun scan_barriers :: "rat \<Rightarrow> rat \<Rightarrow> row list \<Rightarrow> int option" where
  "scan_barriers upper_barrier lower_barrier [] = Some 0"
| "scan_barriers upper_barrier lower_barrier (r # rs) =
     (let hit_upper = rw_high r \<ge> upper_barrier; hit_lower = rw_low r \<le> lower_barrier
      in if hit_upper \<and> hit_lower then None
         else if hit_upper then Some 1
         else if hit_lower then Some (- 1)
         else scan_barriers upper_barrier lower_barrier rs)"

text \<open>The bars \<^verbatim>\<open>i + 1 .. i + h\<close>.\<close>

definition ahead :: "row list \<Rightarrow> nat \<Rightarrow> int \<Rightarrow> row list" where
  "ahead rows i h = take (nat h) (drop (Suc i) rows)"

definition barrier_label :: "rat \<Rightarrow> rat \<Rightarrow> row list \<Rightarrow> nat \<Rightarrow> int \<Rightarrow> int option" where
  "barrier_label target_x stop_y rows i h =
     (if int i + h \<ge> int (length rows) then None
      else let entry = rw_close (rows ! i)
           in scan_barriers (fadd entry target_x) (fsub entry stop_y) (ahead rows i h))"

definition generate_labels :: "rat \<Rightarrow> rat \<Rightarrow> int \<Rightarrow> frame \<Rightarrow> int option list" where
  "generate_labels target_x stop_y horizon_n df =
     map (\<lambda>i. barrier_label target_x stop_y (fr_rows df) i horizon_n) [0..<length (fr_rows df)]"

definition generate_labels_with_horizons :: "rat \<Rightarrow> rat \<Rightarrow> int list \<Rightarrow> frame \<Rightarrow> int option list" where
  "generate_labels_with_horizons target_x stop_y horizons df =
     map (\<lambda>i. barrier_label target_x stop_y (fr_rows df) i (horizons ! i)) [0..<length (fr_rows df)]"

definition atr_label :: "rat \<Rightarrow> rat \<Rightarrow> string \<Rightarrow> row list \<Rightarrow> nat \<Rightarrow> int \<Rightarrow> int option" where
  "atr_label target_mult stop_mult atr_col rows i h =
     (if int i + h \<ge> int (length rows) then None
      else case cell (rows ! i) atr_col of
        None \<Rightarrow> None
      | Some atr \<Rightarrow>
          if atr \<le> 0 then None
          else let entry = rw_close (rows ! i)
               in scan_barriers (fadd entry (fmul atr target_mult)) (fsub entry (fmul atr stop_mult)) (ahead rows i h))"

text \<open>A frame without the ATR column raises.\<close>

definition generate_labels_atr_scaled :: "rat \<Rightarrow> rat \<Rightarrow> int \<Rightarrow> string \<Rightarrow> frame \<Rightarrow> int option list result" where
  "generate_labels_atr_scaled target_mult stop_mult horizon_n atr_col df =
     (if atr_col \<notin> set (fr_columns df) then Inl (KeyError atr_col)
      else Inr (map (\<lambda>i. atr_label target_mult stop_mult atr_col (fr_rows df) i horizon_n) [0..<length (fr_rows df)]))"

definition generate_labels_atr_scaled_with_horizons ::
  "rat \<Rightarrow> rat \<Rightarrow> int list \<Rightarrow> string \<Rightarrow> frame \<Rightarrow> int option list result" where
  "generate_labels_atr_scaled_with_horizons target_mult stop_mult horizons atr_col df =
     (if atr_col \<notin> set (fr_columns df) then Inl (KeyError atr_col)
      else Inr (map (\<lambda>i. atr_label target_mult stop_mult atr_col (fr_rows df) i (horizons ! i)) [0..<length (fr_rows df)]))"

section \<open>Adaptive horizons\<close>

definition adaptive_holding_period :: "rat option \<Rightarrow> rat option \<Rightarrow> int \<Rightarrow> rat \<Rightarrow> rat \<Rightarrow> int" where
  "adaptive_holding_period atr price base_period high_vol_pct mid_vol_pct =
     (case (atr, price) of
        (Some a, Some p) \<Rightarrow>
          if p \<le> 0 \<or> a \<le> 0 then base_period
          else let vol_pct = fdiv a p
               in if vol_pct > high_vol_pct then max 1 (base_period div 4)
                  else if vol_pct > mid_vol_pct then max 1 (base_period div 2)
                  else base_period
      | _ \<Rightarrow> base_period)"

definition adaptive_horizons :: "label_cfg \<Rightarrow> int \<Rightarrow> frame \<Rightarrow> int list result" where
  "adaptive_horizons cfg base_period df =
     (let atr_col = atr_column cfg; price_col = get_or ''close'' (lc_price_column cfg)
      in if atr_col \<notin> set (fr_columns df) then Inl (ValueError ''adaptive_holding=true requires ATR column'')
         else if price_col \<notin> set (fr_columns df) then Inl (ValueError ''adaptive_holding=true requires price column'')
         else let high = get_or (fl (2 / 100)) (map_of (lc_numbers cfg) ''adaptive_high_vol_pct'');
                  mid = get_or (fl (1 / 100)) (map_of (lc_numbers cfg) ''adaptive_mid_vol_pct'')
              in Inr (map (\<lambda>r. adaptive_holding_period (cell r atr_col) (cell r price_col) base_period high mid) (fr_rows df)))"

section \<open>The event of the execution engine\<close>

definition resolve_signal_step :: "rat \<Rightarrow> grid \<Rightarrow> rat result" where
  "resolve_signal_step atr_value g =
     (if \<not> atr_value > 0 then Inl (ValueError ''ATR must be positive'')
      else let step = get_or atr_value (get_or None (map_of g ''step_points''));
               step = (case get_or None (map_of g ''step_min_points'') of None \<Rightarrow> step | Some l \<Rightarrow> max step l);
               step = (case get_or None (map_of g ''step_max_points'') of None \<Rightarrow> step | Some u \<Rightarrow> min step u)
           in if \<not> step > 0 then Inl (ValueError ''resolved signal step must be positive'') else Inr step)"

definition execution_costs :: "label_cfg \<Rightarrow> string \<Rightarrow> rat \<times> rat" where
  "execution_costs cfg asset_key =
     (let asset = map_of (lc_assets cfg) asset_key
      in (get_or (fdiv (get_or 25 (lc_spread_points cfg)) 100) (Option.bind asset la_spread_usd),
          get_or (fdiv (get_or 5 (lc_slippage_points cfg)) 100) (Option.bind asset la_slippage_usd)))"

text \<open>The keyword arguments with their defaults.\<close>

record traded_args =
  tv_horizon_n :: "int option"
  tv_include_costs :: bool
  tv_require_net_positive :: bool
  tv_use_regime_overrides :: bool
  tv_horizons :: "int list option"

definition traded_defaults :: traded_args where
  "traded_defaults = \<lparr>tv_horizon_n = None, tv_include_costs = True, tv_require_net_positive = True,
     tv_use_regime_overrides = True, tv_horizons = None\<rparr>"

text \<open>The loop over the bars after the entry; a bar that touches both levels counts as the stop.\<close>

fun scan_event :: "int \<Rightarrow> rat \<Rightarrow> rat \<Rightarrow> row list \<Rightarrow> int option" where
  "scan_event dir protect_level stop_level [] = None"
| "scan_event dir protect_level stop_level (r # rs) =
     (let hit_protect = (if dir = 1 then rw_high r \<ge> protect_level else rw_low r \<le> protect_level);
          hit_stop = (if dir = 1 then rw_low r \<le> stop_level else rw_high r \<ge> stop_level)
      in if hit_stop \<and> hit_protect then Some 0
         else if hit_protect then Some 1
         else if hit_stop then Some 0
         else scan_event dir protect_level stop_level rs)"

definition signal_bar_grid :: "label_cfg \<Rightarrow> string \<Rightarrow> traded_args \<Rightarrow> frame \<Rightarrow> row \<Rightarrow> grid" where
  "signal_bar_grid cfg asset_key a df r =
     get_signal_grid (lc_numbers cfg) (lc_signal_grid cfg) (map_option la_signal_grid (map_of (lc_assets cfg) asset_key))
       (if tv_use_regime_overrides a \<and> ''regime'' \<in> set (fr_columns df) then Some (rw_regime r) else None)"

text \<open>The levels of one signal bar, \<open>None\<close> when its first target does not pay for its execution.\<close>

definition traded_levels ::
  "label_cfg \<Rightarrow> string \<Rightarrow> int \<Rightarrow> traded_args \<Rightarrow> grid \<Rightarrow> rat \<Rightarrow> rat \<Rightarrow> (rat \<times> rat) option result" where
  "traded_levels cfg asset_key dir a g atr_signal open_price =
     (let (spread, slippage) = execution_costs cfg asset_key in
      rbind (grid_number g ''tp1_mult'' 1) (\<lambda>tp1_mult.
      rbind (grid_number g ''stop_mult'' 3) (\<lambda>stop_mult.
      rbind (grid_number g ''breakeven_trigger_atr'' 1) (\<lambda>be_trigger.
      rbind (resolve_signal_step atr_signal g) (\<lambda>step.
      let tp1_distance = fmul step tp1_mult;
          d = of_int dir;
          entry = (if tv_include_costs a then fadd (fadd open_price (fmul d (fdiv spread 2))) (fmul d slippage) else open_price)
      in if tv_require_net_positive a \<and> tp1_distance \<le> fadd spread (fmul 2 slippage) then Inr None
         else Inr (Some (fadd entry (fmul (fmul d be_trigger) tp1_distance), fsub entry (fmul (fmul d step) stop_mult))))))))"

definition traded_label ::
  "label_cfg \<Rightarrow> string \<Rightarrow> int \<Rightarrow> traded_args \<Rightarrow> frame \<Rightarrow> nat \<Rightarrow> int option result" where
  "traded_label cfg asset_key dir a df s =
     (let rows = fr_rows df in
      if s + 2 \<ge> length rows then Inr None
      else case cell (rows ! s) (atr_column cfg) of
        None \<Rightarrow> Inr None
      | Some atr_signal \<Rightarrow>
          if atr_signal \<le> 0 then Inr None
          else rbind (traded_levels cfg asset_key dir a (signal_bar_grid cfg asset_key a df (rows ! s)) atr_signal
                 (rw_open (rows ! Suc s))) (\<lambda>levels.
               case levels of
                 None \<Rightarrow> Inr None
               | Some (protect_level, stop_level) \<Rightarrow>
                   let h = (case tv_horizons a of None \<Rightarrow> get_or (horizon_candles cfg) (tv_horizon_n a) | Some hs \<Rightarrow> hs ! s)
                   in Inr (scan_event dir protect_level stop_level (ahead rows (Suc s) h))))"

fun rmap :: "('a \<Rightarrow> 'b result) \<Rightarrow> 'a list \<Rightarrow> 'b list result" where
  "rmap f [] = Inr []"
| "rmap f (x # xs) = rbind (f x) (\<lambda>y. rbind (rmap f xs) (\<lambda>ys. Inr (y # ys)))"

definition generate_labels_traded_event ::
  "label_cfg \<Rightarrow> string \<Rightarrow> int \<Rightarrow> traded_args \<Rightarrow> frame \<Rightarrow> int option list result" where
  "generate_labels_traded_event cfg asset_key dir a df =
     (if dir \<notin> {1, - 1} then Inl (ValueError ''direction must be +1 or -1'')
      else if atr_column cfg \<notin> set (fr_columns df) then Inl (ValueError ''ATR column missing from frame'')
      else if case tv_horizons a of None \<Rightarrow> False | Some hs \<Rightarrow> length hs \<noteq> length (fr_rows df)
           then Inl (ValueError ''horizons length does not match frame length'')
      else rmap (traded_label cfg asset_key dir a df) [0..<length (fr_rows df)])"

definition TRADED_ENCODINGS :: "string list" where
  "TRADED_ENCODINGS = [''binary01'', ''pm1'']"

definition side_label :: "int \<Rightarrow> int option \<Rightarrow> int option \<Rightarrow> int option" where
  "side_label short_code long_lab short_lab =
     (case (long_lab, short_lab) of
        (Some l, Some s) \<Rightarrow> if l = 1 \<and> s = 0 then Some 1 else if l = 0 \<and> s = 1 then Some short_code else None
      | _ \<Rightarrow> None)"

definition generate_labels_traded_direction ::
  "label_cfg \<Rightarrow> string \<Rightarrow> string \<Rightarrow> traded_args \<Rightarrow> frame \<Rightarrow> int option list result" where
  "generate_labels_traded_direction cfg asset_key encoding a df =
     (if encoding \<notin> set TRADED_ENCODINGS then Inl (ValueError ''encoding'')
      else rbind (generate_labels_traded_event cfg asset_key 1 a df) (\<lambda>long_lab.
           rbind (generate_labels_traded_event cfg asset_key (- 1) a df) (\<lambda>short_lab.
           Inr (map2 (side_label (if encoding = ''pm1'' then - 1 else 0)) long_lab short_lab))))"

section \<open>The entry point\<close>

definition barrier_labels :: "label_cfg \<Rightarrow> int list option \<Rightarrow> frame \<Rightarrow> int option list result" where
  "barrier_labels cfg horizons df =
     (let meth = get_or ''fixed'' (lc_method cfg);
          horizon = (case lc_horizon_candles cfg of None \<Rightarrow> Inl (KeyError ''horizon_candles_n'') | Some h \<Rightarrow> Inr h)
      in if meth = ''fixed'' then
           rbind (number cfg ''target_pips_x'') (\<lambda>x. rbind (number cfg ''stop_pips_y'') (\<lambda>y.
           case horizons of
             None \<Rightarrow> rbind horizon (\<lambda>h. Inr (generate_labels x y h df))
           | Some hs \<Rightarrow> Inr (generate_labels_with_horizons x y hs df)))
         else if meth = ''atr_scaled'' then
           rbind (number cfg ''target_atr_multiplier'') (\<lambda>x. rbind (number cfg ''stop_atr_multiplier'') (\<lambda>y.
           case horizons of
             None \<Rightarrow> rbind horizon (\<lambda>h. generate_labels_atr_scaled x y h (atr_column cfg) df)
           | Some hs \<Rightarrow> generate_labels_atr_scaled_with_horizons x y hs (atr_column cfg) df))
         else Inl (ValueError ''Unknown labeling.method''))"

definition generate_labels_from_config :: "label_cfg \<Rightarrow> string option \<Rightarrow> frame \<Rightarrow> int option list result" where
  "generate_labels_from_config cfg asset_key df =
     rbind (resolve_label_event cfg) (\<lambda>event.
     rbind (if lc_adaptive_holding cfg then map_sum id Some (adaptive_horizons cfg (horizon_candles cfg) df) else Inr None)
       (\<lambda>horizons.
     if event = ''traded'' then
       (case asset_key of
          None \<Rightarrow> Inl (ValueError ''labeling.event=traded requires asset_key'')
        | Some asset \<Rightarrow>
            if lc_include_zero_class cfg then Inl (ValueError ''labeling.event=traded is incompatible with include_zero_class'')
            else generate_labels_traded_direction cfg asset ''pm1'' (traded_defaults\<lparr>tv_horizons := horizons\<rparr>) df)
     else barrier_labels cfg horizons df))"

text \<open>The summary of a label series: how many labels are there, the shares, and how many are missing.\<close>

record label_summary =
  sm_total_valid :: nat
  sm_shares :: "(rat \<times> rat \<times> rat) option"
  sm_nan_count :: "nat option"

definition share :: "int \<Rightarrow> int list \<Rightarrow> rat" where
  "share v labels = fmul (fdiv (of_nat (count_list labels v)) (of_nat (length labels))) 100"

definition label_distribution_summary :: "int option list \<Rightarrow> label_summary" where
  "label_distribution_summary labels =
     (let valid = List.map_filter id labels
      in if valid = [] then \<lparr>sm_total_valid = 0, sm_shares = None, sm_nan_count = None\<rparr>
         else \<lparr>sm_total_valid = length valid, sm_shares = Some (share 1 valid, share (- 1) valid, share 0 valid),
                sm_nan_count = Some (length (filter (\<lambda>l. l = None) labels))\<rparr>)"

text \<open>How one side of the event, and the choice between the sides, resolve.\<close>

record side_summary =
  sd_resolved :: nat
  sd_unresolved :: nat
  sd_favourable_pct :: "rat option"

definition side_summary_of :: "int option list \<Rightarrow> side_summary" where
  "side_summary_of lab =
     (let valid = List.map_filter id lab
      in \<lparr>sd_resolved = length valid, sd_unresolved = length (filter (\<lambda>l. l = None) lab),
           sd_favourable_pct = (if valid = [] then None else Some (share 1 valid))\<rparr>)"

record traded_summary =
  ts_rows :: nat
  ts_long :: side_summary
  ts_short :: side_summary
  ts_direction_defined :: nat
  ts_direction_defined_pct :: "rat option"
  ts_direction_long_share_pct :: "rat option"

definition traded_event_summary :: "label_cfg \<Rightarrow> string \<Rightarrow> traded_args \<Rightarrow> frame \<Rightarrow> traded_summary result" where
  "traded_event_summary cfg asset_key a df =
     rbind (generate_labels_traded_event cfg asset_key 1 a df) (\<lambda>long_lab.
     rbind (generate_labels_traded_event cfg asset_key (- 1) a df) (\<lambda>short_lab.
     rbind (generate_labels_traded_direction cfg asset_key ''binary01'' a df) (\<lambda>dir_lab.
     let dir_valid = List.map_filter id dir_lab; n = length (fr_rows df)
     in Inr \<lparr>ts_rows = n, ts_long = side_summary_of long_lab, ts_short = side_summary_of short_lab,
          ts_direction_defined = length dir_valid,
          ts_direction_defined_pct = (if n = 0 then None else Some (fmul (fdiv (of_nat (length dir_valid)) (of_nat n)) 100)),
          ts_direction_long_share_pct = (if dir_valid = [] then None else Some (share 1 dir_valid))\<rparr>)))"

end
