(* ===== verification/Label_Rules.thy ===== *)
theory Label_Rules
  imports Labels
begin

text \<open>
  What a label says and what it depends on: the label of a bar is the first touch among the bars of its
  horizon, a horizon given per bar only generalises the fixed one, and every label of
  \<^verbatim>\<open>generate_labels_from_config\<close> reads at most one bar more than the horizon ahead. The locale \<open>label_rule\<close> is
  this bound as a contract; the validation in \<open>Walk_Forward\<close> relies on it.
\<close>

section \<open>First touches\<close>

definition touched :: "rat \<Rightarrow> rat \<Rightarrow> row \<Rightarrow> bool" where
  "touched u l r \<longleftrightarrow> u \<le> rw_high r \<or> rw_low r \<le> l"

definition touch :: "rat \<Rightarrow> rat \<Rightarrow> row \<Rightarrow> int option" where
  "touch u l r = (if u \<le> rw_high r \<and> rw_low r \<le> l then None else if u \<le> rw_high r then Some 1 else Some (- 1))"

lemma scan_barriers_find:
  "scan_barriers u l rs = (case find (touched u l) rs of None \<Rightarrow> Some 0 | Some r \<Rightarrow> touch u l r)"
  by (induction rs) (auto simp: touched_def touch_def)

lemma ahead_length: "int i + h < int (length rows) \<Longrightarrow> length (ahead rows i h) = nat h"
  by (auto simp: ahead_def)

lemma ahead_nth:
  assumes "j < length (ahead rows i h)"
  shows "ahead rows i h ! j = rows ! (i + 1 + j)"
proof -
  have "Suc i \<le> length rows" using assms by (auto simp: ahead_def)
  then show ?thesis using assms by (simp add: ahead_def)
qed

lemma find_ahead:
  assumes "int i + h < int (length rows)"
  shows "find P (ahead rows i h) = None \<longleftrightarrow> (\<forall>k. i < k \<and> int k \<le> int i + h \<longrightarrow> \<not> P (rows ! k))"
    and "find P (ahead rows i h) = Some r \<longleftrightarrow>
      (\<exists>j. i < j \<and> int j \<le> int i + h \<and> rows ! j = r \<and> P r \<and> (\<forall>k. i < k \<and> k < j \<longrightarrow> \<not> P (rows ! k)))"
proof -
  note len = ahead_length [OF assms]
  have shift: "(\<forall>j<nat h. Q (rows ! (i + 1 + j))) \<longleftrightarrow> (\<forall>k. i < k \<and> int k \<le> int i + h \<longrightarrow> Q (rows ! k))" for Q
  proof (intro iffI allI impI)
    fix k assume all: "\<forall>j<nat h. Q (rows ! (i + 1 + j))" and k: "i < k \<and> int k \<le> int i + h"
    then have "k - i - 1 < nat h" by linarith
    with all have "Q (rows ! (i + 1 + (k - i - 1)))" by blast
    then show "Q (rows ! k)" using k by simp
  qed auto
  show "find P (ahead rows i h) = None \<longleftrightarrow> (\<forall>k. i < k \<and> int k \<le> int i + h \<longrightarrow> \<not> P (rows ! k))"
    unfolding find_None_iff using shift [of "\<lambda>r. \<not> P r"] by (auto simp: in_set_conv_nth len ahead_nth)
  show "find P (ahead rows i h) = Some r \<longleftrightarrow>
      (\<exists>j. i < j \<and> int j \<le> int i + h \<and> rows ! j = r \<and> P r \<and> (\<forall>k. i < k \<and> k < j \<longrightarrow> \<not> P (rows ! k)))"
    unfolding find_Some_iff
  proof (intro iffI; elim exE conjE)
    fix j assume j: "j < length (ahead rows i h)" "P (ahead rows i h ! j)" "r = ahead rows i h ! j"
      "\<forall>k<j. \<not> P (ahead rows i h ! k)"
    have "\<not> P (rows ! k)" if "i < k" "k < i + 1 + j" for k
    proof -
      have "k - i - 1 < j" using that by simp
      then have "\<not> P (ahead rows i h ! (k - i - 1))" "k - i - 1 < length (ahead rows i h)" using j by auto
      then show ?thesis using that by (simp add: ahead_nth)
    qed
    then show "\<exists>j. i < j \<and> int j \<le> int i + h \<and> rows ! j = r \<and> P r \<and> (\<forall>k. i < k \<and> k < j \<longrightarrow> \<not> P (rows ! k))"
      using j by (intro exI [of _ "i + 1 + j"]) (auto simp: ahead_nth len)
  next
    fix j assume j: "i < j" "int j \<le> int i + h" "rows ! j = r" "P r" "\<forall>k. i < k \<and> k < j \<longrightarrow> \<not> P (rows ! k)"
    then have in_range: "j - i - 1 < length (ahead rows i h)" unfolding len by linarith
    then show "\<exists>j<length (ahead rows i h). P (ahead rows i h ! j) \<and> r = ahead rows i h ! j \<and> (\<forall>k<j. \<not> P (ahead rows i h ! k))"
      using j by (intro exI [of _ "j - i - 1"]) (auto simp: ahead_nth)
  qed
qed

text \<open>C34. With a horizon of \<open>h\<close> bars that fit into the frame, the label of a bar is 1 exactly when the first
  of them that touches a barrier touches only the upper one, -1 when only the lower one, 0 when none touches, and
  it is missing when the first touch is of both.\<close>

theorem label_is_first_touch:
  assumes fits: "int i + h < int (length (fr_rows df))" "0 \<le> h"
    and u: "u = fadd (rw_close (fr_rows df ! i)) x" and l: "l = fsub (rw_close (fr_rows df ! i)) y"
  defines "first j \<equiv> i < j \<and> int j \<le> int i + h \<and> touched u l (fr_rows df ! j)
      \<and> (\<forall>k. i < k \<and> k < j \<longrightarrow> \<not> touched u l (fr_rows df ! k))"
  shows "(generate_labels x y h df ! i = Some 1 \<longleftrightarrow> (\<exists>j. first j \<and> \<not> rw_low (fr_rows df ! j) \<le> l))
    \<and> (generate_labels x y h df ! i = Some (- 1) \<longleftrightarrow> (\<exists>j. first j \<and> \<not> u \<le> rw_high (fr_rows df ! j)))
    \<and> (generate_labels x y h df ! i = Some 0 \<longleftrightarrow> (\<nexists>j. first j))
    \<and> (generate_labels x y h df ! i = None \<longleftrightarrow> (\<exists>j. first j \<and> u \<le> rw_high (fr_rows df ! j) \<and> rw_low (fr_rows df ! j) \<le> l))"
proof -
  let ?rs = "fr_rows df"
  have i: "i < length ?rs" using fits by simp
  have eq: "generate_labels x y h df ! i = (case find (touched u l) (ahead ?rs i h) of None \<Rightarrow> Some 0 | Some r \<Rightarrow> touch u l r)"
    unfolding u l using fits i by (simp add: generate_labels_def barrier_label_def Let_def scan_barriers_find)
  show ?thesis
  proof (cases "find (touched u l) (ahead ?rs i h)")
    case None
    then have "\<nexists>j. first j" unfolding find_ahead(1) [OF fits(1)] first_def by blast
    then show ?thesis by (auto simp: eq None)
  next
    case (Some r)
    then obtain j where j: "first j" "?rs ! j = r" unfolding find_ahead(2) [OF fits(1)] first_def by blast
    have unique: "j' = j" if "first j'" for j'
      using that j(1) unfolding first_def by (metis linorder_neqE_nat)
    have here: "(\<exists>j'. first j' \<and> P j') = P j" "(\<nexists>j'. first j') = False" for P using j(1) unique by blast+
    have "touched u l r" using j by (auto simp: first_def)
    then show ?thesis unfolding here eq Some j(2) by (auto simp: touch_def touched_def)
  qed
qed

section \<open>Horizons per bar\<close>

text \<open>With the same horizon at every bar the labellers with a horizon per bar give the labels of those with
  one horizon, for both kinds of barrier and every frame.\<close>

theorem constant_horizons_give_legacy_labels:
  "generate_labels_with_horizons x y (replicate (length (fr_rows df)) h) df = generate_labels x y h df
    \<and> generate_labels_atr_scaled_with_horizons x y (replicate (length (fr_rows df)) h) c df = generate_labels_atr_scaled x y h c df"
  by (simp add: generate_labels_with_horizons_def generate_labels_def generate_labels_atr_scaled_with_horizons_def
      generate_labels_atr_scaled_def)

lemma adaptive_holding_period_bounds:
  "1 \<le> base \<Longrightarrow> 1 \<le> adaptive_holding_period a p base high mid \<and> adaptive_holding_period a p base high mid \<le> base"
  by (auto simp: adaptive_holding_period_def Let_def split: option.split)

section \<open>How far a label reads\<close>

text \<open>Two frames of one shape that agree on their first rows, up to the \<open>m\<close>-th.\<close>

definition same_until :: "int \<Rightarrow> frame \<Rightarrow> frame \<Rightarrow> bool" where
  "same_until m df df' \<longleftrightarrow> fr_columns df = fr_columns df' \<and> length (fr_rows df) = length (fr_rows df')
     \<and> (\<forall>k<length (fr_rows df). int k \<le> m \<longrightarrow> fr_rows df ! k = fr_rows df' ! k)"

lemma same_untilD:
  assumes "same_until m df df'"
  shows "fr_columns df = fr_columns df'" "length (fr_rows df) = length (fr_rows df')"
    "k < length (fr_rows df) \<Longrightarrow> int k \<le> m \<Longrightarrow> fr_rows df ! k = fr_rows df' ! k"
  using assms by (simp_all add: same_until_def)

lemma same_until_mono: "same_until m df df' \<Longrightarrow> n \<le> m \<Longrightarrow> same_until n df df'"
  by (auto simp: same_until_def)

lemma ahead_same:
  assumes "same_until m df df'" and "int i + h \<le> m"
  shows "ahead (fr_rows df) i h = ahead (fr_rows df') i h"
proof (rule nth_equalityI)
  note same = same_untilD [OF assms(1)]
  show "length (ahead (fr_rows df) i h) = length (ahead (fr_rows df') i h)" using same(2) by (simp add: ahead_def)
  fix j assume j: "j < length (ahead (fr_rows df) i h)"
  then have "i + 1 + j < length (fr_rows df)" "int (i + 1 + j) \<le> m" using assms(2) by (auto simp: ahead_def)
  then have "fr_rows df ! (i + 1 + j) = fr_rows df' ! (i + 1 + j)" by (rule same(3))
  moreover have "j < length (ahead (fr_rows df') i h)" using j same(2) by (simp add: ahead_def)
  ultimately show "ahead (fr_rows df) i h ! j = ahead (fr_rows df') i h ! j"
    using j by (simp only: ahead_nth)
qed

text \<open>The contract: the label of a bar is a function of the rows up to \<open>reach\<close> ahead.\<close>

locale label_rule =
  fixes label :: "frame \<Rightarrow> nat \<Rightarrow> int option result" and reach :: int
  assumes local: "i < length (fr_rows df) \<Longrightarrow> same_until (int i + reach) df df' \<Longrightarrow> label df i = label df' i"

lemma barrier_label_local:
  assumes "i < length (fr_rows df)" and "same_until m df df'" and "int i \<le> m" and "int i + h \<le> m"
  shows "barrier_label x y (fr_rows df) i h = barrier_label x y (fr_rows df') i h"
    and "atr_label x y c (fr_rows df) i h = atr_label x y c (fr_rows df') i h"
proof -
  have "fr_rows df ! i = fr_rows df' ! i" using same_untilD(3) [OF assms(2)] assms(1,3) by simp
  then show "barrier_label x y (fr_rows df) i h = barrier_label x y (fr_rows df') i h"
    and "atr_label x y c (fr_rows df) i h = atr_label x y c (fr_rows df') i h"
    using same_untilD(2) [OF assms(2)] ahead_same [OF assms(2,4)]
    by (simp_all add: barrier_label_def atr_label_def split: option.split)
qed

interpretation barrier: label_rule "\<lambda>df i. Inr (barrier_label x y (fr_rows df) i h)" "max 0 h" for x y h
  by unfold_locales (simp add: barrier_label_local(1))

lemma traded_label_local:
  assumes "i < length (fr_rows df)" and "same_until m df df'" and "int i + 1 \<le> m"
    and "int i + 1 + (case tv_horizons a of None \<Rightarrow> get_or (horizon_candles cfg) (tv_horizon_n a) | Some hs \<Rightarrow> hs ! i) \<le> m"
  shows "traded_label cfg asset d a df i = traded_label cfg asset d a df' i"
proof -
  note same = same_untilD [OF assms(2)]
  have "fr_rows df ! i = fr_rows df' ! i" "signal_bar_grid cfg asset a df r = signal_bar_grid cfg asset a df' r" for r
    using assms(1,3) same by (simp_all add: signal_bar_grid_def)
  moreover have "Suc i < length (fr_rows df) \<Longrightarrow> fr_rows df ! Suc i = fr_rows df' ! Suc i" using same(3) [of "Suc i"] assms(3) by simp
  moreover have "ahead (fr_rows df) (Suc i) h = ahead (fr_rows df') (Suc i) h"
    if "h = (case tv_horizons a of None \<Rightarrow> get_or (horizon_candles cfg) (tv_horizon_n a) | Some hs \<Rightarrow> hs ! i)" for h
    using ahead_same [OF assms(2), of "Suc i" h] assms(4) that by simp
  ultimately show ?thesis
    using same(2) by (auto simp: traded_label_def Let_def fun_eq_iff intro!: arg_cong2 [of _ _ _ _ rbind] split: option.split)
qed

interpretation traded: label_rule "traded_label cfg asset d (traded_defaults\<lparr>tv_horizon_n := Some h\<rparr>)" "max 0 h + 1" for cfg asset d h
  by unfold_locales (rule traded_label_local, assumption+, simp_all add: traded_defaults_def)

section \<open>The labels of a configuration, bar by bar\<close>

definition bar_horizon :: "label_cfg \<Rightarrow> row \<Rightarrow> int" where
  "bar_horizon cfg r =
     (if lc_adaptive_holding cfg
      then adaptive_holding_period (cell r (atr_column cfg)) (cell r (get_or ''close'' (lc_price_column cfg))) (horizon_candles cfg)
             (get_or (fl (2 / 100)) (map_of (lc_numbers cfg) ''adaptive_high_vol_pct''))
             (get_or (fl (1 / 100)) (map_of (lc_numbers cfg) ''adaptive_mid_vol_pct''))
      else horizon_candles cfg)"

definition traded_side :: "label_cfg \<Rightarrow> string \<Rightarrow> frame \<Rightarrow> nat \<Rightarrow> int \<Rightarrow> int option result" where
  "traded_side cfg asset df i h =
     (let a = traded_defaults\<lparr>tv_horizon_n := Some h\<rparr> in
      rbind (traded_label cfg asset 1 a df i) (\<lambda>l. rbind (traded_label cfg asset (- 1) a df i) (\<lambda>s. Inr (side_label (- 1) l s))))"

definition config_label :: "label_cfg \<Rightarrow> string \<Rightarrow> frame \<Rightarrow> nat \<Rightarrow> int option result" where
  "config_label cfg asset df i =
     (let h = bar_horizon cfg (fr_rows df ! i) in
      if resolve_label_event cfg = Inr ''traded'' then traded_side cfg asset df i h
      else if get_or ''fixed'' (lc_method cfg) = ''fixed'' then
        rbind (number cfg ''target_pips_x'') (\<lambda>x. rbind (number cfg ''stop_pips_y'') (\<lambda>y.
          Inr (barrier_label x y (fr_rows df) i h)))
      else rbind (number cfg ''target_atr_multiplier'') (\<lambda>x. rbind (number cfg ''stop_atr_multiplier'') (\<lambda>y.
          Inr (atr_label x y (atr_column cfg) (fr_rows df) i h))))"

lemma bar_horizon_le: "bar_horizon cfg r \<le> max 1 (horizon_candles cfg)"
  by (auto simp: bar_horizon_def adaptive_holding_period_def Let_def split: option.split)

interpretation config: label_rule "config_label cfg asset" "max 1 (horizon_candles cfg) + 1" for cfg asset
proof unfold_locales
  fix i :: nat and df df'
  assume i: "i < length (fr_rows df)" and same: "same_until (int i + (max 1 (horizon_candles cfg) + 1)) df df'"
  have row: "fr_rows df ! i = fr_rows df' ! i" using same_untilD(3) [OF same i] by simp
  let ?h = "bar_horizon cfg (fr_rows df' ! i)"
  have h: "?h \<le> max 1 (horizon_candles cfg)" by (rule bar_horizon_le)
  have "traded_label cfg asset d (traded_defaults\<lparr>tv_horizon_n := Some ?h\<rparr>) df i
      = traded_label cfg asset d (traded_defaults\<lparr>tv_horizon_n := Some ?h\<rparr>) df' i" for d
    by (rule traded_label_local [OF i same]) (use h in \<open>simp_all add: traded_defaults_def\<close>)
  moreover have "barrier_label x y (fr_rows df) i ?h = barrier_label x y (fr_rows df') i ?h"
    "atr_label x y c (fr_rows df) i ?h = atr_label x y c (fr_rows df') i ?h" for x y c
    using barrier_label_local [OF i same, of ?h] h by simp_all
  ultimately show "config_label cfg asset df i = config_label cfg asset df' i"
    by (simp add: config_label_def traded_side_def row Let_def)
qed

lemma rmap_Inr: "rmap f xs = Inr ys \<Longrightarrow> length ys = length xs \<and> (\<forall>i<length xs. f (xs ! i) = Inr (ys ! i))"
  by (induction xs arbitrary: ys) (auto simp: rbind_Inr less_Suc_eq_0_disj)

lemma traded_label_at_horizon:
  "traded_label cfg asset d (traded_defaults\<lparr>tv_horizons := Some hs\<rparr>) df i
     = traded_label cfg asset d (traded_defaults\<lparr>tv_horizon_n := Some (hs ! i)\<rparr>) df i"
  "traded_label cfg asset d (traded_defaults\<lparr>tv_horizons := None\<rparr>) df i
     = traded_label cfg asset d (traded_defaults\<lparr>tv_horizon_n := Some (horizon_candles cfg)\<rparr>) df i"
  by (auto simp: traded_label_def Let_def traded_defaults_def traded_levels_def signal_bar_grid_def
      intro!: arg_cong2 [of _ _ _ _ rbind] split: option.split)

lemma traded_direction_by_bar:
  assumes "generate_labels_traded_direction cfg asset ''pm1'' (traded_defaults\<lparr>tv_horizons := hs\<rparr>) df = Inr ls"
    and "i < length (fr_rows df)"
  shows "length ls = length (fr_rows df)
    \<and> traded_side cfg asset df i (case hs of None \<Rightarrow> horizon_candles cfg | Some l \<Rightarrow> l ! i) = Inr (ls ! i)"
  using assms
  by (auto simp: generate_labels_traded_direction_def generate_labels_traded_event_def TRADED_ENCODINGS_def rbind_Inr
      traded_side_def traded_label_at_horizon split: if_splits option.splits dest!: rmap_Inr)

lemma adaptive_horizons_nth:
  "lc_adaptive_holding cfg \<Longrightarrow> adaptive_horizons cfg (horizon_candles cfg) df = Inr hs \<Longrightarrow> i < length (fr_rows df)
    \<Longrightarrow> hs ! i = bar_horizon cfg (fr_rows df ! i)"
  by (auto simp: adaptive_horizons_def bar_horizon_def Let_def split: if_splits)

lemma barrier_labels_by_bar:
  assumes "barrier_labels cfg hs df = Inr ls" and "i < length (fr_rows df)" and "resolve_label_event cfg \<noteq> Inr ''traded''"
    and "bar_horizon cfg (fr_rows df ! i) = (case hs of None \<Rightarrow> horizon_candles cfg | Some l \<Rightarrow> l ! i)"
  shows "length ls = length (fr_rows df) \<and> config_label cfg asset df i = Inr (ls ! i)"
  using assms
  by (auto simp: barrier_labels_def config_label_def rbind_Inr Let_def horizon_candles_def generate_labels_def
      generate_labels_with_horizons_def generate_labels_atr_scaled_def generate_labels_atr_scaled_with_horizons_def
      split: if_splits option.splits)

text \<open>Every label of a series that is returned is the label of its bar.\<close>

lemma labels_by_bar:
  assumes run: "generate_labels_from_config cfg asset df = Inr ls" and i: "i < length (fr_rows df)"
  shows "length ls = length (fr_rows df) \<and> config_label cfg (get_or [] asset) df i = Inr (ls ! i)"
proof -
  obtain event hs where event: "resolve_label_event cfg = Inr event"
    and hs: "(if lc_adaptive_holding cfg then map_sum id Some (adaptive_horizons cfg (horizon_candles cfg) df) else Inr None) = Inr hs"
    and labels: "(if event = ''traded'' then
       (case asset of None \<Rightarrow> Inl (ValueError ''labeling.event=traded requires asset_key'')
        | Some a \<Rightarrow> if lc_include_zero_class cfg then Inl (ValueError ''labeling.event=traded is incompatible with include_zero_class'')
            else generate_labels_traded_direction cfg a ''pm1'' (traded_defaults\<lparr>tv_horizons := hs\<rparr>) df)
     else barrier_labels cfg hs df) = Inr ls"
    using run unfolding generate_labels_from_config_def rbind_Inr by blast
  have h: "bar_horizon cfg (fr_rows df ! i) = (case hs of None \<Rightarrow> horizon_candles cfg | Some l \<Rightarrow> l ! i)"
    using hs adaptive_horizons_nth [OF _ _ i, of cfg]
    by (cases "adaptive_horizons cfg (horizon_candles cfg) df") (auto simp: bar_horizon_def split: if_splits)
  show ?thesis
  proof (cases "event = ''traded''")
    case True
    then show ?thesis using labels event traded_direction_by_bar [OF _ i, of cfg _ hs ls] h
      by (auto simp: config_label_def Let_def split: option.splits if_splits)
  next
    case False
    then show ?thesis using labels event barrier_labels_by_bar [OF _ i _ h] by simp
  qed
qed

lemma labels_local:
  assumes "generate_labels_from_config cfg asset df = Inr ls" and "generate_labels_from_config cfg asset df' = Inr ls'"
    and i: "i < length (fr_rows df)" and same: "same_until (int i + (max 1 (horizon_candles cfg) + 1)) df df'"
  shows "ls ! i = ls' ! i"
proof -
  have "i < length (fr_rows df')" using i same_untilD(2) [OF same] by simp
  then show ?thesis
    using labels_by_bar [OF assms(1) i] labels_by_bar [OF assms(2)] config.local [OF i same] by fastforce
qed

end
