(* ===== verification/Walk_Forward.thy ===== *)
theory Walk_Forward
  imports Label_Rules
begin

text \<open>
  Walk-forward validation, \<^verbatim>\<open>backtest/walk_forward.py\<close>: the rolling windows, the split of a frame into a purged
  training part and a test part, and the run over all folds for an arbitrary strategy. The loop over the windows
  may not end, so it is a partial function and \<open>None\<close> means that it runs forever. The theorems say when the
  labels of the training rows are independent of the test window, and when they are not.
\<close>

section \<open>Windows\<close>

record walk_window =
  ww_train_start :: int
  ww_train_end :: int
  ww_test_start :: int
  ww_test_end :: int

record walk_cfg =
  wc_labeling :: label_cfg
  wc_train_window_days :: int
  wc_test_window_days :: int
  wc_step_days :: int
  wc_embargo_candles :: "int option"

definition day_s :: int where "day_s = 86400"

definition window_at :: "int \<Rightarrow> int \<Rightarrow> int \<Rightarrow> walk_window" where
  "window_at train_days test_days start =
     (let train_end = start + train_days * day_s
      in \<lparr>ww_train_start = start, ww_train_end = train_end, ww_test_start = train_end,
          ww_test_end = train_end + test_days * day_s\<rparr>)"

partial_function (option) windows_from :: "int \<Rightarrow> int \<Rightarrow> int \<Rightarrow> int \<Rightarrow> int \<Rightarrow> walk_window list option" where
  "windows_from max_ts train_days test_days step_days start =
     (let w = window_at train_days test_days start
      in if ww_test_end w > max_ts then Some []
         else Option.bind (windows_from max_ts train_days test_days step_days (start + step_days * day_s))
                (\<lambda>ws. Some (w # ws)))"

definition timestamps :: "frame \<Rightarrow> int list" where
  "timestamps df = map rw_ts (fr_rows df)"

definition generate_windows :: "frame \<Rightarrow> int \<Rightarrow> int \<Rightarrow> int \<Rightarrow> walk_window list option" where
  "generate_windows df train_days test_days step_days =
     (if fr_rows df = [] then Some []
      else windows_from (Max (set (timestamps df))) train_days test_days step_days (Min (set (timestamps df))))"

section \<open>Splitting\<close>

definition median :: "int list \<Rightarrow> int" where
  "median xs =
     (let s = sort xs; n = length s
      in if odd n then s ! (n div 2) else (s ! (n div 2 - 1) + s ! (n div 2)) div 2)"

definition bar_seconds :: "frame \<Rightarrow> int" where
  "bar_seconds df =
     (if ''timestamp_utc'' \<notin> set (fr_columns df) \<or> length (fr_rows df) < 2 then 1
      else let ts = timestamps df; diffs = filter (\<lambda>d. 0 < d) (map2 (\<lambda>a b. b - a) ts (tl ts))
           in if diffs = [] then 1 else median diffs)"

definition keep_rows :: "(row \<Rightarrow> bool) \<Rightarrow> frame \<Rightarrow> frame" where
  "keep_rows P df = df\<lparr>fr_rows := filter P (fr_rows df)\<rparr>"

definition purge_train_frame :: "walk_cfg \<Rightarrow> int \<Rightarrow> int \<Rightarrow> frame \<Rightarrow> frame" where
  "purge_train_frame cfg test_start_ts bar_secs train_df =
     (let horizon = get_or 0 (lc_horizon_candles (wc_labeling cfg)); embargo = get_or 0 (wc_embargo_candles cfg)
      in if horizon \<le> 0 \<or> fr_rows train_df = [] then train_df
         else let purge_cutoff = test_start_ts - horizon * bar_secs;
                  out = keep_rows (\<lambda>r. rw_ts r \<le> purge_cutoff) train_df
              in if embargo > 0 then keep_rows (\<lambda>r. rw_ts r \<le> purge_cutoff - embargo * bar_secs) out else out)"

definition split_fold_frames :: "walk_cfg \<Rightarrow> frame \<Rightarrow> walk_window \<Rightarrow> int option \<Rightarrow> frame \<times> frame" where
  "split_fold_frames cfg df w bar_secs =
     (let bar_secs = get_or (bar_seconds df) bar_secs;
          train_df = keep_rows (\<lambda>r. ww_train_start w \<le> rw_ts r \<and> rw_ts r < ww_train_end w) df;
          test_df = keep_rows (\<lambda>r. ww_test_start w \<le> rw_ts r \<and> rw_ts r < ww_test_end w) df
      in (purge_train_frame cfg (ww_test_start w) bar_secs train_df, test_df))"

text \<open>The folds: an empty test window is left out; the strategy may raise.\<close>

fun run_folds ::
  "(frame \<Rightarrow> frame \<Rightarrow> 'r result) \<Rightarrow> walk_cfg \<Rightarrow> frame \<Rightarrow> int \<Rightarrow> walk_window list \<Rightarrow> ('r \<times> walk_window \<times> nat) list result" where
  "run_folds strategy_fn cfg df bar_secs [] = Inr []"
| "run_folds strategy_fn cfg df bar_secs (w # ws) =
     (let (train_df, test_df) = split_fold_frames cfg df w (Some bar_secs)
      in if fr_rows test_df = [] then run_folds strategy_fn cfg df bar_secs ws
         else rbind (strategy_fn train_df test_df) (\<lambda>fold.
              rbind (run_folds strategy_fn cfg df bar_secs ws) (\<lambda>folds.
              Inr ((fold, w, length (fr_rows train_df)) # folds))))"

definition run_walk_forward ::
  "(frame \<Rightarrow> frame \<Rightarrow> 'r result) \<Rightarrow> walk_cfg \<Rightarrow> frame \<Rightarrow> ('r \<times> walk_window \<times> nat) list result option" where
  "run_walk_forward strategy_fn cfg df =
     map_option (run_folds strategy_fn cfg df (bar_seconds df))
       (generate_windows df (wc_train_window_days cfg) (wc_test_window_days cfg) (wc_step_days cfg))"

section \<open>The windows of a sample\<close>

lemma windows_from_stops:
  "ww_test_end (window_at tr te start) > max_ts \<Longrightarrow> windows_from max_ts tr te st start = Some []"
  by (subst windows_from.simps) (simp add: Let_def)

lemma windows_from_step:
  "\<not> ww_test_end (window_at tr te start) > max_ts \<Longrightarrow> windows_from max_ts tr te st start =
     Option.bind (windows_from max_ts tr te st (start + st * day_s)) (\<lambda>ws. Some (window_at tr te start # ws))"
  by (subst windows_from.simps) (simp add: Let_def)

lemma window_at_simps:
  "ww_train_start (window_at tr te s) = s" "ww_train_end (window_at tr te s) = s + tr * day_s"
  "ww_test_start (window_at tr te s) = s + tr * day_s" "ww_test_end (window_at tr te s) = s + tr * day_s + te * day_s"
  by (simp_all add: window_at_def Let_def)

text \<open>With a positive step the loop ends; with another one that lets a first window fit it does not.\<close>

lemma windows_from_total:
  assumes "0 < st"
  shows "\<exists>n. windows_from max_ts tr te st start = Some (map (\<lambda>k. window_at tr te (start + int k * (st * day_s))) [0..<n])
    \<and> (\<forall>k. k < n \<longleftrightarrow> start + int k * (st * day_s) + tr * day_s + te * day_s \<le> max_ts)"
proof (induction "nat (max_ts - (start + tr * day_s + te * day_s) + 1)" arbitrary: start rule: less_induct)
  case less
  have pos: "0 < st * day_s" using assms by (simp add: day_s_def)
  show ?case
  proof (cases "ww_test_end (window_at tr te start) > max_ts")
    case True
    have "\<not> start + int k * (st * day_s) + tr * day_s + te * day_s \<le> max_ts" for k
    proof -
      have "0 \<le> int k * (st * day_s)" by (rule mult_nonneg_nonneg) (simp, rule less_imp_le, rule pos)
      then show ?thesis using True by (simp add: window_at_simps)
    qed
    then show ?thesis using windows_from_stops [OF True] by (intro exI [of _ 0]) simp
  next
    case False
    let ?s = "start + st * day_s"
    obtain n where n: "windows_from max_ts tr te st ?s = Some (map (\<lambda>k. window_at tr te (?s + int k * (st * day_s))) [0..<n])"
      and fits: "\<forall>k. k < n \<longleftrightarrow> ?s + int k * (st * day_s) + tr * day_s + te * day_s \<le> max_ts"
      using less [of ?s] False pos by (auto simp: window_at_simps)
    have shift: "start + int (Suc k) * (st * day_s) = ?s + int k * (st * day_s)" for k by (simp add: algebra_simps)
    have "windows_from max_ts tr te st start = Some (map (\<lambda>k. window_at tr te (start + int k * (st * day_s))) [0..<Suc n])"
      unfolding windows_from_step [OF False] n
      by (simp add: upt_conv_Cons map_Suc_upt [symmetric] shift del: upt_Suc of_nat_Suc)
    moreover have "k < Suc n \<longleftrightarrow> start + int k * (st * day_s) + tr * day_s + te * day_s \<le> max_ts" for k
    proof (cases k)
      case 0
      then show ?thesis using False by (simp add: window_at_simps)
    next
      case (Suc k')
      then show ?thesis using fits by (simp only: Suc shift Suc_less_eq)
    qed
    ultimately show ?thesis by blast
  qed
qed

lemma windows_from_endless:
  assumes "st \<le> 0" and "\<not> ww_test_end (window_at tr te start) > max_ts"
  shows "windows_from max_ts tr te st start = None"
proof (rule ccontr)
  let ?P = "\<lambda>m a b c s (_ :: walk_window list). c \<le> 0 \<longrightarrow> ww_test_end (window_at a b s) > m"
  have step: "?P m a b c s ws"
    if IH: "\<And>m a b c s ws. rec m a b c s = Some ws \<Longrightarrow> ?P m a b c s ws"
      and run: "(let w = window_at a b s in if ww_test_end w > m then Some []
         else Option.bind (rec m a b c (s + c * day_s)) (\<lambda>ws. Some (w # ws))) = Some ws" for rec m a b c s ws
  proof (intro impI, rule ccontr)
    assume c: "c \<le> 0" and no: "\<not> ww_test_end (window_at a b s) > m"
    then obtain ws' where "rec m a b c (s + c * day_s) = Some ws'"
      using run by (auto simp: Let_def bind_eq_Some_conv)
    then have "ww_test_end (window_at a b (s + c * day_s)) > m" using IH c by blast
    then show False using no c by (simp add: window_at_simps day_s_def)
  qed
  assume "windows_from max_ts tr te st start \<noteq> None"
  then obtain ws where "windows_from max_ts tr te st start = Some ws" by blast
  then have "?P max_ts tr te st start ws" by (rule windows_from.raw_induct [where P = ?P, OF step, rotated 2])
  then show False using assms by blast
qed

text \<open>C33. The loop over the windows ends exactly when the step is positive or no window fits. Then the windows
  start one step apart at the first timestamp, every one that fits is there, a test window begins where its
  training window ends, and the test windows do not overlap when the step is at least their length.\<close>

theorem windows_end_and_follow_each_other:
  assumes "fr_rows df \<noteq> []"
  defines "t0 \<equiv> Min (set (timestamps df))" and "t1 \<equiv> Max (set (timestamps df))"
  shows "if 0 < st then \<exists>ws. generate_windows df tr te st = Some ws
      \<and> (\<forall>k<length ws. ww_train_start (ws ! k) = t0 + int k * (st * day_s)
           \<and> ww_train_end (ws ! k) = ww_train_start (ws ! k) + tr * day_s \<and> ww_test_start (ws ! k) = ww_train_end (ws ! k)
           \<and> ww_test_end (ws ! k) = ww_test_start (ws ! k) + te * day_s)
      \<and> (\<forall>k. k < length ws \<longleftrightarrow> t0 + int k * (st * day_s) + tr * day_s + te * day_s \<le> t1)
      \<and> (te \<le> st \<longrightarrow> (\<forall>j k. j < k \<and> k < length ws \<longrightarrow> ww_test_end (ws ! j) \<le> ww_test_start (ws ! k)))
    else generate_windows df tr te st = (if t1 < t0 + tr * day_s + te * day_s then Some [] else None)"
proof (cases "0 < st")
  case True
  have gen: "generate_windows df tr te st = windows_from t1 tr te st t0"
    using assms(1) by (simp add: generate_windows_def t0_def t1_def)
  obtain n where n: "windows_from t1 tr te st t0 = Some (map (\<lambda>k. window_at tr te (t0 + int k * (st * day_s))) [0..<n])"
    and fits: "\<forall>k. k < n \<longleftrightarrow> t0 + int k * (st * day_s) + tr * day_s + te * day_s \<le> t1"
    using windows_from_total [OF True] by blast
  have "t0 + int j * (st * day_s) + te * day_s \<le> t0 + int k * (st * day_s)" if "te \<le> st" "j < k" for j k
  proof -
    have "te * day_s \<le> st * day_s" using that(1) by (simp add: day_s_def)
    also have "\<dots> \<le> (int k - int j) * (st * day_s)" using that(2) True mult_right_mono [of 1 "int k - int j" "st * day_s"]
      by (simp add: day_s_def)
    finally show ?thesis by (simp add: left_diff_distrib)
  qed
  then have apart: "ww_test_end (window_at tr te (t0 + int j * (st * day_s))) \<le> ww_test_start (window_at tr te (t0 + int k * (st * day_s)))"
    if "te \<le> st" "j < k" for j k using that by (simp add: window_at_simps)
  define ws where "ws = map (\<lambda>k. window_at tr te (t0 + int k * (st * day_s))) [0..<n]"
  have ws: "length ws = n" "\<And>k. k < n \<Longrightarrow> ws ! k = window_at tr te (t0 + int k * (st * day_s))" by (simp_all add: ws_def)
  have "generate_windows df tr te st = Some ws" by (simp add: gen n ws_def)
  moreover have "te \<le> st \<longrightarrow> (\<forall>j k. j < k \<and> k < length ws \<longrightarrow> ww_test_end (ws ! j) \<le> ww_test_start (ws ! k))"
    unfolding ws(1) using apart by (auto simp: ws(2))
  ultimately show ?thesis using True fits ws by (simp only: if_True simp_thms) (intro exI [of _ ws] conjI; simp add: window_at_simps)
next
  case False
  then show ?thesis
    using assms(1) windows_from_stops [of t1 tr te t0 st] windows_from_endless [of st t1 tr te t0]
    by (auto simp: generate_windows_def window_at_simps t0_def t1_def)
qed

section \<open>Independence of the test window\<close>

lemma purged_row:
  assumes "r \<in> set (fr_rows (fst (split_fold_frames cfg df w (Some bar_secs))))"
    and "lc_horizon_candles (wc_labeling cfg) = Some h" "0 < h" and "get_or 0 (wc_embargo_candles cfg) = e" "0 \<le> e"
  shows "rw_ts r \<le> ww_test_start w - (h + e) * bar_secs"
  using assms
  by (auto simp: split_fold_frames_def purge_train_frame_def keep_rows_def Let_def algebra_simps split: if_splits)

lemma later_row:
  assumes "\<And>k. Suc k < length rows \<Longrightarrow> rw_ts (rows ! Suc k) \<le> rw_ts (rows ! k) + b"
  shows "i + n < length rows \<Longrightarrow> rw_ts (rows ! (i + n)) \<le> rw_ts (rows ! i) + int n * b"
proof (induction n)
  case (Suc n)
  then have "rw_ts (rows ! (i + n)) \<le> rw_ts (rows ! i) + int n * b" by simp
  moreover have "rw_ts (rows ! Suc (i + n)) \<le> rw_ts (rows ! (i + n)) + b" using Suc.prems assms by simp
  ultimately show ?case by (simp add: algebra_simps)
qed simp

text \<open>C32. On a frame in time order without a gap longer than a bar, and with an embargo of two bars, the label of
  every row that is left in a training part does not depend on the test window: another frame with the same
  timestamps that differs only from the start of the test on gives it the same label, for every event, method
  and horizon of the configuration.\<close>

theorem purged_labels_ignore_the_test_window:
  assumes horizon: "lc_horizon_candles (wc_labeling cfg) = Some h" "0 < h" and embargo: "wc_embargo_candles cfg = Some e" "2 \<le> e"
    and order: "sorted (timestamps df)" and bar: "0 < bar_secs"
    and no_gap: "\<And>k. Suc k < length (fr_rows df) \<Longrightarrow> rw_ts (fr_rows df ! Suc k) \<le> rw_ts (fr_rows df ! k) + bar_secs"
    and shape: "fr_columns df = fr_columns df'" "length (fr_rows df) = length (fr_rows df')"
    and same: "\<And>k. k < length (fr_rows df) \<Longrightarrow> rw_ts (fr_rows df ! k) < ww_test_start w \<Longrightarrow> fr_rows df ! k = fr_rows df' ! k"
    and labels: "generate_labels_from_config (wc_labeling cfg) asset df = Inr ls"
      "generate_labels_from_config (wc_labeling cfg) asset df' = Inr ls'"
    and i: "i < length (fr_rows df)" "fr_rows df ! i \<in> set (fr_rows (fst (split_fold_frames cfg df w (Some bar_secs))))"
  shows "ls ! i = ls' ! i"
proof (rule labels_local [OF labels i(1)])
  have hc: "horizon_candles (wc_labeling cfg) = h" using horizon(1) by (simp add: horizon_candles_def)
  have ts: "rw_ts (fr_rows df ! i) \<le> ww_test_start w - (h + e) * bar_secs"
    using purged_row [OF i(2) horizon, of e] embargo by simp
  have "rw_ts (fr_rows df ! k) < ww_test_start w" if k: "k < length (fr_rows df)" "int k \<le> int i + (h + 1)" for k
  proof (cases "k \<le> i")
    case True
    then have "rw_ts (fr_rows df ! k) \<le> rw_ts (fr_rows df ! i)"
      using order i(1) by (auto simp: timestamps_def sorted_iff_nth_mono)
    moreover have "0 < (h + e) * bar_secs" using horizon(2) embargo(2) bar by simp
    ultimately show ?thesis using ts by linarith
  next
    case False
    then have "rw_ts (fr_rows df ! k) \<le> rw_ts (fr_rows df ! i) + int (k - i) * bar_secs"
      using later_row [OF no_gap, of i "k - i"] k(1) by simp
    also have "\<dots> \<le> rw_ts (fr_rows df ! i) + (h + 1) * bar_secs" using k(2) False bar by (simp add: mult_right_mono)
    also have "\<dots> \<le> ww_test_start w - (e - 1) * bar_secs" using ts by (simp add: algebra_simps)
    also have "\<dots> < ww_test_start w" using embargo(2) bar by simp
    finally show ?thesis .
  qed
  then show "same_until (int i + (max 1 (horizon_candles (wc_labeling cfg)) + 1)) df df'"
    using shape same horizon(2) by (auto simp: same_until_def hc)
qed

text \<open>A bar of the horizon that no earlier bar touches first decides the label.\<close>

lemma label_decided_by_bar:
  assumes "int i + h < int (length rows)" and "i < j" "int j \<le> int i + h"
    and u: "u = fadd (rw_close (rows ! i)) x" and l: "l = fsub (rw_close (rows ! i)) y"
    and "\<And>k. i < k \<Longrightarrow> k < j \<Longrightarrow> \<not> touched u l (rows ! k)" and "touched u l (rows ! j)"
  shows "barrier_label x y rows i h = touch u l (rows ! j)"
proof -
  have "find (touched u l) (ahead rows i h) = Some (rows ! j)"
    unfolding find_ahead(2) [OF assms(1)] using assms by blast
  then show ?thesis using assms(1) by (simp add: barrier_label_def Let_def scan_barriers_find u l)
qed

definition gap_cfg :: "int \<Rightarrow> int \<Rightarrow> walk_cfg" where
  "gap_cfg h e = \<lparr>wc_labeling = \<lparr>lc_event = None, lc_method = Some ''fixed'', lc_adaptive_holding = False,
     lc_horizon_candles = Some h, lc_atr_column = None, lc_price_column = None,
     lc_numbers = [(''target_pips_x'', 1), (''stop_pips_y'', 1)], lc_signal_grid = \<lparr>gs_values = [], gs_regimes = None\<rparr>,
     lc_assets = [], lc_spread_points = None, lc_slippage_points = None, lc_include_zero_class = False\<rparr>,
     wc_train_window_days = 1, wc_test_window_days = 1, wc_step_days = 1, wc_embargo_candles = Some e\<rparr>"

definition flat_bar :: "int \<Rightarrow> rat \<Rightarrow> row" where
  "flat_bar ts p = \<lparr>rw_ts = ts, rw_open = p, rw_high = p, rw_low = p, rw_close = p, rw_regime = [], rw_cells = []\<rparr>"

text \<open>One bar, a gap, and a test window whose first bar has the price \<open>p\<close>.\<close>

definition gap_frame :: "int \<Rightarrow> int \<Rightarrow> int \<Rightarrow> rat \<Rightarrow> frame" where
  "gap_frame h e b p = \<lparr>fr_columns = [''timestamp_utc''],
     fr_rows = flat_bar 0 2 # map (\<lambda>k. flat_bar ((h + e) * b + int k * b) p) [0..<Suc (nat h)]\<rparr>"

lemma gap_labels:
  assumes "0 < h" and "p = 4 \<or> p = 0"
  shows "\<exists>ls. generate_labels_from_config (wc_labeling (gap_cfg h e)) None (gap_frame h e b p) = Inr ls
    \<and> ls ! 0 = (if p = 4 then Some 1 else Some (- 1))"
proof -
  let ?rows = "fr_rows (gap_frame h e b p)"
  have len: "length ?rows = Suc (Suc (nat h))" by (simp add: gap_frame_def)
  have one: "rw_close (fr_rows (gap_frame h e b q) ! 0) = 2" "rw_high (fr_rows (gap_frame h e b q) ! Suc 0) = q"
    "rw_low (fr_rows (gap_frame h e b q) ! Suc 0) = q" for q
    by (simp_all add: gap_frame_def flat_bar_def del: upt_Suc)
  have "barrier_label 1 1 ?rows 0 h = touch (fadd 2 1) (fsub 2 1) (?rows ! 1)"
    using assms by (intro label_decided_by_bar) (auto simp: len one touched_def fadd_def fsub_def)
  then have "barrier_label 1 1 ?rows 0 h = (if p = 4 then Some 1 else Some (- 1))"
    using assms by (auto simp: touch_def one fadd_def fsub_def)
  then have "generate_labels 1 1 h (gap_frame h e b p) ! 0 = (if p = 4 then Some 1 else Some (- 1))"
    by (simp add: generate_labels_def len del: upt_Suc)
  then show ?thesis
    by (simp add: generate_labels_from_config_def gap_cfg_def resolve_label_event_def lower_def strip_def is_space_def
        LABEL_EVENTS_def Let_def barrier_labels_def number_def)
qed

text \<open>No embargo covers a gap. The purge counts seconds, the label counts bars: for every horizon, embargo and
  bar length there are two frames in time order that agree on all rows before the test window, and a row that the
  purge leaves in the training part although its label is decided by the test window, and differs.\<close>

theorem no_embargo_covers_a_gap:
  assumes "0 < h" and "0 \<le> e" and "0 < b"
  shows "\<exists>cfg df df' w ls ls'. lc_horizon_candles (wc_labeling cfg) = Some h \<and> wc_embargo_candles cfg = Some e
    \<and> sorted (timestamps df) \<and> timestamps df = timestamps df' \<and> fr_columns df = fr_columns df'
    \<and> (\<forall>k<length (fr_rows df). rw_ts (fr_rows df ! k) < ww_test_start w \<longrightarrow> fr_rows df ! k = fr_rows df' ! k)
    \<and> generate_labels_from_config (wc_labeling cfg) None df = Inr ls
    \<and> generate_labels_from_config (wc_labeling cfg) None df' = Inr ls'
    \<and> fr_rows df ! 0 \<in> set (fr_rows (fst (split_fold_frames cfg df w (Some b)))) \<and> ls ! 0 \<noteq> ls' ! 0"
proof -
  let ?cfg = "gap_cfg h e" and ?df = "gap_frame h e b 4" and ?df' = "gap_frame h e b 0"
  define w where "w = \<lparr>ww_train_start = 0, ww_train_end = (h + e) * b, ww_test_start = (h + e) * b, ww_test_end = (h + e) * b + b\<rparr>"
  have pos: "0 < (h + e) * b" using assms by simp
  have ts: "timestamps (gap_frame h e b p) = 0 # map (\<lambda>k. (h + e) * b + int k * b) [0..<Suc (nat h)]" for p
    by (simp add: timestamps_def gap_frame_def flat_bar_def o_def del: upt_Suc)
  have order: "sorted (timestamps ?df)"
  proof -
    have "sorted (map (\<lambda>k. (h + e) * b + int k * b) [0..<n])" for n
      using assms(3) by (induction n) (auto simp: sorted_append intro: mult_right_mono)
    then show ?thesis unfolding ts using pos assms(3) by (auto simp del: upt_Suc)
  qed
  have early: "fr_rows ?df ! k = fr_rows ?df' ! k"
    if "k < length (fr_rows ?df)" "rw_ts (fr_rows ?df ! k) < ww_test_start w" for k
    using that assms(3) by (cases k) (auto simp: gap_frame_def flat_bar_def w_def mult_less_0_iff simp del: upt_Suc)
  have kept: "fr_rows ?df ! 0 \<in> set (fr_rows (fst (split_fold_frames ?cfg ?df w (Some b))))"
    using pos assms by (simp add: split_fold_frames_def purge_train_frame_def keep_rows_def gap_cfg_def gap_frame_def flat_bar_def
        w_def Let_def algebra_simps del: upt_Suc)
  obtain ls ls' where "generate_labels_from_config (wc_labeling ?cfg) None ?df = Inr ls" "ls ! 0 = Some 1"
    "generate_labels_from_config (wc_labeling ?cfg) None ?df' = Inr ls'" "ls' ! 0 = Some (- 1)"
    using gap_labels [OF assms(1), of 4 e b] gap_labels [OF assms(1), of 0 e b] by auto
  moreover have "lc_horizon_candles (wc_labeling ?cfg) = Some h" "wc_embargo_candles ?cfg = Some e"
    "timestamps ?df = timestamps ?df'" "fr_columns ?df = fr_columns ?df'"
    by (simp add: gap_cfg_def, simp add: gap_cfg_def, simp only: ts, simp add: gap_frame_def)
  ultimately show ?thesis using order early kept
    by (intro exI [of _ ?cfg] exI [of _ ?df] exI [of _ ?df'] exI [of _ w] exI [of _ ls] exI [of _ ls'] conjI) simp_all
qed

section \<open>Witnesses\<close>

text \<open>Six bars one second apart.\<close>

definition regular_frame :: "rat \<Rightarrow> frame" where
  "regular_frame p = \<lparr>fr_columns = [''timestamp_utc''],
     fr_rows = [flat_bar 0 2, flat_bar 1 4, flat_bar 2 2, flat_bar 3 2, flat_bar 4 2, flat_bar 5 p]\<rparr>"

theorem windows_end_and_follow_each_other_witness:
  "generate_windows (regular_frame 2) 0 0 0 = None"
  using windows_end_and_follow_each_other [of "regular_frame 2" 0 0 0]
  by (simp add: regular_frame_def timestamps_def flat_bar_def)

lemma regular_labels: "\<exists>ls. generate_labels_from_config (wc_labeling (gap_cfg 1 2)) None (regular_frame p) = Inr ls"
  by (simp add: generate_labels_from_config_def gap_cfg_def resolve_label_event_def lower_def strip_def is_space_def
      LABEL_EVENTS_def Let_def barrier_labels_def number_def)

theorem purged_labels_ignore_the_test_window_witness:
  "\<exists>ls ls'. generate_labels_from_config (wc_labeling (gap_cfg 1 2)) None (regular_frame 2) = Inr ls
    \<and> generate_labels_from_config (wc_labeling (gap_cfg 1 2)) None (regular_frame 8) = Inr ls' \<and> ls ! 2 = ls' ! 2"
proof -
  obtain ls ls' where labels: "generate_labels_from_config (wc_labeling (gap_cfg 1 2)) None (regular_frame 2) = Inr ls"
    "generate_labels_from_config (wc_labeling (gap_cfg 1 2)) None (regular_frame 8) = Inr ls'"
    using regular_labels by blast
  define w where "w = \<lparr>ww_train_start = 0, ww_train_end = 5, ww_test_start = 5, ww_test_end = 6\<rparr>"
  have rows: "length (fr_rows (regular_frame q)) = 6" "sorted (timestamps (regular_frame q))"
    "fr_columns (regular_frame q) = [''timestamp_utc'']" for q
    by (simp_all add: regular_frame_def timestamps_def flat_bar_def)
  have ts: "k < 6 \<Longrightarrow> rw_ts (fr_rows (regular_frame q) ! k) = int k" for k q
    by (simp add: regular_frame_def flat_bar_def less_Suc_eq eval_nat_numeral, elim disjE; simp)
  have same: "k < 6 \<Longrightarrow> k \<noteq> 5 \<Longrightarrow> fr_rows (regular_frame q) ! k = fr_rows (regular_frame q') ! k" for k q q'
    by (simp add: regular_frame_def less_Suc_eq eval_nat_numeral, elim disjE; simp)
  have kept: "fr_rows (regular_frame 2) ! 2 \<in> set (fr_rows (fst (split_fold_frames (gap_cfg 1 2) (regular_frame 2) w (Some 1))))"
    by (simp add: split_fold_frames_def purge_train_frame_def keep_rows_def gap_cfg_def regular_frame_def flat_bar_def w_def)
  have "ls ! 2 = ls' ! 2"
    by (rule purged_labels_ignore_the_test_window [of "gap_cfg 1 2" 1 2 "regular_frame 2" 1 "regular_frame 8" w None])
      (use labels kept ts same in \<open>auto simp: rows gap_cfg_def w_def\<close>)
  with labels show ?thesis by blast
qed

theorem no_embargo_covers_a_gap_witness:
  "\<exists>cfg df df' w ls ls'. lc_horizon_candles (wc_labeling cfg) = Some 36 \<and> wc_embargo_candles cfg = Some 100
    \<and> generate_labels_from_config (wc_labeling cfg) None df = Inr ls \<and> generate_labels_from_config (wc_labeling cfg) None df' = Inr ls'
    \<and> fr_rows df ! 0 \<in> set (fr_rows (fst (split_fold_frames cfg df w (Some 900)))) \<and> ls ! 0 \<noteq> ls' ! 0"
proof -
  have "(0 :: int) < 36" "(0 :: int) \<le> 100" "(0 :: int) < 900" by simp_all
  from no_embargo_covers_a_gap [OF this] show ?thesis by blast
qed

theorem label_is_first_touch_witness:
  "generate_labels 1 1 1 (regular_frame 2) ! 0 = Some 1"
proof -
  have u: "fadd (rw_close (fr_rows (regular_frame 2) ! 0)) 1 = 3" "fsub (rw_close (fr_rows (regular_frame 2) ! 0)) 1 = 1"
    by (simp_all add: regular_frame_def flat_bar_def fadd_def fsub_def)
  have "\<exists>j>0. int j \<le> int 0 + 1 \<and> touched 3 1 (fr_rows (regular_frame 2) ! j)
    \<and> (\<forall>k. 0 < k \<and> k < j \<longrightarrow> \<not> touched 3 1 (fr_rows (regular_frame 2) ! k)) \<and> \<not> rw_low (fr_rows (regular_frame 2) ! j) \<le> 1"
    by (intro exI [of _ 1]) (simp add: regular_frame_def flat_bar_def touched_def)
  then show ?thesis
    using label_is_first_touch [of 0 1 "regular_frame 2" 3 1 1 1] u by (auto simp: regular_frame_def)
qed

end
