(* ===== verification/Fact_Delivery.thy ===== *)
theory Fact_Delivery
  imports Exec_Contracts Group_Store
begin

text \<open>
  The way of an execution fact from the trader to the server ledger: the intents and the outbox of the sender
  (\<^verbatim>\<open>data/intent_ledger.py\<close>, \<^verbatim>\<open>data/ledger_bridge.py\<close>), the signed request, the endpoint
  \<^verbatim>\<open>/api/ledger/ingest\<close> and the stream of \<^verbatim>\<open>realtime/app.py\<close>, and the ledger of the server
  (\<^verbatim>\<open>data/ledger_events.py\<close>). A JSON text is its value; the HMAC, the size of a text and the text of an answer are parameters. What the
  network does with a request is an input of each delivery.
\<close>

section \<open>Facts as JSON\<close>

text \<open>The optional fields of a fact, which \<^verbatim>\<open>fa_details\<close> lists when they are given.\<close>

definition DETAIL_FIELDS :: "string list" where
  "DETAIL_FIELDS = [''intent_id'', ''asset_key'', ''magic_number'', ''order_ticket'', ''deal_ticket'', ''position_ticket'',
     ''deal_time_msc'', ''retcode'', ''requested_price'', ''fill_price'', ''filled_volume'', ''volume_requested'',
     ''spread_points'', ''commission'', ''swap'', ''latency_ms'', ''reason'', ''payload'']"

definition fact_json :: "execution_fact \<Rightarrow> json" where
  "fact_json f = JObj
     ([(''event_id'', JStr (fa_event_id f)), (''event_type'', JStr (fa_event_type f)), (''source'', JStr (fa_source f)),
       (''account_mode'', JStr (fa_account_mode f)), (''precision'', JStr (fa_precision f)),
       (''broker_symbol'', JStr (fa_broker_symbol f)), (''received_at_utc_ms'', JInt (fa_received_at_utc_ms f))]
      @ fa_details f)"

definition json_str :: "jdict \<Rightarrow> string \<Rightarrow> string option \<Rightarrow> string result" where
  "json_str d k dflt =
     (case map_of d k of
        Some (JStr s) \<Rightarrow> Inr s
      | Some _ \<Rightarrow> Inl (ValueError k)
      | None \<Rightarrow> (case dflt of None \<Rightarrow> Inl (ValueError k) | Some s \<Rightarrow> Inr s))"

text \<open>\<^verbatim>\<open>execution_event_from_dict\<close>: the fields with their defaults, then the validators. Unknown members are ignored.\<close>

definition execution_event_from_json :: "json \<Rightarrow> execution_fact result" where
  "execution_event_from_json v =
     (case v of
        JObj d \<Rightarrow>
          rbind (json_str d ''event_id'' None) (\<lambda>event_id.
          rbind (json_str d ''event_type'' None) (\<lambda>event_type.
          rbind (json_str d ''source'' (Some ''mt5_observer'')) (\<lambda>source.
          rbind (json_str d ''account_mode'' (Some ''demo'')) (\<lambda>account_mode.
          rbind (json_str d ''precision'' (Some ''passive'')) (\<lambda>precision.
          rbind (json_str d ''broker_symbol'' None) (\<lambda>broker_symbol.
          rbind (case map_of d ''received_at_utc_ms'' of Some (JInt n) \<Rightarrow> Inr n | _ \<Rightarrow> Inl (ValueError ''received_at_utc_ms'')) (\<lambda>received.
          ExecutionEvent \<lparr>fa_event_id = event_id, fa_event_type = event_type, fa_source = source, fa_account_mode = account_mode,
            fa_precision = precision, fa_broker_symbol = broker_symbol, fa_received_at_utc_ms = received,
            fa_details = filter (\<lambda>(k, _). k \<in> set DETAIL_FIELDS) d\<rparr>)))))))
      | _ \<Rightarrow> Inl (ValueError ''ExecutionEvent''))"

record envelope =
  en_producer :: string
  en_account_fingerprint :: string
  en_batch_id :: string
  en_sent_at_utc_ms :: int
  en_events :: "execution_fact list"

definition EventEnvelope :: "envelope \<Rightarrow> envelope result" where
  "EventEnvelope e =
     (if en_producer e \<notin> set VALID_SOURCES then Inl (ValueError ''producer'')
      else if en_events e = [] then Inl (ValueError ''events'') else Inr e)"

definition envelope_json :: "envelope \<Rightarrow> json" where
  "envelope_json e = JObj
     [(''schema_version'', JInt 1), (''producer'', JStr (en_producer e)), (''account_fingerprint'', JStr (en_account_fingerprint e)),
      (''batch_id'', JStr (en_batch_id e)), (''sent_at_utc_ms'', JInt (en_sent_at_utc_ms e)),
      (''events'', JList (map fact_json (en_events e)))]"

fun validate_all :: "json list \<Rightarrow> execution_fact list result" where
  "validate_all [] = Inr []"
| "validate_all (v # vs) = rbind (execution_event_from_json v) (\<lambda>f. rbind (validate_all vs) (\<lambda>fs. Inr (f # fs)))"

text \<open>\<^verbatim>\<open>event_envelope_from_dict\<close>; \<open>fresh\<close> is the batch id drawn when none is given.\<close>

definition envelope_from_dict :: "string \<Rightarrow> jdict \<Rightarrow> envelope result" where
  "envelope_from_dict fresh d =
     rbind (json_str d ''producer'' (Some ''mt5_observer'')) (\<lambda>producer.
     rbind (json_str d ''account_fingerprint'' None) (\<lambda>fingerprint.
     rbind (json_str d ''batch_id'' (Some fresh)) (\<lambda>batch_id.
     rbind (case map_of d ''sent_at_utc_ms'' of Some (JInt n) \<Rightarrow> Inr n | _ \<Rightarrow> Inl (ValueError ''sent_at_utc_ms'')) (\<lambda>sent.
     rbind (case map_of d ''events'' of Some (JList vs) \<Rightarrow> validate_all vs | _ \<Rightarrow> Inl (ValueError ''events'')) (\<lambda>events.
     EventEnvelope \<lparr>en_producer = producer, en_account_fingerprint = fingerprint, en_batch_id = batch_id,
       en_sent_at_utc_ms = sent, en_events = events\<rparr>)))))"

section \<open>The intents of the sender\<close>

record intent_row =
  ir_intent :: signal_intent
  ir_intent_hash :: string

definition append_signal_intent :: "(json \<Rightarrow> string) \<Rightarrow> signal_intent \<Rightarrow> intent_row list \<Rightarrow> string \<times> intent_row list" where
  "append_signal_intent sha i rows =
     (si_intent_id i,
      if \<exists>r\<in>set rows. si_intent_id (ir_intent r) = si_intent_id i then rows
      else rows @ [\<lparr>ir_intent = i, ir_intent_hash = intent_hash sha i\<rparr>])"

definition read_signal_intent :: "string \<Rightarrow> intent_row list \<Rightarrow> intent_row option" where
  "read_signal_intent intent_id rows = find (\<lambda>r. si_intent_id (ir_intent r) = intent_id) rows"

section \<open>The outbox\<close>

record outbox_row =
  ob_id :: int
  ob_event_id :: string
  ob_source :: string
  ob_event_type :: string
  ob_event_json :: json
  ob_created_at_ms :: int
  ob_attempts :: int
  ob_last_error :: "string option"
  ob_delivered_at_ms :: "int option"

definition enqueue_event :: "int \<Rightarrow> execution_fact \<Rightarrow> outbox_row list \<Rightarrow> outbox_row list" where
  "enqueue_event now f rows =
     (if fa_event_id f \<in> ob_event_id ` set rows then rows
      else rows @ [\<lparr>ob_id = int (length rows) + 1, ob_event_id = fa_event_id f, ob_source = fa_source f,
             ob_event_type = fa_event_type f, ob_event_json = fact_json f, ob_created_at_ms = now, ob_attempts = 0,
             ob_last_error = None, ob_delivered_at_ms = None\<rparr>])"

definition is_pending :: "outbox_row \<Rightarrow> bool" where
  "is_pending r \<longleftrightarrow> ob_delivered_at_ms r = None"

text \<open>In the order of the ids, which is the order of insertion; a negative limit is none.\<close>

definition pending_events :: "int \<Rightarrow> outbox_row list \<Rightarrow> outbox_row list" where
  "pending_events limit rows =
     (let pending = filter is_pending rows in if limit < 0 then pending else take (nat limit) pending)"

definition outbox_stats :: "outbox_row list \<Rightarrow> nat \<times> nat \<times> nat" where
  "outbox_stats rows = (length rows, length (filter is_pending rows), length (filter (\<lambda>r. \<not> is_pending r) rows))"

definition mark_delivered :: "int \<Rightarrow> string list \<Rightarrow> outbox_row list \<Rightarrow> outbox_row list" where
  "mark_delivered now ids rows =
     foldl (\<lambda>rs eid. map (\<lambda>r. if ob_event_id r = eid \<and> is_pending r
        then r\<lparr>ob_delivered_at_ms := Some now, ob_attempts := ob_attempts r + 1, ob_last_error := None\<rparr> else r) rs) rows ids"

definition mark_failed :: "string list \<Rightarrow> string \<Rightarrow> outbox_row list \<Rightarrow> outbox_row list" where
  "mark_failed ids err rows =
     foldl (\<lambda>rs eid. map (\<lambda>r. if ob_event_id r = eid \<and> is_pending r
        then r\<lparr>ob_attempts := ob_attempts r + 1, ob_last_error := Some (take 500 err)\<rparr> else r) rs) rows ids"

section \<open>The server\<close>

record ledger_row =
  lw_fact :: execution_fact
  lw_signature_valid :: bool
  lw_received_at_utc_ms :: int

definition lw_event_id :: "ledger_row \<Rightarrow> string" where
  "lw_event_id r = fa_event_id (lw_fact r)"

definition upsert_ledger_event ::
  "execution_fact \<Rightarrow> bool \<Rightarrow> int option \<Rightarrow> ledger_row list \<Rightarrow> (string \<times> bool) \<times> ledger_row list" where
  "upsert_ledger_event f sig_valid received rows =
     (if fa_event_id f \<in> lw_event_id ` set rows then ((fa_event_id f, False), rows)
      else ((fa_event_id f, True), rows @ [\<lparr>lw_fact = f, lw_signature_valid = sig_valid,
             lw_received_at_utc_ms = get_or (fa_received_at_utc_ms f) received\<rparr>]))"

text \<open>The response: a status, and for an accepted request how many facts were new and how many known.\<close>

datatype http_response = Refused int | Accepted nat nat

definition http_status :: "http_response \<Rightarrow> int" where
  "http_status r = (case r of Refused n \<Rightarrow> n | Accepted _ _ \<Rightarrow> 200)"

record rate_bucket =
  rb_tokens :: rat
  rb_last :: rat

record ingest_server =
  sv_rows :: "ledger_row list"
  sv_buckets :: "(string \<times> rate_bucket) list"
  sv_rejected_versions :: int

record ingest_cfg =
  ic_secret :: "string option"
  ic_token :: "string option"
  ic_rate :: rat
  ic_burst :: rat
  ic_hmac :: "string \<Rightarrow> json \<Rightarrow> string"
  ic_size :: "json \<Rightarrow> int"
  ic_text :: "http_response \<Rightarrow> string"

record http_request =
  hr_client_ip :: string
  hr_authorization :: "string option"
  hr_content_length :: "string option"
  hr_signature :: "string option"
  hr_body :: json
  hr_monotonic :: rat
  hr_now_ms :: int
  hr_fresh_batch :: string

text \<open>\<^verbatim>\<open>IngestRateLimiter.allow\<close>: a bucket of tokens for each client.\<close>

definition rate_allow :: "ingest_cfg \<Rightarrow> string \<Rightarrow> rat \<Rightarrow> ingest_server \<Rightarrow> bool \<times> ingest_server" where
  "rate_allow cfg client_ip now s =
     (let tokens = (case map_of (sv_buckets s) client_ip of
          None \<Rightarrow> ic_burst cfg
        | Some b \<Rightarrow> min (ic_burst cfg) (fadd (rb_tokens b) (fmul (max 0 (fsub now (rb_last b))) (ic_rate cfg))));
          ok = (tokens \<ge> 1)
      in (ok, s\<lparr>sv_buckets := dict_put client_ip \<lparr>rb_tokens = (if ok then fsub tokens 1 else tokens), rb_last = now\<rparr> (sv_buckets s)\<rparr>))"

definition check_bearer :: "string option \<Rightarrow> string option \<Rightarrow> bool" where
  "check_bearer authorization expected \<longleftrightarrow>
     (case expected of None \<Rightarrow> False | Some t \<Rightarrow> t \<noteq> [] \<and> authorization = Some (''Bearer '' @ t))"

definition verify_signature :: "(string \<Rightarrow> json \<Rightarrow> string) \<Rightarrow> json \<Rightarrow> string option \<Rightarrow> string \<Rightarrow> bool" where
  "verify_signature hmac body signature secret \<longleftrightarrow>
     (case signature of None \<Rightarrow> False | Some g \<Rightarrow> g \<noteq> [] \<and> secret \<noteq> [] \<and> g = hmac secret body)"

definition INGEST_MAX_BODY_BYTES :: int where "INGEST_MAX_BODY_BYTES = 1000000"

fun ingest_events :: "int \<Rightarrow> execution_fact list \<Rightarrow> ledger_row list \<Rightarrow> nat \<times> nat \<times> ledger_row list" where
  "ingest_events now [] rows = (0, 0, rows)"
| "ingest_events now (f # fs) rows =
     (let ((_, inserted), rows') = upsert_ledger_event f True (Some now) rows;
          (accepted, duplicates, rows'') = ingest_events now fs rows'
      in if inserted then (accepted + 1, duplicates, rows'') else (accepted, duplicates + 1, rows''))"

definition ingest_body :: "http_request \<Rightarrow> ingest_server \<Rightarrow> http_response \<times> ingest_server" where
  "ingest_body q s =
     (case hr_body q of
        JObj raw \<Rightarrow>
          (case check_protocol_version raw of (version_ok, _, _) \<Rightarrow>
            if \<not> version_ok then (Refused 422, s\<lparr>sv_rejected_versions := sv_rejected_versions s + 1\<rparr>)
            else (case envelope_from_dict (hr_fresh_batch q) raw of
              Inl _ \<Rightarrow> (Refused 422, s)
            | Inr e \<Rightarrow>
                (case ingest_events (hr_now_ms q) (en_events e) (sv_rows s) of (accepted, duplicates, rows) \<Rightarrow>
                   (Accepted accepted duplicates, s\<lparr>sv_rows := rows\<rparr>))))
      | _ \<Rightarrow> (Refused 500, s))"

definition ledger_ingest :: "ingest_cfg \<Rightarrow> http_request \<Rightarrow> ingest_server \<Rightarrow> http_response \<times> ingest_server" where
  "ledger_ingest cfg q s0 =
     (case rate_allow cfg (hr_client_ip q) (hr_monotonic q) s0 of (allowed, s) \<Rightarrow>
      if \<not> allowed then (Refused 429, s)
      else case ic_secret cfg of None \<Rightarrow> (Refused 503, s) | Some secret \<Rightarrow>
      if secret = [] then (Refused 503, s)
      else if get_or [] (ic_token cfg) = [] then (Refused 403, s)
      else if \<not> check_bearer (hr_authorization q) (ic_token cfg) then (Refused 401, s)
      else if get_or 0 (parse_int (or_str (hr_content_length q) ''0'')) > INGEST_MAX_BODY_BYTES then (Refused 413, s)
      else if ic_size cfg (hr_body q) > INGEST_MAX_BODY_BYTES then (Refused 413, s)
      else if \<not> verify_signature (ic_hmac cfg) (hr_body q) (hr_signature q) secret then (Refused 401, s)
      else ingest_body q s)"

section \<open>Delivery\<close>

text \<open>What happens to a request: it is lost on the way, or its answer is, or it is answered.\<close>

datatype network = RequestLost | AnswerLost | Answered

record bridge_cfg =
  bc_token :: string
  bc_secret :: "string option"
  bc_account_mode :: string
  bc_account_login :: string
  bc_client_ip :: string
  bc_batch_size :: int

text \<open>The clocks and the batch id of one delivery.\<close>

record delivery =
  dv_network :: network
  dv_now_ms :: int
  dv_server_now_ms :: int
  dv_monotonic :: rat
  dv_batch_id :: string

definition build_envelope :: "bridge_cfg \<Rightarrow> delivery \<Rightarrow> execution_fact list \<Rightarrow> string \<Rightarrow> envelope result" where
  "build_envelope b d events producer =
     EventEnvelope \<lparr>en_producer = producer, en_account_fingerprint = contract_fingerprint (bc_account_mode b) (bc_account_login b),
       en_batch_id = dv_batch_id d, en_sent_at_utc_ms = dv_now_ms d, en_events = events\<rparr>"

definition signed_request :: "ingest_cfg \<Rightarrow> bridge_cfg \<Rightarrow> delivery \<Rightarrow> string \<Rightarrow> envelope \<Rightarrow> http_request" where
  "signed_request cfg b d secret e =
     (let body = envelope_json e in
      \<lparr>hr_client_ip = bc_client_ip b, hr_authorization = Some (''Bearer '' @ bc_token b),
       hr_content_length = Some (show_int (ic_size cfg body)), hr_signature = Some (ic_hmac cfg secret body),
       hr_body = body, hr_monotonic = dv_monotonic d, hr_now_ms = dv_server_now_ms d, hr_fresh_batch = []\<rparr>)"

text \<open>\<^verbatim>\<open>requests.post\<close> over the network: the answer, or a transport error.\<close>

definition post :: "ingest_cfg \<Rightarrow> delivery \<Rightarrow> http_request \<Rightarrow> ingest_server \<Rightarrow> http_response option \<times> ingest_server" where
  "post cfg d q s =
     (case dv_network d of
        RequestLost \<Rightarrow> (None, s)
      | AnswerLost \<Rightarrow> (None, snd (ledger_ingest cfg q s))
      | Answered \<Rightarrow> (case ledger_ingest cfg q s of (r, s') \<Rightarrow> (Some r, s')))"

type_synonym system = "outbox_row list \<times> ingest_server"

definition deliver_batch ::
  "ingest_cfg \<Rightarrow> bridge_cfg \<Rightarrow> delivery \<Rightarrow> execution_fact list \<Rightarrow> string \<Rightarrow> ingest_server \<Rightarrow> (bool \<times> string \<times> int) result \<times> ingest_server" where
  "deliver_batch cfg b d events producer s =
     (case bc_secret b of
        None \<Rightarrow> (Inl (ValueError ''ledger delivery requires LEDGER_INGEST_SECRET''), s)
      | Some secret \<Rightarrow>
          if secret = [] then (Inl (ValueError ''ledger delivery requires LEDGER_INGEST_SECRET''), s)
          else (case build_envelope b d events producer of
            Inl err \<Rightarrow> (Inl err, s)
          | Inr e \<Rightarrow>
              (case post cfg d (signed_request cfg b d secret e) s of
                 (None, s') \<Rightarrow> (Inr (False, ''transport error'', 0), s')
               | (Some r, s') \<Rightarrow> (Inr (200 \<le> http_status r \<and> http_status r < 300, take 1000 (ic_text cfg r), http_status r), s'))))"

text \<open>The rows that do not parse are marked as failed, the others form the batch.\<close>

fun parse_rows :: "outbox_row list \<Rightarrow> outbox_row list \<Rightarrow> execution_fact list \<times> outbox_row list" where
  "parse_rows [] rows = ([], rows)"
| "parse_rows (r # rs) rows =
     (case execution_event_from_json (ob_event_json r) of
        Inr f \<Rightarrow> (case parse_rows rs rows of (fs, rows') \<Rightarrow> (f # fs, rows'))
      | Inl _ \<Rightarrow> parse_rows rs (mark_failed [ob_event_id r] ''malformed event'' rows))"

text \<open>The result: attempted, delivered, whether the batch went through.\<close>

definition deliver_outbox :: "ingest_cfg \<Rightarrow> bridge_cfg \<Rightarrow> delivery \<Rightarrow> system \<Rightarrow> (nat \<times> nat \<times> bool) result \<times> system" where
  "deliver_outbox cfg b d sys =
     (case sys of (rows, s) \<Rightarrow>
      let pending = pending_events (bc_batch_size b) rows in
      if pending = [] then (Inr (0, 0, True), rows, s)
      else case parse_rows pending rows of (events, rows1) \<Rightarrow>
      if events = [] then (Inr (0, 0, True), rows1, s)
      else case deliver_batch cfg b d events (fa_source (hd events)) s of
        (Inl err, s') \<Rightarrow> (Inl err, rows1, s')
      | (Inr (ok, text, status), s') \<Rightarrow>
          if ok then (Inr (length events, length events, True), mark_delivered (dv_now_ms d) (map fa_event_id events) rows1, s')
          else (Inr (length events, 0, False),
                mark_failed (map fa_event_id events) (if text = [] then ''http '' @ show_int status else text) rows1, s'))"

text \<open>\<^verbatim>\<open>run_delivery_loop\<close>: one delivery after the other until nothing is pending; the deliveries that
  \<^verbatim>\<open>max_attempts\<close> admits, or that happen before the process is stopped.\<close>

fun run_delivery_loop :: "ingest_cfg \<Rightarrow> bridge_cfg \<Rightarrow> delivery list \<Rightarrow> system \<Rightarrow> unit result \<times> system" where
  "run_delivery_loop cfg b [] sys = (Inr (), sys)"
| "run_delivery_loop cfg b (d # ds) sys =
     (case deliver_outbox cfg b d sys of
        (Inl err, sys') \<Rightarrow> (Inl err, sys')
      | (Inr _, sys') \<Rightarrow> if fst (snd (outbox_stats (fst sys'))) = 0 then (Inr (), sys') else run_delivery_loop cfg b ds sys')"

section \<open>Reading\<close>

definition row_before :: "ledger_row \<Rightarrow> ledger_row \<Rightarrow> bool" where
  "row_before a b \<longleftrightarrow> lw_received_at_utc_ms a < lw_received_at_utc_ms b
     \<or> (lw_received_at_utc_ms a = lw_received_at_utc_ms b \<and> text_le (lw_event_id a) (lw_event_id b))"

record event_query =
  eq_source :: "string option"
  eq_event_type :: "string option"
  eq_asset_key :: "string option"
  eq_intent_id :: "string option"
  eq_since_ms :: "int option"
  eq_limit :: int

definition no_query :: event_query where
  "no_query = \<lparr>eq_source = None, eq_event_type = None, eq_asset_key = None, eq_intent_id = None, eq_since_ms = None, eq_limit = 500\<rparr>"

text \<open>A filter that is missing or empty does not restrict.\<close>

definition admits :: "string option \<Rightarrow> string option \<Rightarrow> bool" where
  "admits wanted actual \<longleftrightarrow> (case wanted of None \<Rightarrow> True | Some x \<Rightarrow> x = [] \<or> actual = Some x)"

definition detail_str :: "execution_fact \<Rightarrow> string \<Rightarrow> string option" where
  "detail_str f k = (case map_of (fa_details f) k of Some (JStr s) \<Rightarrow> Some s | _ \<Rightarrow> None)"

definition query_match :: "event_query \<Rightarrow> ledger_row \<Rightarrow> bool" where
  "query_match q r \<longleftrightarrow>
     (let f = lw_fact r in
      admits (eq_source q) (Some (fa_source f)) \<and> admits (eq_event_type q) (Some (fa_event_type f))
      \<and> admits (eq_asset_key q) (detail_str f ''asset_key'') \<and> admits (eq_intent_id q) (detail_str f ''intent_id'')
      \<and> (case eq_since_ms q of None \<Rightarrow> True | Some t \<Rightarrow> t \<le> lw_received_at_utc_ms r))"

definition read_ledger_events :: "event_query \<Rightarrow> ledger_row list \<Rightarrow> ledger_row list" where
  "read_ledger_events q rows =
     (let found = foldr (insert_by row_before) (filter (query_match q) rows) []
      in if eq_limit q < 0 then found else take (nat (eq_limit q)) found)"

definition latest_ledger_activity_ms :: "ledger_row list \<Rightarrow> int option" where
  "latest_ledger_activity_ms rows = (if rows = [] then None else Some (Max (lw_received_at_utc_ms ` set rows)))"

definition lifecycle_trace :: "string \<Rightarrow> ledger_row list \<Rightarrow> intent_row list \<Rightarrow> (intent_row option \<times> ledger_row list) option" where
  "lifecycle_trace intent_id rows intents =
     (let facts = read_ledger_events (no_query\<lparr>eq_intent_id := Some intent_id, eq_limit := 1000\<rparr>) rows
      in if facts = [] then None else Some (read_signal_intent intent_id intents, facts))"

text \<open>One round of the stream: the next events after the cursor, and the new cursor.\<close>

definition stream_round :: "int \<Rightarrow> ledger_row list \<Rightarrow> ledger_row list \<times> int" where
  "stream_round last_sent_ms rows =
     (let events = read_ledger_events (no_query\<lparr>eq_since_ms := Some last_sent_ms, eq_limit := 200\<rparr>) rows
      in (events, if events = [] then last_sent_ms else Max (lw_received_at_utc_ms ` set events) + 1))"

end
