(* ===== verification/Fact_Guarantees.thy ===== *)
theory Fact_Guarantees
  imports Fact_Delivery
begin

text \<open>
  What the way of a fact guarantees: a fact survives its JSON text, nothing enters the ledger of the server
  without the shared secret, whatever the network does every delivered fact is stored once and as it was sent,
  and deliveries that get through empty the outbox. The locales of runs in \<open>Py_Prelude\<close> are interpreted on the
  sender, the network and the server together.
\<close>

section \<open>The wire\<close>

text \<open>A fact that its class admits, with no members but its fields.\<close>

definition sendable :: "execution_fact \<Rightarrow> bool" where
  "sendable f \<longleftrightarrow> ExecutionEvent f = Inr f \<and> fst ` set (fa_details f) \<subseteq> set DETAIL_FIELDS"

lemma ExecutionEvent_Inr: "ExecutionEvent f = Inr g \<Longrightarrow> g = f"
  by (auto simp: ExecutionEvent_def split: if_splits)

lemma fact_from_json [simp]:
  assumes "sendable f"
  shows "execution_event_from_json (fact_json f) = Inr f"
proof -
  have "filter (\<lambda>(k, _). k \<in> set DETAIL_FIELDS) (fa_details f) = fa_details f"
    using assms by (auto simp: sendable_def filter_id_conv)
  then show ?thesis
    using assms by (cases f) (simp add: execution_event_from_json_def fact_json_def json_str_def sendable_def DETAIL_FIELDS_def)
qed

lemma fact_json_inject: "sendable f \<Longrightarrow> sendable g \<Longrightarrow> fact_json f = fact_json g \<Longrightarrow> f = g"
  using fact_from_json by fastforce

lemma parsed_sendable: "execution_event_from_json v = Inr f \<Longrightarrow> sendable f"
  by (auto simp: execution_event_from_json_def rbind_Inr sendable_def dest: ExecutionEvent_Inr split: json.splits)

lemma validate_all_facts [simp]: "list_all sendable fs \<Longrightarrow> validate_all (map fact_json fs) = Inr fs"
  by (induction fs) auto

lemma validate_all_sendable: "validate_all vs = Inr fs \<Longrightarrow> list_all sendable fs"
  by (induction vs arbitrary: fs) (auto simp: rbind_Inr intro: parsed_sendable)

lemma EventEnvelope_Inr: "EventEnvelope e = Inr e' \<Longrightarrow> e' = e"
  by (auto simp: EventEnvelope_def split: if_splits)

lemma envelope_from_json:
  assumes "EventEnvelope e = Inr e" and "list_all sendable (en_events e)" and "envelope_json e = JObj d"
  shows "check_protocol_version d = (True, [], 1) \<and> envelope_from_dict x d = Inr e"
  using assms
  by (cases e) (auto simp: envelope_json_def check_protocol_version_def envelope_from_dict_def json_str_def DEFAULT_PROTOCOL_VERSION_def)


section \<open>Ingestion\<close>

lemma ingest_events_rows:
  "ingest_events now fs rows = (a, d, rows') \<Longrightarrow>
    lw_event_id ` set rows' = lw_event_id ` set rows \<union> fa_event_id ` set fs
    \<and> (distinct (map lw_event_id rows) \<longrightarrow> distinct (map lw_event_id rows'))
    \<and> (\<exists>new. rows' = rows @ new \<and> lw_fact ` set new \<subseteq> set fs)"
proof (induction fs arbitrary: rows a d rows')
  case (Cons f fs)
  have "\<exists>b rows1. upsert_ledger_event f True (Some now) rows = ((fa_event_id f, b), rows1)"
    by (auto simp: upsert_ledger_event_def intro: exI [of _ True] exI [of _ False])
  then obtain b rows1 where up: "upsert_ledger_event f True (Some now) rows = ((fa_event_id f, b), rows1)" by blast
  then have one: "lw_event_id ` set rows1 = insert (fa_event_id f) (lw_event_id ` set rows)"
    "distinct (map lw_event_id rows) \<Longrightarrow> distinct (map lw_event_id rows1)" "\<exists>new. rows1 = rows @ new \<and> (\<forall>w\<in>set new. lw_fact w = f)"
    by (auto simp: upsert_ledger_event_def lw_event_id_def split: if_splits)
  obtain a' d' where rest: "ingest_events now fs rows1 = (a', d', rows')"
    using Cons.prems up by (auto simp: Let_def split: prod.splits if_splits)
  from one(3) obtain new1 where new1: "rows1 = rows @ new1" "\<forall>w\<in>set new1. lw_fact w = f" by blast
  from Cons.IH [OF rest] obtain new2 where new2: "rows' = rows1 @ new2" "lw_fact ` set new2 \<subseteq> set fs"
    and ids: "lw_event_id ` set rows' = lw_event_id ` set rows1 \<union> fa_event_id ` set fs"
    and once: "distinct (map lw_event_id rows1) \<longrightarrow> distinct (map lw_event_id rows')" by blast
  have "rows' = rows @ (new1 @ new2) \<and> lw_fact ` set (new1 @ new2) \<subseteq> set (f # fs)"
    using new1 new2 by (auto simp: image_subset_iff)
  moreover have "lw_event_id ` set rows' = lw_event_id ` set rows \<union> fa_event_id ` set (f # fs)"
    unfolding ids one(1) by auto
  ultimately show ?case using once one(2) by blast
qed auto

text \<open>An answered request was refused and left the ledger alone, or passed every check.\<close>

lemma ledger_ingest_cases:
  assumes "ledger_ingest cfg q s = (r, s')"
  obtains (refused) n where "r = Refused n" "400 \<le> n" "sv_rows s' = sv_rows s"
  | (accepted) secret raw e a d where "ic_secret cfg = Some secret" "secret \<noteq> []" "check_bearer (hr_authorization q) (ic_token cfg)"
      "verify_signature (ic_hmac cfg) (hr_body q) (hr_signature q) secret" "hr_body q = JObj raw"
      "ic_size cfg (hr_body q) \<le> INGEST_MAX_BODY_BYTES" "fst (check_protocol_version raw)"
      "envelope_from_dict (hr_fresh_batch q) raw = Inr e" "ingest_events (hr_now_ms q) (en_events e) (sv_rows s) = (a, d, sv_rows s')"
      "r = Accepted a d"
proof -
  obtain ok t where gate: "rate_allow cfg (hr_client_ip q) (hr_monotonic q) s = (ok, t)" by (cases "rate_allow cfg (hr_client_ip q) (hr_monotonic q) s")
  have rows: "sv_rows t = sv_rows s" using gate by (auto simp: rate_allow_def Let_def)
  show ?thesis
    using assms rows refused accepted
    by (auto simp: ledger_ingest_def gate ingest_body_def split: if_splits option.splits json.splits prod.splits sum.splits)
qed


section \<open>The sender, the network and the server together\<close>

datatype system_op = Enqueue int execution_fact | Deliver delivery | Request http_request

fun system_step :: "ingest_cfg \<Rightarrow> bridge_cfg \<Rightarrow> system_op \<Rightarrow> system \<Rightarrow> system" where
  "system_step cfg b (Enqueue now f) sys = (enqueue_event now f (fst sys), snd sys)"
| "system_step cfg b (Deliver d) sys = snd (deliver_outbox cfg b d sys)"
| "system_step cfg b (Request q) sys = (fst sys, snd (ledger_ingest cfg q (snd sys)))"

text \<open>What may happen: sendable facts are enqueued, deliveries meet any network, and requests of others do not carry the
  HMAC under the secret of the server.\<close>

fun admissible :: "ingest_cfg \<Rightarrow> system_op \<Rightarrow> bool" where
  "admissible cfg (Enqueue now f) \<longleftrightarrow> sendable f"
| "admissible cfg (Deliver d) \<longleftrightarrow> True"
| "admissible cfg (Request q) \<longleftrightarrow> (\<forall>secret. ic_secret cfg = Some secret \<longrightarrow> hr_signature q \<noteq> Some (ic_hmac cfg secret (hr_body q)))"

definition ident :: "outbox_row \<Rightarrow> string \<times> json" where
  "ident r = (ob_event_id r, ob_event_json r)"

definition consistent :: "system \<Rightarrow> bool" where
  "consistent sys \<longleftrightarrow>
     distinct (map ob_event_id (fst sys))
     \<and> (\<forall>x\<in>set (map ident (fst sys)). \<exists>f. sendable f \<and> x = (fa_event_id f, fact_json f))
     \<and> distinct (map lw_event_id (sv_rows (snd sys)))
     \<and> (\<forall>f\<in>lw_fact ` set (sv_rows (snd sys)). sendable f \<and> (fa_event_id f, fact_json f) \<in> set (map ident (fst sys)))
     \<and> (\<forall>r\<in>set (fst sys). \<not> is_pending r \<longrightarrow> ob_event_id r \<in> lw_event_id ` set (sv_rows (snd sys)))"

lemma ids_of_ident: "map ident rows' = map ident rows \<Longrightarrow> map ob_event_id rows' = map ob_event_id rows"
proof -
  assume "map ident rows' = map ident rows"
  then have "map (fst \<circ> ident) rows' = map (fst \<circ> ident) rows" by (metis map_map)
  then show ?thesis by (simp add: ident_def comp_def)
qed

lemma mark_failed_ident [simp]:
  "map ident (mark_failed ids err rows) = map ident rows"
  "map ob_delivered_at_ms (mark_failed ids err rows) = map ob_delivered_at_ms rows"
proof -
  have "map ident (mark_failed ids err rows) = map ident rows
    \<and> map ob_delivered_at_ms (mark_failed ids err rows) = map ob_delivered_at_ms rows"
    unfolding mark_failed_def
  proof (induction ids arbitrary: rows)
    case (Cons i ids)
    show ?case by (simp add: Cons.IH del: map_map) (simp add: comp_def ident_def if_distrib cong: if_cong)
  qed simp
  then show "map ident (mark_failed ids err rows) = map ident rows"
    "map ob_delivered_at_ms (mark_failed ids err rows) = map ob_delivered_at_ms rows" by blast+
qed

lemma mark_delivered_all:
  "mark_delivered now ids rows = map (\<lambda>r. if ob_event_id r \<in> set ids \<and> is_pending r
     then r\<lparr>ob_delivered_at_ms := Some now, ob_attempts := ob_attempts r + 1, ob_last_error := None\<rparr> else r) rows"
  unfolding mark_delivered_def
proof (induction ids arbitrary: rows)
  case (Cons i ids)
  show ?case by (simp add: Cons.IH) (auto simp: is_pending_def)
qed simp

lemma mark_delivered_ident [simp]: "map ident (mark_delivered now ids rows) = map ident rows"
  by (simp add: mark_delivered_all ident_def)

lemma settled_ids:
  "map ident rows' = map ident rows \<Longrightarrow> map ob_delivered_at_ms rows' = map ob_delivered_at_ms rows \<Longrightarrow>
    r' \<in> set rows' \<Longrightarrow> \<exists>r\<in>set rows. ident r = ident r' \<and> is_pending r = is_pending r'"
  by (induction rows' arbitrary: rows) (auto simp: is_pending_def)

lemma parse_rows_keeps:
  "parse_rows pending rows = (fs, rows') \<Longrightarrow>
    map ident rows' = map ident rows \<and> map ob_delivered_at_ms rows' = map ob_delivered_at_ms rows
    \<and> (\<forall>f\<in>set fs. \<exists>r\<in>set pending. execution_event_from_json (ob_event_json r) = Inr f)"
proof (induction pending arbitrary: rows fs rows')
  case (Cons r rs)
  then show ?case by (cases "execution_event_from_json (ob_event_json r)") (fastforce split: prod.splits)+
qed simp

lemma pending_subset: "set (pending_events n rows) \<subseteq> {r \<in> set rows. is_pending r}"
  by (auto simp: pending_events_def Let_def dest: in_set_takeD split: if_splits)

text \<open>A batch leaves the ledger alone and is not acknowledged, or the server ingested all of it.\<close>

lemma deliver_batch_cases:
  assumes "deliver_batch cfg b d events producer s = (res, s')" and "list_all sendable events"
  obtains (left_alone) "sv_rows s' = sv_rows s" "\<And>text status. res \<noteq> Inr (True, text, status)"
  | (ingested) a k where "ingest_events (dv_server_now_ms d) events (sv_rows s) = (a, k, sv_rows s')"
proof (cases "sv_rows s' = sv_rows s \<and> (\<forall>text status. res \<noteq> Inr (True, text, status))")
  case False
  obtain secret e where parts: "bc_secret b = Some secret" "secret \<noteq> []" "build_envelope b d events producer = Inr e"
    using False assms(1) by (auto simp: deliver_batch_def split: option.splits if_splits sum.splits)
  have env: "EventEnvelope e = Inr e" "en_events e = events"
    using parts(3) EventEnvelope_Inr by (fastforce simp: build_envelope_def EventEnvelope_def split: if_splits)+
  define q where "q = signed_request cfg b d secret e"
  obtain r t where run: "ledger_ingest cfg q s = (r, t)" by (cases "ledger_ingest cfg q s")
  have res: "post cfg d q s = (None, s) \<and> s' = s \<or> s' = t"
    "\<And>text status. res = Inr (True, text, status) \<Longrightarrow> dv_network d = Answered \<and> 200 \<le> http_status r \<and> http_status r < 300"
    using assms(1) parts by (auto simp: deliver_batch_def post_def run q_def [symmetric] split: network.splits)
  from run show ?thesis
  proof (cases rule: ledger_ingest_cases)
    case (refused n)
    then show ?thesis using False res left_alone by (auto simp: http_status_def)
  next
    case (accepted secret' raw e' a k)
    have raw: "envelope_json e = JObj raw" using accepted by (simp add: q_def signed_request_def Let_def)
    have "e' = e"
      using envelope_from_json [OF env(1) _ raw] assms(2) env(2) accepted by auto
    then have ing: "ingest_events (dv_server_now_ms d) events (sv_rows s) = (a, k, sv_rows t)"
      using accepted env by (simp add: q_def signed_request_def Let_def)
    have "s' = t"
      using res False assms(1) parts by (cases "dv_network d") (auto simp: deliver_batch_def post_def run q_def [symmetric])
    then show ?thesis using ing ingested by simp
  qed
qed (use left_alone in blast)

lemma consistent_grows:
  assumes old: "consistent (rows, s)" and ids: "map ident rows' = map ident rows"
    and new: "\<forall>f\<in>lw_fact ` set (sv_rows s'). f \<in> lw_fact ` set (sv_rows s) \<or> sendable f \<and> (fa_event_id f, fact_json f) \<in> set (map ident rows)"
    and once: "distinct (map lw_event_id (sv_rows s'))" and kept: "lw_event_id ` set (sv_rows s) \<subseteq> lw_event_id ` set (sv_rows s')"
    and finished: "\<forall>r\<in>set rows'. \<not> is_pending r \<longrightarrow>
      ob_event_id r \<in> lw_event_id ` set (sv_rows s') \<or> (\<exists>r0\<in>set rows. ident r0 = ident r \<and> \<not> is_pending r0)"
  shows "consistent (rows', s')"
proof -
  have sent: "\<forall>x\<in>set (map ident rows'). \<exists>f. sendable f \<and> x = (fa_event_id f, fact_json f)" and one: "distinct (map ob_event_id rows')"
    using old ids ids_of_ident [OF ids] by (simp_all add: consistent_def)
  have stored: "\<forall>f\<in>lw_fact ` set (sv_rows s'). sendable f \<and> (fa_event_id f, fact_json f) \<in> set (map ident rows')"
    unfolding ids using old new unfolding consistent_def fst_conv snd_conv by blast
  have delivered: "\<forall>r\<in>set rows'. \<not> is_pending r \<longrightarrow> ob_event_id r \<in> lw_event_id ` set (sv_rows s')"
  proof (intro ballI impI)
    fix r assume r: "r \<in> set rows'" "\<not> is_pending r"
    have "ob_event_id r0 \<in> lw_event_id ` set (sv_rows s)" if "r0 \<in> set rows" "\<not> is_pending r0" for r0
      using old that by (simp add: consistent_def)
    moreover have "ob_event_id r \<in> lw_event_id ` set (sv_rows s') \<or> (\<exists>r0\<in>set rows. ident r0 = ident r \<and> \<not> is_pending r0)"
      using finished r by blast
    ultimately show "ob_event_id r \<in> lw_event_id ` set (sv_rows s')"
      using kept unfolding ident_def prod.inject by (metis subsetD)
  qed
  show ?thesis unfolding consistent_def fst_conv snd_conv using one sent once stored delivered by blast
qed

lemma consistent_ingested:
  assumes old: "consistent (rows, s)" and ids: "map ident rows' = map ident rows"
    and ing: "ingest_events now fs (sv_rows s) = (a, k, sv_rows s')"
    and facts: "\<forall>f\<in>set fs. sendable f \<and> (fa_event_id f, fact_json f) \<in> set (map ident rows)"
    and finished: "\<forall>r\<in>set rows'. \<not> is_pending r \<longrightarrow>
      ob_event_id r \<in> fa_event_id ` set fs \<or> (\<exists>r0\<in>set rows. ident r0 = ident r \<and> \<not> is_pending r0)"
  shows "consistent (rows', s')"
proof (rule consistent_grows [OF old ids])
  note stored = ingest_events_rows [OF ing]
  obtain new where new: "sv_rows s' = sv_rows s @ new" "lw_fact ` set new \<subseteq> set fs" using stored by blast
  show "\<forall>f\<in>lw_fact ` set (sv_rows s'). f \<in> lw_fact ` set (sv_rows s) \<or> sendable f \<and> (fa_event_id f, fact_json f) \<in> set (map ident rows)"
    unfolding new(1) set_append image_Un using new(2) facts by blast
  have "distinct (map lw_event_id (sv_rows s))" using old by (simp add: consistent_def)
  then show "distinct (map lw_event_id (sv_rows s'))" using stored by simp
  show "lw_event_id ` set (sv_rows s) \<subseteq> lw_event_id ` set (sv_rows s')" using stored by simp
  have "fa_event_id ` set fs \<subseteq> lw_event_id ` set (sv_rows s')" using stored by simp
  then show "\<forall>r\<in>set rows'. \<not> is_pending r \<longrightarrow>
      ob_event_id r \<in> lw_event_id ` set (sv_rows s') \<or> (\<exists>r0\<in>set rows. ident r0 = ident r \<and> \<not> is_pending r0)"
    using finished by blast
qed

lemma consistent_enqueue: "sendable f \<Longrightarrow> consistent (rows, s) \<Longrightarrow> consistent (enqueue_event now f rows, s)"
  by (auto simp: consistent_def enqueue_event_def ident_def is_pending_def)

lemma consistent_deliver:
  assumes "consistent (rows, s)"
  shows "consistent (snd (deliver_outbox cfg b d (rows, s)))"
proof -
  define pending where "pending = pending_events (bc_batch_size b) rows"
  obtain fs rows1 where parse: "parse_rows pending rows = (fs, rows1)" by (cases "parse_rows pending rows")
  note keeps = parse_rows_keeps [OF parse]
  have old: "consistent (rows', t)" if "map ident rows' = map ident rows" "map ob_delivered_at_ms rows' = map ob_delivered_at_ms rows"
    "sv_rows t = sv_rows s" for rows' t
    using assms that(3) by (intro consistent_grows [OF assms that(1)]) (auto simp: consistent_def dest: settled_ids [OF that(1,2)])
  have facts: "sendable f \<and> (fa_event_id f, fact_json f) \<in> set (map ident rows)" if "f \<in> set fs" for f
  proof -
    have "\<exists>r\<in>set pending. execution_event_from_json (ob_event_json r) = Inr f" using keeps that by simp
    then obtain r where "r \<in> set pending" "execution_event_from_json (ob_event_json r) = Inr f" by (rule bexE)
    then have r: "r \<in> set rows" "execution_event_from_json (ob_event_json r) = Inr f"
      using pending_subset [of "bc_batch_size b" rows] by (auto simp: pending_def)
    then obtain g where "sendable g" "ident r = (fa_event_id g, fact_json g)" using assms by (fastforce simp: consistent_def)
    then show ?thesis using r by (force simp: ident_def)
  qed
  then have send: "list_all sendable fs" by (simp add: list_all_iff)
  obtain res s' where batch: "deliver_batch cfg b d fs (fa_source (hd fs)) s = (res, s')"
    by (cases "deliver_batch cfg b d fs (fa_source (hd fs)) s")
  show ?thesis
  proof (cases "pending = [] \<or> fs = []")
    case True
    then show ?thesis using old keeps assms by (auto simp: deliver_outbox_def pending_def [symmetric] Let_def parse)
  next
    case False
    from batch send show ?thesis
    proof (cases rule: deliver_batch_cases)
      case left_alone
      then show ?thesis
        using False old keeps
        by (auto simp: deliver_outbox_def pending_def [symmetric] Let_def parse batch split: sum.splits)
    next
      case (ingested a k)
      have all_facts: "\<forall>f\<in>set fs. sendable f \<and> (fa_event_id f, fact_json f) \<in> set (map ident rows)" using facts by blast
      note grown = consistent_ingested [OF assms _ ingested all_facts]
      have kept: "consistent (rows', s')"
        if m: "map ident rows' = map ident rows" "map ob_delivered_at_ms rows' = map ob_delivered_at_ms rows" for rows'
      proof (rule grown [OF m(1)], intro ballI impI disjI2)
        fix r assume "r \<in> set rows'" "\<not> is_pending r"
        with settled_ids [OF m this(1)] show "\<exists>r0\<in>set rows. ident r0 = ident r \<and> \<not> is_pending r0" by auto
      qed
      have failed: "consistent (mark_failed ids err rows1, s')" and only: "consistent (rows1, s')" for ids err
        by (simp_all add: kept keeps)
      have "consistent (mark_delivered (dv_now_ms d) (map fa_event_id fs) rows1, s')"
      proof (rule grown)
        show "map ident (mark_delivered (dv_now_ms d) (map fa_event_id fs) rows1) = map ident rows" using keeps by simp
        show "\<forall>r\<in>set (mark_delivered (dv_now_ms d) (map fa_event_id fs) rows1). \<not> is_pending r \<longrightarrow>
          ob_event_id r \<in> fa_event_id ` set fs \<or> (\<exists>r0\<in>set rows. ident r0 = ident r \<and> \<not> is_pending r0)"
          using keeps settled_ids [of rows1 rows] unfolding mark_delivered_all by auto
      qed
      with failed only show ?thesis
        using False by (auto simp: deliver_outbox_def pending_def [symmetric] Let_def parse batch split: sum.splits)
    qed
  qed
qed

lemma consistent_request:
  assumes "admissible cfg (Request q)" and "consistent (rows, s)"
  shows "consistent (rows, snd (ledger_ingest cfg q s))"
proof -
  obtain r s' where run: "ledger_ingest cfg q s = (r, s')" by (cases "ledger_ingest cfg q s")
  from run have "sv_rows s' = sv_rows s"
  proof (cases rule: ledger_ingest_cases)
    case (accepted secret raw e a d)
    then show ?thesis using assms(1) by (auto simp: verify_signature_def split: option.splits)
  qed
  then show ?thesis using assms(2) run by (simp add: consistent_def)
qed

interpretation delivered: guarded_invariant "system_step cfg b" "admissible cfg" consistent for cfg b
proof unfold_locales
  fix op sys
  assume "admissible cfg op" "consistent sys"
  then show "consistent (system_step cfg b op sys)"
    using consistent_enqueue consistent_deliver consistent_request
    by (cases op; cases sys) auto
qed

lemma enqueued_stays: "set (map ident (fst sys)) \<subseteq> set (map ident (fst (system_step cfg b op sys)))"
proof (cases op)
  case (Deliver d)
  obtain rows s where sys: "sys = (rows, s)" by (cases sys)
  obtain fs rows1 where parse: "parse_rows (pending_events (bc_batch_size b) rows) rows = (fs, rows1)"
    by (cases "parse_rows (pending_events (bc_batch_size b) rows) rows")
  have same: "map ident rows1 = map ident rows" using parse_rows_keeps [OF parse] by simp
  obtain res s' where batch: "deliver_batch cfg b d fs (fa_source (hd fs)) s = (res, s')"
    by (cases "deliver_batch cfg b d fs (fa_source (hd fs)) s")
  have "map ident (fst (snd (deliver_outbox cfg b d sys))) = map ident rows"
    using same by (simp add: deliver_outbox_def sys Let_def parse batch del: map_eq_conv split: sum.splits prod.splits)
  then show ?thesis by (simp add: Deliver sys del: set_map)
qed (auto simp: enqueue_event_def)

interpretation outbox: step_monotone "system_step cfg b" "\<lambda>sys. set (map ident (fst sys))" for cfg b
  by unfold_locales (rule enqueued_stays)

lemma run_steps_append: "run_steps step (xs @ ys) s = run_steps step ys (run_steps step xs s)"
  by (induction xs arbitrary: s) auto

lemma enqueued_kept:
  assumes "Enqueue now f \<in> set ops"
  shows "fa_event_id f \<in> ob_event_id ` set (fst (run_steps (system_step cfg b) ops sys))"
proof -
  obtain xs ys where ops: "ops = xs @ Enqueue now f # ys" using assms by (meson split_list)
  let ?mid = "system_step cfg b (Enqueue now f) (run_steps (system_step cfg b) xs sys)"
  have "fa_event_id f \<in> fst ` set (map ident (fst ?mid))" by (auto simp: enqueue_event_def ident_def image_image)
  moreover have "set (map ident (fst ?mid)) \<subseteq> set (map ident (fst (run_steps (system_step cfg b) ops sys)))"
    using outbox.run_up [of ?mid cfg b ys] by (simp add: ops run_steps_append del: system_step.simps)
  ultimately have "fa_event_id f \<in> fst ` set (map ident (fst (run_steps (system_step cfg b) ops sys)))" by blast
  then show ?thesis by (simp add: ident_def image_image)
qed


section \<open>Delivery that gets through\<close>

lemma parse_rows_all:
  "\<forall>r\<in>set pending. \<exists>f. sendable f \<and> ident r = (fa_event_id f, fact_json f) \<Longrightarrow>
    \<exists>fs. parse_rows pending rows = (fs, rows) \<and> map fa_event_id fs = map ob_event_id pending \<and> list_all sendable fs"
proof (induction pending arbitrary: rows)
  case (Cons r rs)
  obtain f where f: "sendable f" "ob_event_id r = fa_event_id f" "ob_event_json r = fact_json f"
    using Cons.prems by (auto simp: ident_def)
  obtain fs where "parse_rows rs rows = (fs, rows)" "map fa_event_id fs = map ob_event_id rs" "list_all sendable fs"
    using Cons.IH [of rows] Cons.prems by auto
  then show ?case using f by auto
qed simp

lemma filter_not_taken: "distinct (map g xs) \<Longrightarrow> filter (\<lambda>x. g x \<notin> g ` set (take n xs)) xs = drop n xs"
proof -
  assume "distinct (map g xs)"
  then have split: "distinct (map g (take n xs) @ map g (drop n xs))" by (metis append_take_drop_id map_append)
  have "filter (\<lambda>x. g x \<notin> g ` set (take n xs)) (take n xs @ drop n xs) = drop n xs"
    using split by (auto simp: filter_empty_conv filter_id_conv simp del: append_take_drop_id)
  then show ?thesis by simp
qed

lemma still_pending:
  assumes "distinct (map ob_event_id rows)"
  shows "filter is_pending (mark_delivered now (map ob_event_id (take n (filter is_pending rows))) rows) = drop n (filter is_pending rows)"
proof -
  let ?out = "ob_event_id ` set (take n (filter is_pending rows))"
  have "filter is_pending (mark_delivered now ids xs) = filter (\<lambda>r. ob_event_id r \<notin> set ids) (filter is_pending xs)" for ids xs
    unfolding mark_delivered_all by (induction xs) (auto simp: is_pending_def)
  then have "filter is_pending (mark_delivered now (map ob_event_id (take n (filter is_pending rows))) rows)
    = filter (\<lambda>r. ob_event_id r \<notin> ?out) (filter is_pending rows)" by simp
  also have "\<dots> = drop n (filter is_pending rows)" using assms by (intro filter_not_taken) (simp add: distinct_map_filter)
  finally show ?thesis .
qed

lemma show_int_nonempty: "show_int k \<noteq> []"
proof
  assume "show_int k = []"
  moreover have "parse_int [] = None" by code_simp
  ultimately show False using parse_int_show_int [of k] by simp
qed

text \<open>What the server needs to take a request of this sender.\<close>

definition agreed :: "ingest_cfg \<Rightarrow> bridge_cfg \<Rightarrow> bool" where
  "agreed cfg b \<longleftrightarrow> bc_secret b = ic_secret cfg \<and> ic_secret cfg \<notin> {None, Some []} \<and> ic_token cfg = Some (bc_token b) \<and> bc_token b \<noteq> []"

lemma agreed_batch:
  assumes "agreed cfg b" and "list_all sendable fs" and "fs \<noteq> []" and "dv_network d = Answered"
    and "\<And>v. ic_size cfg v \<le> 1000000" and "\<And>k v. ic_hmac cfg k v \<noteq> []"
    and "fst (rate_allow cfg (bc_client_ip b) (dv_monotonic d) s)"
  shows "\<exists>text s'. deliver_batch cfg b d fs (fa_source (hd fs)) s = (Inr (True, text, 200), s')"
proof -
  obtain secret where secret: "bc_secret b = Some secret" "ic_secret cfg = Some secret" "secret \<noteq> []" "ic_token cfg = Some (bc_token b)" "bc_token b \<noteq> []"
    using assms(1) by (auto simp: agreed_def)
  have "sendable (hd fs)" using assms(2,3) by (cases fs) auto
  then have source: "fa_source (hd fs) \<in> set VALID_SOURCES" by (auto simp: sendable_def ExecutionEvent_def split: if_splits)
  obtain e where e: "build_envelope b d fs (fa_source (hd fs)) = Inr e" "EventEnvelope e = Inr e" "en_events e = fs"
    using source assms(3) by (simp add: build_envelope_def EventEnvelope_def)
  obtain raw where raw: "envelope_json e = JObj raw" by (simp add: envelope_json_def)
  have read: "check_protocol_version raw = (True, [], 1)" "envelope_from_dict [] raw = Inr e"
    using envelope_from_json [OF e(2) _ raw] e(3) assms(2) by simp_all
  let ?q = "signed_request cfg b d secret e"
  have "\<exists>k m s'. ledger_ingest cfg ?q s = (Accepted k m, s')"
    using assms(5-7) secret raw read
    by (cases "rate_allow cfg (bc_client_ip b) (dv_monotonic d) s")
       (auto simp: ledger_ingest_def signed_request_def Let_def check_bearer_def verify_signature_def or_str_def show_int_nonempty
          INGEST_MAX_BODY_BYTES_def ingest_body_def not_less split: prod.splits)
  then obtain k m s' where "ledger_ingest cfg ?q s = (Accepted k m, s')" by blast
  then show ?thesis using secret e assms(4) by (simp add: deliver_batch_def post_def http_status_def)
qed


section \<open>The stream\<close>

lemma inserted_all: "length (foldr (insert_by le) xs []) = length xs \<and> set (foldr (insert_by le) xs []) = set xs"
proof -
  have one: "length (insert_by le x ys) = Suc (length ys) \<and> set (insert_by le x ys) = insert x (set ys)" for x ys
    by (induction ys) auto
  show ?thesis by (induction xs) (simp_all add: one)
qed

lemma unrestricted: "query_match (no_query\<lparr>eq_since_ms := Some t, eq_limit := n\<rparr>) = (\<lambda>r. t \<le> lw_received_at_utc_ms r)"
  by (rule ext) (simp add: query_match_def no_query_def admits_def)


section \<open>Witnesses\<close>

definition demo_fact :: "string \<Rightarrow> execution_fact" where
  "demo_fact event_id = \<lparr>fa_event_id = event_id, fa_event_type = ''request_result'', fa_source = ''mt5_python_sender'',
     fa_account_mode = ''demo'', fa_precision = ''request'', fa_broker_symbol = ''GOLD'', fa_received_at_utc_ms = 1000,
     fa_details = [(''retcode'', JInt 10009)]\<rparr>"

definition demo_ingest :: ingest_cfg where
  "demo_ingest = \<lparr>ic_secret = Some ''key'', ic_token = Some ''token'', ic_rate = 5, ic_burst = 10,
     ic_hmac = (\<lambda>key body. CHR ''h'' # key @ (case body of JObj d \<Rightarrow> concat (map fst d) | _ \<Rightarrow> [])), ic_size = (\<lambda>_. 400), ic_text = (\<lambda>_. ''{}'')\<rparr>"

definition demo_bridge :: bridge_cfg where
  "demo_bridge = \<lparr>bc_token = ''token'', bc_secret = Some ''key'', bc_account_mode = ''demo'', bc_account_login = ''7'',
     bc_client_ip = ''10.0.0.1'', bc_batch_size = 50\<rparr>"

definition demo_delivery :: "network \<Rightarrow> delivery" where
  "demo_delivery n = \<lparr>dv_network = n, dv_now_ms = 1100, dv_server_now_ms = 1200, dv_monotonic = 3, dv_batch_id = ''batch''\<rparr>"

definition demo_server :: ingest_server where
  "demo_server = \<lparr>sv_rows = [], sv_buckets = [], sv_rejected_versions = 0\<rparr>"

definition demo_envelope :: envelope where
  "demo_envelope = \<lparr>en_producer = ''mt5_python_sender'', en_account_fingerprint = ''demo:7'', en_batch_id = ''batch'',
     en_sent_at_utc_ms = 1100, en_events = [demo_fact ''fact 1'', demo_fact ''fact 2'']\<rparr>"

definition demo_request :: http_request where
  "demo_request = signed_request demo_ingest demo_bridge (demo_delivery Answered) ''key'' demo_envelope"

definition demo_ops :: "system_op list" where
  "demo_ops = [Enqueue 1000 (demo_fact ''fact 1''), Deliver (demo_delivery AnswerLost), Enqueue 1050 (demo_fact ''fact 2''),
     Enqueue 1060 (demo_fact ''fact 1''), Deliver (demo_delivery Answered), Deliver (demo_delivery RequestLost)]"

lemma demo_facts_sendable: "sendable (demo_fact ''fact 1'')" "sendable (demo_fact ''fact 2'')"
  by code_simp+


lemma demo_request_stored: "map (fa_event_id \<circ> lw_fact) (sv_rows (snd (ledger_ingest demo_ingest demo_request demo_server))) = [''fact 1'', ''fact 2'']"
  by code_simp


lemma demo_run_stored:
  "map (fa_event_id \<circ> lw_fact) (sv_rows (snd (run_steps (system_step demo_ingest demo_bridge) demo_ops ([], demo_server)))) = [''fact 1'', ''fact 2'']"
  by code_simp


definition demo_rows :: "ledger_row list" where
  "demo_rows = map (\<lambda>n. \<lparr>lw_fact = demo_fact (replicate n CHR ''x''), lw_signature_valid = True, lw_received_at_utc_ms = 1200\<rparr>) [1..<302]"



end
