(* ===== verification/Signal_Lifecycle.thy ===== *)
theory Signal_Lifecycle
  imports Event_Ledger
begin

text \<open>
  The lifecycle of a signal over the event ledger, \<^verbatim>\<open>data/signal_lifecycle.py\<close>: the state of a signal is
  the last one that a row of the signal carries, and a transition is an append that its table admits. The guarantee is
  on every history of transitions and of other appends.
\<close>

section \<open>States\<close>

definition TRANSITIONS :: "string option \<Rightarrow> string list" where
  "TRANSITIONS state = get_or [] (map_of
     [(None, [''watch'', ''no_trade'']), (Some ''watch'', [''armed'', ''rejected'', ''expired'']),
      (Some ''armed'', [''confirmed'', ''rejected'', ''expired'']), (Some ''confirmed'', []), (Some ''rejected'', []),
      (Some ''expired'', []), (Some ''no_trade'', [])] state)"

definition EVENT_FOR_STATE :: "(string \<times> string) list" where
  "EVENT_FOR_STATE = [(''watch'', ''signal_created''), (''armed'', ''signal_armed''), (''confirmed'', ''signal_confirmed''),
     (''rejected'', ''signal_rejected''), (''expired'', ''signal_expired''), (''no_trade'', ''signal_created'')]"

text \<open>\<^verbatim>\<open>payload.get("state")\<close> of a row, when it is true. A state that is no text has no transition and makes the caller
  fail; a payload that is no object has no \<^verbatim>\<open>get\<close>.\<close>

fun state_of_payload :: "json \<Rightarrow> string option result" where
  "state_of_payload (JObj d) =
     (case map_of d ''state'' of
        None \<Rightarrow> Inr None
      | Some (JStr s) \<Rightarrow> Inr (if s = [] then None else Some s)
      | Some v \<Rightarrow> if v \<in> {JNull, JBool False, JInt 0, JFloat 0, JList [], JObj []} then Inr None else Inl (ValueError ''state''))"
| "state_of_payload _ = Inl (ValueError ''payload'')"

text \<open>The rows from the last to the first.\<close>

fun first_state :: "event_row list \<Rightarrow> string option result" where
  "first_state [] = Inr None"
| "first_state (r # rs) =
     rbind (state_of_payload (ev_payload r)) (\<lambda>s. case s of Some x \<Rightarrow> Inr (Some x) | None \<Rightarrow> first_state rs)"

definition latest_signal_state :: "ledger \<Rightarrow> string \<Rightarrow> string option result" where
  "latest_signal_state rows signal_id = first_state (rev (read_trading_events rows (Some signal_id)))"

text \<open>The arguments carry the signal, the payload and the hashes; their event type is replaced.\<close>

definition transition_signal ::
  "(json \<Rightarrow> string) \<Rightarrow> int \<Rightarrow> string \<Rightarrow> string \<Rightarrow> event_args \<Rightarrow> (ledger, string) comp" where
  "transition_signal sha recorded uuid new_state a rows =
     (case latest_signal_state rows (ea_signal_id a) of
        Inl err \<Rightarrow> (Inl err, rows)
      | Inr current \<Rightarrow>
          if new_state \<notin> set (TRANSITIONS current) then (Inl (ValueError ''invalid signal transition''), rows)
          else case map_of EVENT_FOR_STATE new_state of
            None \<Rightarrow> (Inl (KeyError new_state), rows)
          | Some event_type \<Rightarrow>
              append_trading_event sha recorded uuid
                (a\<lparr>ea_event_type := event_type, ea_payload := dict_put ''state'' (JStr new_state) (ea_payload a)\<rparr>) rows)"

section \<open>Histories\<close>

text \<open>A transition, or an append of another component, with the clock reading and the fresh id.\<close>

datatype signal_op = Transition int string string event_args | Record int string event_args

fun signal_step :: "(json \<Rightarrow> string) \<Rightarrow> signal_op \<Rightarrow> ledger \<Rightarrow> ledger" where
  "signal_step sha (Transition t u s a) rows = snd (transition_signal sha t u s a rows)"
| "signal_step sha (Record t u a) rows = snd (append_trading_event sha t u a rows)"

text \<open>Other components record no state of a signal.\<close>

fun stateless :: "signal_op \<Rightarrow> bool" where
  "stateless (Transition t u s a) \<longleftrightarrow> True"
| "stateless (Record t u a) \<longleftrightarrow> map_of (ea_payload a) ''state'' = None"

definition states_of :: "string \<Rightarrow> ledger \<Rightarrow> string list" where
  "states_of signal_id rows =
     concat (map (\<lambda>r. case state_of_payload (ev_payload r) of Inr (Some s) \<Rightarrow> [s] | _ \<Rightarrow> []) (filter (\<lambda>r. ev_signal_id r = signal_id) rows))"

definition lifecycles :: "string list list" where
  "lifecycles = [[], [''no_trade''], [''watch''], [''watch'', ''rejected''], [''watch'', ''expired''], [''watch'', ''armed''],
     [''watch'', ''armed'', ''confirmed''], [''watch'', ''armed'', ''rejected''], [''watch'', ''armed'', ''expired'']]"

definition readable :: "event_row \<Rightarrow> bool" where
  "readable r \<longleftrightarrow> (\<exists>s. state_of_payload (ev_payload r) = Inr s)"

definition signal_inv :: "(json \<Rightarrow> string) \<Rightarrow> string \<Rightarrow> ledger \<Rightarrow> bool" where
  "signal_inv sha signal_id rows \<longleftrightarrow>
     ledger_inv sha rows \<and> list_all readable rows \<and> states_of signal_id rows \<in> set lifecycles"

lemma states_of_snoc:
  "states_of signal_id (rows @ [r]) = states_of signal_id rows
     @ (if ev_signal_id r = signal_id then (case state_of_payload (ev_payload r) of Inr (Some s) \<Rightarrow> [s] | _ \<Rightarrow> []) else [])"
  by (simp add: states_of_def)

lemma first_state_rev:
  assumes "list_all readable rows"
  shows "first_state (rev (filter (\<lambda>r. ev_signal_id r = signal_id) rows))
    = Inr (if states_of signal_id rows = [] then None else Some (last (states_of signal_id rows)))"
  using assms
proof (induction rows rule: rev_induct)
  case (snoc r rows)
  then obtain s where "state_of_payload (ev_payload r) = Inr s" by (auto simp: readable_def)
  then show ?case using snoc by (cases s) (auto simp: states_of_snoc)
qed (simp add: states_of_def)

lemma latest_is_last:
  assumes "ledger_inv sha rows" and "list_all readable rows" and "signal_id \<noteq> []"
  shows "latest_signal_state rows signal_id
    = Inr (if states_of signal_id rows = [] then None else Some (last (states_of signal_id rows)))"
proof -
  have "by_sequence (filter (\<lambda>r. ev_signal_id r = signal_id) rows) = filter (\<lambda>r. ev_signal_id r = signal_id) rows"
    using assms(1) by (simp add: by_sequence_def ledger_inv_def contiguous_def flip: filter_sort)
       (metis by_sequence_def contiguous_by_sequence contiguous_def)
  then show ?thesis
    using first_state_rev [OF assms(2)] assms(3) by (simp add: latest_signal_state_def read_trading_events_def)
qed

lemma lifecycle_extends:
  assumes "ss \<in> set lifecycles" and "s \<in> set (TRANSITIONS (if ss = [] then None else Some (last ss)))"
  shows "ss @ [s] \<in> set lifecycles"
proof -
  have "list_all (\<lambda>ss. list_all (\<lambda>s. ss @ [s] \<in> set lifecycles) (TRANSITIONS (if ss = [] then None else Some (last ss)))) lifecycles"
    by code_simp
  then show ?thesis using assms by (auto simp: list_all_iff)
qed

lemma append_extends:
  "(\<exists>u. snd (append_trading_event sha t uuid a rows) = rows @ [new_row sha t u a (prior_row rows)])
   \<or> snd (append_trading_event sha t uuid a rows) = rows"
  using append_cases [of sha t uuid a rows] by auto

lemma signal_inv_step:
  assumes "signal_id \<noteq> []" and "stateless op" and inv: "signal_inv sha signal_id rows"
  shows "signal_inv sha signal_id (signal_step sha op rows)"
proof (cases op)
  case (Record t u a)
  have "ledger_inv sha (signal_step sha op rows)"
    using keepsD [OF append_keeps_ledger_inv] inv by (simp add: Record signal_inv_def)
  moreover have "signal_step sha op rows = rows \<or> (\<exists>v. signal_step sha op rows = rows @ [new_row sha t v a (prior_row rows)])"
    using append_extends [of sha t u a rows] by (auto simp: Record)
  ultimately show ?thesis
    using inv assms(2) by (auto simp: signal_inv_def states_of_snoc readable_def Record)
next
  case (Transition t u s a)
  have "ledger_inv sha rows" "list_all readable rows" and path: "states_of signal_id rows \<in> set lifecycles"
    using inv by (simp_all add: signal_inv_def)
  show ?thesis
  proof (cases "signal_step sha op rows = rows")
    case False
    then obtain current e where now: "latest_signal_state rows (ea_signal_id a) = Inr current" "s \<in> set (TRANSITIONS current)"
      and run: "signal_step sha op rows = snd (append_trading_event sha t u
        (a\<lparr>ea_event_type := e, ea_payload := dict_put ''state'' (JStr s) (ea_payload a)\<rparr>) rows)"
      by (auto simp: Transition transition_signal_def split: sum.splits option.splits if_splits)
    let ?a = "a\<lparr>ea_event_type := e, ea_payload := dict_put ''state'' (JStr s) (ea_payload a)\<rparr>"
    obtain v where rows': "signal_step sha op rows = rows @ [new_row sha t v ?a (prior_row rows)]"
      using append_extends [of sha t u ?a rows] False run by auto
    have kept: "ledger_inv sha (signal_step sha op rows)"
      unfolding run by (rule keepsD [OF append_keeps_ledger_inv]) (use inv in \<open>simp add: signal_inv_def\<close>)
    have "s \<noteq> []" using now(2) by (auto simp: TRANSITIONS_def get_or_def split: if_splits)
    then have payload: "state_of_payload (JObj (ea_payload ?a)) = Inr (Some s)" by simp
    have "states_of signal_id (signal_step sha op rows) \<in> set lifecycles"
    proof (cases "ea_signal_id a = signal_id")
      case True
      then have "current = (if states_of signal_id rows = [] then None else Some (last (states_of signal_id rows)))"
        using latest_is_last [of sha rows signal_id] inv now(1) assms(1) by (simp add: signal_inv_def)
      then show ?thesis
        using lifecycle_extends [OF path, of s] now(2) payload True unfolding rows' states_of_snoc by simp
    qed (use path rows' in \<open>simp add: states_of_snoc\<close>)
    then show ?thesis
      using kept inv payload rows' by (auto simp: signal_inv_def readable_def)
  qed (use inv in simp)
qed

interpretation signal_history: guarded_invariant "signal_step sha" stateless "\<lambda>rows. signal_id \<noteq> [] \<longrightarrow> signal_inv sha signal_id rows" for sha signal_id
  by unfold_locales (auto intro: signal_inv_step)


definition demo_signal_ops :: "signal_op list" where
  "demo_signal_ops = [Transition 1000 ''a'' ''watch'' demo_event, Record 1100 ''b'' demo_event, Transition 1200 ''c'' ''confirmed'' demo_event,
     Transition 1300 ''d'' ''armed'' demo_event, Transition 1400 ''e'' ''expired'' demo_event, Transition 1500 ''f'' ''confirmed'' demo_event]"

text \<open>A digest that tells the rows of one ledger apart.\<close>

definition sequence_sha :: "json \<Rightarrow> string" where
  "sequence_sha j = (case j of JObj d \<Rightarrow> (case map_of d ''sequence'' of Some (JInt n) \<Rightarrow> show_int n | _ \<Rightarrow> []) | _ \<Rightarrow> [])"

lemma demo_signal_run:
  "states_of ''s1'' (run_steps (signal_step sequence_sha) demo_signal_ops []) = [''watch'', ''armed'', ''expired'']"
  by code_simp


end
