(* ===== verification/Spec2Isabelle.thy ===== *)
theory Spec2Isabelle
  imports Trade_Geometry MT5_Faults MT5_Guarantees Ohlcv Risk_Engine Sim_Clock Trader_Witnesses
    Walk_Forward Fact_Guarantees Signal_Lifecycle
begin

text \<open>
  \<^bold>\<open>Verification of the execution core of the XAUUSD alert system.\<close>

  \<^bold>\<open>The program.\<close> A signal becomes a trade group: one immutable specification with a stop and three
  targets. \<^verbatim>\<open>execution/trade_geometry.py\<close> computes the levels, volumes and risk of the group,
  \<^verbatim>\<open>execution/trade_group.py\<close> holds the contract and the table of lifecycle transitions,
  \<^verbatim>\<open>data/trade_group_store.py\<close> and \<^verbatim>\<open>data/trading_event_ledger.py\<close> keep the groups and the
  hash-chained history of events, and \<^verbatim>\<open>execution/trade_group_executor.py\<close> moves groups through
  their lifecycle over a driver. \<^verbatim>\<open>execution/mt5_trade_group.py\<close> with its helpers does the same against a
  MetaTrader demo account: it polls the broker, confirms every transition there, protects, compensates and
  recovers. Entries are admitted by the risk package \<^verbatim>\<open>risk/\<close>: the daily
  throttle, the daily limits, the order-rate window and the drawdown floor. The market used to rehearse
  all this is the limit order book, the bar aggregator, the event clock and the simulated terminal of
  \<^verbatim>\<open>simulation/\<close>. Beside the groups runs the live trader of \<^verbatim>\<open>execution/mt5_trader.py\<close>: it turns a confirmed
  signal into up to three market orders with one stop and three targets, moves the stops as the price goes on,
  closes in steps, notices closed positions and feeds their results to the throttle, and is switched off by
  blackout windows and by the deployment mode. The facts it observes travel from an outbox
  (\<^verbatim>\<open>data/ledger_bridge.py\<close>) in signed envelopes to the ledger of the server (\<^verbatim>\<open>realtime/app.py\<close>,
  \<^verbatim>\<open>data/ledger_events.py\<close>). The models behind the signals are trained on labels
  (\<^verbatim>\<open>labeling/label_generator.py\<close>) and judged on rolling windows (\<^verbatim>\<open>backtest/walk_forward.py\<close>).

  \<^bold>\<open>The library.\<close>
  \<^item> \<open>Py_Prelude\<close>: exceptions as values (\<open>pyexc\<close>, \<open>result\<close>), methods that change state and may raise as
    state-passing computations \<open>('s, 'a) comp\<close> (what was written before an exception stays written),
    their rules \<open>wp\<close> and \<open>keeps\<close>, JSON values, and the locales \<open>guarded_invariant\<close>, \<open>step_invariant\<close> and
    \<open>step_monotone\<close> for runs of operations.
  \<^item> \<open>Py_Float\<close>: Python floats and decimals as rationals, every arithmetic operation rounded to binary64
    (or 28 digits) half to even; locale \<open>rounding\<close> collects what the order proofs need of a rounding.
  \<^item> \<open>Trade_Group\<close>: \<^verbatim>\<open>execution/trade_group.py\<close>; the lifecycle table, the validators, the geometry
    and provenance hashes over canonical JSON, the actual fill and the volume allocator.
  \<^item> \<open>Trade_Geometry\<close>: \<^verbatim>\<open>execution/trade_geometry.py\<close>; \<open>calculate_geometry\<close> with every rejection, the
    break-even levels and the bridge from a signal to a validated specification.
  \<^item> \<open>Event_Ledger\<close>, \<open>Group_Store\<close>: the append-only ledger with its chain verification (locale
    \<open>hash_chain\<close>: equal heads give equal histories), and the two tables of the group store.
  \<^item> \<open>Exec_World\<close>, \<open>Group_Executor\<close>: the store, ledger and driver an executor works on, the paper driver
    and every executor method for an arbitrary driver. The locale \<open>gated_driver\<close> states what an
    executor promises of its driver, \<open>sl_driver\<close> what break-even confirmation needs of it; both are
    interpreted on \<open>paper_ops\<close>.
  \<^item> \<open>MT5_Context\<close>, \<open>MT5_Drivers\<close>: the terminal as a record of calls \<open>mt5_api\<close>, the broker context and the
    intent (\<^verbatim>\<open>execution/mt5_common.py\<close>, \<^verbatim>\<open>execution/execution_intent.py\<close>), and the hedging and netting drivers.
    \<open>Virtual_Terminal\<close>: \<^verbatim>\<open>simulation/virtual_state.py\<close> and the package stand-in, an instance of \<open>mt5_api\<close>.
  \<^item> \<open>MT5_Executor\<close>, \<open>MT5_Flows\<close>: \<^verbatim>\<open>execution/mt5_trade_group.py\<close> with reconciliation, target transitions,
    break-even, compensation and netting closes, composed in \<open>advance_group\<close> and \<open>poll_once\<close> as in the code.
    \<open>MT5_Lifecycle\<close> shows how each method moves a stored state (\<open>silent\<close>, \<open>moves\<close>) and, in the locale
    \<open>world_invariant\<close>, that what the single writes keep every call keeps; it is interpreted for the ledger and
    for marked actions. \<open>MT5_Safety\<close> and \<open>MT5_Faults\<close> hold the theorems on it.
  \<^item> \<open>Trade_Throttle\<close>, \<open>Risk_State\<close>, \<open>Risk_Engine\<close>: the package \<^verbatim>\<open>risk/\<close>; the locale \<open>rate_gate\<close> is the
    contract of a sliding window, interpreted on the order-rate throttle.
  \<^item> \<open>Order_Book\<close>, \<open>Ohlcv\<close>, \<open>Sim_Clock\<close>: the matching engine, the bar aggregator and the event clock.
  \<^item> \<open>Signal_Grid\<close>: \<^verbatim>\<open>get_signal_grid\<close> of \<^verbatim>\<open>config/loader.py\<close>, the layers of multipliers. \<open>Exec_Contracts\<close>:
    \<^verbatim>\<open>contracts/execution_contracts.py\<close>, protocol version, event ids, intents and facts.
  \<^item> \<open>Trader_State\<close>: the state of the live trader, its terminal \<open>trader_api\<close>, the deployment modes
    (\<^verbatim>\<open>config/deployment.py\<close>), the files it keeps, its ledger events and its start. \<open>Trader_Blackout\<close>,
    \<open>Trader_Sizing\<close>: the halt windows; stops, targets and volumes.
    \<open>Trader_Management\<close>: one open position (early break-even, leg break-even, profit trail, partial closes, runner
    trail). \<open>Trader_Close\<close>: the close detector and \<open>check_and_move_breakeven\<close>. \<open>Trader_Entry\<close>: the gates of a
    signal, with the throttle and limits of \<open>Risk_Engine\<close>. \<open>Trader_Orders\<close>: the levels, the three legs, \<open>execute_signal\<close>, the
    flattening of a halt and one pass of the loop.
  \<^item> \<open>Trader_Frames\<close>: the locales \<open>reading\<close>, \<open>asking\<close>, \<open>gating\<close>, \<open>managing\<close>, \<open>recording\<close>, \<open>trading\<close> and \<open>running\<close> say,
    for ever larger parts of the trader, which single writes a property must survive to survive the whole
    part; \<open>Trader_Guarantees\<close>, \<open>Trader_Tracking\<close> and \<open>Trader_Permission\<close> interpret them (requests sent, tickets
    tracked and reported, the volume in use) and prove the theorems on the trader, \<open>Trader_Witnesses\<close> applies them.
  \<^item> \<open>Fact_Delivery\<close>: facts and envelopes as JSON, intents, the outbox and its delivery over a network that may lose
    requests and answers, the ingest endpoint and the queries and stream of the server ledger. \<open>Fact_Guarantees\<close>: sender,
    network and server as one system, an interpretation of \<open>guarded_invariant\<close> and of \<open>step_monotone\<close>.
  \<^item> \<open>Signal_Lifecycle\<close>: \<^verbatim>\<open>data/signal_lifecycle.py\<close>, the states of a signal as rows of the event ledger.
  \<^item> \<open>Labels\<close>: \<^verbatim>\<open>labeling/label_generator.py\<close> on frames that are lists of rows. \<open>Label_Rules\<close>: the locale
    \<open>label_rule\<close>, a label that reads a bounded number of rows ahead, interpreted on the barrier labels, the traded labels and
    the configured label. \<open>Walk_Forward\<close>: \<^verbatim>\<open>backtest/walk_forward.py\<close>; the loop over the windows is a partial
    function, \<open>None\<close> when it runs forever.

  \<^bold>\<open>What the theorems show.\<close> The lifecycle: a reconciled group went through every milestone, a failure
  after a partial submission was compensated, every state can reach a terminal one. The geometry: what is
  accepted is ordered, aligned to the tick, beyond the broker's minimum distance and within the risk caps
  through every rounding; what cannot be checked is rejected. The hashes bind what they name. The ledger
  verifies, and its head fixes its history. The executor refuses live groups, follows the transition table
  with any driver, submits once and confirms break-even only with every stop in place, within a bounded
  number of retries. The demo executor follows the table with any terminal, driver and notifier, keeps the
  ledger verifiable and submits once; five theorems show where its polls get stuck or overwrite what they
  recorded. The risk gates hold for the day and across restarts. Matching ends, keeps the book
  well formed and uncrossed and conserves volume; the aggregator computes the bars of its definition; the
  clock fires each due event once, in order. The live trader sends only requests of its own and none in a dry
  run, enters only with every permission, reports every closed position once, resumes its trades after a
  restart, never moves a stop away by a break-even, and halts in exactly the configured windows. Facts are stored once and as sent whatever the
  network does, only with a valid signature, and an answered delivery empties the outbox by one batch. A
  signal's recorded states are a path of its lifecycle. A label is decided by the first touch, the windows end, and
  on bars without gaps a purged training label cannot see the test window. Some theorems record behaviour that departs from what the
  comments of the code say; each says so in its text.

  \<^bold>\<open>Bounds and fuel.\<close> The matching loop runs with the number of resting orders plus one as fuel and the
  advance loop of the clock with the number of due events plus one; the theorems on them show that this
  is enough. Floats are finite: overflow, infinities and NaN are outside the model. A call of the risk
  package reads the clock once; an executor call reads it from a stream, one position per reading. A
  digest is a parameter, and where a theorem needs it, that the payloads it compares do not collide is a
  hypothesis.

  \<^bold>\<open>Not modelled.\<close> The MetaTrader terminal itself (a parameter). Of the live trader: the generation of signals and the
  close series behind its correlation matrix (pandas pipelines, parameters), the observer facts and trade-log
  tables it writes on the side, log suffixes and the contract-size warning; the loop is modelled pass by
  pass. Of the fact delivery: HTTP and JSON text (a body is its value, an omitted field absent) and the execution quality
  report. Telegram and the other web endpoints, model training, feature computation and backtest engines over numpy and pandas,
  data feeds, schema migrations and the scripts around them: they are input and output, or statistics without exact
  semantics. Of the modelled files, audit copies that swallow their errors, log messages, metrics and the
  texts of notifications are left out.
\<close>

end
